(* ===== verification/Py_Values.thy ===== *)
theory Py_Values
  imports Aib_Prelude
begin

text \<open>
  The values the sources compute with once a YAML or JSON document is loaded, the exceptions they
  raise, and the operations of the language on them: dictionaries in insertion order, truth
  values, \<open>==\<close> across the numeric types, and the exception classes of \<open>src/aib/exceptions.py\<close>
  with their messages.  A document is a tree: objects that a YAML alias would share are copies.
  Dictionary keys are strings, which the JSON schemas of the manifests and policies require.
\<close>

section \<open>Values\<close>

text \<open>\<open>PyFloat m e\<close> is the float \<open>m * 2 ^ e\<close>.\<close>

datatype pyval =
    PyNone
  | PyBool bool
  | PyInt int
  | PyFloat int int
  | PyStr string
  | PyList "pyval list"
  | PyDict "(string \<times> pyval) list"

type_synonym dict = "(string \<times> pyval) list"

fun is_dict :: "pyval \<Rightarrow> bool" where
  "is_dict (PyDict d) = True"
| "is_dict v = False"

fun is_list :: "pyval \<Rightarrow> bool" where
  "is_list (PyList xs) = True"
| "is_list v = False"

text \<open>Python's truth value of an object.\<close>

fun py_truthy :: "pyval \<Rightarrow> bool" where
  "py_truthy PyNone = False"
| "py_truthy (PyBool b) = b"
| "py_truthy (PyInt i) = (i \<noteq> 0)"
| "py_truthy (PyFloat m e) = (m \<noteq> 0)"
| "py_truthy (PyStr s) = (s \<noteq> [])"
| "py_truthy (PyList xs) = (xs \<noteq> [])"
| "py_truthy (PyDict d) = (d \<noteq> [])"

section \<open>Dictionaries\<close>

text \<open>
  A dictionary is the list of its items in insertion order: assignment to a present key keeps its
  place, a new key goes to the end.
\<close>

definition dict_get :: "dict \<Rightarrow> string \<Rightarrow> pyval option" where
  "dict_get d k = map_of d k"

definition dict_keys :: "dict \<Rightarrow> string list" where
  "dict_keys d = map fst d"

fun dict_set :: "dict \<Rightarrow> string \<Rightarrow> pyval \<Rightarrow> dict" where
  "dict_set [] k v = [(k, v)]"
| "dict_set ((k', v') # d) k v = (if k' = k then (k, v) # d else (k', v') # dict_set d k v)"

definition dict_del :: "dict \<Rightarrow> string \<Rightarrow> dict" where
  "dict_del d k = filter (\<lambda>(k', v). k' \<noteq> k) d"

definition dict_update :: "dict \<Rightarrow> dict \<Rightarrow> dict" where
  "dict_update d e = fold (\<lambda>(k, v) d. dict_set d k v) e d"

text \<open>\<open>d.get(k, default)\<close>.\<close>

definition dict_get_or :: "dict \<Rightarrow> string \<Rightarrow> pyval \<Rightarrow> pyval" where
  "dict_get_or d k v = (case dict_get d k of None \<Rightarrow> v | Some w \<Rightarrow> w)"

text \<open>Every dictionary has distinct keys.\<close>

definition wf_dict :: "dict \<Rightarrow> bool" where
  "wf_dict d \<longleftrightarrow> distinct (map fst d)"

lemma dict_get_Nil [simp]: "dict_get [] k = None"
  by (simp add: dict_get_def)

lemma dict_get_Cons [simp]: "dict_get ((k', v) # d) k = (if k' = k then Some v else dict_get d k)"
  by (simp add: dict_get_def)

lemma dict_get_set [simp]: "dict_get (dict_set d k v) k' = (if k' = k then Some v else dict_get d k')"
  by (induction d k v rule: dict_set.induct) auto

lemma dict_get_None_iff: "dict_get d k = None \<longleftrightarrow> k \<notin> fst ` set d"
  by (simp add: dict_get_def map_of_eq_None_iff)

lemma dict_set_keys: "fst ` set (dict_set d k v) = insert k (fst ` set d)"
  by (induction d k v rule: dict_set.induct) auto

lemma wf_dict_Nil [simp]: "wf_dict []"
  by (simp add: wf_dict_def)

lemma dict_set_fresh: "k \<notin> fst ` set d \<Longrightarrow> dict_set d k v = d @ [(k, v)]"
  by (induction d k v rule: dict_set.induct) auto

lemma wf_dict_set [simp, intro]: "wf_dict d \<Longrightarrow> wf_dict (dict_set d k v)"
  unfolding wf_dict_def
  by (induction d k v rule: dict_set.induct) (auto, metis dict_set_keys imageI fst_conv insertE)

lemma dict_get_del [simp]: "dict_get (dict_del d k) k' = (if k' = k then None else dict_get d k')"
  by (induction d) (auto simp: dict_del_def)

lemma dict_get_filter:
  "dict_get (filter (\<lambda>(k, v). P k) d) k = (if P k then dict_get d k else None)"
  by (induction d) auto

lemma wf_dict_filter [simp]: "wf_dict d \<Longrightarrow> wf_dict (filter P d)"
  by (simp add: wf_dict_def distinct_map_filter)

lemma dict_get_in: "dict_get d k = Some v \<Longrightarrow> (k, v) \<in> set d"
  by (simp add: dict_get_def map_of_SomeD)

lemma dict_get_mem: "wf_dict d \<Longrightarrow> (k, v) \<in> set d \<Longrightarrow> dict_get d k = Some v"
  by (simp add: dict_get_def wf_dict_def)

section \<open>Stores of definitions\<close>

text \<open>
  What a client of a dictionary of definitions relies on: a lookup after an update.  The facts
  about sequences of updates are proved from these laws alone.
\<close>

locale define_store =
  fixes look :: "'d \<Rightarrow> 'k \<Rightarrow> 'v option"
    and upd :: "'d \<Rightarrow> 'k \<Rightarrow> 'v \<Rightarrow> 'd"
  assumes look_upd: "look (upd d k v) k' = (if k' = k then Some v else look d k')"
begin

definition upds :: "'d \<Rightarrow> ('k \<times> 'v) list \<Rightarrow> 'd" where
  "upds d kvs = fold (\<lambda>(k, v) d. upd d k v) kvs d"

lemma look_upds:
  "look (upds d kvs) k = (case map_of (rev kvs) k of Some v \<Rightarrow> Some v | None \<Rightarrow> look d k)"
proof (induction kvs rule: rev_induct)
  case Nil
  then show ?case by (simp add: upds_def)
next
  case (snoc kv kvs)
  then show ?case by (cases kv) (simp add: upds_def look_upd)
qed

lemma look_upds_frame: "k \<notin> fst ` set kvs \<Longrightarrow> look (upds d kvs) k = look d k"
  by (simp add: look_upds map_of_eq_None_iff [THEN iffD2] split: option.split)

lemma look_upds_last: "look (upds d (kvs @ [(k, v)])) k = Some v"
  by (simp add: look_upds)

lemma look_upds_append: "look (upds d (xs @ ys)) k = look (upds (upds d xs) ys) k"
  by (simp add: upds_def)

lemma look_upds_written: "(k, v) \<in> set kvs \<Longrightarrow> distinct (map fst kvs) \<Longrightarrow> look (upds d kvs) k = Some v"
  by (simp add: look_upds rev_map [symmetric] map_of_rev_distinct)

end

interpretation defs: define_store dict_get dict_set
  by unfold_locales simp

lemma dict_update_upds: "dict_update d e = defs.upds d e"
  by (simp add: dict_update_def defs.upds_def)

lemma dict_get_update:
  "wf_dict e \<Longrightarrow> dict_get (dict_update d e) k = (case dict_get e k of Some v \<Rightarrow> Some v | None \<Rightarrow> dict_get d k)"
  unfolding dict_update_upds defs.look_upds wf_dict_def
  by (simp add: map_of_rev_distinct dict_get_def)

lemma wf_dict_update [simp]: "wf_dict d \<Longrightarrow> wf_dict (dict_update d e)"
  unfolding dict_update_def
  by (induction e arbitrary: d) auto

section \<open>Equality and membership\<close>

text \<open>The number a value denotes in comparisons: booleans are the integers 0 and 1.\<close>

fun py_num :: "pyval \<Rightarrow> (int \<times> int) option" where
  "py_num (PyBool b) = Some (if b then 1 else 0, 0)"
| "py_num (PyInt i) = Some (i, 0)"
| "py_num (PyFloat m e) = Some (m, e)"
| "py_num v = None"

text \<open>Both mantissas brought to the smaller exponent.\<close>

definition num_align :: "int \<times> int \<Rightarrow> int \<times> int \<Rightarrow> int \<times> int" where
  "num_align x y = (let e = min (snd x) (snd y) in
     (fst x * 2 ^ nat (snd x - e), fst y * 2 ^ nat (snd y - e)))"

definition num_eq :: "int \<times> int \<Rightarrow> int \<times> int \<Rightarrow> bool" where
  "num_eq x y = (case num_align x y of (a, b) \<Rightarrow> a = b)"

definition num_le :: "int \<times> int \<Rightarrow> int \<times> int \<Rightarrow> bool" where
  "num_le x y = (case num_align x y of (a, b) \<Rightarrow> a \<le> b)"

text \<open>Python's \<open>==\<close>: dictionaries compare without regard to the order of the items.\<close>

fun py_eq :: "pyval \<Rightarrow> pyval \<Rightarrow> bool" and py_eq_list :: "pyval list \<Rightarrow> pyval list \<Rightarrow> bool"
  and py_eq_items :: "(string \<times> pyval) list \<Rightarrow> dict \<Rightarrow> bool" where
  "py_eq (PyStr s) (PyStr t) = (s = t)"
| "py_eq (PyList xs) (PyList ys) = py_eq_list xs ys"
| "py_eq (PyDict d) (PyDict e) = (length d = length e \<and> py_eq_items d e)"
| "py_eq PyNone PyNone = True"
| "py_eq v w = (case (py_num v, py_num w) of (Some x, Some y) \<Rightarrow> num_eq x y | _ \<Rightarrow> False)"
| "py_eq_list [] ys = (ys = [])"
| "py_eq_list (x # xs) ys = (case ys of [] \<Rightarrow> False | y # zs \<Rightarrow> py_eq x y \<and> py_eq_list xs zs)"
| "py_eq_items [] e = True"
| "py_eq_items ((k, v) # d) e = ((case dict_get e k of None \<Rightarrow> False | Some w \<Rightarrow> py_eq v w) \<and> py_eq_items d e)"

definition py_in :: "pyval \<Rightarrow> pyval list \<Rightarrow> bool" where
  "py_in v xs = list_ex (py_eq v) xs"

lemma py_eq_Str [simp]: "py_eq v (PyStr s) \<longleftrightarrow> v = PyStr s"
  by (cases v) auto

lemma py_in_Str: "py_in v (map PyStr ss) \<longleftrightarrow> (\<exists>s \<in> set ss. v = PyStr s)"
  by (auto simp: py_in_def list_ex_iff)

section \<open>Exceptions\<close>

text \<open>
  The exceptions the modelled code raises: the built-in ones (\<open>Errno\<close> is an \<open>OSError\<close> whose number is looked at), the cache miss of
  \<open>fscache\<close>, then the classes of
  \<open>src/aib/exceptions.py\<close> with the fields their constructors take, then those of
  \<open>src/aib/policy.py\<close>.
\<close>

datatype (plugins only: code) exn =
    Key_Error | Type_Error | Value_Error | Attribute_Error | Index_Error | Runtime_Error string
  | Zero_Division_Error | Recursion_Error | Overflow_Error | Struct_Error | Assertion_Error | Unbound_Local_Error
  | OS_Error | Errno string | Cache_Miss | File_Not_Found_Error | Called_Process_Error | Argument_Type_Error string
  | Keyboard_Interrupt | Sys_Exit int | YAML_Error string
  | AIB_Exception string
  | Invalid_Option string string
  | Missing_Section string
  | Define_File_Error string
  | Manifest_Parse_Error string "string option"
  | Simple_Manifest_Parse_Error string "string list"
  | Unsupported_Export string
  | Invalid_Mount_Size string
  | Invalid_Mount_Rel_Size string
  | No_Matching_Files_Error string
  | Too_Many_Files_Error string nat int
  | Missing_Log_File
  | Invalid_Top_Level_Path string "string list" "string list" string
  | Container_Not_Found string
  | Build_Container_Not_Found string string
  | Incompatible_Options string string "string option"
  | Invalid_Build_Dir
  | Unknown_Signature_Type string
  | Podman_Command_Failed string string
  | Unsupported_Image_Type string
  | Initramfs_Not_Found string
  | Not_Build_By_Etag
  | Policy_Error string
  | Policy_Validation_Error string

type_synonym 'a res = "exn + 'a"

text \<open>The subclasses of \<open>AIBException\<close>; the two policy exceptions are not among them.\<close>

fun is_aib_exception :: "exn \<Rightarrow> bool" where
  "is_aib_exception (AIB_Exception m) = True"
| "is_aib_exception (Invalid_Option a b) = True"
| "is_aib_exception (Missing_Section a) = True"
| "is_aib_exception (Define_File_Error a) = True"
| "is_aib_exception (Manifest_Parse_Error a b) = True"
| "is_aib_exception (Simple_Manifest_Parse_Error a b) = True"
| "is_aib_exception (Unsupported_Export a) = True"
| "is_aib_exception (Invalid_Mount_Size a) = True"
| "is_aib_exception (Invalid_Mount_Rel_Size a) = True"
| "is_aib_exception (No_Matching_Files_Error a) = True"
| "is_aib_exception (Too_Many_Files_Error a b c) = True"
| "is_aib_exception Missing_Log_File = True"
| "is_aib_exception (Invalid_Top_Level_Path a b c d) = True"
| "is_aib_exception (Container_Not_Found a) = True"
| "is_aib_exception (Build_Container_Not_Found a b) = True"
| "is_aib_exception (Incompatible_Options a b c) = True"
| "is_aib_exception Invalid_Build_Dir = True"
| "is_aib_exception (Unknown_Signature_Type a) = True"
| "is_aib_exception (Podman_Command_Failed a b) = True"
| "is_aib_exception (Unsupported_Image_Type a) = True"
| "is_aib_exception (Initramfs_Not_Found a) = True"
| "is_aib_exception Not_Build_By_Etag = True"
| "is_aib_exception e = False"

text \<open>The \<open>__str__\<close> methods of the classes.\<close>

fun exn_message :: "exn \<Rightarrow> string option" where
  "exn_message (AIB_Exception m) = Some m"
| "exn_message (Invalid_Option opt val) =
     Some (''Invalid value passed to '' @ opt @ '': '' @ [CHR 0x27] @ val @ [CHR 0x27] @ '': should be key=value'')"
| "exn_message (Missing_Section sec) = Some (''No '' @ sec @ '' section in manifest'')"
| "exn_message (Define_File_Error m) = Some m"
| "exn_message (Manifest_Parse_Error m cause) =
     Some (''Error parsing '' @ m @ (case cause of None \<Rightarrow> [] | Some c \<Rightarrow> '': '' @ c))"
| "exn_message (Simple_Manifest_Parse_Error m errs) =
     Some (''Error parsing '' @ m @ '':'' @ [CHR 0x0A] @ '' '' @ py_join ([CHR 0x0A] @ '' '') errs)"
| "exn_message (Unsupported_Export e) = Some (''Unsupported export '' @ [CHR 0x27] @ e @ [CHR 0x27])"
| "exn_message (Invalid_Mount_Size m) = Some (m @ '' can'' @ [CHR 0x27] @ ''t be larger than image'')"
| "exn_message (Invalid_Mount_Rel_Size m) =
     Some (''Invalid relative size for '' @ m @ '', must be between 0 and 1'')"
| "exn_message (No_Matching_Files_Error g) = Some (''No files matched glob pattern: '' @ g)"
| "exn_message (Too_Many_Files_Error g n m) =
     Some (''Glob pattern '' @ [CHR 0x27] @ g @ [CHR 0x27] @ '' matched '' @ dec_nat n @ '' files, '' @
       ''but max_files limit is '' @ dec_int m @ ''. Consider using more specific '' @
       ''patterns or increase max_files if needed.'')"
| "exn_message Missing_Log_File = Some ''Log file must be specified when progress monitoring is enabled''"
| "exn_message (Invalid_Top_Level_Path p allowed disallowed op) =
     Some (''Path '' @ [CHR 0x27] @ p @ [CHR 0x27] @ '' is not allowed for '' @ op @ ''. '' @
       ''Files and directories must be under one of: '' @ py_join '', '' allowed @ '', '' @
       ''but not under '' @ py_join '', '' disallowed)"
| "exn_message (Container_Not_Found c) =
     Some (''Source bootc image '' @ [CHR 0x27] @ c @ [CHR 0x27] @ '' isn'' @ [CHR 0x27] @ ''t in local container store'')"
| "exn_message (Build_Container_Not_Found b d) =
     Some (''Build container '' @ b @ '' isn'' @ [CHR 0x27] @ ''t in local container store'' @ [CHR 0x0A] @
       ''Either specify another one with --build-container, or create it using:'' @ [CHR 0x0A] @
       ''  aib build-builder --distro '' @ d)"
| "exn_message (Incompatible_Options a b reason) =
     Some (a @ '' is incompatible with '' @ b @ (case reason of None \<Rightarrow> [] | Some r \<Rightarrow> if r = [] then [] else '': '' @ r))"
| "exn_message Invalid_Build_Dir = Some ''No build dir specified, refusing to download to temporary directory''"
| "exn_message (Unknown_Signature_Type t) = Some (''Unknown signature type '' @ t)"
| "exn_message (Podman_Command_Failed c m) =
     Some (''Failed to run '' @ [CHR 0x27] @ c @ [CHR 0x27] @ (if m = [] then [] else '': '' @ m))"
| "exn_message (Unsupported_Image_Type t) = Some (''Unknown bootc-image-builder type '' @ t)"
| "exn_message (Initramfs_Not_Found c) =
     Some (''Can'' @ [CHR 0x27] @ ''t find initramfs in bootc image '' @ [CHR 0x27] @ c @ [CHR 0x27])"
| "exn_message Not_Build_By_Etag = Some ''Image was already built, skipping''"
| "exn_message (Policy_Error m) = Some m"
| "exn_message (Policy_Validation_Error m) = Some m"
| "exn_message e = None"

text \<open>Subscription \<open>d[k]\<close> of any value: a missing key and a value that is no dictionary.\<close>

fun py_item :: "pyval \<Rightarrow> string \<Rightarrow> pyval res" where
  "py_item (PyDict d) k = (case dict_get d k of None \<Rightarrow> Inl Key_Error | Some v \<Rightarrow> Inr v)"
| "py_item v k = Inl Type_Error"

end
