(* ===== verification/Os_Path.thy ===== *)
theory Os_Path
  imports Py_Values
begin

text \<open>
  The functions of Python's \<open>os.path\<close> (POSIX) that the sources call, and the facts about them
  that the components use: \<open>normpath\<close> is idempotent, and an absolute normal path has no empty,
  \<open>.\<close> or \<open>..\<close> component.
\<close>

abbreviation slash :: char where "slash \<equiv> CHR ''/''"

definition path_isabs :: "string \<Rightarrow> bool" where
  "path_isabs p \<longleftrightarrow> starts_with p ''/''"

definition path_join :: "string \<Rightarrow> string \<Rightarrow> string" where
  "path_join a b =
     (if path_isabs b then b
      else if a = [] \<or> ends_with a ''/'' then a @ b
      else a @ ''/'' @ b)"

text \<open>The part after the last slash, and the part up to and including it.\<close>

definition path_basename :: "string \<Rightarrow> string" where
  "path_basename p = rev (takeWhile (\<lambda>c. c \<noteq> slash) (rev p))"

definition path_head :: "string \<Rightarrow> string" where
  "path_head p = rev (dropWhile (\<lambda>c. c \<noteq> slash) (rev p))"

definition path_dirname :: "string \<Rightarrow> string" where
  "path_dirname p =
     (let h = path_head p in if \<forall>c \<in> set h. c = slash then h else rstrip_char slash h)"

text \<open>\<open>normpath\<close>: the loop over the components keeps the result so far in reverse.\<close>

definition norm_step :: "bool \<Rightarrow> string \<Rightarrow> string list \<Rightarrow> string list" where
  "norm_step rooted c st =
     (if c = [] \<or> c = ''.'' then st
      else if c \<noteq> ''..'' \<or> (\<not> rooted \<and> st = []) \<or> (st \<noteq> [] \<and> hd st = ''..'') then c # st
      else tl st)"

definition norm_comps :: "bool \<Rightarrow> string list \<Rightarrow> string list" where
  "norm_comps rooted cs = rev (fold (norm_step rooted) cs [])"

definition initial_slashes :: "string \<Rightarrow> string" where
  "initial_slashes p =
     (if starts_with p ''//'' \<and> \<not> starts_with p ''///'' then ''//''
      else if starts_with p ''/'' then ''/'' else [])"

definition path_normpath :: "string \<Rightarrow> string" where
  "path_normpath p =
     (if p = [] then ''.''
      else let root = initial_slashes p;
               r = root @ py_join ''/'' (norm_comps (root \<noteq> []) (py_split ''/'' p))
           in if r = [] then ''.'' else r)"

definition path_abspath :: "string \<Rightarrow> string \<Rightarrow> string" where
  "path_abspath cwd p = path_normpath (if path_isabs p then p else path_join cwd p)"

definition path_parts :: "string \<Rightarrow> string list" where
  "path_parts p = filter (\<lambda>c. c \<noteq> []) (py_split ''/'' p)"

fun common_length :: "string list \<Rightarrow> string list \<Rightarrow> nat" where
  "common_length (x # xs) (y # ys) = (if x = y then Suc (common_length xs ys) else 0)"
| "common_length xs ys = 0"

definition path_relpath :: "string \<Rightarrow> string \<Rightarrow> string \<Rightarrow> string res" where
  "path_relpath cwd p start =
     (if p = [] then Inl Value_Error
      else let start_list = path_parts (path_abspath cwd start);
               path_list = path_parts (path_abspath cwd p);
               i = common_length start_list path_list;
               rel = replicate (length start_list - i) ''..'' @ drop i path_list
           in Inr (if rel = [] then ''.'' else py_join ''/'' rel))"

text \<open>\<open>splitext\<close>: leading dots of the file name do not start an extension.\<close>

definition path_splitext :: "string \<Rightarrow> string \<times> string" where
  "path_splitext p =
     (let base = path_basename p; ext = rev (takeWhile (\<lambda>c. c \<noteq> CHR ''.'') (rev base));
          stem = take (length base - length ext - 1) base
      in if CHR ''.'' \<in> set base \<and> (\<exists>c \<in> set stem. c \<noteq> CHR ''.'')
         then (path_head p @ stem, CHR ''.'' # ext) else (p, []))"

section \<open>Normal paths\<close>

text \<open>A component that is neither empty nor a dot entry.\<close>

definition plain_comp :: "string \<Rightarrow> bool" where
  "plain_comp c \<longleftrightarrow> c \<noteq> [] \<and> c \<noteq> ''.'' \<and> c \<noteq> ''..''"

text \<open>The stack of the loop: plain components, above leading \<open>..\<close> entries of a relative path.\<close>

definition norm_stack :: "bool \<Rightarrow> string list \<Rightarrow> bool" where
  "norm_stack rooted st \<longleftrightarrow>
     (\<exists>k xs. st = xs @ replicate k ''..'' \<and> (\<forall>x \<in> set xs. plain_comp x) \<and> (rooted \<longrightarrow> k = 0))"

lemma norm_stackI:
  "st = xs @ replicate k ''..'' \<Longrightarrow> \<forall>x \<in> set xs. plain_comp x \<Longrightarrow> rooted \<longrightarrow> k = 0 \<Longrightarrow> norm_stack rooted st"
  by (auto simp: norm_stack_def)

lemma norm_step_stack:
  assumes "norm_stack rooted st"
  shows "norm_stack rooted (norm_step rooted c st)"
proof -
  obtain k xs where st: "st = xs @ replicate k ''..''" and xs: "\<forall>x \<in> set xs. plain_comp x"
    and k: "rooted \<longrightarrow> k = 0"
    using assms by (auto simp: norm_stack_def)
  consider (skip) "c = [] \<or> c = ''.''" | (plain) "plain_comp c" | (up) "c = ''..''"
    by (auto simp: plain_comp_def)
  then show ?thesis
  proof cases
    case skip
    then show ?thesis using assms by (auto simp: norm_step_def)
  next
    case plain
    then have "norm_step rooted c st = (c # xs) @ replicate k ''..''"
      by (simp add: norm_step_def plain_comp_def st)
    then show ?thesis by (rule norm_stackI) (use plain xs k in auto)
  next
    case up
    show ?thesis
    proof (cases xs)
      case Nil
      have "norm_step rooted c st = [] @ replicate (if rooted then 0 else Suc k) ''..''"
        using up k by (cases k) (auto simp: norm_step_def st Nil)
      then show ?thesis by (rule norm_stackI) auto
    next
      case (Cons x ys)
      then have "norm_step rooted c st = ys @ replicate k ''..''"
        using up xs by (auto simp: norm_step_def st plain_comp_def)
      then show ?thesis by (rule norm_stackI) (use xs k Cons in auto)
    qed
  qed
qed

lemma norm_fold_stack: "norm_stack rooted st \<Longrightarrow> norm_stack rooted (fold (norm_step rooted) cs st)"
  by (induction cs arbitrary: st) (auto simp: norm_step_stack)

lemma norm_comps_shape:
  "\<exists>k xs. norm_comps rooted cs = replicate k ''..'' @ xs \<and> (\<forall>x \<in> set xs. plain_comp x) \<and> (rooted \<longrightarrow> k = 0)"
proof -
  have "norm_stack rooted []" by (rule norm_stackI [of _ "[]" 0]) auto
  then have "norm_stack rooted (fold (norm_step rooted) cs [])" by (rule norm_fold_stack)
  then obtain k xs where "fold (norm_step rooted) cs [] = xs @ replicate k ''..''"
    "\<forall>x \<in> set xs. plain_comp x" "rooted \<longrightarrow> k = 0"
    by (auto simp: norm_stack_def)
  then show ?thesis
    by (intro exI [of _ k] exI [of _ "rev xs"]) (simp add: norm_comps_def)
qed

lemma norm_comps_rooted_plain: "x \<in> set (norm_comps True cs) \<Longrightarrow> plain_comp x"
  using norm_comps_shape [of True cs] by auto

lemma fold_norm_plain:
  "\<forall>x \<in> set xs. plain_comp x \<Longrightarrow> fold (norm_step rooted) xs st = rev xs @ st"
  by (induction xs arbitrary: st) (auto simp: norm_step_def plain_comp_def)

lemma fold_norm_dotdot:
  "\<not> rooted \<Longrightarrow> fold (norm_step rooted) (replicate k ''..'') (replicate j ''..'') = replicate (k + j) ''..''"
proof (induction k arbitrary: j)
  case 0
  then show ?case by simp
next
  case (Suc k)
  have "norm_step rooted ''..'' (replicate j ''..'') = replicate (Suc j) ''..''"
    using Suc.prems by (cases j) (auto simp: norm_step_def)
  then show ?case using Suc.IH [OF Suc.prems, of "Suc j"] by simp
qed

lemma norm_comps_idem: "norm_comps rooted (norm_comps rooted cs) = norm_comps rooted cs"
proof -
  obtain k xs where eq: "norm_comps rooted cs = replicate k ''..'' @ xs"
    and xs: "\<forall>x \<in> set xs. plain_comp x" and k: "rooted \<longrightarrow> k = 0"
    using norm_comps_shape [of rooted cs] by auto
  have "fold (norm_step rooted) (replicate k ''..'') [] = replicate k ''..''"
    using k fold_norm_dotdot [of rooted k 0] by (cases rooted) auto
  then have "norm_comps rooted (replicate k ''..'' @ xs) = replicate k ''..'' @ xs"
    by (simp add: norm_comps_def fold_norm_plain [OF xs])
  then show ?thesis unfolding eq .
qed

lemma norm_comps_skip: "norm_comps rooted ([] # cs) = norm_comps rooted cs"
  by (simp add: norm_comps_def norm_step_def)

lemma norm_comps_subset: "set (norm_comps rooted cs) \<subseteq> set cs"
proof -
  have "set (fold (norm_step rooted) cs st) \<subseteq> set cs \<union> set st" for st
  proof (induction cs arbitrary: st)
    case Nil
    then show ?case by simp
  next
    case (Cons c cs)
    have "set (norm_step rooted c st) \<subseteq> insert c (set st)"
      by (cases st) (auto simp: norm_step_def)
    then show ?case using Cons.IH [of "norm_step rooted c st"] by auto
  qed
  from this [of "[]"] show ?thesis by (simp add: norm_comps_def)
qed

lemma norm_comps_no_slash: "x \<in> set (norm_comps rooted (py_split ''/'' p)) \<Longrightarrow> slash \<notin> set x"
  using norm_comps_subset py_split_char_pieces by blast

lemma norm_comps_nonempty_comp: "x \<in> set (norm_comps rooted cs) \<Longrightarrow> x \<noteq> []"
proof -
  assume x: "x \<in> set (norm_comps rooted cs)"
  obtain k xs where eq: "norm_comps rooted cs = replicate k ''..'' @ xs"
    and xs: "\<forall>x \<in> set xs. plain_comp x"
    using norm_comps_shape [of rooted cs] by blast
  from x have "x = ''..'' \<or> x \<in> set xs" unfolding eq by auto
  then show "x \<noteq> []" using xs by (auto simp: plain_comp_def)
qed

lemma py_split_join_norm:
  assumes ne: "norm_comps rooted (py_split ''/'' p) \<noteq> []"
  shows "py_split ''/'' (py_join ''/'' (norm_comps rooted (py_split ''/'' p))) =
    norm_comps rooted (py_split ''/'' p)"
proof -
  have "\<forall>x \<in> set (norm_comps rooted (py_split ''/'' p)). slash \<notin> set x"
    by (intro ballI) (rule norm_comps_no_slash)
  with ne show ?thesis by (rule py_split_join_char)
qed

lemma py_join_first: "xs \<noteq> [] \<Longrightarrow> hd xs = c # cs \<Longrightarrow> \<exists>r. py_join sep xs = c # r"
  by (cases "(sep, xs)" rule: py_join.cases) auto

lemma py_split_slash_Cons [simp]: "py_split ''/'' (slash # p) = [] # py_split ''/'' p"
  using py_split_char_Cons [of slash "[]" p] by simp

lemma initial_slashes_cases:
  "(initial_slashes p = [] \<and> \<not> starts_with p ''/'') \<or> (initial_slashes p = ''/'' \<and> starts_with p ''/'') \<or>
   initial_slashes p = ''//''"
  by (simp add: initial_slashes_def)

lemma norm_join_no_slash:
  "\<not> starts_with (py_join ''/'' (norm_comps rooted (py_split ''/'' p))) ''/''"
proof (cases "norm_comps rooted (py_split ''/'' p)")
  case Nil
  then show ?thesis by simp
next
  case (Cons x xs)
  then have "x \<noteq> []" "slash \<notin> set x"
    using norm_comps_nonempty_comp norm_comps_no_slash by (metis list.set_intros(1))+
  then obtain c cs where "x = c # cs" "c \<noteq> slash" by (cases x) auto
  with Cons show ?thesis using py_join_first [of "x # xs" c cs "''/''"] by auto
qed

lemma path_normpath_idem: "path_normpath (path_normpath p) = path_normpath p"
proof (cases "p = []")
  case True
  show ?thesis unfolding True by code_simp
next
  case False
  define root where "root = initial_slashes p"
  define cs where "cs = norm_comps (root \<noteq> []) (py_split ''/'' p)"
  define j where "j = py_join ''/'' cs"
  have norm: "path_normpath p = (if root @ j = [] then ''.'' else root @ j)"
    using False by (simp only: path_normpath_def root_def cs_def j_def Let_def if_False)
  have j_slash: "\<not> starts_with j ''/''"
    by (simp add: j_def cs_def norm_join_no_slash)
  have j_split: "norm_comps (root \<noteq> []) (py_split ''/'' j) = cs"
  proof (cases "cs = []")
    case True
    then show ?thesis
      by (simp add: j_def py_split_char_fresh norm_comps_def norm_step_def)
  next
    case nonempty: False
    then have "py_split ''/'' j = cs"
      by (simp add: j_def cs_def py_split_join_norm)
    then show ?thesis by (simp add: cs_def norm_comps_idem)
  qed
  show ?thesis
  proof (cases "root @ j = []")
    case True
    then show ?thesis unfolding norm by simp code_simp
  next
    case nonempty: False
    have j_slash2: "\<not> starts_with j ''//''" using j_slash by (cases j) auto
    have root': "initial_slashes (root @ j) = root"
      using j_slash j_slash2 initial_slashes_cases [of p]
      by (elim disjE) (auto simp: root_def initial_slashes_def)
    have "norm_comps (root \<noteq> []) (py_split ''/'' (root @ j)) = cs"
      using j_split initial_slashes_cases [of p]
      by (elim disjE) (auto simp: root_def norm_comps_skip)
    then have "path_normpath (root @ j) = root @ j"
      using nonempty by (simp only: path_normpath_def root' Let_def if_False) (simp add: j_def)
    then show ?thesis unfolding norm if_not_P [OF nonempty] .
  qed
qed

lemma path_normpath_isabs:
  assumes "path_isabs p"
  shows "path_isabs (path_normpath p)"
proof -
  have "p \<noteq> []" using assms by (auto simp: path_isabs_def)
  moreover have "initial_slashes p = ''/'' \<or> initial_slashes p = ''//''"
    using assms by (auto simp: initial_slashes_def path_isabs_def)
  ultimately show ?thesis
    by (auto simp: path_normpath_def path_isabs_def Let_def)
qed

lemma path_parts_normpath_plain:
  assumes "path_isabs p" and "c \<in> set (path_parts (path_normpath p))"
  shows "plain_comp c"
proof -
  have p: "p \<noteq> []" using assms(1) by (auto simp: path_isabs_def)
  define root where "root = initial_slashes p"
  define cs where "cs = norm_comps True (py_split ''/'' p)"
  have root: "root = ''/'' \<or> root = ''//''"
    using assms(1) by (auto simp: root_def initial_slashes_def path_isabs_def)
  then have "path_normpath p = root @ py_join ''/'' cs"
    using p by (auto simp: path_normpath_def root_def cs_def Let_def)
  then have "c \<in> set (path_parts (py_join ''/'' cs))"
    using assms(2) root by (auto simp: path_parts_def)
  then have "c \<in> set cs"
    by (cases "cs = []")
      (auto simp: path_parts_def cs_def py_split_join_norm py_split_char_fresh)
  then show ?thesis using norm_comps_rooted_plain by (simp add: cs_def)
qed

section \<open>Absolute paths by their components\<close>

definition abs_path :: "string list \<Rightarrow> string" where
  "abs_path cs = slash # py_join ''/'' cs"

definition comps_ok :: "string list \<Rightarrow> bool" where
  "comps_ok cs \<longleftrightarrow> list_all (\<lambda>c. plain_comp c \<and> slash \<notin> set c) cs"

lemma comps_ok_append [simp]: "comps_ok (xs @ ys) \<longleftrightarrow> comps_ok xs \<and> comps_ok ys"
  by (simp add: comps_ok_def)

lemma comps_ok_Cons [simp]: "comps_ok (x # xs) \<longleftrightarrow> plain_comp x \<and> slash \<notin> set x \<and> comps_ok xs"
  by (simp add: comps_ok_def)

lemma comps_ok_Nil [simp]: "comps_ok []"
  by (simp add: comps_ok_def)

lemma py_join_append:
  "xs \<noteq> [] \<Longrightarrow> ys \<noteq> [] \<Longrightarrow> py_join sep (xs @ ys) = py_join sep xs @ sep @ py_join sep ys"
proof (induction sep xs rule: py_join.induct)
  case (2 sep x)
  then show ?case by (cases ys) auto
qed auto

lemma split_join_comps: "comps_ok cs \<Longrightarrow> cs \<noteq> [] \<Longrightarrow> py_split ''/'' (py_join ''/'' cs) = cs"
  by (rule py_split_join_char) (auto simp: comps_ok_def list_all_iff)

lemma join_comps_first:
  "comps_ok cs \<Longrightarrow> cs \<noteq> [] \<Longrightarrow> \<exists>c r. py_join ''/'' cs = c # r \<and> c \<noteq> slash"
proof -
  assume cs: "comps_ok cs" "cs \<noteq> []"
  then obtain c r where "hd cs = c # r" "c \<noteq> slash"
    by (cases cs; cases "hd cs") (auto simp: plain_comp_def)
  then show ?thesis using py_join_first [of cs c r "''/''"] cs by auto
qed

lemma norm_comps_plain: "comps_ok cs \<Longrightarrow> norm_comps rooted cs = cs"
  unfolding norm_comps_def by (subst fold_norm_plain) (auto simp: comps_ok_def list_all_iff)

lemma abs_path_isabs [simp]: "path_isabs (abs_path cs)"
  by (simp add: path_isabs_def abs_path_def)

lemma join_comps_not_abs: "comps_ok cs \<Longrightarrow> \<not> path_isabs (py_join ''/'' cs)"
  using join_comps_first [of cs] by (cases "cs = []") (auto simp: path_isabs_def)

lemma norm_abs_path [simp]: "comps_ok cs \<Longrightarrow> path_normpath (abs_path cs) = abs_path cs"
proof -
  assume cs: "comps_ok cs"
  have "\<not> starts_with (py_join ''/'' cs) ''/''"
    using join_comps_not_abs [OF cs] by (simp add: path_isabs_def)
  then have root: "initial_slashes (abs_path cs) = ''/''"
    by (cases "py_join ''/'' cs") (auto simp: initial_slashes_def abs_path_def)
  have "norm_comps True (py_split ''/'' (abs_path cs)) = cs"
    using cs by (cases "cs = []")
      (simp_all add: abs_path_def norm_comps_skip split_join_comps norm_comps_plain py_split_char_fresh)
  then show ?thesis
    by (simp add: path_normpath_def root Let_def) (simp add: abs_path_def)
qed

lemma parts_abs_path [simp]: "comps_ok cs \<Longrightarrow> path_parts (abs_path cs) = cs"
  by (cases "cs = []")
    (auto simp: path_parts_def abs_path_def split_join_comps py_split_char_fresh comps_ok_def
      list_all_iff plain_comp_def filter_id_conv)

lemma join_ends_slash:
  "comps_ok cs \<Longrightarrow> cs \<noteq> [] \<Longrightarrow> \<not> ends_with (py_join ''/'' cs) ''/''"
proof (induction "''/''" cs rule: py_join.induct)
  case (2 x)
  then show ?case by (auto simp: plain_comp_def ends_with_def suffix_def)
next
  case (3 x y zs)
  then have ne: "py_join ''/'' (y # zs) \<noteq> []" using join_comps_first [of "y # zs"] by auto
  have "ends_with (x @ ''/'' @ py_join ''/'' (y # zs)) ''/'' \<Longrightarrow> ends_with (py_join ''/'' (y # zs)) ''/''"
    using ne by (auto simp: ends_with_def suffix_def append_eq_append_conv2 append_eq_Cons_conv Cons_eq_append_conv)
  then show ?case using 3 by auto
qed simp

lemma join_abs_path:
  assumes "comps_ok ds" "comps_ok rs" "rs \<noteq> []"
  shows "path_join (abs_path ds) (py_join ''/'' rs) = abs_path (ds @ rs)"
proof (cases "ds = []")
  case True
  then show ?thesis
    using join_comps_not_abs [OF assms(2)] by (simp add: path_join_def abs_path_def ends_with_rev)
next
  case False
  have "\<not> ends_with (abs_path ds) ''/''"
    using join_ends_slash [OF assms(1) False] join_comps_first [OF assms(1) False]
    by (auto simp: abs_path_def ends_with_def suffix_Cons)
  then show ?thesis
    using join_comps_not_abs [OF assms(2)] assms(3) False
    by (simp add: path_join_def abs_path_def py_join_append)
qed

lemma common_length_append [simp]: "common_length xs (xs @ ys) = length xs"
  by (induction xs) auto

lemma relpath_abs_path:
  assumes "comps_ok bs" "comps_ok rs" "rs \<noteq> []"
  shows "path_relpath cwd (abs_path (bs @ rs)) (abs_path bs) = Inr (py_join ''/'' rs)"
proof -
  have "abs_path (bs @ rs) \<noteq> []" by (simp add: abs_path_def)
  then show ?thesis using assms by (simp add: path_relpath_def path_abspath_def Let_def)
qed

lemma basename_abs_path:
  assumes "comps_ok cs" "cs \<noteq> []"
  shows "path_basename (abs_path cs) = last cs"
proof -
  have "\<exists>pre. abs_path cs = pre @ slash # last cs"
  proof (cases "butlast cs = []")
    case True
    then have "cs = [last cs]" using assms(2) by (metis append_Nil append_butlast_last_id)
    then have "abs_path cs = [] @ slash # last cs" by (metis abs_path_def append_Nil py_join.simps(2))
    then show ?thesis by blast
  next
    case False
    have "py_join ''/'' (butlast cs @ [last cs]) = py_join ''/'' (butlast cs) @ ''/'' @ last cs"
      using False by (subst py_join_append) auto
    then have "abs_path cs = (slash # py_join ''/'' (butlast cs)) @ slash # last cs"
      using assms(2) by (simp add: abs_path_def)
    then show ?thesis by blast
  qed
  then obtain pre where pre: "abs_path cs = pre @ slash # last cs" by blast
  have "slash \<notin> set (last cs)" using assms by (auto simp: comps_ok_def list_all_iff)
  then have "takeWhile (\<lambda>c. c \<noteq> slash) (rev (last cs) @ slash # rev pre) = rev (last cs)"
    by (intro takeWhile_append_stop) auto
  then show ?thesis
    unfolding path_basename_def pre by simp
qed

lemma abs_path_below:
  "rs \<noteq> [] \<Longrightarrow> ds \<noteq> [] \<Longrightarrow> starts_with (abs_path (ds @ rs)) (abs_path ds @ ''/'')"
  by (simp add: abs_path_def py_join_append)

end
