(* ===== verification/Content.thy ===== *)
theory Content
  imports Os_Path
begin

text \<open>
  The content sections of a simple manifest (\<open>src/aib/simple.py\<close>): the path rules
  (\<open>ValidatedPathOperation\<close>, \<open>Contents.validate_paths\<close>), the file inputs shared by the partitions
  (\<open>ExtraInclude\<close>, with its glob expansion), and the defines a section sets
  (\<open>Contents.set_defines\<close>, \<open>QMContents\<close>).  The globbing of the file system and \<open>isfile\<close> are
  parameters.  Log messages are not modelled.
\<close>

section \<open>Values of a manifest\<close>

fun as_str :: "exn \<Rightarrow> pyval \<Rightarrow> string res" where
  "as_str e (PyStr s) = Inr s"
| "as_str e v = Inl e"

text \<open>Iterating a value: the schema makes every iterated value of a manifest a list.\<close>

fun py_iter :: "pyval \<Rightarrow> pyval list res" where
  "py_iter (PyList xs) = Inr xs"
| "py_iter (PyDict d) = Inr (map (\<lambda>(k, v). PyStr k) d)"
| "py_iter (PyStr s) = Inr (map (\<lambda>c. PyStr [c]) s)"
| "py_iter v = Inl Type_Error"

fun py_get_or :: "pyval \<Rightarrow> string \<Rightarrow> pyval \<Rightarrow> pyval res" where
  "py_get_or (PyDict d) k w = Inr (dict_get_or d k w)"
| "py_get_or v k w = Inl Attribute_Error"

text \<open>A subscription whose result is used as a string.\<close>

definition item_str :: "pyval \<Rightarrow> string \<Rightarrow> string res" where
  "item_str v k = res_bind (py_item v k) (as_str Type_Error)"

text \<open>\<open>without(d, key)\<close>: a copy of the dictionary with the key popped.\<close>

fun without :: "pyval \<Rightarrow> string \<Rightarrow> pyval res" where
  "without (PyDict d) k = (case dict_get d k of None \<Rightarrow> Inl Key_Error | Some v \<Rightarrow> Inr (PyDict (dict_del d k)))"
| "without v k = Inl Attribute_Error"

section \<open>Path rules\<close>

datatype path_op = ADD_FILES | MAKE_DIRS | ADD_SYMLINKS

fun op_value :: "path_op \<Rightarrow> string" where
  "op_value ADD_FILES = ''add_files''"
| "op_value MAKE_DIRS = ''make_dirs''"
| "op_value ADD_SYMLINKS = ''add_symlinks''"

fun allowed_dirs :: "path_op \<Rightarrow> string list" where
  "allowed_dirs ADD_FILES = [''/etc/'', ''/usr/'']"
| "allowed_dirs MAKE_DIRS = [''/etc/'', ''/usr/'', ''/var/'']"
| "allowed_dirs ADD_SYMLINKS = [''/etc/'', ''/usr/'', ''/var/'']"

definition disallowed_paths :: "string list" where
  "disallowed_paths = [''/usr/local/'']"

definition validate_path :: "string \<Rightarrow> path_op \<Rightarrow> unit res" where
  "validate_path path op =
     (if list_ex (starts_with path) disallowed_paths
      then Inl (Invalid_Top_Level_Path path (allowed_dirs op) disallowed_paths (op_value op))
      else if \<not> list_ex (starts_with path) (allowed_dirs op)
      then Inl (Invalid_Top_Level_Path path (allowed_dirs op) disallowed_paths (op_value op))
      else Inr ())"

definition validate_entry :: "string \<Rightarrow> path_op \<Rightarrow> pyval \<Rightarrow> unit \<Rightarrow> unit res" where
  "validate_entry key op entry u =
     res_bind (py_get_or entry key (PyStr [])) (\<lambda>v.
     res_bind (as_str Attribute_Error v) (\<lambda>path. validate_path path op))"

section \<open>State\<close>

record extra_include =
  ei_basedir :: string
  ei_content_id :: nat
  ei_inputs :: dict
  ei_paths :: "pyval list"

text \<open>\<open>ct_qm\<close> distinguishes the two classes of contents.\<close>

record contents =
  ct_qm :: bool
  ct_enable_repos :: "pyval list"
  ct_repos :: "pyval list"
  ct_rpms :: "pyval list"
  ct_containers :: "pyval list"
  ct_add_files :: "pyval list"
  ct_chown_files :: "pyval list"
  ct_chmod_files :: "pyval list"
  ct_remove_files :: "pyval list"
  ct_make_dirs :: "pyval list"
  ct_add_symlinks :: "pyval list"
  ct_file_content_copy :: "pyval list"
  ct_systemd :: dict

record fs_env =
  fe_cwd :: string
  fe_glob :: "string \<Rightarrow> string list"
  fe_isfile :: "string \<Rightarrow> bool"

definition validate_paths :: "contents \<Rightarrow> unit res" where
  "validate_paths ct =
     res_bind (res_fold (validate_entry ''path'' MAKE_DIRS) (ct_make_dirs ct) ()) (\<lambda>_.
     res_bind (res_fold (validate_entry ''path'' ADD_FILES) (ct_add_files ct) ()) (\<lambda>_.
       res_fold (validate_entry ''link'' ADD_SYMLINKS) (ct_add_symlinks ct) ()))"

definition get_list :: "dict \<Rightarrow> string \<Rightarrow> pyval list res" where
  "get_list d k = py_iter (dict_get_or d k (PyList []))"

text \<open>\<open>Contents.__init__\<close>; \<open>systemd\<close> is a dictionary by the schema.\<close>

definition make_contents :: "bool \<Rightarrow> dict \<Rightarrow> contents res" where
  "make_contents qm d =
     res_bind (get_list d ''enable_repos'') (\<lambda>enable_repos.
     res_bind (get_list d ''repos'') (\<lambda>repos.
     res_bind (get_list d ''rpms'') (\<lambda>rpms.
     res_bind (get_list d ''container_images'') (\<lambda>containers.
     res_bind (get_list d ''add_files'') (\<lambda>add_files.
     res_bind (get_list d ''chown_files'') (\<lambda>chown_files.
     res_bind (get_list d ''chmod_files'') (\<lambda>chmod_files.
     res_bind (get_list d ''remove_files'') (\<lambda>remove_files.
     res_bind (get_list d ''make_dirs'') (\<lambda>make_dirs.
     res_bind (get_list d ''add_symlinks'') (\<lambda>add_symlinks.
     res_bind (case dict_get_or d ''systemd'' (PyDict []) of PyDict s \<Rightarrow> Inr s | _ \<Rightarrow> Inl Type_Error) (\<lambda>systemd.
       let ct = \<lparr>ct_qm = qm, ct_enable_repos = enable_repos, ct_repos = repos, ct_rpms = rpms,
                 ct_containers = containers, ct_add_files = add_files, ct_chown_files = chown_files,
                 ct_chmod_files = chmod_files, ct_remove_files = remove_files, ct_make_dirs = make_dirs,
                 ct_add_symlinks = add_symlinks, ct_file_content_copy = [], ct_systemd = systemd\<rparr>
       in res_map (\<lambda>_. ct) (validate_paths ct))))))))))))"

section \<open>File inputs\<close>

definition make_extra_include :: "string \<Rightarrow> string \<Rightarrow> extra_include" where
  "make_extra_include cwd basedir =
     \<lparr>ei_basedir = path_abspath cwd basedir, ei_content_id = 1, ei_inputs = [], ei_paths = []\<rparr>"

definition gen_id :: "extra_include \<Rightarrow> nat \<times> extra_include" where
  "gen_id ei = (ei_content_id ei, ei\<lparr>ei_content_id := ei_content_id ei + 1\<rparr>)"

definition source_file :: "extra_include \<Rightarrow> string \<Rightarrow> string" where
  "source_file ei path = (if path_isabs path then path else path_normpath (path_join (ei_basedir ei) path))"

definition gen_file_input :: "extra_include \<Rightarrow> nat \<Rightarrow> dict \<Rightarrow> pyval res" where
  "gen_file_input ei cid data =
     (let embed = [(''id'', PyStr (''image_content_id_'' @ dec_nat cid))];
          embed = (case dict_get data ''text'' of Some v \<Rightarrow> dict_set embed ''text'' v | None \<Rightarrow> embed);
          embed = (case dict_get data ''url'' of Some v \<Rightarrow> dict_set embed ''url'' v | None \<Rightarrow> embed)
      in res_bind (case dict_get data ''source_path'' of
                     None \<Rightarrow> Inr embed
                   | Some v \<Rightarrow> res_map (\<lambda>path. dict_set embed ''path'' (PyStr (source_file ei path))) (as_str Type_Error v))
           (\<lambda>embed. Inr (PyDict [(''type'', PyStr ''org.osbuild.files''),
                                 (''origin'', PyStr ''org.osbuild.source''), (''mpp-embed'', PyDict embed)])))"

definition gen_file_copy :: "nat \<Rightarrow> pyval" where
  "gen_file_copy cid =
     PyDict [(''from'', PyDict [(''mpp-format-string'',
               PyStr (''input://inlinefile'' @ dec_nat cid @ ''/{embedded['' @ [CHR 0x27] @ ''image_content_id_'' @
                      dec_nat cid @ [CHR 0x27] @ '']}''))]),
             (''to'', PyStr (''tree:///image_content_'' @ dec_nat cid))]"

definition gen_file_copy_out :: "nat \<Rightarrow> dict \<Rightarrow> pyval res" where
  "gen_file_copy_out cid data =
     res_map (\<lambda>path. PyDict [(''from'', PyStr (''input://extra/image_content_'' @ dec_nat cid)),
                             (''to'', PyStr (''tree://'' @ path))])
       (item_str (PyDict data) ''path'')"

definition add_file_to_content ::
  "dict \<Rightarrow> extra_include \<times> contents \<Rightarrow> (extra_include \<times> contents) res" where
  "add_file_to_content data st =
     (case st of (ei, ct) \<Rightarrow> case gen_id ei of (cid, ei1) \<Rightarrow>
        res_bind (gen_file_input ei1 cid data) (\<lambda>inp.
        res_bind (gen_file_copy_out cid data) (\<lambda>out.
          Inr (ei1\<lparr>ei_inputs := dict_set (ei_inputs ei1) (''inlinefile'' @ dec_nat cid) inp,
                   ei_paths := ei_paths ei1 @ [gen_file_copy cid]\<rparr>,
               ct\<lparr>ct_file_content_copy := ct_file_content_copy ct @ [out]\<rparr>))))"

section \<open>Globs\<close>

definition find_glob_matches :: "fs_env \<Rightarrow> extra_include \<Rightarrow> string \<Rightarrow> string list res" where
  "find_glob_matches fe ei g =
     (let pattern = (if path_isabs g then g else path_join (ei_basedir ei) g);
          fs = filter (fe_isfile fe) (fe_glob fe pattern)
      in if fs = [] then Inl (No_Matching_Files_Error g) else Inr fs)"

text \<open>\<open>g.split("*")[0].rstrip("/")\<close>.\<close>

definition glob_stem :: "string \<Rightarrow> string" where
  "glob_stem g = rstrip_char slash (hd (py_split ''*'' g))"

definition under_dest :: "string \<Rightarrow> string \<Rightarrow> string" where
  "under_dest dest rel = path_normpath (path_join dest rel)"

definition absolute_glob_dest :: "fs_env \<Rightarrow> string \<Rightarrow> string \<Rightarrow> string \<Rightarrow> string res" where
  "absolute_glob_dest fe file g dest =
     res_map (under_dest dest) (path_relpath (fe_cwd fe) file (path_dirname (glob_stem g)))"

definition parent_directory_glob :: "fs_env \<Rightarrow> extra_include \<Rightarrow> string \<Rightarrow> string \<Rightarrow> string \<Rightarrow> string res" where
  "parent_directory_glob fe ei file g dest =
     res_map (under_dest dest)
       (path_relpath (fe_cwd fe) file (path_normpath (path_join (ei_basedir ei) (glob_stem g))))"

definition is_recursive_glob :: "string \<Rightarrow> bool" where
  "is_recursive_glob g \<longleftrightarrow> ends_with g ''/**/*'' \<or> contains g ''/**/*''"

definition recursive_glob :: "fs_env \<Rightarrow> extra_include \<Rightarrow> string \<Rightarrow> string \<Rightarrow> string \<Rightarrow> string res" where
  "recursive_glob fe ei file g dest =
     (let stem = (if ends_with g ''/**/*'' then take (length g - 5) g else hd (py_split ''/**/*'' g));
          base = (if stem \<noteq> [] then path_normpath (path_join (ei_basedir ei) stem) else ei_basedir ei)
      in res_map (under_dest dest) (path_relpath (fe_cwd fe) file base))"

definition normal_glob :: "fs_env \<Rightarrow> extra_include \<Rightarrow> string \<Rightarrow> string \<Rightarrow> string res" where
  "normal_glob fe ei file dest = res_map (under_dest dest) (path_relpath (fe_cwd fe) file (ei_basedir ei))"

definition relative_glob_dest :: "fs_env \<Rightarrow> extra_include \<Rightarrow> string \<Rightarrow> string \<Rightarrow> string \<Rightarrow> string res" where
  "relative_glob_dest fe ei file g dest =
     (if contains g ''..'' then parent_directory_glob fe ei file g dest
      else if is_recursive_glob g then recursive_glob fe ei file g dest
      else normal_glob fe ei file dest)"

definition calculate_destination_path ::
  "fs_env \<Rightarrow> extra_include \<Rightarrow> string \<Rightarrow> string \<Rightarrow> string \<Rightarrow> bool \<Rightarrow> string res" where
  "calculate_destination_path fe ei file g dest preserve =
     (if \<not> preserve then Inr (path_join dest (path_basename file))
      else if path_isabs g then absolute_glob_dest fe file g dest
      else relative_glob_dest fe ei file g dest)"

definition dir_entry :: "string \<Rightarrow> pyval" where
  "dir_entry p = PyDict [(''path'', PyStr p), (''parents'', PyBool True), (''exist_ok'', PyBool True)]"

definition entry_path :: "pyval \<Rightarrow> pyval" where
  "entry_path d = (case d of PyDict e \<Rightarrow> dict_get_or e ''path'' PyNone | v \<Rightarrow> v)"

definition ensure_parent_directory :: "contents \<Rightarrow> string \<Rightarrow> string \<Rightarrow> contents" where
  "ensure_parent_directory ct dest_path dest =
     (let parent = path_dirname dest_path
      in if parent = dest then ct
         else if parent = [] \<or> parent = ''/'' then ct
         else if py_in (PyStr parent) (map entry_path (ct_make_dirs ct)) then ct
         else ct\<lparr>ct_make_dirs := ct_make_dirs ct @ [dir_entry parent]\<rparr>)"

text \<open>The body of the loop over the matches.\<close>

definition add_matched_file ::
  "fs_env \<Rightarrow> string \<Rightarrow> string \<Rightarrow> bool \<Rightarrow> string \<Rightarrow> extra_include \<times> contents \<Rightarrow> (extra_include \<times> contents) res" where
  "add_matched_file fe g dest preserve file st =
     (case st of (ei, ct) \<Rightarrow>
        res_bind (calculate_destination_path fe ei file g dest preserve) (\<lambda>dest_path.
          add_file_to_content [(''source_path'', PyStr file), (''path'', PyStr dest_path)]
            (ei, if preserve then ensure_parent_directory ct dest_path dest else ct)))"

text \<open>\<open>max_files\<close> is an integer by the schema.\<close>

definition too_many :: "nat \<Rightarrow> pyval \<Rightarrow> int option res" where
  "too_many n v = (case v of PyInt m \<Rightarrow> Inr (if int n > m then Some m else None) | _ \<Rightarrow> Inl Type_Error)"

definition add_glob_files ::
  "fs_env \<Rightarrow> dict \<Rightarrow> extra_include \<times> contents \<Rightarrow> (extra_include \<times> contents) res" where
  "add_glob_files fe data st =
     (case st of (ei, ct) \<Rightarrow>
        res_bind (item_str (PyDict data) ''source_glob'') (\<lambda>g.
        res_bind (item_str (PyDict data) ''path'') (\<lambda>dest.
          let preserve = py_truthy (dict_get_or data ''preserve_path'' (PyBool False));
              max_files = dict_get_or data ''max_files'' (PyInt 1000);
              allow_empty = py_truthy (dict_get_or data ''allow_empty'' (PyBool False))
          in case find_glob_matches fe ei g of
               Inl e \<Rightarrow> if allow_empty then Inr (ei, ct\<lparr>ct_make_dirs := ct_make_dirs ct @ [dir_entry dest]\<rparr>) else Inl e
             | Inr fs \<Rightarrow>
                 res_bind (too_many (length fs) max_files) (\<lambda>over.
                   case over of
                     Some m \<Rightarrow> Inl (Too_Many_Files_Error g (length fs) m)
                   | None \<Rightarrow> res_fold (add_matched_file fe g dest preserve) fs (ei, ct)))))"

text \<open>The \<open>except KeyError\<close> clause: the key is missing before anything is changed.\<close>

definition add_file_copy ::
  "fs_env \<Rightarrow> pyval \<Rightarrow> extra_include \<times> contents \<Rightarrow> (extra_include \<times> contents) res" where
  "add_file_copy fe file st =
     (case file of
        PyDict data \<Rightarrow>
          (case add_glob_files fe data st of
             Inl Key_Error \<Rightarrow> add_file_to_content data st
           | r \<Rightarrow> r)
      | v \<Rightarrow> Inl Type_Error)"

definition generate :: "extra_include \<Rightarrow> pyval" where
  "generate ei =
     (let stages = (if ei_inputs ei \<noteq> [] then
            [PyDict [(''type'', PyStr ''org.osbuild.copy''), (''inputs'', PyDict (ei_inputs ei)),
                     (''options'', PyDict [(''paths'', PyList (ei_paths ei))])]] else []);
          pipelines = (if stages \<noteq> [] then
            [PyDict [(''name'', PyStr ''extra-image-content''), (''stages'', PyList stages)]] else [])
      in PyDict [(''version'', PyStr ''2''), (''pipelines'', PyList pipelines)])"

section \<open>Defines\<close>

text \<open>\<open>ManifestLoader.set\<close>: empty lists and dictionaries are not set.\<close>

definition ld_set :: "string \<Rightarrow> pyval \<Rightarrow> dict \<Rightarrow> dict" where
  "ld_set key v d = (if v = PyList [] \<or> v = PyDict [] then d else dict_set d key v)"

definition get_key :: "bool \<Rightarrow> string \<Rightarrow> string" where
  "get_key qm key = (if qm then if starts_with key ''use_'' then ''use_qm_'' @ drop 4 key else ''qm_'' @ key else key)"

definition set_define :: "contents \<Rightarrow> string \<Rightarrow> pyval \<Rightarrow> dict \<Rightarrow> dict" where
  "set_define ct key v = ld_set (get_key (ct_qm ct) key) v"

definition symlink_define :: "pyval \<Rightarrow> pyval res" where
  "symlink_define s =
     res_bind (py_item s ''target'') (\<lambda>target.
     res_bind (item_str s ''link'') (\<lambda>link.
       Inr (PyDict [(''target'', target), (''link_name'', PyStr (''tree://'' @ link)), (''symbolic'', PyBool True)])))"

text \<open>The dictionary comprehension \<open>{f["path"]: without(f, "path") for f in files}\<close>.\<close>

definition by_path :: "pyval list \<Rightarrow> dict res" where
  "by_path files = res_fold (\<lambda>f d. res_bind (item_str f ''path'') (\<lambda>p. res_map (dict_set d p) (without f ''path''))) files []"

fun expand_arch :: "dict \<Rightarrow> string \<Rightarrow> pyval \<Rightarrow> pyval res" where
  "expand_arch defines key (PyDict r) =
     (case dict_get r key of
        None \<Rightarrow> Inr (PyDict r)
      | Some v \<Rightarrow>
          res_bind (as_str Attribute_Error v) (\<lambda>url.
          res_bind (item_str (PyDict defines) ''arch'') (\<lambda>arch.
            Inr (PyDict (dict_set r key (PyStr (py_replace ''$arch'' arch url)))))))"
| "expand_arch defines key v = Inl Type_Error"

definition expand_repo :: "dict \<Rightarrow> pyval \<Rightarrow> pyval res" where
  "expand_repo defines r = res_fold (expand_arch defines) [''baseurl'', ''metalink'', ''mirrorlist''] r"

text \<open>
  The parts of \<open>set_defines\<close>, in its order: files and directories, links, modes and removals,
  repositories, packages and containers.
\<close>

type_synonym define_state = "contents \<times> extra_include \<times> dict"

fun file_defines :: "fs_env \<Rightarrow> define_state \<Rightarrow> define_state res" where
  "file_defines fe (ct0, ei0, d) =
     res_map (\<lambda>(ei, ct). (ct, ei, set_define ct ''simple_mkdir'' (PyList (ct_make_dirs ct))
         (set_define ct ''simple_copy'' (PyList (ct_file_content_copy ct)) d)))
       (res_fold (add_file_copy fe) (ct_add_files ct0) (ei0, ct0))"

fun link_defines :: "define_state \<Rightarrow> define_state res" where
  "link_defines (ct, ei, d) =
     res_map (\<lambda>symlinks. (ct, ei, set_define ct ''simple_symlinks'' (PyList symlinks) d))
       (res_mapM symlink_define (ct_add_symlinks ct))"

fun mode_defines :: "define_state \<Rightarrow> define_state res" where
  "mode_defines (ct, ei, d) =
     res_bind (by_path (ct_chmod_files ct)) (\<lambda>chmod.
     res_bind (by_path (ct_chown_files ct)) (\<lambda>chown.
     res_bind (res_mapM (\<lambda>f. py_item f ''path'') (ct_remove_files ct)) (\<lambda>remove.
       Inr (ct, ei, set_define ct ''simple_remove'' (PyList remove)
         (set_define ct ''simple_chown'' (PyDict chown) (set_define ct ''simple_chmod'' (PyDict chmod) d))))))"

fun repo_defines :: "define_state \<Rightarrow> define_state res" where
  "repo_defines (ct, ei, d) =
     res_map (\<lambda>repos.
       let d1 = (if py_in (PyStr ''debug'') (ct_enable_repos ct) then set_define ct ''simple_add_debug_repos'' (PyBool True) d else d);
           d2 = (if py_in (PyStr ''devel'') (ct_enable_repos ct) then set_define ct ''simple_add_devel_repos'' (PyBool True) d1 else d1)
       in (ct\<lparr>ct_repos := repos\<rparr>, ei, d2))
       (res_mapM (expand_repo d) (ct_repos ct))"

fun package_defines :: "define_state \<Rightarrow> define_state" where
  "package_defines (ct, ei, d) =
     (let rpms = (if ct_containers ct \<noteq> [] then ct_rpms ct @ [PyStr ''podman''] else ct_rpms ct);
          d1 = set_define ct ''simple_repos'' (PyList (ct_repos ct)) d;
          d2 = set_define ct ''simple_rpms'' (PyList rpms) d1;
          d3 = set_define ct ''simple_containers'' (PyList (ct_containers ct)) d2;
          d4 = (if ct_containers ct \<noteq> [] then set_define ct ''use_containers_extra_store'' (PyBool True) d3 else d3);
          d5 = (if ct_systemd ct \<noteq> [] then set_define ct ''simple_systemd'' (PyDict (ct_systemd ct)) d4 else d4)
      in (ct\<lparr>ct_rpms := rpms\<rparr>, ei, d5))"

definition set_defines :: "fs_env \<Rightarrow> contents \<Rightarrow> extra_include \<Rightarrow> dict \<Rightarrow> define_state res" where
  "set_defines fe ct ei d =
     res_bind (file_defines fe (ct, ei, d)) (\<lambda>s1.
     res_bind (link_defines s1) (\<lambda>s2.
     res_bind (mode_defines s2) (\<lambda>s3.
     res_map package_defines (repo_defines s3))))"

end
