(* ===== verification/Sizes.thy ===== *)
theory Sizes
  imports Py_Values
begin

text \<open>
  Sizes with a unit suffix (\<open>parse_size\<close> of \<open>src/aib/simple.py\<close>, and its copy in
  \<open>src/mpp/aibosbuild/util/parsing.py\<close>), and the two conversions that go through floating point:
  bytes to 512-byte sectors and a relative size to percent.  Floats are rounded to 53 bits, ties to
  even, as IEEE doubles are; the limit on the digits of a decimal that newer interpreters have is
  not modelled.
\<close>

section \<open>Parsing\<close>

definition size_units :: "(string \<times> nat \<times> nat) list" where
  "size_units =
     [(''kB'', 1000, 1), (''KiB'', 1024, 1), (''MB'', 1000, 2), (''MiB'', 1024, 2),
      (''GB'', 1000, 3), (''GiB'', 1024, 3), (''TB'', 1000, 4), (''TiB'', 1024, 4), ([], 1, 1)]"

text \<open>The pattern \<open>\s*(\d+)\s*unit\<close>, without the second run of blanks for the bare number.\<close>

definition match_size :: "string \<Rightarrow> string \<Rightarrow> nat option" where
  "match_size unit s =
     (let t = py_lstrip s; ds = takeWhile is_digit t; r = dropWhile is_digit t
      in if ds \<noteq> [] \<and> (if unit = [] then r else py_lstrip r) = unit then Some (nat_of_digits ds) else None)"

fun match_units :: "(string \<times> nat \<times> nat) list \<Rightarrow> string \<Rightarrow> nat option" where
  "match_units [] s = None"
| "match_units ((unit, b, pw) # us) s =
     (case match_size unit s of Some n \<Rightarrow> Some (n * b ^ pw) | None \<Rightarrow> match_units us s)"

definition parse_size :: "string \<Rightarrow> nat res" where
  "parse_size s = (case match_units size_units s of Some n \<Rightarrow> Inr n | None \<Rightarrow> Inl Type_Error)"

text \<open>The copy in the manifest preprocessor has one more unit; \<open>None\<close> stands for \<open>''unlimited''\<close>.\<close>

definition mpp_parse_size :: "string \<Rightarrow> nat option res" where
  "mpp_parse_size s =
     (case match_units size_units s of
        Some n \<Rightarrow> Inr (Some n)
      | None \<Rightarrow> if s = ''unlimited'' then Inr None else Inl Type_Error)"

section \<open>Floating point\<close>

fun bit_len :: "nat \<Rightarrow> nat" where
  "bit_len n = (if n = 0 then 0 else Suc (bit_len (n div 2)))"

declare bit_len.simps [simp del]

text \<open>The nearest number with a 53-bit mantissa, ties to an even mantissa.\<close>

definition round53 :: "nat \<Rightarrow> nat" where
  "round53 n =
     (let s = bit_len n - 53; q = n div 2 ^ s; r = n mod 2 ^ s
      in if s = 0 then n
         else if 2 * r > 2 ^ s \<or> (2 * r = 2 ^ s \<and> odd q) then (q + 1) * 2 ^ s else q * 2 ^ s)"

text \<open>\<open>int(n / 512)\<close>: the quotient is the float next to \<open>n / 512\<close>.\<close>

definition sectors :: "nat \<Rightarrow> nat res" where
  "sectors n = (let r = round53 n in if r \<ge> 512 * 2 ^ 1024 then Inl Overflow_Error else Inr (r div 512))"

text \<open>\<open>int(x * 100)\<close> for a number \<open>x\<close>, the values the schema admits.\<close>

definition percent :: "pyval \<Rightarrow> int res" where
  "percent v =
     (case v of
        PyInt i \<Rightarrow> Inr (i * 100)
      | PyBool b \<Rightarrow> Inr (if b then 100 else 0)
      | PyFloat m e \<Rightarrow>
          let p = round53 (nat \<bar>m * 100\<bar>);
              t = (if e \<ge> 0 then p * 2 ^ nat e else p div 2 ^ nat (- e))
          in Inr (if m < 0 then - int t else int t)
      | _ \<Rightarrow> Inl Type_Error)"

section \<open>Properties\<close>

lemma span_digits:
  assumes "ds \<noteq> []" "list_all is_digit ds" "r = [] \<or> \<not> is_digit (hd r)"
  shows "takeWhile is_digit (ds @ r) = ds" "dropWhile is_digit (ds @ r) = r"
  using assms by (cases r; auto simp: list_all_iff takeWhile_append dropWhile_append takeWhile_eq_all_conv)+

lemma digit_not_space: "is_digit c \<Longrightarrow> \<not> is_space c"
  by (auto simp: is_digit_def is_space_def)

lemma py_lstrip_spaces:
  "list_all is_space ws \<Longrightarrow> r = [] \<or> \<not> is_space (hd r) \<Longrightarrow> py_lstrip (ws @ r) = r"
  by (cases r) (auto simp: py_lstrip_def list_all_iff dropWhile_append dropWhile_eq_Nil_conv)

lemma py_lstrip_split: "\<exists>ws. s = ws @ py_lstrip s \<and> list_all is_space ws"
  unfolding py_lstrip_def
  by (rule exI [of _ "takeWhile is_space s"]) (auto simp: list_all_iff dest: set_takeWhileD)

text \<open>What a unit admits: blanks, digits, blanks (none for the empty unit), the unit.\<close>

definition size_text :: "string \<Rightarrow> string \<Rightarrow> string \<Rightarrow> bool" where
  "size_text unit s ds \<longleftrightarrow>
     (\<exists>ws ws'. s = ws @ ds @ ws' @ unit \<and> list_all is_space ws \<and> list_all is_space ws' \<and>
        ds \<noteq> [] \<and> list_all is_digit ds \<and> (unit = [] \<longrightarrow> ws' = []))"

lemma match_size_iff:
  assumes unit: "unit = [] \<or> (\<not> is_digit (hd unit) \<and> \<not> is_space (hd unit))"
  shows "match_size unit s = Some n \<longleftrightarrow> (\<exists>ds. size_text unit s ds \<and> n = nat_of_digits ds)"
proof
  assume m: "match_size unit s = Some n"
  define t where "t = py_lstrip s"
  define ds where "ds = takeWhile is_digit t"
  define r where "r = dropWhile is_digit t"
  have ds: "ds \<noteq> []" "n = nat_of_digits ds" and r: "(if unit = [] then r else py_lstrip r) = unit"
    using m by (auto simp: match_size_def Let_def t_def ds_def r_def split: if_splits)
  obtain ws where ws: "s = ws @ t" "list_all is_space ws" using py_lstrip_split t_def by blast
  have t: "t = ds @ r" by (simp add: ds_def r_def)
  have "list_all is_digit ds" by (auto simp: ds_def list_all_iff dest: set_takeWhileD)
  moreover obtain ws' where "r = ws' @ unit" "list_all is_space ws'" "unit = [] \<longrightarrow> ws' = []"
    using r py_lstrip_split [of r] by (cases "unit = []") auto
  ultimately show "\<exists>ds. size_text unit s ds \<and> n = nat_of_digits ds"
    using ws t ds unfolding size_text_def by blast
next
  assume "\<exists>ds. size_text unit s ds \<and> n = nat_of_digits ds"
  then obtain ws ds ws' where s: "s = ws @ ds @ ws' @ unit" and ws: "list_all is_space ws"
    and ws': "list_all is_space ws'" "unit = [] \<longrightarrow> ws' = []"
    and ds: "ds \<noteq> []" "list_all is_digit ds" and n: "n = nat_of_digits ds"
    unfolding size_text_def by blast
  have "\<not> is_space (hd (ds @ ws' @ unit))"
    using ds by (cases ds) (auto dest: digit_not_space)
  then have t: "py_lstrip s = ds @ ws' @ unit" unfolding s using ws by (intro py_lstrip_spaces) auto
  have "ws' @ unit = [] \<or> \<not> is_digit (hd (ws' @ unit))"
    using ws' unit by (cases ws') (auto dest: digit_not_space)
  note span = span_digits [OF ds this]
  have "py_lstrip (ws' @ unit) = unit" using ws' unit by (intro py_lstrip_spaces) auto
  then show "match_size unit s = Some n"
    unfolding match_size_def t Let_def span using ds n ws' by auto
qed

lemma match_units_Some:
  "match_units us s = Some n \<Longrightarrow> \<exists>(u, b, p) \<in> set us. \<exists>k. match_size u s = Some k \<and> n = k * b ^ p"
  by (induction us s rule: match_units.induct) (auto split: option.splits)

lemma match_units_None: "match_units us s = None \<longleftrightarrow> (\<forall>(u, b, p) \<in> set us. match_size u s = None)"
  by (induction us s rule: match_units.induct) (auto split: option.splits)

lemma match_size_unique:
  "match_size u s = Some k \<Longrightarrow> match_size u' s = Some k' \<Longrightarrow>
    u \<noteq> [] \<Longrightarrow> u' \<noteq> [] \<Longrightarrow> u = u' \<and> k = k'"
  by (auto simp: match_size_def Let_def split: if_splits)

lemma match_size_empty:
  "match_size [] s = Some k \<Longrightarrow> match_size u s = Some k' \<Longrightarrow> u = []"
  by (auto simp: match_size_def Let_def py_lstrip_def simp del: dropWhile_eq_Nil_conv split: if_splits)

lemma match_units_distinct:
  assumes "distinct (map fst us)" "(u, b, p) \<in> set us" "match_size u s = Some k"
  shows "match_units us s = Some (k * b ^ p)"
  using assms
proof (induction us s rule: match_units.induct)
  case (2 unit b' p' us s)
  have "unit = u" if "match_size unit s = Some k'" for k'
    using match_size_unique [OF that "2.prems"(3)] match_size_empty that "2.prems"(3) by metis
  then show ?case using 2 by (cases "match_size unit s") (auto simp: image_iff)
qed simp

lemma size_units_plain: "(u, b, p) \<in> set size_units \<Longrightarrow> u = [] \<or> (\<not> is_digit (hd u) \<and> \<not> is_space (hd u))"
  by (auto simp: size_units_def is_digit_def is_space_def)

lemma size_units_distinct: "distinct (map fst size_units)"
  by (simp add: size_units_def)

text \<open>
  A size parses to a number exactly when it is blanks, decimal digits, blanks and a unit of the
  table (or the digits alone), and the number is the decimal value times the base to the power of
  the unit; every other text raises TypeError.
\<close>

theorem parse_size_correct:
  "(parse_size s = Inr n \<longleftrightarrow>
     (\<exists>u b p ds. (u, b, p) \<in> set size_units \<and> size_text u s ds \<and> n = nat_of_digits ds * b ^ p)) \<and>
   (parse_size s = Inl Type_Error \<longleftrightarrow> \<not> (\<exists>n. parse_size s = Inr n))"
proof (rule conjI)
  have "match_units size_units s = Some n \<longleftrightarrow>
      (\<exists>u b p k. (u, b, p) \<in> set size_units \<and> match_size u s = Some k \<and> n = k * b ^ p)"
    using match_units_Some [of size_units s n] match_units_distinct [OF size_units_distinct] by fastforce
  also have "\<dots> \<longleftrightarrow> (\<exists>u b p ds. (u, b, p) \<in> set size_units \<and> size_text u s ds \<and> n = nat_of_digits ds * b ^ p)"
  proof -
    have "(u, b, p) \<in> set size_units \<Longrightarrow> match_size u s = Some k \<longleftrightarrow> (\<exists>ds. size_text u s ds \<and> k = nat_of_digits ds)"
      for u b p k
      by (rule match_size_iff [OF size_units_plain])
    then show ?thesis by (metis (no_types))
  qed
  finally show "parse_size s = Inr n \<longleftrightarrow>
     (\<exists>u b p ds. (u, b, p) \<in> set size_units \<and> size_text u s ds \<and> n = nat_of_digits ds * b ^ p)"
    by (auto simp add: parse_size_def split: option.split)
qed (auto simp: parse_size_def split: option.split)

lemma round53_small: "n < 2 ^ 53 \<Longrightarrow> round53 n = n"
proof -
  have len: "n < 2 ^ k \<Longrightarrow> bit_len n \<le> k" for n k :: nat
  proof (induction k arbitrary: n)
    case 0
    then show ?case by (simp add: bit_len.simps)
  next
    case (Suc k)
    then show ?case by (subst bit_len.simps) auto
  qed
  assume "n < 2 ^ 53"
  then show ?thesis using len [of n 53] by (simp add: round53_def)
qed

text \<open>
  The sector count computed through a float is the exact one for every size below 8 PiB.
\<close>

theorem sectors_exact: "n < 2 ^ 53 \<Longrightarrow> sectors n = Inr (n div 512)"
proof -
  assume n: "n < 2 ^ 53"
  have "(2::nat) ^ 53 \<le> 512 * 2 ^ 1024"
    by (rule order.trans [OF power_increasing [of 53 1024]]) simp_all
  with n show ?thesis by (simp add: sectors_def round53_small)
qed

theorem sectors_exact_witness:
  "(8000000000 :: nat) < 2 ^ 53 \<and> sectors 8000000000 = Inr 15625000"
  using sectors_exact [of 8000000000] by simp

end
