(* ===== verification/Policy.thy ===== *)
theory Policy
  imports Os_Path
begin

text \<open>
  The policy system of \<open>src/aib/policy.py\<close>: loading a policy file with its consistency rules,
  merging the entries of a build target into the global ones, and validating build arguments and
  manifests.  The YAML parser and the JSON schema validator are parameters; that the restriction
  sections are dictionaries whose lists hold strings is what the schema
  (\<open>src/files/policy_schema.yml\<close>) guarantees.
\<close>

named_theorems policy_simps \<open>evaluation of policy checks\<close>

section \<open>Data\<close>

datatype restriction_type = MODE | TARGET | DISTRIBUTION | ARCHITECTURE | REPOSITORY

record policy =
  pol_name :: pyval
  pol_description :: pyval
  pol_target :: "string option"
  pol_restrictions :: dict

text \<open>One entry of a list of validation errors: the fields its message is formatted from.\<close>

datatype policy_msg =
    Msg_Not_Allowed pyval restriction_type string pyval
  | Msg_Disallowed pyval restriction_type string pyval
  | Msg_Simple_Manifest pyval
  | Msg_Forbidden_Property pyval string
  | Msg_Property_Not_Allowed pyval string
  | Msg_Value_Not_Allowed pyval string "nat option" pyval pyval
  | Msg_Forbidden_Value pyval string "nat option" pyval

section \<open>Merging target entries\<close>

text \<open>
  \<open>base.extend(value)\<close> and \<open>base.update(value)\<close>.  A list has no \<open>update\<close> and a dictionary no
  \<open>extend\<close>.  An \<open>update\<close> from something other than a dictionary is outside the schema.
\<close>

fun py_extend :: "pyval \<Rightarrow> pyval \<Rightarrow> pyval res" where
  "py_extend (PyList xs) (PyList ys) = Inr (PyList (xs @ ys))"
| "py_extend (PyList xs) (PyStr s) = Inr (PyList (xs @ map (\<lambda>c. PyStr [c]) s))"
| "py_extend (PyList xs) (PyDict d) = Inr (PyList (xs @ map (\<lambda>(k, v). PyStr k) d))"
| "py_extend (PyList xs) v = Inl Type_Error"
| "py_extend b v = Inl Attribute_Error"

fun py_update :: "pyval \<Rightarrow> pyval \<Rightarrow> pyval res" where
  "py_update (PyDict d) (PyDict e) = Inr (PyDict (dict_update d e))"
| "py_update (PyDict d) v = Inl Type_Error"
| "py_update b v = Inl Attribute_Error"

definition merge_entry :: "string \<Rightarrow> pyval \<Rightarrow> pyval \<Rightarrow> pyval res" where
  "merge_entry kt b v = (if kt \<in> {''allow'', ''disallow''} then py_extend b v else py_update b v)"

text \<open>
  The loop over \<open>restriction_data.items()\<close>.  It runs over the live dictionary: inserting a key
  makes the iterator raise at its next step, so the branch that inserts ends in the exception.
\<close>

fun merge_targets :: "string option \<Rightarrow> (string \<times> pyval) list \<Rightarrow> dict \<Rightarrow> dict res" where
  "merge_targets t [] d = Inr d"
| "merge_targets t ((key, value) # items) d =
     (case break_at ''@'' key of
        None \<Rightarrow> merge_targets t items d
      | Some (kt, key_target) \<Rightarrow>
          if t = Some key_target then
            (case dict_get d kt of
               None \<Rightarrow> Inl (Runtime_Error ''dictionary changed size during iteration'')
             | Some b \<Rightarrow> res_bind (merge_entry kt b value) (\<lambda>b'. merge_targets t items (dict_set d kt b')))
          else merge_targets t items d)"

definition drop_target_keys :: "dict \<Rightarrow> dict" where
  "drop_target_keys d = filter (\<lambda>(k, v). CHR ''@'' \<notin> set k) d"

definition process_section :: "string option \<Rightarrow> dict \<Rightarrow> dict res" where
  "process_section t d = res_map drop_target_keys (merge_targets t d d)"

fun process_restrictions :: "string option \<Rightarrow> dict \<Rightarrow> dict res" where
  "process_restrictions t [] = Inr []"
| "process_restrictions t ((name, data) # rs) =
     res_bind (case data of PyDict d \<Rightarrow> res_map PyDict (process_section t d) | v \<Rightarrow> Inr v)
       (\<lambda>v. res_bind (process_restrictions t rs) (\<lambda>rest. Inr ((name, v) # rest)))"

text \<open>\<open>Policy.__init__\<close>.\<close>

definition make_policy :: "dict \<Rightarrow> string option \<Rightarrow> policy res" where
  "make_policy data t =
     res_bind (case dict_get_or data ''restrictions'' (PyDict []) of
                 PyDict r \<Rightarrow> process_restrictions t r | v \<Rightarrow> Inl Attribute_Error)
       (\<lambda>r. Inr \<lparr>pol_name = dict_get_or data ''name'' (PyStr ''unknown''),
                pol_description = dict_get_or data ''description'' (PyStr []),
                pol_target = t, pol_restrictions = r\<rparr>)"

section \<open>Loading\<close>

text \<open>The three rules on the allow and disallow keys of a section.\<close>

definition py_repr_strs :: "string list \<Rightarrow> string" where
  "py_repr_strs ss = ''['' @ py_join '', '' (map (\<lambda>s. [CHR 0x27] @ s @ [CHR 0x27]) ss) @ '']''"

definition validate_section_consistency :: "string \<Rightarrow> dict \<Rightarrow> unit res" where
  "validate_section_consistency name data =
     (let has_allow = ''allow'' \<in> fst ` set data;
          has_disallow = ''disallow'' \<in> fst ` set data;
          allow_keys = filter (\<lambda>k. starts_with k ''allow@'') (dict_keys data);
          disallow_keys = filter (\<lambda>k. starts_with k ''disallow@'') (dict_keys data);
          q = [CHR 0x27]
      in if has_allow \<and> has_disallow then
           Inl (Policy_Validation_Error (''Restriction '' @ q @ name @ q @ '' cannot have both '' @ q @ ''allow'' @ q @
             '' and '' @ q @ ''disallow'' @ q @ '' keys''))
         else if has_allow \<and> disallow_keys \<noteq> [] then
           Inl (Policy_Validation_Error (''Restriction '' @ q @ name @ q @ '' uses global '' @ q @ ''allow'' @ q @
             '' but has target-specific '' @ q @ ''disallow@'' @ q @ '' keys: '' @ py_repr_strs disallow_keys))
         else if has_disallow \<and> allow_keys \<noteq> [] then
           Inl (Policy_Validation_Error (''Restriction '' @ q @ name @ q @ '' uses global '' @ q @ ''disallow'' @ q @
             '' but has target-specific '' @ q @ ''allow@'' @ q @ '' keys: '' @ py_repr_strs allow_keys))
         else Inr ())"

definition validate_consistency :: "dict \<Rightarrow> unit res" where
  "validate_consistency data =
     (case dict_get_or data ''restrictions'' (PyDict []) of
        PyDict rs \<Rightarrow>
          res_fold (\<lambda>(name, v) _. case v of PyDict d \<Rightarrow> validate_section_consistency name d | _ \<Rightarrow> Inr ()) rs ()
      | _ \<Rightarrow> Inl Attribute_Error)"

text \<open>What the loader reads: which files exist, the parsed documents, the schema validator.\<close>

datatype schema_verdict = Schema_Ok | Schema_Violation string | Schema_Broken string

record policy_env =
  pe_exists :: "string \<Rightarrow> bool"
  pe_yaml :: "string \<Rightarrow> string + pyval"
  pe_validate :: "pyval \<Rightarrow> pyval \<Rightarrow> schema_verdict"

record policy_loader =
  pl_base_dir :: string
  pl_schema :: "pyval option"

definition load_schema :: "policy_env \<Rightarrow> policy_loader \<Rightarrow> (pyval \<times> policy_loader) res" where
  "load_schema env ld =
     (case pl_schema ld of
        Some sch \<Rightarrow> Inr (sch, ld)
      | None \<Rightarrow>
          let p = path_join (path_join (pl_base_dir ld) ''files'') ''policy_schema.yml'' in
          if \<not> pe_exists env p then Inl (Policy_Error (''Policy schema file not found: '' @ p))
          else case pe_yaml env p of
              Inl m \<Rightarrow> Inl (YAML_Error m)
            | Inr v \<Rightarrow> Inr (v, ld\<lparr>pl_schema := (if v = PyNone then None else Some v)\<rparr>))"

definition load_policy ::
  "policy_env \<Rightarrow> policy_loader \<Rightarrow> string \<Rightarrow> string option \<Rightarrow> (policy \<times> policy_loader) res" where
  "load_policy env ld p t =
     (if \<not> pe_exists env p then Inl (Policy_Error (''Policy file not found: '' @ p))
      else case pe_yaml env p of
        Inl m \<Rightarrow> Inl (Policy_Error (''Invalid YAML in policy file: '' @ m))
      | Inr (PyDict data) \<Rightarrow>
          res_bind (load_schema env ld) (\<lambda>(sch, ld').
            case pe_validate env (PyDict data) sch of
              Schema_Violation m \<Rightarrow> Inl (Policy_Validation_Error (''Policy validation failed: '' @ m))
            | Schema_Broken m \<Rightarrow> Inl (Policy_Error (''Policy schema error: '' @ m))
            | Schema_Ok \<Rightarrow>
                res_bind (validate_consistency data) (\<lambda>_. res_map (\<lambda>pol. (pol, ld')) (make_policy data t)))
      | Inr v \<Rightarrow> Inl (Policy_Validation_Error ''Policy file must contain a YAML dictionary''))"

section \<open>Accessors\<close>

text \<open>The section of a name; absent sections are empty, and the schema makes all of them dictionaries.\<close>

fun as_dict :: "pyval \<Rightarrow> dict" where
  "as_dict (PyDict d) = d"
| "as_dict v = []"

definition policy_section :: "policy \<Rightarrow> string \<Rightarrow> dict" where
  "policy_section p name = as_dict (dict_get_or (pol_restrictions p) name (PyDict []))"

definition mode_restrictions :: "policy \<Rightarrow> dict" where
  "mode_restrictions p = policy_section p ''modes''"

definition target_restrictions :: "policy \<Rightarrow> dict" where
  "target_restrictions p = policy_section p ''targets''"

definition distribution_restrictions :: "policy \<Rightarrow> dict" where
  "distribution_restrictions p = policy_section p ''distributions''"

definition architecture_restrictions :: "policy \<Rightarrow> dict" where
  "architecture_restrictions p = policy_section p ''architectures''"

definition repository_restrictions :: "policy \<Rightarrow> dict" where
  "repository_restrictions p = policy_section p ''repositories''"

definition manifest_restrictions :: "policy \<Rightarrow> dict" where
  "manifest_restrictions p = policy_section p ''manifest_restrictions''"

definition forced_variables :: "policy \<Rightarrow> dict" where
  "forced_variables p = as_dict (dict_get_or (policy_section p ''variables'') ''force'' (PyDict []))"

definition disallowed_rpms :: "policy \<Rightarrow> pyval" where
  "disallowed_rpms p = dict_get_or (policy_section p ''rpms'') ''disallow'' (PyList [])"

definition disallowed_kernel_modules :: "policy \<Rightarrow> pyval" where
  "disallowed_kernel_modules p = dict_get_or (policy_section p ''kernel_modules'') ''disallow'' (PyList [])"

definition forced_selinux_booleans :: "policy \<Rightarrow> dict" where
  "forced_selinux_booleans p = as_dict (dict_get_or (policy_section p ''selinux_booleans'') ''force'' (PyDict []))"

definition masked_services :: "policy \<Rightarrow> pyval" where
  "masked_services p = dict_get_or (policy_section p ''systemd'') ''masked_services'' (PyList [])"

definition enabled_services :: "policy \<Rightarrow> pyval" where
  "enabled_services p = dict_get_or (policy_section p ''systemd'') ''enabled_services'' (PyList [])"

definition disabled_services :: "policy \<Rightarrow> pyval" where
  "disabled_services p = dict_get_or (policy_section p ''systemd'') ''disabled_services'' (PyList [])"

definition forced_sysctl :: "policy \<Rightarrow> dict" where
  "forced_sysctl p = as_dict (dict_get_or (policy_section p ''sysctl'') ''force'' (PyDict []))"

definition require_simple_manifest :: "policy \<Rightarrow> bool" where
  "require_simple_manifest p = py_truthy (dict_get_or (pol_restrictions p) ''require_simple_manifest'' (PyBool False))"

end
