(* ===== verification/Policy_Check.thy ===== *)
theory Policy_Check
  imports Policy
begin

text \<open>
  Validation against a loaded policy (\<open>Policy.validate_build_args\<close>, \<open>validate_manifest_type\<close>,
  \<open>validate_manifest\<close> of \<open>src/aib/policy.py\<close>), with the error lists the code returns.
\<close>

section \<open>Build arguments\<close>

text \<open>\<open>value in container\<close>.\<close>

fun in_container :: "pyval \<Rightarrow> pyval \<Rightarrow> bool res" where
  "in_container v (PyList xs) = Inr (py_in v xs)"
| "in_container (PyStr s) (PyStr t) = Inr (contains t s)"
| "in_container (PyStr s) (PyDict d) = Inr (s \<in> fst ` set d)"
| "in_container v (PyDict d) = (if is_list v \<or> is_dict v then Inl Type_Error else Inr False)"
| "in_container v w = Inl Type_Error"

definition validate_restriction :: "policy \<Rightarrow> restriction_type \<Rightarrow> string \<Rightarrow> dict \<Rightarrow> policy_msg list res" where
  "validate_restriction p ty value sec =
     (let check_disallow =
        (case dict_get sec ''disallow'' of
           None \<Rightarrow> Inr []
         | Some ds \<Rightarrow> res_map (\<lambda>b. if b then [Msg_Disallowed (pol_name p) ty value ds] else [])
                       (in_container (PyStr value) ds))
      in case dict_get sec ''allow'' of
           None \<Rightarrow> check_disallow
         | Some as \<Rightarrow> res_bind (in_container (PyStr value) as)
             (\<lambda>b. if \<not> b then Inr [Msg_Not_Allowed (pol_name p) ty value as] else check_disallow))"

definition append_errors :: "policy_msg list res \<Rightarrow> policy_msg list res \<Rightarrow> policy_msg list res" where
  "append_errors r s = res_bind r (\<lambda>xs. res_map (\<lambda>ys. xs @ ys) s)"

fun concat_errors :: "policy_msg list res list \<Rightarrow> policy_msg list res" where
  "concat_errors [] = Inr []"
| "concat_errors (r # rs) = append_errors r (concat_errors rs)"

definition validate_build_args ::
  "policy \<Rightarrow> string \<Rightarrow> string \<Rightarrow> string \<Rightarrow> string \<Rightarrow> string list \<Rightarrow> policy_msg list res" where
  "validate_build_args p mode target distribution architecture repositories =
     concat_errors
       ([validate_restriction p MODE mode (mode_restrictions p),
         validate_restriction p TARGET target (target_restrictions p),
         validate_restriction p DISTRIBUTION distribution (distribution_restrictions p),
         validate_restriction p ARCHITECTURE architecture (architecture_restrictions p)] @
        map (\<lambda>repo. validate_restriction p REPOSITORY repo (repository_restrictions p)) repositories)"

definition validate_manifest_type :: "policy \<Rightarrow> bool \<Rightarrow> policy_msg list" where
  "validate_manifest_type p is_simple_manifest =
     (if require_simple_manifest p \<and> \<not> is_simple_manifest then [Msg_Simple_Manifest (pol_name p)] else [])"

section \<open>Manifest properties\<close>

text \<open>
  \<open>_get_nested_property\<close>: the path is split at dots; a part ending in \<open>[]\<close> stops the walk at the
  list it names.  A missing key or a value that cannot be subscripted gives \<open>None\<close>.
\<close>

fun get_nested_parts :: "string list \<Rightarrow> pyval \<Rightarrow> pyval" where
  "get_nested_parts [] current = current"
| "get_nested_parts (part # parts) current =
     (if ends_with part ''[]'' then
        (case py_item current (take (length part - 2) part) of
           Inl _ \<Rightarrow> PyNone
         | Inr v \<Rightarrow> if is_list v then v else PyNone)
      else case py_item current part of Inl _ \<Rightarrow> PyNone | Inr v \<Rightarrow> get_nested_parts parts v)"

definition get_nested_property :: "pyval \<Rightarrow> string \<Rightarrow> pyval" where
  "get_nested_property data path = get_nested_parts (py_split ''.'' path) data"

definition has_nested_property :: "pyval \<Rightarrow> string \<Rightarrow> bool" where
  "has_nested_property data path \<longleftrightarrow> get_nested_property data path \<noteq> PyNone"

text \<open>
  The recursion of \<open>_validate_property_allowlist\<close>, returning the paths reported, in order.
  \<open>covered\<close> is the test of a path against the allow list, \<open>leads_to_allowed\<close> the test that some
  allowed property lies below it.
\<close>

definition covered :: "string list \<Rightarrow> string \<Rightarrow> bool" where
  "covered allowed path \<longleftrightarrow> path \<in> set allowed \<or> list_ex (\<lambda>a. starts_with path (a @ ''.'')) allowed"

definition leads_to_allowed :: "string list \<Rightarrow> string \<Rightarrow> bool" where
  "leads_to_allowed allowed path \<longleftrightarrow> list_ex (\<lambda>a. starts_with a (path @ ''.'')) allowed"

definition sub_path :: "string \<Rightarrow> string \<Rightarrow> string" where
  "sub_path pre key = (if pre \<noteq> [] then pre @ ''.'' @ key else key)"

definition elem_path :: "string \<Rightarrow> nat \<Rightarrow> string" where
  "elem_path path i = path @ ''['' @ dec_nat i @ '']''"

fun check_properties :: "string list \<Rightarrow> pyval \<Rightarrow> string \<Rightarrow> string list"
  and check_items :: "string list \<Rightarrow> (string \<times> pyval) list \<Rightarrow> string \<Rightarrow> string list"
  and check_elems :: "string list \<Rightarrow> pyval list \<Rightarrow> nat \<Rightarrow> string \<Rightarrow> string list" where
  "check_properties allowed (PyDict d) pre = check_items allowed d pre"
| "check_properties allowed (PyList xs) pre = []"
| "check_properties allowed v pre = []"
| "check_items allowed [] pre = []"
| "check_items allowed ((key, value) # rest) pre =
     (let path = sub_path pre key;
          below = (case value of
                     PyDict d \<Rightarrow> check_properties allowed value path
                   | PyList xs \<Rightarrow> check_elems allowed xs 0 path
                   | _ \<Rightarrow> [])
      in (if covered allowed path then below
          else if \<not> is_dict value then path # below
          else if \<not> leads_to_allowed allowed path then [path]
          else below) @ check_items allowed rest pre)"
| "check_elems allowed [] i path = []"
| "check_elems allowed (x # xs) i path =
     (if is_dict x then check_properties allowed x (elem_path path i) else []) @
     check_elems allowed xs (Suc i) path"

definition validate_property_allowlist :: "policy \<Rightarrow> pyval \<Rightarrow> string list \<Rightarrow> policy_msg list" where
  "validate_property_allowlist p manifest allowed =
     map (Msg_Property_Not_Allowed (pol_name p)) (check_properties allowed manifest [])"

section \<open>Manifest values\<close>

text \<open>\<open>_validate_array_element_allowlist\<close>: the two-way unpacking raises unless there are exactly two parts.\<close>

fun elem_not_allowed :: "policy \<Rightarrow> string \<Rightarrow> string \<Rightarrow> pyval list \<Rightarrow> pyval list \<Rightarrow> nat \<Rightarrow> policy_msg list" where
  "elem_not_allowed p path prop allowed [] i = []"
| "elem_not_allowed p path prop allowed (e # es) i =
     (case e of
        PyDict d \<Rightarrow> (case dict_get d prop of
            Some v \<Rightarrow> if py_in v allowed then [] else [Msg_Value_Not_Allowed (pol_name p) path (Some i) v (PyList allowed)]
          | None \<Rightarrow> [])
      | _ \<Rightarrow> []) @ elem_not_allowed p path prop allowed es (Suc i)"

definition validate_array_element_allowlist ::
  "policy \<Rightarrow> pyval \<Rightarrow> string \<Rightarrow> pyval list \<Rightarrow> policy_msg list res" where
  "validate_array_element_allowlist p manifest path allowed =
     (case py_split ''[].'' path of
        [base, prop] \<Rightarrow>
          Inr (case get_nested_property manifest base of
                 PyList es \<Rightarrow> elem_not_allowed p path prop allowed es 0
               | _ \<Rightarrow> [])
      | _ \<Rightarrow> Inl Value_Error)"

definition validate_value_allowlist :: "policy \<Rightarrow> pyval \<Rightarrow> string \<Rightarrow> pyval list \<Rightarrow> policy_msg list res" where
  "validate_value_allowlist p manifest path allowed =
     (if contains path ''[]'' then validate_array_element_allowlist p manifest path allowed
      else let v = get_nested_property manifest path in
        Inr (if v \<noteq> PyNone \<and> \<not> py_in v allowed then [Msg_Value_Not_Allowed (pol_name p) path None v (PyList allowed)]
             else []))"

fun elem_forbidden :: "policy \<Rightarrow> string \<Rightarrow> string \<Rightarrow> pyval list \<Rightarrow> pyval list \<Rightarrow> nat \<Rightarrow> policy_msg list" where
  "elem_forbidden p path prop forbidden [] i = []"
| "elem_forbidden p path prop forbidden (e # es) i =
     (let v = (if prop = [] then e else get_nested_property e prop) in
        if py_in v forbidden then [Msg_Forbidden_Value (pol_name p) path (Some i) v] else []) @
     elem_forbidden p path prop forbidden es (Suc i)"

definition validate_array_element_values :: "policy \<Rightarrow> pyval \<Rightarrow> string \<Rightarrow> pyval list \<Rightarrow> policy_msg list" where
  "validate_array_element_values p manifest path forbidden =
     (case py_split ''[]'' path of
        [array_path, rest] \<Rightarrow>
          let prop = (if starts_with rest ''.'' then drop 1 rest else rest) in
          (case get_nested_property manifest array_path of
             PyList es \<Rightarrow> elem_forbidden p path prop forbidden es 0
           | _ \<Rightarrow> [])
      | _ \<Rightarrow> [])"

definition validate_property_values :: "policy \<Rightarrow> pyval \<Rightarrow> string \<Rightarrow> pyval list \<Rightarrow> policy_msg list" where
  "validate_property_values p manifest path forbidden =
     (if contains path ''[]'' then validate_array_element_values p manifest path forbidden
      else let v = get_nested_property manifest path in
        if py_in v forbidden then [Msg_Forbidden_Value (pol_name p) path None v] else [])"

text \<open>Iterating a list of strings and the items of a dictionary of lists, as the schema guarantees.\<close>

fun str_items :: "pyval \<Rightarrow> string list" where
  "str_items (PyList xs) = concat (map (\<lambda>x. case x of PyStr s \<Rightarrow> [s] | _ \<Rightarrow> []) xs)"
| "str_items v = []"

fun as_list :: "pyval \<Rightarrow> pyval list" where
  "as_list (PyList xs) = xs"
| "as_list v = []"

definition validate_disallow_rules :: "policy \<Rightarrow> pyval \<Rightarrow> dict \<Rightarrow> policy_msg list" where
  "validate_disallow_rules p manifest rules =
     concat (map (\<lambda>path. if has_nested_property manifest path then [Msg_Forbidden_Property (pol_name p) path] else [])
       (str_items (dict_get_or rules ''properties'' (PyList [])))) @
     concat (map (\<lambda>(path, forbidden). validate_property_values p manifest path (as_list forbidden))
       (as_dict (dict_get_or rules ''values'' (PyDict []))))"

definition validate_allow_rules :: "policy \<Rightarrow> pyval \<Rightarrow> dict \<Rightarrow> policy_msg list res" where
  "validate_allow_rules p manifest rules =
     concat_errors
       ((case dict_get rules ''properties'' of
           Some props \<Rightarrow> [Inr (validate_property_allowlist p manifest (str_items props))]
         | None \<Rightarrow> []) @
        map (\<lambda>(path, allowed). validate_value_allowlist p manifest path (as_list allowed))
          (as_dict (dict_get_or rules ''values'' (PyDict []))))"

definition validate_manifest :: "policy \<Rightarrow> pyval \<Rightarrow> policy_msg list res" where
  "validate_manifest p manifest =
     (let mr = manifest_restrictions p in
      append_errors
        (case dict_get mr ''disallow'' of
           Some rules \<Rightarrow> Inr (validate_disallow_rules p manifest (as_dict rules))
         | None \<Rightarrow> Inr [])
        (case dict_get mr ''allow'' of
           Some rules \<Rightarrow> validate_allow_rules p manifest (as_dict rules)
         | None \<Rightarrow> Inr []))"

end
