(* ===== verification/Manifest.thy ===== *)
theory Manifest
  imports Content Sizes Policy_Check
begin

text \<open>
  The manifest loader of \<open>src/aib/simple.py\<close>: from a parsed simple manifest to the defines of the
  osbuild manifest (\<open>ManifestLoader._load\<close> and its section handlers).  The JSON schema validation is
  a parameter, which yields the error texts and the manifest with the defaults filled in; what one
  object schema fills in is \<open>set_defaults\<close>.
\<close>

record manifest_env =
  me_fs :: fs_env
  me_validate :: "pyval \<Rightarrow> string list \<times> pyval"
  me_message :: "policy_msg \<Rightarrow> string"
  me_str :: "pyval \<Rightarrow> string"

definition nl :: string where "nl = [CHR 0x0A]"

text \<open>\<open>set_defaults\<close> of \<open>extend_with_default\<close>: the schemas of the properties, the instance.\<close>

fun set_defaults :: "dict \<Rightarrow> dict \<Rightarrow> dict" where
  "set_defaults [] inst = inst"
| "set_defaults ((k, sub) # props) inst =
     set_defaults props
       (case sub of
          PyDict s \<Rightarrow> (case dict_get s ''default'' of
              None \<Rightarrow> inst
            | Some v \<Rightarrow> (case dict_get inst k of None \<Rightarrow> dict_set inst k v | Some _ \<Rightarrow> inst))
        | _ \<Rightarrow> inst)"

text \<open>\<open>set_from\<close> with no default: the source is a dictionary.\<close>

definition set_from :: "string \<Rightarrow> dict \<Rightarrow> string \<Rightarrow> dict \<Rightarrow> dict" where
  "set_from key src src_key d = (case dict_get src src_key of Some v \<Rightarrow> ld_set key v d | None \<Rightarrow> d)"

definition set_all_from :: "(string \<times> string) list \<Rightarrow> dict \<Rightarrow> dict \<Rightarrow> dict" where
  "set_all_from keys src d = fold (\<lambda>(key, src_key). set_from key src src_key) keys d"

text \<open>A section of the manifest; the schema makes it a dictionary.\<close>

definition sub_dict :: "dict \<Rightarrow> string \<Rightarrow> dict res" where
  "sub_dict d k = (case dict_get_or d k (PyDict []) of PyDict s \<Rightarrow> Inr s | _ \<Rightarrow> Inl Attribute_Error)"

section \<open>Sections\<close>

fun set_checksum :: "pyval \<Rightarrow> dict \<Rightarrow> dict" where
  "set_checksum PyNone d = d"
| "set_checksum (PyStr s) d = ld_set ''boot_check_qm_digest'' (PyList [PyStr s]) d"
| "set_checksum v d = ld_set ''boot_check_qm_digest'' v d"

definition handle_qm ::
  "fs_env \<Rightarrow> dict \<Rightarrow> extra_include \<Rightarrow> dict \<Rightarrow> (extra_include \<times> dict) res" where
  "handle_qm fe qm ei d0 =
     (let d1 = ld_set ''use_qm'' (PyBool True) d0
      in res_bind
           (case dict_get qm ''content'' of
              None \<Rightarrow> Inr (ei, d1)
            | Some (PyDict c) \<Rightarrow>
                res_bind (make_contents True c) (\<lambda>ct.
                res_map (\<lambda>(ct, ei, d). (ei, d)) (set_defines fe ct ei d1))
            | Some v \<Rightarrow> Inl Attribute_Error) (\<lambda>(ei, d2).
         res_bind (sub_dict qm ''memory_limit'') (\<lambda>mem.
         let d3 = set_all_from [(''qm_memory_max'', ''max''), (''qm_memory_high'', ''high'')] mem d2;
             d4 = set_from ''qm_cpu_weight'' qm ''cpu_weight'' d3;
             d5 = set_checksum (dict_get_or qm ''container_checksum'' PyNone) d4
         in Inr (ei, set_from ''qm_use_userns'' qm ''user_namespaces'' d5))))"

definition handle_network :: "manifest_env \<Rightarrow> dict \<Rightarrow> dict \<Rightarrow> dict res" where
  "handle_network me network d0 =
     (case dict_get_or network ''static'' PyNone of
        PyNone \<Rightarrow> Inr d0
      | PyDict st \<Rightarrow>
          let d1 = set_from ''static_ip'' st ''ip'' (ld_set ''use_static_ip'' (PyBool True) d0);
              prefixlen = dict_get_or st ''ip_prefixlen'' PyNone;
              d2 = (if py_truthy prefixlen then ld_set ''static_ip_prefixlen'' (PyStr (me_str me prefixlen)) d1 else d1);
              d3 = set_all_from [(''static_gw'', ''gateway''), (''static_dns'', ''dns''),
                     (''static_ip_iface'', ''iface''), (''static_ip_iface_early'', ''iface_early'')] st d2
          in Inr (case dict_get st ''load_module'' of
                    None \<Rightarrow> d3
                  | Some v \<Rightarrow> ld_set ''static_ip_modules'' (if is_list v then v else PyList [v]) d3)
      | v \<Rightarrow> Inl Type_Error)"

definition handle_auth :: "dict \<Rightarrow> dict \<Rightarrow> dict" where
  "handle_auth auth =
     set_all_from [(''root_password'', ''root_password''), (''root_ssh_keys'', ''root_ssh_keys''),
       (''use_static_ssh_host_keys'', ''sshd_static_host_keys''), (''simple_sshd_config'', ''sshd_config''),
       (''simple_groups'', ''groups''), (''simple_users'', ''users'')] auth"

definition handle_kernel :: "dict \<Rightarrow> dict \<Rightarrow> dict" where
  "handle_kernel kern =
     set_all_from [(''kernel_package'', ''kernel_package''), (''kernel_version'', ''kernel_version''),
       (''kernel_loglevel'', ''loglevel''), (''use_debug'', ''debug_logging''),
       (''simple_kernel_opts'', ''cmdline''), (''denylist_modules'', ''remove_modules'')] kern"

text \<open>\<open>parse_size\<close> of a manifest value; \<open>re.fullmatch\<close> raises TypeError for one that is no string.\<close>

definition parse_size_val :: "pyval \<Rightarrow> nat res" where
  "parse_size_val v = res_bind (as_str Type_Error v) parse_size"

definition num_ge_1 :: "pyval \<Rightarrow> bool res" where
  "num_ge_1 v = (case py_num v of Some n \<Rightarrow> Inr (num_le (1, 0) n) | None \<Rightarrow> Inl Type_Error)"

text \<open>One entry of \<open>partitions\<close>; \<open>imgsz\<close> is the parsed image size, if there is one.\<close>

definition var_partition :: "nat option \<Rightarrow> string \<Rightarrow> string \<Rightarrow> dict \<Rightarrow> dict \<Rightarrow> dict res" where
  "var_partition imgsz pre mountpoint part d =
     res_map (\<lambda>d'. case dict_get part ''uuid'' of None \<Rightarrow> d' | Some v \<Rightarrow> ld_set (pre @ ''varpart_uuid'') v d')
       (case dict_get part ''size'' of
          Some v \<Rightarrow>
            res_bind (parse_size_val v) (\<lambda>var_size.
              if (case imgsz of Some n \<Rightarrow> n \<noteq> 0 \<and> var_size \<ge> n | None \<Rightarrow> False) then Inl (Invalid_Mount_Size mountpoint)
              else res_map (\<lambda>s. ld_set (pre @ ''varpart_size'') (PyInt (int s)) d) (sectors var_size))
        | None \<Rightarrow>
            (case dict_get part ''relative_size'' of
               Some rel \<Rightarrow>
                 res_bind (num_ge_1 rel) (\<lambda>ge.
                   if ge then Inl (Invalid_Mount_Rel_Size mountpoint)
                   else Inr (ld_set (pre @ ''varpart_relative_size'') rel d))
             | None \<Rightarrow>
                 Inr (if py_truthy (dict_get_or part ''external'' (PyBool False))
                      then ld_set (pre @ ''varpart_size'') (PyInt (- 1)) d else d)))"

definition handle_partition :: "nat option \<Rightarrow> string \<times> pyval \<Rightarrow> dict \<Rightarrow> dict res" where
  "handle_partition imgsz kv d =
     (case kv of (k, v) \<Rightarrow> case v of
        PyDict part \<Rightarrow>
          if k = ''var'' then var_partition imgsz [] ''/var'' part d
          else if k = ''var_qm'' then var_partition imgsz ''qm_'' ''/var/qm'' part d
          else if k = ''root'' then Inr (set_from ''grow_rootfs'' part ''grow'' d)
          else (case dict_get part ''size'' of
                  None \<Rightarrow> Inr d
                | Some s \<Rightarrow> res_bind (parse_size_val s) (\<lambda>n.
                    res_map (\<lambda>m. ld_set (k @ ''part_size'') (PyInt (int m)) d) (sectors n)))
      | _ \<Rightarrow> Inl Type_Error)"

definition handle_tmpfs :: "string \<times> pyval \<Rightarrow> dict \<Rightarrow> dict res" where
  "handle_tmpfs kv d =
     (case kv of (k, v) \<Rightarrow> case v of
        PyDict part \<Rightarrow>
          (case dict_get part ''size'' of
             Some s \<Rightarrow> res_map (\<lambda>n. ld_set (k @ ''_size'') (PyStr (dec_nat n)) d) (parse_size_val s)
           | None \<Rightarrow>
               (case dict_get part ''relative_size'' of
                  None \<Rightarrow> Inr d
                | Some rel \<Rightarrow> res_map (\<lambda>p. ld_set (k @ ''_size'') (PyStr (dec_int p @ ''%'')) d) (percent rel)))
      | _ \<Rightarrow> Inl Type_Error)"

definition json_bool :: "pyval \<Rightarrow> string" where
  "json_bool v = (if py_truthy v then ''true'' else ''false'')"

definition set_image_size :: "dict \<Rightarrow> dict \<Rightarrow> (nat option \<times> dict) res" where
  "set_image_size img d =
     (let v = dict_get_or img ''image_size'' PyNone
      in if py_truthy v then res_map (\<lambda>n. (Some n, ld_set ''image_size'' (PyStr (dec_nat n)) d)) (parse_size_val v)
         else Inr (None, d))"

definition set_cg_memory_min :: "dict \<Rightarrow> dict \<Rightarrow> dict res" where
  "set_cg_memory_min img d =
     res_bind (parse_size_val (dict_get_or img ''cg_memory_min'' (PyStr ''64MiB''))) (\<lambda>n.
       if n = 0 then Inl (AIB_Exception ''cg_memory_min must be > 0'')
       else Inr (ld_set ''cg_memory_min'' (PyInt (int n)) d))"

definition image_keys :: "(string \<times> string) list" where
  "image_keys = [(''enable_oom_protection'', ''enable_oom_protection''),
     (''enable_reclaim_protection'', ''enable_reclaim_protection''), (''hostname'', ''hostname''),
     (''ostree_ref'', ''ostree_ref''), (''use_composefs_signed'', ''sealed''),
     (''disable_gettys'', ''disable_gettys''), (''selinux_mode'', ''selinux_mode''),
     (''selinux_policy'', ''selinux_policy'')]"

definition handle_image :: "dict \<Rightarrow> dict \<Rightarrow> dict res" where
  "handle_image img d0 =
     res_bind (set_image_size img d0) (\<lambda>(size, d1).
     res_bind (sub_dict img ''partitions'') (\<lambda>partitions.
     res_bind (res_fold (handle_partition size) partitions d1) (\<lambda>d2.
     res_bind (sub_dict img ''tmpfs'') (\<lambda>tmpfs.
     res_bind (res_fold handle_tmpfs tmpfs d2) (\<lambda>d3.
     res_bind (set_cg_memory_min img d3) (\<lambda>d4.
     let d5 = set_all_from image_keys img d4
     in res_bind (sub_dict img ''selinux_booleans'') (\<lambda>bools.
        Inr (if bools \<noteq> [] then ld_set ''selinux_booleans'' (PyList (map (\<lambda>(k, v). PyStr (k @ ''='' @ json_bool v)) bools)) d5
             else d5))))))))"

section \<open>Boot checks\<close>

definition dropin_dir_entry :: "string \<Rightarrow> pyval" where
  "dropin_dir_entry p =
     PyDict [(''path'', PyStr p), (''mode'', PyInt 493), (''parents'', PyBool True), (''exist_ok'', PyBool True)]"

definition enabled_services_of :: "contents \<Rightarrow> pyval list res" where
  "enabled_services_of ct =
     (case dict_get (ct_systemd ct) ''enabled_services'' of
        None \<Rightarrow> Inl Key_Error | Some (PyList xs) \<Rightarrow> Inr xs | Some v \<Rightarrow> Inl Attribute_Error)"

definition enable_service :: "string \<Rightarrow> contents \<Rightarrow> contents res" where
  "enable_service s ct =
     res_map (\<lambda>xs. ct\<lparr>ct_systemd := dict_set (ct_systemd ct) ''enabled_services'' (PyList (xs @ [PyStr s]))\<rparr>)
       (enabled_services_of ct)"

definition command_check :: "pyval \<Rightarrow> contents \<Rightarrow> contents res" where
  "command_check check ct =
     res_bind (res_bind (py_get_or check ''name'' (PyStr [])) (as_str Type_Error)) (\<lambda>name.
     res_bind (res_bind (py_get_or check ''cmd'' (PyStr [])) (as_str Type_Error)) (\<lambda>cmd.
     let service = ''sysboot-check@'' @ name @ ''.service'';
         dir = ''/usr/lib/systemd/system/'' @ service @ ''.d'';
         file = dir @ ''/'' @ name @ ''.conf''
     in enable_service service
          (ct\<lparr>ct_make_dirs := ct_make_dirs ct @ [dropin_dir_entry dir],
              ct_add_files := ct_add_files ct @
                [PyDict [(''path'', PyStr file), (''text'', PyStr (''[Service]'' @ nl @ ''ExecStart='' @ cmd))]]\<rparr>)))"

definition unit_check :: "pyval \<Rightarrow> contents \<Rightarrow> contents res" where
  "unit_check u ct =
     res_map (\<lambda>name.
       let dir = ''/usr/lib/systemd/system/'' @ name @ ''.d''
       in ct\<lparr>ct_make_dirs := ct_make_dirs ct @ [dropin_dir_entry dir],
             ct_add_symlinks := ct_add_symlinks ct @
               [PyDict [(''link'', PyStr (dir @ ''/sysboot.conf'')),
                        (''target'', PyStr ''/usr/share/sysboot/service.d/sysboot.conf'')]]\<rparr>)
       (as_str Type_Error u)"

definition handle_sysboot_checks :: "contents \<Rightarrow> dict \<Rightarrow> dict \<Rightarrow> (contents \<times> dict) res" where
  "handle_sysboot_checks ct img d =
     (case dict_get_or img ''boot_checks'' (PyDict []) of
        PyDict [] \<Rightarrow> Inr (ct, d)
      | PyDict bc \<Rightarrow>
          res_bind (get_list bc ''commands'') (\<lambda>commands.
          res_bind (get_list bc ''systemd'') (\<lambda>units.
          let ct1 = (if dict_get (ct_systemd ct) ''enabled_services'' = None
                     then ct\<lparr>ct_systemd := dict_set (ct_systemd ct) ''enabled_services'' (PyList [])\<rparr> else ct)
          in res_bind (res_fold command_check commands ct1) (\<lambda>ct2.
             res_bind (res_fold unit_check units ct2) (\<lambda>ct3.
               if commands \<noteq> [] \<or> units \<noteq> [] then
                 res_map (\<lambda>ct4. (ct4, set_define ct4 ''system_boot_check'' (PyBool True) d))
                   (enable_service ''sysboot-health.target'' ct3)
               else Inr (ct3, d)))))
      | v \<Rightarrow> if py_truthy v then Inl Attribute_Error else Inr (ct, d))"

definition handle_experimental :: "dict \<Rightarrow> dict \<Rightarrow> dict res" where
  "handle_experimental ex d =
     res_map (\<lambda>defs. fold (\<lambda>(k, v). ld_set k v) defs d) (sub_dict ex ''internal_defines'')"

section \<open>Loading\<close>

text \<open>\<open>check_manifest\<close>: the schema errors, then the policy.\<close>

definition check_manifest :: "manifest_env \<Rightarrow> policy option \<Rightarrow> string \<Rightarrow> pyval \<Rightarrow> pyval res" where
  "check_manifest me pol path manifest0 =
     (case me_validate me manifest0 of (errors, manifest) \<Rightarrow>
        if errors \<noteq> [] then Inl (Simple_Manifest_Parse_Error path errors)
        else case pol of
          None \<Rightarrow> Inr manifest
        | Some p \<Rightarrow>
            res_bind (validate_manifest p manifest) (\<lambda>errs.
              if errs \<noteq> [] then
                Inl (AIB_Exception (''Manifest policy validation failed:'' @ nl @ py_join nl (map (me_message me) errs)))
              else Inr manifest))"

definition load_sections ::
  "manifest_env \<Rightarrow> dict \<Rightarrow> string \<Rightarrow> string \<Rightarrow> dict \<Rightarrow> (dict \<times> pyval) res" where
  "load_sections me manifest basedir workdir d0 =
     (let ei0 = make_extra_include (fe_cwd (me_fs me)) basedir;
          d1 = set_all_from [(''name'', ''name''), (''version'', ''version''), (''target'', ''target'')] manifest d0
      in res_bind (sub_dict manifest ''content'') (\<lambda>content.
         res_bind (make_contents False content) (\<lambda>ct0.
         res_bind (sub_dict manifest ''image'') (\<lambda>image.
         res_bind (handle_sysboot_checks ct0 image d1) (\<lambda>(ct1, d2).
         res_bind (set_defines (me_fs me) ct1 ei0 d2) (\<lambda>(ct2, ei1, d3).
         res_bind (case dict_get manifest ''qm'' of
                     None \<Rightarrow> Inr (ei1, d3)
                   | Some (PyDict qm) \<Rightarrow> handle_qm (me_fs me) qm ei1 d3
                   | Some v \<Rightarrow> Inl Type_Error) (\<lambda>(ei2, d4).
         res_bind (sub_dict manifest ''network'') (\<lambda>network.
         res_bind (handle_network me network d4) (\<lambda>d5.
         res_bind (sub_dict manifest ''auth'') (\<lambda>auth.
         res_bind (sub_dict manifest ''kernel'') (\<lambda>kernel.
         let d6 = handle_kernel kernel (handle_auth auth d5)
         in res_bind (handle_image image d6) (\<lambda>d7.
            res_bind (sub_dict manifest ''experimental'') (\<lambda>ex.
            res_bind (handle_experimental ex d7) (\<lambda>d8.
              Inr (ld_set ''simple_import'' (PyStr (path_join workdir ''extra-include.ipp.yml'')) d8,
                   generate ei2)))))))))))))))"

text \<open>\<open>_load\<close>: the defines, and the document written to \<open>extra-include.ipp.yml\<close>.\<close>

definition load_manifest ::
  "manifest_env \<Rightarrow> policy option \<Rightarrow> string \<Rightarrow> string \<Rightarrow> string \<Rightarrow> pyval \<Rightarrow> dict \<Rightarrow> (dict \<times> pyval) res" where
  "load_manifest me pol path basedir workdir manifest0 d =
     res_bind (check_manifest me pol path manifest0) (\<lambda>m.
       case m of PyDict manifest \<Rightarrow> load_sections me manifest basedir workdir d | _ \<Rightarrow> Inl Attribute_Error)"

end
