(* ===== verification/Content_Laws.thy ===== *)
theory Content_Laws
  imports Content
begin

text \<open>
  Facts about the content sections: what the path rules accept, the invariant of the shared file
  inputs, the destinations of globbed files, and which defines a section may set.
\<close>

section \<open>Path rules\<close>

definition path_ok :: "path_op \<Rightarrow> string \<Rightarrow> bool" where
  "path_ok op p \<longleftrightarrow> (\<exists>a \<in> set (allowed_dirs op). starts_with p a) \<and> \<not> starts_with p ''/usr/local/''"

lemma validate_path_ok: "validate_path p op = Inr u \<longleftrightarrow> path_ok op p"
  by (auto simp: validate_path_def path_ok_def disallowed_paths_def list_ex_iff split: if_splits)

text \<open>The string that an entry gives for a key, the empty one where it has none.\<close>

definition entry_str :: "string \<Rightarrow> pyval \<Rightarrow> string \<Rightarrow> bool" where
  "entry_str key e p \<longleftrightarrow> (\<exists>d. e = PyDict d \<and> dict_get_or d key (PyStr []) = PyStr p)"

lemma as_str_Inr: "as_str e v = Inr s \<longleftrightarrow> v = PyStr s"
  by (cases v) auto

lemma validate_entry_ok:
  "validate_entry key op e u = Inr w \<longleftrightarrow> (\<exists>p. entry_str key e p \<and> path_ok op p)"
  by (cases e) (auto simp: validate_entry_def entry_str_def res_simps as_str_Inr validate_path_ok)

lemma validate_entries_ok:
  "res_fold (validate_entry key op) es u = Inr w \<longleftrightarrow> (\<forall>e \<in> set es. \<exists>p. entry_str key e p \<and> path_ok op p)"
  by (induction es arbitrary: u) (auto simp: res_simps validate_entry_ok)

definition paths_ok :: "contents \<Rightarrow> bool" where
  "paths_ok ct \<longleftrightarrow>
     (\<forall>e \<in> set (ct_make_dirs ct). \<exists>p. entry_str ''path'' e p \<and> path_ok MAKE_DIRS p) \<and>
     (\<forall>e \<in> set (ct_add_files ct). \<exists>p. entry_str ''path'' e p \<and> path_ok ADD_FILES p) \<and>
     (\<forall>e \<in> set (ct_add_symlinks ct). \<exists>p. entry_str ''link'' e p \<and> path_ok ADD_SYMLINKS p)"

lemma validate_paths_ok: "validate_paths ct = Inr u \<longleftrightarrow> paths_ok ct"
  by (auto simp: validate_paths_def paths_ok_def res_simps validate_entries_ok)

lemma make_contents_ok: "make_contents qm d = Inr ct \<Longrightarrow> paths_ok ct \<and> ct_qm ct = qm \<and> ct_file_content_copy ct = []"
  unfolding make_contents_def by (auto simp: res_simps res_map_def validate_paths_ok Let_def)

lemma slash_free_eq:
  assumes "slash \<notin> set a" and "slash \<notin> set b" and "a @ slash # x = b @ slash # y"
  shows "a = b \<and> x = y"
proof -
  have "break_at ''/'' (a @ slash # x) = Some (a, x)" using assms(1) by (rule break_at_char_fresh)
  moreover have "break_at ''/'' (b @ slash # y) = Some (b, y)" using assms(2) by (rule break_at_char_fresh)
  ultimately show ?thesis using assms(3) by (metis option.inject prod.inject)
qed

lemma join_starts_with:
  assumes cs: "comps_ok cs" and t: "slash \<notin> set t"
  shows "starts_with (py_join ''/'' cs) (t @ ''/'' @ u) \<longleftrightarrow> (\<exists>x rest. cs = t # x # rest \<and> starts_with (py_join ''/'' (x # rest)) u)"
proof (cases "(''/'', cs)" rule: py_join.cases)
  case (1 sep)
  then show ?thesis by (cases t) auto
next
  case (2 sep c)
  then have "\<not> starts_with c (t @ ''/'' @ u)" using cs by (auto simp: starts_with_iff)
  then show ?thesis using 2 by auto
next
  case (3 sep c x rest)
  have "slash \<notin> set c" using cs 3 by simp
  then have "starts_with (c @ ''/'' @ py_join ''/'' (x # rest)) (t @ ''/'' @ u) \<longleftrightarrow> c = t \<and> starts_with (py_join ''/'' (x # rest)) u"
    using slash_free_eq [of c t] t by (fastforce simp: starts_with_iff)
  then show ?thesis using 3 by auto
qed

text \<open>
  C7: The rules on paths.  A normal path, given by its components, is accepted exactly when it lies
  below an allowed top-level directory and not below /usr/local.  The rules are tests on the text:
  a path that is not normal can be accepted although it names a place below /usr/local.
\<close>

theorem path_rules:
  "(comps_ok cs \<longrightarrow>
     (validate_path (abs_path cs) op = Inr () \<longleftrightarrow>
        (\<exists>top x rest. cs = top # x # rest \<and> (top = ''etc'' \<or> top = ''usr'' \<or> (top = ''var'' \<and> op \<noteq> ADD_FILES)) \<and>
           \<not> (top = ''usr'' \<and> x = ''local'' \<and> rest \<noteq> [])))) \<and>
   (validate_path ''/usr//local/bin'' op = Inr () \<and> path_normpath ''/usr//local/bin'' = ''/usr/local/bin'')"
proof (rule conjI, rule impI)
  assume cs: "comps_ok cs"
  have top: "starts_with (abs_path cs) (slash # t @ ''/'') \<longleftrightarrow> (\<exists>x rest. cs = t # x # rest)" if "slash \<notin> set t" for t
    using join_starts_with [OF cs that, of "[]"] by (simp add: abs_path_def)
  have usr_local: "starts_with (abs_path cs) ''/usr/local/'' \<longleftrightarrow> (\<exists>y rest. cs = ''usr'' # ''local'' # y # rest)"
  proof -
    have "starts_with (py_join ''/'' cs) (''usr'' @ ''/'' @ ''local/'') \<longleftrightarrow>
        (\<exists>x rest. cs = ''usr'' # x # rest \<and> starts_with (py_join ''/'' (x # rest)) (''local'' @ ''/'' @ []))"
      by (subst join_starts_with [OF cs]) simp_all
    also have "\<dots> \<longleftrightarrow> (\<exists>y rest. cs = ''usr'' # ''local'' # y # rest)"
    proof (cases "\<exists>x rest. cs = ''usr'' # x # rest")
      case True
      then obtain x rest where xr: "cs = ''usr'' # x # rest" by blast
      have "starts_with (py_join ''/'' (x # rest)) (''local'' @ ''/'' @ []) \<longleftrightarrow> (\<exists>y r. x # rest = ''local'' # y # r)"
        by (subst join_starts_with) (use cs xr in auto)
      then show ?thesis unfolding xr by auto
    qed auto
    finally show ?thesis by (simp add: abs_path_def)
  qed
  have tops: "(\<exists>a \<in> set (allowed_dirs op). starts_with (abs_path cs) a) \<longleftrightarrow>
      (\<exists>top x rest. cs = top # x # rest \<and> (top = ''etc'' \<or> top = ''usr'' \<or> (top = ''var'' \<and> op \<noteq> ADD_FILES)))"
    using top [of "''etc''"] top [of "''usr''"] top [of "''var''"] by (cases op) auto
  show "validate_path (abs_path cs) op = Inr () \<longleftrightarrow>
        (\<exists>top x rest. cs = top # x # rest \<and> (top = ''etc'' \<or> top = ''usr'' \<or> (top = ''var'' \<and> op \<noteq> ADD_FILES)) \<and>
           \<not> (top = ''usr'' \<and> x = ''local'' \<and> rest \<noteq> []))"
    unfolding validate_path_ok path_ok_def usr_local tops by (auto simp: neq_Nil_conv)
next
  show "validate_path ''/usr//local/bin'' op = Inr () \<and> path_normpath ''/usr//local/bin'' = ''/usr/local/bin''"
  proof (rule conjI)
    show "validate_path ''/usr//local/bin'' op = Inr ()"
      by (cases op) (simp_all add: validate_path_def disallowed_paths_def)
  qed code_simp
qed

theorem path_rules_witness:
  "validate_path (abs_path [''usr'', ''share'', ''doc'']) ADD_FILES = Inr () \<and> validate_path (abs_path [''usr'', ''local'', ''bin'']) ADD_FILES \<noteq> Inr ()"
  using path_rules [of "[''usr'', ''share'', ''doc'']" ADD_FILES] path_rules [of "[''usr'', ''local'', ''bin'']" ADD_FILES]
  by (simp add: plain_comp_def)

section \<open>File inputs\<close>

definition input_name :: "nat \<Rightarrow> string" where
  "input_name i = ''inlinefile'' @ dec_nat i"

lemma input_name_inj: "input_name i = input_name j \<longleftrightarrow> i = j"
  by (simp add: input_name_def dec_nat_inj)

text \<open>
  The inputs, the copies into the side tree and the copies out of it use the same ids: every id
  below the next one has exactly one input and one copy, and a section copies out only such ids.
\<close>

definition inputs_ok :: "extra_include \<Rightarrow> bool" where
  "inputs_ok ei \<longleftrightarrow> ei_content_id ei > 0 \<and>
     dict_keys (ei_inputs ei) = map input_name [1..<ei_content_id ei] \<and>
     ei_paths ei = map gen_file_copy [1..<ei_content_id ei]"

definition copies_ok :: "extra_include \<Rightarrow> contents \<Rightarrow> bool" where
  "copies_ok ei ct \<longleftrightarrow>
     (\<forall>out \<in> set (ct_file_content_copy ct). \<exists>i p. 0 < i \<and> i < ei_content_id ei \<and>
        out = PyDict [(''from'', PyStr (''input://extra/image_content_'' @ dec_nat i)), (''to'', PyStr (''tree://'' @ p))])"

lemma make_extra_include_ok: "inputs_ok (make_extra_include cwd b)"
  by (simp add: inputs_ok_def make_extra_include_def dict_keys_def)

lemma add_file_to_content_ok:
  assumes add: "add_file_to_content data (ei, ct) = Inr (ei', ct')"
    and inv: "inputs_ok ei" "copies_ok ei ct"
  shows "inputs_ok ei' \<and> copies_ok ei' ct' \<and> ei_basedir ei' = ei_basedir ei \<and> ei_content_id ei' = Suc (ei_content_id ei)
    \<and> ct' = ct\<lparr>ct_file_content_copy := ct_file_content_copy ct'\<rparr>"
proof -
  define n where "n = ei_content_id ei"
  obtain inp p where ei': "ei' = ei\<lparr>ei_content_id := n + 1,
      ei_inputs := dict_set (ei_inputs ei) (input_name n) inp, ei_paths := ei_paths ei @ [gen_file_copy n]\<rparr>"
    and ct': "ct' = ct\<lparr>ct_file_content_copy := ct_file_content_copy ct @
      [PyDict [(''from'', PyStr (''input://extra/image_content_'' @ dec_nat n)), (''to'', PyStr (''tree://'' @ p))]]\<rparr>"
    using add by (auto simp: add_file_to_content_def gen_id_def gen_file_copy_out_def n_def input_name_def
        res_simps res_map_def)
  have "0 < n" and keys: "map fst (ei_inputs ei) = map input_name [1..<n]"
    using inv by (auto simp: inputs_ok_def n_def dict_keys_def)
  have "input_name n \<notin> fst ` set (ei_inputs ei)"
    using arg_cong [OF keys, of set] by (auto simp: input_name_inj)
  then have "dict_set (ei_inputs ei) (input_name n) inp = ei_inputs ei @ [(input_name n, inp)]"
    by (rule dict_set_fresh)
  then have "inputs_ok ei'"
    using inv \<open>0 < n\<close> by (simp add: inputs_ok_def ei' dict_keys_def n_def [symmetric])
  moreover have "copies_ok ei' ct'"
    using inv(2) \<open>0 < n\<close> unfolding copies_ok_def ei' ct' by (fastforce simp: n_def [symmetric])
  ultimately show ?thesis by (simp add: ei' ct' n_def)
qed

text \<open>The invariant that every operation on the pair of states keeps.\<close>

definition include_inv :: "extra_include \<times> contents \<Rightarrow> bool" where
  "include_inv st \<longleftrightarrow> inputs_ok (fst st) \<and> copies_ok (fst st) (snd st)"

lemma copies_ok_mkdirs [simp]: "copies_ok ei (ct\<lparr>ct_make_dirs := ds\<rparr>) = copies_ok ei ct"
  by (simp add: copies_ok_def)

lemma ensure_parent_copies [simp]: "copies_ok ei (ensure_parent_directory ct p dest) = copies_ok ei ct"
  by (simp add: ensure_parent_directory_def Let_def)

lemma add_matched_file_ok:
  "add_matched_file fe g dest preserve file st = Inr st' \<Longrightarrow> include_inv st \<Longrightarrow> include_inv st'"
  by (cases st; cases st') (auto simp: add_matched_file_def include_inv_def res_simps dest!: add_file_to_content_ok)

lemma add_glob_files_ok:
  assumes "add_glob_files fe data st = Inr st'" and "include_inv st"
  shows "include_inv st'"
proof -
  obtain ei ct where st: "st = (ei, ct)" by (cases st)
  have "include_inv (ei, ct\<lparr>ct_make_dirs := ds\<rparr>)" for ds
    using assms(2) by (simp add: st include_inv_def)
  moreover have "include_inv t" if "res_fold (add_matched_file fe g dest preserve) fs (ei, ct) = Inr t" for g dest preserve fs t
    using that assms(2) unfolding st
    by (rule res_fold_invariant) (use add_matched_file_ok in blast)
  moreover obtain g dest where "item_str (PyDict data) ''source_glob'' = Inr g" "item_str (PyDict data) ''path'' = Inr dest"
    using assms(1) by (auto simp: st add_glob_files_def res_simps)
  ultimately show ?thesis
    using assms(1) unfolding st add_glob_files_def
    by (cases "find_glob_matches fe ei g"; cases st') (auto simp: res_simps Let_def split: option.splits if_splits)
qed

lemma add_file_copy_ok:
  "add_file_copy fe file st = Inr st' \<Longrightarrow> include_inv st \<Longrightarrow> include_inv st'"
  by (cases st; cases st')
    (auto simp: add_file_copy_def include_inv_def split: pyval.splits sum.splits exn.splits
      dest!: add_file_to_content_ok add_glob_files_ok [unfolded include_inv_def, OF _ conjI])

lemma set_defines_include:
  assumes "set_defines fe ct ei d = Inr (ct', ei', d')" and "inputs_ok ei" and "copies_ok ei ct"
  shows "inputs_ok ei' \<and> copies_ok ei' ct'"
proof -
  obtain ct1 where fold: "res_fold (add_file_copy fe) (ct_add_files ct) (ei, ct) = Inr (ei', ct1)"
    and copy: "ct_file_content_copy ct' = ct_file_content_copy ct1"
    using assms(1) by (auto simp: set_defines_def Let_def res_simps res_map_def)
  have "include_inv (ei', ct1)"
    using fold by (rule res_fold_invariant) (use assms add_file_copy_ok in \<open>auto simp: include_inv_def\<close>)
  then show ?thesis using copy by (simp add: include_inv_def copies_ok_def)
qed


definition no_files :: fs_env where
  "no_files = \<lparr>fe_cwd = ''/'', fe_glob = (\<lambda>p. [p]), fe_isfile = (\<lambda>p. True)\<rparr>"

definition sample_content :: dict where
  "sample_content =
     [(''add_files'', PyList [PyDict [(''path'', PyStr ''/etc/motd''), (''text'', PyStr ''hello'')],
                              PyDict [(''path'', PyStr ''/usr/share/x''), (''source_glob'', PyStr ''x.conf'')]]),
      (''container_images'', PyList [PyDict [(''source'', PyStr ''quay.io/app'')]])]"

definition empty_ct :: "bool \<Rightarrow> contents" where
  "empty_ct qm = \<lparr>ct_qm = qm, ct_enable_repos = [], ct_repos = [], ct_rpms = [], ct_containers = [],
     ct_add_files = [], ct_chown_files = [], ct_chmod_files = [], ct_remove_files = [], ct_make_dirs = [],
     ct_add_symlinks = [], ct_file_content_copy = [], ct_systemd = []\<rparr>"

lemma empty_contents: "make_contents qm [] = Inr (empty_ct qm)"
  by (simp add: make_contents_def get_list_def dict_get_or_def validate_paths_def empty_ct_def)

lemma empty_ct_simps [simp]:
  "ct_add_files (empty_ct qm) = []" "ct_file_content_copy (empty_ct qm) = []" "ct_make_dirs (empty_ct qm) = []"
  "ct_add_symlinks (empty_ct qm) = []" "ct_chmod_files (empty_ct qm) = []" "ct_chown_files (empty_ct qm) = []"
  "ct_remove_files (empty_ct qm) = []" "ct_repos (empty_ct qm) = []" "ct_rpms (empty_ct qm) = []"
  "ct_enable_repos (empty_ct qm) = []" "ct_containers (empty_ct qm) = []" "ct_systemd (empty_ct qm) = []"
  "(empty_ct qm)\<lparr>ct_repos := [], ct_rpms := []\<rparr> = empty_ct qm"
  by (simp_all add: empty_ct_def)

lemma set_defines_empty: "set_defines fe (empty_ct qm) ei d = Inr (empty_ct qm, ei, d)"
  by (simp add: set_defines_def by_path_def set_define_def ld_set_def py_in_def Let_def)


section \<open>Destinations\<close>

text \<open>
  Where a globbed file goes: without \<open>preserve_path\<close> directly into the destination directory;
  with it, for a plain relative pattern the path below the manifest's directory is kept, for a
  recursive one the path below the directory the pattern starts with.
\<close>

theorem glob_destination:
  assumes "comps_ok bs" and "comps_ok ss" and "comps_ok rs" and "rs \<noteq> []" and "comps_ok ds"
    and "ei_basedir ei = abs_path bs"
  shows "calculate_destination_path fe ei (abs_path (bs @ rs)) g (abs_path ds) False = Inr (abs_path (ds @ [last rs])) \<and>
    (\<not> path_isabs g \<and> \<not> contains g ''..'' \<and> \<not> is_recursive_glob g \<longrightarrow>
       calculate_destination_path fe ei (abs_path (bs @ rs)) g (abs_path ds) True = Inr (abs_path (ds @ rs))) \<and>
    (ss \<noteq> [] \<and> g = py_join ''/'' ss @ ''/**/*'' \<and> \<not> contains g ''..'' \<longrightarrow>
       calculate_destination_path fe ei (abs_path (bs @ ss @ rs)) g (abs_path ds) True = Inr (abs_path (ds @ rs)))"
proof (intro conjI impI)
  have last: "last (bs @ rs) = last rs" "comps_ok [last rs]"
    using assms(3,4) by (auto simp: comps_ok_def list_all_iff)
  show "calculate_destination_path fe ei (abs_path (bs @ rs)) g (abs_path ds) False = Inr (abs_path (ds @ [last rs]))"
    using basename_abs_path [of "bs @ rs"] join_abs_path [of ds "[last rs]"] assms last
    by (simp add: calculate_destination_path_def)
next
  assume "\<not> path_isabs g \<and> \<not> contains g ''..'' \<and> \<not> is_recursive_glob g"
  then show "calculate_destination_path fe ei (abs_path (bs @ rs)) g (abs_path ds) True = Inr (abs_path (ds @ rs))"
    using assms
    by (simp add: calculate_destination_path_def relative_glob_dest_def normal_glob_def relpath_abs_path
        under_dest_def join_abs_path)
next
  assume g: "ss \<noteq> [] \<and> g = py_join ''/'' ss @ ''/**/*'' \<and> \<not> contains g ''..''"
  have stem: "take (length g - 5) g = py_join ''/'' ss" and ends: "ends_with g ''/**/*''"
    and nd: "\<not> contains g ''..''"
    using g by auto
  have ne: "py_join ''/'' ss \<noteq> []" using join_comps_first [of ss] assms(2) g by auto
  have rel: "\<not> path_isabs g"
    using join_comps_first [of ss] assms(2) g by (auto simp: path_isabs_def)
  have "path_normpath (path_join (abs_path bs) (py_join ''/'' ss)) = abs_path (bs @ ss)"
    using join_abs_path [of bs ss] assms g by simp
  moreover have "path_relpath (fe_cwd fe) (abs_path ((bs @ ss) @ rs)) (abs_path (bs @ ss)) = Inr (py_join ''/'' rs)"
    by (rule relpath_abs_path) (use assms in auto)
  ultimately show "calculate_destination_path fe ei (abs_path (bs @ ss @ rs)) g (abs_path ds) True = Inr (abs_path (ds @ rs))"
    using assms rel ends stem ne nd
    by (simp add: calculate_destination_path_def relative_glob_dest_def recursive_glob_def is_recursive_glob_def
        under_dest_def join_abs_path Let_def del: ends_with_rev)
qed

theorem glob_destination_witness:
  "calculate_destination_path no_files (make_extra_include ''/'' ''/src'') ''/src/files/a/b.conf'' ''files/**/*'' ''/etc'' True
     = Inr ''/etc/a/b.conf''"
proof -
  have base: "ei_basedir (make_extra_include ''/'' ''/src'') = abs_path [''src'']" by code_simp
  have "comps_ok [''src'']" "comps_ok [''files'']" "comps_ok [''a'', ''b.conf'']" "comps_ok [''etc'']"
    by (simp_all add: plain_comp_def)
  note dest = glob_destination [OF this(1) this(2) this(3) _ this(4) base, of no_files "''files/**/*''"]
  have "\<not> contains ''files/**/*'' ''..''" by code_simp
  then show ?thesis using dest by (simp add: abs_path_def)
qed

section \<open>What a section sets\<close>

text \<open>
  A store whose updates may be skipped for some values; a lookup after a sequence of updates of
  keys with a property changes only at keys with it.
\<close>

locale guarded_store =
  fixes look :: "'d \<Rightarrow> 'k \<Rightarrow> 'v option"
    and upd :: "'k \<Rightarrow> 'v \<Rightarrow> 'd \<Rightarrow> 'd"
    and skipped :: "'v \<Rightarrow> bool"
  assumes look_upd: "look (upd k v d) k' = (if k' = k \<and> \<not> skipped v then Some v else look d k')"
begin

text \<open>\<open>d'\<close> comes from \<open>d\<close> by changes at keys with \<open>P\<close>, none of which stores a skipped value.\<close>

definition evolves :: "('k \<Rightarrow> bool) \<Rightarrow> 'd \<Rightarrow> 'd \<Rightarrow> bool" where
  "evolves P d d' \<longleftrightarrow>
     (\<forall>k. look d' k = look d k \<or> (P k \<and> (\<exists>v. look d' k = Some v \<and> \<not> skipped v)))"

lemma evolves_refl [simp]: "evolves P d d"
  by (simp add: evolves_def)

lemma evolves_trans [trans]: "evolves P d d' \<Longrightarrow> evolves P d' d'' \<Longrightarrow> evolves P d d''"
  unfolding evolves_def by metis

lemma evolves_upd: "P k \<Longrightarrow> evolves P d (upd k v d)"
  by (simp add: evolves_def look_upd)

lemma evolves_upd_trans: "evolves P d d' \<Longrightarrow> P k \<Longrightarrow> evolves P d (upd k v d')"
  by (rule evolves_trans [OF _ evolves_upd])

lemma evolves_if: "evolves P d d' \<Longrightarrow> evolves P d d'' \<Longrightarrow> evolves P d (if b then d' else d'')"
  by simp

lemma evolves_mono: "evolves P d d' \<Longrightarrow> (\<And>k. P k \<Longrightarrow> Q k) \<Longrightarrow> evolves Q d d'"
  unfolding evolves_def by blast

lemma evolves_frame: "evolves P d d' \<Longrightarrow> \<not> P k \<Longrightarrow> look d' k = look d k"
  unfolding evolves_def by blast

lemma evolves_no_skipped:
  "evolves P d d' \<Longrightarrow> (\<And>k v. look d k = Some v \<Longrightarrow> \<not> skipped v) \<Longrightarrow> look d' k = Some v \<Longrightarrow> \<not> skipped v"
  unfolding evolves_def by (metis option.inject)

end

definition empty_value :: "pyval \<Rightarrow> bool" where
  "empty_value v \<longleftrightarrow> v = PyList [] \<or> v = PyDict []"

interpretation ld: guarded_store dict_get ld_set empty_value
  by unfold_locales (simp add: ld_set_def empty_value_def)

lemmas ld_evolves = ld.evolves_upd_trans ld.evolves_refl

lemma ensure_parent_qm [simp]: "ct_qm (ensure_parent_directory ct p dest) = ct_qm ct"
  by (simp add: ensure_parent_directory_def Let_def)

lemma add_file_to_content_qm: "add_file_to_content data st = Inr st' \<Longrightarrow> ct_qm (snd st') = ct_qm (snd st)"
  by (cases st) (auto simp: add_file_to_content_def gen_id_def res_simps)

lemma add_matched_file_qm: "add_matched_file fe g dest preserve file st = Inr st' \<Longrightarrow> ct_qm (snd st') = ct_qm (snd st)"
  by (cases st) (auto simp: add_matched_file_def res_simps dest!: add_file_to_content_qm split: if_splits)

lemma add_glob_files_qm:
  assumes "add_glob_files fe data st = Inr st'"
  shows "ct_qm (snd st') = ct_qm (snd st)"
proof -
  obtain ei ct where st: "st = (ei, ct)" by (cases st)
  have "ct_qm (snd t) = ct_qm ct" if "res_fold (add_matched_file fe g dest preserve) fs (ei, ct) = Inr t" for g dest preserve fs t
    using that by (rule res_fold_invariant) (auto dest: add_matched_file_qm)
  moreover obtain g dest where "item_str (PyDict data) ''source_glob'' = Inr g" "item_str (PyDict data) ''path'' = Inr dest"
    using assms by (auto simp: st add_glob_files_def res_simps)
  ultimately show ?thesis
    using assms unfolding st add_glob_files_def
    by (cases "find_glob_matches fe ei g"; cases st') (auto simp: res_simps Let_def split: option.splits if_splits)
qed

lemma add_file_copy_qm: "add_file_copy fe file st = Inr st' \<Longrightarrow> ct_qm (snd st') = ct_qm (snd st)"
  by (auto simp: add_file_copy_def split: pyval.splits sum.splits exn.splits
      dest: add_file_to_content_qm add_glob_files_qm)

text \<open>What each part of \<open>set_defines\<close> keeps: the class of the contents, and all other defines.\<close>

definition section_key :: "string \<Rightarrow> bool" where
  "section_key k \<longleftrightarrow> starts_with k ''simple_'' \<or> k = ''use_containers_extra_store''"

definition keeps :: "(string \<Rightarrow> bool) \<Rightarrow> define_state \<Rightarrow> define_state \<Rightarrow> bool" where
  "keeps P s s' \<longleftrightarrow> ct_qm (fst s') = ct_qm (fst s) \<and>
     ((\<forall>k. section_key k \<longrightarrow> P (get_key (ct_qm (fst s)) k)) \<longrightarrow> ld.evolves P (snd (snd s)) (snd (snd s')))"

lemma keeps_trans: "keeps P s s' \<Longrightarrow> keeps P s' s'' \<Longrightarrow> keeps P s s''"
  by (auto simp: keeps_def intro: ld.evolves_trans)

lemma set_define_evolves:
  "ld.evolves P d d' \<Longrightarrow> section_key k \<Longrightarrow> \<forall>k. section_key k \<longrightarrow> P (get_key (ct_qm ct) k) \<Longrightarrow>
    ld.evolves P d (set_define ct k v d')"
  unfolding set_define_def by (rule ld.evolves_upd_trans) auto

lemma section_keys [simp]:
  "section_key ''simple_copy''" "section_key ''simple_mkdir''" "section_key ''simple_symlinks''"
  "section_key ''simple_chmod''" "section_key ''simple_chown''" "section_key ''simple_remove''"
  "section_key ''simple_add_debug_repos''" "section_key ''simple_add_devel_repos''"
  "section_key ''simple_repos''" "section_key ''simple_rpms''" "section_key ''simple_containers''"
  "section_key ''simple_systemd''" "section_key ''use_containers_extra_store''"
  by (simp_all add: section_key_def)

lemmas section_evolves = set_define_evolves ld.evolves_refl ld.evolves_if

lemmas stages [simp del] = file_defines.simps link_defines.simps mode_defines.simps repo_defines.simps package_defines.simps

lemma file_defines_keeps:
  assumes "file_defines fe s = Inr s'"
  shows "keeps P s s'"
proof -
  obtain ct ei d where s: "s = (ct, ei, d)" by (cases s)
  obtain ei1 ct1 where fold: "res_fold (add_file_copy fe) (ct_add_files ct) (ei, ct) = Inr (ei1, ct1)"
    and s': "s' = (ct1, ei1, set_define ct1 ''simple_mkdir'' (PyList (ct_make_dirs ct1))
         (set_define ct1 ''simple_copy'' (PyList (ct_file_content_copy ct1)) d))"
    using assms by (auto simp: s file_defines.simps res_map_def res_simps)
  have "ct_qm (snd (ei1, ct1)) = ct_qm ct"
    using fold by (rule res_fold_invariant) (auto dest: add_file_copy_qm)
  then show ?thesis by (auto simp: keeps_def s s' intro!: section_evolves)
qed

lemma link_defines_keeps: "link_defines s = Inr s' \<Longrightarrow> keeps P s s'"
  by (cases s) (auto simp: keeps_def link_defines.simps res_simps res_map_def intro!: section_evolves)

lemma mode_defines_keeps: "mode_defines s = Inr s' \<Longrightarrow> keeps P s s'"
  by (cases s) (auto simp: keeps_def mode_defines.simps res_simps intro!: section_evolves)

lemma repo_defines_keeps: "repo_defines s = Inr s' \<Longrightarrow> keeps P s s'"
  by (cases s) (auto simp: keeps_def repo_defines.simps res_simps res_map_def Let_def intro!: section_evolves)

lemma package_defines_keeps: "keeps P s (package_defines s)"
proof -
  obtain ct ei d where s: "s = (ct, ei, d)" by (cases s)
  show ?thesis
    unfolding s keeps_def package_defines.simps Let_def fst_conv snd_conv
    by (intro conjI impI section_evolves) simp_all
qed

lemma set_defines_keeps:
  assumes "set_defines fe ct ei d = Inr s'"
  shows "keeps P (ct, ei, d) s'"
proof -
  obtain s1 s2 s3 s4 where a: "file_defines fe (ct, ei, d) = Inr s1" and b: "link_defines s1 = Inr s2"
    and c: "mode_defines s2 = Inr s3" and e: "repo_defines s3 = Inr s4" and s': "s' = package_defines s4"
    using assms by (auto simp: set_defines_def res_map_def res_simps)
  show ?thesis
    unfolding s'
    by (rule keeps_trans [OF file_defines_keeps [OF a] keeps_trans [OF link_defines_keeps [OF b]
          keeps_trans [OF mode_defines_keeps [OF c] keeps_trans [OF repo_defines_keeps [OF e] package_defines_keeps]]]])
qed

lemma set_defines_evolves:
  assumes "set_defines fe ct ei d = Inr (ct', ei', d')"
    and "\<And>k. section_key k \<Longrightarrow> P (get_key (ct_qm ct) k)"
  shows "ld.evolves P d d'"
  using set_defines_keeps [OF assms(1), of P] assms(2) by (simp add: keeps_def)

text \<open>
  The QM partition shares the code of the root partition but not its defines: setting the
  defines of QM contents changes no define whose name does not start with \<open>qm_\<close> or \<open>use_qm_\<close>, those of
  root contents none that starts with \<open>qm_\<close>, and neither stores an empty list or dictionary.
\<close>

theorem partition_defines_disjoint:
  assumes "set_defines fe ct ei d = Inr (ct', ei', d')"
  shows "(ct_qm ct \<and> \<not> starts_with k ''qm_'' \<and> \<not> starts_with k ''use_qm_'' \<longrightarrow> dict_get d' k = dict_get d k) \<and>
    (\<not> ct_qm ct \<and> (starts_with k ''qm_'' \<or> starts_with k ''use_qm_'') \<longrightarrow> dict_get d' k = dict_get d k) \<and>
    (dict_get d' k = Some v \<and> (v = PyList [] \<or> v = PyDict []) \<longrightarrow> dict_get d k = Some v)"
proof -
  note ev = set_defines_evolves [OF assms, unfolded section_key_def]
  have "ld.evolves (\<lambda>k. starts_with k ''qm_'' \<or> starts_with k ''use_qm_'') d d'" if "ct_qm ct"
    by (rule ev) (auto simp: that get_key_def)
  moreover have "ld.evolves (\<lambda>k. starts_with k ''simple_'' \<or> k = ''use_containers_extra_store'') d d'" if "\<not> ct_qm ct"
    by (rule ev) (auto simp: that get_key_def)
  moreover have "ld.evolves (\<lambda>k. True) d d'" by (rule ev) simp
  moreover have "\<not> (starts_with k ''simple_'' \<or> k = ''use_containers_extra_store'')"
    if "starts_with k ''qm_'' \<or> starts_with k ''use_qm_''"
    using that by (auto simp: starts_with_iff)
  ultimately show ?thesis
    unfolding ld.evolves_def empty_value_def by (metis option.inject)
qed

definition sample_qm :: dict where
  "sample_qm = [(''container_images'', PyList [PyDict [(''source'', PyStr ''app'')]])]"

definition root_defines :: dict where
  "root_defines = [(''simple_rpms'', PyList [PyStr ''vim''])]"

theorem partition_defines_disjoint_witness:
  "\<exists>ct ct' ei' d'. make_contents True sample_qm = Inr ct \<and>
     set_defines no_files ct (make_extra_include ''/'' ''/src'') root_defines = Inr (ct', ei', d') \<and>
     dict_get d' ''simple_rpms'' = Some (PyList [PyStr ''vim''])"
proof -
  define ct where "ct = projr (make_contents True sample_qm)"
  define r where "r = projr (set_defines no_files ct (make_extra_include ''/'' ''/src'') root_defines)"
  have "\<not> isl (make_contents True sample_qm) \<and> ct_qm ct" unfolding ct_def by code_simp
  then have ct: "make_contents True sample_qm = Inr ct" "ct_qm ct"
    unfolding ct_def by (cases "make_contents True sample_qm"; simp)+
  have "\<not> isl (set_defines no_files ct (make_extra_include ''/'' ''/src'') root_defines)"
    unfolding ct_def by code_simp
  then have r: "set_defines no_files ct (make_extra_include ''/'' ''/src'') root_defines = Inr (fst r, fst (snd r), snd (snd r))"
    unfolding r_def by (cases "set_defines no_files ct (make_extra_include ''/'' ''/src'') root_defines") auto
  have "dict_get (snd (snd r)) ''simple_rpms'' = dict_get root_defines ''simple_rpms''"
    by (rule partition_defines_disjoint [OF r, of "''simple_rpms''" PyNone, THEN conjunct1, rule_format])
      (simp add: ct(2))
  also have "\<dots> = Some (PyList [PyStr ''vim''])" by (simp add: root_defines_def)
  finally show ?thesis using ct(1) r by blast
qed

end
