(* ===== verification/Policy_Laws.thy ===== *)
theory Policy_Laws
  imports Policy_Check
begin

text \<open>
  What the policy system guarantees: the merge of target entries against its specification, the
  build argument check against the entries as they are written in the policy file, and the
  manifest checks against declarative readings of the allow and disallow rules.
\<close>

section \<open>Target entries\<close>

lemma break_at_key:
  "break_at ''@'' key = Some (k, tg) \<longleftrightarrow> key = k @ CHR ''@'' # tg \<and> CHR ''@'' \<notin> set k"
  by (auto dest: break_at_char_Some simp: break_at_char_fresh)

text \<open>The entry that the policy file has for a key and the target.\<close>

definition target_entry :: "string option \<Rightarrow> dict \<Rightarrow> string \<Rightarrow> pyval option" where
  "target_entry t d k = (case t of None \<Rightarrow> None | Some tg \<Rightarrow> dict_get d (k @ CHR ''@'' # tg))"

text \<open>The value an entry takes when it is merged, and when the two values are of the right kind.\<close>

fun merged :: "pyval \<Rightarrow> pyval \<Rightarrow> pyval" where
  "merged (PyList xs) (PyList ys) = PyList (xs @ ys)"
| "merged (PyDict d) (PyDict e) = PyDict (dict_update d e)"
| "merged b v = b"

definition merge_typed :: "string \<Rightarrow> pyval \<Rightarrow> pyval \<Rightarrow> bool" where
  "merge_typed k b v \<longleftrightarrow>
     (if k \<in> {''allow'', ''disallow''} then is_list b \<and> is_list v else is_dict b \<and> is_dict v)"

lemma is_list_E: "is_list v \<Longrightarrow> (\<And>xs. v = PyList xs \<Longrightarrow> P) \<Longrightarrow> P"
  by (cases v) auto

lemma is_dict_E: "is_dict v \<Longrightarrow> (\<And>d. v = PyDict d \<Longrightarrow> P) \<Longrightarrow> P"
  by (cases v) auto

lemma merge_entry_typed: "merge_typed k b v \<Longrightarrow> merge_entry k b v = Inr (merged b v)"
  by (auto simp: merge_typed_def merge_entry_def elim!: is_list_E is_dict_E split: if_splits)

definition well_typed_targets :: "string option \<Rightarrow> (string \<times> pyval) list \<Rightarrow> dict \<Rightarrow> bool" where
  "well_typed_targets t items d \<longleftrightarrow>
     (\<forall>k b v. CHR ''@'' \<notin> set k \<longrightarrow> dict_get d k = Some b \<longrightarrow> target_entry t items k = Some v \<longrightarrow>
        merge_typed k b v)"

definition merged_lookup :: "pyval option \<Rightarrow> pyval option \<Rightarrow> pyval option" where
  "merged_lookup base entry =
     (case base of None \<Rightarrow> None | Some b \<Rightarrow> Some (case entry of None \<Rightarrow> b | Some v \<Rightarrow> merged b v))"

lemma target_entry_Cons_other:
  assumes "\<And>k' tg. t = Some tg \<Longrightarrow> key \<noteq> k @ CHR ''@'' # tg"
  shows "target_entry t ((key, w) # items) k = target_entry t items k"
  using assms by (auto simp: target_entry_def split: option.split)

lemma at_key_eq:
  "CHR ''@'' \<notin> set k \<Longrightarrow> CHR ''@'' \<notin> set k' \<Longrightarrow>
    (k @ CHR ''@'' # a = k' @ CHR ''@'' # b) \<longleftrightarrow> k = k' \<and> a = b"
  using break_at_key by (metis option.inject prod.inject)

text \<open>
  The outcome of the loop from any point of the iteration, \<open>items\<close> being the entries still to come:
  the exception if one of them has no global entry, else a dictionary with the merged values.
\<close>

definition changed_size :: exn where
  "changed_size = Runtime_Error ''dictionary changed size during iteration''"

definition orphan :: "string option \<Rightarrow> (string \<times> pyval) list \<Rightarrow> dict \<Rightarrow> string \<Rightarrow> bool" where
  "orphan t items d k \<longleftrightarrow> CHR ''@'' \<notin> set k \<and> target_entry t items k \<noteq> None \<and> dict_get d k = None"

definition merge_outcome :: "string option \<Rightarrow> (string \<times> pyval) list \<Rightarrow> dict \<Rightarrow> dict res \<Rightarrow> bool" where
  "merge_outcome t items d r \<longleftrightarrow>
     (if \<exists>k. orphan t items d k then r = Inl changed_size
      else \<exists>d'. r = Inr d' \<and> (\<forall>k. CHR ''@'' \<notin> set k \<longrightarrow>
             dict_get d' k = merged_lookup (dict_get d k) (target_entry t items k)))"

text \<open>A key that is not for the target, and a key that is, relate the outcome to that of the rest.\<close>

lemma merge_outcome_cong:
  assumes "merge_outcome t items d r"
    and "\<And>k. CHR ''@'' \<notin> set k \<Longrightarrow> target_entry t items' k = target_entry t items k"
  shows "merge_outcome t items' d r"
proof -
  have "orphan t items' d = orphan t items d"
    using assms(2) by (auto simp: orphan_def fun_eq_iff)
  then show ?thesis using assms by (auto simp: merge_outcome_def)
qed

lemma merge_outcome_step:
  assumes out: "merge_outcome t items (dict_set d k (merged b v)) r"
    and k: "CHR ''@'' \<notin> set k" and b: "dict_get d k = Some b"
    and v: "target_entry t items' k = Some v" and fresh: "target_entry t items k = None"
    and other: "\<And>k'. k' \<noteq> k \<Longrightarrow> CHR ''@'' \<notin> set k' \<Longrightarrow> target_entry t items' k' = target_entry t items k'"
  shows "merge_outcome t items' d r"
proof -
  have eq: "orphan t items' d = orphan t items (dict_set d k (merged b v))"
  proof
    show "orphan t items' d k' = orphan t items (dict_set d k (merged b v)) k'" for k'
      using b v fresh other by (cases "k' = k") (auto simp: orphan_def)
  qed
  have "merged_lookup (dict_get (dict_set d k (merged b v)) k') (target_entry t items k') =
      merged_lookup (dict_get d k') (target_entry t items' k')" if "CHR ''@'' \<notin> set k'" for k'
    using b v fresh other [OF _ that] by (cases "k' = k") (auto simp: merged_lookup_def)
  then show ?thesis
    using out unfolding merge_outcome_def eq by (auto simp del: dict_get_set split: if_splits)
qed

lemma merge_targets_correct:
  assumes "distinct (map fst items)" and "well_typed_targets t items d"
  shows "merge_outcome t items d (merge_targets t items d)"
  using assms
proof (induction items arbitrary: d)
  case Nil
  then show ?case
    by (auto simp: target_entry_def merged_lookup_def merge_outcome_def orphan_def split: option.splits)
next
  case (Cons item items)
  obtain key w where item: "item = (key, w)" by (cases item)
  note typed = Cons.prems(2) [unfolded well_typed_targets_def item, rule_format]
  have dist: "distinct (map fst items)" using Cons.prems(1) by simp
  show ?case
  proof (cases "\<exists>k tg. t = Some tg \<and> key = k @ CHR ''@'' # tg \<and> CHR ''@'' \<notin> set k")
    case False
    have entry: "target_entry t (item # items) k = target_entry t items k" if "CHR ''@'' \<notin> set k" for k
      using False that unfolding item by (intro target_entry_Cons_other) auto
    have "merge_targets t (item # items) d = merge_targets t items d"
      using False by (auto simp: item break_at_key split: option.splits)
    moreover have "well_typed_targets t items d"
      using typed entry unfolding well_typed_targets_def item by metis
    ultimately show ?thesis using Cons.IH [OF dist] entry by (auto intro: merge_outcome_cong)
  next
    case True
    then obtain k tg where t: "t = Some tg" and key: "key = k @ CHR ''@'' # tg"
      and k: "CHR ''@'' \<notin> set k" by blast
    have brk: "break_at ''@'' key = Some (k, tg)" by (simp add: break_at_key key k)
    have entry_k: "target_entry t (item # items) k = Some w"
      by (simp add: target_entry_def t key item)
    show ?thesis
    proof (cases "dict_get d k")
      case None
      then have "orphan t (item # items) d k" using entry_k k by (simp add: orphan_def)
      then show ?thesis using brk t None by (auto simp: merge_outcome_def item changed_size_def)
    next
      case (Some b)
      have typed_k: "merge_typed k b w" using typed k Some entry_k by (simp add: item)
      have fresh: "target_entry t items k = None"
        using Cons.prems(1) by (auto simp: target_entry_def t key item dict_get_None_iff)
      have other: "target_entry t (item # items) k' = target_entry t items k'"
        if "k' \<noteq> k" "CHR ''@'' \<notin> set k'" for k'
        using that k unfolding item by (intro target_entry_Cons_other) (auto simp: key at_key_eq)
      have "merge_targets t (item # items) d = merge_targets t items (dict_set d k (merged b w))"
        using brk t Some merge_entry_typed [OF typed_k] by (simp add: item)
      moreover have "well_typed_targets t items (dict_set d k (merged b w))"
        using typed other fresh unfolding well_typed_targets_def item
        by (metis dict_get_set option.distinct(1))
      ultimately show ?thesis
        using merge_outcome_step [OF Cons.IH [OF dist] k Some entry_k fresh other] by simp
    qed
  qed
qed

text \<open>The section after its \<open>@\<close> keys are dropped.\<close>

lemma process_section_outcome:
  assumes "wf_dict d" and "well_typed_targets t d d"
  shows "if \<exists>k. orphan t d d k then process_section t d = Inl changed_size
    else \<exists>d'. process_section t d = Inr d' \<and>
      (\<forall>k. dict_get d' k = (if CHR ''@'' \<in> set k then None else merged_lookup (dict_get d k) (target_entry t d k)))"
proof -
  have out: "merge_outcome t d d (merge_targets t d d)"
    using merge_targets_correct assms by (simp add: wf_dict_def)
  have drop: "dict_get (drop_target_keys x) k = (if CHR ''@'' \<in> set k then None else dict_get x k)" for x k
    unfolding drop_target_keys_def by (subst dict_get_filter) simp
  show ?thesis
    using out by (auto simp: merge_outcome_def process_section_def drop)
qed

section \<open>Checkers\<close>

text \<open>
  The contract of a check: on the inputs of its domain it returns an error list, empty exactly when
  the input is acceptable.  A sequence of checks then accepts exactly when each does.
\<close>

locale checker =
  fixes run :: "'x \<Rightarrow> policy_msg list res"
    and ok :: "'x \<Rightarrow> bool"
    and dm :: "'x \<Rightarrow> bool"
  assumes run_ok: "dm x \<Longrightarrow> \<exists>es. run x = Inr es \<and> (es = [] \<longleftrightarrow> ok x)"
begin

lemma run_Inr: "dm x \<Longrightarrow> run x = Inr es \<Longrightarrow> es = [] \<longleftrightarrow> ok x"
  using run_ok by fastforce

lemma run_all:
  "\<forall>x \<in> set xs. dm x \<Longrightarrow>
    \<exists>es. concat_errors (map run xs) = Inr es \<and> (es = [] \<longleftrightarrow> (\<forall>x \<in> set xs. ok x))"
proof (induction xs)
  case Nil
  then show ?case by simp
next
  case (Cons x xs)
  then obtain es where "concat_errors (map run xs) = Inr es" "es = [] \<longleftrightarrow> (\<forall>x \<in> set xs. ok x)"
    by auto
  moreover obtain e where "run x = Inr e" "e = [] \<longleftrightarrow> ok x"
    using Cons.prems run_ok by auto
  ultimately show ?case by (auto simp: append_errors_def)
qed

end

section \<open>Build arguments\<close>

text \<open>A processed section with list entries, and what it permits.\<close>

fun str_list :: "pyval \<Rightarrow> bool" where
  "str_list (PyList xs) = list_all (\<lambda>x. case x of PyStr s \<Rightarrow> True | _ \<Rightarrow> False) xs"
| "str_list v = False"

lemma str_list_iff: "str_list v \<longleftrightarrow> (\<exists>ss. v = PyList (map PyStr ss))"
proof
  assume v: "str_list v"
  then obtain xs where xs: "v = PyList xs" by (cases v) auto
  have "\<exists>ss. xs = map PyStr ss"
    using v unfolding xs
    by (induction xs) (auto split: pyval.splits intro: exI [of _ "_ # _"])
  then show "\<exists>ss. v = PyList (map PyStr ss)" by (simp add: xs)
qed (auto simp: list_all_iff)

definition plain_section :: "dict \<Rightarrow> bool" where
  "plain_section d \<longleftrightarrow>
     (\<forall>k v. k \<in> {''allow'', ''disallow''} \<longrightarrow> dict_get d k = Some v \<longrightarrow> (\<exists>ss. v = PyList (map PyStr ss)))"

definition section_permits :: "dict \<Rightarrow> string \<Rightarrow> bool" where
  "section_permits d x \<longleftrightarrow>
     (case dict_get d ''allow'' of None \<Rightarrow> True | Some v \<Rightarrow> x \<in> set (str_items v)) \<and>
     (case dict_get d ''disallow'' of None \<Rightarrow> True | Some v \<Rightarrow> x \<notin> set (str_items v))"

lemma str_items_Str [simp]: "str_items (PyList (map PyStr ss)) = ss"
  by (induction ss) auto

lemma in_container_Str [simp]:
  "in_container (PyStr x) (PyList (map PyStr ss)) = Inr (x \<in> set ss)"
  by (auto simp: py_in_Str)

lemma validate_restriction_ok:
  assumes "plain_section d"
  shows "\<exists>es. validate_restriction p ty x d = Inr es \<and> (es = [] \<longleftrightarrow> section_permits d x)"
proof -
  have a: "\<exists>as. v = PyList (map PyStr as)" if "dict_get d ''allow'' = Some v" for v
    using assms that by (auto simp: plain_section_def)
  have b: "\<exists>ds. v = PyList (map PyStr ds)" if "dict_get d ''disallow'' = Some v" for v
    using assms that by (auto simp: plain_section_def)
  show ?thesis
    by (cases "dict_get d ''allow''"; cases "dict_get d ''disallow''")
      (auto simp: validate_restriction_def section_permits_def dest!: a b simp del: in_container.simps)
qed

interpretation restr: checker "\<lambda>(ty, x, d). validate_restriction p ty x d"
  "\<lambda>(ty, x, d). section_permits d x" "\<lambda>(ty, x, d). plain_section d" for p
  by unfold_locales (use validate_restriction_ok in auto)

text \<open>
  The sections of the schema's allow/disallow kind, as written in the file, and the names their
  entries list for a target.
\<close>

definition list_section :: "dict \<Rightarrow> bool" where
  "list_section d \<longleftrightarrow> wf_dict d \<and>
     (\<forall>(k, v) \<in> set d. str_list v \<and>
        (\<exists>b \<in> {''allow'', ''disallow''}. k = b \<or> starts_with k (b @ ''@'')))"

definition effective :: "string option \<Rightarrow> dict \<Rightarrow> string \<Rightarrow> string list option" where
  "effective t d k = map_option (\<lambda>v. str_items v @ (case target_entry t d k of None \<Rightarrow> [] | Some w \<Rightarrow> str_items w))
     (dict_get d k)"

definition permits :: "string option \<Rightarrow> dict \<Rightarrow> string \<Rightarrow> bool" where
  "permits t d x \<longleftrightarrow>
     (case effective t d ''allow'' of None \<Rightarrow> True | Some names \<Rightarrow> x \<in> set names) \<and>
     (case effective t d ''disallow'' of None \<Rightarrow> True | Some names \<Rightarrow> x \<notin> set names)"

lemma list_section_values: "list_section d \<Longrightarrow> dict_get d k = Some v \<Longrightarrow> \<exists>ss. v = PyList (map PyStr ss)"
  unfolding list_section_def by (auto simp: str_list_iff dest!: dict_get_in bspec)

lemma list_section_target:
  assumes "list_section d" and "target_entry t d k = Some v"
  shows "\<exists>ss. v = PyList (map PyStr ss)"
proof -
  obtain tg where "dict_get d (k @ CHR ''@'' # tg) = Some v"
    using assms(2) by (auto simp: target_entry_def split: option.splits)
  then show ?thesis by (rule list_section_values [OF assms(1)])
qed

lemma list_section_typed: "list_section d \<Longrightarrow> well_typed_targets t d d"
  unfolding well_typed_targets_def
proof (intro allI impI)
  fix k b v
  assume d: "list_section d" and k: "CHR ''@'' \<notin> set k" and b: "dict_get d k = Some b"
    and v: "target_entry t d k = Some v"
  have "k \<in> {''allow'', ''disallow''}"
    using d k dict_get_in [OF b] unfolding list_section_def by (fastforce simp: starts_with_iff)
  moreover obtain ss where "b = PyList (map PyStr ss)" using list_section_values d b by blast
  moreover obtain ts where "v = PyList (map PyStr ts)" using list_section_target d v by blast
  ultimately show "merge_typed k b v" by (simp add: merge_typed_def)
qed

lemma process_list_section:
  assumes d: "list_section d" and r: "process_section t d = Inr d'" and k: "CHR ''@'' \<notin> set k"
  shows "dict_get d' k = map_option (PyList \<circ> map PyStr) (effective t d k)"
proof -
  have "dict_get d' k = merged_lookup (dict_get d k) (target_entry t d k)"
    using process_section_outcome [of d t] list_section_typed [OF d] d r k
    by (auto simp: list_section_def split: if_splits)
  moreover have "effective t d k = map_option str_items (merged_lookup (dict_get d k) (target_entry t d k))
      \<and> (\<forall>v. merged_lookup (dict_get d k) (target_entry t d k) = Some v \<longrightarrow> (\<exists>ss. v = PyList (map PyStr ss)))"
  proof (cases "dict_get d k")
    case None
    then show ?thesis by (simp add: merged_lookup_def effective_def)
  next
    case (Some b)
    obtain bs where b: "b = PyList (map PyStr bs)" using list_section_values d Some by blast
    show ?thesis
    proof (cases "target_entry t d k")
      case None
      then show ?thesis by (auto simp: Some b merged_lookup_def effective_def simp del: str_items.simps)
    next
      case entry: (Some w)
      obtain ws where w: "w = PyList (map PyStr ws)" using list_section_target d entry by blast
      have "merged b w = PyList (map PyStr (bs @ ws))" by (simp add: b w)
      then show ?thesis
        by (auto simp: Some b w entry merged_lookup_def effective_def simp del: str_items.simps map_append)
    qed
  qed
  ultimately show ?thesis
    by (cases "merged_lookup (dict_get d k) (target_entry t d k)") (auto simp del: str_items.simps)
qed

lemma process_section_permits:
  assumes "list_section d" and "process_section t d = Inr d'"
  shows "plain_section d' \<and> section_permits d' x = permits t d x"
  using process_list_section [OF assms, of "''allow''"] process_list_section [OF assms, of "''disallow''"]
  by (auto simp: plain_section_def section_permits_def permits_def split: option.splits)

lemma process_restrictions_section:
  "process_restrictions t r = Inr r' \<Longrightarrow>
    process_section t (as_dict (dict_get_or r name (PyDict []))) = Inr (as_dict (dict_get_or r' name (PyDict [])))"
proof (induction t r arbitrary: r' rule: process_restrictions.induct)
  case (1 t)
  then show ?case by (simp add: dict_get_or_def process_section_def drop_target_keys_def)
next
  case (2 t n data rs)
  have nil: "process_section t [] = Inr []" by (simp add: process_section_def drop_target_keys_def)
  from "2.prems" obtain v rest where
    v: "(case data of PyDict d \<Rightarrow> res_map PyDict (process_section t d) | v \<Rightarrow> Inr v) = Inr v"
    and rest: "process_restrictions t rs = Inr rest" and r': "r' = (n, v) # rest"
    by (auto simp: res_simps)
  have "process_section t (as_dict data) = Inr (as_dict v)"
    using v nil by (cases data) (auto simp: res_map_def res_simps)
  then show ?case using "2.IH" rest r' by (cases "n = name") (auto simp: dict_get_or_def)
qed

definition raw_section :: "dict \<Rightarrow> string \<Rightarrow> dict" where
  "raw_section data name =
     as_dict (dict_get_or (as_dict (dict_get_or data ''restrictions'' (PyDict []))) name (PyDict []))"

lemma make_policy_section:
  "make_policy data t = Inr p \<Longrightarrow> process_section t (raw_section data name) = Inr (policy_section p name)"
  by (auto simp: make_policy_def raw_section_def policy_section_def res_simps
      intro!: process_restrictions_section split: pyval.splits)

definition list_sections :: "dict \<Rightarrow> bool" where
  "list_sections data \<longleftrightarrow>
     list_all (\<lambda>name. list_section (raw_section data name))
       [''modes'', ''targets'', ''distributions'', ''architectures'', ''repositories'']"

lemma section_check:
  assumes "list_section (raw_section data name)" and "make_policy data t = Inr p"
  shows "\<exists>es. validate_restriction p ty x (policy_section p name) = Inr es \<and>
    (es = [] \<longleftrightarrow> permits t (raw_section data name) x)"
proof -
  have "plain_section (policy_section p name) \<and>
      section_permits (policy_section p name) x = permits t (raw_section data name) x"
    by (rule process_section_permits [OF assms(1) make_policy_section [OF assms(2)]])
  then show ?thesis using validate_restriction_ok [of "policy_section p name" p ty x] by auto
qed

lemma concat_errors_append:
  "concat_errors (rs @ ss) = append_errors (concat_errors rs) (concat_errors ss)"
proof (induction rs)
  case Nil
  then show ?case by (cases "concat_errors ss") (auto simp: append_errors_def)
next
  case (Cons r rs)
  then show ?case
    by (cases r; cases "concat_errors rs"; cases "concat_errors ss") (auto simp: append_errors_def)
qed

lemma repository_checks:
  assumes "list_section (raw_section data ''repositories'')" and "make_policy data t = Inr p"
  shows "\<exists>es. concat_errors (map (\<lambda>repo. validate_restriction p REPOSITORY repo (repository_restrictions p)) repos) = Inr es \<and>
    (es = [] \<longleftrightarrow> (\<forall>repo \<in> set repos. permits t (raw_section data ''repositories'') repo))"
proof -
  have "plain_section (repository_restrictions p) \<and>
      section_permits (repository_restrictions p) x = permits t (raw_section data ''repositories'') x" for x
    unfolding repository_restrictions_def
    by (rule process_section_permits [OF assms(1) make_policy_section [OF assms(2)]])
  then show ?thesis
    using restr.run_all [of "map (\<lambda>repo. (REPOSITORY, repo, repository_restrictions p)) repos" p]
    by (auto simp: o_def)
qed

text \<open>
  C1: The build arguments are accepted (no exception, empty error list) exactly when every one of
  mode, target, distribution, architecture and repositories is permitted by the entries the policy
  file has for it, the global ones extended by those of the build target.
\<close>

theorem build_args_enforced:
  assumes data: "list_sections data" and p: "make_policy data t = Inr p"
  shows "\<exists>es. validate_build_args p mode target distro arch repos = Inr es \<and>
    (es = [] \<longleftrightarrow>
       permits t (raw_section data ''modes'') mode \<and> permits t (raw_section data ''targets'') target \<and>
       permits t (raw_section data ''distributions'') distro \<and>
       permits t (raw_section data ''architectures'') arch \<and>
       (\<forall>repo \<in> set repos. permits t (raw_section data ''repositories'') repo))"
proof -
  have sec: "\<exists>es. validate_restriction p ty x (policy_section p name) = Inr es \<and>
      (es = [] \<longleftrightarrow> permits t (raw_section data name) x)"
    if "name \<in> {''modes'', ''targets'', ''distributions'', ''architectures'', ''repositories''}" for name ty x
    by (rule section_check [OF _ p]) (use data that in \<open>auto simp: list_sections_def\<close>)
  obtain e1 e2 e3 e4 where
    e1: "validate_restriction p MODE mode (mode_restrictions p) = Inr e1"
      "e1 = [] \<longleftrightarrow> permits t (raw_section data ''modes'') mode" and
    e2: "validate_restriction p TARGET target (target_restrictions p) = Inr e2"
      "e2 = [] \<longleftrightarrow> permits t (raw_section data ''targets'') target" and
    e3: "validate_restriction p DISTRIBUTION distro (distribution_restrictions p) = Inr e3"
      "e3 = [] \<longleftrightarrow> permits t (raw_section data ''distributions'') distro" and
    e4: "validate_restriction p ARCHITECTURE arch (architecture_restrictions p) = Inr e4"
      "e4 = [] \<longleftrightarrow> permits t (raw_section data ''architectures'') arch"
    using sec [of "''modes''" MODE mode] sec [of "''targets''" TARGET target]
      sec [of "''distributions''" DISTRIBUTION distro] sec [of "''architectures''" ARCHITECTURE arch]
    by (auto simp: mode_restrictions_def target_restrictions_def distribution_restrictions_def
        architecture_restrictions_def)
  obtain er where
    er: "concat_errors (map (\<lambda>repo. validate_restriction p REPOSITORY repo (repository_restrictions p)) repos) = Inr er"
      "er = [] \<longleftrightarrow> (\<forall>repo \<in> set repos. permits t (raw_section data ''repositories'') repo)"
    using repository_checks [OF _ p] data by (auto simp: list_sections_def)
  show ?thesis
    unfolding validate_build_args_def concat_errors_append
    by (auto simp: e1 e2 e3 e4 er append_errors_def)
qed

definition sample_policy :: dict where
  "sample_policy =
     [(''name'', PyStr ''sample''),
      (''restrictions'', PyDict
         [(''modes'', PyDict [(''allow'', PyList [PyStr ''image'']), (''allow@rpi4'', PyList [PyStr ''package''])]),
          (''architectures'', PyDict [(''disallow'', PyList [PyStr ''x86_64''])])])]"

theorem build_args_enforced_witness:
  "\<exists>p es. make_policy sample_policy (Some ''rpi4'') = Inr p \<and>
     validate_build_args p ''package'' ''rpi4'' ''autosd10'' ''aarch64'' [''extra''] = Inr es \<and> es = []"
proof -
  have d: "list_sections sample_policy" by code_simp
  have "isl (make_policy sample_policy (Some ''rpi4'')) = False" by code_simp
  then obtain p where p: "make_policy sample_policy (Some ''rpi4'') = Inr p"
    by (cases "make_policy sample_policy (Some ''rpi4'')") auto
  have "permits (Some ''rpi4'') (raw_section sample_policy ''modes'') ''package''"
    "permits (Some ''rpi4'') (raw_section sample_policy ''targets'') ''rpi4''"
    "permits (Some ''rpi4'') (raw_section sample_policy ''distributions'') ''autosd10''"
    "permits (Some ''rpi4'') (raw_section sample_policy ''architectures'') ''aarch64''"
    "permits (Some ''rpi4'') (raw_section sample_policy ''repositories'') ''extra''"
    by code_simp+
  then show ?thesis
    using build_args_enforced [OF d p, of "''package''" "''rpi4''" "''autosd10''" "''aarch64''" "[''extra'']"] p
    by auto
qed

section \<open>Allowed properties\<close>

text \<open>
  The properties of a manifest, each with the path under which the check names it: a key of a
  dictionary, a key below one, and a key of a dictionary that is an element of a list.
\<close>

inductive prop_at :: "pyval \<Rightarrow> string \<Rightarrow> string \<Rightarrow> pyval \<Rightarrow> bool" where
  here: "(k, v) \<in> set d \<Longrightarrow> prop_at (PyDict d) pre (sub_path pre k) v"
| nested: "(k, PyDict e) \<in> set d \<Longrightarrow> prop_at (PyDict e) (sub_path pre k) q w \<Longrightarrow> prop_at (PyDict d) pre q w"
| element: "(k, PyList xs) \<in> set d \<Longrightarrow> i < length xs \<Longrightarrow> xs ! i = PyDict e \<Longrightarrow>
    prop_at (PyDict e) (elem_path (sub_path pre k) i) q w \<Longrightarrow> prop_at (PyDict d) pre q w"

inductive_simps prop_at_dict: "prop_at (PyDict d) pre q w"
inductive_simps prop_at_scalar [simp]:
  "prop_at PyNone pre q w" "prop_at (PyBool b) pre q w" "prop_at (PyInt n) pre q w"
  "prop_at (PyFloat m e) pre q w" "prop_at (PyStr s) pre q w" "prop_at (PyList xs) pre q w"

definition prop_ok :: "string list \<Rightarrow> string \<Rightarrow> pyval \<Rightarrow> bool" where
  "prop_ok allowed q v \<longleftrightarrow> covered allowed q \<or> (is_dict v \<and> leads_to_allowed allowed q)"

lemma prop_at_is_dict: "prop_at v pre q w \<Longrightarrow> \<exists>d. v = PyDict d"
  by (cases v) auto

lemma prop_at_iff:
  "prop_at (PyDict d) pre q w \<longleftrightarrow>
     (\<exists>(k, v) \<in> set d. (q = sub_path pre k \<and> w = v) \<or> prop_at v (sub_path pre k) q w \<or>
       (\<exists>xs i. v = PyList xs \<and> i < length xs \<and> prop_at (xs ! i) (elem_path (sub_path pre k) i) q w))"
  (is "_ \<longleftrightarrow> ?r")
proof
  assume "prop_at (PyDict d) pre q w"
  then show ?r by (subst (asm) prop_at_dict) fastforce
next
  assume ?r
  then obtain k v where kv: "(k, v) \<in> set d" and
    "(q = sub_path pre k \<and> w = v) \<or> prop_at v (sub_path pre k) q w \<or>
       (\<exists>xs i. v = PyList xs \<and> i < length xs \<and> prop_at (xs ! i) (elem_path (sub_path pre k) i) q w)"
    by blast
  then consider "q = sub_path pre k" "w = v" | "prop_at v (sub_path pre k) q w"
    | xs i where "v = PyList xs" "i < length xs" "prop_at (xs ! i) (elem_path (sub_path pre k) i) q w"
    by blast
  then show "prop_at (PyDict d) pre q w"
  proof cases
    case 1
    then show ?thesis using kv prop_at.here by blast
  next
    case 2
    then show ?thesis using kv prop_at_is_dict prop_at.nested by blast
  next
    case 3
    then show ?thesis using kv prop_at_is_dict prop_at.element by metis
  qed
qed

lemma prop_at_Cons:
  "prop_at (PyDict ((k, v) # rest)) pre q w \<longleftrightarrow>
     (q = sub_path pre k \<and> w = v) \<or> prop_at v (sub_path pre k) q w \<or>
     (\<exists>xs i. v = PyList xs \<and> i < length xs \<and> prop_at (xs ! i) (elem_path (sub_path pre k) i) q w) \<or>
     prop_at (PyDict rest) pre q w"
  unfolding prop_at_iff by simp

lemma prop_at_Nil [simp]: "\<not> prop_at (PyDict []) pre q w"
  by (simp add: prop_at_iff)

definition all_ok :: "string list \<Rightarrow> pyval \<Rightarrow> string \<Rightarrow> bool" where
  "all_ok allowed v pre \<longleftrightarrow> (\<forall>q w. prop_at v pre q w \<longrightarrow> prop_ok allowed q w)"

lemma all_ok_simps [simp]:
  "all_ok allowed PyNone pre" "all_ok allowed (PyBool b) pre" "all_ok allowed (PyInt n) pre"
  "all_ok allowed (PyFloat m e) pre" "all_ok allowed (PyStr s) pre" "all_ok allowed (PyList xs) pre"
  "all_ok allowed (PyDict []) pre"
  by (auto simp: all_ok_def)

lemma all_ok_Cons:
  "all_ok allowed (PyDict ((k, v) # rest)) pre \<longleftrightarrow>
     prop_ok allowed (sub_path pre k) v \<and> all_ok allowed v (sub_path pre k) \<and>
     (\<forall>xs. v = PyList xs \<longrightarrow> (\<forall>i < length xs. all_ok allowed (xs ! i) (elem_path (sub_path pre k) i))) \<and>
     all_ok allowed (PyDict rest) pre"
  unfolding all_ok_def prop_at_Cons by blast

lemma all_ok_elems_Cons:
  "(\<forall>j < length (x # xs). all_ok allowed ((x # xs) ! j) (elem_path path (i + j))) \<longleftrightarrow>
     all_ok allowed x (elem_path path i) \<and>
     (\<forall>j < length xs. all_ok allowed (xs ! j) (elem_path path (Suc i + j)))"
  by (auto simp: less_Suc_eq_0_disj)

lemma check_items_Cons:
  assumes "\<And>d. v = PyDict d \<Longrightarrow> check_properties allowed v (sub_path pre k) = [] \<longleftrightarrow> all_ok allowed v (sub_path pre k)"
    and "\<And>xs. v = PyList xs \<Longrightarrow> check_elems allowed xs 0 (sub_path pre k) = [] \<longleftrightarrow>
      (\<forall>j < length xs. all_ok allowed (xs ! j) (elem_path (sub_path pre k) j))"
    and "check_items allowed rest pre = [] \<longleftrightarrow> all_ok allowed (PyDict rest) pre"
  shows "check_items allowed ((k, v) # rest) pre = [] \<longleftrightarrow> all_ok allowed (PyDict ((k, v) # rest)) pre"
proof (cases v)
  case (PyDict d)
  have "\<not> prop_ok allowed (sub_path pre k) v" if "\<not> covered allowed (sub_path pre k)" "\<not> leads_to_allowed allowed (sub_path pre k)"
    using that by (simp add: prop_ok_def)
  then show ?thesis
    using assms(1) [OF PyDict] assms(3) by (auto simp: PyDict all_ok_Cons Let_def prop_ok_def simp del: check_properties.simps)
next
  case (PyList xs)
  then show ?thesis
    using assms(2) [OF PyList] assms(3) by (auto simp: all_ok_Cons Let_def prop_ok_def)
qed (use assms(3) in \<open>auto simp: all_ok_Cons Let_def prop_ok_def\<close>)

lemma check_all:
  "check_properties allowed v pre = [] \<longleftrightarrow> all_ok allowed v pre"
  "check_items allowed d pre = [] \<longleftrightarrow> all_ok allowed (PyDict d) pre"
  "check_elems allowed xs i path = [] \<longleftrightarrow> (\<forall>j < length xs. all_ok allowed (xs ! j) (elem_path path (i + j)))"
  apply (induction allowed v pre and allowed d pre and allowed xs i path
    rule: check_properties_check_items_check_elems.induct)
            prefer 9
  subgoal premises IH for allowed k v rest pre
    by (rule check_items_Cons) (use IH in \<open>auto simp del: check_properties.simps\<close>)
           prefer 10
  subgoal premises IH for allowed x xs i path
    unfolding all_ok_elems_Cons using IH by (cases x) auto
          apply simp_all
  done

text \<open>
  C2: The allow list check reports nothing exactly when every property of the manifest, at any
  depth and inside lists of dictionaries, is an allowed one or lies below an allowed one, or is a
  dictionary on the way to an allowed one.
\<close>

theorem property_allowlist_complete:
  "validate_property_allowlist p manifest allowed = [] \<longleftrightarrow>
     (\<forall>q v. \<not> (prop_at manifest [] q v \<and> \<not> covered allowed q \<and> \<not> (is_dict v \<and> leads_to_allowed allowed q)))"
  unfolding validate_property_allowlist_def map_is_Nil_conv check_all(1) all_ok_def prop_ok_def by blast

section \<open>Forbidden properties and values\<close>

text \<open>The value a dotted path leads to; a part ending in \<open>[]\<close> selects a list and ends the path.\<close>

inductive reaches :: "pyval \<Rightarrow> string list \<Rightarrow> pyval \<Rightarrow> bool" where
  stop: "reaches v [] v"
| key: "dict_get d k = Some x \<Longrightarrow> \<not> ends_with k ''[]'' \<Longrightarrow> reaches x ks w \<Longrightarrow> reaches (PyDict d) (k # ks) w"
| array: "dict_get d k = Some (PyList xs) \<Longrightarrow> reaches (PyDict d) ((k @ ''[]'') # ks) (PyList xs)"

inductive_cases reaches_NilE: "reaches v [] w"
inductive_cases reaches_ConsE: "reaches v (k # ks) w"

text \<open>The value the code reads for a path: that one, or \<open>None\<close> where there is none.\<close>

definition value_at :: "pyval \<Rightarrow> string \<Rightarrow> pyval \<Rightarrow> bool" where
  "value_at m path v \<longleftrightarrow> reaches m (py_split ''.'' path) v \<or>
     (v = PyNone \<and> (\<forall>w. \<not> reaches m (py_split ''.'' path) w))"

lemma get_nested_array:
  "ends_with part ''[]'' \<Longrightarrow> \<exists>k. part = k @ ''[]'' \<and> take (length part - 2) part = k"
  by (auto simp: ends_with_def suffix_def)

lemma get_nested_reaches:
  "reaches v parts w \<Longrightarrow> get_nested_parts parts v = w"
proof (induction rule: reaches.induct)
  case (array d k xs ks)
  then show ?case by simp
qed simp_all

lemma reaches_get_nested:
  "get_nested_parts parts v \<noteq> PyNone \<Longrightarrow> reaches v parts (get_nested_parts parts v)"
proof (induction parts v rule: get_nested_parts.induct)
  case (1 current)
  show ?case by (simp add: reaches.stop)
next
  case (2 part parts current)
  show ?case
  proof (cases "ends_with part ''[]''")
    case True
    then obtain k where k: "part = k @ ''[]''" by (auto dest: get_nested_array)
    have val: "(case py_item current k of Inl _ \<Rightarrow> PyNone | Inr v \<Rightarrow> if is_list v then v else PyNone) \<noteq> PyNone"
      using "2.prems" True k by simp
    obtain d where d: "current = PyDict d" using val by (cases current) auto
    then obtain xs where "dict_get d k = Some (PyList xs)"
      using val by (auto split: option.splits if_splits elim: is_list_E)
    note this d
    then show ?thesis using k True by (auto intro: reaches.array simp del: ends_with_rev)
  next
    case False
    obtain x where x: "py_item current part = Inr x"
      using "2.prems" False by (cases "py_item current part") auto
    then obtain d where "current = PyDict d" "dict_get d part = Some x"
      by (cases current) (auto split: option.splits)
    then show ?thesis using "2.IH" [OF False x] "2.prems" x False
      by (auto intro: reaches.key simp del: ends_with_rev)
  qed
qed

lemma value_at_unique: "value_at m path v \<longleftrightarrow> get_nested_property m path = v"
  unfolding value_at_def get_nested_property_def
  using get_nested_reaches reaches_get_nested by metis

text \<open>
  The values a rule constrains: the value at a plain path; for a path with one \<open>[]\<close> marker the
  elements of the list before it, or what the rest of the path leads to in each of them.
\<close>

inductive selected :: "pyval \<Rightarrow> string \<Rightarrow> pyval \<Rightarrow> bool" for m path where
  plain: "\<not> contains path ''[]'' \<Longrightarrow> value_at m path v \<Longrightarrow> selected m path v"
| element: "py_split ''[]'' path = [base, rest] \<Longrightarrow> value_at m base (PyList xs) \<Longrightarrow> x \<in> set xs \<Longrightarrow>
    rest \<in> {[], ''.''} \<Longrightarrow> selected m path x"
| field: "py_split ''[]'' path = [base, rest] \<Longrightarrow> value_at m base (PyList xs) \<Longrightarrow> x \<in> set xs \<Longrightarrow>
    rest = prop \<and> \<not> starts_with rest ''.'' \<or> rest = CHR ''.'' # prop \<Longrightarrow> prop \<noteq> [] \<Longrightarrow> value_at x prop v \<Longrightarrow>
    selected m path v"

lemma elem_forbidden_Nil:
  "elem_forbidden p path prop forbidden es i = [] \<longleftrightarrow>
     (\<forall>e \<in> set es. \<not> py_in (if prop = [] then e else get_nested_property e prop) forbidden)"
  by (induction es arbitrary: i) (auto simp: Let_def)

lemma split_contains: "py_split sep s = [a, b] \<Longrightarrow> contains s sep"
  by (subst (asm) py_split.simps) (auto simp: contains_def split: if_splits option.splits)

lemma property_values_Nil:
  "validate_property_values p m path forbidden = [] \<longleftrightarrow> (\<forall>v. selected m path v \<longrightarrow> \<not> py_in v forbidden)"
proof (cases "contains path ''[]''")
  case False
  then have "selected m path v \<longleftrightarrow> v = get_nested_property m path" for v
    by (auto simp: selected.simps value_at_unique dest: split_contains)
  with False show ?thesis by (simp add: validate_property_values_def Let_def)
next
  case True
  show ?thesis
  proof (cases "\<exists>base rest xs. py_split ''[]'' path = [base, rest] \<and> get_nested_property m base = PyList xs")
    case False
    then have "\<not> selected m path v" for v using True by (auto simp: selected.simps value_at_unique)
    with False True show ?thesis
      by (auto simp: validate_property_values_def validate_array_element_values_def
          split: list.splits pyval.splits)
  next
    case ex: True
    then obtain base rest xs where sp: "py_split ''[]'' path = [base, rest]"
      and xs: "get_nested_property m base = PyList xs" by blast
    define field where "field = (if starts_with rest ''.'' then drop 1 rest else rest)"
    have rest: "(rest = q \<and> \<not> starts_with rest ''.'' \<or> rest = CHR ''.'' # q) \<longleftrightarrow> q = field" for q
      by (cases rest) (auto simp: field_def)
    have empty: "rest \<in> {[], ''.''} \<longleftrightarrow> field = []"
      by (cases rest) (auto simp: field_def)
    have "selected m path v \<longleftrightarrow> (\<exists>x \<in> set xs. v = (if field = [] then x else get_nested_property x field))" for v
    proof
      assume "selected m path v"
      then show "\<exists>x \<in> set xs. v = (if field = [] then x else get_nested_property x field)"
      proof cases
        case plain
        then show ?thesis using True by simp
      next
        case (element base' rest' xs')
        have e: "base' = base" "rest' = rest" using element sp by simp_all
        then have "xs' = xs" using element(2) xs by (simp add: value_at_unique)
        moreover have "field = []" using element e empty by simp
        ultimately show ?thesis using element by auto
      next
        case (field base' rest' xs' x fld)
        have e: "base' = base" "rest' = rest" using field sp by simp_all
        then have "xs' = xs" using field(2) xs by (simp add: value_at_unique)
        moreover have "fld = field" using field(4) rest unfolding e by blast
        ultimately show ?thesis using field by (auto simp: value_at_unique)
      qed
    next
      assume "\<exists>x \<in> set xs. v = (if field = [] then x else get_nested_property x field)"
      then obtain x where x: "x \<in> set xs" "v = (if field = [] then x else get_nested_property x field)" by blast
      have base: "value_at m base (PyList xs)" by (simp add: value_at_unique xs)
      show "selected m path v"
      proof (cases "field = []")
        case nil: True
        then show ?thesis using selected.element [OF sp base x(1)] x(2) empty by simp
      next
        case ne: False
        then show ?thesis using selected.field [OF sp base x(1) _ ne] x(2) rest by (simp add: value_at_unique)
      qed
    qed
    then show ?thesis
      using True sp xs
      by (auto simp: validate_property_values_def validate_array_element_values_def elem_forbidden_Nil
          field_def [symmetric] Let_def)
  qed
qed

lemma has_nested_reaches:
  "has_nested_property manifest path \<longleftrightarrow> (\<exists>v. reaches manifest (py_split ''.'' path) v \<and> v \<noteq> PyNone)"
  unfolding has_nested_property_def get_nested_property_def
  using get_nested_reaches reaches_get_nested by metis

lemma append_errors_Nil: "append_errors r s = Inr [] \<longleftrightarrow> r = Inr [] \<and> s = Inr []"
  by (auto simp: append_errors_def res_map_def res_simps)

lemma manifest_no_forbidden:
  assumes "validate_manifest p m = Inr []" and "dict_get (manifest_restrictions p) ''disallow'' = Some (PyDict rules)"
    and "path \<in> set (str_items (dict_get_or rules ''properties'' (PyList [])))" and "reaches m (py_split ''.'' path) v"
  shows "v = PyNone"
proof -
  have "validate_disallow_rules p m rules = []"
    using assms(1,2) by (simp add: validate_manifest_def Let_def append_errors_Nil)
  then have "\<not> has_nested_property m path"
    using assms(3) unfolding validate_disallow_rules_def append_is_Nil_conv concat_map_eq_Nil
    by (auto simp del: str_items.simps split: if_splits)
  then show ?thesis using assms(4) by (auto simp: has_nested_reaches)
qed

lemma manifest_only_allowed:
  assumes "validate_manifest p m = Inr []" and "dict_get (manifest_restrictions p) ''allow'' = Some (PyDict rules)"
    and "dict_get rules ''properties'' = Some props" and "prop_at m [] q v"
  shows "prop_ok (str_items props) q v"
proof -
  have "validate_allow_rules p m rules = Inr []"
    using assms(1,2) by (simp add: validate_manifest_def Let_def append_errors_Nil)
  then have "check_properties (str_items props) m [] = []"
    using assms(3) by (simp add: validate_allow_rules_def append_errors_Nil validate_property_allowlist_def)
  then show ?thesis using assms(4) by (simp add: check_all all_ok_def)
qed

text \<open>
  C3: The disallow rules report nothing exactly when no forbidden property has a value other than
  null and no value that a rule selects, in the list elements too, is among its forbidden ones.
\<close>

theorem disallow_rules_complete:
  "validate_disallow_rules p manifest rules = [] \<longleftrightarrow>
     \<not> (\<exists>path v. path \<in> set (str_items (dict_get_or rules ''properties'' (PyList []))) \<and>
          reaches manifest (py_split ''.'' path) v \<and> v \<noteq> PyNone) \<and>
     \<not> (\<exists>path forbidden v. (path, forbidden) \<in> set (as_dict (dict_get_or rules ''values'' (PyDict []))) \<and>
          selected manifest path v \<and> py_in v (as_list forbidden))"
proof -
  have props: "(if has_nested_property manifest path then [Msg_Forbidden_Property (pol_name p) path] else []) = [] \<longleftrightarrow>
      \<not> (\<exists>v. reaches manifest (py_split ''.'' path) v \<and> v \<noteq> PyNone)" for path
    by (simp add: has_nested_reaches)
  have vals: "(case pf of (path, forbidden) \<Rightarrow> validate_property_values p manifest path (as_list forbidden)) = [] \<longleftrightarrow>
      (\<forall>v. selected manifest (fst pf) v \<longrightarrow> \<not> py_in v (as_list (snd pf)))" for pf
    by (cases pf) (simp add: property_values_Nil)
  show ?thesis
    unfolding validate_disallow_rules_def append_is_Nil_conv concat_map_eq_Nil props vals by fastforce
qed

section \<open>Loaded policies\<close>

text \<open>
  C4: A section of a processed policy, when the entries of the target have the kinds their global
  entries need: an entry for the target without a global one makes the construction raise, since
  it is inserted while the dictionary is iterated; otherwise the section holds exactly the global
  entries, each merged with the entry of the build target, and no \<open>@\<close> key.
\<close>

theorem section_merged:
  assumes "wf_dict d" and "well_typed_targets t d d"
  shows "if \<exists>k. CHR ''@'' \<notin> set k \<and> target_entry t d k \<noteq> None \<and> dict_get d k = None
    then process_section t d = Inl (Runtime_Error ''dictionary changed size during iteration'')
    else \<exists>d'. process_section t d = Inr d' \<and>
      (\<forall>k. dict_get d' k = (if CHR ''@'' \<in> set k then None else merged_lookup (dict_get d k) (target_entry t d k)))"
  using process_section_outcome [OF assms] unfolding orphan_def changed_size_def .

lemma dict_get_or_self: "well_typed_targets None d d"
  by (simp add: well_typed_targets_def target_entry_def)

definition sample_section :: dict where
  "sample_section = [(''disallow'', PyList [PyStr ''nfs'']), (''disallow@rpi4'', PyList [PyStr ''wifi'']),
     (''disallow@qemu'', PyList [PyStr ''kvm''])]"

definition orphan_section :: dict where
  "orphan_section = [(''disallow@rpi4'', PyList [PyStr ''wifi''])]"

lemma list_section_sample: "list_section sample_section" "list_section orphan_section"
  by code_simp+

theorem section_merged_witness:
  "(\<exists>d'. process_section (Some ''rpi4'') sample_section = Inr d' \<and>
     dict_get d' ''disallow'' = Some (PyList [PyStr ''nfs'', PyStr ''wifi''])) \<and>
   process_section (Some ''rpi4'') orphan_section =
     Inl (Runtime_Error ''dictionary changed size during iteration'')"
proof -
  have "wf_dict sample_section" "wf_dict orphan_section" by code_simp+
  note base = section_merged [OF this(1) list_section_typed [OF list_section_sample(1)], of "Some ''rpi4''"]
    section_merged [OF this(2) list_section_typed [OF list_section_sample(2)], of "Some ''rpi4''"]
  have no_orphan: "\<not> (\<exists>k. CHR ''@'' \<notin> set k \<and> target_entry (Some ''rpi4'') sample_section k \<noteq> None \<and>
      dict_get sample_section k = None)"
    by (auto simp: target_entry_def sample_section_def split: if_splits)
  have merged: "\<exists>d'. process_section (Some ''rpi4'') sample_section = Inr d' \<and>
     dict_get d' ''disallow'' = Some (PyList [PyStr ''nfs'', PyStr ''wifi''])"
    using base(1) unfolding if_not_P [OF no_orphan]
    by (auto simp: sample_section_def target_entry_def merged_lookup_def)
  have "\<exists>k. CHR ''@'' \<notin> set k \<and> target_entry (Some ''rpi4'') orphan_section k \<noteq> None \<and>
      dict_get orphan_section k = None"
    by (rule exI [of _ "''disallow''"]) (simp add: orphan_section_def target_entry_def)
  then have "process_section (Some ''rpi4'') orphan_section =
     Inl (Runtime_Error ''dictionary changed size during iteration'')"
    using base(2) by simp
  with merged show ?thesis by blast
qed

lemma merge_targets_keys: "merge_targets t items d = Inr d' \<Longrightarrow> fst ` set d' = fst ` set d"
proof (induction t items d arbitrary: d' rule: merge_targets.induct)
  case (2 t key w items d)
  show ?case
  proof (cases "break_at ''@'' key")
    case None
    then show ?thesis using 2 by (simp del: break_at_char_None)
  next
    case (Some kt)
    then obtain k tg where kt: "break_at ''@'' key = Some (k, tg)" by (cases kt) auto
    show ?thesis
    proof (cases "t = Some tg")
      case False
      then show ?thesis using 2 kt by auto
    next
      case True
      then obtain b b' where "dict_get d k = Some b" "merge_targets t items (dict_set d k b') = Inr d'"
        using "2.prems" kt by (auto simp: res_simps split: option.splits)
      moreover then have "k \<in> fst ` set d" using dict_get_None_iff [of d k] by simp
      ultimately show ?thesis using "2.IH"(2) [OF kt refl True] "2.prems" kt True
        by (auto simp: res_simps dict_set_keys insert_absorb)
    qed
  qed
qed simp

lemma process_section_keys:
  "process_section t d = Inr d' \<Longrightarrow> fst ` set d' = {k \<in> fst ` set d. CHR ''@'' \<notin> set k}"
proof -
  assume "process_section t d = Inr d'"
  then obtain b where b: "merge_targets t d d = Inr b" "d' = drop_target_keys b"
    by (cases "merge_targets t d d") (auto simp: process_section_def)
  have "fst ` set (drop_target_keys b) = {k \<in> fst ` set b. CHR ''@'' \<notin> set k}"
    unfolding drop_target_keys_def by force
  then show ?thesis using b merge_targets_keys [OF b(1)] by simp
qed

lemma validate_consistency_section:
  "validate_consistency data = Inr () \<Longrightarrow> validate_section_consistency name (raw_section data name) = Inr ()"
proof -
  have nil: "validate_section_consistency n [] = Inr ()" for n
    by (simp add: validate_section_consistency_def dict_keys_def)
  have "res_fold (\<lambda>(name, v) _. case v of PyDict d \<Rightarrow> validate_section_consistency name d | _ \<Rightarrow> Inr ()) rs u = Inr () \<Longrightarrow>
      validate_section_consistency name (as_dict (dict_get_or rs name (PyDict []))) = Inr ()" for rs u
  proof (induction rs arbitrary: u)
    case Nil
    then show ?case by (simp add: dict_get_or_def nil)
  next
    case (Cons nv rs)
    then show ?case by (cases nv; cases "snd nv") (auto simp: dict_get_or_def res_simps nil)
  qed
  then show "validate_consistency data = Inr () \<Longrightarrow> ?thesis"
    by (auto simp: validate_consistency_def raw_section_def split: pyval.splits)
qed

text \<open>
  C5: A policy that loads comes from an existing file with a YAML dictionary that its schema
  accepts, its target is the requested one, and no section of it has both an allow and a disallow
  entry, so the order in which the two are tested never matters.
\<close>

theorem load_policy_sound:
  assumes "load_policy env ld path t = Inr (pol, ld')"
  shows "pe_exists env path \<and>
    (\<exists>data sch. pe_yaml env path = Inr (PyDict data) \<and> pe_validate env (PyDict data) sch = Schema_Ok \<and>
       make_policy data t = Inr pol \<and> pol_target pol = t) \<and>
    (\<forall>name. \<not> ({''allow'', ''disallow''} \<subseteq> fst ` set (policy_section pol name)))"
proof -
  obtain data where data: "pe_exists env path" "pe_yaml env path = Inr (PyDict data)"
    using assms by (auto simp: load_policy_def split: if_splits sum.splits pyval.splits)
  then obtain sch l where
    "(case pe_validate env (PyDict data) sch of
        Schema_Violation m \<Rightarrow> Inl (Policy_Validation_Error (''Policy validation failed: '' @ m))
      | Schema_Broken m \<Rightarrow> Inl (Policy_Error (''Policy schema error: '' @ m))
      | Schema_Ok \<Rightarrow> res_bind (validate_consistency data) (\<lambda>_. res_map (\<lambda>pol. (pol, l)) (make_policy data t))) =
      Inr (pol, ld')"
    using assms by (auto simp: load_policy_def res_bind_Inr_iff)
  then have data': "pe_validate env (PyDict data) sch = Schema_Ok" "validate_consistency data = Inr ()"
    "make_policy data t = Inr pol"
    by (cases "pe_validate env (PyDict data) sch"; auto simp: res_map_def res_simps)+
  note data = data data'
  have "pol_target pol = t" using data(5) by (auto simp: make_policy_def res_simps)
  moreover have "\<not> ({''allow'', ''disallow''} \<subseteq> fst ` set (policy_section pol name))" for name
  proof
    assume "{''allow'', ''disallow''} \<subseteq> fst ` set (policy_section pol name)"
    then have "{''allow'', ''disallow''} \<subseteq> fst ` set (raw_section data name)"
      using process_section_keys [OF make_policy_section [OF data(5), of name]] by auto
    then show False
      using validate_consistency_section [OF data(4), of name]
      by (auto simp: validate_section_consistency_def Let_def split: if_splits)
  qed
  ultimately show ?thesis using data by blast
qed

definition sample_env :: policy_env where
  "sample_env = \<lparr>pe_exists = (\<lambda>p. True),
     pe_yaml = (\<lambda>p. Inr (if p = ''p.aibp.yml'' then PyDict sample_policy else PyDict [(''type'', PyStr ''object'')])),
     pe_validate = (\<lambda>v sch. if is_dict v then Schema_Ok else Schema_Violation ''object'')\<rparr>"

theorem load_policy_sound_witness:
  "\<exists>pol ld'. load_policy sample_env \<lparr>pl_base_dir = ''/usr'', pl_schema = None\<rparr> ''p.aibp.yml'' (Some ''rpi4'') = Inr (pol, ld') \<and>
     pol_target pol = Some ''rpi4''"
proof -
  have "\<not> isl (load_policy sample_env \<lparr>pl_base_dir = ''/usr'', pl_schema = None\<rparr> ''p.aibp.yml'' (Some ''rpi4''))"
    by code_simp
  then obtain pol ld' where "load_policy sample_env \<lparr>pl_base_dir = ''/usr'', pl_schema = None\<rparr> ''p.aibp.yml'' (Some ''rpi4'') = Inr (pol, ld')"
    by (cases "load_policy sample_env \<lparr>pl_base_dir = ''/usr'', pl_schema = None\<rparr> ''p.aibp.yml'' (Some ''rpi4'')") auto
  then show ?thesis using load_policy_sound by blast
qed

end
