(* ===== verification/Manifest_Laws.thy ===== *)
theory Manifest_Laws
  imports Manifest Content_Laws Policy_Laws
begin

text \<open>
  Facts about the manifest loader: which defines a manifest can set, that a manifest that loads
  passed its schema and its policy, the sizes of the image section, and the boot checks.
\<close>

section \<open>The defines of a manifest\<close>

definition fixed_keys :: "string list" where
  "fixed_keys =
     [''name'', ''version'', ''target'', ''system_boot_check'', ''use_qm'', ''boot_check_qm_digest'',
      ''use_static_ip'', ''static_ip'', ''static_ip_prefixlen'', ''static_gw'', ''static_dns'',
      ''static_ip_iface'', ''static_ip_iface_early'', ''static_ip_modules'',
      ''root_password'', ''root_ssh_keys'', ''use_static_ssh_host_keys'',
      ''kernel_package'', ''kernel_version'', ''kernel_loglevel'', ''use_debug'', ''denylist_modules'',
      ''varpart_relative_size'', ''varpart_uuid'', ''grow_rootfs'', ''cg_memory_min'',
      ''enable_oom_protection'', ''enable_reclaim_protection'', ''hostname'', ''ostree_ref'',
      ''use_composefs_signed'', ''disable_gettys'', ''selinux_mode'', ''selinux_policy'',
      ''selinux_booleans'', ''simple_import'', ''use_containers_extra_store'']"

definition manifest_key :: "string \<Rightarrow> bool" where
  "manifest_key k \<longleftrightarrow> k \<in> set fixed_keys \<or> starts_with k ''simple_'' \<or> starts_with k ''qm_'' \<or>
     starts_with k ''use_qm_'' \<or> ends_with k ''_size'' \<or> ends_with k ''part_size''"

lemma fixed_manifest_key: "k \<in> set fixed_keys \<Longrightarrow> manifest_key k"
  by (simp add: manifest_key_def)

lemma manifest_keys [simp]:
  "manifest_key (''simple_'' @ k)" "manifest_key (''qm_'' @ k)" "manifest_key (''use_qm_'' @ k)"
  "manifest_key (k @ ''_size'')" "manifest_key (k @ ''part_size'')"
  by (auto simp: manifest_key_def starts_with_iff simp del: ends_with_rev)

lemma set_from_evolves: "ld.evolves P d d' \<Longrightarrow> P key \<Longrightarrow> ld.evolves P d (set_from key src k d')"
  by (auto simp: set_from_def intro: ld.evolves_upd_trans split: option.split)

lemma set_all_from_evolves:
  "ld.evolves P d d' \<Longrightarrow> \<forall>(key, k) \<in> set keys. P key \<Longrightarrow> ld.evolves P d (set_all_from keys src d')"
  unfolding set_all_from_def
  by (induction keys arbitrary: d') (auto intro: set_from_evolves)

lemma res_fold_evolves:
  assumes "res_fold f xs d = Inr d'" and "\<And>x d d'. f x d = Inr d' \<Longrightarrow> ld.evolves P d d'"
  shows "ld.evolves P d d'"
  by (rule res_fold_invariant [OF assms(1)]) (auto intro: assms(2) ld.evolves_trans)

lemmas manifest_evolves = ld.evolves_upd_trans set_from_evolves set_all_from_evolves ld.evolves_refl

text \<open>The handlers, each with the predicate of all manifest keys.\<close>

abbreviation evolves_manifest :: "dict \<Rightarrow> dict \<Rightarrow> bool" where
  "evolves_manifest \<equiv> ld.evolves manifest_key"

lemma section_manifest_key: "section_key k \<Longrightarrow> manifest_key (get_key qm k)"
  by (auto simp: section_key_def get_key_def manifest_key_def fixed_keys_def)

lemma set_defines_scope: "set_defines fe ct ei d = Inr (ct', ei', d') \<Longrightarrow> evolves_manifest d d'"
  by (erule set_defines_evolves) (rule section_manifest_key)

lemma key_facts [simp]:
  "manifest_key ''name''" "manifest_key ''version''" "manifest_key ''target''" "manifest_key ''system_boot_check''"
  "manifest_key ''use_qm''" "manifest_key ''boot_check_qm_digest''" "manifest_key ''use_static_ip''"
  "manifest_key ''static_ip''" "manifest_key ''static_ip_prefixlen''" "manifest_key ''static_gw''"
  "manifest_key ''static_dns''" "manifest_key ''static_ip_iface''" "manifest_key ''static_ip_iface_early''"
  "manifest_key ''static_ip_modules''" "manifest_key ''cg_memory_min''" "manifest_key ''grow_rootfs''"
  "manifest_key ''selinux_booleans''" "manifest_key ''simple_import''" "manifest_key ''image_size''"
  "manifest_key ''qm_memory_max''" "manifest_key ''qm_memory_high''" "manifest_key ''qm_cpu_weight''"
  "manifest_key ''qm_use_userns''" "manifest_key ''varpart_size''" "manifest_key ''varpart_relative_size''"
  "manifest_key ''varpart_uuid''" "manifest_key ''qm_varpart_size''" "manifest_key ''qm_varpart_relative_size''"
  "manifest_key ''qm_varpart_uuid''"
  by (simp_all add: manifest_key_def fixed_keys_def ends_with_rev)

lemma handle_auth_scope: "ld.evolves manifest_key d d' \<Longrightarrow> evolves_manifest d (handle_auth auth d')"
  unfolding handle_auth_def
  by (rule set_all_from_evolves) (auto simp: manifest_key_def fixed_keys_def)

lemma handle_kernel_scope: "ld.evolves manifest_key d d' \<Longrightarrow> evolves_manifest d (handle_kernel kern d')"
  unfolding handle_kernel_def
  by (rule set_all_from_evolves) (auto simp: manifest_key_def fixed_keys_def)

lemma handle_network_scope: "handle_network me network d = Inr d' \<Longrightarrow> evolves_manifest d d'"
  unfolding handle_network_def Let_def
  by (auto split: pyval.splits option.splits intro!: manifest_evolves ld.evolves_if)

lemma set_checksum_scope: "evolves_manifest d d' \<Longrightarrow> evolves_manifest d (set_checksum v d')"
  by (cases v) (auto intro: manifest_evolves)

lemma handle_qm_scope:
  assumes "handle_qm fe qm ei d = Inr (ei', d')"
  shows "evolves_manifest d d'"
proof -
  obtain ei1 d1 mem where
    content: "(case dict_get qm ''content'' of
        None \<Rightarrow> Inr (ei, ld_set ''use_qm'' (PyBool True) d)
      | Some (PyDict c) \<Rightarrow>
          res_bind (make_contents True c) (\<lambda>ct. res_map (\<lambda>(ct, ei, d). (ei, d)) (set_defines fe ct ei (ld_set ''use_qm'' (PyBool True) d)))
      | Some v \<Rightarrow> Inl Attribute_Error) = Inr (ei1, d1)"
    and d': "d' = set_from ''qm_use_userns'' qm ''user_namespaces''
       (set_checksum (dict_get_or qm ''container_checksum'' PyNone) (set_from ''qm_cpu_weight'' qm ''cpu_weight''
         (set_all_from [(''qm_memory_max'', ''max''), (''qm_memory_high'', ''high'')] mem d1)))"
    using assms unfolding handle_qm_def Let_def by (auto simp: res_bind_Inr_iff)
  have d1: "evolves_manifest (ld_set ''use_qm'' (PyBool True) d) d1"
    using content by (auto simp: res_simps res_map_def split: option.splits pyval.splits dest!: set_defines_scope)
  have "evolves_manifest d d1"
    by (rule ld.evolves_trans [OF ld.evolves_upd d1]) simp
  then show ?thesis
    unfolding d' by (intro set_from_evolves set_checksum_scope set_all_from_evolves) auto
qed

lemma var_partition_scope:
  assumes "var_partition sz pre mp part d = Inr d'" and "pre = [] \<or> pre = ''qm_''"
  shows "evolves_manifest d d'"
  using assms unfolding var_partition_def res_map_def
  by (auto simp: res_simps split: option.splits if_splits intro!: manifest_evolves)

lemma handle_partition_scope: "handle_partition sz kv d = Inr d' \<Longrightarrow> evolves_manifest d d'"
  unfolding handle_partition_def
  by (auto simp: res_simps res_map_def split: prod.splits pyval.splits if_splits option.splits
      intro!: manifest_evolves dest: var_partition_scope)

lemma handle_tmpfs_scope: "handle_tmpfs kv d = Inr d' \<Longrightarrow> evolves_manifest d d'"
  unfolding handle_tmpfs_def
  by (auto simp: res_simps res_map_def split: prod.splits pyval.splits option.splits intro!: manifest_evolves)

lemma image_keys_scope: "\<forall>(key, k) \<in> set image_keys. manifest_key key"
  by (auto simp: image_keys_def manifest_key_def fixed_keys_def)

lemma handle_image_scope:
  assumes "handle_image img d = Inr d'"
  shows "evolves_manifest d d'"
proof -
  obtain sz d1 ps d2 ts d3 d4 bools where
    a: "set_image_size img d = Inr (sz, d1)" and b: "res_fold (handle_partition sz) ps d1 = Inr d2"
    and c: "res_fold handle_tmpfs ts d2 = Inr d3" and e: "set_cg_memory_min img d3 = Inr d4"
    and d': "d' = (if bools \<noteq> [] then ld_set ''selinux_booleans'' (PyList (map (\<lambda>(k, v). PyStr (k @ ''='' @ json_bool v)) bools))
       (set_all_from image_keys img d4) else set_all_from image_keys img d4)"
    using assms by (auto simp: handle_image_def res_simps Let_def)
  have "evolves_manifest d d1"
    using a by (auto simp: set_image_size_def res_map_def res_simps Let_def split: if_splits intro!: manifest_evolves)
  also have "evolves_manifest d1 d2" by (rule res_fold_evolves [OF b]) (rule handle_partition_scope)
  also have "evolves_manifest d2 d3" by (rule res_fold_evolves [OF c]) (rule handle_tmpfs_scope)
  also have "evolves_manifest d3 d4"
    using e by (auto simp: set_cg_memory_min_def res_simps split: if_splits intro!: manifest_evolves)
  also have "evolves_manifest d4 d'"
    unfolding d' by (intro ld.evolves_if manifest_evolves image_keys_scope) simp_all
  finally show ?thesis .
qed

lemma enable_service_ct:
  "enable_service s ct = Inr ct' \<Longrightarrow> ct_make_dirs ct' = ct_make_dirs ct \<and> ct_add_files ct' = ct_add_files ct \<and>
    ct_add_symlinks ct' = ct_add_symlinks ct \<and> ct_qm ct' = ct_qm ct"
  by (auto simp: enable_service_def res_map_def res_simps)

lemma usr_lib_ok: "path_ok op (''/usr/lib/'' @ p)"
  by (cases op) (auto simp: path_ok_def)

lemma usr_lib_dir:
  "entry_str ''path'' (dropin_dir_entry (''/usr/lib/systemd/system/'' @ p)) (''/usr/lib/'' @ ''systemd/system/'' @ p)"
  by (simp add: entry_str_def dropin_dir_entry_def dict_get_or_def)

lemma command_check_ok:
  assumes "command_check check ct = Inr ct'" and "paths_ok ct"
  shows "paths_ok ct' \<and> ct_qm ct' = ct_qm ct"
proof -
  obtain name cmd where e: "enable_service (''sysboot-check@'' @ name @ ''.service'')
      (ct\<lparr>ct_make_dirs := ct_make_dirs ct @ [dropin_dir_entry (''/usr/lib/systemd/system/sysboot-check@'' @ name @ ''.service.d'')],
          ct_add_files := ct_add_files ct @ [PyDict [(''path'', PyStr (''/usr/lib/systemd/system/sysboot-check@'' @ name @ ''.service.d/'' @ name @ ''.conf'')),
            (''text'', PyStr (''[Service]'' @ nl @ ''ExecStart='' @ cmd))]]\<rparr>) = Inr ct'"
    using assms(1) by (auto simp: command_check_def res_simps Let_def)
  have "path_ok MAKE_DIRS (''/usr/lib/systemd/system/sysboot-check@'' @ name @ ''.service.d'')"
    "path_ok ADD_FILES (''/usr/lib/systemd/system/sysboot-check@'' @ name @ ''.service.d/'' @ name @ ''.conf'')"
    by (auto simp: path_ok_def)
  then show ?thesis
    using enable_service_ct [OF e] assms(2)
    by (auto simp: paths_ok_def entry_str_def dropin_dir_entry_def dict_get_or_def)
qed

lemma unit_check_ok:
  assumes "unit_check u ct = Inr ct'" and "paths_ok ct"
  shows "paths_ok ct' \<and> ct_qm ct' = ct_qm ct"
proof -
  obtain name where ct': "ct' = ct\<lparr>ct_make_dirs := ct_make_dirs ct @ [dropin_dir_entry (''/usr/lib/systemd/system/'' @ name @ ''.d'')],
      ct_add_symlinks := ct_add_symlinks ct @ [PyDict [(''link'', PyStr (''/usr/lib/systemd/system/'' @ name @ ''.d/sysboot.conf'')),
        (''target'', PyStr ''/usr/share/sysboot/service.d/sysboot.conf'')]]\<rparr>"
    using assms(1) by (auto simp: unit_check_def res_map_def res_simps Let_def)
  have "path_ok MAKE_DIRS (''/usr/lib/systemd/system/'' @ name @ ''.d'')"
    "path_ok ADD_SYMLINKS (''/usr/lib/systemd/system/'' @ name @ ''.d/sysboot.conf'')"
    by (auto simp: path_ok_def)
  then show ?thesis
    using assms(2) unfolding ct' by (auto simp: paths_ok_def entry_str_def dropin_dir_entry_def dict_get_or_def)
qed

definition checked :: "contents \<Rightarrow> bool" where
  "checked ct \<longleftrightarrow> paths_ok ct \<and> \<not> ct_qm ct"

lemma handle_sysboot_ok:
  assumes "handle_sysboot_checks ct img d = Inr (ct', d')" and ct: "checked ct"
  shows "checked ct' \<and> evolves_manifest d d'"
proof (cases "\<exists>x bc. dict_get_or img ''boot_checks'' (PyDict []) = PyDict (x # bc)")
  case False
  then have "ct' = ct \<and> d' = d"
    using assms(1) by (auto simp: handle_sysboot_checks_def split: pyval.splits list.splits if_splits)
  then show ?thesis using ct by simp
next
  case True
  then obtain x bc where bc: "dict_get_or img ''boot_checks'' (PyDict []) = PyDict (x # bc)" by blast
  define ct1 where "ct1 = (if dict_get (ct_systemd ct) ''enabled_services'' = None
     then ct\<lparr>ct_systemd := dict_set (ct_systemd ct) ''enabled_services'' (PyList [])\<rparr> else ct)"
  obtain commands units ct2 ct3 where
    c: "res_fold command_check commands ct1 = Inr ct2" and u: "res_fold unit_check units ct2 = Inr ct3"
    and r: "(if commands \<noteq> [] \<or> units \<noteq> [] then
       res_map (\<lambda>ct4. (ct4, set_define ct4 ''system_boot_check'' (PyBool True) d)) (enable_service ''sysboot-health.target'' ct3)
       else Inr (ct3, d)) = Inr (ct', d')"
    using assms(1) bc unfolding handle_sysboot_checks_def Let_def ct1_def [symmetric]
    by (auto simp: res_bind_Inr_iff)
  have ct1: "checked ct1" using ct by (simp add: ct1_def checked_def paths_ok_def)
  have ct2: "checked ct2"
    by (rule res_fold_invariant [of _ _ _ _ checked, OF c ct1]) (metis checked_def command_check_ok)
  have "checked ct3"
    by (rule res_fold_invariant [of _ _ _ _ checked, OF u ct2]) (metis checked_def unit_check_ok)
  then show ?thesis
    using r by (auto simp: res_map_def res_simps checked_def paths_ok_def set_define_def get_key_def
        split: if_splits dest!: enable_service_ct intro!: manifest_evolves)
qed

definition experimental_key :: "dict \<Rightarrow> string \<Rightarrow> bool" where
  "experimental_key manifest k \<longleftrightarrow>
     (\<exists>ex defs. dict_get manifest ''experimental'' = Some (PyDict ex) \<and>
        dict_get ex ''internal_defines'' = Some (PyDict defs) \<and> k \<in> fst ` set defs)"

lemma handle_experimental_scope:
  assumes "handle_experimental ex d = Inr d'"
  shows "ld.evolves (\<lambda>k. \<exists>defs. dict_get ex ''internal_defines'' = Some (PyDict defs) \<and> k \<in> fst ` set defs) d d'"
proof -
  have step: "ld.evolves (\<lambda>k. k \<in> fst ` set defs) d (fold (\<lambda>(k, v). ld_set k v) defs d)" for defs d
  proof (induction defs arbitrary: d)
    case Nil
    then show ?case by simp
  next
    case (Cons kv defs)
    obtain k v where kv: "kv = (k, v)" by (cases kv)
    have "ld.evolves (\<lambda>k. k \<in> fst ` set (kv # defs)) d (ld_set k v d)" by (rule ld.evolves_upd) (simp add: kv)
    also have "ld.evolves (\<lambda>k. k \<in> fst ` set (kv # defs)) (ld_set k v d) (fold (\<lambda>(k, v). ld_set k v) defs (ld_set k v d))"
      by (rule ld.evolves_mono [OF Cons.IH]) auto
    finally show ?case by (simp add: kv)
  qed
  obtain defs where defs: "sub_dict ex ''internal_defines'' = Inr defs" and d': "d' = fold (\<lambda>(k, v). ld_set k v) defs d"
    using assms by (auto simp: handle_experimental_def res_map_def res_simps)
  show ?thesis
  proof (cases "dict_get ex ''internal_defines''")
    case None
    then have "defs = []" using defs by (simp add: sub_dict_def dict_get_or_def)
    then show ?thesis by (simp add: d')
  next
    case (Some v)
    then have "v = PyDict defs" using defs by (auto simp: sub_dict_def dict_get_or_def split: pyval.splits)
    then show ?thesis unfolding d' by (intro ld.evolves_mono [OF step]) (auto simp: Some)
  qed
qed

lemma load_sections_scope:
  assumes "load_sections me manifest basedir workdir d = Inr (d', doc)"
  shows "ld.evolves (\<lambda>k. manifest_key k \<or> experimental_key manifest k) d d'"
proof -
  define K where "K = (\<lambda>k. manifest_key k \<or> experimental_key manifest k)"
  define d1 where "d1 = set_all_from [(''name'', ''name''), (''version'', ''version''), (''target'', ''target'')] manifest d"
  obtain content ct0 img ct1 d2 ct2 ei1 d3 ei2 d4 network d5 auth kern d7 ex d8 where
    content: "make_contents False content = Inr ct0" and
    boot: "handle_sysboot_checks ct0 img d1 = Inr (ct1, d2)" and
    root: "set_defines (me_fs me) ct1 (make_extra_include (fe_cwd (me_fs me)) basedir) d2 = Inr (ct2, ei1, d3)" and
    qm: "(case dict_get manifest ''qm'' of None \<Rightarrow> Inr (ei1, d3)
        | Some (PyDict qm) \<Rightarrow> handle_qm (me_fs me) qm ei1 d3 | Some v \<Rightarrow> Inl Type_Error) = Inr (ei2, d4)" and
    network: "handle_network me network d4 = Inr d5" and
    img: "handle_image img (handle_kernel kern (handle_auth auth d5)) = Inr d7" and
    exp: "sub_dict manifest ''experimental'' = Inr ex" "handle_experimental ex d7 = Inr d8" and
    d': "d' = ld_set ''simple_import'' (PyStr (path_join workdir ''extra-include.ipp.yml'')) d8"
    using assms unfolding load_sections_def Let_def d1_def [symmetric]
    by (auto simp: res_bind_Inr_iff split: prod.splits)
  have "evolves_manifest d d1" unfolding d1_def by (intro set_all_from_evolves) auto
  also have "evolves_manifest d1 d2"
    using handle_sysboot_ok [OF boot] make_contents_ok [OF content] by (simp add: checked_def)
  also have "evolves_manifest d2 d3" by (rule set_defines_scope [OF root])
  also have "evolves_manifest d3 d4"
    using qm by (auto split: option.splits pyval.splits dest: handle_qm_scope)
  also have "evolves_manifest d4 d5" by (rule handle_network_scope [OF network])
  also have "evolves_manifest d5 (handle_kernel kern (handle_auth auth d5))"
    by (intro handle_kernel_scope handle_auth_scope ld.evolves_refl)
  also have "evolves_manifest (handle_kernel kern (handle_auth auth d5)) d7" by (rule handle_image_scope [OF img])
  finally have "ld.evolves K d d7" by (rule ld.evolves_mono) (simp add: K_def)
  also have "ld.evolves K d7 d8"
    using handle_experimental_scope [OF exp(2)]
  proof (rule ld.evolves_mono)
    fix k
    assume k: "\<exists>defs. dict_get ex ''internal_defines'' = Some (PyDict defs) \<and> k \<in> fst ` set defs"
    then have "dict_get manifest ''experimental'' = Some (PyDict ex)"
      using exp(1) by (auto simp: sub_dict_def dict_get_or_def split: option.splits pyval.splits)
    with k show "K k" by (auto simp: K_def experimental_key_def)
  qed
  also have "ld.evolves K d8 d'" unfolding d' by (rule ld.evolves_upd) (simp add: K_def)
  finally show ?thesis unfolding K_def .
qed

text \<open>
  C8: What a manifest can set: loading it changes only the defines of the manifest vocabulary and
  those it names in its experimental internal defines; every other define, such as the architecture
  or the base directory, keeps its value; and no define becomes an empty list or dictionary.
\<close>

theorem manifest_scope:
  assumes "load_manifest me pol path basedir workdir manifest0 d = Inr (d', doc)"
  shows "\<exists>manifest. snd (me_validate me manifest0) = PyDict manifest \<and>
    (manifest_key k \<or> experimental_key manifest k \<or> dict_get d' k = dict_get d k) \<and>
    \<not> (\<exists>v. dict_get d' k = Some v \<and> (v = PyList [] \<or> v = PyDict []) \<and> dict_get d k \<noteq> Some v)"
proof -
  obtain m manifest where chk: "check_manifest me pol path manifest0 = Inr m" and m: "m = PyDict manifest"
    and load: "load_sections me manifest basedir workdir d = Inr (d', doc)"
  proof -
    obtain m where m: "check_manifest me pol path manifest0 = Inr m"
      and load: "(case m of PyDict manifest \<Rightarrow> load_sections me manifest basedir workdir d | _ \<Rightarrow> Inl Attribute_Error) = Inr (d', doc)"
      using assms by (auto simp: load_manifest_def res_bind_Inr_iff)
    then show thesis by (cases m) (use that in auto)
  qed
  have "snd (me_validate me manifest0) = m"
    using chk by (auto simp: check_manifest_def res_bind_Inr_iff split: prod.splits option.splits if_splits)
  moreover note load_sections_scope [OF load]
  ultimately show ?thesis
    using m unfolding ld.evolves_def empty_value_def by (metis option.inject)
qed

definition sample_me :: manifest_env where
  "sample_me = \<lparr>me_fs = no_files, me_validate = (\<lambda>v. ([], v)), me_message = (\<lambda>m. []), me_str = (\<lambda>v. [])\<rparr>"

definition sample_manifest :: dict where
  "sample_manifest = [(''name'', PyStr ''demo''), (''image'', PyDict [(''hostname'', PyStr ''car'')])]"

lemma cg_memory_default: "parse_size ''64MiB'' = Inr 67108864"
  by (simp add: parse_size_def size_units_def match_size_def Let_def py_lstrip_def is_space_def is_digit_def
      nat_of_digits_def digit_val_def)

lemmas load_eval = sub_dict_def dict_get_or_def handle_sysboot_checks_def handle_network_def
  handle_image_def set_image_size_def set_cg_memory_min_def parse_size_val_def cg_memory_default
  handle_experimental_def

lemma load_sample:
  assumes "\<And>p. pol = Some p \<Longrightarrow> validate_manifest p (PyDict sample_manifest) = Inr []"
  shows "\<exists>d' doc. load_manifest sample_me pol ''demo.aib.yml'' ''/src'' ''/tmp/w'' (PyDict sample_manifest) d = Inr (d', doc)"
proof -
  have chk: "check_manifest sample_me pol ''demo.aib.yml'' (PyDict sample_manifest) = Inr (PyDict sample_manifest)"
    using assms by (auto simp: check_manifest_def sample_me_def split: option.split)
  have subs: "sub_dict sample_manifest ''content'' = Inr []" "sub_dict sample_manifest ''network'' = Inr []"
    "sub_dict sample_manifest ''auth'' = Inr []" "sub_dict sample_manifest ''kernel'' = Inr []"
    "sub_dict sample_manifest ''experimental'' = Inr []" "dict_get sample_manifest ''qm'' = None"
    "sub_dict sample_manifest ''image'' = Inr [(''hostname'', PyStr ''car'')]"
    by (simp_all add: sample_manifest_def load_eval)
  have parts: "handle_sysboot_checks ct [(''hostname'', PyStr ''car'')] d = Inr (ct, d)"
    "\<exists>d'. handle_image [(''hostname'', PyStr ''car'')] d = Inr d'"
    "handle_network sample_me [] d = Inr d" "handle_experimental [] d = Inr d" for ct d
    by (simp_all add: load_eval)
  show ?thesis
    using parts(2) [of "handle_kernel [] (handle_auth [] (set_all_from
      [(''name'', ''name''), (''version'', ''version''), (''target'', ''target'')] sample_manifest d))"]
    by (auto simp: load_manifest_def chk load_sections_def Let_def subs parts(1,3,4) set_defines_empty empty_contents)
qed

theorem manifest_scope_witness:
  "\<exists>d' doc. load_manifest sample_me None ''demo.aib.yml'' ''/src'' ''/tmp/w'' (PyDict sample_manifest)
     [(''arch'', PyStr ''aarch64'')] = Inr (d', doc) \<and> dict_get d' ''arch'' = Some (PyStr ''aarch64'')"
proof -
  obtain d' doc where load: "load_manifest sample_me None ''demo.aib.yml'' ''/src'' ''/tmp/w'' (PyDict sample_manifest)
     [(''arch'', PyStr ''aarch64'')] = Inr (d', doc)"
    using load_sample [of None] by blast
  have m: "snd (me_validate sample_me (PyDict sample_manifest)) = PyDict sample_manifest"
    by (simp add: sample_me_def)
  have "\<not> manifest_key ''arch''" by code_simp
  moreover have "\<not> experimental_key sample_manifest ''arch''"
    by (simp add: experimental_key_def sample_manifest_def)
  ultimately have "dict_get d' ''arch'' = dict_get [(''arch'', PyStr ''aarch64'')] ''arch''"
    using manifest_scope [OF load, of "''arch''"] m by auto
  then show ?thesis using load by auto
qed

section \<open>Schema and policy\<close>

text \<open>
  C9: A manifest that loads was accepted by its schema, and, with a policy, the completed manifest
  has no error under it: no property the policy forbids has a value, and, where the policy lists
  the allowed properties, every property of the manifest is an allowed one or leads to one.
\<close>

theorem loaded_manifest_obeys_policy:
  assumes "load_manifest me (Some p) path basedir workdir manifest0 d = Inr (d', doc)"
  shows "\<exists>m. me_validate me manifest0 = ([], m) \<and> validate_manifest p m = Inr [] \<and>
    \<not> (\<exists>rules path v. dict_get (manifest_restrictions p) ''disallow'' = Some (PyDict rules) \<and>
         path \<in> set (str_items (dict_get_or rules ''properties'' (PyList []))) \<and>
         reaches m (py_split ''.'' path) v \<and> v \<noteq> PyNone) \<and>
    \<not> (\<exists>rules props q v. dict_get (manifest_restrictions p) ''allow'' = Some (PyDict rules) \<and>
         dict_get rules ''properties'' = Some props \<and> prop_at m [] q v \<and>
         \<not> covered (str_items props) q \<and> \<not> (is_dict v \<and> leads_to_allowed (str_items props) q))"
proof -
  obtain m where chk: "check_manifest me (Some p) path manifest0 = Inr m"
    using assms by (auto simp: load_manifest_def res_bind_Inr_iff)
  then have m: "me_validate me manifest0 = ([], m)" and pol: "validate_manifest p m = Inr []"
    by (auto simp: check_manifest_def res_bind_Inr_iff split: prod.splits if_splits)
  have "\<not> (\<exists>rules path v. dict_get (manifest_restrictions p) ''disallow'' = Some (PyDict rules) \<and>
         path \<in> set (str_items (dict_get_or rules ''properties'' (PyList []))) \<and>
         reaches m (py_split ''.'' path) v \<and> v \<noteq> PyNone)"
    using manifest_no_forbidden [OF pol] by blast
  moreover have "\<not> (\<exists>rules props q v. dict_get (manifest_restrictions p) ''allow'' = Some (PyDict rules) \<and>
         dict_get rules ''properties'' = Some props \<and> prop_at m [] q v \<and>
         \<not> covered (str_items props) q \<and> \<not> (is_dict v \<and> leads_to_allowed (str_items props) q))"
    using manifest_only_allowed [OF pol] unfolding prop_ok_def by blast
  ultimately show ?thesis using m pol by blast
qed

definition strict_policy :: policy where
  "strict_policy = \<lparr>pol_name = PyStr ''strict'', pol_description = PyStr [], pol_target = None,
     pol_restrictions = [(''manifest_restrictions'', PyDict [(''disallow'', PyDict [(''properties'', PyList [PyStr ''qm''])])])]\<rparr>"

theorem loaded_manifest_obeys_policy_witness:
  "\<exists>d' doc. load_manifest sample_me (Some strict_policy) ''demo.aib.yml'' ''/src'' ''/tmp/w'' (PyDict sample_manifest) [] = Inr (d', doc) \<and>
     \<not> (\<exists>v. reaches (PyDict sample_manifest) [''qm''] v \<and> v \<noteq> PyNone)"
proof -
  have "validate_manifest strict_policy (PyDict sample_manifest) = Inr []" by code_simp
  then obtain d' doc where load:
    "load_manifest sample_me (Some strict_policy) ''demo.aib.yml'' ''/src'' ''/tmp/w'' (PyDict sample_manifest) [] = Inr (d', doc)"
    using load_sample [of "Some strict_policy"] by blast
  have rules: "dict_get (manifest_restrictions strict_policy) ''disallow'' = Some (PyDict [(''properties'', PyList [PyStr ''qm''])])"
    by code_simp
  have "py_split ''.'' ''qm'' = [''qm'']" by code_simp
  then show ?thesis
    using loaded_manifest_obeys_policy [OF load] load rules
    by (auto simp: sample_me_def dict_get_or_def)
qed

section \<open>Image sizes\<close>

lemma var_partition_size:
  assumes "var_partition sz pre mp part d = Inr d'" and "dict_get part ''size'' = Some v"
  shows "\<exists>n. parse_size_val v = Inr n \<and> \<not> (\<exists>m. sz = Some m \<and> m \<noteq> 0 \<and> m \<le> n)"
  using assms by (auto simp: var_partition_def res_map_def res_simps split: if_splits option.splits)

lemma fold_partitions_size:
  assumes "res_fold (handle_partition sz) ps d = Inr d'" and "(k, PyDict part) \<in> set ps" and "k \<in> {''var'', ''var_qm''}"
    and "dict_get part ''size'' = Some v"
  shows "\<exists>n. parse_size_val v = Inr n \<and> \<not> (\<exists>m. sz = Some m \<and> m \<noteq> 0 \<and> m \<le> n)"
  using assms
proof (induction ps arbitrary: d)
  case (Cons kv ps)
  then obtain d1 where d1: "handle_partition sz kv d = Inr d1" "res_fold (handle_partition sz) ps d1 = Inr d'"
    by (auto simp: res_simps)
  show ?case
  proof (cases "kv = (k, PyDict part)")
    case True
    then show ?thesis
      using d1(1) Cons.prems(3,4) by (auto simp: handle_partition_def split: if_splits dest: var_partition_size)
  next
    case False
    then show ?thesis using Cons.IH [OF d1(2)] Cons.prems by auto
  qed
qed simp

text \<open>
  When the image section is accepted, the minimum memory of the slices is positive, and a
  separate /var or /var/qm partition with a given size is smaller than the image, when that has a
  size.
\<close>

theorem image_sizes_checked:
  assumes "handle_image img d = Inr d'"
  shows "(\<exists>n > 0. dict_get d' ''cg_memory_min'' = Some (PyInt (int n))) \<and>
    \<not> (\<exists>k part s n ps total. dict_get img ''partitions'' = Some (PyDict ps) \<and> (k, PyDict part) \<in> set ps \<and>
         k \<in> {''var'', ''var_qm''} \<and> dict_get part ''size'' = Some (PyStr s) \<and> parse_size s = Inr n \<and>
         dict_get img ''image_size'' = Some (PyStr total) \<and> total \<noteq> [] \<and>
         (\<exists>m. parse_size total = Inr m \<and> m \<noteq> 0 \<and> m \<le> n))"
proof -
  obtain sz d1 ps d2 ts d3 d4 bools where
    a: "set_image_size img d = Inr (sz, d1)" and p: "sub_dict img ''partitions'' = Inr ps"
    and b: "res_fold (handle_partition sz) ps d1 = Inr d2" and e: "set_cg_memory_min img d3 = Inr d4"
    and d': "d' = (if bools \<noteq> [] then ld_set ''selinux_booleans'' (PyList (map (\<lambda>(k, v). PyStr (k @ ''='' @ json_bool v)) bools))
       (set_all_from image_keys img d4) else set_all_from image_keys img d4)"
    using assms by (auto simp: handle_image_def res_simps Let_def)
  have "ld.evolves (\<lambda>k. k \<noteq> ''cg_memory_min'') d4 d'"
    unfolding d' by (intro ld.evolves_if manifest_evolves) (auto simp: image_keys_def)
  then have "dict_get d' ''cg_memory_min'' = dict_get d4 ''cg_memory_min''" by (rule ld.evolves_frame) simp
  moreover obtain n where "n > 0" "dict_get d4 ''cg_memory_min'' = Some (PyInt (int n))"
    using e by (auto simp: set_cg_memory_min_def res_simps ld_set_def split: if_splits)
  ultimately have cg: "\<exists>n > 0. dict_get d' ''cg_memory_min'' = Some (PyInt (int n))" by auto
  have vars: False
    if "dict_get img ''partitions'' = Some (PyDict qs)" "(k, PyDict part) \<in> set qs" "k \<in> {''var'', ''var_qm''}"
      "dict_get part ''size'' = Some (PyStr s)" "parse_size s = Inr n" "dict_get img ''image_size'' = Some (PyStr total)"
      "total \<noteq> []" "parse_size total = Inr m" "m \<noteq> 0" "m \<le> n" for k part s n qs total m
  proof -
    have "qs = ps" using p that(1) by (simp add: sub_dict_def dict_get_or_def)
    moreover have "sz = Some m"
      using a that by (auto simp: set_image_size_def dict_get_or_def Let_def parse_size_val_def)
    moreover have "parse_size_val (PyStr s) = Inr n" using that by (simp add: parse_size_val_def)
    ultimately show False using fold_partitions_size [OF b _ that(3,4)] that by auto
  qed
  show ?thesis
  proof (rule conjI [OF cg], rule notI, elim exE conjE)
    fix k part s n qs total m
    assume "dict_get img ''partitions'' = Some (PyDict qs)" "(k, PyDict part) \<in> set qs" "k \<in> {''var'', ''var_qm''}"
      "dict_get part ''size'' = Some (PyStr s)" "parse_size s = Inr n" "dict_get img ''image_size'' = Some (PyStr total)"
      "total \<noteq> []" "parse_size total = Inr m" "m \<noteq> 0" "m \<le> n"
    then show False by (rule vars)
  qed
qed

definition sized_image :: dict where
  "sized_image = [(''image_size'', PyStr ''8 GB''),
     (''partitions'', PyDict [(''var'', PyDict [(''size'', PyStr ''1 GB'')])])]"

lemma sizes_parse: "parse_size ''8 GB'' = Inr 8000000000" "parse_size ''1 GB'' = Inr 1000000000"
  by (simp_all add: parse_size_def size_units_def match_size_def Let_def py_lstrip_def is_space_def is_digit_def
      nat_of_digits_def digit_val_def)

theorem image_sizes_checked_witness:
  "\<exists>d' n. handle_image sized_image [] = Inr d' \<and> n > 0 \<and> dict_get d' ''cg_memory_min'' = Some (PyInt (int n))"
proof -
  have "sectors 1000000000 = Inr 1953125" by (simp add: sectors_def round53_small)
  then have part: "handle_partition (Some 8000000000) (''var'', PyDict [(''size'', PyStr ''1 GB'')]) d =
      Inr (ld_set ''varpart_size'' (PyInt 1953125) d)" for d
    by (simp add: handle_partition_def var_partition_def parse_size_val_def sizes_parse)
  have "set_image_size sized_image [] = Inr (Some 8000000000, ld_set ''image_size'' (PyStr (dec_nat 8000000000)) [])"
    by (simp add: sized_image_def set_image_size_def dict_get_or_def parse_size_val_def sizes_parse)
  moreover have "sub_dict sized_image ''partitions'' = Inr [(''var'', PyDict [(''size'', PyStr ''1 GB'')])]"
    "sub_dict sized_image ''tmpfs'' = Inr []" "sub_dict sized_image ''selinux_booleans'' = Inr []"
    "set_cg_memory_min sized_image d = Inr (ld_set ''cg_memory_min'' (PyInt 67108864) d)" for d
    by (simp_all add: sized_image_def load_eval)
  ultimately have "\<exists>d'. handle_image sized_image [] = Inr d'"
    by (simp add: handle_image_def part Let_def)
  then obtain d' where d': "handle_image sized_image [] = Inr d'" by blast
  show ?thesis using image_sizes_checked [OF d', THEN conjunct1] d' by blast
qed

text \<open>
  The properties of the schema of a /var partition (\<open>src/files/manifest_schema.yml\<close>) that have a
  default, or none: the float is the double next to 0.3.
\<close>

definition var_properties :: dict where
  "var_properties =
     [(''relative_size'', PyDict [(''maximum'', PyFloat 1 0), (''minimum'', PyInt 0),
         (''default'', PyFloat 5404319552844595 (- 54)), (''type'', PyStr ''number'')]),
      (''size'', PyDict [(''type'', PyStr ''string'')]),
      (''external'', PyDict [(''type'', PyStr ''boolean'')]),
      (''uuid'', PyDict [])]"

lemma default_below_1: "num_ge_1 (PyFloat 5404319552844595 (- 54)) = Inr False"
  by (simp add: num_ge_1_def num_le_def num_align_def Let_def)

lemma default_relative_size:
  "dict_get part ''relative_size'' = None \<Longrightarrow>
    set_defaults var_properties part = dict_set part ''relative_size'' (PyFloat 5404319552844595 (- 54))"
  by (simp add: var_properties_def)

text \<open>
  The external switch of a /var partition has no effect: the default of the relative size is
  filled in by the validation, so the partition gets that relative size in the image and the size
  define that stands for an external partition is never written.
\<close>

theorem external_partition_ignored:
  assumes "dict_get part ''size'' = None" and "dict_get part ''relative_size'' = None"
    and "dict_get part ''external'' = Some (PyBool True)" and "dict_get part ''uuid'' = None"
  shows "handle_partition sz (''var'', PyDict (set_defaults var_properties part)) d =
    Inr (dict_set d ''varpart_relative_size'' (PyFloat 5404319552844595 (- 54)))"
  using assms
  by (simp add: default_relative_size default_below_1 handle_partition_def var_partition_def ld_set_def)

theorem external_partition_ignored_witness:
  "handle_partition None (''var'', PyDict (set_defaults var_properties [(''external'', PyBool True)])) [] =
     Inr [(''varpart_relative_size'', PyFloat 5404319552844595 (- 54))]"
  using external_partition_ignored [of "[(''external'', PyBool True)]" None "[]"] by simp

end
