(* ===== verification/Effects.thy ===== *)
theory Effects
  imports Py_Values
begin

text \<open>
  Code with effects: a program takes the state of the world and returns its result or exception
  together with the new state, so that an exception keeps the effects made before it.  \<open>finally\<close> and
  \<open>except\<close> are the Python statements.
\<close>

type_synonym ('w, 'a) prog = "'w \<Rightarrow> 'a res \<times> 'w"

definition ret :: "'a \<Rightarrow> ('w, 'a) prog" where
  "ret x w = (Inr x, w)"

definition raise_exn :: "exn \<Rightarrow> ('w, 'a) prog" where
  "raise_exn e w = (Inl e, w)"

definition lift_res :: "'a res \<Rightarrow> ('w, 'a) prog" where
  "lift_res r w = (r, w)"

definition andthen :: "('w, 'a) prog \<Rightarrow> ('a \<Rightarrow> ('w, 'b) prog) \<Rightarrow> ('w, 'b) prog" where
  "andthen m f w = (case m w of (Inl e, w') \<Rightarrow> (Inl e, w') | (Inr x, w') \<Rightarrow> f x w')"

definition seq :: "('w, 'a) prog \<Rightarrow> ('w, 'b) prog \<Rightarrow> ('w, 'b) prog" where
  "seq m n = andthen m (\<lambda>_. n)"

definition update_world :: "('w \<Rightarrow> 'w) \<Rightarrow> ('w, unit) prog" where
  "update_world f w = (Inr (), f w)"

definition ask :: "('w \<Rightarrow> 'a) \<Rightarrow> ('w, 'a) prog" where
  "ask f w = (Inr (f w), w)"

text \<open>\<open>try: m finally: n\<close>: an exception of \<open>n\<close> replaces that of \<open>m\<close>.\<close>

definition with_finally :: "('w, 'a) prog \<Rightarrow> ('w, unit) prog \<Rightarrow> ('w, 'a) prog" where
  "with_finally m n w = (case m w of (r, w') \<Rightarrow> case n w' of (Inl e, w'') \<Rightarrow> (Inl e, w'') | (Inr _, w'') \<Rightarrow> (r, w''))"

text \<open>\<open>try: m except e if caught e: h e\<close>.\<close>

definition with_except :: "('w, 'a) prog \<Rightarrow> (exn \<Rightarrow> bool) \<Rightarrow> (exn \<Rightarrow> ('w, 'a) prog) \<Rightarrow> ('w, 'a) prog" where
  "with_except m caught h w = (case m w of (Inl e, w') \<Rightarrow> if caught e then h e w' else (Inl e, w') | r \<Rightarrow> r)"

fun each :: "('a \<Rightarrow> ('w, unit) prog) \<Rightarrow> 'a list \<Rightarrow> ('w, unit) prog" where
  "each f [] = ret ()"
| "each f (x # xs) = seq (f x) (each f xs)"

section \<open>Invariants of programs\<close>

text \<open>
  A property of the world that the primitive steps keep is kept by every program built from them,
  whether it returns or raises.
\<close>

definition preserves :: "('w \<Rightarrow> bool) \<Rightarrow> ('w, 'a) prog \<Rightarrow> bool" where
  "preserves I m \<longleftrightarrow> (\<forall>w. I w \<longrightarrow> I (snd (m w)))"

named_theorems preserved \<open>rules for invariants of programs\<close>

lemma preserves_ret [preserved]: "preserves I (ret x)"
  by (simp add: preserves_def ret_def)

lemma preserves_raise [preserved]: "preserves I (raise_exn e)"
  by (simp add: preserves_def raise_exn_def)

lemma preserves_lift [preserved]: "preserves I (lift_res r)"
  by (simp add: preserves_def lift_res_def)

lemma preserves_ask [preserved]: "preserves I (ask f)"
  by (simp add: preserves_def ask_def)

lemma preserves_andthen [preserved]:
  "preserves I m \<Longrightarrow> (\<And>x. preserves I (f x)) \<Longrightarrow> preserves I (andthen m f)"
  unfolding preserves_def andthen_def by (metis (no_types, lifting) prod.case_eq_if snd_conv sum.case_eq_if surjective_pairing)

lemma preserves_seq [preserved]: "preserves I m \<Longrightarrow> preserves I n \<Longrightarrow> preserves I (seq m n)"
  unfolding seq_def by (rule preserves_andthen)

lemma preserves_finally [preserved]: "preserves I m \<Longrightarrow> preserves I n \<Longrightarrow> preserves I (with_finally m n)"
  unfolding preserves_def with_finally_def
  by (auto split: prod.split sum.split)

lemma preserves_except [preserved]:
  "preserves I m \<Longrightarrow> (\<And>e. preserves I (h e)) \<Longrightarrow> preserves I (with_except m caught h)"
  unfolding preserves_def with_except_def
  by (auto split: prod.split sum.split)

lemma preserves_each [preserved]: "(\<And>x. preserves I (f x)) \<Longrightarrow> preserves I (each f xs)"
  by (induction xs) (auto intro: preserved)

lemma preserves_if [preserved]: "preserves I m \<Longrightarrow> preserves I n \<Longrightarrow> preserves I (if b then m else n)"
  by simp

lemma preserves_update: "(\<And>w. I w \<Longrightarrow> I (f w)) \<Longrightarrow> preserves I (update_world f)"
  by (simp add: preserves_def update_world_def)

section \<open>Evaluation\<close>

named_theorems run_simps \<open>running programs\<close>

lemma run_simps_basic [run_simps]:
  "ret x w = (Inr x, w)" "raise_exn e w = (Inl e, w)" "lift_res r w = (r, w)" "ask f w = (Inr (f w), w)"
  "update_world g w = (Inr (), g w)"
  by (simp_all add: ret_def raise_exn_def lift_res_def ask_def update_world_def)

lemma andthen_Inr: "m w = (Inr x, w') \<Longrightarrow> andthen m f w = f x w'"
  by (simp add: andthen_def)

lemma andthen_Inl: "m w = (Inl e, w') \<Longrightarrow> andthen m f w = (Inl e, w')"
  by (simp add: andthen_def)

lemma seq_Inr: "m w = (Inr x, w') \<Longrightarrow> seq m n w = n w'"
  by (simp add: seq_def andthen_def)

lemma seq_Inl: "m w = (Inl e, w') \<Longrightarrow> seq m n w = (Inl e, w')"
  by (simp add: seq_def andthen_def)

text \<open>The results of a program and of its parts.\<close>

lemma andthen_cases:
  assumes "andthen m f w = (r, w')"
  obtains (raised) e where "m w = (Inl e, w')" "r = Inl e"
    | (returned) x w1 where "m w = (Inr x, w1)" "f x w1 = (r, w')"
  using assms by (cases "m w"; cases "fst (m w)") (auto simp: andthen_def)

lemma seq_Inr_iff: "seq m n w = (Inr u, w') \<longleftrightarrow> (\<exists>v w1. m w = (Inr v, w1) \<and> n w1 = (Inr u, w'))"
  by (cases "m w"; cases "fst (m w)") (auto simp: seq_def andthen_def)

lemma andthen_Inr_iff: "andthen m f w = (Inr u, w') \<longleftrightarrow> (\<exists>v w1. m w = (Inr v, w1) \<and> f v w1 = (Inr u, w'))"
  by (cases "m w"; cases "fst (m w)") (auto simp: andthen_def)

lemma finally_ends:
  "\<exists>r w1. m w = (r, w1) \<and> snd (with_finally m n w) = snd (n w1)"
  by (cases "m w") (auto simp: with_finally_def split: prod.split sum.split)

end
