(* ===== verification/Runner.thy ===== *)
theory Runner
  imports Effects
begin

text \<open>
  The execution environment (\<open>src/aib/execmode.py\<close>) and the runner of external commands
  (\<open>src/aib/runner.py\<close>, with \<open>src/aib/ostree.py\<close> on top of it).  The outcome of a command and of a
  file operation is an oracle that may depend on all events before it; the world records the
  events.  The keepalive thread of sudo, which runs for ever, is the flag that it was started.
\<close>

section \<open>Execution mode\<close>

text \<open>\<open>ContainerState\<close>: the content of \<open>/run/.containerenv\<close>, if the file exists.\<close>

record container_state =
  cs_in_container :: bool
  cs_rootless :: bool

definition container_state :: "string option \<Rightarrow> container_state" where
  "container_state containerenv =
     (case containerenv of
        None \<Rightarrow> \<lparr>cs_in_container = False, cs_rootless = False\<rparr>
      | Some text \<Rightarrow> \<lparr>cs_in_container = True, cs_rootless = ''rootless=1'' \<in> set (py_splitlines text)\<rparr>)"

datatype privilege = ROOT | ROOTLESS_CONTAINER | SUDO | ROOTLESS

definition resolve_privilege :: "container_state \<Rightarrow> nat \<Rightarrow> bool \<Rightarrow> privilege" where
  "resolve_privilege st uid use_sudo =
     (if cs_rootless st then ROOTLESS_CONTAINER
      else if uid = 0 then ROOT
      else if use_sudo then SUDO
      else ROOTLESS)"

definition preserved_env :: "string list" where
  "preserved_env = [''REGISTRY_AUTH_FILE'', ''CONTAINERS_CONF'', ''CONTAINERS_REGISTRIES_CONF'', ''CONTAINERS_STORAGE_CONF'']"

definition uses_sudo :: "privilege \<Rightarrow> bool" where
  "uses_sudo p \<longleftrightarrow> p = SUDO"

fun run_prefix :: "privilege \<Rightarrow> string list" where
  "run_prefix SUDO = [''sudo'', ''--preserve-env='' @ py_join '','' preserved_env]"
| "run_prefix ROOT = []"
| "run_prefix ROOTLESS_CONTAINER = []"
| "run_prefix ROOTLESS = []"

fun reap_prefix :: "privilege \<Rightarrow> string list" where
  "reap_prefix SUDO = [''sudo'']"
| "reap_prefix ROOTLESS = [''podman'', ''unshare'']"
| "reap_prefix ROOT = []"
| "reap_prefix ROOTLESS_CONTAINER = []"

definition force_in_vm :: "privilege \<Rightarrow> bool" where
  "force_in_vm p \<longleftrightarrow> p \<in> {ROOTLESS_CONTAINER, ROOTLESS}"

definition osbuild_store_subdir :: "privilege \<Rightarrow> string" where
  "osbuild_store_subdir p = (if p \<in> {ROOTLESS_CONTAINER, ROOTLESS} then ''osbuild_store_rootless'' else ''osbuild_store'')"

definition podman_needs_unshare :: "privilege \<Rightarrow> bool" where
  "podman_needs_unshare p \<longleftrightarrow> p = ROOTLESS"

section \<open>The world\<close>

datatype event =
    Ev_Run "string list"
  | Ev_Rmtree string
  | Ev_Move string string
  | Ev_Mkdir string
  | Ev_Write string string
  | Ev_Copy string string

datatype cmd_result = Cmd_Ok string | Cmd_Exit int | Cmd_Missing

record os_env =
  oe_run :: "event list \<Rightarrow> string list \<Rightarrow> cmd_result"
  oe_fails :: "event list \<Rightarrow> event \<Rightarrow> bool"
  oe_exists :: "event list \<Rightarrow> string \<Rightarrow> bool"
  oe_uid :: nat
  oe_gid :: nat

record run_world =
  rw_log :: "event list"
  rw_keepalive :: bool

text \<open>Running a command, and a file operation that raises OSError when it fails.\<close>

definition execute :: "os_env \<Rightarrow> string list \<Rightarrow> ('a run_world_scheme, cmd_result) prog" where
  "execute oe cmd w = (Inr (oe_run oe (rw_log w) cmd), w\<lparr>rw_log := rw_log w @ [Ev_Run cmd]\<rparr>)"

definition file_op :: "os_env \<Rightarrow> event \<Rightarrow> ('a run_world_scheme, unit) prog" where
  "file_op oe ev w =
     (if oe_fails oe (rw_log w) ev then (Inl OS_Error, w) else (Inr (), w\<lparr>rw_log := rw_log w @ [ev]\<rparr>))"

definition path_exists :: "os_env \<Rightarrow> string \<Rightarrow> ('a run_world_scheme, bool) prog" where
  "path_exists oe p = ask (\<lambda>w. oe_exists oe (rw_log w) p)"

section \<open>Commands\<close>

definition sudo_validate :: "string list" where
  "sudo_validate = [''sudo'', ''-v'']"

definition ensure_sudo :: "os_env \<Rightarrow> privilege \<Rightarrow> ('a run_world_scheme, unit) prog" where
  "ensure_sudo oe p w =
     (if \<not> uses_sudo p \<or> rw_keepalive w then ret () w
      else andthen (execute oe sudo_validate)
             (\<lambda>r. case r of
                Cmd_Ok out \<Rightarrow> update_world (\<lambda>w. w\<lparr>rw_keepalive := True\<rparr>)
              | Cmd_Exit n \<Rightarrow> raise_exn Called_Process_Error
              | Cmd_Missing \<Rightarrow> raise_exn File_Not_Found_Error) w)"

text \<open>
  The end of \<open>_run\<close>: with progress the exit code of the monitored command, without it any failure
  is exit code 1; the output is returned when it is captured.
\<close>

definition finish_run :: "bool \<Rightarrow> bool \<Rightarrow> cmd_result \<Rightarrow> ('a run_world_scheme, string option) prog" where
  "finish_run with_progress capture_output r =
     (case r of
        Cmd_Ok out \<Rightarrow> ret (if \<not> with_progress \<and> capture_output then Some (py_rstrip out) else None)
      | Cmd_Exit n \<Rightarrow>
          if with_progress then (if n \<noteq> 0 then raise_exn (Sys_Exit n) else ret None)
          else raise_exn (Sys_Exit 1)
      | Cmd_Missing \<Rightarrow> if with_progress then raise_exn (Sys_Exit 1) else raise_exn File_Not_Found_Error)"

definition run_cmd ::
  "os_env \<Rightarrow> privilege \<Rightarrow> bool \<Rightarrow> bool \<Rightarrow> bool \<Rightarrow> string option \<Rightarrow> string list \<Rightarrow> ('a run_world_scheme, string option) prog" where
  "run_cmd oe p as_root with_progress capture_output log_file cmd =
     seq (if as_root then ensure_sudo oe p else ret ())
       (let cmdline = (if as_root then run_prefix p @ cmd else cmd)
        in if with_progress \<and> log_file = None then raise_exn Missing_Log_File
           else andthen (execute oe cmdline) (finish_run with_progress capture_output))"

definition run_as_root :: "os_env \<Rightarrow> privilege \<Rightarrow> string list \<Rightarrow> ('a run_world_scheme, unit) prog" where
  "run_as_root oe p cmd = seq (run_cmd oe p True False False None cmd) (ret ())"

definition capture_as_root :: "os_env \<Rightarrow> privilege \<Rightarrow> string list \<Rightarrow> ('a run_world_scheme, string option) prog" where
  "capture_as_root oe p cmd = run_cmd oe p True False True None cmd"

definition run_as_user :: "os_env \<Rightarrow> privilege \<Rightarrow> string list \<Rightarrow> ('a run_world_scheme, unit) prog" where
  "run_as_user oe p cmd = seq (run_cmd oe p False False False None cmd) (ret ())"

definition capture_as_user :: "os_env \<Rightarrow> privilege \<Rightarrow> string list \<Rightarrow> ('a run_world_scheme, string option) prog" where
  "capture_as_user oe p cmd = run_cmd oe p False False True None cmd"

definition rm_rf :: "os_env \<Rightarrow> privilege \<Rightarrow> string \<Rightarrow> ('a run_world_scheme, unit) prog" where
  "rm_rf oe p path =
     andthen (path_exists oe path) (\<lambda>there.
       if \<not> there then ret ()
       else with_except (file_op oe (Ev_Rmtree path)) (\<lambda>e. e = OS_Error) (\<lambda>last_err.
         if reap_prefix p \<noteq> [] then
           seq (if uses_sudo p then ensure_sudo oe p else ret ())
             (run_as_user oe p (reap_prefix p @ [''rm'', ''-rf'', path]))
         else raise_exn last_err))"

definition move_chown :: "os_env \<Rightarrow> privilege \<Rightarrow> string \<Rightarrow> string \<Rightarrow> ('a run_world_scheme, unit) prog" where
  "move_chown oe p src dst =
     (if uses_sudo p then
        seq (ensure_sudo oe p)
          (seq (run_as_root oe p [''chown'', dec_nat (oe_uid oe) @ '':'' @ dec_nat (oe_gid oe), src])
            (run_as_root oe p [''mv'', src, dst]))
      else file_op oe (Ev_Move src dst))"

section \<open>OSTree repositories\<close>

definition make_ostree :: "os_env \<Rightarrow> privilege \<Rightarrow> bool \<Rightarrow> string \<Rightarrow> ('a run_world_scheme, unit) prog" where
  "make_ostree oe p is_dir path =
     (if is_dir then ret () else run_as_user oe p [''ostree'', ''init'', ''--repo'', path, ''--mode'', ''archive''])"

definition ostree_refs :: "os_env \<Rightarrow> privilege \<Rightarrow> string \<Rightarrow> ('a run_world_scheme, string list) prog" where
  "ostree_refs oe p path =
     andthen (capture_as_user oe p [''ostree'', ''refs'', ''--repo'', path]) (\<lambda>out.
       ret (case out of None \<Rightarrow> [] | Some text \<Rightarrow> if text \<noteq> [] then py_split [CHR 0x0A] text else []))"

definition ostree_rev_parse :: "os_env \<Rightarrow> privilege \<Rightarrow> string \<Rightarrow> string \<Rightarrow> ('a run_world_scheme, string option) prog" where
  "ostree_rev_parse oe p path ref = capture_as_user oe p [''ostree'', ''rev-parse'', ''--repo'', path, ref]"

fun ostree_revs :: "os_env \<Rightarrow> privilege \<Rightarrow> string \<Rightarrow> string list \<Rightarrow> ('a run_world_scheme, (string \<times> string) list) prog" where
  "ostree_revs oe p path [] = ret []"
| "ostree_revs oe p path (ref # refs) =
     andthen (ostree_rev_parse oe p path ref) (\<lambda>rev.
     andthen (ostree_revs oe p path refs) (\<lambda>revs.
       ret ((ref, case rev of None \<Rightarrow> [] | Some r \<Rightarrow> r) # revs)))"

section \<open>Properties\<close>

text \<open>What a command as root or as the user adds to the log when it returns.\<close>

definition sudo_events :: "privilege \<Rightarrow> 'a run_world_scheme \<Rightarrow> event list" where
  "sudo_events p w = (if uses_sudo p \<and> \<not> rw_keepalive w then [Ev_Run sudo_validate] else [])"

lemma ensure_sudo_Inr:
  assumes "ensure_sudo oe p w = (Inr u, w')"
  shows "rw_log w' = rw_log w @ sudo_events p w \<and> rw_keepalive w' = (rw_keepalive w \<or> uses_sudo p)"
  using assms
  by (auto simp: ensure_sudo_def andthen_def execute_def run_simps sudo_events_def split: if_splits cmd_result.splits)

lemma finish_run_world: "finish_run pr cap r w = (x, w') \<Longrightarrow> w' = w"
  by (auto simp: finish_run_def run_simps split: cmd_result.splits if_splits)

lemma run_cmd_Inr:
  assumes "run_cmd oe p as_root pr cap lf cmd w = (Inr out, w')"
  shows "rw_log w' = rw_log w @ (if as_root then sudo_events p w @ [Ev_Run (run_prefix p @ cmd)] else [Ev_Run cmd]) \<and>
    rw_keepalive w' = (rw_keepalive w \<or> (as_root \<and> uses_sudo p))"
proof (cases as_root)
  case True
  then obtain w1 where w1: "ensure_sudo oe p w = (Inr (), w1)"
    and run: "andthen (execute oe (run_prefix p @ cmd)) (finish_run pr cap) w1 = (Inr out, w')"
    using assms by (cases "ensure_sudo oe p w"; cases "fst (ensure_sudo oe p w)")
      (auto simp: run_cmd_def seq_def andthen_def run_simps Let_def split: if_splits)
  have "w' = w1\<lparr>rw_log := rw_log w1 @ [Ev_Run (run_prefix p @ cmd)]\<rparr>"
    using run by (auto simp: andthen_def execute_def dest!: finish_run_world)
  then show ?thesis using ensure_sudo_Inr [OF w1] True by simp
next
  case False
  then have run: "andthen (execute oe cmd) (finish_run pr cap) w = (Inr out, w')"
    using assms by (auto simp: run_cmd_def seq_def andthen_def run_simps Let_def split: if_splits)
  have "w' = w\<lparr>rw_log := rw_log w @ [Ev_Run cmd]\<rparr>"
    using run by (auto simp: andthen_def execute_def dest!: finish_run_world)
  then show ?thesis using False by simp
qed

lemma run_as_root_Inr:
  assumes "run_as_root oe p cmd w = (Inr u, w')"
  shows "rw_log w' = rw_log w @ sudo_events p w @ [Ev_Run (run_prefix p @ cmd)] \<and>
    rw_keepalive w' = (rw_keepalive w \<or> uses_sudo p)"
proof -
  obtain out where "run_cmd oe p True False False None cmd w = (Inr out, w')"
    using assms by (cases "run_cmd oe p True False False None cmd w"; cases "fst (run_cmd oe p True False False None cmd w)")
      (auto simp: run_as_root_def seq_def andthen_def run_simps)
  then show ?thesis using run_cmd_Inr by fastforce
qed

text \<open>
  C10: Running commands as root, one after the other: when all of them succeed the log has exactly
  these commands in this order, each with the prefix of the execution mode, and one sudo validation
  before the first one, only in sudo mode and only if the ticket is not yet kept alive.
\<close>

theorem root_commands_logged:
  assumes "each (run_as_root oe p) cmds w = (Inr u, w')" and "cmds \<noteq> []"
  shows "rw_log w' = rw_log w @ sudo_events p w @ map (\<lambda>cmd. Ev_Run (run_prefix p @ cmd)) cmds"
proof -
  have "rw_log w' = rw_log w @ (if cmds = [] then [] else sudo_events p w @ map (\<lambda>cmd. Ev_Run (run_prefix p @ cmd)) cmds)"
    using assms(1)
  proof (induction cmds arbitrary: w)
    case Nil
    then show ?case by (simp add: run_simps)
  next
    case (Cons cmd cmds)
    then obtain w1 where w1: "run_as_root oe p cmd w = (Inr (), w1)" "each (run_as_root oe p) cmds w1 = (Inr u, w')"
      by (cases "run_as_root oe p cmd w"; cases "fst (run_as_root oe p cmd w)") (auto simp: seq_def andthen_def)
    have "sudo_events p w1 = []" using run_as_root_Inr [OF w1(1)] by (simp add: sudo_events_def)
    then show ?case using run_as_root_Inr [OF w1(1)] Cons.IH [OF w1(2)] by simp
  qed
  then show ?thesis using assms(2) by simp
qed

definition calm_env :: os_env where
  "calm_env = \<lparr>oe_run = (\<lambda>log cmd. Cmd_Ok ''done''), oe_fails = (\<lambda>log ev. False), oe_exists = (\<lambda>log p. True),
     oe_uid = 1000, oe_gid = 1000\<rparr>"

definition start_world :: run_world where
  "start_world = \<lparr>rw_log = [], rw_keepalive = False\<rparr>"

theorem root_commands_logged_witness:
  "rw_log (snd (each (run_as_root calm_env SUDO) [[''osbuild''], [''mv'', ''a'', ''b'']] start_world)) =
     [Ev_Run [''sudo'', ''-v''], Ev_Run (run_prefix SUDO @ [''osbuild'']), Ev_Run (run_prefix SUDO @ [''mv'', ''a'', ''b''])]"
proof -
  define r where "r = each (run_as_root calm_env SUDO) [[''osbuild''], [''mv'', ''a'', ''b'']] start_world"
  have "fst r = Inr ()" unfolding r_def by code_simp
  then have "each (run_as_root calm_env SUDO) [[''osbuild''], [''mv'', ''a'', ''b'']] start_world = (Inr (), snd r)"
    unfolding r_def by (metis prod.collapse)
  from root_commands_logged [OF this] show ?thesis
    unfolding r_def [symmetric] by (simp add: start_world_def sudo_events_def uses_sudo_def sudo_validate_def)
qed

text \<open>Unprivileged modes never call sudo: an invariant of every operation of the runner.\<close>

definition no_sudo :: "'a run_world_scheme \<Rightarrow> bool" where
  "no_sudo w \<longleftrightarrow> \<not> (\<exists>args. Ev_Run (''sudo'' # args) \<in> set (rw_log w))"

lemma preserves_execute: "\<not> (\<exists>args. cmd = ''sudo'' # args) \<Longrightarrow> preserves no_sudo (execute oe cmd)"
  by (auto simp: preserves_def execute_def no_sudo_def)

lemma preserves_file_op: "preserves no_sudo (file_op oe ev) \<longleftrightarrow> True" if "\<not> (\<exists>args. ev = Ev_Run args)"
  using that by (auto simp: preserves_def file_op_def no_sudo_def)

lemma preserves_finish [preserved]: "preserves I (finish_run pr cap r)"
  unfolding finish_run_def by (cases r) (auto intro: preserved)

lemma preserves_ensure [preserved]: "p \<noteq> SUDO \<Longrightarrow> preserves I (ensure_sudo oe p)"
  by (simp add: preserves_def ensure_sudo_def uses_sudo_def run_simps)

lemma run_prefix_no_sudo: "p \<noteq> SUDO \<Longrightarrow> run_prefix p = []"
  by (cases p) auto

lemma preserves_run_cmd [preserved]:
  assumes "p \<noteq> SUDO" and "\<not> (\<exists>args. cmd = ''sudo'' # args)"
  shows "preserves no_sudo (run_cmd oe p as_root pr cap lf cmd)"
  unfolding run_cmd_def Let_def
  by (intro preserved preserves_execute) (use assms in \<open>auto simp: run_prefix_no_sudo\<close>)

text \<open>
  In every mode other than sudo, no operation of the runner runs sudo: neither running a
  command, as root or not, nor removing a tree, nor moving an artifact, whatever fails.
\<close>

theorem no_sudo_without_sudo_mode:
  fixes w :: "'a run_world_scheme"
  assumes "p \<noteq> SUDO" and "no_sudo w" and "\<not> (\<exists>args. cmd = ''sudo'' # args)"
  shows "no_sudo (snd (run_cmd oe p as_root pr cap lf cmd w)) \<and> no_sudo (snd (rm_rf oe p path w)) \<and>
    no_sudo (snd (move_chown oe p src dst w))"
proof -
  have reap: "\<not> (\<exists>args. reap_prefix p @ [''rm'', ''-rf'', path] = ''sudo'' # args)"
    using assms(1) by (cases p) auto
  have "preserves (no_sudo :: 'a run_world_scheme \<Rightarrow> bool) (rm_rf oe p path)"
    unfolding rm_rf_def path_exists_def run_as_user_def
    by (intro preserved) (use assms reap in \<open>auto simp: preserves_file_op\<close>)
  moreover have "preserves (no_sudo :: 'a run_world_scheme \<Rightarrow> bool) (move_chown oe p src dst)"
    using assms(1) by (simp add: move_chown_def uses_sudo_def preserves_file_op)
  moreover have "preserves (no_sudo :: 'a run_world_scheme \<Rightarrow> bool) (run_cmd oe p as_root pr cap lf cmd)"
    using assms by (intro preserved) auto
  ultimately show ?thesis using assms(2) by (simp add: preserves_def)
qed

theorem no_sudo_without_sudo_mode_witness:
  "no_sudo (snd (rm_rf calm_env ROOTLESS ''/tmp/x'' start_world))"
  using no_sudo_without_sudo_mode [of ROOTLESS start_world "[''ls'']" calm_env True False False None "''/tmp/x''" "[]" "[]"]
  by (simp add: no_sudo_def start_world_def)

end
