(* ===== verification/Build_Defines.thy ===== *)
theory Build_Defines
  imports Manifest Runner
begin

text \<open>
  The input of the manifest preprocessor (\<open>create_osbuild_manifest\<close> and its helpers in
  \<open>src/aib/osbuild.py\<close>): the rewritten manifest, the defines collected from the policy, the simple
  manifest and the command line, and the command line of the preprocessor.  The YAML parser, the
  JSON printer and the hash are parameters; values are trees, so a list that two dictionaries share
  in the code is two lists here.
\<close>

section \<open>Helpers\<close>

text \<open>\<open>yaml.safe_load\<close>: only parser errors are caught by the code, other YAML errors are not.\<close>

datatype yaml_result = Yaml_Value pyval | Yaml_Parser_Error string | Yaml_Other_Error string

definition parse_define :: "(string \<Rightarrow> yaml_result) \<Rightarrow> string \<Rightarrow> string \<Rightarrow> (string \<times> pyval) res" where
  "parse_define yaml d option =
     (case py_split1 ''='' d of
        [k, yaml_v] \<Rightarrow>
          (case yaml yaml_v of
             Yaml_Value v \<Rightarrow> Inr (k, v)
           | Yaml_Parser_Error m \<Rightarrow> Inl (Invalid_Option option yaml_v)
           | Yaml_Other_Error m \<Rightarrow> Inl (YAML_Error m))
      | _ \<Rightarrow> Inl (Invalid_Option option d))"

definition is_alnum :: "char \<Rightarrow> bool" where
  "is_alnum c \<longleftrightarrow> is_digit c \<or> c \<in> set ''ABCDEFGHIJKLMNOPQRSTUVWXYZabcdefghijklmnopqrstuvwxyz''"

definition is_name_start :: "char \<Rightarrow> bool" where
  "is_name_start c \<longleftrightarrow> is_alnum c \<or> c \<in> set ''_-''"

text \<open>The pattern \<open>@?[A-Za-z0-9_-][A-Za-z0-9_.-]*/[A-Za-z0-9_-][A-Za-z0-9_.:+-]*\<close>.\<close>

definition valid_owner :: "string \<Rightarrow> bool" where
  "valid_owner s = (case s of [] \<Rightarrow> False | c # cs \<Rightarrow> is_name_start c \<and> list_all (\<lambda>c. is_name_start c \<or> c = CHR ''.'') cs)"

definition valid_project :: "string \<Rightarrow> bool" where
  "valid_project s = (case s of [] \<Rightarrow> False | c # cs \<Rightarrow> is_name_start c \<and> list_all (\<lambda>c. is_name_start c \<or> c \<in> set ''.:+'') cs)"

definition valid_copr_name :: "string \<Rightarrow> bool" where
  "valid_copr_name name =
     (case break_at ''/'' name of
        None \<Rightarrow> False
      | Some (owner, project) \<Rightarrow>
          valid_owner (case owner of [] \<Rightarrow> [] | c # cs \<Rightarrow> if c = CHR ''@'' then cs else owner) \<and> valid_project project)"

definition copr_repo_url :: "string \<Rightarrow> string res" where
  "copr_repo_url name =
     (if \<not> valid_copr_name name then
        Inl (AIB_Exception (''Invalid --extra-copr-repo '' @ [CHR 0x27] @ name @ [CHR 0x27] @
          '': expected OWNER/PROJECT or @GROUP/PROJECT''))
      else Inr (''https://download.copr.fedorainfracloud.org/results/'' @ name @ ''/$distro_chroot/''))"

text \<open>
  \<open>make_embed_path_abs\<close>: a dictionary without \<open>path\<close> is entered; one with it is not, and its path is
  made absolute when it is the value of \<open>mpp-embed\<close>.
\<close>

fun make_embed_path_abs :: "string \<Rightarrow> string \<Rightarrow> (string \<times> pyval) list \<Rightarrow> dict res"
  and embed_value :: "string \<Rightarrow> string \<Rightarrow> string \<Rightarrow> pyval \<Rightarrow> pyval res" where
  "make_embed_path_abs cwd path [] = Inr []"
| "make_embed_path_abs cwd path ((k, v) # stage) =
     res_bind (embed_value cwd path k v) (\<lambda>v'.
     res_bind (make_embed_path_abs cwd path stage) (\<lambda>rest. Inr ((k, v') # rest)))"
| "embed_value cwd path k (PyDict d) =
     (case dict_get d ''path'' of
        None \<Rightarrow> res_map PyDict (make_embed_path_abs cwd path d)
      | Some p \<Rightarrow>
          if k = ''mpp-embed'' then
            (case p of
               PyStr s \<Rightarrow>
                 Inr (PyDict (if path_isabs s then d
                   else dict_set d ''path'' (PyStr (path_normpath (path_join (path_abspath cwd path) s)))))
             | _ \<Rightarrow> Inl Type_Error)
          else Inr (PyDict d))"
| "embed_value cwd path k v = Inr v"

definition embed_stage :: "string \<Rightarrow> string \<Rightarrow> pyval \<Rightarrow> pyval res" where
  "embed_stage cwd path stage =
     (case stage of PyDict d \<Rightarrow> res_map PyDict (make_embed_path_abs cwd path d) | _ \<Rightarrow> Inl Attribute_Error)"

definition embed_pipeline :: "string \<Rightarrow> string \<Rightarrow> pyval \<Rightarrow> pyval res" where
  "embed_pipeline cwd path p =
     (case p of
        PyDict d \<Rightarrow>
          (case dict_get d ''stages'' of
             None \<Rightarrow> Inr (PyDict d)
           | Some (PyList stages) \<Rightarrow>
               res_map (\<lambda>ss. PyDict (dict_set d ''stages'' (PyList ss))) (res_mapM (embed_stage cwd path) stages)
           | Some v \<Rightarrow> Inl Type_Error)
      | _ \<Rightarrow> Inl Attribute_Error)"

definition eval_stage :: "string \<Rightarrow> pyval" where
  "eval_stage name = PyDict [(''mpp-eval'', PyStr name)]"

definition rootfs_workarounds :: "pyval list" where
  "rootfs_workarounds =
     [eval_stage ''init_rootfs_dirs_stage'', eval_stage ''kernel_cmdline_stage'', eval_stage ''init_rootfs_files_stage'']"

definition is_rootfs :: "pyval \<Rightarrow> bool" where
  "is_rootfs p = (case p of PyDict d \<Rightarrow> dict_get d ''name'' = Some (PyStr ''rootfs'') | _ \<Rightarrow> False)"

definition inject_workarounds :: "pyval \<Rightarrow> pyval" where
  "inject_workarounds p =
     (case p of
        PyDict d \<Rightarrow> (case dict_get d ''stages'' of
            Some (PyList ss) \<Rightarrow> PyDict (dict_set d ''stages'' (PyList (rootfs_workarounds @ ss)))
          | _ \<Rightarrow> PyDict d)
      | v \<Rightarrow> v)"

text \<open>The last pipeline with a property is changed.\<close>

fun map_last :: "('a \<Rightarrow> bool) \<Rightarrow> ('a \<Rightarrow> 'a) \<Rightarrow> 'a list \<Rightarrow> 'a list" where
  "map_last P f [] = []"
| "map_last P f (x # xs) = (if P x \<and> \<not> list_ex P xs then f x # xs else x # map_last P f xs)"

definition rewrite_manifest :: "string \<Rightarrow> dict \<Rightarrow> string \<Rightarrow> dict res" where
  "rewrite_manifest cwd manifest path =
     (case dict_get_or manifest ''pipelines'' PyNone of
        PyList (p # ps) \<Rightarrow>
          res_map (\<lambda>qs. dict_set manifest ''pipelines'' (PyList (map_last is_rootfs inject_workarounds qs)))
            (res_mapM (embed_pipeline cwd path) (p # ps))
      | v \<Rightarrow> if py_truthy v then Inl Attribute_Error else Inl (Missing_Section ''pipelines''))"

definition strip_ext :: "string \<Rightarrow> string" where
  "strip_ext path = fst (path_splitext (fst (path_splitext path)))"

text \<open>\<open>int(s)\<close>: blanks around, a sign, and digits with single underscores between them.\<close>

fun digits_value :: "string \<Rightarrow> nat \<Rightarrow> nat option" where
  "digits_value [] n = Some n"
| "digits_value (c # cs) n =
     (if is_digit c then digits_value cs (10 * n + digit_val c)
      else if c = CHR ''_'' then
        (case cs of d # ds \<Rightarrow> if is_digit d then digits_value ds (10 * n + digit_val d) else None | [] \<Rightarrow> None)
      else None)"

definition unsigned_int :: "string \<Rightarrow> nat option" where
  "unsigned_int s = (case s of [] \<Rightarrow> None | c # cs \<Rightarrow> if is_digit c then digits_value cs (digit_val c) else None)"

definition py_int :: "string \<Rightarrow> int option" where
  "py_int s =
     (case py_strip s of
        [] \<Rightarrow> None
      | c # cs \<Rightarrow>
          if c = CHR ''-'' then map_option (\<lambda>n. - int n) (unsigned_int cs)
          else if c = CHR ''+'' then map_option int (unsigned_int cs)
          else map_option int (unsigned_int (c # cs)))"

section \<open>Arguments and environment\<close>

record build_args =
  ba_manifest :: string
  ba_simple_manifest :: "string option"
  ba_base_dir :: string
  ba_arch :: string
  ba_distro :: string
  ba_mode :: string
  ba_target :: "string option"
  ba_policy :: "policy option"
  ba_dump_variables :: bool
  ba_root_password :: "string option"
  ba_ostree_repo :: "string option"
  ba_reproducible :: bool
  ba_define :: "string list"
  ba_define_file :: "string list"
  ba_extend_define :: "string list"
  ba_local_repo :: "string option"
  ba_extra_repo :: "string list"
  ba_extra_copr_repo :: "string list"
  ba_include_dirs :: "string list"
  ba_cache :: "string option"
  ba_lockfile :: "string option"
  ba_generate_lockfile :: "string option"
  ba_generate_sbom :: bool
  ba_sbom_dir :: "string option"

record build_env =
  be_cwd :: string
  be_yaml :: "string \<Rightarrow> yaml_result"
  be_yaml_file :: "string \<Rightarrow> yaml_result"
  be_simple :: "string \<Rightarrow> pyval"
  be_me :: manifest_env
  be_dumps :: "pyval \<Rightarrow> string"
  be_digest :: "string option \<Rightarrow> pyval \<Rightarrow> string"
  be_read :: "string \<Rightarrow> string option"
  be_mtime :: int
  be_osbuild_major :: int
  be_source_date_epoch :: "string option"
  be_ostree_refs :: "(string \<times> string) list"

section \<open>Defines\<close>

definition upd :: "string \<Rightarrow> pyval \<Rightarrow> dict \<Rightarrow> dict" where
  "upd k v d = dict_set d k v"

definition base_defines :: "build_env \<Rightarrow> build_args \<Rightarrow> string \<Rightarrow> pyval \<Rightarrow> dict" where
  "base_defines be a workdir name =
     [(''_basedir'', PyStr (ba_base_dir a)), (''_workdir'', PyStr workdir), (''name'', name),
      (''arch'', PyStr (ba_arch a)), (''distro_name'', PyStr (ba_distro a)), (''image_mode'', PyStr (ba_mode a)),
      (''osbuild_major_version'', PyInt (be_osbuild_major be)),
      (''image_type'', PyStr (if ba_mode a = ''image'' then ''ostree'' else ''regular'')),
      (''manifest_mtime'', PyInt (be_mtime be))]"

definition sysctl_option :: "string \<times> pyval \<Rightarrow> pyval" where
  "sysctl_option kv = PyDict [(''key'', PyStr (fst kv)), (''value'', snd kv)]"

definition selinux_boolean :: "string \<times> pyval \<Rightarrow> pyval" where
  "selinux_boolean kv = PyStr (fst kv @ ''='' @ (if py_truthy (snd kv) then ''true'' else ''false''))"

definition policy_defines :: "policy \<Rightarrow> dict \<Rightarrow> dict" where
  "policy_defines p d =
     upd ''policy_selinux_booleans'' (PyList (map selinux_boolean (forced_selinux_booleans p)))
    (upd ''policy_systemctl_options'' (PyList (map sysctl_option (forced_sysctl p)))
    (upd ''policy_disabled_services'' (disabled_services p)
    (upd ''policy_enabled_services'' (enabled_services p)
    (upd ''policy_masked_services'' (masked_services p)
    (upd ''policy_denylist_modules'' (disallowed_kernel_modules p)
    (upd ''policy_denylist_rpms'' (disallowed_rpms p)
    (dict_update d (forced_variables p))))))))"

definition default_target :: string where
  "default_target = ''qemu''"

text \<open>The build against the policy; the target is the one in the defines, a string by the schema.\<close>

definition validate_policy_args :: "(policy_msg \<Rightarrow> string) \<Rightarrow> build_args \<Rightarrow> pyval \<Rightarrow> unit res" where
  "validate_policy_args msg a target_val =
     (case ba_policy a of
        None \<Rightarrow> Inr ()
      | Some p \<Rightarrow>
          res_bind (as_str Type_Error target_val) (\<lambda>target.
          res_bind (append_errors (Inr (validate_manifest_type p (ba_simple_manifest a \<noteq> None)))
                      (validate_build_args p (ba_mode a) target (ba_distro a) (ba_arch a) [])) (\<lambda>errors.
            if errors \<noteq> [] then
              Inl (AIB_Exception (''Policy validation failed:'' @ nl @ py_join nl (map msg errors)))
            else Inr ())))"

text \<open>The defines from the manifest, the policy and the target options.\<close>

definition manifest_defines :: "build_env \<Rightarrow> build_args \<Rightarrow> string \<Rightarrow> pyval \<Rightarrow> dict res" where
  "manifest_defines be a workdir name =
     (let d0 = base_defines be a workdir name;
          d1 = (if ba_dump_variables a then upd ''print_variables'' (PyBool True) d0 else d0);
          d2 = (case ba_policy a of None \<Rightarrow> d1 | Some p \<Rightarrow> policy_defines p d1);
          d3 = upd ''target'' (PyStr default_target) d2
      in res_bind
           (case ba_simple_manifest a of
              None \<Rightarrow> Inr d3
            | Some path \<Rightarrow>
                if path = [] then Inr d3
                else res_map fst (load_manifest (be_me be) (ba_policy a) path (path_dirname path) workdir (be_simple be path) d3)) (\<lambda>d4.
         let d5 = (case ba_target a of None \<Rightarrow> d4 | Some t \<Rightarrow> if t \<noteq> [] then upd ''target'' (PyStr t) d4 else d4)
         in Inr (case ba_root_password a of None \<Rightarrow> d5 | Some pw \<Rightarrow> upd ''root_password'' (PyStr pw) d5)))"

definition parse_epoch :: "string \<Rightarrow> int res" where
  "parse_epoch sde =
     (case py_int sde of
        Some n \<Rightarrow> if n < 0 then Inl (AIB_Exception (''SOURCE_DATE_EPOCH must be a non-negative integer, got '' @ [CHR 0x27] @ sde @ [CHR 0x27]))
          else Inr n
      | None \<Rightarrow> Inl (AIB_Exception (''SOURCE_DATE_EPOCH must be a non-negative integer, got '' @ [CHR 0x27] @ sde @ [CHR 0x27])))"

text \<open>
  The user's defines are gathered twice: in all defines and apart, for the identity of the build.
\<close>

type_synonym two_defines = "dict \<times> dict"

definition add_define :: "build_env \<Rightarrow> string \<Rightarrow> two_defines \<Rightarrow> two_defines res" where
  "add_define be d ds =
     res_map (\<lambda>(k, v). (upd k v (fst ds), upd k v (snd ds))) (parse_define (be_yaml be) d ''--define'')"

definition add_define_file :: "build_env \<Rightarrow> string \<Rightarrow> two_defines \<Rightarrow> two_defines res" where
  "add_define_file be df ds =
     (case be_yaml_file be df of
        Yaml_Value (PyDict file) \<Rightarrow> Inr (dict_update (fst ds) file, dict_update (snd ds) file)
      | Yaml_Value v \<Rightarrow> Inl (Define_File_Error ''Define file must be yaml dict'')
      | Yaml_Parser_Error m \<Rightarrow> Inl (Define_File_Error (''Invalid yaml define file '' @ [CHR 0x27] @ df @ [CHR 0x27] @ '': '' @ m))
      | Yaml_Other_Error m \<Rightarrow> Inl (YAML_Error m))"

definition wrap_list :: "pyval \<Rightarrow> pyval list" where
  "wrap_list v = (case v of PyList xs \<Rightarrow> xs | w \<Rightarrow> [w])"

definition add_extend :: "build_env \<Rightarrow> string \<Rightarrow> two_defines \<Rightarrow> two_defines res" where
  "add_extend be d ds =
     res_bind (parse_define (be_yaml be) d ''--extend-define'') (\<lambda>(k, v).
       let vs = wrap_list v;
           user = upd k (PyList (wrap_list (dict_get_or (snd ds) k (PyList [])) @ vs)) (snd ds)
       in case dict_get_or (fst ds) k (PyList []) of
            PyList xs \<Rightarrow> Inr (upd k (PyList (xs @ vs)) (fst ds), user)
          | _ \<Rightarrow> Inl Attribute_Error)"

definition user_defines :: "build_env \<Rightarrow> build_args \<Rightarrow> dict \<Rightarrow> two_defines res" where
  "user_defines be a d =
     res_bind (res_fold (add_define be) (ba_define a) (d, [])) (\<lambda>ds1.
     res_bind (res_fold (add_define_file be) (ba_define_file a) ds1) (\<lambda>ds2.
       res_fold (add_extend be) (ba_extend_define a) ds2))"

definition add_repo_urls :: "string list \<Rightarrow> dict \<Rightarrow> dict res" where
  "add_repo_urls urls d =
     (if urls = [] then Inr d
      else case dict_get_or d ''extra_repo_urls'' (PyList []) of
        PyList xs \<Rightarrow> Inr (upd ''extra_repo_urls'' (PyList (xs @ map PyStr urls)) d)
      | _ \<Rightarrow> Inl Type_Error)"

definition build_identity :: "build_args \<Rightarrow> string list \<Rightarrow> dict \<Rightarrow> dict \<Rightarrow> pyval" where
  "build_identity a urls defines user =
     PyDict ([(''arch'', PyStr (ba_arch a)), (''distro'', PyStr (ba_distro a)), (''mode'', PyStr (ba_mode a)),
              (''target'', dict_get_or defines ''target'' PyNone), (''defines'', PyDict user),
              (''local_repo'', dict_get_or defines ''local_repo'' PyNone),
              (''ostree_parent_refs'', dict_get_or defines ''ostree_parent_refs'' PyNone),
              (''policy'', case ba_policy a of None \<Rightarrow> PyNone | Some p \<Rightarrow> PyDict (pol_restrictions p))] @
             (if urls \<noteq> [] then [(''extra_repo_urls'', dict_get_or defines ''extra_repo_urls'' PyNone)] else []))"

definition hashed_source :: "build_args \<Rightarrow> string" where
  "hashed_source a = (case ba_simple_manifest a of Some s \<Rightarrow> if s \<noteq> [] then s else ba_manifest a | None \<Rightarrow> ba_manifest a)"

text \<open>From the collected defines to the final ones.\<close>

definition set_local_repo :: "build_env \<Rightarrow> build_args \<Rightarrow> dict \<Rightarrow> dict" where
  "set_local_repo be a d =
     (case ba_local_repo a of
        None \<Rightarrow> d
      | Some p \<Rightarrow> if p \<noteq> [] then upd ''local_repo'' (PyStr (path_abspath (be_cwd be) p)) d else d)"

definition set_parent_refs :: "build_env \<Rightarrow> build_args \<Rightarrow> dict \<Rightarrow> dict" where
  "set_parent_refs be a d =
     (case ba_ostree_repo a of
        None \<Rightarrow> d
      | Some r \<Rightarrow>
          if r \<noteq> [] then
            upd ''ostree_parent_refs'' (PyDict (fold (\<lambda>(ref, rev) d. dict_set d ref (PyStr rev)) (be_ostree_refs be) [])) d
          else d)"

definition set_epoch :: "build_env \<Rightarrow> dict \<Rightarrow> dict res" where
  "set_epoch be d =
     (case be_source_date_epoch be of
        None \<Rightarrow> Inr d
      | Some sde \<Rightarrow> res_map (\<lambda>n. upd ''source_date_epoch'' (PyInt n) d) (parse_epoch sde))"

definition option_defines :: "build_env \<Rightarrow> build_args \<Rightarrow> dict \<Rightarrow> dict res" where
  "option_defines be a d =
     res_bind (py_item (PyDict d) ''target'') (\<lambda>target.
     res_bind (validate_policy_args (me_message (be_me be)) a target) (\<lambda>_.
     res_map (\<lambda>d1. if ba_reproducible a then upd ''reproducible_image'' (PyBool True) d1 else d1)
       (set_epoch be (set_parent_refs be a d))))"

definition repo_defines_of :: "build_env \<Rightarrow> build_args \<Rightarrow> two_defines \<Rightarrow> dict res" where
  "repo_defines_of be a ds =
     res_bind (res_mapM copr_repo_url (ba_extra_copr_repo a)) (\<lambda>coprs.
       let urls = ba_extra_repo a @ coprs
       in res_map (\<lambda>d. upd ''manifest_content_hash''
                (PyStr (be_digest be (be_read be (hashed_source a)) (build_identity a urls d (snd ds)))) d)
            (add_repo_urls urls (set_local_repo be a (fst ds))))"

definition build_defines :: "build_env \<Rightarrow> build_args \<Rightarrow> string \<Rightarrow> pyval \<Rightarrow> dict res" where
  "build_defines be a workdir name =
     res_bind (manifest_defines be a workdir name) (\<lambda>d1.
     res_bind (option_defines be a d1) (\<lambda>d2.
     res_bind (user_defines be a d2) (\<lambda>ds. repo_defines_of be a ds)))"

section \<open>The command line\<close>

definition define_args :: "(pyval \<Rightarrow> string) \<Rightarrow> dict \<Rightarrow> string list" where
  "define_args dumps d =
     concat (map (\<lambda>k. [''-D'', k @ ''='' @ dumps (dict_get_or d k PyNone)]) (sort (dict_keys d)))"

definition sbom_args :: "build_env \<Rightarrow> build_args \<Rightarrow> string list" where
  "sbom_args be a =
     (let dir = (case ba_sbom_dir a of Some d \<Rightarrow> d | None \<Rightarrow> []);
          default_dir = (case ba_simple_manifest a of
              None \<Rightarrow> ''./sbom''
            | Some m \<Rightarrow> path_join (path_abspath (be_cwd be) (path_dirname m)) ''sbom'')
      in if ba_generate_sbom a \<or> dir \<noteq> [] then [''--generate-sbom'', if dir \<noteq> [] then dir else default_dir] else [])"

definition opt_arg :: "string \<Rightarrow> string option \<Rightarrow> string list" where
  "opt_arg name v = (case v of Some s \<Rightarrow> if s \<noteq> [] then [name, s] else [] | None \<Rightarrow> [])"

definition mpp_cmdline :: "build_env \<Rightarrow> build_args \<Rightarrow> string \<Rightarrow> dict \<Rightarrow> string \<Rightarrow> string option \<Rightarrow> string list" where
  "mpp_cmdline be a tmpdir defines out storage_conf =
     (case storage_conf of None \<Rightarrow> [] | Some conf \<Rightarrow> [''env'', ''CONTAINERS_STORAGE_CONF='' @ conf]) @
     [path_join (ba_base_dir a) ''mpp/aib-osbuild-mpp''] @
     concat (map (\<lambda>inc. [''-I'', inc]) (ba_include_dirs a)) @
     define_args (be_dumps be) defines @
     (case opt_arg ''--cache'' (ba_cache a) of [] \<Rightarrow> [''--cache'', path_join tmpdir ''dnf-cache''] | c \<Rightarrow> c) @
     opt_arg ''--lockfile'' (ba_lockfile a) @
     opt_arg ''--generate-lockfile'' (ba_generate_lockfile a) @
     sbom_args be a @
     [path_join (ba_base_dir a) ''include/main.ipp.yml'', out]"

text \<open>What is handed to the preprocessor: two documents and its command line.\<close>

record mpp_input =
  mi_variables :: dict
  mi_manifest :: dict
  mi_defines :: dict
  mi_cmdline :: "string list"

definition manifest_name :: "build_args \<Rightarrow> dict \<Rightarrow> pyval res" where
  "manifest_name a manifest =
     py_get_or (dict_get_or manifest ''mpp-vars'' (PyDict [])) ''name'' (PyStr (strip_ext (path_basename (ba_manifest a))))"

definition split_manifest :: "dict \<Rightarrow> (dict \<times> dict) res" where
  "split_manifest manifest =
     (case dict_get manifest ''version'' of
        None \<Rightarrow> Inl Key_Error
      | Some version \<Rightarrow>
          if dict_get manifest ''mpp-vars'' = None then Inl Key_Error
          else Inr ([(''version'', version), (''mpp-vars'', dict_get_or manifest ''mpp-vars'' (PyDict []))],
                    dict_del manifest ''mpp-vars''))"

definition create_osbuild_manifest ::
  "build_env \<Rightarrow> build_args \<Rightarrow> string \<Rightarrow> string \<Rightarrow> string option \<Rightarrow> mpp_input res" where
  "create_osbuild_manifest be a tmpdir out storage_conf =
     (case be_yaml_file be (ba_manifest a) of
        Yaml_Parser_Error m \<Rightarrow> Inl (Manifest_Parse_Error (ba_manifest a) (Some m))
      | Yaml_Other_Error m \<Rightarrow> Inl (Manifest_Parse_Error (ba_manifest a) (Some m))
      | Yaml_Value (PyDict manifest0) \<Rightarrow>
          res_bind (rewrite_manifest (be_cwd be) manifest0 (path_dirname (ba_manifest a))) (\<lambda>manifest.
          res_bind (manifest_name a manifest) (\<lambda>name.
          res_bind (build_defines be a tmpdir name) (\<lambda>defines.
          res_map (\<lambda>(variables, rest).
              \<lparr>mi_variables = variables, mi_manifest = rest, mi_defines = defines,
               mi_cmdline = mpp_cmdline be a tmpdir defines out storage_conf\<rparr>)
            (split_manifest manifest))))
      | Yaml_Value v \<Rightarrow> Inl Attribute_Error)"

end
