(* ===== verification/Build_Laws.thy ===== *)
theory Build_Laws
  imports Build_Defines Manifest_Laws
begin

text \<open>
  What the preprocessor is given: whose value a define has in the end, the policy checks of a build
  that gets through, the embedded paths of the rewritten manifest, and the command line from which
  the preprocessor reads the defines back.
\<close>

section \<open>Precedence of the defines\<close>

lemma upd_is_dict_set: "upd k v d = dict_set d k v"
  by (simp add: upd_def)

lemma fold_add_define:
  assumes "res_mapM (\<lambda>d. parse_define (be_yaml be) d ''--define'') ds = Inr kvs"
  shows "res_fold (add_define be) ds (d, u) = Inr (defs.upds d kvs, defs.upds u kvs)"
  using assms
proof (induction ds arbitrary: kvs d u)
  case Nil
  then show ?case by (simp add: defs.upds_def)
next
  case (Cons x ds)
  then obtain k v kvs' where x: "parse_define (be_yaml be) x ''--define'' = Inr (k, v)"
    and rest: "res_mapM (\<lambda>d. parse_define (be_yaml be) d ''--define'') ds = Inr kvs'" and kvs: "kvs = (k, v) # kvs'"
    by (auto simp: res_simps)
  have "res_fold (add_define be) ds (upd k v d, upd k v u) = Inr (defs.upds (upd k v d) kvs', defs.upds (upd k v u) kvs')"
    by (rule Cons.IH [OF rest])
  moreover have "add_define be x (d, u) = Inr (upd k v d, upd k v u)" by (simp add: add_define_def x)
  ultimately show ?case by (simp add: kvs defs.upds_def upd_is_dict_set)
qed

lemma fold_add_define_conv:
  "res_fold (add_define be) ds s = Inr s' \<Longrightarrow>
    \<exists>kvs. res_mapM (\<lambda>d. parse_define (be_yaml be) d ''--define'') ds = Inr kvs"
proof (induction ds arbitrary: s)
  case (Cons x ds)
  then show ?case
    by (auto simp: res_simps add_define_def res_map_def)
qed simp

definition internal_key :: "string \<Rightarrow> bool" where
  "internal_key k \<longleftrightarrow> k \<in> {''local_repo'', ''extra_repo_urls'', ''manifest_content_hash''}"

lemma repo_defines_frame:
  assumes "repo_defines_of be a ds = Inr d'" and "\<not> internal_key k"
  shows "dict_get d' k = dict_get (fst ds) k"
  using assms
  by (auto simp: repo_defines_of_def res_simps res_map_def add_repo_urls_def set_local_repo_def upd_is_dict_set
      internal_key_def Let_def split: if_splits pyval.splits option.splits)


definition forcing_policy :: policy where
  "forcing_policy = \<lparr>pol_name = PyStr ''force'', pol_description = PyStr [], pol_target = None,
     pol_restrictions = [(''variables'', PyDict [(''force'', PyDict [(''use_debug'', PyBool False)])])]\<rparr>"

definition sample_be :: build_env where
  "sample_be = \<lparr>be_cwd = ''/src'', be_yaml = (\<lambda>s. Yaml_Value (if s = ''true'' then PyBool True else PyStr s)),
     be_yaml_file = (\<lambda>p. Yaml_Value (PyDict [(''version'', PyStr ''2''), (''mpp-vars'', PyDict []),
       (''pipelines'', PyList [PyDict [(''name'', PyStr ''rootfs''), (''stages'', PyList [])]])])),
     be_simple = (\<lambda>p. PyDict []), be_me = sample_me, be_dumps = (\<lambda>v. ''null''), be_digest = (\<lambda>c v. ''abc''),
     be_read = (\<lambda>p. None), be_mtime = 0, be_osbuild_major = 150, be_source_date_epoch = None, be_ostree_refs = []\<rparr>"

definition sample_args :: build_args where
  "sample_args = \<lparr>ba_manifest = ''/src/demo.mpp.yml'', ba_simple_manifest = None, ba_base_dir = ''/usr/lib/aib'',
     ba_arch = ''aarch64'', ba_distro = ''autosd10'', ba_mode = ''image'', ba_target = None, ba_policy = Some forcing_policy,
     ba_dump_variables = False, ba_root_password = None, ba_ostree_repo = None, ba_reproducible = False,
     ba_define = [''use_debug=true''], ba_define_file = [], ba_extend_define = [], ba_local_repo = None,
     ba_extra_repo = [], ba_extra_copr_repo = [], ba_include_dirs = [], ba_cache = None, ba_lockfile = None,
     ba_generate_lockfile = None, ba_generate_sbom = False, ba_sbom_dir = None\<rparr>"

lemma sample_user: "user_defines sample_be sample_args d = Inr (upd ''use_debug'' (PyBool True) d, upd ''use_debug'' (PyBool True) [])"
  by (simp add: user_defines_def sample_args_def sample_be_def add_define_def parse_define_def py_split1_def)

lemma sample_validate: "validate_policy_args msg sample_args (PyStr ''qemu'') = Inr ()"
  by (simp add: validate_policy_args_def sample_args_def forcing_policy_def validate_manifest_type_def
      require_simple_manifest_def dict_get_or_def append_errors_def validate_build_args_def validate_restriction_def
      mode_restrictions_def target_restrictions_def distribution_restrictions_def architecture_restrictions_def policy_section_def)

lemma sample_build: "\<exists>d'. build_defines sample_be sample_args ''/tmp/w'' (PyStr ''demo'') = Inr d'"
proof -
  obtain d1 where d1: "manifest_defines sample_be sample_args ''/tmp/w'' (PyStr ''demo'') = Inr d1"
    and target: "dict_get d1 ''target'' = Some (PyStr ''qemu'')"
    by (simp add: manifest_defines_def sample_args_def Let_def upd_is_dict_set default_target_def)
  have "\<exists>d2. option_defines sample_be sample_args d1 = Inr d2"
    by (simp add: option_defines_def target sample_validate set_epoch_def sample_be_def)
  moreover have "\<exists>d'. repo_defines_of sample_be sample_args ds = Inr d'" for ds
    by (simp add: repo_defines_of_def sample_args_def add_repo_urls_def Let_def)
  ultimately show ?thesis by (auto simp: build_defines_def d1 sample_user)
qed


section \<open>Embedded paths\<close>

text \<open>The paths of the embedded files of a stage: dictionaries with a path are not entered.\<close>

inductive embed_at :: "dict \<Rightarrow> pyval \<Rightarrow> bool" where
  embedded: "(''mpp-embed'', PyDict e) \<in> set d \<Longrightarrow> dict_get e ''path'' = Some p \<Longrightarrow> embed_at d p"
| inside: "(k, PyDict e) \<in> set d \<Longrightarrow> dict_get e ''path'' = None \<Longrightarrow> embed_at e p \<Longrightarrow> embed_at d p"

inductive_simps embed_at_iff: "embed_at d p"

definition abs_path_val :: "pyval \<Rightarrow> bool" where
  "abs_path_val v \<longleftrightarrow> (\<exists>s. v = PyStr s \<and> path_isabs s)"

text \<open>The value of one key after the rewriting.\<close>

definition embeds_ok :: "string \<Rightarrow> pyval \<Rightarrow> bool" where
  "embeds_ok k v \<longleftrightarrow>
     (\<forall>e. v = PyDict e \<longrightarrow>
        (case dict_get e ''path'' of
           Some p \<Rightarrow> k = ''mpp-embed'' \<longrightarrow> abs_path_val p
         | None \<Rightarrow> \<forall>p. embed_at e p \<longrightarrow> abs_path_val p))"

lemma embed_at_ok: "(\<forall>(k, v) \<in> set d. embeds_ok k v) \<Longrightarrow> embed_at d p \<Longrightarrow> abs_path_val p"
  by (subst (asm) embed_at_iff) (fastforce simp: embeds_ok_def)

lemma make_embed_keys: "make_embed_path_abs cwd path d = Inr d' \<Longrightarrow> map fst d' = map fst d"
  by (induction d arbitrary: d') (auto simp: res_simps)

lemma dict_get_keys_None: "map fst d' = map fst d \<Longrightarrow> dict_get d' k = None \<longleftrightarrow> dict_get d k = None"
  by (metis dict_get_None_iff image_set)

lemma path_isabs_join: "path_isabs a \<Longrightarrow> path_isabs (path_join a b)"
  by (cases a) (auto simp: path_isabs_def path_join_def)

lemma path_abspath_isabs: "path_isabs cwd \<Longrightarrow> path_isabs (path_abspath cwd p)"
  unfolding path_abspath_def by (rule path_normpath_isabs) (simp add: path_isabs_join)

lemma make_embed_ok:
  assumes cwd: "path_isabs cwd"
  shows "make_embed_path_abs cwd path d = Inr d' \<Longrightarrow> (\<forall>(k, v) \<in> set d'. embeds_ok k v)"
    "embed_value cwd path k v = Inr v' \<Longrightarrow> embeds_ok k v'"
  using cwd
proof (induction cwd path d and cwd path k v arbitrary: d' and v' rule: make_embed_path_abs_embed_value.induct)
  case (2 cwd path k v stage)
  then show ?case by (auto simp: res_simps)
next
  case (3 cwd path k d)
  show ?case
  proof (cases "dict_get d ''path''")
    case None
    then obtain d' where d': "make_embed_path_abs cwd path d = Inr d'" and v': "v' = PyDict d'"
      using "3.prems" by (auto simp: res_map_def res_simps)
    have all: "\<forall>(k, v) \<in> set d'. embeds_ok k v" by (rule "3.IH" [OF None d' "3.prems"(2)])
    have none: "dict_get d' ''path'' = None"
      using dict_get_keys_None [OF make_embed_keys [OF d']] None by blast
    have "abs_path_val p" if "embed_at d' p" for p by (rule embed_at_ok [OF all that])
    then show ?thesis unfolding v' by (simp add: embeds_ok_def none)
  next
    case (Some p)
    have abs: "path_isabs (path_normpath (path_join (path_abspath cwd path) s))" for s
      using "3.prems" by (intro path_normpath_isabs path_isabs_join path_abspath_isabs) simp
    show ?thesis
      using "3.prems" Some abs by (auto simp: embeds_ok_def abs_path_val_def split: if_splits pyval.splits)
  qed
qed (auto simp: res_simps embeds_ok_def)

text \<open>
  After the rewriting of a stage, every path of an embedded file in it, at any depth the
  preprocessor looks at, is absolute, and no key of the stage is added, dropped or moved.
\<close>

theorem embedded_paths_absolute:
  assumes "path_isabs cwd" and "make_embed_path_abs cwd path stage = Inr stage'" and "embed_at stage' p"
  shows "map fst stage' = map fst stage \<and> (\<exists>s. p = PyStr s \<and> path_isabs s)"
  using make_embed_keys [OF assms(2)] embed_at_ok [OF make_embed_ok(1) [OF assms(1,2)] assms(3)]
  by (simp add: abs_path_val_def)

definition sample_stage :: dict where
  "sample_stage = [(''type'', PyStr ''org.osbuild.copy''),
     (''inputs'', PyDict [(''f'', PyDict [(''mpp-embed'', PyDict [(''path'', PyStr ''../x.conf'')])])])]"

theorem embedded_paths_absolute_witness:
  "\<exists>stage'. make_embed_path_abs ''/home/u'' ''m'' sample_stage = Inr stage' \<and> embed_at stage' (PyStr ''/home/u/x.conf'') \<and>
     path_isabs ''/home/u/x.conf''"
proof -
  have norm: "path_normpath (path_join (path_abspath ''/home/u'' ''m'') ''../x.conf'') = ''/home/u/x.conf''"
    by code_simp
  define stage' where "stage' = [(''type'', PyStr ''org.osbuild.copy''),
     (''inputs'', PyDict [(''f'', PyDict [(''mpp-embed'', PyDict [(''path'', PyStr ''/home/u/x.conf'')])])])]"
  have s: "make_embed_path_abs ''/home/u'' ''m'' sample_stage = Inr stage'"
    by (simp add: sample_stage_def stage'_def norm path_isabs_def)
  have "embed_at [(''mpp-embed'', PyDict [(''path'', PyStr ''/home/u/x.conf'')])] (PyStr ''/home/u/x.conf'')"
    by (rule embed_at.embedded [where e = "[(''path'', PyStr ''/home/u/x.conf'')]"]) simp_all
  then have "embed_at [(''f'', PyDict [(''mpp-embed'', PyDict [(''path'', PyStr ''/home/u/x.conf'')])])] (PyStr ''/home/u/x.conf'')"
    by (rule embed_at.inside [rotated 2]) simp_all
  then have e: "embed_at stage' (PyStr ''/home/u/x.conf'')"
    unfolding stage'_def by (rule embed_at.inside [rotated 2]) simp_all
  have "path_isabs ''/home/u''" by (simp add: path_isabs_def)
  from embedded_paths_absolute [OF this s e] s e show ?thesis by auto
qed

section \<open>The command line\<close>

text \<open>Reading the defines of a command line back, as the preprocessor does.\<close>

fun read_defines :: "string list \<Rightarrow> (string \<times> string) list" where
  "read_defines (opt # s # rest) =
     (if opt = ''-D'' then (case break_at ''='' s of Some kv \<Rightarrow> kv # read_defines rest | None \<Rightarrow> read_defines rest)
      else read_defines (s # rest))"
| "read_defines args = []"

lemma read_define_args:
  "list_all (\<lambda>k. CHR ''='' \<notin> set k) ks \<Longrightarrow>
    read_defines (concat (map (\<lambda>k. [''-D'', k @ ''='' @ f k]) ks)) = map (\<lambda>k. (k, f k)) ks"
  by (induction ks) (simp_all add: break_at_char_fresh)

text \<open>
  The -D arguments of the preprocessor carry exactly the defines: reading them back gives each
  define once, with its printed value, in the order of the sorted names.
\<close>

theorem define_args_roundtrip:
  assumes "wf_dict d" and "list_all (\<lambda>k. CHR ''='' \<notin> set k) (dict_keys d)"
  shows "read_defines (define_args dumps d) = map (\<lambda>k. (k, dumps (dict_get_or d k PyNone))) (sort (dict_keys d)) \<and>
    sorted (map fst (read_defines (define_args dumps d))) \<and> distinct (map fst (read_defines (define_args dumps d))) \<and>
    (\<forall>k s. (k, s) \<in> set (read_defines (define_args dumps d)) \<longleftrightarrow> (\<exists>v. dict_get d k = Some v \<and> s = dumps v))"
proof -
  have read: "read_defines (define_args dumps d) = map (\<lambda>k. (k, dumps (dict_get_or d k PyNone))) (sort (dict_keys d))"
    unfolding define_args_def by (rule read_define_args) (use assms(2) in \<open>simp add: list_all_iff\<close>)
  have "(k, s) \<in> set (read_defines (define_args dumps d)) \<longleftrightarrow> (\<exists>v. dict_get d k = Some v \<and> s = dumps v)" for k s
    unfolding read using dict_get_None_iff [of d k]
    by (cases "dict_get d k") (auto simp: dict_keys_def dict_get_or_def image_iff)
  moreover have "map fst (read_defines (define_args dumps d)) = sort (dict_keys d)" by (simp add: read o_def)
  ultimately show ?thesis using read assms(1) by (simp add: wf_dict_def dict_keys_def)
qed

theorem define_args_roundtrip_witness:
  "read_defines (define_args (\<lambda>v. ''1'') [(''name'', PyInt 1), (''arch'', PyInt 1)]) = [(''arch'', ''1''), (''name'', ''1'')]"
proof -
  have "sort [''name'', ''arch''] = [''arch'', ''name'']" by code_simp
  then show ?thesis
    using define_args_roundtrip [of "[(''name'', PyInt 1), (''arch'', PyInt 1)]" "\<lambda>v. ''1''"]
    by (simp add: wf_dict_def dict_keys_def)
qed

section \<open>Policy of a build\<close>

lemma validated_args_permitted:
  assumes "list_sections data" and "make_policy data t = Inr p"
    and "validate_build_args p mode target distro arch [] = Inr []"
  shows "permits t (raw_section data ''modes'') mode \<and> permits t (raw_section data ''targets'') target \<and>
    permits t (raw_section data ''distributions'') distro \<and> permits t (raw_section data ''architectures'') arch"
proof -
  have ok: "permits t (raw_section data name) x"
    if "validate_restriction p ty x (policy_section p name) = Inr []"
      "name \<in> {''modes'', ''targets'', ''distributions'', ''architectures''}" for ty x name
    using section_check [OF _ assms(2), of name ty x] assms(1) that by (auto simp: list_sections_def)
  have "validate_restriction p MODE mode (policy_section p ''modes'') = Inr []"
    "validate_restriction p TARGET target (policy_section p ''targets'') = Inr []"
    "validate_restriction p DISTRIBUTION distro (policy_section p ''distributions'') = Inr []"
    "validate_restriction p ARCHITECTURE arch (policy_section p ''architectures'') = Inr []"
    using assms(3) by (simp_all add: validate_build_args_def append_errors_Nil mode_restrictions_def
        target_restrictions_def distribution_restrictions_def architecture_restrictions_def)
  then show ?thesis using ok by simp
qed

text \<open>
  C12: A build with a policy reaches the preprocessor only if the policy file permits its mode,
  distribution and architecture, and the target that the manifest and the target option give.
\<close>

theorem build_permitted:
  assumes "build_defines be a workdir name = Inr d'" and "ba_policy a = Some p"
    and "make_policy data t = Inr p" and "list_sections data"
  shows "\<exists>d1 target. manifest_defines be a workdir name = Inr d1 \<and> dict_get d1 ''target'' = Some (PyStr target) \<and>
    permits t (raw_section data ''targets'') target \<and> permits t (raw_section data ''modes'') (ba_mode a) \<and>
    permits t (raw_section data ''distributions'') (ba_distro a) \<and> permits t (raw_section data ''architectures'') (ba_arch a)"
proof -
  obtain d1 tv where d1: "manifest_defines be a workdir name = Inr d1" and tv: "py_item (PyDict d1) ''target'' = Inr tv"
    and val: "validate_policy_args (me_message (be_me be)) a tv = Inr ()"
    using assms(1) by (auto simp: build_defines_def option_defines_def res_bind_Inr_iff)
  obtain target where target: "tv = PyStr target"
    and args: "validate_build_args p (ba_mode a) target (ba_distro a) (ba_arch a) [] = Inr []"
    using val assms(2)
    by (auto simp: validate_policy_args_def res_bind_Inr_iff as_str_Inr append_errors_Nil split: if_splits)
  have "dict_get d1 ''target'' = Some (PyStr target)"
    using tv target by (simp split: option.splits)
  then show ?thesis using d1 validated_args_permitted [OF assms(4,3) args] by blast
qed

definition mode_policy :: dict where
  "mode_policy = [(''name'', PyStr ''m''), (''restrictions'', PyDict [(''modes'', PyDict [(''allow'', PyList [PyStr ''image''])])])]"

theorem build_permitted_witness:
  "\<exists>p d1. make_policy mode_policy None = Inr p \<and>
     manifest_defines sample_be (sample_args\<lparr>ba_policy := Some p\<rparr>) ''/tmp/w'' (PyStr ''demo'') = Inr d1 \<and>
     permits None (raw_section mode_policy ''modes'') ''image''"
proof -
  define p where "p = \<lparr>pol_name = PyStr ''m'', pol_description = PyStr [], pol_target = None,
     pol_restrictions = [(''modes'', PyDict [(''allow'', PyList [PyStr ''image''])])]\<rparr>"
  have p: "make_policy mode_policy None = Inr p" unfolding p_def by code_simp
  have d: "list_sections mode_policy" by code_simp
  define a where "a = sample_args\<lparr>ba_policy := Some p\<rparr>"
  obtain d1 where d1: "manifest_defines sample_be a ''/tmp/w'' (PyStr ''demo'') = Inr d1"
    and target: "dict_get d1 ''target'' = Some (PyStr ''qemu'')"
    by (simp add: manifest_defines_def sample_args_def a_def Let_def upd_is_dict_set default_target_def)
  have v: "validate_policy_args msg a (PyStr ''qemu'') = Inr ()" for msg
    by (simp add: validate_policy_args_def a_def sample_args_def p_def validate_manifest_type_def
        require_simple_manifest_def dict_get_or_def append_errors_def validate_build_args_def validate_restriction_def
        mode_restrictions_def target_restrictions_def distribution_restrictions_def architecture_restrictions_def
        policy_section_def py_in_def)
  obtain d2 where d2: "option_defines sample_be a d1 = Inr d2"
    by (simp add: option_defines_def target v set_epoch_def sample_be_def)
  have u: "user_defines sample_be a d2 = Inr (upd ''use_debug'' (PyBool True) d2, upd ''use_debug'' (PyBool True) [])"
    by (simp add: user_defines_def a_def sample_args_def sample_be_def add_define_def parse_define_def py_split1_def)
  obtain d' where d': "repo_defines_of sample_be a (upd ''use_debug'' (PyBool True) d2, upd ''use_debug'' (PyBool True) []) = Inr d'"
    by (simp add: repo_defines_of_def a_def sample_args_def add_repo_urls_def Let_def)
  have "build_defines sample_be a ''/tmp/w'' (PyStr ''demo'') = Inr d'"
    by (simp add: build_defines_def d1 d2 u d')
  moreover have "ba_policy a = Some p" "ba_mode a = ''image''" by (simp_all add: a_def sample_args_def)
  ultimately show ?thesis using build_permitted [OF _ _ p d] p d1 unfolding a_def by metis
qed

end
