(* ===== verification/Sparse_File.thy ===== *)
theory Sparse_File
  imports Effects "HOL-Library.Word"
begin

text \<open>
  Files with holes: bytes, the two seeks of a sparse file, and the copying of a part of a disk image
  (\<open>truncate_partition_size\<close>, \<open>extract_part_of_file\<close> and their helpers in \<open>src/aib/utils.py\<close>).
  Offsets and sizes are natural numbers: they come from the partition table.
\<close>

type_synonym byte = "8 word"

section \<open>Bytes\<close>

text \<open>The byte at an offset of an area that is zero beyond its end.\<close>

definition byte_at :: "byte list \<Rightarrow> nat \<Rightarrow> byte" where
  "byte_at xs i = (if i < length xs then xs ! i else 0)"

text \<open>\<open>ftruncate\<close>: cut, or extend with zeros.\<close>

definition resize :: "nat \<Rightarrow> byte list \<Rightarrow> byte list" where
  "resize n xs = take n xs @ replicate (n - length xs) 0"

text \<open>A write at an offset; a gap behind the end reads as zeros.\<close>

definition write_at :: "nat \<Rightarrow> byte list \<Rightarrow> byte list \<Rightarrow> byte list" where
  "write_at off new xs =
     (if new = [] then xs else take off (xs @ replicate (off - length xs) 0) @ new @ drop (off + length new) xs)"

lemma length_resize [simp]: "length (resize n xs) = n"
  by (simp add: resize_def)

lemma byte_at_resize [simp]: "byte_at (resize n xs) i = (if i < n then byte_at xs i else 0)"
  by (auto simp: byte_at_def resize_def nth_append)

lemma byte_at_Nil [simp]: "byte_at [] i = 0"
  by (simp add: byte_at_def)

lemma byte_at_map: "i < length xs \<Longrightarrow> byte_at (map g xs) i = g (xs ! i)"
  by (simp add: byte_at_def)

lemma resize_eqI: "length ys = n \<Longrightarrow> (\<And>i. i < n \<Longrightarrow> byte_at ys i = byte_at xs i) \<Longrightarrow> ys = resize n xs"
  by (rule nth_equalityI) (auto simp: byte_at_def resize_def nth_append)

lemma length_write_at [simp]:
  "length (write_at off new xs) = (if new = [] then length xs else max (length xs) (off + length new))"
  by (auto simp: write_at_def)

lemma byte_at_write_at [simp]:
  "byte_at (write_at off new xs) i = (if off \<le> i \<and> i < off + length new then new ! (i - off) else byte_at xs i)"
  by (auto simp: byte_at_def write_at_def nth_append min_def split: if_splits)

section \<open>Sparse files\<close>

text \<open>The bytes of a file and which of them are allocated; a hole reads as zeros.\<close>

record sfile =
  sf_bytes :: "byte list"
  sf_data :: "bool list"

definition wf_sfile :: "sfile \<Rightarrow> bool" where
  "wf_sfile f \<longleftrightarrow> length (sf_data f) = length (sf_bytes f) \<and>
     list_all2 (\<lambda>b d. d \<or> b = 0) (sf_bytes f) (sf_data f)"

definition file_size :: "sfile \<Rightarrow> nat" where
  "file_size f = length (sf_data f)"

definition is_data :: "sfile \<Rightarrow> nat \<Rightarrow> bool" where
  "is_data f i \<longleftrightarrow> i < file_size f \<and> sf_data f ! i"

text \<open>
  \<open>lseek(fd, pos, SEEK_DATA)\<close> and \<open>SEEK_HOLE\<close> as lseek(2) documents them: None is ENXIO, raised
  behind the end of the file and, by SEEK_DATA, when no data follows; the end of the file counts as
  a hole.
\<close>

fun first_from :: "nat \<Rightarrow> bool list \<Rightarrow> bool \<Rightarrow> nat option" where
  "first_from i [] v = None"
| "first_from i (d # ds) v = (if d = v then Some i else first_from (Suc i) ds v)"

definition seek_data :: "sfile \<Rightarrow> nat \<Rightarrow> nat option" where
  "seek_data f pos = first_from pos (drop pos (sf_data f)) True"

definition seek_hole :: "sfile \<Rightarrow> nat \<Rightarrow> nat option" where
  "seek_hole f pos =
     (if pos \<ge> file_size f then None
      else Some (case first_from pos (drop pos (sf_data f)) False of Some h \<Rightarrow> h | None \<Rightarrow> file_size f))"

lemma first_from_Some:
  "first_from i ds v = Some k \<Longrightarrow>
     i \<le> k \<and> k < i + length ds \<and> ds ! (k - i) = v \<and> (\<forall>j. i \<le> j \<longrightarrow> j < k \<longrightarrow> ds ! (j - i) \<noteq> v)"
proof (induction i ds v rule: first_from.induct)
  case (1 i v)
  then show ?case by simp
next
  case (2 i d ds v)
  show ?case
  proof (cases "d = v")
    case True
    with "2.prems" show ?thesis by auto
  next
    case False
    with 2 have IH: "Suc i \<le> k \<and> k < Suc i + length ds \<and> ds ! (k - Suc i) = v \<and>
      (\<forall>j. Suc i \<le> j \<longrightarrow> j < k \<longrightarrow> ds ! (j - Suc i) \<noteq> v)" by simp
    have "(d # ds) ! (j - i) \<noteq> v" if "i \<le> j" "j < k" for j
      using that False IH by (cases "j = i") (auto simp: nth_Cons')
    then show ?thesis using IH by (auto simp: nth_Cons')
  qed
qed

lemma first_from_None: "first_from i ds v = None \<longleftrightarrow> v \<notin> set ds"
  by (induction i ds v rule: first_from.induct) auto

lemma notin_drop: "v \<notin> set (drop p xs) \<Longrightarrow> p \<le> i \<Longrightarrow> i < length xs \<Longrightarrow> xs ! i \<noteq> v"
proof
  assume "v \<notin> set (drop p xs)" "p \<le> i" "i < length xs" "xs ! i = v"
  moreover from this have "drop p xs ! (i - p) \<in> set (drop p xs)" by (intro nth_mem) simp
  ultimately show False by simp
qed

text \<open>
  What the copying loops rely on, for any file system: the laws of the two seeks.
\<close>

locale seekable =
  fixes data :: "nat \<Rightarrow> bool" and fsize :: nat
    and sdata :: "nat \<Rightarrow> nat option" and shole :: "nat \<Rightarrow> nat option"
  assumes data_size: "data i \<Longrightarrow> i < fsize"
    and sdata_Some: "sdata p = Some d \<Longrightarrow> p \<le> d \<and> data d \<and> (\<forall>i. p \<le> i \<longrightarrow> i < d \<longrightarrow> \<not> data i)"
    and sdata_None: "sdata p = None \<Longrightarrow> p \<le> i \<Longrightarrow> \<not> data i"
    and shole_Some: "shole p = Some h \<Longrightarrow> p \<le> h \<and> \<not> data h \<and> h \<le> fsize \<and> (\<forall>i. p \<le> i \<longrightarrow> i < h \<longrightarrow> data i)"
    and shole_None: "shole p = None \<Longrightarrow> fsize \<le> p"
begin

text \<open>One extent: the hole before it, its data, and progress.\<close>

lemma extent:
  assumes "sdata p = Some d"
  obtains h where "shole d = Some h" "p \<le> d" "d < h" "h \<le> fsize"
    "\<And>i. p \<le> i \<Longrightarrow> i < d \<Longrightarrow> \<not> data i" "\<And>i. d \<le> i \<Longrightarrow> i < h \<Longrightarrow> data i"
proof -
  have d: "p \<le> d" "data d" "\<And>i. p \<le> i \<Longrightarrow> i < d \<Longrightarrow> \<not> data i" using sdata_Some [OF assms] by auto
  then obtain h where h: "shole d = Some h" using shole_None [of d] data_size by (cases "shole d") fastforce+
  then have "d \<le> h" "\<not> data h" "h \<le> fsize" "\<And>i. d \<le> i \<Longrightarrow> i < h \<Longrightarrow> data i" using shole_Some by blast+
  moreover have "d < h" using \<open>d \<le> h\<close> \<open>\<not> data h\<close> d(2) le_neq_implies_less by blast
  ultimately show thesis using that h d by blast
qed

lemma sdata_less_size: "sdata p = Some d \<Longrightarrow> d < fsize"
  using sdata_Some data_size by blast

lemma data_before: "sdata p = Some d \<Longrightarrow> (d < e) = (\<exists>i. p \<le> i \<and> i < e \<and> data i)"
  using sdata_Some [of p d] by (meson leI le_less_trans)

lemma no_data_before: "sdata p = None \<Longrightarrow> \<not> (\<exists>i. p \<le> i \<and> i < e \<and> data i)"
  using sdata_None by blast

end

interpretation sf: seekable "is_data f" "file_size f" "seek_data f" "seek_hole f" for f
proof
  show "i < file_size f" if "is_data f i" for i using that by (simp add: is_data_def)
next
  fix p d assume "seek_data f p = Some d"
  then have h: "p \<le> d \<and> d < p + length (drop p (sf_data f)) \<and> drop p (sf_data f) ! (d - p) = True \<and>
    (\<forall>j. p \<le> j \<longrightarrow> j < d \<longrightarrow> drop p (sf_data f) ! (j - p) \<noteq> True)"
    unfolding seek_data_def by (rule first_from_Some)
  then have "p \<le> d" by simp
  have "d < file_size f" using h unfolding file_size_def length_drop by linarith
  then show "p \<le> d \<and> is_data f d \<and> (\<forall>i. p \<le> i \<longrightarrow> i < d \<longrightarrow> \<not> is_data f i)"
    using h \<open>p \<le> d\<close> unfolding is_data_def file_size_def by simp
next
  fix p i assume "seek_data f p = None" "p \<le> i"
  then show "\<not> is_data f i"
    unfolding seek_data_def is_data_def file_size_def first_from_None
    by (auto dest: notin_drop)
next
  fix p h assume h: "seek_hole f p = Some h"
  then have p: "p < file_size f" by (simp add: seek_hole_def split: if_splits)
  show "p \<le> h \<and> \<not> is_data f h \<and> h \<le> file_size f \<and> (\<forall>i. p \<le> i \<longrightarrow> i < h \<longrightarrow> is_data f i)"
  proof (cases "first_from p (drop p (sf_data f)) False")
    case None
    then have "h = file_size f" using h p by (simp add: seek_hole_def)
    moreover have "sf_data f ! i" if "p \<le> i" "i < file_size f" for i
      using None that notin_drop [of False p "sf_data f" i] unfolding first_from_None file_size_def by simp
    ultimately show ?thesis using p by (auto simp: is_data_def)
  next
    case (Some k)
    then have hk: "h = k" using h p by (simp add: seek_hole_def)
    have fs: "p \<le> k" "k < p + length (drop p (sf_data f))" "drop p (sf_data f) ! (k - p) = False"
      "\<And>j. p \<le> j \<Longrightarrow> j < k \<Longrightarrow> drop p (sf_data f) ! (j - p) \<noteq> False"
      using first_from_Some [OF Some] by blast+
    have "k < file_size f" using fs(1,2) p unfolding file_size_def length_drop by linarith
    moreover have "\<not> sf_data f ! k" using fs(1,3) p unfolding file_size_def by simp
    moreover have "sf_data f ! j" if "p \<le> j" "j < k" for j
      using fs(4) [OF that] that p unfolding file_size_def by simp
    ultimately have "p \<le> h" "h < file_size f" "\<not> sf_data f ! h" "\<And>j. p \<le> j \<Longrightarrow> j < h \<Longrightarrow> sf_data f ! j"
      using fs(1) hk by blast+
    then show ?thesis by (auto simp: is_data_def)
  qed
next
  show "file_size f \<le> p" if "seek_hole f p = None" for p using that by (simp add: seek_hole_def split: if_splits)
qed

lemma hole_byte: "wf_sfile f \<Longrightarrow> \<not> is_data f i \<Longrightarrow> byte_at (sf_bytes f) i = 0"
  using list_all2_nthD [of "\<lambda>b d. d \<or> b = 0" "sf_bytes f" "sf_data f" i]
  by (cases "i < length (sf_bytes f)") (simp_all add: wf_sfile_def byte_at_def is_data_def file_size_def)

section \<open>The size of a partition without its trailing hole\<close>

definition roundup :: "nat \<Rightarrow> nat \<Rightarrow> nat" where
  "roundup n block = ((n + block - 1) div block) * block"

text \<open>\<open>min(hole_start, end)\<close>, a failing seek being the end.\<close>

definition hole_before :: "sfile \<Rightarrow> nat \<Rightarrow> nat \<Rightarrow> nat" where
  "hole_before f d e = min (case seek_hole f d of Some h \<Rightarrow> h | None \<Rightarrow> e) e"

lemma hole_before_extent:
  assumes "seek_data f p = Some d" and "d < e"
  shows "d < hole_before f d e \<and> hole_before f d e \<le> e \<and> hole_before f d e \<le> file_size f \<and>
    (\<forall>i. p \<le> i \<longrightarrow> i < d \<longrightarrow> \<not> is_data f i) \<and> (\<forall>i. d \<le> i \<longrightarrow> i < hole_before f d e \<longrightarrow> is_data f i)"
  using assms by (elim sf.extent) (auto simp: hole_before_def)

lemma hole_before_progress: "seek_data f p = Some d \<Longrightarrow> d < e \<Longrightarrow> p < hole_before f d e \<and> hole_before f d e \<le> e"
  using hole_before_extent [of f p d e] sf.sdata_Some [of f p d] by auto

function scan_data :: "sfile \<Rightarrow> nat \<Rightarrow> nat option \<Rightarrow> nat \<Rightarrow> nat option" where
  "scan_data f e last_end pos =
     (if pos < e then
        case seek_data f pos of
          None \<Rightarrow> last_end
        | Some d \<Rightarrow>
            if d \<ge> e then last_end
            else if hole_before f d e \<ge> e then Some (hole_before f d e)
            else scan_data f e (Some (hole_before f d e)) (hole_before f d e)
      else last_end)"
  by pat_completeness auto
termination
  by (relation "measure (\<lambda>(f, e, l, pos). e - pos)")
    (auto simp: not_le dest: hole_before_progress intro!: diff_less_mono2)

declare scan_data.simps [simp del]

definition truncate_partition_size :: "sfile \<Rightarrow> nat \<Rightarrow> nat \<Rightarrow> nat \<Rightarrow> nat" where
  "truncate_partition_size f start sz block_size =
     (case scan_data f (start + sz) None start of
        None \<Rightarrow> 0
      | Some last_end \<Rightarrow>
          if last_end < start + sz then min (roundup (last_end - start) block_size) sz else sz)"

text \<open>The scan returns the end of the last data in the range.\<close>

definition data_end :: "sfile \<Rightarrow> nat \<Rightarrow> nat \<Rightarrow> nat option \<Rightarrow> nat option \<Rightarrow> bool" where
  "data_end f pos e last_end r \<longleftrightarrow>
     (case r of
        None \<Rightarrow> last_end = None \<and> (\<forall>i. pos \<le> i \<longrightarrow> i < e \<longrightarrow> \<not> is_data f i)
      | Some h \<Rightarrow> (if \<exists>i. pos \<le> i \<and> i < e \<and> is_data f i
          then pos < h \<and> h \<le> e \<and> is_data f (h - 1) \<and> (\<forall>i. h \<le> i \<longrightarrow> i < e \<longrightarrow> \<not> is_data f i)
          else last_end = Some h))"

lemma scan_data_end: "data_end f pos e last_end (scan_data f e last_end pos)"
proof (induction f e last_end pos rule: scan_data.induct)
  case (1 f e last_end pos)
  show ?case
  proof (cases "pos < e \<and> (\<exists>d. seek_data f pos = Some d \<and> d < e)")
    case False
    then have "scan_data f e last_end pos = last_end"
      by (subst scan_data.simps) (auto split: option.split)
    moreover have "\<not> (\<exists>i. pos \<le> i \<and> i < e \<and> is_data f i)"
      using False sf.data_before [of f pos _ e] sf.no_data_before [of f pos e]
      by (cases "seek_data f pos") auto
    ultimately show ?thesis by (auto simp: data_end_def split: option.split)
  next
    case True
    then obtain d where d: "pos < e" "seek_data f pos = Some d" "d < e" by blast
    define h where "h = hole_before f d e"
    have h: "d < h" "h \<le> e" "pos \<le> d" "\<And>i. d \<le> i \<Longrightarrow> i < h \<Longrightarrow> is_data f i"
      using hole_before_extent [OF d(2,3)] sf.sdata_Some [OF d(2)] by (auto simp: h_def)
    have last: "is_data f (h - 1)" "pos < h" using h by (auto intro: h(4))
    have ex: "\<exists>i. pos \<le> i \<and> i < e \<and> is_data f i" using h d(3) by (metis order_refl)
    show ?thesis
    proof (cases "h \<ge> e")
      case True
      then have "scan_data f e last_end pos = Some e" using d h(2) by (subst scan_data.simps) (simp add: h_def)
      then show ?thesis using ex last True h(2) by (auto simp: data_end_def)
    next
      case False
      then have eq: "scan_data f e last_end pos = scan_data f e (Some h) h"
        using d by (subst scan_data.simps) (simp add: h_def)
      have "data_end f h e (Some h) (scan_data f e (Some h) h)"
        using "1.IH" d False unfolding h_def by simp
      then show ?thesis unfolding eq data_end_def using ex last h(2)
        by (auto split: option.splits if_splits)
    qed
  qed
qed

lemma roundup_ge: "0 < b \<Longrightarrow> n \<le> roundup n b"
  using div_mult_mod_eq [of "n + b - 1" b] mod_less_divisor [of b "n + b - 1"] unfolding roundup_def by linarith

lemma roundup_less: "0 < b \<Longrightarrow> roundup n b < n + b"
  unfolding roundup_def using div_times_less_eq_dividend [of "n + b - 1" b] by linarith

text \<open>
  C14: Truncating a partition loses no data: what is cut off holds only holes, the new size is the
  old one or a multiple of the block size less than a block behind the last data, and it is zero
  exactly for a partition without data.
\<close>

theorem truncate_loses_nothing:
  fixes f start sz b
  defines "n \<equiv> truncate_partition_size f start sz b"
  assumes "0 < b"
  shows "n \<le> sz \<and> (n = sz \<or> b dvd n) \<and> (\<forall>i. start + n \<le> i \<longrightarrow> i < start + sz \<longrightarrow> \<not> is_data f i) \<and>
    (n = 0 \<longleftrightarrow> (\<forall>i. start \<le> i \<longrightarrow> i < start + sz \<longrightarrow> \<not> is_data f i)) \<and>
    (0 < n \<longrightarrow> (\<exists>i. start + n \<le> i + b \<and> start \<le> i \<and> i < start + n \<and> is_data f i))"
proof (cases "scan_data f (start + sz) None start")
  case None
  then show ?thesis using scan_data_end [of f start "start + sz" None]
    by (auto simp: n_def truncate_partition_size_def data_end_def)
next
  case (Some h)
  then have ex: "\<exists>i. start \<le> i \<and> i < start + sz \<and> is_data f i" and h: "start < h" "h \<le> start + sz" "is_data f (h - 1)"
    and rest: "\<And>i. h \<le> i \<Longrightarrow> i < start + sz \<Longrightarrow> \<not> is_data f i"
    using scan_data_end [of f start "start + sz" None] by (auto simp: data_end_def split: if_splits)
  have n: "n = min (roundup (h - start) b) sz"
    using Some h roundup_ge [OF assms(2), of "h - start"] by (auto simp: n_def truncate_partition_size_def)
  have le: "h \<le> start + n" and pos: "0 < n"
    using h roundup_ge [OF assms(2), of "h - start"] unfolding n by auto
  have "n < h - start + b" using roundup_less [OF assms(2), of "h - start"] unfolding n by simp
  then have "start + n \<le> (h - 1) + b" using h by linarith
  moreover have "start \<le> h - 1" "h - 1 < start + n" using h le by auto
  moreover have "n = sz \<or> b dvd n" unfolding n by (auto simp: min_def roundup_def)
  moreover have "n \<le> sz" unfolding n by simp
  ultimately show ?thesis using ex pos rest le h(3) by (meson le_trans not_gr0)
qed

section \<open>Extracting a part of a file\<close>

text \<open>Writing to a sparse file allocates what is written; the gap before it stays a hole.\<close>

definition sf_write :: "nat \<Rightarrow> byte list \<Rightarrow> sfile \<Rightarrow> sfile" where
  "sf_write off new f =
     (if new = [] then f
      else \<lparr>sf_bytes = write_at off new (sf_bytes f),
            sf_data = take off (sf_data f @ replicate (off - file_size f) False) @ replicate (length new) True @
              drop (off + length new) (sf_data f)\<rparr>)"

definition sf_truncate :: "nat \<Rightarrow> sfile \<Rightarrow> sfile" where
  "sf_truncate n f =
     \<lparr>sf_bytes = resize n (sf_bytes f), sf_data = take n (sf_data f) @ replicate (n - file_size f) False\<rparr>"

lemma file_size_write [simp]:
  "file_size (sf_write off new f) = (if new = [] then file_size f else max (file_size f) (off + length new))"
  by (auto simp: sf_write_def file_size_def)

lemma byte_at_sf_write [simp]:
  "byte_at (sf_bytes (sf_write off new f)) i =
     (if off \<le> i \<and> i < off + length new then new ! (i - off) else byte_at (sf_bytes f) i)"
  by (auto simp: sf_write_def)

lemma length_sf_write [simp]:
  "length (sf_bytes (sf_write off new f)) =
     (if new = [] then length (sf_bytes f) else max (length (sf_bytes f)) (off + length new))"
  by (simp add: sf_write_def)

lemma is_data_sf_write [simp]:
  "is_data (sf_write off new f) i \<longleftrightarrow> off \<le> i \<and> i < off + length new \<or> is_data f i"
  by (auto simp: sf_write_def is_data_def file_size_def nth_append min_def split: if_splits)

text \<open>The inner loop reads and writes pieces of at most \<open>chunk\<close> bytes; it ends at the end of the file.\<close>

function copy_bytes :: "nat \<Rightarrow> byte list \<Rightarrow> nat \<Rightarrow> nat \<Rightarrow> nat \<Rightarrow> sfile \<times> nat \<Rightarrow> sfile \<times> nat" where
  "copy_bytes chunk src rpos wpos remaining dw =
     (if remaining > 0 then
        let data = take (min chunk remaining) (drop rpos src)
        in if data = [] then dw
           else copy_bytes chunk src (rpos + length data) (wpos + length data) (remaining - length data)
                  (sf_write wpos data (fst dw), snd dw + length data)
      else dw)"
  by pat_completeness auto
termination
  by (relation "measure (\<lambda>(chunk, src, rpos, wpos, remaining, dw). remaining)") (auto simp: Let_def)

declare copy_bytes.simps [simp del]

function extract_loop :: "nat \<Rightarrow> sfile \<Rightarrow> nat \<Rightarrow> nat \<Rightarrow> nat \<Rightarrow> sfile \<times> nat \<Rightarrow> sfile \<times> nat" where
  "extract_loop chunk f start e pos dw =
     (if pos < e then
        case seek_data f pos of
          None \<Rightarrow> dw
        | Some d \<Rightarrow>
            if d \<ge> e then dw
            else extract_loop chunk f start e (hole_before f d e)
                   (copy_bytes chunk (sf_bytes f) d (d - start) (hole_before f d e - d) dw)
      else dw)"
  by pat_completeness auto
termination
  by (relation "measure (\<lambda>(chunk, f, start, e, pos, dw). e - pos)")
    (auto simp: not_le dest: hole_before_progress intro!: diff_less_mono2)

declare extract_loop.simps [simp del]

definition extract_part_of_file :: "sfile \<Rightarrow> nat \<Rightarrow> nat \<Rightarrow> nat \<Rightarrow> sfile \<times> nat" where
  "extract_part_of_file f start sz chunk =
     (let (dst, total_written) = extract_loop chunk f start (start + sz) start (\<lparr>sf_bytes = [], sf_data = []\<rparr>, 0)
      in (if sz > 0 then sf_truncate sz dst else dst, total_written))"

text \<open>A file as the pair of its bytes and holes, and the part that should be extracted.\<close>

definition sf_part :: "sfile \<Rightarrow> nat \<Rightarrow> nat \<Rightarrow> sfile" where
  "sf_part f start sz =
     \<lparr>sf_bytes = map (byte_at (sf_bytes f)) [start..<start + sz], sf_data = map (is_data f) [start..<start + sz]\<rparr>"

lemma sf_write_append: "sf_write (off + length a) b (sf_write off a f) = sf_write off (a @ b) f"
proof (cases "a = [] \<or> b = []")
  case True
  then show ?thesis by (auto simp: sf_write_def)
next
  case False
  define T where "T = take off (sf_bytes f @ replicate (off - length (sf_bytes f)) 0)"
  define U where "U = take off (sf_data f @ replicate (off - file_size f) False)"
  have len: "length T = off" "length U = off" by (simp_all add: T_def U_def file_size_def)
  have "sf_write off a f = \<lparr>sf_bytes = T @ a @ drop (off + length a) (sf_bytes f),
      sf_data = U @ replicate (length a) True @ drop (off + length a) (sf_data f)\<rparr>"
    using False by (simp add: sf_write_def write_at_def T_def U_def)
  then show ?thesis
    using False len by (simp add: sf_write_def write_at_def T_def [symmetric] U_def [symmetric] replicate_add add.commute add.left_commute)
qed

lemma sf_write_Nil [simp]: "sf_write off [] f = f"
  by (simp add: sf_write_def)

lemma copy_bytes_result:
  assumes "0 < chunk" and "rpos + n \<le> length src"
  shows "copy_bytes chunk src rpos wpos n dw = (sf_write wpos (take n (drop rpos src)) (fst dw), snd dw + n)"
  using assms
proof (induction chunk src rpos wpos n dw rule: copy_bytes.induct)
  case (1 chunk src rpos wpos n dw)
  define d where "d = take (min chunk n) (drop rpos src)"
  show ?case
  proof (cases "n = 0")
    case True
    then show ?thesis by (subst copy_bytes.simps) simp
  next
    case False
    have ld: "length d = min chunk n" using "1.prems" by (simp add: d_def)
    then have ne: "d \<noteq> []" using False "1.prems" by auto
    have "copy_bytes chunk src rpos wpos n dw =
        copy_bytes chunk src (rpos + length d) (wpos + length d) (n - length d) (sf_write wpos d (fst dw), snd dw + length d)"
      using False ne by (subst copy_bytes.simps) (simp add: d_def [symmetric])
    also have "\<dots> = (sf_write (wpos + length d) (take (n - length d) (drop (rpos + length d) src)) (sf_write wpos d (fst dw)),
        snd dw + length d + (n - length d))"
      using "1.IH" [OF _ d_def ne] False "1.prems" ld by simp
    also have "sf_write (wpos + length d) (take (n - length d) (drop (rpos + length d) src)) (sf_write wpos d (fst dw)) =
        sf_write wpos (d @ take (n - length d) (drop (rpos + length d) src)) (fst dw)"
      by (rule sf_write_append)
    also have "d @ take (n - length d) (drop (rpos + length d) src) = take n (drop rpos src)"
      using ld take_add [of "length d" "n - length d" "drop rpos src"]
      by (simp add: d_def min_def add.commute split: if_splits)
    finally show ?thesis using ld by simp
  qed
qed

text \<open>The part up to an offset is copied, bytes and holes.\<close>

definition copied :: "sfile \<Rightarrow> nat \<Rightarrow> nat \<Rightarrow> sfile \<Rightarrow> bool" where
  "copied f start k dst \<longleftrightarrow> length (sf_bytes dst) = file_size dst \<and> file_size dst \<le> k \<and>
     (\<forall>i < k. byte_at (sf_bytes dst) i = byte_at (sf_bytes f) (start + i) \<and> is_data dst i = is_data f (start + i))"

lemma copied_hole:
  assumes "copied f start k dst" and "wf_sfile f" and "k \<le> m"
    and "\<And>i. start + k \<le> i \<Longrightarrow> i < start + m \<Longrightarrow> \<not> is_data f i"
  shows "copied f start m dst"
proof -
  have "byte_at (sf_bytes dst) i = byte_at (sf_bytes f) (start + i) \<and> is_data dst i = is_data f (start + i)"
    if "i < m" for i
  proof (cases "i < k")
    case True
    then show ?thesis using assms(1) by (simp add: copied_def)
  next
    case False
    then have "\<not> is_data f (start + i)" using assms(4) that by simp
    moreover have "file_size dst \<le> i" using False assms(1) by (simp add: copied_def)
    ultimately show ?thesis
      using hole_byte [OF assms(2)] assms(1) by (simp add: is_data_def byte_at_def copied_def)
  qed
  then show ?thesis using assms(1,3) by (auto simp: copied_def)
qed

lemma copied_data:
  assumes "copied f start k dst" and "wf_sfile f" and "k < m" and "start + m \<le> file_size f"
    and "\<And>i. start + k \<le> i \<Longrightarrow> i < start + m \<Longrightarrow> is_data f i"
  shows "copied f start m (sf_write k (take (m - k) (drop (start + k) (sf_bytes f))) dst)"
proof -
  have len: "length (sf_bytes f) = file_size f" using assms(2) by (simp add: wf_sfile_def file_size_def)
  then have l: "length (take (m - k) (drop (start + k) (sf_bytes f))) = m - k" using assms(4) by simp
  then have "take (m - k) (drop (start + k) (sf_bytes f)) \<noteq> []" using assms(3) by auto
  moreover have "take (m - k) (drop (start + k) (sf_bytes f)) ! (i - k) = byte_at (sf_bytes f) (start + i)"
    if "k \<le> i" "i < m" for i
    using that len assms(4) by (simp add: byte_at_def)
  moreover have "is_data f (start + i)" if "k \<le> i" "i < m" for i using that assms(5) by simp
  ultimately show ?thesis using assms(1,3) l by (auto simp: copied_def)
qed

lemma extract_loop_copied:
  assumes "wf_sfile f" and "0 < chunk" and "start \<le> pos" and "pos \<le> e" and "copied f start (pos - start) (fst dw)"
  shows "copied f start (e - start) (fst (extract_loop chunk f start e pos dw)) \<and>
    snd (extract_loop chunk f start e pos dw) = snd dw + length (filter (is_data f) [pos..<e])"
  using assms
proof (induction chunk f start e pos dw rule: extract_loop.induct)
  case (1 chunk f start e pos dw)
  show ?case
  proof (cases "pos < e \<and> (\<exists>d. seek_data f pos = Some d \<and> d < e)")
    case False
    then have "extract_loop chunk f start e pos dw = dw"
      by (subst extract_loop.simps) (auto split: option.split)
    moreover have none: "\<not> (\<exists>i. pos \<le> i \<and> i < e \<and> is_data f i)"
      using False sf.data_before [of f pos _ e] sf.no_data_before [of f pos e] by (cases "seek_data f pos") auto
    moreover have "filter (is_data f) [pos..<e] = []" using none by (auto simp: filter_empty_conv)
    ultimately show ?thesis using copied_hole [OF "1.prems"(5,1), of "e - start"] "1.prems" by auto
  next
    case True
    then obtain d where d: "pos < e" "seek_data f pos = Some d" "d < e" by blast
    define h where "h = hole_before f d e"
    have h: "d < h" "h \<le> e" "h \<le> file_size f" "\<And>i. pos \<le> i \<Longrightarrow> i < d \<Longrightarrow> \<not> is_data f i"
      "\<And>i. d \<le> i \<Longrightarrow> i < h \<Longrightarrow> is_data f i"
      using hole_before_extent [OF d(2,3)] by (auto simp: h_def)
    have pd: "pos \<le> d" using sf.sdata_Some [OF d(2)] by simp
    have size: "length (sf_bytes f) = file_size f" using "1.prems"(1) by (simp add: wf_sfile_def file_size_def)
    define dw' where "dw' = (sf_write (d - start) (take (h - d) (drop d (sf_bytes f))) (fst dw), snd dw + (h - d))"
    have cp: "copy_bytes chunk (sf_bytes f) d (d - start) (hole_before f d e - d) dw = dw'"
      using copy_bytes_result [OF "1.prems"(2), of d "h - d" "sf_bytes f"] h size by (simp add: dw'_def h_def)
    have eq: "extract_loop chunk f start e pos dw = extract_loop chunk f start e h dw'"
      using d cp by (subst extract_loop.simps) (simp add: h_def)
    have "copied f start (d - start) (fst dw)"
      by (rule copied_hole [OF "1.prems"(5,1)]) (use h pd "1.prems"(3) in auto)
    then have "copied f start (h - start) (fst dw')"
      using copied_data [of f start "d - start" "fst dw" "h - start"] "1.prems"(1,3) h pd by (simp add: dw'_def)
    then have IH: "copied f start (e - start) (fst (extract_loop chunk f start e h dw')) \<and>
      snd (extract_loop chunk f start e h dw') = snd dw' + length (filter (is_data f) [h..<e])"
      using "1.IH" [OF d(1,2)] d(3) cp "1.prems" h pd unfolding h_def by simp
    have "[pos..<e] = [pos..<d] @ [d..<h] @ [h..<e]"
      using pd h(1,2) by (metis le_trans less_imp_le upt_add_eq_append le_Suc_ex)
    moreover have "filter (is_data f) [pos..<d] = []" using h(4) by (auto simp: filter_empty_conv)
    moreover have "filter (is_data f) [d..<h] = [d..<h]" using h(5) by (auto simp: filter_id_conv)
    ultimately show ?thesis using IH unfolding eq by (simp add: dw'_def)
  qed
qed

lemma extract_slice:
  assumes "wf_sfile f" and "0 < chunk"
  shows "extract_part_of_file f start sz chunk =
    (sf_part f start sz, length (filter (is_data f) [start..<start + sz]))"
proof -
  define r where "r = extract_loop chunk f start (start + sz) start (\<lparr>sf_bytes = [], sf_data = []\<rparr>, 0)"
  have "copied f start (start - start) (fst (\<lparr>sf_bytes = [], sf_data = []\<rparr>, 0::nat))" by (simp add: copied_def file_size_def)
  from extract_loop_copied [OF assms le_refl le_add1 this, of sz]
  have r: "copied f start sz (fst r)" "snd r = length (filter (is_data f) [start..<start + sz])"
    by (simp_all add: r_def)
  have "(if sz > 0 then sf_truncate sz (fst r) else fst r) = sf_part f start sz"
  proof (cases "sz = 0")
    case True
    then show ?thesis using r(1) by (cases "fst r") (auto simp: copied_def sf_part_def file_size_def)
  next
    case False
    have len: "length (sf_bytes (fst r)) = file_size (fst r)" "file_size (fst r) \<le> sz" using r(1) by (simp_all add: copied_def)
    have "resize sz (sf_bytes (fst r)) = map (byte_at (sf_bytes f)) [start..<start + sz]"
    proof (rule sym, rule resize_eqI)
      fix i assume "i < sz"
      then show "byte_at (map (byte_at (sf_bytes f)) [start..<start + sz]) i = byte_at (sf_bytes (fst r)) i"
        using r(1) by (simp add: copied_def byte_at_map)
    qed simp
    moreover have "take sz (sf_data (fst r)) @ replicate (sz - file_size (fst r)) False = map (is_data f) [start..<start + sz]"
    proof (rule nth_equalityI)
      fix i assume "i < length (take sz (sf_data (fst r)) @ replicate (sz - file_size (fst r)) False)"
      then have i: "i < sz" using len by (simp add: file_size_def)
      then have "is_data (fst r) i = is_data f (start + i)" using r(1) by (simp add: copied_def)
      then show "(take sz (sf_data (fst r)) @ replicate (sz - file_size (fst r)) False) ! i = map (is_data f) [start..<start + sz] ! i"
        using i len by (auto simp: nth_append is_data_def file_size_def)
    qed (use len in \<open>simp add: file_size_def\<close>)
    ultimately show ?thesis using False by (simp add: sf_truncate_def sf_part_def)
  qed
  then show ?thesis using r(2) by (simp add: extract_part_of_file_def r_def [symmetric] case_prod_unfold)
qed

text \<open>
  C13: Extracting a part of a disk image gives exactly its bytes and its holes, whatever the size of
  the pieces, and reports the number of data bytes.
\<close>

theorem extract_exact:
  assumes "wf_sfile f" and "0 < chunk"
  shows "extract_part_of_file f start sz chunk =
    (sf_part f start sz, length (filter (is_data f) [start..<start + sz]))"
  by (rule extract_slice [OF assms])

text \<open>A file with data in the middle of its second part.\<close>

definition sample_sparse :: sfile where
  "sample_sparse = \<lparr>sf_bytes = [1, 2, 0, 0, 3, 0], sf_data = [True, True, False, False, True, False]\<rparr>"

theorem extract_exact_witness:
  "fst (extract_part_of_file sample_sparse 1 4 2) = \<lparr>sf_bytes = [2, 0, 0, 3], sf_data = [True, False, False, True]\<rparr>"
proof -
  have "wf_sfile sample_sparse" by (simp add: wf_sfile_def sample_sparse_def)
  from extract_exact [OF this, of 2 1 4] show ?thesis
    by (simp add: sf_part_def sample_sparse_def byte_at_def is_data_def file_size_def upt_rec)
qed

theorem truncate_loses_nothing_witness:
  "truncate_partition_size sample_sparse 2 4 1 = 3 \<and> \<not> is_data sample_sparse 5"
proof -
  have n: "truncate_partition_size sample_sparse 2 4 1 = 3" by code_simp
  show ?thesis using truncate_loses_nothing [of 1 sample_sparse 2 4] unfolding n by simp
qed

end
