(* ===== verification/Simg.thy ===== *)
theory Simg
  imports Sparse_File
begin

text \<open>
  Android sparse images: \<open>convert_to_simg\<close> of \<open>src/aib/utils.py\<close> writes them and
  \<open>src/contrib/write_simg.py\<close> writes them out to a file or a block device.  A writer returns the
  bytes of the file it writes; fields that do not fit their width raise \<open>struct.error\<close>.
\<close>

section \<open>Little-endian fields\<close>

fun le_bytes :: "nat \<Rightarrow> nat \<Rightarrow> byte list" where
  "le_bytes 0 n = []"
| "le_bytes (Suc k) n = word_of_nat (n mod 256) # le_bytes k (n div 256)"

fun le_val :: "byte list \<Rightarrow> nat" where
  "le_val [] = 0"
| "le_val (b # bs) = unat b + 256 * le_val bs"

lemma length_le_bytes [simp]: "length (le_bytes k n) = k"
  by (induction k n rule: le_bytes.induct) auto

lemma le_val_bytes: "le_val (le_bytes k n) = n mod 256 ^ k"
proof (induction k n rule: le_bytes.induct)
  case (1 n)
  then show ?case by simp
next
  case (2 k n)
  have "unat (word_of_nat (n mod 256) :: byte) = n mod 256"
    by (simp add: unat_of_nat)
  then show ?case using 2 by (simp add: mod_mult2_eq)
qed

text \<open>\<open>struct.pack\<close> and \<open>struct.unpack\<close> of fields given by their widths.\<close>

definition pack_field :: "nat \<times> nat \<Rightarrow> byte list res" where
  "pack_field kn = (if snd kn < 256 ^ fst kn then Inr (le_bytes (fst kn) (snd kn)) else Inl Struct_Error)"

definition pack_fields :: "(nat \<times> nat) list \<Rightarrow> byte list res" where
  "pack_fields fs = res_map concat (res_mapM pack_field fs)"

fun unpack_fields :: "nat list \<Rightarrow> byte list \<Rightarrow> nat list" where
  "unpack_fields [] bs = []"
| "unpack_fields (k # ks) bs = le_val (take k bs) # unpack_fields ks (drop k bs)"

lemma pack_fields_Inr:
  "pack_fields fs = Inr bs \<longleftrightarrow> (\<forall>(k, n) \<in> set fs. n < 256 ^ k) \<and> bs = concat (map (\<lambda>(k, n). le_bytes k n) fs)"
proof (induction fs arbitrary: bs)
  case Nil
  then show ?case by (auto simp: pack_fields_def)
next
  case (Cons f fs)
  obtain k n where f: "f = (k, n)" by (cases f)
  show ?case
    using Cons unfolding f
    by (cases "res_mapM pack_field fs") (auto simp: pack_fields_def pack_field_def split: if_splits)
qed

lemma length_packed: "pack_fields fs = Inr bs \<Longrightarrow> length bs = sum_list (map fst fs)"
  unfolding pack_fields_Inr by (induction fs arbitrary: bs) auto

lemma unpack_packed: "pack_fields fs = Inr bs \<Longrightarrow> unpack_fields (map fst fs) (bs @ rest) = map snd fs"
  unfolding pack_fields_Inr
  by (induction fs arbitrary: bs) (auto simp: le_val_bytes)

section \<open>The format\<close>

definition sparse_magic :: nat where "sparse_magic = 0xED26FF3A"
definition type_raw :: nat where "type_raw = 0xCAC1"
definition type_fill :: nat where "type_fill = 0xCAC2"
definition type_dont_care :: nat where "type_dont_care = 0xCAC3"

definition header_fields :: "nat \<Rightarrow> nat \<Rightarrow> nat \<Rightarrow> (nat \<times> nat) list" where
  "header_fields block_size total_blocks chunk_count =
     [(4, sparse_magic), (2, 1), (2, 0), (2, 28), (2, 12), (4, block_size), (4, total_blocks), (4, chunk_count), (4, 0)]"

definition chunk_fields :: "nat \<Rightarrow> nat \<Rightarrow> nat \<Rightarrow> (nat \<times> nat) list" where
  "chunk_fields kind n tot = [(2, kind), (2, 0), (4, n), (4, tot)]"

section \<open>Runs of blocks\<close>

text \<open>
  Both loops over blocks (of the file, by allocation; of a buffer, by content) collect maximal runs of
  blocks with the same value: value, first block, number of blocks.
\<close>

function run_end :: "(nat \<Rightarrow> bool) \<Rightarrow> nat \<Rightarrow> bool \<Rightarrow> nat \<Rightarrow> nat" where
  "run_end P tot v j = (if j < tot \<and> P j = v then run_end P tot v (Suc j) else j)"
  by pat_completeness auto
termination
  by (relation "measure (\<lambda>(P, tot, v, j). tot - j)") auto

declare run_end.simps [simp del]

lemma run_end_ge: "j \<le> run_end P tot v j"
  by (induction P tot v j rule: run_end.induct) (subst run_end.simps, auto)

lemma run_end_le: "j \<le> tot \<Longrightarrow> run_end P tot v j \<le> tot"
  by (induction P tot v j rule: run_end.induct) (subst run_end.simps, auto)

lemma run_end_same: "j \<le> i \<Longrightarrow> i < run_end P tot v j \<Longrightarrow> P i = v"
proof (induction P tot v j rule: run_end.induct)
  case (1 P tot v j)
  then show ?case by (subst (asm) (2) run_end.simps) (cases "i = j"; auto split: if_splits)
qed

function block_runs :: "(nat \<Rightarrow> bool) \<Rightarrow> nat \<Rightarrow> nat \<Rightarrow> (bool \<times> nat \<times> nat) list" where
  "block_runs P tot i =
     (if i < tot then
        (P i, i, run_end P tot (P i) (Suc i) - i) # block_runs P tot (run_end P tot (P i) (Suc i))
      else [])"
  by pat_completeness auto
termination
  by (relation "measure (\<lambda>(P, tot, i). tot - i)")
    (auto intro!: diff_less_mono2 less_le_trans [OF lessI run_end_ge])

declare block_runs.simps [simp del]

text \<open>What the loops compute: the runs tile the blocks, none is empty, and the value is that of every block.\<close>

fun tiles :: "(nat \<Rightarrow> bool) \<Rightarrow> nat \<Rightarrow> nat \<Rightarrow> (bool \<times> nat \<times> nat) list \<Rightarrow> bool" where
  "tiles P i tot [] \<longleftrightarrow> i = tot"
| "tiles P i tot ((v, s, n) # rs) \<longleftrightarrow>
     s = i \<and> 0 < n \<and> i + n \<le> tot \<and> (\<forall>j. i \<le> j \<longrightarrow> j < i + n \<longrightarrow> P j = v) \<and> tiles P (i + n) tot rs"

lemma block_runs_tile: "i \<le> tot \<Longrightarrow> tiles P i tot (block_runs P tot i)"
proof (induction P tot i rule: block_runs.induct)
  case (1 P tot i)
  show ?case
  proof (cases "i < tot")
    case True
    define e where "e = run_end P tot (P i) (Suc i)"
    have e: "Suc i \<le> e" "e \<le> tot" using run_end_ge run_end_le [of "Suc i" tot P "P i"] True unfolding e_def by auto
    have same: "P j = P i" if "i \<le> j" "j < e" for j
      using run_end_same [of "Suc i" j P tot "P i"] that unfolding e_def by (cases "i = j") auto
    have tl: "tiles P e tot (block_runs P tot e)" using "1.IH" [OF True] e unfolding e_def by simp
    have eq: "block_runs P tot i = (P i, i, e - i) # block_runs P tot e"
      using True by (subst block_runs.simps) (simp add: e_def)
    have sum: "i + (e - i) = e" and pos: "0 < e - i" using e by simp_all
    show ?thesis unfolding eq tiles.simps sum by (intro conjI refl pos e(2) allI impI same tl)
  next
    case False
    then show ?thesis using "1.prems" by (subst block_runs.simps) simp
  qed
qed

section \<open>Writing an image\<close>

definition total_blocks_of :: "sfile \<Rightarrow> nat \<Rightarrow> nat" where
  "total_blocks_of f block_size = (file_size f + block_size - 1) div block_size"

definition block_has_data :: "sfile \<Rightarrow> nat \<Rightarrow> nat \<Rightarrow> bool" where
  "block_has_data f block_size i =
     (let start = i * block_size; e = min (start + block_size) (file_size f)
      in if start \<ge> file_size f then False
         else case seek_data f start of Some off \<Rightarrow> off < e | None \<Rightarrow> False)"

definition is_all_zeros :: "byte list \<Rightarrow> bool" where
  "is_all_zeros data = list_all (\<lambda>x. x = 0) data"

definition nth_block :: "nat \<Rightarrow> byte list \<Rightarrow> nat \<Rightarrow> byte list" where
  "nth_block block_size buf i = take block_size (drop (i * block_size) buf)"

definition analyze_block_runs :: "byte list \<Rightarrow> nat \<Rightarrow> (bool \<times> nat \<times> byte list) list" where
  "analyze_block_runs buf block_size =
     map (\<lambda>(is_zero, s, n). (is_zero, n, take (n * block_size) (drop (s * block_size) buf)))
       (block_runs (\<lambda>i. is_all_zeros (nth_block block_size buf i)) (length buf div block_size) 0)"

text \<open>The buffers of a data run: at most 32768 blocks each, padded at the end of the file.\<close>

definition read_chunk_size :: nat where
  "read_chunk_size = 32 * 1024"

function data_buffers :: "byte list \<Rightarrow> nat \<Rightarrow> nat \<Rightarrow> nat \<Rightarrow> byte list list" where
  "data_buffers bytes block_size start remaining =
     (if remaining > 0 then
        let n = min read_chunk_size remaining;
            chunk_data = take (n * block_size) (drop (start * block_size) bytes)
        in (chunk_data @ replicate (n * block_size - length chunk_data) 0) #
             data_buffers bytes block_size (start + n) (remaining - n)
      else [])"
  by pat_completeness auto
termination
  by (relation "measure (\<lambda>(bytes, block_size, start, remaining). remaining)") (auto simp: read_chunk_size_def)

declare data_buffers.simps [simp del]

fun run_chunk :: "bool \<times> nat \<times> byte list \<Rightarrow> byte list res" where
  "run_chunk (is_zero, n, data) =
     (if is_zero then res_bind (pack_fields (chunk_fields type_fill n 16)) (\<lambda>h. res_map (\<lambda>v. h @ v) (pack_fields [(4, 0)]))
      else res_map (\<lambda>h. h @ data) (pack_fields (chunk_fields type_raw n (12 + length data))))"

fun kind_chunks :: "sfile \<Rightarrow> nat \<Rightarrow> bool \<times> nat \<times> nat \<Rightarrow> byte list list res" where
  "kind_chunks f block_size (has_data, start, n) =
     (if has_data then
        res_map concat (res_mapM (\<lambda>buf. res_mapM run_chunk (analyze_block_runs buf block_size))
          (data_buffers (sf_bytes f) block_size start n))
      else res_map (\<lambda>h. [h]) (pack_fields (chunk_fields type_dont_care n 12)))"

definition simg_chunks :: "sfile \<Rightarrow> nat \<Rightarrow> byte list list res" where
  "simg_chunks f block_size =
     res_map concat (res_mapM (kind_chunks f block_size)
       (block_runs (block_has_data f block_size) (total_blocks_of f block_size) 0))"

definition convert_to_simg :: "sfile \<Rightarrow> nat \<Rightarrow> byte list res" where
  "convert_to_simg f block_size =
     (if block_size < 1024 then Inl Value_Error
      else if block_size mod 4 \<noteq> 0 then Inl Value_Error
      else
        let tot = total_blocks_of f block_size
        in res_bind (pack_fields (header_fields block_size tot 0)) (\<lambda>placeholder.
           res_bind (simg_chunks f block_size) (\<lambda>chunks.
           res_map (\<lambda>header. header @ drop (length header) (placeholder @ concat chunks))
             (pack_fields (header_fields block_size tot (length chunks))))))"

section \<open>Writing an image out\<close>

text \<open>
  The unread part of the image, the bytes of the output, and whether the output has a fixed size, as a
  block device has: a write behind its end fails.
\<close>

record simg_io =
  io_src :: "byte list"
  io_dst :: "byte list"
  io_fixed :: bool

definition src_read :: "nat \<Rightarrow> (simg_io, byte list) prog" where
  "src_read n io = (Inr (take n (io_src io)), io\<lparr>io_src := drop n (io_src io)\<rparr>)"

definition dst_write :: "nat \<Rightarrow> byte list \<Rightarrow> (simg_io, unit) prog" where
  "dst_write off data io =
     (if io_fixed io \<and> off + length data > length (io_dst io) then (Inl OS_Error, io)
      else (Inr (), io\<lparr>io_dst := write_at off data (io_dst io)\<rparr>))"

record simg_header =
  sh_block_size :: nat
  sh_total_blocks :: nat
  sh_total_chunks :: nat

definition parse_simg_header :: "(simg_io, simg_header) prog" where
  "parse_simg_header =
     andthen (src_read 28) (\<lambda>data.
       if length data < 28 then raise_exn Value_Error
       else case unpack_fields [4, 2, 2, 2, 2, 4, 4, 4, 4] data of
         [magic, major, minor, file_hdr_sz, chunk_hdr_sz, block_size, total_blocks, total_chunks, checksum] \<Rightarrow>
           if magic \<noteq> sparse_magic then raise_exn Value_Error
           else if major \<noteq> 1 then raise_exn Value_Error
           else if file_hdr_sz \<noteq> 28 then raise_exn Value_Error
           else if chunk_hdr_sz \<noteq> 12 then raise_exn Value_Error
           else ret \<lparr>sh_block_size = block_size, sh_total_blocks = total_blocks, sh_total_chunks = total_chunks\<rparr>
       | _ \<Rightarrow> raise_exn Struct_Error)"

function copy_raw :: "nat \<Rightarrow> nat \<Rightarrow> (simg_io, unit) prog" where
  "copy_raw off remaining =
     (if remaining > 0 then
        let to_read = min (1024 * 1024) remaining
        in andthen (src_read to_read) (\<lambda>data.
             if length data \<noteq> to_read then raise_exn Value_Error
             else seq (dst_write off data) (copy_raw (off + to_read) (remaining - to_read)))
      else ret ())"
  by pat_completeness auto
termination
  by (relation "measure (\<lambda>(off, remaining). remaining)") auto

declare copy_raw.simps [simp del]

definition write_raw_chunk :: "nat \<Rightarrow> nat \<Rightarrow> nat \<Rightarrow> nat \<Rightarrow> (simg_io, nat) prog" where
  "write_raw_chunk n tot off block_size =
     (if tot \<noteq> 12 + n * block_size then raise_exn Value_Error
      else seq (copy_raw off (n * block_size)) (ret (n * block_size)))"

fun write_blocks :: "nat \<Rightarrow> byte list \<Rightarrow> nat \<Rightarrow> (simg_io, unit) prog" where
  "write_blocks off block 0 = ret ()"
| "write_blocks off block (Suc n) = seq (dst_write off block) (write_blocks (off + length block) block n)"

definition fill_block :: "nat \<Rightarrow> nat \<Rightarrow> byte list" where
  "fill_block v block_size = concat (replicate (block_size div 4) (le_bytes 4 v))"

definition write_fill_chunk :: "nat \<Rightarrow> nat \<Rightarrow> nat \<Rightarrow> nat \<Rightarrow> (simg_io, nat) prog" where
  "write_fill_chunk n tot off block_size =
     (if tot \<noteq> 16 then raise_exn Value_Error
      else andthen (src_read 4) (\<lambda>fill_data.
        if length fill_data \<noteq> 4 then raise_exn Value_Error
        else seq (write_blocks off (fill_block (le_val fill_data) block_size) n) (ret (n * block_size))))"

definition write_dont_care_chunk :: "nat \<Rightarrow> nat \<Rightarrow> nat \<Rightarrow> nat \<Rightarrow> bool \<Rightarrow> (simg_io, nat) prog" where
  "write_dont_care_chunk n tot off block_size zero_initialize =
     (if tot \<noteq> 12 then raise_exn Value_Error
      else if zero_initialize then seq (write_blocks off (fill_block 0 block_size) n) (ret (n * block_size))
      else ret 0)"

definition write_chunk :: "bool \<Rightarrow> nat \<Rightarrow> nat \<times> nat \<Rightarrow> (simg_io, nat \<times> nat) prog" where
  "write_chunk zero_initialize block_size bw =
     andthen (src_read 12) (\<lambda>h.
       if length h < 12 then raise_exn Value_Error
       else case unpack_fields [2, 2, 4, 4] h of
         [kind, reserved, n, tot] \<Rightarrow>
           andthen
             (if kind = type_raw then write_raw_chunk n tot (fst bw * block_size) block_size
              else if kind = type_fill then write_fill_chunk n tot (fst bw * block_size) block_size
              else if kind = type_dont_care then write_dont_care_chunk n tot (fst bw * block_size) block_size zero_initialize
              else raise_exn Value_Error)
             (\<lambda>written. ret (fst bw + n, snd bw + written))
       | _ \<Rightarrow> raise_exn Struct_Error)"

fun write_chunks :: "bool \<Rightarrow> nat \<Rightarrow> nat \<Rightarrow> nat \<times> nat \<Rightarrow> (simg_io, nat \<times> nat) prog" where
  "write_chunks zero_initialize block_size 0 bw = ret bw"
| "write_chunks zero_initialize block_size (Suc k) bw =
     andthen (write_chunk zero_initialize block_size bw) (write_chunks zero_initialize block_size k)"

text \<open>
  \<open>write_simg\<close>: \<open>device\<close> is the content of a block device, None an ordinary file, which is truncated
  first.  The result is the number of bytes written and the final output, if an error does not end it.
\<close>

definition write_body :: "bool \<Rightarrow> (simg_io, nat) prog" where
  "write_body zero_initialize =
     andthen parse_simg_header (\<lambda>hdr.
     andthen (ask (\<lambda>io. io_fixed io \<and> length (io_dst io) < sh_total_blocks hdr * sh_block_size hdr)) (\<lambda>too_small.
       if too_small then raise_exn Value_Error
       else andthen (write_chunks zero_initialize (sh_block_size hdr) (sh_total_chunks hdr) (0, 0)) (\<lambda>(current_block, written).
         if current_block \<noteq> sh_total_blocks hdr then raise_exn Value_Error
         else seq (update_world (\<lambda>io. if io_fixed io then io
                     else io\<lparr>io_dst := resize (sh_total_blocks hdr * sh_block_size hdr) (io_dst io)\<rparr>))
                (ret written))))"

definition write_simg :: "byte list \<Rightarrow> byte list option \<Rightarrow> bool \<Rightarrow> nat res \<times> byte list" where
  "write_simg img device zero_initialize =
     (let r = write_body zero_initialize
          \<lparr>io_src = img, io_dst = (case device of None \<Rightarrow> [] | Some old \<Rightarrow> old), io_fixed = (device \<noteq> None)\<rparr>
      in (fst r, io_dst (snd r)))"

end
