(* ===== verification/Simg_Laws.thy ===== *)
theory Simg_Laws
  imports Simg
begin

text \<open>
  Sparse images: what the writer of images produces, the program that writes an image out restores,
  except that it leaves the holes of a block device as they are unless told otherwise.
\<close>

section \<open>Single writes\<close>

lemma write_at_append: "write_at (off + length a) b (write_at off a xs) = write_at off (a @ b) xs"
proof (cases "a = [] \<or> b = []")
  case True
  then show ?thesis by (auto simp: write_at_def)
next
  case False
  define T where "T = take off (xs @ replicate (off - length xs) (0 :: byte))"
  have len: "length T = off" by (simp add: T_def)
  have "write_at off a xs = T @ a @ drop (off + length a) xs" using False by (simp add: write_at_def T_def)
  then show ?thesis
    using False len by (simp add: write_at_def T_def [symmetric] add.commute add.left_commute)
qed

lemma src_read_append: "io_src io = a @ rest \<Longrightarrow> length a = n \<Longrightarrow> src_read n io = (Inr a, io\<lparr>io_src := rest\<rparr>)"
  by (auto simp: src_read_def)

lemma dst_write_fits:
  "(io_fixed io \<Longrightarrow> off + length data \<le> length (io_dst io)) \<Longrightarrow>
    dst_write off data io = (Inr (), io\<lparr>io_dst := write_at off data (io_dst io)\<rparr>)"
  by (auto simp: dst_write_def)

lemma copy_raw_result:
  assumes "io_src io = data @ rest" and "io_fixed io \<Longrightarrow> off + length data \<le> length (io_dst io)"
  shows "copy_raw off (length data) io = (Inr (), io\<lparr>io_src := rest, io_dst := write_at off data (io_dst io)\<rparr>)"
  using assms
proof (induction "length data" arbitrary: off data io rule: less_induct)
  case less
  show ?case
  proof (cases "data = []")
    case True
    then show ?thesis using less.prems by (subst copy_raw.simps) (simp add: run_simps write_at_def)
  next
    case False
    define k where "k = min 1048576 (length data)"
    define a b where "a = take k data" and "b = drop k data"
    have ab: "data = a @ b" "length a = k" "0 < k" "length b < length data"
      using False by (simp_all add: a_def b_def k_def)
    define io1 where "io1 = io\<lparr>io_src := b @ rest, io_dst := write_at off a (io_dst io)\<rparr>"
    have 1: "src_read k io = (Inr a, io\<lparr>io_src := b @ rest\<rparr>)"
      using less.prems(1) ab by (intro src_read_append) simp_all
    have 2: "dst_write off a (io\<lparr>io_src := b @ rest\<rparr>) = (Inr (), io1)"
      using less.prems(2) ab by (subst dst_write_fits) (auto simp: io1_def)
    have "io_fixed io1 \<Longrightarrow> (off + k) + length b \<le> length (io_dst io1)"
      using less.prems(2) ab by (auto simp: io1_def)
    with less.hyps [OF ab(4), of io1 "off + k"]
    have 3: "copy_raw (off + k) (length b) io1 = (Inr (), io1\<lparr>io_src := rest, io_dst := write_at (off + k) b (io_dst io1)\<rparr>)"
      by (simp add: io1_def)
    have "length data - k = length b" using ab by simp
    then have "copy_raw off (length data) io = copy_raw (off + k) (length b) io1"
      using False ab(2) 1 2
      by (subst copy_raw.simps) (simp add: k_def [symmetric] andthen_def seq_def Let_def del: min_less_iff_conj)
    also have "\<dots> = (Inr (), io\<lparr>io_src := rest, io_dst := write_at off data (io_dst io)\<rparr>)"
      unfolding 3 using write_at_append [of off a b "io_dst io"] ab by (simp add: io1_def)
    finally show ?thesis .
  qed
qed

lemma write_blocks_result:
  assumes "io_fixed io \<Longrightarrow> off + n * length block \<le> length (io_dst io)"
  shows "write_blocks off block n io = (Inr (), io\<lparr>io_dst := write_at off (concat (replicate n block)) (io_dst io)\<rparr>)"
  using assms
proof (induction n arbitrary: off io)
  case 0
  then show ?case by (simp add: run_simps write_at_def)
next
  case (Suc n)
  define io1 where "io1 = io\<lparr>io_dst := write_at off block (io_dst io)\<rparr>"
  have 1: "dst_write off block io = (Inr (), io1)"
    using Suc.prems by (subst dst_write_fits) (auto simp: io1_def)
  have "write_blocks (off + length block) block n io1 =
      (Inr (), io1\<lparr>io_dst := write_at (off + length block) (concat (replicate n block)) (io_dst io1)\<rparr>)"
    using Suc.prems by (intro Suc.IH) (auto simp: io1_def add.assoc)
  then show ?case using 1 by (simp add: seq_def andthen_def) (simp add: io1_def write_at_append)
qed

lemma concat_replicate_zero: "concat (replicate n (replicate b (0 :: byte))) = replicate (n * b) 0"
  by (induction n) (simp_all add: replicate_add)

lemma fill_block_zero: "block_size mod 4 = 0 \<Longrightarrow> fill_block 0 block_size = replicate block_size 0"
proof -
  have "le_bytes 4 0 = replicate 4 0" by code_simp
  then have "concat (replicate n (le_bytes 4 0)) = replicate (n * 4) 0" for n
    by (simp only: concat_replicate_zero)
  moreover assume "block_size mod 4 = 0"
  then have "block_size div 4 * 4 = block_size" by presburger
  ultimately show ?thesis by (simp add: fill_block_def)
qed

section \<open>Chunks\<close>

text \<open>
  Playing chunks, from block \<open>k\<close> on for \<open>m\<close> blocks, writes the bytes of \<open>g\<close> to the blocks of \<open>W\<close> and
  keeps everything else.
\<close>

definition plays :: "bool \<Rightarrow> nat \<Rightarrow> (nat \<Rightarrow> bool) \<Rightarrow> (nat \<Rightarrow> byte) \<Rightarrow> byte list list \<Rightarrow> nat \<Rightarrow> nat \<Rightarrow> bool" where
  "plays z bs W g cs k m \<longleftrightarrow>
     (\<forall>io rest w. io_src io = concat cs @ rest \<longrightarrow> (io_fixed io \<longrightarrow> (k + m) * bs \<le> length (io_dst io)) \<longrightarrow>
        (\<exists>io' w'. write_chunks z bs (length cs) (k, w) io = (Inr (k + m, w'), io') \<and> io_src io' = rest \<and>
           io_fixed io' = io_fixed io \<and> (io_fixed io \<longrightarrow> length (io_dst io') = length (io_dst io)) \<and>
           (\<forall>i. byte_at (io_dst io') i =
              (if k * bs \<le> i \<and> i < (k + m) * bs \<and> W (i div bs) then g i else byte_at (io_dst io) i))))"

lemma plays_run:
  assumes "plays z bs W g cs k m" and "io_src io = concat cs @ rest" and "io_fixed io \<longrightarrow> (k + m) * bs \<le> length (io_dst io)"
  shows "\<exists>io' w'. write_chunks z bs (length cs) (k, w) io = (Inr (k + m, w'), io') \<and> io_src io' = rest \<and>
    io_fixed io' = io_fixed io \<and> (io_fixed io \<longrightarrow> length (io_dst io') = length (io_dst io)) \<and>
    (\<forall>i. byte_at (io_dst io') i =
      (if k * bs \<le> i \<and> i < (k + m) * bs \<and> W (i div bs) then g i else byte_at (io_dst io) i))"
  using assms unfolding plays_def by blast

lemma write_chunks_add:
  "write_chunks z bs (a + b) bw io = andthen (write_chunks z bs a bw) (write_chunks z bs b) io"
proof (induction a arbitrary: bw io)
  case 0
  then show ?case by (simp add: andthen_def ret_def)
next
  case (Suc a)
  show ?case
    by (cases "write_chunk z bs bw io"; cases "fst (write_chunk z bs bw io)") (auto simp: andthen_def Suc)
qed

lemma plays_Nil: "plays z bs W g [] k 0"
  by (auto simp: plays_def ret_def)

lemma plays_append:
  assumes "plays z bs W g cs k m" and "plays z bs W g ds (k + m) n"
  shows "plays z bs W g (cs @ ds) k (m + n)"
  unfolding plays_def
proof (intro allI impI)
  fix io :: simg_io and rest w
  assume src: "io_src io = concat (cs @ ds) @ rest" and fits: "io_fixed io \<longrightarrow> (k + (m + n)) * bs \<le> length (io_dst io)"
  have "(k + m) * bs \<le> (k + (m + n)) * bs" by simp
  then have "io_fixed io \<longrightarrow> (k + m) * bs \<le> length (io_dst io)" using fits by (meson le_trans)
  then obtain io1 w1 where 1: "write_chunks z bs (length cs) (k, w) io = (Inr (k + m, w1), io1)"
    "io_src io1 = concat ds @ rest" "io_fixed io1 = io_fixed io" "io_fixed io \<longrightarrow> length (io_dst io1) = length (io_dst io)"
    "\<And>i. byte_at (io_dst io1) i =
       (if k * bs \<le> i \<and> i < (k + m) * bs \<and> W (i div bs) then g i else byte_at (io_dst io) i)"
    using assms(1) src unfolding plays_def by (metis append.assoc concat_append)
  have "io_fixed io1 \<longrightarrow> (k + m + n) * bs \<le> length (io_dst io1)" using fits 1(3,4) by (simp add: add.assoc)
  then obtain io2 w2 where 2: "write_chunks z bs (length ds) (k + m, w1) io1 = (Inr (k + m + n, w2), io2)"
    "io_src io2 = rest" "io_fixed io2 = io_fixed io1" "io_fixed io1 \<longrightarrow> length (io_dst io2) = length (io_dst io1)"
    "\<And>i. byte_at (io_dst io2) i =
       (if (k + m) * bs \<le> i \<and> i < (k + m + n) * bs \<and> W (i div bs) then g i else byte_at (io_dst io1) i)"
    using assms(2) 1(2) unfolding plays_def by metis
  have "write_chunks z bs (length (cs @ ds)) (k, w) io = (Inr (k + (m + n), w2), io2)"
    using 2(1) unfolding length_append write_chunks_add by (simp add: andthen_def 1(1) add.assoc)
  moreover have "byte_at (io_dst io2) i =
      (if k * bs \<le> i \<and> i < (k + (m + n)) * bs \<and> W (i div bs) then g i else byte_at (io_dst io) i)" for i
  proof -
    define A B C where "A = k * bs" and "B = (k + m) * bs" and "C = (k + m + n) * bs"
    have "A \<le> B" "B \<le> C" by (simp_all add: A_def B_def C_def)
    then show ?thesis
      using 1(5) [of i] 2(5) [of i] unfolding add.assoc [symmetric] A_def [symmetric] B_def [symmetric] C_def [symmetric]
      by auto
  qed
  ultimately show "\<exists>io' w'. write_chunks z bs (length (cs @ ds)) (k, w) io = (Inr (k + (m + n), w'), io') \<and> io_src io' = rest \<and>
      io_fixed io' = io_fixed io \<and> (io_fixed io \<longrightarrow> length (io_dst io') = length (io_dst io)) \<and>
      (\<forall>i. byte_at (io_dst io') i =
         (if k * bs \<le> i \<and> i < (k + (m + n)) * bs \<and> W (i div bs) then g i else byte_at (io_dst io) i))"
    using 1(3,4) 2(2-4) by (intro exI [of _ io2] exI [of _ w2] conjI allI) simp_all
qed

text \<open>A single chunk: its header, then its effect.\<close>

lemma chunk_header:
  assumes "pack_fields (chunk_fields kind n tot) = Inr h" and "io_src io = h @ rest"
  shows "write_chunk z bs bw io =
    andthen
      (if kind = type_raw then write_raw_chunk n tot (fst bw * bs) bs
       else if kind = type_fill then write_fill_chunk n tot (fst bw * bs) bs
       else if kind = type_dont_care then write_dont_care_chunk n tot (fst bw * bs) bs z
       else raise_exn Value_Error)
      (\<lambda>written. ret (fst bw + n, snd bw + written)) (io\<lparr>io_src := rest\<rparr>)"
proof -
  have len: "length h = 12" using length_packed [OF assms(1)] by (simp add: chunk_fields_def)
  have "unpack_fields [2, 2, 4, 4] h = [kind, 0, n, tot]"
    using unpack_packed [OF assms(1), of "[]"] by (simp add: chunk_fields_def)
  then show ?thesis
    unfolding write_chunk_def andthen_def [of "src_read 12"] src_read_append [OF assms(2) len] by (simp add: len)
qed

lemma plays_single:
  assumes "\<And>io rest w. io_src io = c @ rest \<Longrightarrow> (io_fixed io \<Longrightarrow> (k + m) * bs \<le> length (io_dst io)) \<Longrightarrow>
    \<exists>data w'. write_chunk z bs (k, w) io =
        (Inr (k + m, w'), io\<lparr>io_src := rest, io_dst := write_at (k * bs) data (io_dst io)\<rparr>) \<and>
      (data = [] \<and> (\<forall>j. k \<le> j \<longrightarrow> j < k + m \<longrightarrow> \<not> W j) \<or>
       length data = m * bs \<and> (\<forall>j. k \<le> j \<longrightarrow> j < k + m \<longrightarrow> W j) \<and> (\<forall>i < m * bs. data ! i = g (k * bs + i)))"
    and "0 < bs"
  shows "plays z bs W g [c] k m"
  unfolding plays_def
proof (intro allI impI)
  fix io :: simg_io and rest w
  assume src: "io_src io = concat [c] @ rest" and fits: "io_fixed io \<longrightarrow> (k + m) * bs \<le> length (io_dst io)"
  then obtain data w' where d: "write_chunk z bs (k, w) io =
      (Inr (k + m, w'), io\<lparr>io_src := rest, io_dst := write_at (k * bs) data (io_dst io)\<rparr>)"
    and cases: "data = [] \<and> (\<forall>j. k \<le> j \<longrightarrow> j < k + m \<longrightarrow> \<not> W j) \<or>
       length data = m * bs \<and> (\<forall>j. k \<le> j \<longrightarrow> j < k + m \<longrightarrow> W j) \<and> (\<forall>i < m * bs. data ! i = g (k * bs + i))"
    using assms(1) [of io rest w] by auto
  define io' where "io' = io\<lparr>io_src := rest, io_dst := write_at (k * bs) data (io_dst io)\<rparr>"
  have run: "write_chunks z bs (length [c]) (k, w) io = (Inr (k + m, w'), io')"
    using d by (simp add: andthen_def ret_def io'_def)
  have block: "k * bs \<le> i \<and> i < (k + m) * bs \<longleftrightarrow> k \<le> i div bs \<and> i div bs < k + m" for i
    using assms(2) by (simp add: less_eq_div_iff_mult_less_eq div_less_iff_less_mult)
  have bytes: "byte_at (io_dst io') i =
      (if k * bs \<le> i \<and> i < (k + m) * bs \<and> W (i div bs) then g i else byte_at (io_dst io) i)" for i
  proof -
    have "data ! (i - k * bs) = g i" if "k * bs \<le> i" "i < k * bs + m * bs" "length data = m * bs"
      "\<forall>i < m * bs. data ! i = g (k * bs + i)"
    proof -
      have "i - k * bs < m * bs" using that by simp
      then have "data ! (i - k * bs) = g (k * bs + (i - k * bs))" using that(4) by blast
      then show ?thesis using that(1) by simp
    qed
    then show ?thesis using cases block [of i] by (auto simp: io'_def add_mult_distrib)
  qed
  have "length (io_dst io') = length (io_dst io)" if "io_fixed io"
    using cases fits that by (auto simp: io'_def add_mult_distrib)
  then show "\<exists>io' w'. write_chunks z bs (length [c]) (k, w) io = (Inr (k + m, w'), io') \<and> io_src io' = rest \<and>
      io_fixed io' = io_fixed io \<and> (io_fixed io \<longrightarrow> length (io_dst io') = length (io_dst io)) \<and>
      (\<forall>i. byte_at (io_dst io') i =
         (if k * bs \<le> i \<and> i < (k + m) * bs \<and> W (i div bs) then g i else byte_at (io_dst io) i))"
    using run bytes by (intro exI [of _ io'] exI [of _ w']) (simp add: io'_def)
qed

lemma plays_raw:
  assumes "pack_fields (chunk_fields type_raw n (12 + length data)) = Inr h" and "length data = n * bs"
    and "\<forall>i < n * bs. data ! i = g (k * bs + i)" and "\<forall>j. k \<le> j \<longrightarrow> j < k + n \<longrightarrow> W j" and "0 < bs"
  shows "plays z bs W g [h @ data] k n"
proof (rule plays_single [OF _ assms(5)])
  fix io :: simg_io and rest w
  assume src: "io_src io = (h @ data) @ rest" and fits: "io_fixed io \<Longrightarrow> (k + n) * bs \<le> length (io_dst io)"
  have "copy_raw (k * bs) (length data) (io\<lparr>io_src := data @ rest\<rparr>) =
      (Inr (), io\<lparr>io_src := rest, io_dst := write_at (k * bs) data (io_dst io)\<rparr>)"
    using fits assms(2) by (subst copy_raw_result) (auto simp: add_mult_distrib)
  then have "write_chunk z bs (k, w) io =
      (Inr (k + n, w + n * bs), io\<lparr>io_src := rest, io_dst := write_at (k * bs) data (io_dst io)\<rparr>)"
    using src assms(2) by (subst chunk_header [OF assms(1), of _ "data @ rest"]) (simp_all add: write_raw_chunk_def seq_def andthen_def ret_def)
  then show "\<exists>data w'. write_chunk z bs (k, w) io =
        (Inr (k + n, w'), io\<lparr>io_src := rest, io_dst := write_at (k * bs) data (io_dst io)\<rparr>) \<and>
      (data = [] \<and> (\<forall>j. k \<le> j \<longrightarrow> j < k + n \<longrightarrow> \<not> W j) \<or>
       length data = n * bs \<and> (\<forall>j. k \<le> j \<longrightarrow> j < k + n \<longrightarrow> W j) \<and> (\<forall>i < n * bs. data ! i = g (k * bs + i)))"
    using assms(2-4) by blast
qed

lemma write_zero_blocks:
  assumes "bs mod 4 = 0" and "io_fixed io \<Longrightarrow> (k + n) * bs \<le> length (io_dst io)"
  shows "write_blocks (k * bs) (fill_block 0 bs) n io =
    (Inr (), io\<lparr>io_dst := write_at (k * bs) (replicate (n * bs) 0) (io_dst io)\<rparr>)"
  using assms by (subst write_blocks_result) (simp_all add: fill_block_zero concat_replicate_zero add_mult_distrib)

lemma plays_fill:
  assumes "pack_fields (chunk_fields type_fill n 16) = Inr h" and "pack_fields [(4, 0)] = Inr v"
    and "\<forall>i < n * bs. g (k * bs + i) = 0" and "\<forall>j. k \<le> j \<longrightarrow> j < k + n \<longrightarrow> W j" and "0 < bs" and "bs mod 4 = 0"
  shows "plays z bs W g [h @ v] k n"
proof (rule plays_single [OF _ assms(5)])
  fix io :: simg_io and rest w
  assume src: "io_src io = (h @ v) @ rest" and fits: "io_fixed io \<Longrightarrow> (k + n) * bs \<le> length (io_dst io)"
  have v: "v = le_bytes 4 0" using assms(2) by (simp add: pack_fields_Inr)
  have "write_blocks (k * bs) (fill_block 0 bs) n (io\<lparr>io_src := rest\<rparr>) =
      (Inr (), io\<lparr>io_src := rest, io_dst := write_at (k * bs) (replicate (n * bs) 0) (io_dst io)\<rparr>)"
    using fits by (subst write_zero_blocks [OF assms(6)]) simp_all
  moreover have "src_read 4 (io\<lparr>io_src := v @ rest\<rparr>) = (Inr v, io\<lparr>io_src := rest\<rparr>)"
    by (subst src_read_append) (simp_all add: v)
  ultimately have "write_chunk z bs (k, w) io =
      (Inr (k + n, w + n * bs), io\<lparr>io_src := rest, io_dst := write_at (k * bs) (replicate (n * bs) 0) (io_dst io)\<rparr>)"
    using src by (subst chunk_header [OF assms(1), of _ "v @ rest"])
      (simp_all add: write_fill_chunk_def seq_def andthen_def ret_def v le_val_bytes type_raw_def type_fill_def)
  then show "\<exists>data w'. write_chunk z bs (k, w) io =
        (Inr (k + n, w'), io\<lparr>io_src := rest, io_dst := write_at (k * bs) data (io_dst io)\<rparr>) \<and>
      (data = [] \<and> (\<forall>j. k \<le> j \<longrightarrow> j < k + n \<longrightarrow> \<not> W j) \<or>
       length data = n * bs \<and> (\<forall>j. k \<le> j \<longrightarrow> j < k + n \<longrightarrow> W j) \<and> (\<forall>i < n * bs. data ! i = g (k * bs + i)))"
    using assms(3,4) by (intro exI [of _ "replicate (n * bs) 0"] exI [of _ "w + n * bs"]) simp
qed

lemma plays_hole:
  assumes "pack_fields (chunk_fields type_dont_care n 12) = Inr h"
    and "\<forall>i < n * bs. g (k * bs + i) = 0" and "\<forall>j. k \<le> j \<longrightarrow> j < k + n \<longrightarrow> W j = z" and "0 < bs" and "bs mod 4 = 0"
  shows "plays z bs W g [h] k n"
proof (rule plays_single [OF _ assms(4)])
  fix io :: simg_io and rest w
  assume src: "io_src io = h @ rest" and fits: "io_fixed io \<Longrightarrow> (k + n) * bs \<le> length (io_dst io)"
  define data where "data = (if z then replicate (n * bs) 0 else [] :: byte list)"
  have "write_blocks (k * bs) (fill_block 0 bs) n (io\<lparr>io_src := rest\<rparr>) =
      (Inr (), io\<lparr>io_src := rest, io_dst := write_at (k * bs) (replicate (n * bs) 0) (io_dst io)\<rparr>)"
    using fits by (subst write_zero_blocks [OF assms(5)]) simp_all
  then have "write_chunk z bs (k, w) io = (Inr (k + n, w + (if z then n * bs else 0)),
      io\<lparr>io_src := rest, io_dst := write_at (k * bs) data (io_dst io)\<rparr>)"
    using src by (subst chunk_header [OF assms(1), of _ rest])
      (simp_all add: write_dont_care_chunk_def seq_def andthen_def ret_def data_def type_raw_def type_fill_def
        type_dont_care_def write_at_def)
  then show "\<exists>data w'. write_chunk z bs (k, w) io =
        (Inr (k + n, w'), io\<lparr>io_src := rest, io_dst := write_at (k * bs) data (io_dst io)\<rparr>) \<and>
      (data = [] \<and> (\<forall>j. k \<le> j \<longrightarrow> j < k + n \<longrightarrow> \<not> W j) \<or>
       length data = n * bs \<and> (\<forall>j. k \<le> j \<longrightarrow> j < k + n \<longrightarrow> W j) \<and> (\<forall>i < n * bs. data ! i = g (k * bs + i)))"
    using assms(2,3)
    by (intro exI [of _ data] exI [of _ "w + (if z then n * bs else 0)"]) (auto simp: data_def)
qed

section \<open>Buffers and runs\<close>

lemma zero_block:
  assumes "is_all_zeros (nth_block bs buf j)" and "j * bs \<le> y" and "y < j * bs + bs" and "y < length buf"
  shows "buf ! y = 0"
proof -
  have "y - j * bs < length (nth_block bs buf j)" using assms(2-4) unfolding nth_block_def length_take length_drop by linarith
  moreover have "y - j * bs < bs" using assms(2,3) by linarith
  then have "nth_block bs buf j ! (y - j * bs) = buf ! y" using assms(2,4) by (simp add: nth_block_def)
  ultimately show ?thesis using assms(1) unfolding is_all_zeros_def list_all_length by metis
qed

lemma in_block: "(i + x div bs) * bs + x mod bs = i * bs + (x :: nat)"
  by (simp add: add_mult_distrib)

lemma runs_play:
  assumes "tiles (\<lambda>j. is_all_zeros (nth_block bs buf j)) i m rs"
    and "res_mapM run_chunk (map (\<lambda>(is_zero, s, n). (is_zero, n, take (n * bs) (drop (s * bs) buf))) rs) = Inr cs"
    and "length buf = m * bs" and "\<forall>x < m * bs. buf ! x = g (k * bs + x)"
    and "\<forall>j. k \<le> j \<longrightarrow> j < k + m \<longrightarrow> W j" and "0 < bs" and "bs mod 4 = 0"
  shows "plays z bs W g cs (k + i) (m - i)"
  using assms(1,2)
proof (induction rs arbitrary: i cs)
  case Nil
  then show ?case by (simp add: plays_Nil)
next
  case (Cons r rs)
  obtain v s n where r: "r = (v, s, n)" by (cases r)
  from Cons.prems(1) r have s: "s = i" and n: "0 < n" "i + n \<le> m"
    and same: "\<And>j. i \<le> j \<Longrightarrow> j < i + n \<Longrightarrow> is_all_zeros (nth_block bs buf j) = v"
    and tl: "tiles (\<lambda>j. is_all_zeros (nth_block bs buf j)) (i + n) m rs" by auto
  define data where "data = take (n * bs) (drop (i * bs) buf)"
  obtain c cs' where cs: "cs = c # cs'" and c: "run_chunk (v, n, data) = Inr c"
    and cs': "res_mapM run_chunk (map (\<lambda>(is_zero, s, n). (is_zero, n, take (n * bs) (drop (s * bs) buf))) rs) = Inr cs'"
    using Cons.prems(2) r s by (auto simp: res_simps data_def)
  have le: "i * bs + n * bs \<le> m * bs" using n(2) by (metis add_mult_distrib mult_le_mono1)
  have len: "length data = n * bs" using le assms(3) by (simp add: data_def)
  have byte: "data ! x = g ((k + i) * bs + x)" if "x < n * bs" for x
  proof -
    have "i * bs + x < m * bs" using that le by linarith
    moreover from this have "buf ! (i * bs + x) = g (k * bs + (i * bs + x))" using assms(4) by blast
    moreover have "data ! x = buf ! (i * bs + x)" using that le assms(3) n(2) by (simp add: data_def)
    ultimately show ?thesis by (simp add: add_mult_distrib add.assoc)
  qed
  have W: "\<forall>j. k + i \<le> j \<longrightarrow> j < k + i + n \<longrightarrow> W j" using assms(5) n(2) by simp
  have "plays z bs W g [c] (k + i) n"
  proof (cases v)
    case True
    then obtain h w where hw: "pack_fields (chunk_fields type_fill n 16) = Inr h" "pack_fields [(4, 0)] = Inr w" "c = h @ w"
      using c by (auto simp: res_simps res_map_def split: sum.splits)
    have "g ((k + i) * bs + x) = 0" if "x < n * bs" for x
    proof -
      have "x div bs < n" using that assms(6) by (simp add: div_less_iff_less_mult)
      then have "is_all_zeros (nth_block bs buf (i + x div bs))" using same True by simp
      moreover have "i * bs + x < length buf" using that le assms(3) by linarith
      moreover have "(i + x div bs) * bs \<le> i * bs + x" "i * bs + x < (i + x div bs) * bs + bs"
        using in_block [of i x bs] mod_less_divisor [OF assms(6), of x] by linarith+
      ultimately have "buf ! (i * bs + x) = 0" by (intro zero_block)
      moreover have "data ! x = buf ! (i * bs + x)" using that le assms(3) n(2) by (simp add: data_def)
      ultimately show ?thesis using byte [OF that] by simp
    qed
    then show ?thesis unfolding hw(3) using plays_fill [OF hw(1,2) _ W assms(6,7)] by blast
  next
    case False
    then obtain h where "pack_fields (chunk_fields type_raw n (12 + length data)) = Inr h" "c = h @ data"
      using c by (auto simp: res_simps res_map_def)
    then show ?thesis using plays_raw [OF _ len _ W assms(6)] byte by blast
  qed
  moreover have "plays z bs W g cs' (k + i + n) (m - (i + n))" using Cons.IH [OF tl cs'] by (simp add: add.assoc)
  ultimately show ?case using plays_append [of z bs W g "[c]" "k + i" n cs' "m - (i + n)"] n(2) cs by simp
qed

lemma buffers_play:
  assumes "res_mapM (\<lambda>buf. res_mapM run_chunk (analyze_block_runs buf bs)) (data_buffers bytes bs start n) = Inr css"
    and "\<forall>j. start \<le> j \<longrightarrow> j < start + n \<longrightarrow> W j" and "0 < bs" and "bs mod 4 = 0"
  shows "plays z bs W (byte_at bytes) (concat css) start n"
  using assms
proof (induction bytes bs start n arbitrary: css rule: data_buffers.induct)
  case (1 bytes bs start n)
  show ?case
  proof (cases "n = 0")
    case True
    then show ?thesis using "1.prems"(1) by (subst (asm) data_buffers.simps) (simp add: plays_Nil)
  next
    case False
    define m where "m = min read_chunk_size n"
    define d where "d = take (m * bs) (drop (start * bs) bytes)"
    define buf where "buf = d @ replicate (m * bs - length d) 0"
    have m: "m \<le> n" by (simp add: m_def)
    have "data_buffers bytes bs start n = buf # data_buffers bytes bs (start + m) (n - m)"
      using False by (subst data_buffers.simps) (simp add: m_def d_def buf_def Let_def)
    then obtain cs css' where css: "css = cs # css'" and cs: "res_mapM run_chunk (analyze_block_runs buf bs) = Inr cs"
      and rest: "res_mapM (\<lambda>buf. res_mapM run_chunk (analyze_block_runs buf bs)) (data_buffers bytes bs (start + m) (n - m)) = Inr css'"
      using "1.prems"(1) by (auto simp: res_simps)
    have len: "length buf = m * bs" by (simp add: buf_def d_def)
    have byte: "\<forall>x < m * bs. buf ! x = byte_at bytes (start * bs + x)"
      by (auto simp: buf_def d_def byte_at_def nth_append)
    have "length buf div bs = m" using len "1.prems"(3) by simp
    then have "plays z bs W (byte_at bytes) cs (start + 0) (m - 0)"
      using runs_play [OF block_runs_tile [OF le0] _ len byte _ "1.prems"(3,4), of cs W z] cs "1.prems"(2) m
      unfolding analyze_block_runs_def by simp
    moreover have "plays z bs W (byte_at bytes) (concat css') (start + m) (n - m)"
      by (rule "1.IH" [OF _ m_def d_def rest]) (use False "1.prems"(2-4) m in auto)
    ultimately show ?thesis
      using plays_append [of z bs W "byte_at bytes" cs start m "concat css'" "n - m"] m css by simp
  qed
qed

section \<open>Round trip\<close>

lemma block_hole:
  assumes "wf_sfile f" and "\<not> block_has_data f bs j" and "j * bs \<le> y" and "y < j * bs + bs"
  shows "byte_at (sf_bytes f) y = 0"
proof (rule hole_byte [OF assms(1)])
  show "\<not> is_data f y"
  proof
    assume y: "is_data f y"
    then have size: "y < file_size f" by (rule sf.data_size)
    obtain off where "seek_data f (j * bs) = Some off" using sf.sdata_None [of f "j * bs" y] y assms(3) by (cases "seek_data f (j * bs)") auto
    moreover from this have "off \<le> y" using sf.sdata_Some [of f "j * bs" off] y assms(3) not_le by blast
    ultimately show False using assms(2-4) size by (simp add: block_has_data_def Let_def)
  qed
qed

lemma kinds_play:
  assumes "tiles (block_has_data f bs) i tot rs" and "res_mapM (kind_chunks f bs) rs = Inr css"
    and "wf_sfile f" and "0 < bs" and "bs mod 4 = 0"
  shows "plays z bs (\<lambda>j. z \<or> block_has_data f bs j) (byte_at (sf_bytes f)) (concat css) i (tot - i)"
  using assms(1,2)
proof (induction rs arbitrary: i css)
  case Nil
  then show ?case by (simp add: plays_Nil)
next
  case (Cons r rs)
  let ?W = "\<lambda>j. z \<or> block_has_data f bs j"
  obtain v s n where r: "r = (v, s, n)" by (cases r)
  from Cons.prems(1) r have s: "s = i" and n: "0 < n" "i + n \<le> tot"
    and same: "\<And>j. i \<le> j \<Longrightarrow> j < i + n \<Longrightarrow> block_has_data f bs j = v"
    and tl: "tiles (block_has_data f bs) (i + n) tot rs" by auto
  obtain cs css' where css: "css = cs # css'" and cs: "kind_chunks f bs (v, i, n) = Inr cs"
    and rest: "res_mapM (kind_chunks f bs) rs = Inr css'"
    using Cons.prems(2) r s by (auto simp: res_simps)
  have "plays z bs ?W (byte_at (sf_bytes f)) cs i n"
  proof (cases v)
    case True
    then obtain bss where "cs = concat bss"
      and "res_mapM (\<lambda>buf. res_mapM run_chunk (analyze_block_runs buf bs)) (data_buffers (sf_bytes f) bs i n) = Inr bss"
      using cs by (cases "res_mapM (\<lambda>buf. res_mapM run_chunk (analyze_block_runs buf bs)) (data_buffers (sf_bytes f) bs i n)") auto
    moreover have "\<forall>j. i \<le> j \<longrightarrow> j < i + n \<longrightarrow> ?W j" using same True by simp
    ultimately show ?thesis using buffers_play [OF _ _ assms(4,5)] by simp
  next
    case False
    then obtain h where h: "pack_fields (chunk_fields type_dont_care n 12) = Inr h" "cs = [h]"
      using cs by (cases "pack_fields (chunk_fields type_dont_care n 12)") simp_all
    have zero: "byte_at (sf_bytes f) (i * bs + x) = 0" if "x < n * bs" for x
    proof (rule block_hole [OF assms(3)])
      have "x div bs < n" using that assms(4) by (simp add: div_less_iff_less_mult)
      then show "\<not> block_has_data f bs (i + x div bs)" using same False by simp
      show "(i + x div bs) * bs \<le> i * bs + x" "i * bs + x < (i + x div bs) * bs + bs"
        using in_block [of i x bs] mod_less_divisor [OF assms(4), of x] by linarith+
    qed
    have W: "\<forall>j. i \<le> j \<longrightarrow> j < i + n \<longrightarrow> ?W j = z" using same False by simp
    show ?thesis unfolding h(2) by (intro plays_hole [OF h(1) _ W assms(4,5)] allI impI zero)
  qed
  moreover have "plays z bs ?W (byte_at (sf_bytes f)) (concat css') (i + n) (tot - (i + n))" by (rule Cons.IH [OF tl rest])
  ultimately show ?case
    using plays_append [of z bs ?W "byte_at (sf_bytes f)" cs i n "concat css'" "tot - (i + n)"] n(2) css by simp
qed

lemma convert_Inr:
  assumes "convert_to_simg f bs = Inr img"
  obtains chunks header where "1024 \<le> bs" "bs mod 4 = 0" "simg_chunks f bs = Inr chunks"
    "pack_fields (header_fields bs (total_blocks_of f bs) (length chunks)) = Inr header" "img = header @ concat chunks"
proof -
  obtain p chunks header where h: "\<not> bs < 1024" "bs mod 4 = 0" "simg_chunks f bs = Inr chunks"
    "pack_fields (header_fields bs (total_blocks_of f bs) 0) = Inr p"
    "pack_fields (header_fields bs (total_blocks_of f bs) (length chunks)) = Inr header"
    "img = header @ drop (length header) (p @ concat chunks)"
    using assms by (auto simp: convert_to_simg_def Let_def res_simps res_map_def split: if_splits)
  moreover have "length header = length p"
    using length_packed [OF h(4)] length_packed [OF h(5)] by (simp add: header_fields_def)
  ultimately show thesis using that by simp
qed

lemma parse_header:
  assumes "pack_fields (header_fields bs n k) = Inr h" and "io_src io = h @ rest"
  shows "parse_simg_header io =
    (Inr \<lparr>sh_block_size = bs, sh_total_blocks = n, sh_total_chunks = k\<rparr>, io\<lparr>io_src := rest\<rparr>)"
proof -
  have len: "length h = 28" using length_packed [OF assms(1)] by (simp add: header_fields_def)
  have "unpack_fields [4, 2, 2, 2, 2, 4, 4, 4, 4] h = [sparse_magic, 1, 0, 28, 12, bs, n, k, 0]"
    using unpack_packed [OF assms(1), of "[]"] by (simp add: header_fields_def)
  then show ?thesis
    unfolding parse_simg_header_def andthen_def src_read_append [OF assms(2) len] by (simp add: len ret_def)
qed

lemma blocks_cover: "0 < bs \<Longrightarrow> file_size f \<le> total_blocks_of f bs * bs"
  using roundup_ge [of bs "file_size f"] by (simp add: total_blocks_of_def roundup_def)

text \<open>The output after writing out an image, byte by byte.\<close>

definition flashed :: "sfile \<Rightarrow> nat \<Rightarrow> bool \<Rightarrow> byte list \<Rightarrow> nat \<Rightarrow> byte" where
  "flashed f bs z old i =
     (if i < total_blocks_of f bs * bs \<and> (z \<or> block_has_data f bs (i div bs)) then byte_at (sf_bytes f) i else byte_at old i)"

lemma write_body_result:
  assumes "convert_to_simg f bs = Inr img" and "wf_sfile f" and "io_src io = img"
    and "io_fixed io \<Longrightarrow> total_blocks_of f bs * bs \<le> length (io_dst io)"
  shows "\<exists>w io'. write_body z io = (Inr w, io') \<and>
    length (io_dst io') = (if io_fixed io then length (io_dst io) else total_blocks_of f bs * bs) \<and>
    (\<forall>i < length (io_dst io'). byte_at (io_dst io') i = flashed f bs z (io_dst io) i)"
proof -
  define tot where "tot = total_blocks_of f bs"
  obtain chunks header where bs: "1024 \<le> bs" "bs mod 4 = 0" and ch: "simg_chunks f bs = Inr chunks"
    and hd: "pack_fields (header_fields bs tot (length chunks)) = Inr header" and img: "img = header @ concat chunks"
    using assms(1) unfolding tot_def by (rule convert_Inr)
  obtain css where css: "chunks = concat css" "res_mapM (kind_chunks f bs) (block_runs (block_has_data f bs) tot 0) = Inr css"
    using ch by (auto simp: simg_chunks_def res_map_def tot_def res_simps)
  have pl: "plays z bs (\<lambda>j. z \<or> block_has_data f bs j) (byte_at (sf_bytes f)) chunks 0 (tot - 0)"
    unfolding css(1) by (rule kinds_play [OF block_runs_tile css(2) assms(2)]) (use bs in auto)
  define io1 where "io1 = io\<lparr>io_src := concat chunks\<rparr>"
  have "io_src io1 = concat chunks @ []" "io_fixed io1 \<longrightarrow> (0 + (tot - 0)) * bs \<le> length (io_dst io1)"
    using assms(4) by (simp_all add: io1_def tot_def)
  from plays_run [OF pl this, of 0] obtain io2 w where raw: "write_chunks z bs (length chunks) (0, 0) io1 = (Inr (0 + (tot - 0), w), io2)"
    "io_fixed io2 = io_fixed io1" "io_fixed io1 \<longrightarrow> length (io_dst io2) = length (io_dst io1)"
    "\<forall>i. byte_at (io_dst io2) i =
       (if 0 * bs \<le> i \<and> i < (0 + (tot - 0)) * bs \<and> (z \<or> block_has_data f bs (i div bs))
        then byte_at (sf_bytes f) i else byte_at (io_dst io1) i)"
    by blast
  have d: "io_dst io1 = io_dst io" "io_fixed io1 = io_fixed io" by (simp_all add: io1_def)
  note 2 = raw [unfolded d, simplified]
  have small: "\<not> (io_fixed io1 \<and> length (io_dst io1) < tot * bs)" using assms(4) by (auto simp: io1_def tot_def)
  have "parse_simg_header io =
      (Inr \<lparr>sh_block_size = bs, sh_total_blocks = tot, sh_total_chunks = length chunks\<rparr>, io1)"
    unfolding io1_def by (rule parse_header [OF hd]) (simp add: assms(3) img)
  then have "write_body z io = (Inr w, if io_fixed io2 then io2 else io2\<lparr>io_dst := resize (tot * bs) (io_dst io2)\<rparr>)"
    using small 2(1) by (auto simp: write_body_def andthen_def seq_def ask_def ret_def update_world_def)
  then show ?thesis using 2(2-4) by (auto simp: flashed_def tot_def)
qed

text \<open>Conversion succeeds when the numbers of blocks and bytes fit their fields.\<close>

lemma res_mapM_ex: "(\<And>x. x \<in> set xs \<Longrightarrow> \<exists>y. f x = Inr y) \<Longrightarrow> \<exists>ys. res_mapM f xs = Inr ys"
proof (induction xs)
  case Nil
  then show ?case by simp
next
  case (Cons x xs)
  obtain y where "f x = Inr y" using Cons.prems [of x] by auto
  moreover obtain ys where "res_mapM f xs = Inr ys" using Cons by auto
  ultimately show ?case by simp
qed

lemma tiles_length: "tiles P i m rs \<Longrightarrow> i + length rs \<le> m"
  by (induction P i m rs rule: tiles.induct) auto

lemma tiles_sizes: "tiles P i m rs \<Longrightarrow> (v, s, n) \<in> set rs \<Longrightarrow> s + n \<le> m"
  by (induction P i m rs rule: tiles.induct) (auto dest: tiles_length)

lemma run_chunks_total:
  assumes "length buf = m * bs" and "12 + m * bs < 2 ^ 32" and "m < 2 ^ 32" and "0 < bs"
  shows "\<exists>cs. res_mapM run_chunk (analyze_block_runs buf bs) = Inr cs \<and> length cs \<le> m"
proof -
  let ?P = "\<lambda>i. is_all_zeros (nth_block bs buf i)"
  have m: "length buf div bs = m" using assms(1,4) by simp
  have tl: "tiles ?P 0 m (block_runs ?P m 0)" by (rule block_runs_tile) simp
  have each: "\<exists>y. run_chunk x = Inr y" if mem: "x \<in> set (analyze_block_runs buf bs)" for x
  proof -
    obtain v s n where x: "x = (v, n, take (n * bs) (drop (s * bs) buf))" "(v, s, n) \<in> set (block_runs ?P m 0)"
      using mem unfolding analyze_block_runs_def m by auto
    have "n < 2 ^ 32" using tiles_sizes [OF tl x(2)] assms(3) by linarith
    moreover have "length (take (n * bs) (drop (s * bs) buf)) \<le> m * bs" using assms(1) by simp
    ultimately show ?thesis
      using assms(2) unfolding x(1)
      by (simp add: pack_fields_def pack_field_def chunk_fields_def type_raw_def type_fill_def)
  qed
  obtain cs where cs: "res_mapM run_chunk (analyze_block_runs buf bs) = Inr cs"
    using res_mapM_ex [of "analyze_block_runs buf bs" run_chunk] each by blast
  moreover have "length cs \<le> m"
    using res_mapM_Inr_length [OF cs] tiles_length [OF tl] by (simp add: analyze_block_runs_def m)
  ultimately show ?thesis by blast
qed

lemma buffers_total:
  assumes "12 + read_chunk_size * bs < 2 ^ 32" and "n < 2 ^ 32" and "0 < bs"
  shows "\<exists>css. res_mapM (\<lambda>buf. res_mapM run_chunk (analyze_block_runs buf bs)) (data_buffers bytes bs start n) = Inr css \<and>
    length (concat css) \<le> n"
  using assms
proof (induction bytes bs start n rule: data_buffers.induct)
  case (1 bytes bs start n)
  show ?case
  proof (cases "n = 0")
    case True
    then show ?thesis by (subst data_buffers.simps) simp
  next
    case False
    define m where "m = min read_chunk_size n"
    define d where "d = take (m * bs) (drop (start * bs) bytes)"
    define buf where "buf = d @ replicate (m * bs - length d) 0"
    have m: "m \<le> n" "m \<le> read_chunk_size" by (simp_all add: m_def)
    have eq: "data_buffers bytes bs start n = buf # data_buffers bytes bs (start + m) (n - m)"
      using False by (subst data_buffers.simps) (simp add: m_def d_def buf_def Let_def)
    have "m * bs \<le> read_chunk_size * bs" using m(2) by simp
    then have "12 + m * bs < 2 ^ 32" using "1.prems"(1) by linarith
    moreover have "length buf = m * bs" by (simp add: buf_def d_def)
    ultimately obtain cs where "res_mapM run_chunk (analyze_block_runs buf bs) = Inr cs" "length cs \<le> m"
      using run_chunks_total [of buf m bs] "1.prems"(2,3) m(1) by auto
    moreover have "n - m < 2 ^ 32" using "1.prems"(2) by linarith
    then obtain css where "res_mapM (\<lambda>buf. res_mapM run_chunk (analyze_block_runs buf bs)) (data_buffers bytes bs (start + m) (n - m)) = Inr css"
      "length (concat css) \<le> n - m"
      using "1.IH" [OF _ m_def d_def "1.prems"(1) _ "1.prems"(3)] False by blast
    ultimately show ?thesis unfolding eq using m(1) by simp
  qed
qed

lemma kinds_total:
  assumes "tiles P i tot rs" and "12 + read_chunk_size * bs < 2 ^ 32" and "tot < 2 ^ 32" and "0 < bs"
  shows "\<exists>css. res_mapM (kind_chunks f bs) rs = Inr css \<and> length (concat css) \<le> tot - i"
  using assms(1)
proof (induction rs arbitrary: i)
  case Nil
  then show ?case by simp
next
  case (Cons r rs)
  obtain v s n where r: "r = (v, s, n)" by (cases r)
  have n: "0 < n" "i + n \<le> tot" and tl: "tiles P (i + n) tot rs" using Cons.prems r by auto
  obtain css where css: "res_mapM (kind_chunks f bs) rs = Inr css" "length (concat css) \<le> tot - (i + n)"
    using Cons.IH [OF tl] by blast
  have n32: "n < 2 ^ 32" using n(2) assms(3) by linarith
  have "\<exists>cs. kind_chunks f bs (v, s, n) = Inr cs \<and> length cs \<le> n"
  proof (cases v)
    case True
    then show ?thesis using buffers_total [OF assms(2) n32 assms(4), of "sf_bytes f" s] by auto
  next
    case False
    then show ?thesis using n(1) n32 by (simp add: pack_fields_def pack_field_def chunk_fields_def type_dont_care_def)
  qed
  then show ?case using css n(2) r by auto
qed

lemma convert_succeeds:
  assumes "12 + read_chunk_size * bs < 2 ^ 32" and "total_blocks_of f bs < 2 ^ 32" and "1024 \<le> bs" and "bs mod 4 = 0"
  shows "\<exists>img. convert_to_simg f bs = Inr img"
proof -
  define tot where "tot = total_blocks_of f bs"
  obtain css where css: "res_mapM (kind_chunks f bs) (block_runs (block_has_data f bs) tot 0) = Inr css"
    "length (concat css) \<le> tot"
    using kinds_total [OF block_runs_tile [OF le0] assms(1), where tot = tot and f = f] assms(2,3)
    by (auto simp: tot_def)
  have fields: "\<exists>h. pack_fields (header_fields bs tot k) = Inr h" if "k \<le> tot" for k
  proof -
    have "bs < 2 ^ 32" using assms(1) by (simp add: read_chunk_size_def)
    moreover have "tot < 2 ^ 32" "k < 2 ^ 32" using assms(2) that by (simp_all add: tot_def)
    ultimately show ?thesis by (simp add: pack_fields_def pack_field_def header_fields_def sparse_magic_def)
  qed
  obtain p h where "pack_fields (header_fields bs tot 0) = Inr p"
    "pack_fields (header_fields bs tot (length (concat css))) = Inr h"
    using fields [OF le0] fields [OF css(2)] by blast
  then show ?thesis
    using assms(3,4) css(1) by (simp add: convert_to_simg_def simg_chunks_def tot_def Let_def not_less)
qed

text \<open>
  C16: Conversion to a sparse image raises \<open>ValueError\<close> for a block size below 1024 or not a multiple of
  four, and otherwise returns an image for every file, provided that 32768 blocks fit the 32 bit size of
  a chunk and the number of blocks fits 32 bits.
\<close>

theorem convert_total:
  assumes "12 + read_chunk_size * bs < 2 ^ 32" and "total_blocks_of f bs < 2 ^ 32"
  shows "if 1024 \<le> bs \<and> bs mod 4 = 0 then \<exists>img. convert_to_simg f bs = Inr img
    else convert_to_simg f bs = Inl Value_Error"
  using convert_succeeds [OF assms] by (auto simp: convert_to_simg_def)

text \<open>One byte of data in the second kilobyte of a file of two kilobytes and a byte.\<close>

definition late_byte :: sfile where
  "late_byte = \<lparr>sf_bytes = replicate 2048 0 @ [7], sf_data = replicate 2048 False @ [True]\<rparr>"

lemma late_byte_wf: "wf_sfile late_byte"
  by (simp add: wf_sfile_def late_byte_def list_all2_append) (simp add: list_all2_conv_all_nth)

lemma late_byte_blocks: "total_blocks_of late_byte 1024 = 3"
  by (simp add: late_byte_def total_blocks_of_def file_size_def)

lemma late_byte_converts: "\<exists>img. convert_to_simg late_byte 1024 = Inr img"
  by (rule convert_succeeds) (simp_all add: read_chunk_size_def late_byte_blocks)

theorem convert_total_witness: "\<exists>img. convert_to_simg late_byte 1024 = Inr img"
proof -
  have "12 + read_chunk_size * 1024 < 2 ^ 32" by (simp add: read_chunk_size_def)
  from convert_total [OF this, of late_byte] show ?thesis by (simp add: late_byte_blocks)
qed

text \<open>
  C15: Round trip through a file: what \<open>convert_to_simg\<close> wrote, \<open>write_simg\<close> turns back into the bytes of
  the original file, followed by zeros up to the next block boundary.
\<close>

theorem simg_file_roundtrip:
  assumes "convert_to_simg f bs = Inr img" and "wf_sfile f"
  shows "\<exists>w. write_simg img None z = (Inr w, sf_bytes f @ replicate (total_blocks_of f bs * bs - file_size f) 0)"
proof -
  define io where "io = \<lparr>io_src = img, io_dst = [] :: byte list, io_fixed = False\<rparr>"
  obtain w io' where r: "write_body z io = (Inr w, io')" and len: "length (io_dst io') = total_blocks_of f bs * bs"
    and bytes: "\<forall>i < length (io_dst io'). byte_at (io_dst io') i = flashed f bs z [] i"
    using write_body_result [OF assms, of io z] by (auto simp: io_def)
  obtain chunks header where bs: "1024 \<le> bs" using assms(1) by (rule convert_Inr)
  have "byte_at (sf_bytes f) i = 0" if "\<not> block_has_data f bs (i div bs)" for i
    by (rule block_hole [OF assms(2) that]) (use bs div_mult_mod_eq [of i bs] mod_less_divisor [of bs i] in linarith)+
  then have "flashed f bs z [] i = byte_at (sf_bytes f) i" if "i < total_blocks_of f bs * bs" for i
    using that by (simp add: flashed_def)
  then have "io_dst io' = resize (total_blocks_of f bs * bs) (sf_bytes f)"
    using len bytes by (intro resize_eqI) simp_all
  also have "\<dots> = sf_bytes f @ replicate (total_blocks_of f bs * bs - file_size f) 0"
    using blocks_cover [of bs f] bs assms(2) by (simp add: resize_def wf_sfile_def file_size_def)
  finally show ?thesis using r by (simp add: write_simg_def io_def)
qed

theorem simg_file_roundtrip_witness:
  "\<exists>img w. convert_to_simg late_byte 1024 = Inr img \<and>
    write_simg img None False = (Inr w, replicate 2048 0 @ [7] @ replicate 1023 0)"
proof -
  obtain img where img: "convert_to_simg late_byte 1024 = Inr img" using late_byte_converts by blast
  from simg_file_roundtrip [OF img late_byte_wf, of False] show ?thesis
    using img by (auto simp: late_byte_blocks file_size_def) (simp add: late_byte_def)
qed

text \<open>
  Writing to a block device: a device that is too small is left alone with an error; otherwise the
  blocks with data, and with \<open>--zero\<close> the holes too, get the bytes of the file, every other byte of the
  device, in the holes and behind the image, keeps its old value.
\<close>

theorem simg_device:
  assumes "convert_to_simg f bs = Inr img" and "wf_sfile f"
  shows "if length old < total_blocks_of f bs * bs then write_simg img (Some old) z = (Inl Value_Error, old)
    else \<exists>w new. write_simg img (Some old) z = (Inr w, new) \<and> length new = length old \<and>
      (\<forall>i < length old. new ! i =
        (if i < total_blocks_of f bs * bs \<and> (z \<or> block_has_data f bs (i div bs)) then byte_at (sf_bytes f) i else old ! i))"
proof (cases "length old < total_blocks_of f bs * bs")
  case True
  obtain chunks header where hd: "pack_fields (header_fields bs (total_blocks_of f bs) (length chunks)) = Inr header"
    and img: "img = header @ concat chunks" using assms(1) by (rule convert_Inr)
  have "parse_simg_header \<lparr>io_src = img, io_dst = old, io_fixed = True\<rparr> =
      (Inr \<lparr>sh_block_size = bs, sh_total_blocks = total_blocks_of f bs, sh_total_chunks = length chunks\<rparr>,
       \<lparr>io_src = concat chunks, io_dst = old, io_fixed = True\<rparr>)"
    using parse_header [OF hd, of "\<lparr>io_src = img, io_dst = old, io_fixed = True\<rparr>" "concat chunks"] img by simp
  then show ?thesis
    using True by (simp add: write_simg_def write_body_def andthen_def ask_def raise_exn_def)
next
  case False
  define io where "io = \<lparr>io_src = img, io_dst = old, io_fixed = True\<rparr>"
  obtain w io' where r: "write_body z io = (Inr w, io')" and len: "length (io_dst io') = length old"
    and bytes: "\<forall>i < length (io_dst io'). byte_at (io_dst io') i = flashed f bs z old i"
    using write_body_result [OF assms, of io z] False by (auto simp: io_def)
  then have "io_dst io' ! i = (if i < total_blocks_of f bs * bs \<and> (z \<or> block_has_data f bs (i div bs))
      then byte_at (sf_bytes f) i else old ! i)" if "i < length old" for i
    using that by (auto simp: byte_at_def flashed_def)
  then show ?thesis using False r len by (simp add: write_simg_def io_def)
qed

theorem simg_device_witness:
  "\<exists>img w new. convert_to_simg late_byte 1024 = Inr img \<and> write_simg img (Some (replicate 4096 9)) False = (Inr w, new) \<and>
    new ! 2048 = 7 \<and> new ! 3000 = 0 \<and> new ! 4000 = 9"
proof -
  obtain img where img: "convert_to_simg late_byte 1024 = Inr img" using late_byte_converts by blast
  have d: "seek_data late_byte 2048 = Some 2048" by (simp add: seek_data_def late_byte_def)
  obtain w new where w: "write_simg img (Some (replicate 4096 9)) False = (Inr w, new)"
    and new: "\<forall>i < 4096. new ! i = (if i < 3 * 1024 \<and> (False \<or> block_has_data late_byte 1024 (i div 1024))
      then byte_at (sf_bytes late_byte) i else replicate 4096 9 ! i)"
    using simg_device [OF img late_byte_wf, of "replicate 4096 9" False] by (auto simp: late_byte_blocks)
  have "block_has_data late_byte 1024 2" using d by (simp add: block_has_data_def Let_def file_size_def) (simp add: late_byte_def)
  then have "new ! 2048 = 7" "new ! 3000 = 0" "new ! 4000 = 9"
    using new by (simp_all add: byte_at_def late_byte_def nth_append)
  then show ?thesis using img w by blast
qed

end
