(* ===== verification/Host_Utils.thy ===== *)
theory Host_Utils
  imports Runner Os_Path Simg
begin

text \<open>
  The rest of \<open>src/aib/utils.py\<close>: comment headers, the compression of an initrd, mount points,
  temporary directories that may hold files of other users, and disk formats.
\<close>

section \<open>Comment headers\<close>

text \<open>The lines of the header, without the number sign; the first other line ends it.\<close>

fun header_lines :: "string list \<Rightarrow> string list" where
  "header_lines [] = []"
| "header_lines (line # rest) =
     (let l = py_strip line in if starts_with l ''#'' then tl l # header_lines rest else [])"

definition indent_of :: "string \<Rightarrow> nat option" where
  "indent_of line =
     (case dropWhile (\<lambda>c. c = CHR '' '') line of [] \<Rightarrow> None
      | _ \<Rightarrow> Some (length (takeWhile (\<lambda>c. c = CHR '' '') line)))"

definition min_indent :: "string list \<Rightarrow> nat option" where
  "min_indent ls =
     fold (\<lambda>line m. case indent_of line of None \<Rightarrow> m
            | Some i \<Rightarrow> (case m of None \<Rightarrow> Some i | Some j \<Rightarrow> Some (min i j))) ls None"

definition extract_comment_header :: "string list \<Rightarrow> string" where
  "extract_comment_header file =
     (let ls = header_lines file;
          unindented = (case min_indent ls of None \<Rightarrow> ls | Some n \<Rightarrow> map (drop n) ls)
      in py_join [CHR 0x0A] (rev (dropWhile (\<lambda>l. l = []) (rev unindented))))"

text \<open>\<open>osbuild_version.split()[-1].split(".")[0]\<close> as an integer; split() separates at whitespace.\<close>

fun split_words :: "string \<Rightarrow> string \<Rightarrow> string list" where
  "split_words acc [] = (if acc = [] then [] else [rev acc])"
| "split_words acc (c # cs) =
     (if is_space c then (if acc = [] then split_words [] cs else rev acc # split_words [] cs)
      else split_words (c # acc) cs)"

definition py_words :: "string \<Rightarrow> string list" where
  "py_words s = split_words [] s"

section \<open>Initrd compression\<close>

definition u32_le :: "byte list \<Rightarrow> int" where
  "u32_le b = (if length b \<ge> 4 then int (le_val (take 4 b)) else -1)"

definition has_magic :: "byte list \<Rightarrow> nat list \<Rightarrow> bool" where
  "has_magic head magic \<longleftrightarrow> prefix (map word_of_nat magic) head"

definition detect_initrd_compression :: "byte list \<Rightarrow> string" where
  "detect_initrd_compression content =
     (let head = take 16 content; magic32 = u32_le head
      in if magic32 = 0x184D2204 then ''lz4''
         else if magic32 = 0x184C2102 then ''lz4-legacy''
         else if 0x184D2A50 \<le> magic32 \<and> magic32 \<le> 0x184D2A5F then ''lz4-skippable''
         else if has_magic head [0x1f, 0x8b] then ''gzip''
         else if has_magic head [0xfd, 0x37, 0x7a, 0x58, 0x5a, 0x00] then ''xz''
         else if has_magic head [0x28, 0xb5, 0x2f, 0xfd] then ''zstd''
         else if has_magic head [0x42, 0x5a, 0x68] then ''bzip2''
         else if has_magic head [0x30, 0x37, 0x30, 0x37, 0x30, 0x31] \<or> has_magic head [0x30, 0x37, 0x30, 0x37, 0x30, 0x32] then ''cpio''
         else if has_magic head [0x89, 0x4c, 0x5a, 0x4f, 0x00, 0x0d, 0x0a, 0x1a, 0x0a] then ''lzo''
         else ''unknown'')"

definition initrd_compressor_for :: "string \<Rightarrow> string list res" where
  "initrd_compressor_for kind =
     (if kind = ''gzip'' then Inr [''gzip'', ''-c'']
      else if kind = ''xz'' then Inr [''xz'', ''-C'', ''crc32'', ''-z'', ''-c'']
      else if kind = ''zstd'' then Inr [''zstd'', ''-q'', ''-c'']
      else if kind = ''lz4'' then Inr [''lz4'', ''-9'', ''-c'']
      else if kind = ''lz4-legacy'' then Inr [''lz4'', ''-l'', ''-9'', ''-c'']
      else if kind = ''bzip2'' then Inr [''bzip2'', ''-c'']
      else if kind = ''cpio'' then Inr []
      else if kind = ''lzo'' then Inr [''lzop'', ''-c'']
      else Inl (Runtime_Error (''Unsupported/unknown compression: '' @ kind)))"

section \<open>Mount points\<close>

text \<open>\<open>get_current_mounts\<close>: None is a /proc/mounts that cannot be read.\<close>

definition mount_point_of :: "string \<Rightarrow> string option" where
  "mount_point_of line =
     (let parts = py_words line
      in if length parts \<ge> 2 then Some (py_replace [CHR 0x5C, CHR ''0'', CHR ''4'', CHR ''0''] '' '' (parts ! 1)) else None)"

definition get_current_mounts :: "string list option \<Rightarrow> string list" where
  "get_current_mounts proc_mounts =
     (case proc_mounts of None \<Rightarrow> [] | Some ls \<Rightarrow> List.map_filter mount_point_of ls)"

definition mounted_under :: "string \<Rightarrow> string \<Rightarrow> bool" where
  "mounted_under path mp \<longleftrightarrow> starts_with mp (path @ ''/'') \<or> mp = path"

text \<open>\<open>resolved\<close> is \<open>Path(path).resolve()\<close>, None a FileNotFoundError.\<close>

definition find_mountpoints_under :: "string option \<Rightarrow> string list option \<Rightarrow> string list" where
  "find_mountpoints_under resolved proc_mounts =
     (case resolved of
        None \<Rightarrow> []
      | Some path \<Rightarrow> rev (sort (filter (mounted_under path) (get_current_mounts proc_mounts))))"

section \<open>Temporary directories\<close>

record tmpdir =
  td_path :: string
  td_base :: string
  td_keep_once :: bool
  td_use_sudo :: bool
  td_closed :: bool

text \<open>What the file system answers, given the events so far.\<close>

record host_fs =
  hf_resolve :: "event list \<Rightarrow> string \<Rightarrow> string option"
  hf_is_dir :: "event list \<Rightarrow> string \<Rightarrow> bool"
  hf_mounts :: "event list \<Rightarrow> string list option"

definition detach :: "tmpdir \<Rightarrow> tmpdir" where
  "detach td = td\<lparr>td_keep_once := True\<rparr>"

definition is_safe_to_delete :: "string option \<Rightarrow> bool \<Rightarrow> string \<Rightarrow> bool" where
  "is_safe_to_delete resolved is_directory base =
     (case resolved of
        None \<Rightarrow> True
      | Some rp \<Rightarrow>
          if rp = ''/'' \<or> rp = [] then False
          else if \<not> is_directory then False
          else if \<not> prefix (path_parts base) (path_parts rp) then False
          else length rp > length base + 3)"

definition td_reap_prefix :: "privilege \<Rightarrow> tmpdir \<Rightarrow> string list" where
  "td_reap_prefix p td = (if td_use_sudo td then reap_prefix p else [])"

text \<open>A command whose failure is ignored.\<close>

definition try_run :: "os_env \<Rightarrow> string list \<Rightarrow> ('a run_world_scheme, unit) prog" where
  "try_run oe cmd = andthen (execute oe cmd) (\<lambda>_. ret ())"

definition unmount_subdirs :: "os_env \<Rightarrow> host_fs \<Rightarrow> privilege \<Rightarrow> tmpdir \<Rightarrow> ('a run_world_scheme, unit) prog" where
  "unmount_subdirs oe fe p td =
     andthen (ask (\<lambda>w. find_mountpoints_under (hf_resolve fe (rw_log w) (td_path td)) (hf_mounts fe (rw_log w))))
       (each (\<lambda>mp. try_run oe (td_reap_prefix p td @ [''umount'', mp])))"

definition cleanup_failed :: "tmpdir \<Rightarrow> exn" where
  "cleanup_failed td = Runtime_Error (''Failed to cleanup temp directory '' @ td_path td)"

definition rm_command :: "privilege \<Rightarrow> tmpdir \<Rightarrow> string list" where
  "rm_command p td = td_reap_prefix p td @ [''rm'', ''-rf'', ''--'', td_path td]"

definition td_safe :: "host_fs \<Rightarrow> tmpdir \<Rightarrow> event list \<Rightarrow> bool" where
  "td_safe fe td log =
     (let resolved = hf_resolve fe log (td_path td)
      in is_safe_to_delete resolved (case resolved of None \<Rightarrow> False | Some rp \<Rightarrow> hf_is_dir fe log rp) (td_base td))"

definition delete_with_helper :: "os_env \<Rightarrow> host_fs \<Rightarrow> privilege \<Rightarrow> tmpdir \<Rightarrow> ('a run_world_scheme, unit) prog" where
  "delete_with_helper oe fe p td =
     (if td_reap_prefix p td = [] then raise_exn (cleanup_failed td)
      else andthen (ask (\<lambda>w. td_safe fe td (rw_log w))) (\<lambda>safe.
        if \<not> safe then raise_exn (cleanup_failed td)
        else andthen (execute oe (rm_command p td)) (\<lambda>r. case r of
               Cmd_Ok out \<Rightarrow> ret ()
             | Cmd_Exit n \<Rightarrow> raise_exn (cleanup_failed td)
             | Cmd_Missing \<Rightarrow> raise_exn File_Not_Found_Error)))"

definition cleanup :: "os_env \<Rightarrow> host_fs \<Rightarrow> privilege \<Rightarrow> tmpdir \<Rightarrow> ('a run_world_scheme, tmpdir) prog" where
  "cleanup oe fe p td =
     (if td_closed td then ret td
      else
        let td' = td\<lparr>td_closed := True\<rparr>
        in andthen (path_exists oe (td_path td)) (\<lambda>there.
           if \<not> there then ret td'
           else seq (unmount_subdirs oe fe p td)
                  (seq (with_except (file_op oe (Ev_Rmtree (td_path td))) (\<lambda>e. e = OS_Error)
                          (\<lambda>_. delete_with_helper oe fe p td))
                    (ret td'))))"

definition td_exit :: "os_env \<Rightarrow> host_fs \<Rightarrow> privilege \<Rightarrow> tmpdir \<Rightarrow> ('a run_world_scheme, tmpdir) prog" where
  "td_exit oe fe p td =
     (if td_keep_once td then ret (td\<lparr>td_keep_once := False\<rparr>) else cleanup oe fe p td)"

section \<open>Disk formats\<close>

datatype disk_format = RAW | QCOW2 | SIMG

fun format_value :: "disk_format \<Rightarrow> string" where
  "format_value RAW = ''raw''" | "format_value QCOW2 = ''qcow2''" | "format_value SIMG = ''simg''"

fun format_ext :: "disk_format \<Rightarrow> string" where
  "format_ext RAW = ''.img''" | "format_ext QCOW2 = ''.qcow2''" | "format_ext SIMG = ''.simg''"

fun format_convert :: "disk_format \<Rightarrow> string list" where
  "format_convert RAW = [''mv'']" | "format_convert QCOW2 = [''qemu-img'', ''convert'', ''-O'', ''qcow2'']"
| "format_convert SIMG = []"

definition all_formats :: "disk_format list" where
  "all_formats = [RAW, QCOW2, SIMG]"

text \<open>\<open>str.lower\<close> on ASCII letters.\<close>

definition lower_char :: "char \<Rightarrow> char" where
  "lower_char c = (if 65 \<le> (of_char c :: nat) \<and> (of_char c :: nat) \<le> 90 then char_of (of_char c + 32 :: nat) else c)"

definition py_lower :: "string \<Rightarrow> string" where
  "py_lower s = map lower_char s"

text \<open>The names of the members are their values in capitals, so one comparison covers both.\<close>

definition format_from_string :: "string option \<Rightarrow> disk_format option res" where
  "format_from_string s =
     (case s of
        None \<Rightarrow> Inr None
      | Some t \<Rightarrow>
          (case find (\<lambda>f. py_lower t = format_value f) all_formats of
             Some f \<Rightarrow> Inr (Some f)
           | None \<Rightarrow> Inl (Argument_Type_Error
               (''invalid format '' @ [CHR 0x27] @ py_lower t @ [CHR 0x27] @ ''; choose from: '' @ py_join '', '' (map format_value all_formats)))))"

definition format_from_filename :: "string \<Rightarrow> disk_format" where
  "format_from_filename filename =
     (case find (\<lambda>f. snd (path_splitext (py_lower filename)) = format_ext f) all_formats of Some f \<Rightarrow> f | None \<Rightarrow> RAW)"

end
