(* ===== verification/Host_Laws.thy ===== *)
theory Host_Laws
  imports Host_Utils
begin

text \<open>
  Properties of the helpers on the host: the order of unmounting, what cleaning up a temporary directory
  may delete with privileges, and which initrd compressions can be extended.
\<close>

section \<open>Unmounting\<close>

lemma string_less_append: "(s :: string) < s @ c # t"
  by (induction s) auto

text \<open>
  The mount points under a directory are exactly those at it or below it, and every mount point comes
  before the ones it is mounted under, so that unmounting in this order never meets a busy parent.
\<close>

theorem unmount_order:
  "set (find_mountpoints_under (Some path) (Some lines)) = {mp \<in> set (get_current_mounts (Some lines)). mounted_under path mp} \<and>
   sorted_wrt (\<lambda>m n. \<not> starts_with n (m @ ''/'')) (find_mountpoints_under (Some path) (Some lines))"
proof
  show "set (find_mountpoints_under (Some path) (Some lines)) = {mp \<in> set (get_current_mounts (Some lines)). mounted_under path mp}"
    by (simp add: find_mountpoints_under_def)
  have "\<not> starts_with n (m @ ''/'')" if "n \<le> m" for m n :: string
  proof
    assume "starts_with n (m @ ''/'')"
    then obtain t where "n = m @ slash # t" by (auto simp: starts_with_iff)
    then show False using that string_less_append [of m slash t] by simp
  qed
  then have below: "n \<le> m \<Longrightarrow> \<not> starts_with n (m @ ''/'')" for m n :: string by blast
  have sorted: "sorted_wrt (\<lambda>m n. n \<le> m) (rev (sort (filter (mounted_under path) (get_current_mounts (Some lines)))))"
    by (simp add: sorted_wrt_rev)
  show "sorted_wrt (\<lambda>m n. \<not> starts_with n (m @ ''/'')) (find_mountpoints_under (Some path) (Some lines))"
    unfolding find_mountpoints_under_def option.case by (rule sorted_wrt_mono_rel [rotated, OF sorted]) (rule below)
qed

section \<open>Temporary directories\<close>

text \<open>How the parts of the clean-up extend the log.\<close>

lemma try_run_log: "try_run oe cmd w = (Inr (), w\<lparr>rw_log := rw_log w @ [Ev_Run cmd]\<rparr>)"
  by (simp add: try_run_def andthen_def execute_def ret_def)

lemma unmount_log:
  "\<exists>mps. unmount_subdirs oe fe p td w =
    (Inr (), w\<lparr>rw_log := rw_log w @ map (\<lambda>mp. Ev_Run (td_reap_prefix p td @ [''umount'', mp])) mps\<rparr>)"
proof -
  have "each (\<lambda>mp. try_run oe (td_reap_prefix p td @ [''umount'', mp])) mps w =
    (Inr (), w\<lparr>rw_log := rw_log w @ map (\<lambda>mp. Ev_Run (td_reap_prefix p td @ [''umount'', mp])) mps\<rparr>)" for mps
    by (induction mps arbitrary: w) (simp_all add: ret_def seq_def andthen_def try_run_log)
  then show ?thesis by (auto simp: unmount_subdirs_def andthen_def ask_def)
qed

lemma file_op_cases:
  "file_op oe ev w = (if oe_fails oe (rw_log w) ev then (Inl OS_Error, w) else (Inr (), w\<lparr>rw_log := rw_log w @ [ev]\<rparr>))"
  by (simp add: file_op_def)

text \<open>The helper runs only on a checked directory; what it adds is one command.\<close>

lemma delete_with_helper_log:
  assumes "delete_with_helper oe fe p td w = (r, w')"
  shows "w' = w \<and> (\<exists>e. r = Inl e) \<or>
    td_reap_prefix p td \<noteq> [] \<and> td_safe fe td (rw_log w) \<and> w' = w\<lparr>rw_log := rw_log w @ [Ev_Run (rm_command p td)]\<rparr> \<and>
      (r = Inr () \<longrightarrow> (\<exists>out. oe_run oe (rw_log w) (rm_command p td) = Cmd_Ok out))"
  using assms
  by (auto simp: delete_with_helper_def andthen_def ask_def execute_def raise_exn_def ret_def split: if_splits cmd_result.splits)

lemma cleanup_cases:
  assumes "cleanup oe fe p td w = (r, w')" and "\<not> td_closed td"
  obtains (absent) "\<not> oe_exists oe (rw_log w) (td_path td)" "r = Inr (td\<lparr>td_closed := True\<rparr>)" "w' = w"
    | (removed) mps where "oe_exists oe (rw_log w) (td_path td)" "r = Inr (td\<lparr>td_closed := True\<rparr>)"
      "rw_log w' = rw_log w @ map (\<lambda>mp. Ev_Run (td_reap_prefix p td @ [''umount'', mp])) mps @ [Ev_Rmtree (td_path td)]"
    | (helper) mps w1 r1 where "oe_exists oe (rw_log w) (td_path td)"
      "rw_log w1 = rw_log w @ map (\<lambda>mp. Ev_Run (td_reap_prefix p td @ [''umount'', mp])) mps"
      "oe_fails oe (rw_log w1) (Ev_Rmtree (td_path td))" "delete_with_helper oe fe p td w1 = (r1, w')"
      "r = (case r1 of Inl e \<Rightarrow> Inl e | Inr _ \<Rightarrow> Inr (td\<lparr>td_closed := True\<rparr>))"
proof (cases "oe_exists oe (rw_log w) (td_path td)")
  case False
  then show thesis using absent assms by (simp add: cleanup_def path_exists_def andthen_def ask_def ret_def Let_def)
next
  case True
  obtain mps where u: "unmount_subdirs oe fe p td w =
      (Inr (), w\<lparr>rw_log := rw_log w @ map (\<lambda>mp. Ev_Run (td_reap_prefix p td @ [''umount'', mp])) mps\<rparr>)"
    using unmount_log [of oe fe p td w] by blast
  define w1 where "w1 = w\<lparr>rw_log := rw_log w @ map (\<lambda>mp. Ev_Run (td_reap_prefix p td @ [''umount'', mp])) mps\<rparr>"
  have run: "seq (with_except (file_op oe (Ev_Rmtree (td_path td))) (\<lambda>e. e = OS_Error) (\<lambda>_. delete_with_helper oe fe p td))
      (ret (td\<lparr>td_closed := True\<rparr>)) w1 = (r, w')"
    using assms True u by (simp add: cleanup_def path_exists_def andthen_def seq_def ask_def Let_def w1_def)
  show thesis
  proof (cases "oe_fails oe (rw_log w1) (Ev_Rmtree (td_path td))")
    case fails: True
    obtain r1 w2 where d: "delete_with_helper oe fe p td w1 = (r1, w2)" by fastforce
    then have "w2 = w'" "r = (case r1 of Inl e \<Rightarrow> Inl e | Inr _ \<Rightarrow> Inr (td\<lparr>td_closed := True\<rparr>))"
      using run fails by (auto simp: with_except_def file_op_cases seq_def andthen_def ret_def split: sum.splits)
    then show thesis using helper [of w1 mps r1] True d fails by (simp add: w1_def)
  next
    case False
    then show thesis using removed [of mps] True run
      by (auto simp: with_except_def file_op_cases seq_def andthen_def ret_def w1_def)
  qed
qed


definition stuck_env :: os_env where
  "stuck_env = \<lparr>oe_run = (\<lambda>log cmd. Cmd_Ok []), oe_fails = (\<lambda>log ev. True), oe_exists = (\<lambda>log p. True), oe_uid = 1000, oe_gid = 1000\<rparr>"

definition plain_fs :: host_fs where
  "plain_fs = \<lparr>hf_resolve = (\<lambda>log p. Some ''/var/tmp/aib-x''), hf_is_dir = (\<lambda>log p. True), hf_mounts = (\<lambda>log. None)\<rparr>"

definition sample_td :: tmpdir where
  "sample_td = \<lparr>td_path = ''/var/tmp/aib-x'', td_base = ''/var/tmp'', td_keep_once = False, td_use_sudo = True, td_closed = False\<rparr>"


section \<open>Initrd compression\<close>

text \<open>
  The detected compression of an initrd has a compressor except for two answers, the skippable LZ4
  frames and unknown content, which raise RuntimeError; raw cpio needs no command.
\<close>

theorem detected_compressor:
  "(isl (initrd_compressor_for (detect_initrd_compression content)) \<longleftrightarrow>
     detect_initrd_compression content \<in> {''lz4-skippable'', ''unknown''}) \<and>
   (initrd_compressor_for (detect_initrd_compression content) = Inr [] \<longleftrightarrow> detect_initrd_compression content = ''cpio'')"
  by (simp_all add: detect_initrd_compression_def initrd_compressor_for_def Let_def)

end
