(* ===== verification/Podman.thy ===== *)
theory Podman
  imports Host_Utils Content
begin

text \<open>
  Container storage, image mounts and temporary containers (\<open>src/aib/podman.py\<close>).  Commands are the
  logged events of the runner; what podman answers is the oracle of the environment.
\<close>

section \<open>Shell words\<close>

text \<open>\<open>shlex.quote\<close> and \<open>shlex.join\<close>.\<close>

definition shell_safe :: "char \<Rightarrow> bool" where
  "shell_safe c \<longleftrightarrow> (let n = of_char c :: nat in
     (48 \<le> n \<and> n \<le> 57) \<or> (65 \<le> n \<and> n \<le> 90) \<or> (97 \<le> n \<and> n \<le> 122) \<or> c \<in> set ''_@%+=:,./-'')"

abbreviation quot :: char where "quot \<equiv> CHR 0x27"
abbreviation dquot :: char where "dquot \<equiv> CHR 0x22"
abbreviation backslash :: char where "backslash \<equiv> CHR 0x5C"

definition quote_char :: "char \<Rightarrow> string" where
  "quote_char c = (if c = quot then [quot, dquot, quot, dquot, quot] else [c])"

definition shlex_quote :: "string \<Rightarrow> string" where
  "shlex_quote s =
     (if s = [] then [quot, quot]
      else if list_all shell_safe s then s
      else [quot] @ concat (map quote_char s) @ [quot])"

definition shlex_join :: "string list \<Rightarrow> string" where
  "shlex_join args = py_join '' '' (map shlex_quote args)"

text \<open>
  \<open>shlex.split\<close> in POSIX mode: between words, in a word, in quotes, or behind a backslash (inside double
  quotes, if so).  None is the ValueError for an open quote or escape.
\<close>

datatype sh_state = Between | Word | Quoted char | Escaped bool

definition sh_space :: "char \<Rightarrow> bool" where
  "sh_space c \<longleftrightarrow> c \<in> {CHR '' '', CHR 0x09, CHR 0x0D, CHR 0x0A}"

text \<open>The token so far is in reverse; \<open>quoted\<close> keeps an empty word in quotes.\<close>

fun shlex_go :: "sh_state \<Rightarrow> bool \<Rightarrow> string \<Rightarrow> string \<Rightarrow> string list option" where
  "shlex_go Between quoted tok [] = Some []"
| "shlex_go Word quoted tok [] = Some (if tok \<noteq> [] \<or> quoted then [rev tok] else [])"
| "shlex_go (Quoted q) quoted tok [] = None"
| "shlex_go (Escaped indq) quoted tok [] = None"
| "shlex_go Between quoted tok (c # cs) =
     (if sh_space c then shlex_go Between False [] cs
      else if c = backslash then shlex_go (Escaped False) False [] cs
      else if c = quot \<or> c = dquot then shlex_go (Quoted c) True [] cs
      else shlex_go Word False [c] cs)"
| "shlex_go Word quoted tok (c # cs) =
     (if sh_space c then
        (if tok \<noteq> [] \<or> quoted then map_option ((#) (rev tok)) (shlex_go Between False [] cs)
         else shlex_go Between False [] cs)
      else if c = quot \<or> c = dquot then shlex_go (Quoted c) True tok cs
      else if c = backslash then shlex_go (Escaped False) quoted tok cs
      else shlex_go Word quoted (c # tok) cs)"
| "shlex_go (Quoted q) quoted tok (c # cs) =
     (if c = q then shlex_go Word quoted tok cs
      else if c = backslash \<and> q = dquot then shlex_go (Escaped True) quoted tok cs
      else shlex_go (Quoted q) quoted (c # tok) cs)"
| "shlex_go (Escaped indq) quoted tok (c # cs) =
     shlex_go (if indq then Quoted dquot else Word) quoted
       (if indq \<and> c \<noteq> backslash \<and> c \<noteq> dquot then c # backslash # tok else c # tok) cs"

definition shlex_split :: "string \<Rightarrow> string list res" where
  "shlex_split s = (case shlex_go Between False [] s of Some ws \<Rightarrow> Inr ws | None \<Rightarrow> Inl Value_Error)"

section \<open>Shell variables\<close>

definition shvar_token :: "string \<Rightarrow> (string \<times> string) list" where
  "shvar_token tok = (case break_at ''='' tok of None \<Rightarrow> [] | Some (k, v) \<Rightarrow> [(k, v)])"

definition parse_shline :: "string \<Rightarrow> dict \<Rightarrow> dict res" where
  "parse_shline line d =
     (let l = py_strip line
      in if l = [] \<or> starts_with l ''#'' then Inr d
         else res_map (\<lambda>toks. fold (\<lambda>(k, v) d. dict_set d k (PyStr v)) (concat (map shvar_token toks)) d) (shlex_split l))"

definition parse_shvars :: "string \<Rightarrow> dict res" where
  "parse_shvars content = res_fold parse_shline (py_split [CHR 0x0A] content) []"

section \<open>Commands\<close>

record podman_env =
  pe_os :: os_env
  pe_fs :: host_fs
  pe_priv :: privilege
  pe_in_rootless :: bool
  pe_json :: "string \<Rightarrow> pyval res"
  pe_stderr :: "event list \<Rightarrow> string list \<Rightarrow> string"
  pe_tmpname :: "event list \<Rightarrow> string \<Rightarrow> string"
  pe_bytes :: "event list \<Rightarrow> string \<Rightarrow> byte list"

definition sudo_cmd :: "podman_env \<Rightarrow> bool \<Rightarrow> string list \<Rightarrow> string list" where
  "sudo_cmd pe with_sudo args = (if with_sudo then run_prefix (pe_priv pe) @ args else args)"

text \<open>\<open>run_cmd\<close> with captured output, and without, where it returns the exit code.\<close>

definition capture_cmd :: "podman_env \<Rightarrow> bool \<Rightarrow> string list \<Rightarrow> ('a run_world_scheme, string) prog" where
  "capture_cmd pe with_sudo args =
     andthen (ask (\<lambda>w. pe_stderr pe (rw_log w) (sudo_cmd pe with_sudo args))) (\<lambda>err.
     andthen (execute (pe_os pe) (sudo_cmd pe with_sudo args)) (\<lambda>r.
       case r of
         Cmd_Ok out \<Rightarrow> ret (py_rstrip out)
       | Cmd_Exit n \<Rightarrow> raise_exn (Podman_Command_Failed (shlex_join args) (py_rstrip err))
       | Cmd_Missing \<Rightarrow> raise_exn File_Not_Found_Error))"

definition code_cmd :: "podman_env \<Rightarrow> bool \<Rightarrow> bool \<Rightarrow> string list \<Rightarrow> ('a run_world_scheme, int) prog" where
  "code_cmd pe with_sudo check args =
     andthen (execute (pe_os pe) (sudo_cmd pe with_sudo args)) (\<lambda>r.
       case r of
         Cmd_Ok out \<Rightarrow> ret 0
       | Cmd_Exit n \<Rightarrow> if check then raise_exn (Podman_Command_Failed (shlex_join args) []) else ret n
       | Cmd_Missing \<Rightarrow> raise_exn File_Not_Found_Error)"

section \<open>Storage\<close>

record container_storage =
  cs_with_sudo :: bool
  cs_storage :: string
  cs_runroot :: string
  cs_driver :: string
  cs_tmpdir :: string
  cs_config_path :: "string option"

text \<open>\<open>ContainerStorageState\<close>: what \<open>podman info\<close> reports.\<close>

definition as_text :: "pyval \<Rightarrow> string res" where
  "as_text v = (case v of PyStr s \<Rightarrow> Inr s | _ \<Rightarrow> Inl Type_Error)"

definition storage_state :: "podman_env \<Rightarrow> bool \<Rightarrow> ('a run_world_scheme, string \<times> string \<times> string) prog" where
  "storage_state pe with_sudo =
     andthen (capture_cmd pe with_sudo [''podman'', ''info'', ''--format'', ''json'']) (\<lambda>out.
       lift_res (res_bind (pe_json pe out) (\<lambda>info.
         res_bind (py_item info ''store'') (\<lambda>store.
         res_bind (res_bind (py_item store ''graphRoot'') as_text) (\<lambda>graphroot.
         res_bind (res_bind (py_item store ''runRoot'') as_text) (\<lambda>runroot.
         res_map (\<lambda>driver. (graphroot, runroot, driver)) (res_bind (py_item store ''graphDriverName'') as_text)))))))"

definition make_storage :: "podman_env \<Rightarrow> string option \<Rightarrow> string \<Rightarrow> ('a run_world_scheme, container_storage) prog" where
  "make_storage pe storage tmpdir =
     andthen
       (if pe_in_rootless pe then
          ret (False, ''/var/lib/containers/storage'', ''/run/user/'' @ dec_nat (oe_uid (pe_os pe)) @ ''/containers'', ''overlay'')
        else andthen (storage_state pe (uses_sudo (pe_priv pe))) (\<lambda>(g, r, d). ret (uses_sudo (pe_priv pe), g, r, d)))
       (\<lambda>(sudo, graphroot, runroot, driver).
         ret \<lparr>cs_with_sudo = sudo, cs_storage = (case storage of Some s \<Rightarrow> if s \<noteq> [] then s else graphroot | None \<Rightarrow> graphroot),
              cs_runroot = runroot, cs_driver = driver, cs_tmpdir = tmpdir, cs_config_path = None\<rparr>)"

definition tmp_storage :: "container_storage \<Rightarrow> string" where
  "tmp_storage cs = path_join (cs_tmpdir cs) ''containers''"

definition tmp_runroot :: "container_storage \<Rightarrow> string" where
  "tmp_runroot cs = path_join (cs_tmpdir cs) ''containers-run''"

definition storage_args :: "container_storage \<Rightarrow> string list" where
  "storage_args cs = [''--root='' @ tmp_storage cs, ''--runroot='' @ tmp_runroot cs, ''--imagestore='' @ cs_storage cs]"

definition podman_of :: "container_storage \<Rightarrow> string list" where
  "podman_of cs = ''podman'' # storage_args cs"

definition skopeo_name :: "container_storage \<Rightarrow> string \<Rightarrow> string" where
  "skopeo_name cs image_name =
     ''containers-storage:['' @ cs_driver cs @ ''@'' @ cs_storage cs @ ''+'' @ cs_runroot cs @ '']'' @ image_name"

definition config_content :: "container_storage \<Rightarrow> string" where
  "config_content cs = concat (map (\<lambda>l. l @ [CHR 0x0A])
     [''[storage]'',
      ''driver = '' @ [dquot] @ cs_driver cs @ [dquot],
      ''graphroot = '' @ [dquot] @ tmp_storage cs @ [dquot],
      ''runroot = '' @ [dquot] @ tmp_runroot cs @ [dquot],
      [],
      ''[storage.options]'',
      ''additionalimagestores = ['',
      [dquot] @ cs_storage cs @ [dquot],
      '']''])"

text \<open>The file is written once; the storage object keeps its path.\<close>

definition get_config_path :: "podman_env \<Rightarrow> container_storage \<Rightarrow> ('a run_world_scheme, string \<times> container_storage) prog" where
  "get_config_path pe cs =
     (case cs_config_path cs of
        Some path \<Rightarrow> ret (path, cs)
      | None \<Rightarrow>
          andthen (ask (\<lambda>w. pe_tmpname pe (rw_log w) (path_join (cs_tmpdir cs) ''storage-''))) (\<lambda>path.
          seq (file_op (pe_os pe) (Ev_Write path (config_content cs)))
            (ret (path, cs\<lparr>cs_config_path := Some path\<rparr>))))"

definition get_override_env :: "container_storage \<Rightarrow> string list" where
  "get_override_env cs = [''CONTAINERS_GRAPHROOT='' @ cs_storage cs, ''CONTAINERS_RUNROOT='' @ cs_runroot cs]"

definition run_podman_args ::
  "container_storage option \<Rightarrow> string list \<Rightarrow> string \<Rightarrow> (string \<times> string) list \<Rightarrow> string list \<Rightarrow> string list" where
  "run_podman_args storage cmd_prefix container volumes args =
     cmd_prefix @ [''podman'', ''run'', ''--rm'', ''--security-opt'', ''label=type:unconfined_t'', ''-ti''] @
     (case storage of None \<Rightarrow> [] | Some cs \<Rightarrow> storage_args cs) @
     concat (map (\<lambda>(k, v). [''-v'', v @ '':'' @ k]) (sort_key fst volumes)) @ [container] @ args"

definition run_podman_cmd ::
  "podman_env \<Rightarrow> container_storage \<Rightarrow> string list \<Rightarrow> string \<Rightarrow> (string \<times> string) list \<Rightarrow> string list \<Rightarrow> ('a run_world_scheme, int) prog" where
  "run_podman_cmd pe cs cmd_prefix container volumes args =
     code_cmd pe (cs_with_sudo cs) True (run_podman_args (Some cs) cmd_prefix container volumes args)"

section \<open>Images\<close>

definition podman_image_exists :: "podman_env \<Rightarrow> container_storage \<Rightarrow> string \<Rightarrow> ('a run_world_scheme, bool) prog" where
  "podman_image_exists pe cs img =
     andthen (code_cmd pe (cs_with_sudo cs) False (podman_of cs @ [''image'', ''exists'', img])) (\<lambda>rc. ret (rc = 0))"

definition podman_image_labels :: "podman_env \<Rightarrow> container_storage \<Rightarrow> string \<Rightarrow> ('a run_world_scheme, pyval) prog" where
  "podman_image_labels pe cs img =
     andthen (podman_image_exists pe cs img) (\<lambda>there.
       if \<not> there then ret (PyDict [])
       else andthen (capture_cmd pe (cs_with_sudo cs)
              (podman_of cs @ [''image'', ''inspect'', ''--format'', ''{{json .Labels}}'', img])) (\<lambda>out.
            lift_res (res_map (\<lambda>v. if py_truthy v then v else PyDict []) (pe_json pe out))))"

definition podman_image_rm :: "podman_env \<Rightarrow> container_storage \<Rightarrow> string \<Rightarrow> ('a run_world_scheme, bool) prog" where
  "podman_image_rm pe cs img =
     andthen (code_cmd pe (cs_with_sudo cs) False (podman_of cs @ [''image'', ''rm'', img])) (\<lambda>rc. ret (rc = 0))"

section \<open>Image mounts\<close>

record image_mount =
  im_storage :: container_storage
  im_image :: string
  im_writable :: bool
  im_commit :: "string option"
  im_path :: "string option"
  im_container :: "string option"
  im_image_id :: "string option"

definition image_mount :: "container_storage \<Rightarrow> string \<Rightarrow> bool \<Rightarrow> string option \<Rightarrow> image_mount" where
  "image_mount cs img writable commit_image =
     \<lparr>im_storage = cs, im_image = img, im_writable = writable, im_commit = commit_image, im_path = None,
      im_container = None, im_image_id = None\<rparr>"

definition unshared :: "podman_env \<Rightarrow> string list" where
  "unshared pe = (if podman_needs_unshare (pe_priv pe) then [''podman'', ''unshare''] else [])"

definition im_capture :: "podman_env \<Rightarrow> image_mount \<Rightarrow> string list \<Rightarrow> ('a run_world_scheme, string) prog" where
  "im_capture pe mt cmd = capture_cmd pe (cs_with_sudo (im_storage mt)) cmd"

definition im_run :: "podman_env \<Rightarrow> image_mount \<Rightarrow> bool \<Rightarrow> string list \<Rightarrow> ('a run_world_scheme, int) prog" where
  "im_run pe mt check cmd = code_cmd pe (cs_with_sudo (im_storage mt)) check cmd"

definition im_enter :: "podman_env \<Rightarrow> image_mount \<Rightarrow> ('a run_world_scheme, image_mount) prog" where
  "im_enter pe mt =
     (let podman = podman_of (im_storage mt)
      in if im_writable mt then
           andthen (im_capture pe mt (podman @ [''create'', im_image mt])) (\<lambda>c.
           andthen (im_capture pe mt (unshared pe @ podman @ [''mount'', py_strip c])) (\<lambda>p.
             ret (mt\<lparr>im_container := Some (py_strip c), im_path := Some (py_strip p)\<rparr>)))
         else
           andthen (im_capture pe mt (unshared pe @ podman @ [''image'', ''mount'', im_image mt])) (\<lambda>p.
             ret (mt\<lparr>im_path := Some (py_strip p)\<rparr>)))"

definition set_text :: "string option \<Rightarrow> bool" where
  "set_text s \<longleftrightarrow> s \<noteq> None \<and> s \<noteq> Some []"

definition im_exit :: "podman_env \<Rightarrow> image_mount \<Rightarrow> bool \<Rightarrow> ('a run_world_scheme, image_mount) prog" where
  "im_exit pe mt raised =
     (let podman = podman_of (im_storage mt)
      in if \<not> set_text (im_path mt) then ret mt
         else if im_writable mt \<and> set_text (im_container mt) then
           let c = the (im_container mt)
           in seq (im_run pe mt False (unshared pe @ podman @ [''unmount'', c]))
                (andthen
                  (if raised then ret mt
                   else andthen (im_capture pe mt (podman @ [''commit'', c] @
                          (case im_commit mt of Some i \<Rightarrow> if i \<noteq> [] then [i] else [] | None \<Rightarrow> []))) (\<lambda>i.
                        ret (mt\<lparr>im_image_id := Some i\<rparr>)))
                  (\<lambda>mt'. seq (im_capture pe mt (podman @ [''rm'', c])) (ret mt')))
         else seq (im_capture pe mt (unshared pe @ podman @ [''image'', ''unmount'', im_image mt])) (ret mt))"

text \<open>\<open>with PodmanImageMount(...) as mount: body\<close>; the mount after the block is part of the result.\<close>

definition with_mount ::
  "podman_env \<Rightarrow> image_mount \<Rightarrow> (image_mount \<Rightarrow> ('a run_world_scheme, 'b) prog) \<Rightarrow> ('a run_world_scheme, 'b \<times> image_mount) prog" where
  "with_mount pe mt body =
     andthen (im_enter pe mt) (\<lambda>mt1 w.
       case body mt1 w of
         (Inl e, w1) \<Rightarrow> (case im_exit pe mt1 True w1 of (Inl e', w2) \<Rightarrow> (Inl e', w2) | (Inr mt2, w2) \<Rightarrow> (Inl e, w2))
       | (Inr x, w1) \<Rightarrow> (case im_exit pe mt1 False w1 of (Inl e', w2) \<Rightarrow> (Inl e', w2) | (Inr mt2, w2) \<Rightarrow> (Inr (x, mt2), w2)))"

text \<open>
  The path inside the mounted image, as \<open>pathlib\<close> prints it: \<open>path\<close> is made relative to its root, empty
  and \<open>.\<close> components disappear.
\<close>

definition pathlib_parts :: "string \<Rightarrow> string list" where
  "pathlib_parts p = filter (\<lambda>c. c \<noteq> [] \<and> c \<noteq> ''.'') (py_split ''/'' p)"

definition inside :: "string \<Rightarrow> string \<Rightarrow> string" where
  "inside root path =
     (let r = (if path_isabs root then ''/'' else []) @ py_join ''/'' (pathlib_parts root @ pathlib_parts path)
      in if r = [] then ''.'' else r)"

definition full_path :: "image_mount \<Rightarrow> string \<Rightarrow> string res" where
  "full_path mt path =
     (if set_text (im_path mt) then Inr (inside (the (im_path mt)) path)
      else Inl (Runtime_Error (''Image not mounted - use within '' @ [quot] @ ''with'' @ [quot] @ '' statement'')))"

definition read_file :: "podman_env \<Rightarrow> image_mount \<Rightarrow> string \<Rightarrow> ('a run_world_scheme, string) prog" where
  "read_file pe mt path =
     andthen (lift_res (full_path mt path)) (\<lambda>p. im_capture pe mt (unshared pe @ [''cat'', p]))"

definition has_file :: "podman_env \<Rightarrow> image_mount \<Rightarrow> string \<Rightarrow> ('a run_world_scheme, bool) prog" where
  "has_file pe mt path =
     andthen (lift_res (full_path mt path)) (\<lambda>p.
     andthen (im_run pe mt False (unshared pe @ [''test'', ''-f'', p])) (\<lambda>rc. ret (rc = 0)))"

text \<open>The output of \<open>cat\<close> is streamed into the file, without a check of its exit code.\<close>

definition copy_out_file :: "podman_env \<Rightarrow> image_mount \<Rightarrow> string \<Rightarrow> string \<Rightarrow> ('a run_world_scheme, unit) prog" where
  "copy_out_file pe mt source_path dest_path =
     andthen (lift_res (full_path mt source_path)) (\<lambda>p.
     andthen (execute (pe_os pe) (sudo_cmd pe (cs_with_sudo (im_storage mt)) (unshared pe @ [''cat'', p]))) (\<lambda>r.
       case r of Cmd_Missing \<Rightarrow> raise_exn File_Not_Found_Error | _ \<Rightarrow> file_op (pe_os pe) (Ev_Copy p dest_path)))"

definition read_dir :: "podman_env \<Rightarrow> image_mount \<Rightarrow> string \<Rightarrow> ('a run_world_scheme, string list) prog" where
  "read_dir pe mt path =
     andthen (lift_res (full_path mt path)) (\<lambda>p.
     andthen (im_capture pe mt (unshared pe @ [''ls'', ''-1'', p])) (\<lambda>out.
       ret (if py_strip out \<noteq> [] then py_split [CHR 0x0A] out else [])))"

definition get_kernel_subdir :: "podman_env \<Rightarrow> image_mount \<Rightarrow> ('a run_world_scheme, string) prog" where
  "get_kernel_subdir pe mt =
     andthen (read_dir pe mt ''/usr/lib/modules'') (\<lambda>fs. case fs of [] \<Rightarrow> raise_exn Index_Error | f # _ \<Rightarrow> ret f)"

definition get_ostree_initrd :: "podman_env \<Rightarrow> image_mount \<Rightarrow> ('a run_world_scheme, string option) prog" where
  "get_ostree_initrd pe mt =
     andthen (get_kernel_subdir pe mt) (\<lambda>k.
     andthen (read_dir pe mt ''/usr/lib/ostree-boot'') (\<lambda>files.
       ret (case find (\<lambda>f. starts_with f (''initramfs-'' @ k @ ''.img-'')) files of
              Some f \<Rightarrow> if f \<noteq> [] then Some (path_join ''/usr/lib/ostree-boot'' f) else None
            | None \<Rightarrow> None)))"

definition copy_in_file :: "podman_env \<Rightarrow> image_mount \<Rightarrow> string \<Rightarrow> string \<Rightarrow> ('a run_world_scheme, unit) prog" where
  "copy_in_file pe mt source_path dest_path =
     andthen (lift_res (full_path mt dest_path)) (\<lambda>p.
     andthen (path_exists (pe_os pe) source_path) (\<lambda>there.
       if \<not> there then raise_exn File_Not_Found_Error
       else seq (im_run pe mt True (unshared pe @ [''tee'', p])) (ret ())))"

definition link_file :: "podman_env \<Rightarrow> image_mount \<Rightarrow> string \<Rightarrow> string \<Rightarrow> ('a run_world_scheme, unit) prog" where
  "link_file pe mt source_path dest_path =
     andthen (lift_res (full_path mt source_path)) (\<lambda>s.
     andthen (lift_res (full_path mt dest_path)) (\<lambda>d.
       seq (im_run pe mt True (unshared pe @ [''ln'', ''-f'', s, d])) (ret ())))"

end
