(* ===== verification/Podman_Ops.thy ===== *)
theory Podman_Ops
  imports Podman
begin

text \<open>
  Operations on bootc images: temporary containers, the build information of an image, and the injection
  of a public key into the initrd of an image (\<open>src/aib/podman.py\<close>, with \<open>create_cpio_archive\<close> of
  \<open>src/aib/utils.py\<close>).
\<close>

section \<open>Temporary containers\<close>

record temp_container =
  tc_storage :: container_storage
  tc_name :: string
  tc_cleanup :: bool
  tc_removed :: bool

definition temporary_container :: "container_storage \<Rightarrow> string \<Rightarrow> temp_container" where
  "temporary_container cs name = \<lparr>tc_storage = cs, tc_name = name, tc_cleanup = True, tc_removed = False\<rparr>"

text \<open>The exceptions \<open>except Exception\<close> catches.\<close>

fun is_exception :: "exn \<Rightarrow> bool" where
  "is_exception Keyboard_Interrupt = False"
| "is_exception (Sys_Exit n) = False"
| "is_exception e = True"

text \<open>A failure to remove the image is logged and ends the clean-up.\<close>

definition tc_do_cleanup :: "podman_env \<Rightarrow> temp_container \<Rightarrow> ('a run_world_scheme, temp_container) prog" where
  "tc_do_cleanup pe tc =
     (if tc_removed tc then ret tc
      else with_except
        (andthen (podman_image_exists pe (tc_storage tc) (tc_name tc)) (\<lambda>there.
           seq (if there then seq (podman_image_rm pe (tc_storage tc) (tc_name tc)) (ret ()) else ret ())
             (ret (tc\<lparr>tc_removed := True\<rparr>))))
        is_exception (\<lambda>e. ret tc))"

definition tc_exit :: "podman_env \<Rightarrow> temp_container \<Rightarrow> ('a run_world_scheme, temp_container) prog" where
  "tc_exit pe tc = (if tc_cleanup tc then tc_do_cleanup pe tc else ret tc)"

text \<open>\<open>with TemporaryContainer(storage, name) as c: body\<close>.\<close>

definition with_temp_container ::
  "podman_env \<Rightarrow> temp_container \<Rightarrow> ('a run_world_scheme, 'b) prog \<Rightarrow> ('a run_world_scheme, 'b) prog" where
  "with_temp_container pe tc body = with_finally body (seq (tc_exit pe tc) (ret ()))"

section \<open>Build information\<close>

record container_info =
  ci_name :: string
  ci_build_info :: "dict option"

definition no_build_info :: "exn \<Rightarrow> bool" where
  "no_build_info e \<longleftrightarrow> (case e of Podman_Command_Failed c m \<Rightarrow> True | Runtime_Error m \<Rightarrow> True | Value_Error \<Rightarrow> True | _ \<Rightarrow> False)"

definition podman_image_info :: "podman_env \<Rightarrow> container_storage \<Rightarrow> string \<Rightarrow> ('a run_world_scheme, container_info option) prog" where
  "podman_image_info pe cs img =
     andthen (podman_image_exists pe cs img) (\<lambda>there.
       if \<not> there then ret None
       else andthen
         (with_except
            (andthen (with_mount pe (image_mount cs img False None)
                (\<lambda>mount. andthen (read_file pe mount ''/etc/build-info'') (\<lambda>content. lift_res (parse_shvars content))))
              (\<lambda>(info, mount). ret (Some info)))
            no_build_info (\<lambda>e. ret None))
         (\<lambda>info. ret (Some \<lparr>ci_name = img, ci_build_info = info\<rparr>)))"

section \<open>The initrd\<close>

text \<open>
  \<open>create_cpio_archive\<close>: the archive is piped through the compressor, if there is one; the exit codes are
  looked at in the end, the archive first.
\<close>

definition cpio_command :: "string list" where
  "cpio_command = [''cpio'', ''--null'', ''-o'', ''-H'', ''newc'', ''--owner'', ''0:0'']"

definition exit_code :: "cmd_result \<Rightarrow> int" where
  "exit_code r = (case r of Cmd_Exit n \<Rightarrow> n | _ \<Rightarrow> 0)"

definition create_cpio_archive :: "podman_env \<Rightarrow> string \<Rightarrow> string \<Rightarrow> ('a run_world_scheme, unit) prog" where
  "create_cpio_archive pe dest compression =
     andthen (ask (\<lambda>w. pe_stderr pe (rw_log w))) (\<lambda>stderr.
     andthen (execute (pe_os pe) cpio_command) (\<lambda>cpio.
       if cpio = Cmd_Missing then raise_exn (Runtime_Error ''cpio not found in PATH'')
       else andthen (lift_res (initrd_compressor_for compression)) (\<lambda>comp_cmd.
         andthen (if comp_cmd = [] then ret (Cmd_Ok []) else execute (pe_os pe) comp_cmd) (\<lambda>comp.
           if comp = Cmd_Missing then raise_exn (Runtime_Error (''compressor missing for '' @ compression @ '': '' @ hd comp_cmd))
           else seq (file_op (pe_os pe) (Ev_Write dest []))
             (if exit_code cpio \<noteq> 0 then
                raise_exn (Runtime_Error (''cpio failed (rc='' @ dec_int (exit_code cpio) @ ''): '' @ stderr cpio_command))
              else if exit_code comp \<noteq> 0 then
                raise_exn (Runtime_Error (py_join '' '' comp_cmd @ '' failed (rc='' @ dec_int (exit_code comp) @ ''): '' @ stderr comp_cmd))
              else ret ())))))"

text \<open>The initrd with the archive appended at an offset that is a multiple of four.\<close>

definition initrd_padding :: "nat \<Rightarrow> nat" where
  "initrd_padding sz = (4 - sz mod 4) mod 4"

definition append_initrd :: "byte list \<Rightarrow> byte list \<Rightarrow> byte list" where
  "append_initrd initrd archive = initrd @ replicate (initrd_padding (length initrd)) 0 @ archive"

section \<open>Injecting a public key\<close>

definition bind_key_file :: string where
  "bind_key_file = ''etc/ostree/initramfs-root-binding.key''"

text \<open>What is read from the source image: kernel directory, whether it boots with aboot, and its initrd.\<close>

definition inspect_initrd ::
  "podman_env \<Rightarrow> container_storage \<Rightarrow> string \<Rightarrow> string \<Rightarrow> ('a run_world_scheme, string \<times> bool \<times> string) prog" where
  "inspect_initrd pe cs src_container extracted =
     andthen (with_mount pe (image_mount cs src_container False None) (\<lambda>mount.
       andthen (get_kernel_subdir pe mount) (\<lambda>kdir.
       andthen (has_file pe mount (''/usr/lib/modules/'' @ kdir @ ''/aboot.img'')) (\<lambda>aboot.
       andthen (get_ostree_initrd pe mount) (\<lambda>initrd.
         case initrd of
           None \<Rightarrow> raise_exn (Initramfs_Not_Found src_container)
         | Some p \<Rightarrow> seq (copy_out_file pe mount p extracted) (ret (kdir, aboot, p)))))))
       (\<lambda>(info, mount). ret info)"

definition extend_initrd :: "podman_env \<Rightarrow> string \<Rightarrow> string \<Rightarrow> string \<Rightarrow> ('a run_world_scheme, unit) prog" where
  "extend_initrd pe td extracted pub_key =
     andthen (ask (\<lambda>w. detect_initrd_compression (pe_bytes pe (rw_log w) extracted))) (\<lambda>compression.
     seq (file_op (pe_os pe) (Ev_Mkdir (path_join td ''root/etc/ostree'')))
       (seq (file_op (pe_os pe) (Ev_Copy pub_key (path_join (path_join td ''root'') bind_key_file)))
         (seq (create_cpio_archive pe (path_join td ''initrd.append'') compression)
           (file_op (pe_os pe) (Ev_Copy (path_join td ''initrd.append'') extracted)))))"

definition rebuild_image ::
  "podman_env \<Rightarrow> container_storage \<Rightarrow> string \<Rightarrow> string option \<Rightarrow> string \<Rightarrow> string \<Rightarrow> string \<Rightarrow> string \<times> bool \<times> string \<Rightarrow>
    ('a run_world_scheme, string option) prog" where
  "rebuild_image pe cs src_container dest_container pub_key build_container extracted info =
     (case info of (kdir, aboot, initrd) \<Rightarrow>
        andthen (with_mount pe (image_mount cs src_container True dest_container) (\<lambda>mount.
          seq (copy_in_file pe mount pub_key bind_key_file)
            (seq (copy_in_file pe mount extracted initrd)
              (seq
                (if aboot then
                   seq (run_podman_cmd pe cs (unshared pe) build_container
                          [(''/sysroot'', case im_path mount of Some p \<Rightarrow> p | None \<Rightarrow> ''None'')]
                          [''aboot-update'', ''-p'', ''-r'', ''/sysroot'', kdir])
                     (ret ())
                 else ret ())
                (link_file pe mount initrd (''/usr/lib/modules/'' @ kdir @ ''/initramfs.img''))))))
          (\<lambda>(u, mount). ret (im_image_id mount)))"

text \<open>The temporary directory \<open>td\<close> is removed at the end, whatever happens.\<close>

definition podman_bootc_inject_pubkey ::
  "podman_env \<Rightarrow> container_storage \<Rightarrow> string \<Rightarrow> string option \<Rightarrow> string \<Rightarrow> string \<Rightarrow> ('a run_world_scheme, string option) prog" where
  "podman_bootc_inject_pubkey pe cs src_container dest_container pub_key build_container =
     andthen (ask (\<lambda>w. pe_tmpname pe (rw_log w) ''initrd-append-'')) (\<lambda>td.
     with_finally
       (let extracted = path_join td ''initrd''
        in andthen (inspect_initrd pe cs src_container extracted) (\<lambda>(kdir, aboot, initrd).
           seq (if aboot then
                  seq (run_podman_cmd pe cs [] build_container [(''/sysroot'', td)] [''bootconfig'', ''-d'', ''/sysroot/initrd''])
                    (ret ())
                else ret ())
             (seq (extend_initrd pe td extracted pub_key)
               (rebuild_image pe cs src_container dest_container pub_key build_container extracted (kdir, aboot, initrd)))))
       (file_op (pe_os pe) (Ev_Rmtree td)))"

end
