(* ===== verification/Podman_Laws.thy ===== *)
theory Podman_Laws
  imports Podman_Ops Host_Laws
begin

text \<open>
  Properties of the operations on container images: reading of build information, what remains of an
  image mount and of a temporary container, and the alignment of an extended initrd.
\<close>

section \<open>Build information\<close>

lemma safe_char: "shell_safe c \<Longrightarrow> \<not> sh_space c \<and> c \<noteq> quot \<and> c \<noteq> dquot \<and> c \<noteq> backslash \<and> \<not> is_space c \<and> c \<noteq> CHR ''#''"
  by (auto simp: shell_safe_def sh_space_def is_space_def Let_def)

lemma shlex_safe: "list_all shell_safe s \<Longrightarrow> shlex_go Word q tok (s @ rest) = shlex_go Word q (rev s @ tok) rest"
  by (induction s arbitrary: tok) (auto dest: safe_char)

lemma shlex_quoted:
  "shlex_go (Quoted quot) True tok (concat (map quote_char s) @ quot # rest) = shlex_go Word True (rev s @ tok) rest"
  by (induction s arbitrary: tok) (auto simp: quote_char_def sh_space_def)

lemma shlex_quote_word: "shlex_go Word q tok (shlex_quote s) = shlex_go Word (q \<or> s = [] \<or> \<not> list_all shell_safe s) (rev s @ tok) []"
proof -
  consider "s = []" | "s \<noteq> []" "list_all shell_safe s" | "s \<noteq> []" "\<not> list_all shell_safe s" by blast
  then show ?thesis
  proof cases
    case 1
    then show ?thesis by (simp add: shlex_quote_def sh_space_def)
  next
    case 2
    then show ?thesis using shlex_safe [of s q tok "[]"] by (simp add: shlex_quote_def)
  next
    case 3
    then show ?thesis using shlex_quoted [of tok s "[]"] by (simp add: shlex_quote_def sh_space_def)
  qed
qed

definition shvar_key :: "string \<Rightarrow> bool" where
  "shvar_key k \<longleftrightarrow> k \<noteq> [] \<and> list_all shell_safe k \<and> CHR ''='' \<notin> set k"

lemma shlex_split_var: "shvar_key k \<Longrightarrow> shlex_split (k @ ''='' @ shlex_quote v) = Inr [k @ ''='' @ v]"
proof -
  assume k: "shvar_key k"
  then obtain c cs where kc: "k = c # cs" by (cases k) (auto simp: shvar_key_def)
  have safe: "list_all shell_safe (cs @ ''='')" "shell_safe c" using k kc by (auto simp: shvar_key_def shell_safe_def)
  have "shlex_go Between False [] (k @ ''='' @ shlex_quote v) = shlex_go Word False [c] ((cs @ ''='') @ shlex_quote v)"
    using safe_char [OF safe(2)] by (simp add: kc)
  also have "\<dots> = shlex_go Word False (rev (cs @ ''='') @ [c]) (shlex_quote v)" using safe(1) by (rule shlex_safe)
  also have "\<dots> = Some [k @ ''='' @ v]" unfolding shlex_quote_word by (simp add: kc)
  finally show ?thesis by (simp add: shlex_split_def)
qed

lemma strip_ends: "s \<noteq> [] \<Longrightarrow> \<not> is_space (hd s) \<Longrightarrow> \<not> is_space (last s) \<Longrightarrow> py_strip s = s"
proof -
  assume s: "s \<noteq> []" "\<not> is_space (hd s)" "\<not> is_space (last s)"
  then have "dropWhile is_space s = s" by (cases s) auto
  moreover have "dropWhile is_space (rev s) = rev s" using s by (cases s rule: rev_cases) auto
  ultimately show ?thesis by (simp add: py_strip_def py_lstrip_def py_rstrip_def)
qed

lemma quote_last: "\<not> is_space (last (''='' @ shlex_quote v))"
proof (cases "v \<noteq> [] \<and> list_all shell_safe v")
  case True
  then have "shell_safe (last v)" by (simp add: list_all_iff)
  then show ?thesis using True safe_char by (simp add: shlex_quote_def)
next
  case False
  then show ?thesis by (auto simp: shlex_quote_def is_space_def)
qed

lemma parse_shline_var:
  assumes "shvar_key k"
  shows "parse_shline (k @ ''='' @ shlex_quote v) d = Inr (dict_set d k (PyStr v))"
proof -
  let ?l = "k @ ''='' @ shlex_quote v"
  obtain c cs where kc: "k = c # cs" "shell_safe c" using assms by (cases k) (auto simp: shvar_key_def)
  have "py_strip ?l = ?l"
    using quote_last [of v] safe_char [OF kc(2)] by (intro strip_ends) (simp_all add: kc)
  moreover have "\<not> starts_with ?l ''#''" using safe_char [OF kc(2)] by (auto simp: kc)
  moreover have "shvar_token (k @ ''='' @ v) = [(k, v)]"
    using assms break_at_char_fresh [of "CHR ''=''" k v] by (simp add: shvar_token_def shvar_key_def)
  ultimately show ?thesis using shlex_split_var [OF assms, of v] kc(1) by (simp add: parse_shline_def Let_def)
qed

lemma quote_newline: "CHR 0x0A \<notin> set v \<Longrightarrow> CHR 0x0A \<notin> set (shlex_quote v)"
  by (auto simp: shlex_quote_def quote_char_def)

text \<open>
  The build information of an image reads back as it was written: a file with a line \<open>key=value\<close> per
  variable, the value quoted for the shell, gives the variables with their values; a later line wins.
\<close>

theorem shvars_roundtrip:
  assumes "\<forall>(k, v) \<in> set kvs. shvar_key k \<and> CHR 0x0A \<notin> set v" and "kvs \<noteq> []"
  shows "parse_shvars (py_join [CHR 0x0A] (map (\<lambda>(k, v). k @ ''='' @ shlex_quote v) kvs)) =
    Inr (fold (\<lambda>(k, v) d. dict_set d k (PyStr v)) kvs [])"
proof -
  let ?ls = "map (\<lambda>(k, v). k @ ''='' @ shlex_quote v) kvs"
  have "CHR 0x0A \<notin> set k" if "shvar_key k" for k
    using that by (auto simp: shvar_key_def list_all_iff shell_safe_def Let_def)
  then have "\<forall>l \<in> set ?ls. CHR 0x0A \<notin> set l" using assms(1) quote_newline by fastforce
  then have split: "py_split [CHR 0x0A] (py_join [CHR 0x0A] ?ls) = ?ls" using assms(2) by (intro py_split_join_char) auto
  have "res_fold parse_shline ?ls d = Inr (fold (\<lambda>(k, v) d. dict_set d k (PyStr v)) kvs d)" for d
    using assms(1) by (induction kvs arbitrary: d) (auto simp: parse_shline_var simp del: append.simps)
  then show ?thesis unfolding parse_shvars_def split .
qed

theorem shvars_roundtrip_witness:
  "parse_shvars (''DISTRO=autosd10'' @ [CHR 0x0A] @ ''NAME='' @ [quot] @ ''a b'' @ [quot]) =
    Inr [(''DISTRO'', PyStr ''autosd10''), (''NAME'', PyStr ''a b'')]"
proof -
  have ok: "\<forall>(k, v) \<in> set [(''DISTRO'', ''autosd10''), (''NAME'', ''a b'')]. shvar_key k \<and> CHR 0x0A \<notin> set v"
    by (simp add: shvar_key_def shell_safe_def Let_def)
  have q: "shlex_quote ''autosd10'' = ''autosd10''" "shlex_quote ''a b'' = [quot] @ ''a b'' @ [quot]" by code_simp+
  show ?thesis using shvars_roundtrip [OF ok] by (simp add: q)
qed

section \<open>Image mounts\<close>

definition unmount_event :: "podman_env \<Rightarrow> image_mount \<Rightarrow> event" where
  "unmount_event pe mt =
     Ev_Run (sudo_cmd pe (cs_with_sudo (im_storage mt))
       (unshared pe @ podman_of (im_storage mt) @ [''unmount'', the (im_container mt)]))"

definition commit_command :: "podman_env \<Rightarrow> image_mount \<Rightarrow> string list" where
  "commit_command pe mt =
     sudo_cmd pe (cs_with_sudo (im_storage mt))
       (podman_of (im_storage mt) @ [''commit'', the (im_container mt)] @
         (case im_commit mt of Some i \<Rightarrow> if i \<noteq> [] then [i] else [] | None \<Rightarrow> []))"

definition remove_event :: "podman_env \<Rightarrow> image_mount \<Rightarrow> event" where
  "remove_event pe mt =
     Ev_Run (sudo_cmd pe (cs_with_sudo (im_storage mt)) (podman_of (im_storage mt) @ [''rm'', the (im_container mt)]))"

text \<open>Single commands, when podman is installed.\<close>

lemma code_cmd_log:
  assumes "\<And>log cmd. oe_run (pe_os pe) log cmd \<noteq> Cmd_Missing"
  shows "\<exists>rc. code_cmd pe sudo False args w = (Inr rc, w\<lparr>rw_log := rw_log w @ [Ev_Run (sudo_cmd pe sudo args)]\<rparr>)"
  using assms [of "rw_log w" "sudo_cmd pe sudo args"]
  by (auto simp: code_cmd_def andthen_def execute_def ret_def split: cmd_result.split)

lemma capture_cmd_log:
  "snd (capture_cmd pe sudo args w) = w\<lparr>rw_log := rw_log w @ [Ev_Run (sudo_cmd pe sudo args)]\<rparr> \<and>
   (isl (fst (capture_cmd pe sudo args w)) \<longleftrightarrow> (\<forall>out. oe_run (pe_os pe) (rw_log w) (sudo_cmd pe sudo args) \<noteq> Cmd_Ok out))"
  by (auto simp: capture_cmd_def andthen_def ask_def execute_def ret_def raise_exn_def split: cmd_result.split)

text \<open>
  C18: A writable mount of an image: however the block ends, the container is unmounted; it is committed
  to a new image exactly when the block returned normally; and it is removed unless the commit failed.
\<close>

theorem mount_bracket:
  assumes "im_enter pe mt w = (Inr mt1, w0)" and "set_text (im_path mt1)" and "im_writable mt1" and "set_text (im_container mt1)"
    and "body mt1 w0 = (rb, w1)" and "\<And>log cmd. oe_run (pe_os pe) log cmd \<noteq> Cmd_Missing"
  shows "rw_log (snd (with_mount pe mt body w)) = rw_log w1 @ [unmount_event pe mt1] @
    (if isl rb then [remove_event pe mt1]
     else Ev_Run (commit_command pe mt1) #
       (if \<exists>out. oe_run (pe_os pe) (rw_log w1 @ [unmount_event pe mt1]) (commit_command pe mt1) = Cmd_Ok out
        then [remove_event pe mt1] else []))"
proof -
  let ?sudo = "cs_with_sudo (im_storage mt1)" and ?podman = "podman_of (im_storage mt1)" and ?c = "the (im_container mt1)"
  let ?commit = "?podman @ [''commit'', ?c] @ (case im_commit mt1 of Some i \<Rightarrow> if i \<noteq> [] then [i] else [] | None \<Rightarrow> [])"
  define w2 where "w2 = w1\<lparr>rw_log := rw_log w1 @ [unmount_event pe mt1]\<rparr>"
  obtain rc where u: "code_cmd pe ?sudo False (unshared pe @ ?podman @ [''unmount'', ?c]) w1 = (Inr rc, w2)"
    using code_cmd_log [OF assms(6)] unfolding w2_def unmount_event_def by blast
  have rm: "snd (capture_cmd pe ?sudo (?podman @ [''rm'', ?c]) v) = v\<lparr>rw_log := rw_log v @ [remove_event pe mt1]\<rparr>" for v
    using capture_cmd_log unfolding remove_event_def by blast
  have run_exit: "snd (im_exit pe mt1 raised w1) =
      snd (andthen (if raised then ret mt1
         else andthen (capture_cmd pe ?sudo ?commit) (\<lambda>i. ret (mt1\<lparr>im_image_id := Some i\<rparr>)))
       (\<lambda>mt'. seq (capture_cmd pe ?sudo (?podman @ [''rm'', ?c])) (ret mt')) w2)" for raised
    using assms(2-4) u by (simp add: im_exit_def im_run_def im_capture_def Let_def seq_def andthen_def)
  have removed: "rw_log (snd (seq (capture_cmd pe ?sudo (?podman @ [''rm'', ?c])) (ret mt') v)) = rw_log v @ [remove_event pe mt1]" for v mt'
    using rm [of v] by (cases "capture_cmd pe ?sudo (?podman @ [''rm'', ?c]) v")
      (auto simp: seq_def andthen_def ret_def split: sum.splits)
  have whole: "snd (with_mount pe mt body w) = snd (im_exit pe mt1 (isl rb) w1)"
    using assms(1,5) by (cases rb) (auto simp: with_mount_def andthen_def split: prod.splits sum.splits)
  show ?thesis
  proof (cases rb)
    case (Inl e)
    then show ?thesis unfolding whole run_exit using removed [of mt1 w2] by (simp add: andthen_def ret_def w2_def)
  next
    case (Inr x)
    obtain rr w3 where c: "capture_cmd pe ?sudo ?commit w2 = (rr, w3)" by fastforce
    then have w3: "w3 = w2\<lparr>rw_log := rw_log w2 @ [Ev_Run (commit_command pe mt1)]\<rparr>"
      and ok: "isl rr \<longleftrightarrow> (\<forall>out. oe_run (pe_os pe) (rw_log w2) (commit_command pe mt1) \<noteq> Cmd_Ok out)"
      using capture_cmd_log [of pe ?sudo ?commit w2] by (auto simp: commit_command_def)
    show ?thesis unfolding whole run_exit
      using Inr c w3 ok removed [of _ w3] by (cases rr) (auto simp: andthen_def ret_def w2_def)
  qed
qed

definition sample_storage :: container_storage where
  "sample_storage = \<lparr>cs_with_sudo = False, cs_storage = ''/s'', cs_runroot = ''/r'', cs_driver = ''overlay'', cs_tmpdir = ''/t'',
     cs_config_path = None\<rparr>"

definition sample_pe :: podman_env where
  "sample_pe = \<lparr>pe_os = calm_env, pe_fs = plain_fs, pe_priv = ROOT, pe_in_rootless = False, pe_json = (\<lambda>s. Inr PyNone),
     pe_stderr = (\<lambda>log cmd. []), pe_tmpname = (\<lambda>log p. p @ ''x''), pe_bytes = (\<lambda>log p. [])\<rparr>"

theorem mount_bracket_witness:
  "rw_log (snd (with_mount sample_pe (image_mount sample_storage ''img'' True None) (\<lambda>m. raise_exn Keyboard_Interrupt) start_world)) =
     rw_log (snd (im_enter sample_pe (image_mount sample_storage ''img'' True None) start_world)) @
       [Ev_Run (podman_of sample_storage @ [''unmount'', ''done'']), Ev_Run (podman_of sample_storage @ [''rm'', ''done''])]"
proof -
  define mt1 where "mt1 = (image_mount sample_storage ''img'' True None)\<lparr>im_container := Some ''done'', im_path := Some ''done''\<rparr>"
  have "fst (im_enter sample_pe (image_mount sample_storage ''img'' True None) start_world) = Inr mt1"
    unfolding mt1_def by code_simp
  then have e: "im_enter sample_pe (image_mount sample_storage ''img'' True None) start_world =
      (Inr mt1, snd (im_enter sample_pe (image_mount sample_storage ''img'' True None) start_world))"
    by (metis prod.collapse)
  have t: "set_text (im_path mt1)" "im_writable mt1" "set_text (im_container mt1)" "im_storage mt1 = sample_storage" "the (im_container mt1) = ''done''"
    by (simp_all add: mt1_def set_text_def image_mount_def)
  have n: "oe_run (pe_os sample_pe) log cmd \<noteq> Cmd_Missing" for log cmd by (simp add: sample_pe_def calm_env_def)
  from mount_bracket [OF e t(1-3) _ n, of "\<lambda>m. raise_exn Keyboard_Interrupt"] show ?thesis
    by (simp add: raise_exn_def unmount_event_def remove_event_def t(4,5) sudo_cmd_def sample_storage_def unshared_def
        sample_pe_def podman_needs_unshare_def)
qed

section \<open>Temporary containers\<close>

text \<open>
  A temporary container never changes how its block ends, as long as podman is there, and at the end
  its image was looked up and, if it existed, removed.
\<close>

theorem temp_container_transparent:
  assumes "body w = (r, w1)" and "tc_cleanup tc" and "\<not> tc_removed tc" and "\<And>log cmd. oe_run (pe_os pe) log cmd \<noteq> Cmd_Missing"
  defines "sudo \<equiv> cs_with_sudo (tc_storage tc)"
    and "exists_cmd \<equiv> podman_of (tc_storage tc) @ [''image'', ''exists'', tc_name tc]"
    and "rm_cmd \<equiv> podman_of (tc_storage tc) @ [''image'', ''rm'', tc_name tc]"
  shows "fst (with_temp_container pe tc body w) = r \<and>
    rw_log (snd (with_temp_container pe tc body w)) = rw_log w1 @ Ev_Run (sudo_cmd pe sudo exists_cmd) #
      (if \<exists>out. oe_run (pe_os pe) (rw_log w1) (sudo_cmd pe sudo exists_cmd) \<in> {Cmd_Ok out, Cmd_Exit 0}
       then [Ev_Run (sudo_cmd pe sudo rm_cmd)] else [])"
proof -
  define w2 where "w2 = w1\<lparr>rw_log := rw_log w1 @ [Ev_Run (sudo_cmd pe sudo exists_cmd)]\<rparr>"
  define there where "there = (\<exists>out. oe_run (pe_os pe) (rw_log w1) (sudo_cmd pe sudo exists_cmd) \<in> {Cmd_Ok out, Cmd_Exit 0})"
  let ?log = "rw_log w1 @ Ev_Run (sudo_cmd pe sudo exists_cmd) # (if there then [Ev_Run (sudo_cmd pe sudo rm_cmd)] else [])"
  have e: "podman_image_exists pe (tc_storage tc) (tc_name tc) w1 = (Inr there, w2)"
    using assms(4) [of "rw_log w1" "sudo_cmd pe sudo exists_cmd"]
    by (auto simp: podman_image_exists_def code_cmd_def andthen_def execute_def ret_def there_def w2_def
        sudo_def [symmetric] exists_cmd_def [symmetric] split: cmd_result.split)
  obtain rc where rm: "code_cmd pe sudo False rm_cmd w2 = (Inr rc, w2\<lparr>rw_log := rw_log w2 @ [Ev_Run (sudo_cmd pe sudo rm_cmd)]\<rparr>)"
    using code_cmd_log [OF assms(4)] by blast
  have "tc_exit pe tc w1 = (Inr (tc\<lparr>tc_removed := True\<rparr>), w1\<lparr>rw_log := ?log\<rparr>)"
    using assms(2,3) e rm
    by (simp add: tc_exit_def tc_do_cleanup_def with_except_def andthen_def seq_def ret_def podman_image_rm_def
        sudo_def [symmetric] rm_cmd_def [symmetric] w2_def)
  then show ?thesis using assms(1)
    unfolding there_def [symmetric] by (simp add: with_temp_container_def with_finally_def seq_def andthen_def ret_def)
qed

theorem temp_container_transparent_witness:
  "fst (with_temp_container sample_pe (temporary_container sample_storage ''tmp'')
     (raise_exn Keyboard_Interrupt :: (run_world, unit) prog) start_world) = Inl Keyboard_Interrupt"
proof -
  have body: "raise_exn Keyboard_Interrupt start_world = (Inl Keyboard_Interrupt :: unit res, start_world)"
    by (simp add: raise_exn_def)
  have n: "oe_run (pe_os sample_pe) log cmd \<noteq> Cmd_Missing" for log cmd by (simp add: sample_pe_def calm_env_def)
  show ?thesis
    using temp_container_transparent [where body = "raise_exn Keyboard_Interrupt :: (run_world, unit) prog" and w = start_world and r = "Inl Keyboard_Interrupt",
        OF body _ _ n, of "temporary_container sample_storage ''tmp''"]
    by (simp add: temporary_container_def)
qed

section \<open>The initrd\<close>

text \<open>
  The archive that is appended to an initrd starts at a multiple of four bytes, behind the unchanged
  initrd and at most three zero bytes.
\<close>

theorem initrd_aligned:
  "\<exists>pad. append_initrd initrd archive = initrd @ pad @ archive \<and> set pad \<subseteq> {0} \<and> length pad < 4 \<and>
    length (initrd @ pad) mod 4 = 0"
proof -
  have "(n + (4 - n mod 4) mod 4) mod 4 = 0" for n :: nat
  proof (cases "n mod 4 = 0")
    case False
    then have "(4 - n mod 4) mod 4 = 4 - n mod 4" by simp
    moreover have "n + (4 - n mod 4) = (n div 4 + 1) * 4"
      by presburger
    ultimately show ?thesis by simp
  qed simp
  then have "(length initrd + initrd_padding (length initrd)) mod 4 = 0" "initrd_padding (length initrd) < 4"
    unfolding initrd_padding_def by simp_all
  then show ?thesis
    by (intro exI [of _ "replicate (initrd_padding (length initrd)) 0"]) (auto simp: append_initrd_def)
qed

end
