(* ===== verification/Osbuild.thy ===== *)
theory Osbuild
  imports Build_Defines Podman_Ops
begin

text \<open>
  Running osbuild (the rest of \<open>src/aib/osbuild.py\<close>): what is read from and added to an osbuild
  manifest, the checks of the build directory, the command line, and the export of a disk image.
\<close>

section \<open>Reading an osbuild manifest\<close>

text \<open>\<open>xs[0]\<close>, and the first key of \<open>list(d)[0]\<close>.\<close>

definition py_first :: "pyval \<Rightarrow> pyval res" where
  "py_first v =
     (case v of
        PyList (x # xs) \<Rightarrow> Inr x
      | PyList [] \<Rightarrow> Inl Index_Error
      | PyDict d \<Rightarrow> Inl Key_Error
      | PyStr (c # cs) \<Rightarrow> Inr (PyStr [c])
      | PyStr [] \<Rightarrow> Inl Index_Error
      | _ \<Rightarrow> Inl Type_Error)"

definition py_list :: "pyval \<Rightarrow> pyval res" where
  "py_list v = res_map PyList (py_iter v)"

text \<open>The first pipeline of a name; an item that is no dictionary raises.\<close>

fun find_pipeline :: "string \<Rightarrow> pyval list \<Rightarrow> pyval option res" where
  "find_pipeline name [] = Inr None"
| "find_pipeline name (p # ps) =
     res_bind (py_get_or p ''name'' PyNone) (\<lambda>n. if py_eq n (PyStr name) then Inr (Some p) else find_pipeline name ps)"

definition key_text :: "pyval \<Rightarrow> string res" where
  "key_text v = (case v of PyStr s \<Rightarrow> Inr s | _ \<Rightarrow> Inl Key_Error)"

definition extract_rpmlist_json :: "(string \<Rightarrow> string res) \<Rightarrow> pyval \<Rightarrow> string res" where
  "extract_rpmlist_json b64decode d =
     res_bind (res_bind (py_item d ''pipelines'') py_iter) (\<lambda>pipelines.
     res_bind (find_pipeline ''rpmlist'' pipelines) (\<lambda>rpmlist.
     res_bind (py_item (case rpmlist of Some p \<Rightarrow> p | None \<Rightarrow> PyNone) ''stages'') (\<lambda>stages.
     res_bind (py_first stages) (\<lambda>stage.
     res_bind (py_item stage ''inputs'') (\<lambda>inputs.
     res_bind (py_item inputs ''inlinefile'') (\<lambda>inlinefile.
     res_bind (py_item inlinefile ''references'') (\<lambda>refs.
     res_bind (res_bind (py_list refs) py_first) (\<lambda>first_ref.
     res_bind (key_text first_ref) (\<lambda>digest.
     res_bind (py_item d ''sources'') (\<lambda>sources.
     res_bind (py_item sources ''org.osbuild.inline'') (\<lambda>inline.
     res_bind (py_item inline ''items'') (\<lambda>items.
     res_bind (py_item items digest) (\<lambda>item.
     res_bind (res_bind (py_item item ''data'') as_text) b64decode)))))))))))))"

text \<open>The ids of the stages of a kind in the first pipeline of a name, as \<open>osbuild --inspect\<close> reports them.\<close>

fun stage_ids :: "string \<Rightarrow> pyval list \<Rightarrow> string list res" where
  "stage_ids stage_name [] = Inr []"
| "stage_ids stage_name (s # ss) =
     res_bind (py_item s ''type'') (\<lambda>t.
       if py_eq t (PyStr stage_name) then
         res_bind (res_bind (py_item s ''id'') as_text) (\<lambda>i. res_map (\<lambda>is. i # is) (stage_ids stage_name ss))
       else stage_ids stage_name ss)"

fun pipeline_stage_ids :: "string \<Rightarrow> string \<Rightarrow> pyval list \<Rightarrow> string list res" where
  "pipeline_stage_ids pipeline_name stage_name [] = Inr []"
| "pipeline_stage_ids pipeline_name stage_name (p # ps) =
     res_bind (py_item p ''name'') (\<lambda>n.
       if \<not> py_eq n (PyStr pipeline_name) then pipeline_stage_ids pipeline_name stage_name ps
       else res_bind (res_bind (py_get_or p ''stages'' (PyList [])) py_iter) (stage_ids stage_name))"

section \<open>Labels\<close>

definition build_digest_label :: string where
  "build_digest_label = ''io.github.centos.automotive.build-digest''"

definition label_name :: "string \<Rightarrow> string" where
  "label_name label = (case break_at ''='' label of Some (k, v) \<Rightarrow> k | None \<Rightarrow> label)"

definition new_labels :: "string list \<Rightarrow> (string \<times> string) list \<Rightarrow> string list" where
  "new_labels existing labels =
     filter (\<lambda>l. label_name l \<notin> fst ` set labels) existing @ map (\<lambda>(k, v). k @ ''='' @ v) labels"

definition label_stage :: "(string \<times> string) list \<Rightarrow> dict \<Rightarrow> dict res" where
  "label_stage labels stage =
     (case dict_get_or stage ''options'' (PyDict []) of
        PyDict options \<Rightarrow>
          res_bind (py_iter (dict_get_or options ''labels'' (PyList []))) (\<lambda>ls.
          res_map (\<lambda>existing. dict_set stage ''options''
              (PyDict (dict_set options ''labels'' (PyList (map PyStr (new_labels existing labels))))))
            (res_mapM (\<lambda>l. case l of PyStr s \<Rightarrow> Inr s | _ \<Rightarrow> Inl Attribute_Error) ls))
      | _ \<Rightarrow> Inl Attribute_Error)"

text \<open>The first encapsulate stage gets the labels; None if there is none.\<close>

fun label_stages :: "(string \<times> string) list \<Rightarrow> pyval list \<Rightarrow> pyval list option res" where
  "label_stages labels [] = Inr None"
| "label_stages labels (s # ss) =
     res_bind (py_item s ''type'') (\<lambda>t.
       if py_eq t (PyStr ''org.osbuild.ostree.encapsulate'') then
         (case s of PyDict d \<Rightarrow> res_map (\<lambda>d'. Some (PyDict d' # ss)) (label_stage labels d) | _ \<Rightarrow> Inl Type_Error)
       else res_map (map_option ((#) s)) (label_stages labels ss))"

fun label_pipelines :: "(string \<times> string) list \<Rightarrow> pyval list \<Rightarrow> pyval list option res" where
  "label_pipelines labels [] = Inr None"
| "label_pipelines labels (p # ps) =
     res_bind (py_get_or p ''name'' PyNone) (\<lambda>n.
       if \<not> py_eq n (PyStr ''bootc-archive'') then res_map (map_option ((#) p)) (label_pipelines labels ps)
       else
         res_bind (res_bind (py_get_or p ''stages'' (PyList [])) py_iter) (\<lambda>ss.
         res_bind (label_stages labels ss) (\<lambda>r.
           case r of
             Some ss' \<Rightarrow> Inr (Some ((case p of PyDict d \<Rightarrow> PyDict (dict_set d ''stages'' (PyList ss')) | v \<Rightarrow> v) # ps))
           | None \<Rightarrow> res_map (map_option ((#) p)) (label_pipelines labels ps))))"

definition add_bootc_archive_labels :: "pyval \<Rightarrow> (string \<times> string) list \<Rightarrow> pyval res" where
  "add_bootc_archive_labels manifest labels =
     res_bind (res_bind (py_item manifest ''pipelines'') py_iter) (\<lambda>ps.
     res_bind (label_pipelines labels ps) (\<lambda>r.
       case (r, manifest) of
         (Some ps', PyDict d) \<Rightarrow> Inr (PyDict (dict_set d ''pipelines'' (PyList ps')))
       | _ \<Rightarrow> Inl (AIB_Exception ''No bootc-archive encapsulate stage in manifest'')))"

section \<open>Skipping a build\<close>

record build_etag =
  et_old :: "string option"
  et_new :: "string option"

definition should_build :: "build_etag \<Rightarrow> string \<Rightarrow> bool \<times> build_etag" where
  "should_build etag new = (et_old etag = None \<or> et_old etag \<noteq> Some new, etag\<lparr>et_new := Some new\<rparr>)"

section \<open>Build directory\<close>

definition nfs_super_magic :: int where "nfs_super_magic = 0x6969"
definition afs_super_magic :: int where "afs_super_magic = 0x5346414F"

text \<open>The type of the file system; None is an OSError of statfs.\<close>

definition validate_builddir :: "string \<Rightarrow> int option \<Rightarrow> unit res" where
  "validate_builddir builddir fs_type =
     (if fs_type = Some nfs_super_magic then
        Inl (AIB_Exception (''Build directory '' @ [quot] @ builddir @ [quot] @ '' is on an NFS filesystem, which is not supported.''))
      else if fs_type = Some afs_super_magic then
        Inl (AIB_Exception (''Build directory '' @ [quot] @ builddir @ [quot] @ '' is on an AFS filesystem, which is not supported.''))
      else Inr ())"

definition get_osbuild_state_dir :: "privilege \<Rightarrow> string \<Rightarrow> string" where
  "get_osbuild_state_dir p builddir = path_join builddir (osbuild_store_subdir p)"

section \<open>Composing the manifest\<close>

text \<open>
  The arguments of a command beyond those of the build defines, and what the outside answers: files as
  YAML and JSON documents, digests, file systems, names of temporary directories.
\<close>

record run_args =
  ra_build :: build_args
  ra_build_dir :: "string option"
  ra_osbuild_manifest :: "string option"
  ra_cache_max_size :: "string option"
  ra_progress :: bool
  ra_log_file :: "string option"

record run_env =
  re_podman :: podman_env
  re_build :: build_env
  re_read_json :: "event list \<Rightarrow> string \<Rightarrow> pyval res"
  re_file_digest :: "event list \<Rightarrow> string \<Rightarrow> string res"
  re_dump_yaml :: "dict \<Rightarrow> string"
  re_dump_json :: "pyval \<Rightarrow> string"
  re_fs_type :: "event list \<Rightarrow> string \<Rightarrow> int option"
  re_mkdtemp :: "event list \<Rightarrow> string \<Rightarrow> string \<Rightarrow> string"
  re_resolve :: "string \<Rightarrow> string"

abbreviation re_os :: "run_env \<Rightarrow> os_env" where "re_os re \<equiv> pe_os (re_podman re)"
abbreviation re_priv :: "run_env \<Rightarrow> privilege" where "re_priv re \<equiv> pe_priv (re_podman re)"

definition last_word :: "string \<Rightarrow> string res" where
  "last_word s = (if py_words s = [] then Inl Index_Error else Inr (last (py_words s)))"

definition get_osbuild_major_version :: "run_env \<Rightarrow> ('a run_world_scheme, int) prog" where
  "get_osbuild_major_version re =
     andthen (capture_as_user (re_os re) (re_priv re) [''/usr/bin/osbuild'', ''--version'']) (\<lambda>out.
       lift_res (case out of
           None \<Rightarrow> Inl Attribute_Error
         | Some text \<Rightarrow> res_bind (last_word text) (\<lambda>v.
             case py_int (hd (py_split ''.'' v)) of Some n \<Rightarrow> Inr n | None \<Rightarrow> Inl Value_Error)))"

definition parent_refs :: "run_env \<Rightarrow> build_args \<Rightarrow> ('a run_world_scheme, (string \<times> string) list) prog" where
  "parent_refs re a =
     (case ba_ostree_repo a of
        None \<Rightarrow> ret []
      | Some repo \<Rightarrow>
          if repo = [] then ret []
          else andthen (path_exists (re_os re) repo) (\<lambda>there.
            seq (make_ostree (re_os re) (re_priv re) there repo)
              (andthen (ostree_refs (re_os re) (re_priv re) repo) (ostree_revs (re_os re) (re_priv re) repo))))"

text \<open>
  The whole of \<open>create_osbuild_manifest\<close>: the version of osbuild and the parent commits are asked for, the
  two documents are written, and the preprocessor runs on them as root.
\<close>

definition compose_manifest ::
  "run_env \<Rightarrow> build_args \<Rightarrow> string \<Rightarrow> string \<Rightarrow> container_storage option \<Rightarrow>
    ('a run_world_scheme, container_storage option) prog" where
  "compose_manifest re a tmpdir out storage =
     andthen (get_osbuild_major_version re) (\<lambda>major.
     andthen (parent_refs re a) (\<lambda>refs.
     let be = (re_build re)\<lparr>be_osbuild_major := major, be_ostree_refs := refs\<rparr>
     in andthen (lift_res (create_osbuild_manifest be a tmpdir out None)) (\<lambda>mi.
        seq (file_op (re_os re) (Ev_Write (path_join tmpdir ''manifest-variables.ipp.yml'') (re_dump_yaml re (mi_variables mi))))
          (seq (file_op (re_os re) (Ev_Write (path_join tmpdir ''manifest.ipp.yml'') (re_dump_yaml re (mi_manifest mi))))
            (case storage of
               None \<Rightarrow> seq (run_as_root (re_os re) (re_priv re) (mi_cmdline mi)) (ret None)
             | Some cs \<Rightarrow>
                 andthen (get_config_path (re_podman re) cs) (\<lambda>(conf, cs').
                   seq (run_as_root (re_os re) (re_priv re) (mpp_cmdline be a tmpdir (mi_defines mi) out (Some conf)))
                     (ret (Some cs'))))))))"

section \<open>The command line of osbuild\<close>

definition checkpoint_names :: "string list" where
  "checkpoint_names = [''build'', ''extra-tree-content'', ''qm_rootfs_base'', ''qm_rootfs'', ''data'', ''rootfs'']"

definition flag_each :: "string \<Rightarrow> string list \<Rightarrow> string list" where
  "flag_each flag xs = concat (map (\<lambda>x. [flag, x]) xs)"

definition default_build_cache_max_size :: string where
  "default_build_cache_max_size = ''4GB''"

text \<open>\<open>rpm_ids\<close> is only used with a build directory.\<close>

definition osbuild_cmdline ::
  "run_args \<Rightarrow> string \<Rightarrow> string \<Rightarrow> bool \<Rightarrow> string list \<Rightarrow> string list \<Rightarrow> string list \<Rightarrow> string \<Rightarrow> string list" where
  "osbuild_cmdline args store outdir builddir_created rpm_ids exports in_vm manifest =
     [''osbuild'', ''--store'', store, ''--output-directory'', outdir] @
     (case ra_build_dir args of
        None \<Rightarrow> []
      | Some d \<Rightarrow> if d = [] then [] else flag_each ''--checkpoint'' (checkpoint_names @ rpm_ids)) @
     (case ra_cache_max_size args of
        Some sz \<Rightarrow> [''--cache-max-size='' @ sz]
      | None \<Rightarrow> if builddir_created then [''--cache-max-size='' @ default_build_cache_max_size] else []) @
     (if ra_progress args then [''--monitor'', ''JSONSeqMonitor''] else []) @
     flag_each ''--export'' exports @
     flag_each ''--in-vm'' in_vm @
     [manifest]"

definition osbuild_stage_ids :: "run_env \<Rightarrow> string \<Rightarrow> string \<Rightarrow> string \<Rightarrow> ('a run_world_scheme, string list) prog" where
  "osbuild_stage_ids re manifest pipeline_name stage_name =
     andthen (capture_as_root (re_os re) (re_priv re) [''osbuild'', ''--inspect'', manifest]) (\<lambda>out.
       lift_res (case out of
           None \<Rightarrow> Inl Type_Error
         | Some text \<Rightarrow>
             res_bind (pe_json (re_podman re) text) (\<lambda>d.
             res_bind (res_bind (py_item d ''pipelines'') py_iter) (pipeline_stage_ids pipeline_name stage_name))))"

section \<open>Running osbuild\<close>

definition make_tmpdir :: "run_env \<Rightarrow> string \<Rightarrow> string \<Rightarrow> ('a run_world_scheme, tmpdir) prog" where
  "make_tmpdir re pre dir =
     andthen (ask (\<lambda>w. re_mkdtemp re (rw_log w) pre dir)) (\<lambda>path.
       seq (file_op (re_os re) (Ev_Mkdir path))
         (ret \<lparr>td_path = path, td_base = re_resolve re dir, td_keep_once = False, td_use_sudo = True, td_closed = False\<rparr>))"

text \<open>
  \<open>with SudoTemporaryDirectory(...) as td: body\<close>, where the body may return the directory it detached: on
  an exception the directory is cleaned up and the exception goes on.
\<close>

definition with_tmpdir ::
  "run_env \<Rightarrow> tmpdir \<Rightarrow> ('a run_world_scheme, 'b \<times> tmpdir) prog \<Rightarrow> ('a run_world_scheme, 'b \<times> tmpdir) prog" where
  "with_tmpdir re td body w =
     (case body w of
        (Inl e, w1) \<Rightarrow>
          (case td_exit (re_os re) (pe_fs (re_podman re)) (re_priv re) td w1 of (Inl e', w2) \<Rightarrow> (Inl e', w2) | (Inr td', w2) \<Rightarrow> (Inl e, w2))
      | (Inr (x, td1), w1) \<Rightarrow>
          (case td_exit (re_os re) (pe_fs (re_podman re)) (re_priv re) td1 w1 of (Inl e', w2) \<Rightarrow> (Inl e', w2) | (Inr td', w2) \<Rightarrow> (Inr (x, td'), w2)))"

definition check_lockfile :: "run_env \<Rightarrow> build_args \<Rightarrow> ('a run_world_scheme, unit) prog" where
  "check_lockfile re a =
     (case ba_lockfile a of
        None \<Rightarrow> ret ()
      | Some l \<Rightarrow>
          if l = [] then ret ()
          else andthen (path_exists (re_os re) l) (\<lambda>there.
            if there then ret () else raise_exn (AIB_Exception (''Lockfile not found: '' @ l))))"

definition chosen_manifest :: "run_args \<Rightarrow> string \<Rightarrow> string" where
  "chosen_manifest args tmpdir =
     (case ra_osbuild_manifest args of Some m \<Rightarrow> if m \<noteq> [] then m else path_join tmpdir ''osbuild.json''
      | None \<Rightarrow> path_join tmpdir ''osbuild.json'')"

text \<open>With an etag the build is skipped when the manifest has the old digest; otherwise it gets a label.\<close>

definition apply_etag :: "run_env \<Rightarrow> build_etag option \<Rightarrow> string \<Rightarrow> string \<Rightarrow> ('a run_world_scheme, string) prog" where
  "apply_etag re etag tmpdir manifest =
     (case etag of
        None \<Rightarrow> ret manifest
      | Some et \<Rightarrow>
          andthen (\<lambda>w. lift_res (re_file_digest re (rw_log w) manifest) w) (\<lambda>digest.
            if \<not> fst (should_build et digest) then raise_exn Not_Build_By_Etag
            else andthen (\<lambda>w. lift_res (re_read_json re (rw_log w) manifest) w) (\<lambda>doc.
              andthen (lift_res (add_bootc_archive_labels doc [(build_digest_label, digest)])) (\<lambda>labeled.
                let dest = path_join tmpdir ''osbuild-labeled.json''
                in seq (file_op (re_os re) (Ev_Write dest (re_dump_json re labeled))) (ret dest)))))"

definition prepare_builddir :: "run_env \<Rightarrow> run_args \<Rightarrow> string \<Rightarrow> ('a run_world_scheme, string \<times> bool) prog" where
  "prepare_builddir re args tmpdir =
     andthen
       (case ra_build_dir args of
          None \<Rightarrow> ret (tmpdir, False)
        | Some d \<Rightarrow>
            if d = [] then ret (tmpdir, False)
            else andthen (path_exists (re_os re) d) (\<lambda>there.
              seq (if there then ret () else file_op (re_os re) (Ev_Mkdir d)) (ret (d, \<not> there))))
       (\<lambda>(builddir, created).
         andthen (\<lambda>w. lift_res (validate_builddir builddir (re_fs_type re (rw_log w) builddir)) w) (\<lambda>_.
           ret (builddir, created)))"

definition run_in_outputdir ::
  "run_env \<Rightarrow> run_args \<Rightarrow> string \<times> bool \<Rightarrow> string list \<Rightarrow> string list \<Rightarrow> container_storage option \<Rightarrow> string \<Rightarrow> tmpdir \<Rightarrow>
    ('a run_world_scheme, container_storage option \<times> tmpdir) prog" where
  "run_in_outputdir re args bd exports in_vm storage manifest td =
     andthen
       (case ra_build_dir args of
          None \<Rightarrow> ret []
        | Some d \<Rightarrow> if d = [] then ret [] else osbuild_stage_ids re manifest ''rootfs'' ''org.osbuild.rpm'')
       (\<lambda>rpm_ids.
       let cmdline = osbuild_cmdline args (get_osbuild_state_dir (re_priv re) (fst bd)) (td_path td) (snd bd) rpm_ids exports in_vm manifest
       in andthen
            (case storage of
               None \<Rightarrow> ret ([], None)
             | Some cs \<Rightarrow> andthen (get_config_path (re_podman re) cs) (\<lambda>(conf, cs').
                 ret ([''env'', ''CONTAINERS_STORAGE_CONF='' @ conf], Some cs')))
            (\<lambda>(pre, storage').
              seq (run_cmd (re_os re) (re_priv re) True (ra_progress args) False (ra_log_file args) (pre @ cmdline))
                (ret (storage', detach td))))"

definition run_osbuild ::
  "run_env \<Rightarrow> run_args \<Rightarrow> string \<Rightarrow> string list \<Rightarrow> string list \<Rightarrow> container_storage option \<Rightarrow> build_etag option \<Rightarrow>
    ('a run_world_scheme, container_storage option \<times> tmpdir) prog" where
  "run_osbuild re args tmpdir exports in_vm storage etag =
     seq (check_lockfile re (ra_build args))
       (let manifest0 = chosen_manifest args tmpdir
        in andthen (compose_manifest re (ra_build args) tmpdir manifest0 storage) (\<lambda>storage1.
           andthen (apply_etag re etag tmpdir manifest0) (\<lambda>manifest.
           andthen (prepare_builddir re args tmpdir) (\<lambda>bd.
           andthen (make_tmpdir re ''image_output--'' (fst bd)) (\<lambda>td.
             with_tmpdir re td (run_in_outputdir re args bd exports in_vm storage1 manifest td))))))"

end
