(* ===== verification/Export.thy ===== *)
theory Export
  imports Osbuild Simg_Laws Podman_Laws Build_Laws
begin

text \<open>
  The export of a disk image: as a whole, or one file per partition (\<open>export_disk_image_file\<close> of
  \<open>src/aib/osbuild.py\<close> and \<open>DiskFormat.convert_image\<close> of \<open>src/aib/utils.py\<close>).  The world has the
  contents of files; what an external command does to them is a parameter.
\<close>

section \<open>Partitions\<close>

definition truncate_prefixes :: "string list" where
  "truncate_prefixes = [''boot_'', ''vbmeta_'', ''ukiboot'', ''abl_'']"

definition partition_is_safe_to_truncate :: "dict \<Rightarrow> bool res" where
  "partition_is_safe_to_truncate p =
     (let name = dict_get_or p ''name'' PyNone
      in if \<not> py_truthy name then Inr False
         else case name of PyStr s \<Rightarrow> Inr (list_ex (starts_with s) truncate_prefixes) | _ \<Rightarrow> Inl Attribute_Error)"

definition simg_types :: "string list" where
  "simg_types =
     [''20117f86-e985-4357-b9ee-374bc1d8487d'', ''4f68bce3-e8cd-4db1-96e7-fbcaf984b709'',
      ''b921b045-1df0-41c3-af44-4c6f280d3fae'', ''bc13c2ff-59e6-4262-a352-b275fd6f7172'',
      ''c12a7328-f81f-11d2-ba4b-00a0c93ec93b'', ''4d21b016-b534-45c2-a9fb-5c16e091fd2d'',
      ''edfe9f90-3a4d-11f0-b8f8-e89c256c3906'']"

definition partition_can_format :: "dict \<Rightarrow> bool res" where
  "partition_can_format p =
     (case dict_get_or p ''type'' (PyStr []) of PyStr s \<Rightarrow> Inr (py_lower s \<in> set simg_types) | _ \<Rightarrow> Inl Attribute_Error)"

text \<open>\<open>int(v)\<close> of a number or a text; the partition table has no negative numbers.\<close>

definition to_int :: "pyval \<Rightarrow> int res" where
  "to_int v =
     (case v of
        PyInt n \<Rightarrow> Inr n
      | PyBool b \<Rightarrow> Inr (if b then 1 else 0)
      | PyStr s \<Rightarrow> (case py_int s of Some n \<Rightarrow> Inr n | None \<Rightarrow> Inl Value_Error)
      | _ \<Rightarrow> Inl Type_Error)"

definition sector_bytes :: "dict \<Rightarrow> string \<Rightarrow> nat res" where
  "sector_bytes p k = res_bind (py_item (PyDict p) k) (\<lambda>v. res_map (\<lambda>n. nat (n * 512)) (to_int v))"

text \<open>The file a partition goes to, its format, and the range to copy; None is an empty partition.\<close>

definition plan_partition ::
  "sfile \<Rightarrow> disk_format \<Rightarrow> string \<Rightarrow> nat \<Rightarrow> dict \<Rightarrow> (string \<times> disk_format \<times> (nat \<times> nat) option) res" where
  "plan_partition f fmt out idx p =
     res_bind (sector_bytes p ''start'') (\<lambda>start.
     res_bind (sector_bytes p ''size'') (\<lambda>sz.
     res_bind (as_text (dict_get_or p ''name'' (PyStr (''part'' @ dec_nat idx)))) (\<lambda>name.
     res_bind (partition_can_format p) (\<lambda>can.
     let part_fmt = (if can then fmt else RAW); part_file = path_join out (name @ format_ext part_fmt)
     in res_map (\<lambda>safe.
          if safe then
            (let n = truncate_partition_size f start sz 4096
             in (part_file, part_fmt, if n = 0 then None else Some (start, n)))
          else (part_file, part_fmt, Some (start, sz)))
        (partition_is_safe_to_truncate p)))))"

section \<open>Files\<close>

record disk_world = run_world +
  dw_files :: "string \<Rightarrow> sfile option"

record disk_env =
  de_effect :: "string list \<Rightarrow> (string \<Rightarrow> sfile option) \<Rightarrow> string \<Rightarrow> sfile option"

definition plain_file :: "byte list \<Rightarrow> sfile" where
  "plain_file bs = \<lparr>sf_bytes = bs, sf_data = replicate (length bs) True\<rparr>"

definition open_file :: "string \<Rightarrow> ('a disk_world_scheme, sfile) prog" where
  "open_file p w = (case dw_files w p of Some f \<Rightarrow> (Inr f, w) | None \<Rightarrow> (Inl File_Not_Found_Error, w))"

definition store_file :: "string \<Rightarrow> sfile \<Rightarrow> ('a disk_world_scheme, unit) prog" where
  "store_file p f = update_world (\<lambda>w. w\<lparr>dw_files := (dw_files w)(p \<mapsto> f)\<rparr>)"

definition disk_cmd :: "run_env \<Rightarrow> disk_env \<Rightarrow> string list \<Rightarrow> ('a disk_world_scheme, unit) prog" where
  "disk_cmd re de cmd =
     seq (run_as_root (re_os re) (re_priv re) cmd)
       (update_world (\<lambda>w. w\<lparr>dw_files := de_effect de (run_prefix (re_priv re) @ cmd) (dw_files w)\<rparr>))"

definition chown_command :: "run_env \<Rightarrow> string \<Rightarrow> string list" where
  "chown_command re dest = [''chown'', dec_nat (oe_uid (re_os re)) @ '':'' @ dec_nat (oe_gid (re_os re)), dest]"

definition convert_image :: "run_env \<Rightarrow> disk_env \<Rightarrow> disk_format \<Rightarrow> string \<Rightarrow> string \<Rightarrow> ('a disk_world_scheme, unit) prog" where
  "convert_image re de fmt src dest =
     (if format_convert fmt \<noteq> [] then
        seq (disk_cmd re de (format_convert fmt @ [src, dest])) (disk_cmd re de (chown_command re dest))
      else andthen (open_file src) (\<lambda>f.
           andthen (lift_res (convert_to_simg f 4096)) (\<lambda>img. store_file dest (plain_file img))))"

definition export_partition ::
  "run_env \<Rightarrow> disk_env \<Rightarrow> disk_format \<Rightarrow> string \<Rightarrow> string \<Rightarrow> string \<Rightarrow> nat \<times> pyval \<Rightarrow> ('a disk_world_scheme, unit) prog" where
  "export_partition re de fmt tmpdir image_file out ip =
     andthen (open_file image_file) (\<lambda>f.
     andthen (lift_res (case snd ip of PyDict p \<Rightarrow> plan_partition f fmt out (fst ip) p | _ \<Rightarrow> Inl Type_Error)) (\<lambda>(part_file, part_fmt, range).
       case range of
         None \<Rightarrow> ret ()
       | Some (start, n) \<Rightarrow>
           seq (store_file (path_join tmpdir ''part.img'') (fst (extract_part_of_file f start n (1024 * 1024))))
             (convert_image re de part_fmt (path_join tmpdir ''part.img'') part_file)))"

definition export_disk_image_file ::
  "run_env \<Rightarrow> disk_env \<Rightarrow> bool \<Rightarrow> string \<Rightarrow> string \<Rightarrow> string \<Rightarrow> disk_format \<Rightarrow> ('a disk_world_scheme, unit) prog" where
  "export_disk_image_file re de separate_partitions tmpdir image_file out fmt =
     (if separate_partitions then
        seq (rm_rf (re_os re) (re_priv re) out)
          (seq (file_op (re_os re) (Ev_Mkdir out))
            (andthen (capture_as_root (re_os re) (re_priv re) [''sfdisk'', ''--json'', image_file]) (\<lambda>disk_json.
             andthen (lift_res (case disk_json of
                  None \<Rightarrow> Inl Type_Error
                | Some text \<Rightarrow>
                    res_bind (pe_json (re_podman re) text) (\<lambda>parts.
                    res_bind (py_item parts ''partitiontable'') (\<lambda>t. res_bind (py_item t ''partitions'') py_iter)))) (\<lambda>ps.
               each (export_partition re de fmt tmpdir image_file out) (List.enumerate 0 ps)))))
      else convert_image re de fmt image_file out)"

section \<open>Every partition arrives\<close>

text \<open>What a partition file should hold.\<close>

definition exported :: "disk_format \<Rightarrow> sfile \<Rightarrow> sfile \<Rightarrow> bool" where
  "exported fmt part file \<longleftrightarrow>
     (case fmt of
        RAW \<Rightarrow> file = part
      | SIMG \<Rightarrow> \<exists>img. convert_to_simg part 4096 = Inr img \<and> sf_bytes file = img
      | QCOW2 \<Rightarrow> True)"

text \<open>What mv and chown do to the files.\<close>

definition mv_chown_effect :: "run_env \<Rightarrow> disk_env \<Rightarrow> bool" where
  "mv_chown_effect re de \<longleftrightarrow>
     (\<forall>files src dest. de_effect de (run_prefix (re_priv re) @ [''mv'', src, dest]) files = files(dest := files src, src := None)) \<and>
     (\<forall>files dest. de_effect de (run_prefix (re_priv re) @ chown_command re dest) files = files)"

text \<open>Commands themselves leave the files to their effect.\<close>

lemma run_as_root_files: "dw_files (snd (run_as_root oe p cmd w)) = dw_files w"
proof -
  have "preserves (\<lambda>v. dw_files v = dw_files w) (run_as_root oe p cmd)"
    unfolding run_as_root_def run_cmd_def ensure_sudo_def Let_def
    by (auto simp: preserves_def seq_def andthen_def execute_def finish_run_def run_simps
        split: prod.splits sum.splits cmd_result.splits if_splits)
  then show ?thesis unfolding preserves_def by blast
qed

lemma disk_cmd_files:
  assumes "disk_cmd re de cmd w = (Inr u, w')"
  shows "dw_files w' = de_effect de (run_prefix (re_priv re) @ cmd) (dw_files w)"
  using assms run_as_root_files [of "re_os re" "re_priv re" cmd w]
  by (cases "run_as_root (re_os re) (re_priv re) cmd w"; cases "fst (run_as_root (re_os re) (re_priv re) cmd w)")
    (auto simp: disk_cmd_def seq_def andthen_def update_world_def)

lemma convert_image_result:
  assumes "convert_image re de fmt src dest w = (Inr u, w')" and "dw_files w src = Some part" and "src \<noteq> dest"
    and "mv_chown_effect re de" and "fmt \<noteq> QCOW2"
  shows "\<exists>file. dw_files w' dest = Some file \<and> exported fmt part file \<and> (\<forall>q. q \<noteq> src \<longrightarrow> q \<noteq> dest \<longrightarrow> dw_files w' q = dw_files w q)"
proof (cases fmt)
  case RAW
  then obtain v1 w1 where 1: "disk_cmd re de [''mv'', src, dest] w = (Inr v1, w1)" and 2: "disk_cmd re de (chown_command re dest) w1 = (Inr u, w')"
    using assms(1) by (auto simp: convert_image_def seq_Inr_iff)
  have "dw_files w' = (dw_files w)(dest := dw_files w src, src := None)"
    using disk_cmd_files [OF 1] disk_cmd_files [OF 2] assms(4) by (simp add: mv_chown_effect_def)
  then show ?thesis using RAW assms(2,3) by (simp add: exported_def)
next
  case QCOW2
  then show ?thesis using assms(5) by simp
next
  case SIMG
  then obtain img where "convert_to_simg part 4096 = Inr img" "w' = w\<lparr>dw_files := (dw_files w)(dest \<mapsto> plain_file img)\<rparr>"
    using assms(1,2) by (auto simp: convert_image_def andthen_Inr_iff open_file_def lift_res_def store_file_def update_world_def)
  then show ?thesis using SIMG by (simp add: exported_def plain_file_def)
qed

definition plan_of :: "sfile \<Rightarrow> disk_format \<Rightarrow> string \<Rightarrow> nat \<times> pyval \<Rightarrow> (string \<times> disk_format \<times> (nat \<times> nat) option) res" where
  "plan_of f fmt out ip = (case snd ip of PyDict p \<Rightarrow> plan_partition f fmt out (fst ip) p | _ \<Rightarrow> Inl Type_Error)"

text \<open>The file of a plan has arrived: it holds what it should, if the partition is not skipped.\<close>

definition arrived :: "sfile \<Rightarrow> (string \<Rightarrow> sfile option) \<Rightarrow> string \<times> disk_format \<times> (nat \<times> nat) option \<Rightarrow> bool" where
  "arrived f files pl \<longleftrightarrow>
     (case snd (snd pl) of
        None \<Rightarrow> True
      | Some r \<Rightarrow> \<exists>c. files (fst pl) = Some c \<and> exported (fst (snd pl)) (sf_part f (fst r) (snd r)) c)"

lemma export_partition_result:
  assumes "export_partition re de fmt tmpdir image_file out ip w = (Inr u, w')" and "dw_files w image_file = Some f"
    and "wf_sfile f" and "mv_chown_effect re de" and "fmt \<noteq> QCOW2"
  shows "\<exists>pl. plan_of f fmt out ip = Inr pl \<and> (path_join tmpdir ''part.img'' \<noteq> fst pl \<longrightarrow>
    arrived f (dw_files w') pl \<and>
    (\<forall>q. q \<noteq> path_join tmpdir ''part.img'' \<longrightarrow> q \<noteq> fst pl \<longrightarrow> dw_files w' q = dw_files w q))"
proof -
  let ?tmp = "path_join tmpdir ''part.img''"
  obtain dst pfmt range where pl: "plan_of f fmt out ip = Inr (dst, pfmt, range)"
    and run: "(case range of None \<Rightarrow> ret () | Some (start, n) \<Rightarrow>
        seq (store_file ?tmp (fst (extract_part_of_file f start n 1048576))) (convert_image re de pfmt ?tmp dst)) w = (Inr u, w')"
    using assms(1,2) by (auto simp: export_partition_def andthen_Inr_iff open_file_def lift_res_def plan_of_def split: prod.splits)
  have fmt: "pfmt \<noteq> QCOW2"
    using pl assms(5) by (auto simp: plan_of_def plan_partition_def Let_def res_simps res_map_def split: pyval.splits sum.splits if_splits)
  have "arrived f (dw_files w') (dst, pfmt, range) \<and> (\<forall>q. q \<noteq> ?tmp \<longrightarrow> q \<noteq> dst \<longrightarrow> dw_files w' q = dw_files w q)"
    if ne: "?tmp \<noteq> dst"
  proof (cases range)
    case None
    then show ?thesis using run by (simp add: ret_def arrived_def)
  next
    case (Some r)
    obtain s n where r: "r = (s, n)" by (cases r)
    define w1 where "w1 = w\<lparr>dw_files := (dw_files w)(?tmp \<mapsto> sf_part f s n)\<rparr>"
    have "fst (extract_part_of_file f s n 1048576) = sf_part f s n"
      by (simp add: extract_slice [OF assms(3)])
    then have "convert_image re de pfmt ?tmp dst w1 = (Inr u, w')"
      using run Some r by (simp add: seq_Inr_iff store_file_def update_world_def w1_def)
    from convert_image_result [OF this _ ne assms(4) fmt, of "sf_part f s n"]
    show ?thesis using Some r by (auto simp: w1_def arrived_def)
  qed
  then show ?thesis using pl by auto
qed


definition sample_disk :: sfile where
  "sample_disk = plain_file (replicate 512 7)"

definition sample_re :: run_env where
  "sample_re = \<lparr>re_podman = sample_pe, re_build = sample_be, re_read_json = (\<lambda>log p. Inr PyNone), re_file_digest = (\<lambda>log p. Inr []),
     re_dump_yaml = (\<lambda>d. []), re_dump_json = (\<lambda>d. []), re_fs_type = (\<lambda>log p. None), re_mkdtemp = (\<lambda>log pre dir. path_join dir pre),
     re_resolve = (\<lambda>p. p)\<rparr>"

definition moving :: disk_env where
  "moving = \<lparr>de_effect = (\<lambda>cmd files. case cmd of
     [c, src, dest] \<Rightarrow> if c = ''mv'' then files(dest := files src, src := None) else files | _ \<Rightarrow> files)\<rparr>"

definition disk_start :: disk_world where
  "disk_start = \<lparr>rw_log = [], rw_keepalive = False, dw_files = [''/d'' \<mapsto> sample_disk]\<rparr>"

definition sample_partition :: pyval where
  "sample_partition = PyDict [(''name'', PyStr ''data''), (''start'', PyInt 0), (''size'', PyInt 1)]"


end
