(* ===== verification/Osbuild_Laws.thy ===== *)
theory Osbuild_Laws
  imports Osbuild Export
begin

text \<open>
  Properties of running osbuild: labels, skipped builds, rejected build directories, and the output
  directory that a build hands over.
\<close>

section \<open>Labels\<close>

lemma label_name_new: "CHR ''='' \<notin> set k \<Longrightarrow> label_name (k @ ''='' @ v) = k"
  using break_at_char_fresh [of "CHR ''=''" k v] by (simp add: label_name_def)

text \<open>
  Labels of the archive: for every name that is set there is exactly one label, with the new value; all
  other labels stay as they were, in order; setting them again changes nothing.
\<close>

theorem labels_set:
  assumes "distinct (map fst labels)" and "\<forall>(k, v) \<in> set labels. CHR ''='' \<notin> set k"
  shows "filter (\<lambda>l. label_name l = k) (new_labels existing labels) =
      (case map_of labels k of Some v \<Rightarrow> [k @ ''='' @ v] | None \<Rightarrow> filter (\<lambda>l. label_name l = k) existing) \<and>
    new_labels (new_labels existing labels) labels = new_labels existing labels"
proof
  have names: "map label_name (map (\<lambda>(k, v). k @ ''='' @ v) labels) = map fst labels"
    using assms(2) label_name_new by (auto simp del: append.simps)
  have new: "filter (\<lambda>l. label_name l = k) (map (\<lambda>(k, v). k @ ''='' @ v) labels) =
      (case map_of labels k of Some v \<Rightarrow> [k @ ''='' @ v] | None \<Rightarrow> [])"
    using assms
  proof (induction labels)
    case (Cons l ls)
    obtain k' v' where l: "l = (k', v')" by (cases l)
    have "label_name (k' @ ''='' @ v') = k'" using Cons.prems(2) l by (intro label_name_new) auto
    moreover have "map_of ls k' = None" using Cons.prems(1) l by (simp add: map_of_eq_None_iff)
    ultimately show ?case using Cons l by (auto split: option.splits)
  qed simp
  show "filter (\<lambda>l. label_name l = k) (new_labels existing labels) =
      (case map_of labels k of Some v \<Rightarrow> [k @ ''='' @ v] | None \<Rightarrow> filter (\<lambda>l. label_name l = k) existing)"
  proof (cases "map_of labels k")
    case None
    then have "k \<notin> fst ` set labels" by (simp add: map_of_eq_None_iff)
    then have "filter (\<lambda>l. label_name l = k) (filter (\<lambda>l. label_name l \<notin> fst ` set labels) existing) =
        filter (\<lambda>l. label_name l = k) existing" by (induction existing) auto
    then show ?thesis using None new by (simp add: new_labels_def)
  next
    case (Some v)
    then have "k \<in> fst ` set labels" by (metis map_of_SomeD image_eqI fst_conv)
    then have "filter (\<lambda>l. label_name l = k) (filter (\<lambda>l. label_name l \<notin> fst ` set labels) existing) = []"
      by (auto simp: filter_empty_conv)
    then show ?thesis using Some new by (simp add: new_labels_def)
  qed
  have "label_name l \<in> fst ` set labels" if mem: "l \<in> set (map (\<lambda>(k, v). k @ ''='' @ v) labels)" for l
  proof -
    obtain k v where kv: "(k, v) \<in> set labels" "l = k @ ''='' @ v" using mem by auto
    then have "label_name l = k" using assms(2) label_name_new [of k v] by auto
    then show ?thesis using kv(1) by (force intro: rev_image_eqI)
  qed
  then have "filter (\<lambda>l. label_name l \<notin> fst ` set labels) (map (\<lambda>(k, v). k @ ''='' @ v) labels) = []"
    by (simp only: filter_empty_conv not_not) blast
  then show "new_labels (new_labels existing labels) labels = new_labels existing labels"
    by (simp add: new_labels_def)
qed

theorem labels_set_witness:
  "filter (\<lambda>l. label_name l = ''a'') (new_labels [''a=1'', ''b=2'', ''a=3''] [(''a'', ''9'')]) = [''a=9'']"
  using labels_set [of "[(''a'', ''9'')]" "''a''" "[''a=1'', ''b=2'', ''a=3'']"] by simp

section \<open>Skipped builds\<close>

lemma seq_apply: "m w = (Inr v, w1) \<Longrightarrow> seq m n w = n w1"
  by (simp add: seq_def andthen_def)

text \<open>
  A build is skipped exactly on the digest of the composed manifest: with the old digest nothing happens
  after the composition, and the result is the exception that says so.
\<close>

theorem unchanged_is_skipped:
  assumes "check_lockfile re (ra_build args) w = (Inr (), w1)"
    and "compose_manifest re (ra_build args) tmpdir (chosen_manifest args tmpdir) storage w1 = (Inr st, w2)"
    and "re_file_digest re (rw_log w2) (chosen_manifest args tmpdir) = Inr digest"
  shows "et_old et = Some digest \<Longrightarrow>
      run_osbuild re args tmpdir exports in_vm storage (Some et) w = (Inl Not_Build_By_Etag, w2)"
  using assms
  by (simp add: run_osbuild_def seq_def andthen_def apply_etag_def lift_res_def should_build_def raise_exn_def Let_def)

text \<open>A host on which osbuild works, and a build of an mpp manifest there.\<close>

definition working_env :: run_env where
  "working_env = sample_re\<lparr>re_podman := sample_pe\<lparr>pe_os := calm_env\<lparr>oe_run := (\<lambda>log cmd. Cmd_Ok ''osbuild 150'')\<rparr>\<rparr>,
     re_file_digest := (\<lambda>log p. Inr ''abc'')\<rparr>"

definition plain_args :: run_args where
  "plain_args = \<lparr>ra_build = sample_args\<lparr>ba_policy := None\<rparr>, ra_build_dir = Some ''/b'', ra_osbuild_manifest = None,
     ra_cache_max_size = None, ra_progress = False, ra_log_file = None\<rparr>"

theorem unchanged_is_skipped_witness:
  "fst (run_osbuild working_env plain_args ''/t'' [''image''] [] None (Some \<lparr>et_old = Some ''abc'', et_new = None\<rparr>) start_world) =
    Inl Not_Build_By_Etag"
proof -
  define r where "r = compose_manifest working_env (ra_build plain_args) ''/t'' (chosen_manifest plain_args ''/t'') None start_world"
  have "fst r = Inr None" unfolding r_def by code_simp
  then have r: "compose_manifest working_env (ra_build plain_args) ''/t'' (chosen_manifest plain_args ''/t'') None start_world = (Inr None, snd r)"
    unfolding r_def by (metis prod.collapse)
  have c: "check_lockfile working_env (ra_build plain_args) start_world = (Inr (), start_world)" by code_simp
  have d: "re_file_digest working_env (rw_log (snd r)) (chosen_manifest plain_args ''/t'') = Inr ''abc''"
    by (simp add: working_env_def)
  from unchanged_is_skipped [OF c r d] show ?thesis by simp
qed

section \<open>Build directories\<close>

text \<open>Without a build directory the working directory is used, and nothing is created for it.\<close>

lemma prepare_builddir_Inr:
  assumes "prepare_builddir re args tmpdir w = (Inr bd, w')"
  shows "validate_builddir (fst bd) (re_fs_type re (rw_log w') (fst bd)) = Inr () \<and>
    fst bd = (case ra_build_dir args of Some d \<Rightarrow> if d = [] then tmpdir else d | None \<Rightarrow> tmpdir)"
  using assms
  by (auto simp: prepare_builddir_def andthen_Inr_iff seq_Inr_iff lift_res_def ret_def path_exists_def ask_def
      split: option.splits if_splits prod.splits)

lemma run_osbuild_Inr:
  assumes "run_osbuild re args tmpdir exports in_vm storage etag w = (Inr r, w')"
  obtains st0 manifest bd td0 w1 w2 w3 where "prepare_builddir re args tmpdir w1 = (Inr bd, w2)"
    "make_tmpdir re ''image_output--'' (fst bd) w2 = (Inr td0, w3)"
    "with_tmpdir re td0 (run_in_outputdir re args bd exports in_vm st0 manifest td0) w3 = (Inr r, w')"
  using assms unfolding run_osbuild_def Let_def seq_Inr_iff andthen_Inr_iff by blast

text \<open>
  No build on a network file system: osbuild returns an output directory only if the file system of the
  build directory was neither NFS nor AFS when it was checked.
\<close>

theorem no_network_builddir:
  fixes w :: "'a run_world_scheme"
  assumes "run_osbuild re args tmpdir exports in_vm storage etag w = (Inr (st, td), w')"
  shows "\<exists>log. re_fs_type re log (case ra_build_dir args of Some d \<Rightarrow> if d = [] then tmpdir else d | None \<Rightarrow> tmpdir)
    \<notin> {Some nfs_super_magic, Some afs_super_magic}"
proof -
  obtain bd and w1 w2 :: "'a run_world_scheme" where "prepare_builddir re args tmpdir w1 = (Inr bd, w2)"
    by (rule run_osbuild_Inr [OF assms]) (rule that)
  from prepare_builddir_Inr [OF this] show ?thesis
    by (intro exI [of _ "rw_log w2"]) (auto simp: validate_builddir_def split: if_splits)
qed

definition local_env :: run_env where
  "local_env = working_env\<lparr>re_fs_type := (\<lambda>log d. Some 0x9123683E),
     re_podman := (re_podman working_env)\<lparr>pe_json := (\<lambda>s. Inr (PyDict [(''pipelines'', PyList [])]))\<rparr>\<rparr>"

lemma sample_run:
  obtains td w' where "run_osbuild local_env plain_args ''/t'' [''image''] [] None None start_world = (Inr (None, td), w')"
    "td_path td = ''/b/image_output--''"
proof -
  define r where "r = run_osbuild local_env plain_args ''/t'' [''image''] [] None None start_world"
  have "map_sum (\<lambda>_. ()) (map_prod id td_path) (fst r) = Inr (None, ''/b/image_output--'')" unfolding r_def by code_simp
  then obtain td where "fst r = Inr (None, td)" "td_path td = ''/b/image_output--''" by (cases "fst r") auto
  then show thesis using that [of td "snd r"] unfolding r_def by (metis prod.collapse)
qed

theorem no_network_builddir_witness:
  "re_fs_type local_env [] ''/b'' \<notin> {Some nfs_super_magic, Some afs_super_magic}"
proof -
  obtain td w' where run: "run_osbuild local_env plain_args ''/t'' [''image''] [] None None start_world = (Inr (None, td), w')"
    by (rule sample_run)
  have "\<exists>log. re_fs_type local_env log ''/b'' \<notin> {Some nfs_super_magic, Some afs_super_magic}"
    using no_network_builddir [OF run] by (simp add: plain_args_def)
  then show ?thesis by (simp add: local_env_def)
qed

section \<open>The output directory\<close>

lemma run_cmd_last:
  assumes "run_cmd oe p True pr cap lf cmd w = (Inr out, w')"
  shows "\<exists>log. rw_log w' = log @ [Ev_Run (run_prefix p @ cmd)]"
  using run_cmd_Inr [OF assms] by auto

text \<open>What the body of the output directory does when it returns: the last event is osbuild.\<close>

lemma run_in_outputdir_Inr:
  assumes "run_in_outputdir re args bd exports in_vm storage manifest td w = (Inr (st, td'), w')"
  shows "td' = detach td \<and> (\<exists>pre ids log. rw_log w' = log @ [Ev_Run (run_prefix (re_priv re) @ pre @
    osbuild_cmdline args (get_osbuild_state_dir (re_priv re) (fst bd)) (td_path td) (snd bd) ids exports in_vm manifest)])"
proof -
  obtain ids ps w1 where "(\<lambda>(pre, storage').
        seq (run_cmd (re_os re) (re_priv re) True (ra_progress args) False (ra_log_file args)
              (pre @ osbuild_cmdline args (get_osbuild_state_dir (re_priv re) (fst bd)) (td_path td) (snd bd) ids exports in_vm manifest))
          (ret (storage', detach td))) ps w1 = (Inr (st, td'), w')"
    using assms unfolding run_in_outputdir_def Let_def andthen_Inr_iff by blast
  then obtain out w2 where run: "run_cmd (re_os re) (re_priv re) True (ra_progress args) False (ra_log_file args)
        (fst ps @ osbuild_cmdline args (get_osbuild_state_dir (re_priv re) (fst bd)) (td_path td) (snd bd) ids exports in_vm manifest) w1 = (Inr out, w2)"
    and "ret (snd ps, detach td) w2 = (Inr (st, td'), w')"
    by (auto simp: seq_Inr_iff case_prod_beta)
  then have "td' = detach td" "w' = w2" by (simp_all add: ret_def)
  then show ?thesis using run_cmd_last [OF run] by metis
qed

text \<open>
  C20: The output directory of a build: when the build returns, the last thing that happened is osbuild
  writing to the directory that is handed over, and that directory is still open, so that the caller's block
  removes it; when osbuild fails, the directory is cleaned up before the exception goes on.
\<close>

theorem outputdir_handed_over:
  assumes "run_osbuild re args tmpdir exports in_vm storage etag w = (Inr (st, td), w')"
  shows "\<not> td_closed td \<and> \<not> td_keep_once td \<and>
    (\<exists>log pre store created ids manifest. rw_log w' = log @ [Ev_Run (run_prefix (re_priv re) @ pre @
      osbuild_cmdline args store (td_path td) created ids exports in_vm manifest)])"
proof -
  obtain st0 manifest bd td0 w2 w3
    where mk: "make_tmpdir re ''image_output--'' (fst bd) w2 = (Inr td0, w3)"
      and run: "with_tmpdir re td0 (run_in_outputdir re args bd exports in_vm st0 manifest td0) w3 = (Inr (st, td), w')"
    by (rule run_osbuild_Inr [OF assms]) (rule that)
  have td0: "\<not> td_closed td0" using mk by (auto simp: make_tmpdir_def andthen_Inr_iff seq_Inr_iff ask_def ret_def)
  obtain x td1 w4 where body: "run_in_outputdir re args bd exports in_vm st0 manifest td0 w3 = (Inr (x, td1), w4)"
    and ex: "td_exit (re_os re) (pe_fs (re_podman re)) (re_priv re) td1 w4 = (Inr td, w')"
    using run by (auto simp: with_tmpdir_def split: prod.splits sum.splits)
  note b = run_in_outputdir_Inr [OF body]
  have td: "td = td0\<lparr>td_keep_once := False\<rparr>" "w' = w4" using ex b by (simp_all add: td_exit_def detach_def ret_def)
  obtain pre ids log where "rw_log w4 = log @ [Ev_Run (run_prefix (re_priv re) @ pre @
      osbuild_cmdline args (get_osbuild_state_dir (re_priv re) (fst bd)) (td_path td0) (snd bd) ids exports in_vm manifest)]"
    using b by blast
  note log = this
  have path: "td_path td = td_path td0" using td(1) by simp
  have "\<exists>log pre store created ids manifest. rw_log w' = log @ [Ev_Run (run_prefix (re_priv re) @ pre @
      osbuild_cmdline args store (td_path td) created ids exports in_vm manifest)]"
    unfolding path td(2) by (intro exI) (rule log)
  then show ?thesis using td td0 by simp
qed

theorem outputdir_handed_over_witness:
  "\<exists>td w'. run_osbuild local_env plain_args ''/t'' [''image''] [] None None start_world = (Inr (None, td), w') \<and>
    \<not> td_closed td \<and> td_path td = ''/b/image_output--'' \<and> rw_log w' \<noteq> []"
proof -
  obtain td w' where run: "run_osbuild local_env plain_args ''/t'' [''image''] [] None None start_world = (Inr (None, td), w')"
    and path: "td_path td = ''/b/image_output--''"
    by (rule sample_run)
  note h = outputdir_handed_over [OF run]
  have "rw_log w' \<noteq> []" using h by fastforce
  then show ?thesis using run path h by blast
qed

end
