(* ===== verification/Arguments.thy ===== *)
theory Arguments
  imports Host_Utils
begin

text \<open>
  The command line (\<open>src/aib/arguments.py\<close>): the tables of arguments, the parsers built from them, and
  the parsed namespace, a dictionary from attributes to values.  The standard library's \<open>argparse\<close> is
  modelled on tokens: an option that it has recognised, with or without a value, or a positional
  argument.  Every error of the parser is the exit with code 2.
\<close>

section \<open>Argument tables\<close>

text \<open>The keys of an argument's dictionary that decide how it is parsed; a text instead of it has none.\<close>

record arg_data =
  ad_name :: string
  ad_type :: "string option"
  ad_default :: "pyval option"
  ad_required :: "bool option"
  ad_env :: "string option"

definition plain_arg :: "string \<Rightarrow> arg_data" where
  "plain_arg name = \<lparr>ad_name = name, ad_type = None, ad_default = None, ad_required = None, ad_env = None\<rparr>"

definition typed_arg :: "string \<Rightarrow> string \<Rightarrow> arg_data" where
  "typed_arg name t = (plain_arg name)\<lparr>ad_type := Some t\<rparr>"

definition default_arg :: "string \<Rightarrow> string \<Rightarrow> pyval \<Rightarrow> arg_data" where
  "default_arg name t v = (typed_arg name t)\<lparr>ad_default := Some v\<rparr>"

definition optional_arg :: "string \<Rightarrow> arg_data" where
  "optional_arg name = (plain_arg name)\<lparr>ad_required := Some False\<rparr>"

text \<open>What the tables take from the host: environment, architecture, and whether the output is a terminal.\<close>

record arg_env =
  ae_environ :: "string \<Rightarrow> string option"
  ae_machine :: string
  ae_isatty :: bool
  ae_regular_file :: "string \<Rightarrow> string option"
  ae_resolve :: "string \<Rightarrow> string"
  ae_container :: container_state
  ae_uid :: nat

definition global_args :: "arg_data list" where
  "global_args = [typed_arg ''--version'' ''version'']"

definition common_args :: "arg_data list" where
  "common_args =
     [plain_arg ''--verbose'', default_arg ''--sudo'' ''bool-optional'' (PyBool False), typed_arg ''--volume'' ''append'']"

datatype shared_group = Shared_Container | Shared_Include

fun shareable_args :: "shared_group \<Rightarrow> arg_data list" where
  "shareable_args Shared_Container = [(typed_arg ''--container-storage'' ''path'')\<lparr>ad_env := Some ''AIB_CONTAINER_STORAGE''\<rparr>]"
| "shareable_args Shared_Include = [typed_arg ''--include'' ''append'']"

definition list_args :: "arg_data list" where
  "list_args = [plain_arg ''--quiet'']"

definition sbom_arg_table :: "arg_data list" where
  "sbom_arg_table = [typed_arg ''--generate-sbom'' ''bool'', typed_arg ''--sbom-dir'' ''str'']"

definition policy_args :: "arg_data list" where
  "policy_args = [typed_arg ''--policy'' ''str'']"

definition target_args :: "arg_data list" where
  "target_args = [typed_arg ''--target'' ''str'']"

definition of_env :: "arg_env \<Rightarrow> string \<Rightarrow> pyval" where
  "of_env env var = (case ae_environ env var of Some s \<Rightarrow> PyStr s | None \<Rightarrow> PyNone)"

definition default_distro :: string where
  "default_distro = ''autosd10-sig''"

definition build_args_table :: "arg_env \<Rightarrow> arg_data list" where
  "build_args_table env =
     [default_arg ''--distro'' ''str'' (PyStr default_distro),
      default_arg ''--arch'' ''str'' (PyStr (ae_machine env)),
      default_arg ''--build-dir'' ''path'' (of_env env ''OSBUILD_BUILDDIR''),
      typed_arg ''--cache-max-size'' ''str'',
      typed_arg ''--cache'' ''str'',
      default_arg ''--logfile'' ''path'' PyNone,
      default_arg ''--progress'' ''bool-optional'' (PyBool (ae_isatty env)),
      typed_arg ''--osbuild-manifest'' ''path'',
      typed_arg ''--lockfile'' ''path'',
      default_arg ''--local-repo'' ''path'' PyNone,
      typed_arg ''--extra-repo'' ''append'',
      typed_arg ''--extra-copr-repo'' ''append'',
      typed_arg ''--reproducible'' ''bool'',
      typed_arg ''--define'' ''append'',
      typed_arg ''--extend-define'' ''append'',
      typed_arg ''--define-file'' ''append'',
      plain_arg ''--dump-variables'',
      typed_arg ''--root-password'' ''root-password'']"

definition resolve_build_args :: "arg_env \<Rightarrow> arg_data list" where
  "resolve_build_args env = filter (\<lambda>a. ad_name a \<noteq> ''--lockfile'') (build_args_table env)"

definition disk_format_args :: "arg_data list" where
  "disk_format_args = [typed_arg ''--format'' ''diskformat'', plain_arg ''--separate-partitions'', typed_arg ''--vm'' ''bool-optional'']"

definition bib_args :: "arg_data list" where
  "bib_args = [typed_arg ''--build-container'' ''str'']"

definition shared_reseal_args :: "arg_data list" where
  "shared_reseal_args = [typed_arg ''--build-container'' ''str'', typed_arg ''--passwd'' ''str'']"

definition aib_build_container_name :: "string \<Rightarrow> string" where
  "aib_build_container_name distro = ''localhost/aib-build:'' @ distro"

section \<open>Actions\<close>

datatype arg_kind =
  Kind_Bool | Kind_Bool_Optional | Kind_Disk_Format | Kind_Version | Kind_Str | Kind_Append | Kind_Root_Password

text \<open>\<open>ac_default\<close> is None for \<open>argparse.SUPPRESS\<close>.\<close>

record arg_action =
  ac_name :: string
  ac_kind :: arg_kind
  ac_default :: "pyval option"
  ac_required :: bool

definition is_option :: "string \<Rightarrow> bool" where
  "is_option name \<longleftrightarrow> starts_with name ''-''"

text \<open>The attribute of an option is its name with underscores; that of a positional argument is its name.\<close>

definition ac_dest :: "arg_action \<Rightarrow> string" where
  "ac_dest a = (if is_option (ac_name a) then py_replace ''-'' ''_'' (drop 2 (ac_name a)) else ac_name a)"

definition ac_flags :: "arg_action \<Rightarrow> string list" where
  "ac_flags a =
     (if \<not> is_option (ac_name a) then []
      else if ac_kind a = Kind_Bool_Optional then [ac_name a, ''--no-'' @ drop 2 (ac_name a)]
      else [ac_name a])"

definition kind_of_type :: "string \<Rightarrow> arg_kind option" where
  "kind_of_type t =
     (if t = ''bool'' then Some Kind_Bool
      else if t = ''bool-optional'' then Some Kind_Bool_Optional
      else if t = ''diskformat'' then Some Kind_Disk_Format
      else if t = ''version'' then Some Kind_Version
      else if t = ''str'' \<or> t = ''path'' then Some Kind_Str
      else if t = ''append'' then Some Kind_Append
      else if t = ''root-password'' then Some Kind_Root_Password
      else None)"

definition type_of :: "arg_data \<Rightarrow> string" where
  "type_of a = (case ad_type a of Some t \<Rightarrow> t | None \<Rightarrow> if is_option (ad_name a) then ''bool'' else ''str'')"

text \<open>
  \<open>add_arg\<close>: an unknown type leaves the variable of the action unset.  The default from the environment
  is set even when the default is to be suppressed.
\<close>

definition add_arg :: "arg_env \<Rightarrow> bool \<Rightarrow> arg_data \<Rightarrow> arg_action res" where
  "add_arg env suppress_default data =
     (case kind_of_type (type_of data) of
        None \<Rightarrow> Inl Unbound_Local_Error
      | Some kind \<Rightarrow>
          let default0 = (if kind = Kind_Version then None
                else if kind = Kind_Root_Password then Some PyNone
                else if suppress_default then None
                else if kind = Kind_Bool then Some (PyBool False)
                else if kind = Kind_Append then Some (PyList [])
                else Some PyNone);
              default1 = (if ad_default data \<noteq> None \<and> \<not> suppress_default then ad_default data else default0);
              default2 = (case ad_env data of
                  None \<Rightarrow> default1
                | Some var \<Rightarrow> (case ae_environ env var of Some s \<Rightarrow> Some (PyStr s) | None \<Rightarrow> default1))
          in Inr \<lparr>ac_name = ad_name data, ac_kind = kind, ac_default = default2,
                  ac_required = (case ad_required data of Some r \<Rightarrow> r | None \<Rightarrow> \<not> is_option (ad_name data))\<rparr>)"

definition add_args :: "arg_env \<Rightarrow> bool \<Rightarrow> arg_data list \<Rightarrow> arg_action list res" where
  "add_args env suppress_default = res_mapM (add_arg env suppress_default)"

section \<open>Root passwords\<close>

text \<open>A variable that is not set gives None: the code looks at the name of the variable instead.\<close>

definition parse_root_password :: "arg_env \<Rightarrow> string \<Rightarrow> pyval res" where
  "parse_root_password env option =
     (case py_split1 '':'' option of
        [pre, value] \<Rightarrow>
          if pre = ''env'' then Inr (of_env env value)
          else if pre = ''file'' then
            (case ae_regular_file env (ae_resolve env value) of
               Some text \<Rightarrow> Inr (PyStr (py_strip text))
             | None \<Rightarrow> Inl (Argument_Type_Error (''No such file '' @ [CHR 0x27] @ ae_resolve env value @ [CHR 0x27])))
          else Inl (Argument_Type_Error (''Unknown root password option prefix '' @ [CHR 0x27] @ option @ [CHR 0x27] @
            ''. Must be one of: [env, file].''))
      | _ \<Rightarrow> Inl (Argument_Type_Error (''Invalid for root password value '' @ [CHR 0x27] @ option @ [CHR 0x27] @
            ''. Must be in the form of [env, file]:[hash].'')))"

section \<open>Parsing\<close>

datatype token = Tok_Option string "string option" | Tok_Positional string

definition usage_error :: exn where
  "usage_error = Sys_Exit 2"

text \<open>The value an option or positional argument stores.\<close>

definition store_value :: "arg_env \<Rightarrow> arg_kind \<Rightarrow> pyval option \<Rightarrow> string \<Rightarrow> pyval res" where
  "store_value env kind old s =
     (case kind of
        Kind_Str \<Rightarrow> Inr (PyStr s)
      | Kind_Disk_Format \<Rightarrow> if s \<in> set (map format_value all_formats) then Inr (PyStr s) else Inl usage_error
      | Kind_Append \<Rightarrow> (case old of
            Some (PyList xs) \<Rightarrow> Inr (PyList (xs @ [PyStr s]))
          | Some PyNone \<Rightarrow> Inr (PyList [PyStr s])
          | None \<Rightarrow> Inr (PyList [PyStr s])
          | _ \<Rightarrow> Inl Attribute_Error)
      | Kind_Root_Password \<Rightarrow> (case parse_root_password env s of Inr v \<Rightarrow> Inr v | Inl e \<Rightarrow> Inl usage_error)
      | _ \<Rightarrow> Inl usage_error)"

text \<open>The effect of an option on the namespace.\<close>

definition take_option :: "arg_env \<Rightarrow> arg_action \<Rightarrow> string \<Rightarrow> string option \<Rightarrow> dict \<Rightarrow> dict res" where
  "take_option env a flag value ns =
     (case value of
        None \<Rightarrow>
          (case ac_kind a of
             Kind_Bool \<Rightarrow> Inr (dict_set ns (ac_dest a) (PyBool True))
           | Kind_Bool_Optional \<Rightarrow> Inr (dict_set ns (ac_dest a) (PyBool (\<not> starts_with flag ''--no-'')))
           | Kind_Version \<Rightarrow> Inl (Sys_Exit 0)
           | _ \<Rightarrow> Inl usage_error)
      | Some s \<Rightarrow> res_map (dict_set ns (ac_dest a)) (store_value env (ac_kind a) (dict_get ns (ac_dest a)) s))"

text \<open>The state of a parser: namespace, positional arguments to come, names seen, unrecognised arguments.\<close>

record parse_state =
  ps_ns :: dict
  ps_left :: "arg_action list"
  ps_seen :: "string list"
  ps_extra :: bool

definition help_flags :: "string list" where
  "help_flags = [''-h'', ''--help'']"

definition parse_token :: "arg_env \<Rightarrow> arg_action list \<Rightarrow> token \<Rightarrow> parse_state \<Rightarrow> parse_state res" where
  "parse_token env actions tok ps =
     (case tok of
        Tok_Option flag value \<Rightarrow>
          if flag \<in> set help_flags then Inl (if value = None then Sys_Exit 0 else usage_error)
          else (case find (\<lambda>a. flag \<in> set (ac_flags a)) actions of
              None \<Rightarrow> Inr (ps\<lparr>ps_extra := True\<rparr>)
            | Some a \<Rightarrow> res_map (\<lambda>ns. ps\<lparr>ps_ns := ns, ps_seen := ac_name a # ps_seen ps\<rparr>) (take_option env a flag value (ps_ns ps)))
      | Tok_Positional s \<Rightarrow>
          (case ps_left ps of
             [] \<Rightarrow> Inr (ps\<lparr>ps_extra := True\<rparr>)
           | a # left \<Rightarrow> res_map (\<lambda>v. ps\<lparr>ps_ns := dict_set (ps_ns ps) (ac_dest a) v, ps_left := left, ps_seen := ac_name a # ps_seen ps\<rparr>)
               (store_value env (ac_kind a) (dict_get (ps_ns ps) (ac_dest a)) s)))"

definition default_step :: "arg_action \<Rightarrow> dict \<Rightarrow> dict" where
  "default_step a ns =
     (case ac_default a of
        None \<Rightarrow> ns
      | Some v \<Rightarrow> if dict_get ns (ac_dest a) = None then dict_set ns (ac_dest a) v else ns)"

definition defaults_of :: "arg_action list \<Rightarrow> dict" where
  "defaults_of actions = fold default_step actions []"

text \<open>
  One parser: its namespace starts with the defaults; a required argument that was not seen is an error.
  Unrecognised arguments are reported to the caller.
\<close>

definition parse_level :: "arg_env \<Rightarrow> arg_action list \<Rightarrow> token list \<Rightarrow> (dict \<times> bool) res" where
  "parse_level env actions toks =
     res_bind (res_fold (parse_token env actions) toks
         \<lparr>ps_ns = defaults_of actions, ps_left = filter (\<lambda>a. \<not> is_option (ac_name a)) actions, ps_seen = [], ps_extra = False\<rparr>)
       (\<lambda>ps. if list_ex (\<lambda>a. ac_required a \<and> ac_name a \<notin> set (ps_seen ps)) actions then Inl usage_error
             else Inr (ps_ns ps, ps_extra ps))"

section \<open>Commands\<close>

datatype command_group = BASIC | BOOTC | OTHER | HIDDEN

datatype callback =
    No_Subcommand | List_Distro | List_Targets | List_Rpms | Resolve | Build | Download | Build_Builder | To_Disk_Image
  | Extract_For_Signing | Inject_Signed | Reseal | Prepare_Reseal

record sub_command =
  sc_name :: string
  sc_callback :: callback
  sc_group :: command_group
  sc_shared :: "shared_group list"
  sc_args :: "arg_data list"

text \<open>The decorator: without a name the command has that of the function, with hyphens.\<close>

definition command_entry ::
  "string option \<Rightarrow> string \<Rightarrow> callback \<Rightarrow> command_group \<Rightarrow> shared_group list \<Rightarrow> arg_data list \<Rightarrow> sub_command" where
  "command_entry name func cb grp shared args =
     \<lparr>sc_name = (case name of Some n \<Rightarrow> n | None \<Rightarrow> py_replace ''_'' ''-'' func), sc_callback = cb, sc_group = grp,
      sc_shared = shared, sc_args = args\<rparr>"

text \<open>The commands in the order of the groups; hidden ones have no parser.\<close>

definition groups_to_process :: "sub_command list \<Rightarrow> sub_command list" where
  "groups_to_process registry = concat (map (\<lambda>g. filter (\<lambda>c. sc_group c = g) registry) [BASIC, BOOTC, OTHER])"

definition main_actions :: "arg_env \<Rightarrow> arg_action list res" where
  "main_actions env =
     add_args env False (global_args @ common_args @ shareable_args Shared_Container @ shareable_args Shared_Include)"

definition sub_actions :: "arg_env \<Rightarrow> sub_command \<Rightarrow> arg_action list res" where
  "sub_actions env cmd =
     res_bind (add_args env False (sc_args cmd)) (\<lambda>own.
     res_bind (add_args env True (common_args @ concat (map shareable_args (sc_shared cmd)))) (\<lambda>shared.
       Inr (own @ shared)))"

text \<open>
  The action of the subparsers: the attributes that the parser of the command has set overwrite those of
  the main parser.
\<close>

definition run_subparser :: "arg_env \<Rightarrow> sub_command list \<Rightarrow> string \<Rightarrow> token list \<Rightarrow> dict \<Rightarrow> (dict \<times> bool \<times> callback) res" where
  "run_subparser env registry name toks ns =
     (case find (\<lambda>c. sc_name c = name) (groups_to_process registry) of
        None \<Rightarrow> Inl usage_error
      | Some cmd \<Rightarrow>
          res_bind (sub_actions env cmd) (\<lambda>actions.
          res_map (\<lambda>(sub_ns, extra). (dict_update ns sub_ns, extra, sc_callback cmd)) (parse_level env actions toks)))"

definition is_positional :: "token \<Rightarrow> bool" where
  "is_positional tok = (case tok of Tok_Positional s \<Rightarrow> True | _ \<Rightarrow> False)"

text \<open>Without a mode from the command line, a virtual machine is used where nothing else is possible.\<close>

definition set_vm :: "privilege \<Rightarrow> dict \<Rightarrow> dict" where
  "set_vm mode ns = (if dict_get ns ''vm'' = Some PyNone then dict_set ns ''vm'' (PyBool (force_in_vm mode)) else ns)"

definition mode_of :: "arg_env \<Rightarrow> dict \<Rightarrow> privilege" where
  "mode_of env ns = resolve_privilege (ae_container env) (ae_uid env) (py_truthy (dict_get_or ns ''sudo'' (PyBool True)))"

definition parse_args :: "arg_env \<Rightarrow> sub_command list \<Rightarrow> token list \<Rightarrow> (dict \<times> callback) res" where
  "parse_args env registry toks =
     res_bind (main_actions env) (\<lambda>actions.
     res_bind (parse_level env actions (takeWhile (\<lambda>t. \<not> is_positional t) toks)) (\<lambda>(ns, extra).
     res_bind
       (case dropWhile (\<lambda>t. \<not> is_positional t) toks of
          Tok_Positional name # rest \<Rightarrow> run_subparser env registry name rest ns
        | _ \<Rightarrow> Inr (ns, False, No_Subcommand))
       (\<lambda>(ns', sub_extra, cb).
         if extra \<or> sub_extra then Inl usage_error else Inr (set_vm (mode_of env ns') ns', cb))))"

end
