(* ===== verification/Command_Tables.thy ===== *)
theory Command_Tables
  imports Arguments
begin

text \<open>
  The commands of \<open>aib\<close> and \<open>aib-dev\<close> with their arguments: the decorators in \<open>src/aib/list_ops.py\<close>,
  \<open>src/aib/main.py\<close> and \<open>src/aib/main_dev.py\<close>, in the order in which they are registered.
\<close>

definition list_commands :: "sub_command list" where
  "list_commands =
     [command_entry None ''list_distro'' List_Distro OTHER [Shared_Include] list_args,
      command_entry None ''list_targets'' List_Targets OTHER [Shared_Include] list_args]"

definition list_rpms_entry :: "arg_env \<Rightarrow> sub_command" where
  "list_rpms_entry env =
     command_entry (Some ''list-rpms'') ''listrpms'' List_Rpms OTHER [Shared_Container, Shared_Include]
       (target_args @ build_args_table env @ [plain_arg ''manifest''])"

definition resolve_entry :: "arg_env \<Rightarrow> sub_command" where
  "resolve_entry env =
     command_entry (Some ''resolve'') ''resolve'' Resolve OTHER [Shared_Container, Shared_Include]
       (target_args @ resolve_build_args env @ sbom_arg_table @ [default_arg ''--output'' ''path'' PyNone, plain_arg ''manifest''])"

definition download_entry :: "arg_env \<Rightarrow> sub_command" where
  "download_entry env =
     command_entry None ''download'' Download OTHER [] (target_args @ build_args_table env @ [plain_arg ''manifest''])"

definition build_entry :: "arg_env \<Rightarrow> sub_command" where
  "build_entry env =
     command_entry None ''build'' Build BASIC [Shared_Container, Shared_Include]
       ([plain_arg ''--oci-archive'', plain_arg ''--tar'', plain_arg ''--dry-run'', plain_arg ''manifest'', plain_arg ''out'',
         optional_arg ''disk''] @
        policy_args @ target_args @ build_args_table env @ disk_format_args @ bib_args @ sbom_arg_table)"

definition build_builder_entry :: "arg_env \<Rightarrow> sub_command" where
  "build_builder_entry env =
     command_entry None ''build_builder'' Build_Builder BASIC [Shared_Container, Shared_Include]
       (build_args_table env @ [plain_arg ''--if-needed'', plain_arg ''--oci-archive'', optional_arg ''out''])"

definition image_commands :: "sub_command list" where
  "image_commands =
     [command_entry None ''to_disk_image'' To_Disk_Image BOOTC [Shared_Container]
        (disk_format_args @ bib_args @ [plain_arg ''--oci-archive'', plain_arg ''src_container'', plain_arg ''out'']),
      command_entry None ''extract_for_signing'' Extract_For_Signing BOOTC [Shared_Container]
        [plain_arg ''src_container'', plain_arg ''out''],
      command_entry None ''inject_signed'' Inject_Signed BOOTC [Shared_Container]
        (shared_reseal_args @ [plain_arg ''--oci-archive'', typed_arg ''--reseal-with-key'' ''path'', plain_arg ''src_container'',
          plain_arg ''srcdir'', plain_arg ''new_container'']),
      command_entry None ''reseal'' Reseal BOOTC [Shared_Container]
        (shared_reseal_args @ [plain_arg ''--oci-archive'', typed_arg ''--key'' ''path'', plain_arg ''src_container'',
          plain_arg ''new_container'']),
      command_entry None ''prepare_reseal'' Prepare_Reseal BOOTC [Shared_Container]
        (shared_reseal_args @ [(typed_arg ''--key'' ''path'')\<lparr>ad_required := Some True\<rparr>, plain_arg ''src_container'',
          plain_arg ''new_container''])]"

definition aib_commands :: "arg_env \<Rightarrow> sub_command list" where
  "aib_commands env =
     list_commands @ [list_rpms_entry env, resolve_entry env, build_entry env, download_entry env, build_builder_entry env] @ image_commands"

definition dev_build_entry :: "arg_env \<Rightarrow> sub_command" where
  "dev_build_entry env =
     command_entry None ''build'' Build BASIC [Shared_Container, Shared_Include]
       (disk_format_args @ [plain_arg ''--dry-run'', plain_arg ''manifest'', plain_arg ''out''] @
        policy_args @ target_args @ build_args_table env @ sbom_arg_table)"

definition aib_dev_commands :: "arg_env \<Rightarrow> sub_command list" where
  "aib_dev_commands env =
     list_commands @ [resolve_entry env, list_rpms_entry env, dev_build_entry env, download_entry env]"

end
