(* ===== verification/Arguments_Laws.thy ===== *)
theory Arguments_Laws
  imports Command_Tables
begin

text \<open>
  Properties of the command line: the values that a parsed command line can have, and where an option
  that belongs to both parsers may be given.
\<close>

lemma res_map_Inr_iff [res_simps]: "res_map f r = Inr y \<longleftrightarrow> (\<exists>x. r = Inr x \<and> y = f x)"
  by (cases r) auto

lemma find_in: "find P xs = Some x \<Longrightarrow> x \<in> set xs \<and> P x"
  by (auto simp: find_Some_iff)

section \<open>Types of the attributes\<close>

fun arg_typed :: "arg_kind \<Rightarrow> pyval \<Rightarrow> bool" where
  "arg_typed Kind_Bool v = (\<exists>b. v = PyBool b)"
| "arg_typed Kind_Bool_Optional v = (v = PyNone \<or> (\<exists>b. v = PyBool b))"
| "arg_typed Kind_Disk_Format v = (v = PyNone \<or> (\<exists>f. v = PyStr (format_value f)))"
| "arg_typed Kind_Version v = False"
| "arg_typed Kind_Str v = (v = PyNone \<or> (\<exists>s. v = PyStr s))"
| "arg_typed Kind_Append v = (\<exists>ss. v = PyList (map PyStr ss))"
| "arg_typed Kind_Root_Password v = (v = PyNone \<or> (\<exists>s. v = PyStr s))"

text \<open>An attribute table gives every attribute its kind; a list of actions fits it.\<close>

definition fits :: "(string \<Rightarrow> arg_kind option) \<Rightarrow> arg_action \<Rightarrow> bool" where
  "fits K a \<longleftrightarrow> K (ac_dest a) = Some (ac_kind a) \<and> (\<forall>v. ac_default a = Some v \<longrightarrow> arg_typed (ac_kind a) v)"

definition ns_typed :: "(string \<Rightarrow> arg_kind option) \<Rightarrow> dict \<Rightarrow> bool" where
  "ns_typed K ns \<longleftrightarrow> (\<forall>k v. dict_get ns k = Some v \<longrightarrow> (\<exists>kind. K k = Some kind \<and> arg_typed kind v))"

lemma ns_typed_set: "ns_typed K ns \<Longrightarrow> K k = Some kind \<Longrightarrow> arg_typed kind v \<Longrightarrow> ns_typed K (dict_set ns k v)"
  by (auto simp: ns_typed_def)

lemma ns_typed_default: "ns_typed K ns \<Longrightarrow> fits K a \<Longrightarrow> ns_typed K (default_step a ns)"
  by (auto simp: default_step_def fits_def intro: ns_typed_set split: option.splits)

lemma ns_typed_defaults: "\<forall>a \<in> set as. fits K a \<Longrightarrow> ns_typed K (defaults_of as)"
proof -
  have "ns_typed K (fold default_step as ns)" if "\<forall>a \<in> set as. fits K a" "ns_typed K ns" for ns
    using that by (induction as arbitrary: ns) (auto intro: ns_typed_default)
  moreover have "ns_typed K []" by (simp add: ns_typed_def)
  ultimately show "\<forall>a \<in> set as. fits K a \<Longrightarrow> ns_typed K (defaults_of as)" by (simp add: defaults_of_def)
qed

lemma old_typed: "ns_typed K ns \<Longrightarrow> fits K a \<Longrightarrow> dict_get ns (ac_dest a) = Some w \<Longrightarrow> arg_typed (ac_kind a) w"
  unfolding ns_typed_def fits_def by (metis option.inject)

lemma root_password_typed: "parse_root_password env s = Inr v \<Longrightarrow> arg_typed Kind_Root_Password v"
  by (auto simp: parse_root_password_def of_env_def split: list.splits if_splits option.splits)

lemma store_typed:
  assumes "store_value env kind old s = Inr v" and "\<And>w. old = Some w \<Longrightarrow> arg_typed kind w"
  shows "arg_typed kind v"
proof (cases kind)
  case Kind_Disk_Format
  then obtain f where "v = PyStr (format_value f)" using assms(1) by (auto simp: store_value_def split: if_splits)
  then show ?thesis using Kind_Disk_Format by auto
next
  case Kind_Append
  have "\<exists>ss. v = PyList (map PyStr ss)"
  proof (cases old)
    case None
    then show ?thesis using assms(1) Kind_Append by (auto simp: store_value_def intro: exI [of _ "[s]"])
  next
    case (Some w)
    then obtain ss where "w = PyList (map PyStr ss)" using assms(2) Kind_Append by auto
    then show ?thesis using assms(1) Some Kind_Append by (auto simp: store_value_def intro!: exI [of _ "ss @ [s]"])
  qed
  then show ?thesis using Kind_Append by simp
next
  case Kind_Root_Password
  then show ?thesis using assms(1) root_password_typed by (auto simp: store_value_def split: sum.splits)
qed (use assms(1) in \<open>auto simp: store_value_def split: if_splits\<close>)

lemma option_typed:
  assumes "take_option env a flag val ns = Inr ns'" and "fits K a" and "ns_typed K ns"
  shows "ns_typed K ns'"
proof (cases val)
  case None
  then show ?thesis using assms
    by (auto simp: take_option_def fits_def intro!: ns_typed_set split: arg_kind.splits)
next
  case (Some s)
  then obtain v where v: "store_value env (ac_kind a) (dict_get ns (ac_dest a)) s = Inr v" "ns' = dict_set ns (ac_dest a) v"
    using assms(1) by (auto simp: take_option_def res_map_Inr_iff)
  have "arg_typed (ac_kind a) w" if "dict_get ns (ac_dest a) = Some w" for w
    using assms(2,3) that old_typed by blast
  then have "arg_typed (ac_kind a) v" using store_typed [OF v(1)] by blast
  then show ?thesis using v(2) assms(2,3) by (auto simp: fits_def intro: ns_typed_set)
qed

definition ps_ok :: "(string \<Rightarrow> arg_kind option) \<Rightarrow> arg_action list \<Rightarrow> parse_state \<Rightarrow> bool" where
  "ps_ok K as ps \<longleftrightarrow> ns_typed K (ps_ns ps) \<and> set (ps_left ps) \<subseteq> set as"

lemma token_typed:
  assumes "parse_token env as tok ps = Inr ps'" and "\<forall>a \<in> set as. fits K a" and "ps_ok K as ps"
  shows "ps_ok K as ps'"
proof (cases tok)
  case (Tok_Option flag val)
  then consider "ps' = ps\<lparr>ps_extra := True\<rparr>"
    | a ns where "a \<in> set as" "take_option env a flag val (ps_ns ps) = Inr ns" "ps' = ps\<lparr>ps_ns := ns, ps_seen := ac_name a # ps_seen ps\<rparr>"
    using assms(1) by (auto simp: parse_token_def res_map_Inr_iff dest!: find_in split: if_splits option.splits)
  then show ?thesis
    by cases (use assms(2,3) option_typed in \<open>auto simp: ps_ok_def\<close>)
next
  case (Tok_Positional s)
  show ?thesis
  proof (cases "ps_left ps")
    case Nil
    then show ?thesis using Tok_Positional assms(1,3) by (auto simp: parse_token_def ps_ok_def)
  next
    case (Cons a left)
    then have a: "fits K a" "a \<in> set as" "set left \<subseteq> set as" using assms(2,3) by (auto simp: ps_ok_def)
    obtain v where v: "store_value env (ac_kind a) (dict_get (ps_ns ps) (ac_dest a)) s = Inr v"
      and ps': "ps' = ps\<lparr>ps_ns := dict_set (ps_ns ps) (ac_dest a) v, ps_left := left, ps_seen := ac_name a # ps_seen ps\<rparr>"
      using Tok_Positional Cons assms(1) by (auto simp: parse_token_def res_simps)
    have ns: "ns_typed K (ps_ns ps)" using assms(3) by (simp add: ps_ok_def)
    then have "arg_typed (ac_kind a) w" if "dict_get (ps_ns ps) (ac_dest a) = Some w" for w
      using a(1) that old_typed by blast
    then have "arg_typed (ac_kind a) v" using store_typed [OF v] by blast
    then show ?thesis using ps' a ns by (auto simp: ps_ok_def fits_def intro: ns_typed_set)
  qed
qed

lemma level_typed:
  assumes "parse_level env as toks = Inr (ns, x)" and "\<forall>a \<in> set as. fits K a"
  shows "ns_typed K ns"
proof -
  let ?s = "\<lparr>ps_ns = defaults_of as, ps_left = filter (\<lambda>a. \<not> is_option (ac_name a)) as, ps_seen = [], ps_extra = False\<rparr>"
  obtain ps where run: "res_fold (parse_token env as) toks ?s = Inr ps" and ns: "ns = ps_ns ps"
    using assms(1) by (auto simp: parse_level_def res_simps split: if_splits)
  have "ps_ok K as ?s" using ns_typed_defaults [OF assms(2)] by (auto simp: ps_ok_def)
  then have "ps_ok K as ps" using res_fold_invariant [OF run, of "ps_ok K as"] token_typed [OF _ assms(2)] by blast
  then show ?thesis using ns by (simp add: ps_ok_def)
qed

section \<open>The tables\<close>

text \<open>The kind of every attribute of the two programs.\<close>

definition attr_kinds :: "(string \<times> arg_kind) list" where
  "attr_kinds =
     map (\<lambda>k. (k, Kind_Bool)) [''verbose'', ''quiet'', ''generate_sbom'', ''reproducible'', ''dump_variables'', ''separate_partitions'',
       ''oci_archive'', ''tar'', ''dry_run'', ''if_needed''] @
     map (\<lambda>k. (k, Kind_Bool_Optional)) [''sudo'', ''progress'', ''vm''] @
     map (\<lambda>k. (k, Kind_Append)) [''volume'', ''include'', ''extra_repo'', ''extra_copr_repo'', ''define'', ''extend_define'', ''define_file''] @
     map (\<lambda>k. (k, Kind_Str)) [''container_storage'', ''sbom_dir'', ''policy'', ''target'', ''distro'', ''arch'', ''build_dir'', ''cache_max_size'',
       ''cache'', ''logfile'', ''osbuild_manifest'', ''lockfile'', ''local_repo'', ''build_container'', ''passwd'', ''output'', ''manifest'', ''out'',
       ''disk'', ''src_container'', ''srcdir'', ''new_container'', ''reseal_with_key'', ''key''] @
     [(''format'', Kind_Disk_Format), (''root_password'', Kind_Root_Password), (''version'', Kind_Version)]"

definition data_kind_fits :: "arg_data \<Rightarrow> bool" where
  "data_kind_fits d =
     (case kind_of_type (type_of d) of
        None \<Rightarrow> False
      | Some kind \<Rightarrow>
          map_of attr_kinds (ac_dest \<lparr>ac_name = ad_name d, ac_kind = kind, ac_default = None, ac_required = False\<rparr>) = Some kind \<and>
          (case ad_default d of None \<Rightarrow> True | Some v \<Rightarrow> kind = Kind_Str \<or> kind = Kind_Bool_Optional) \<and>
          (case ad_env d of None \<Rightarrow> True | Some e \<Rightarrow> kind = Kind_Str))"

definition main_table :: "arg_data list" where
  "main_table = global_args @ common_args @ shareable_args Shared_Container @ shareable_args Shared_Include"

definition own_tables :: "arg_env \<Rightarrow> arg_data list" where
  "own_tables env = concat (map sc_args (aib_commands env @ aib_dev_commands env))"

lemma own_tables_fit: "list_all data_kind_fits (own_tables env)"
  by code_simp

lemma main_table_fits: "list_all data_kind_fits main_table"
  by code_simp

definition default_ok :: "arg_data \<Rightarrow> bool" where
  "default_ok d \<longleftrightarrow> (\<forall>v kind. ad_default d = Some v \<longrightarrow> kind_of_type (type_of d) = Some kind \<longrightarrow> arg_typed kind v)"

lemma default_ok_simps [simp]:
  "default_ok (plain_arg n)" "default_ok (typed_arg n t)" "default_ok (optional_arg n)"
  "default_ok ((typed_arg n t)\<lparr>ad_required := r\<rparr>)" "default_ok ((typed_arg n t)\<lparr>ad_env := e\<rparr>)"
  "default_ok (default_arg n ''str'' (PyStr s))" "default_ok (default_arg n ''path'' PyNone)"
  "default_ok (default_arg n ''path'' (of_env env var))" "default_ok (default_arg n ''bool-optional'' (PyBool b))"
  by (auto simp: default_ok_def plain_arg_def typed_arg_def optional_arg_def default_arg_def type_of_def kind_of_type_def
      of_env_def split: option.splits)

lemma main_table_defaults: "list_all default_ok main_table"
  by (simp add: main_table_def global_args_def common_args_def)

lemma own_tables_defaults: "list_all default_ok (own_tables env)"
proof -
  have b: "list_all default_ok (build_args_table env)" by (simp add: build_args_table_def)
  then have "list_all default_ok (resolve_build_args env)" by (auto simp: resolve_build_args_def list_all_iff)
  then show ?thesis using b
    by (simp add: own_tables_def aib_commands_def aib_dev_commands_def list_commands_def image_commands_def command_entry_def
        list_rpms_entry_def resolve_entry_def build_entry_def download_entry_def build_builder_entry_def dev_build_entry_def
        list_args_def sbom_arg_table_def policy_args_def target_args_def disk_format_args_def bib_args_def shared_reseal_args_def)
qed

text \<open>So every action made from the tables fits the kinds of the attributes.\<close>

abbreviation kinds :: "string \<Rightarrow> arg_kind option" where
  "kinds \<equiv> map_of attr_kinds"

lemma ac_dest_name: "ac_name a = ac_name b \<Longrightarrow> ac_dest a = ac_dest b"
  by (simp add: ac_dest_def)

lemma add_arg_fits:
  assumes "add_arg env su d = Inr a" and "data_kind_fits d" and "default_ok d"
  shows "fits kinds a \<and> ac_name a = ad_name d \<and> kind_of_type (type_of d) = Some (ac_kind a) \<and>
    (\<not> su \<longrightarrow> ac_kind a \<noteq> Kind_Version \<longrightarrow> ac_default a \<noteq> None) \<and>
    ac_required a = (case ad_required d of Some r \<Rightarrow> r | None \<Rightarrow> \<not> is_option (ad_name d))"
proof -
  obtain kind where kind: "kind_of_type (type_of d) = Some kind" using assms(1) by (auto simp: add_arg_def split: option.splits)
  then have a: "ac_name a = ad_name d" "ac_kind a = kind"
      "ac_required a = (case ad_required d of Some r \<Rightarrow> r | None \<Rightarrow> \<not> is_option (ad_name d))"
    using assms(1) by (auto simp: add_arg_def Let_def)
  have "kinds (ac_dest a) = Some kind"
    using assms(2) kind a(1) ac_dest_name [of a "\<lparr>ac_name = ad_name d, ac_kind = kind, ac_default = None, ac_required = False\<rparr>"]
    by (simp add: data_kind_fits_def)
  moreover have "arg_typed kind v" if "ac_default a = Some v" for v
    using assms kind that
    by (cases kind) (auto simp: add_arg_def Let_def data_kind_fits_def default_ok_def split: if_splits option.splits arg_kind.splits)
  moreover have "\<not> su \<longrightarrow> kind \<noteq> Kind_Version \<longrightarrow> ac_default a \<noteq> None"
    using assms(1) kind by (auto simp: add_arg_def Let_def split: option.splits)
  ultimately show ?thesis using a kind by (simp add: fits_def)
qed

lemma mapM_mem: "res_mapM f xs = Inr ys \<Longrightarrow> y \<in> set ys \<Longrightarrow> \<exists>x \<in> set xs. f x = Inr y"
  by (induction xs arbitrary: ys) (auto simp: res_simps)

lemma mapM_image: "res_mapM f xs = Inr ys \<Longrightarrow> x \<in> set xs \<Longrightarrow> \<exists>y \<in> set ys. f x = Inr y"
  by (induction xs arbitrary: ys) (auto simp: res_simps)

lemma add_args_fit:
  assumes "add_args env su ds = Inr as" and "list_all data_kind_fits ds" and "list_all default_ok ds"
  shows "\<forall>a \<in> set as. fits kinds a"
proof
  fix a
  assume "a \<in> set as"
  then obtain d where "d \<in> set ds" "add_arg env su d = Inr a" using assms(1) mapM_mem by (metis add_args_def)
  then show "fits kinds a" using add_arg_fits assms(2,3) by (auto simp: list_all_iff)
qed

definition known_registry :: "arg_env \<Rightarrow> sub_command list \<Rightarrow> bool" where
  "known_registry env registry \<longleftrightarrow> registry = aib_commands env \<or> registry = aib_dev_commands env"

lemma own_args_fit:
  assumes "known_registry env registry" and "cmd \<in> set registry"
  shows "list_all data_kind_fits (sc_args cmd) \<and> list_all default_ok (sc_args cmd)"
proof -
  have "set (sc_args cmd) \<subseteq> set (own_tables env)" using assms by (auto simp: own_tables_def known_registry_def)
  then show ?thesis using own_tables_fit own_tables_defaults by (auto simp: list_all_iff)
qed

lemma shared_args_fit:
  "list_all data_kind_fits (common_args @ concat (map shareable_args gs)) \<and>
   list_all default_ok (common_args @ concat (map shareable_args gs))"
proof -
  have "set (common_args @ concat (map shareable_args gs)) \<subseteq> set main_table"
  proof -
    have "set (shareable_args g) \<subseteq> set main_table" for g by (cases g) (auto simp: main_table_def)
    moreover have "set common_args \<subseteq> set main_table" by (auto simp: main_table_def)
    ultimately show ?thesis by auto
  qed
  then show ?thesis using main_table_fits main_table_defaults by (auto simp: list_all_iff)
qed

lemma main_actions_fit: "main_actions env = Inr as \<Longrightarrow> \<forall>a \<in> set as. fits kinds a"
  using add_args_fit [OF _ main_table_fits main_table_defaults] by (simp add: main_actions_def main_table_def)

lemma sub_actions_fit:
  assumes "known_registry env registry" and "cmd \<in> set registry" and "sub_actions env cmd = Inr as"
  shows "\<forall>a \<in> set as. fits kinds a"
proof -
  obtain own shared where "add_args env False (sc_args cmd) = Inr own" "as = own @ shared"
    "add_args env True (common_args @ concat (map shareable_args (sc_shared cmd))) = Inr shared"
    using assms(3) by (auto simp: sub_actions_def res_simps)
  then show ?thesis using add_args_fit own_args_fit [OF assms(1,2)] shared_args_fit by (metis Un_iff set_append)
qed

section \<open>Present attributes\<close>

text \<open>Every attribute with a default is present, and a text argument that was given is a text.\<close>

definition present :: "arg_action list \<Rightarrow> parse_state \<Rightarrow> bool" where
  "present as ps \<longleftrightarrow> wf_dict (ps_ns ps) \<and>
     (\<forall>a \<in> set as. ac_default a \<noteq> None \<longrightarrow> dict_get (ps_ns ps) (ac_dest a) \<noteq> None) \<and>
     (\<forall>a \<in> set as. ac_kind a = Kind_Str \<longrightarrow> ac_name a \<in> set (ps_seen ps) \<longrightarrow>
        (\<exists>s. dict_get (ps_ns ps) (ac_dest a) = Some (PyStr s)))"

lemma defaults_present:
  "wf_dict (defaults_of as) \<and> (\<forall>a \<in> set as. ac_default a \<noteq> None \<longrightarrow> dict_get (defaults_of as) (ac_dest a) \<noteq> None)"
proof -
  have step: "wf_dict ns \<Longrightarrow> wf_dict (default_step a ns)"
    "dict_get ns k \<noteq> None \<Longrightarrow> dict_get (default_step a ns) k \<noteq> None"
    "ac_default a \<noteq> None \<Longrightarrow> dict_get (default_step a ns) (ac_dest a) \<noteq> None" for a ns k
    by (auto simp: default_step_def split: option.splits)
  have "wf_dict ns \<longrightarrow> wf_dict (fold default_step as ns) \<and>
      (\<forall>k. dict_get ns k \<noteq> None \<longrightarrow> dict_get (fold default_step as ns) k \<noteq> None) \<and>
      (\<forall>a \<in> set as. ac_default a \<noteq> None \<longrightarrow> dict_get (fold default_step as ns) (ac_dest a) \<noteq> None)" for ns
  proof (induction as arbitrary: ns)
    case (Cons a as)
    have wf: "wf_dict ns \<Longrightarrow> wf_dict (default_step a ns)" by (rule step(1))
    show ?case using Cons [of "default_step a ns"] step(2) [of ns _ a] step(3) [of a ns] wf by auto
  qed simp
  then show ?thesis by (simp add: defaults_of_def)
qed

text \<open>A token changes one attribute: it sets that of an action it has seen.\<close>

lemma token_effect:
  assumes "parse_token env as tok ps = Inr ps'" and "set (ps_left ps) \<subseteq> set as"
  shows "ps' = ps\<lparr>ps_extra := True\<rparr> \<or>
    (\<exists>a v. a \<in> set as \<and> ps_ns ps' = dict_set (ps_ns ps) (ac_dest a) v \<and> ps_seen ps' = ac_name a # ps_seen ps \<and>
      (ac_kind a = Kind_Str \<longrightarrow> (\<exists>s. v = PyStr s)))"
proof (cases tok)
  case (Tok_Option flag val)
  then consider "ps' = ps\<lparr>ps_extra := True\<rparr>"
    | a ns where "a \<in> set as" "take_option env a flag val (ps_ns ps) = Inr ns" "ps' = ps\<lparr>ps_ns := ns, ps_seen := ac_name a # ps_seen ps\<rparr>"
    using assms(1) by (auto simp: parse_token_def res_map_Inr_iff dest!: find_in split: if_splits option.splits)
  then show ?thesis
  proof cases
    case 2
    then have "\<exists>v. ns = dict_set (ps_ns ps) (ac_dest a) v \<and> (ac_kind a = Kind_Str \<longrightarrow> (\<exists>s. v = PyStr s))"
      by (auto simp: take_option_def res_map_Inr_iff store_value_def split: option.splits arg_kind.splits)
    then show ?thesis using 2 by auto
  qed simp
next
  case (Tok_Positional s)
  show ?thesis
  proof (cases "ps_left ps")
    case Nil
    then show ?thesis using Tok_Positional assms(1) by (auto simp: parse_token_def)
  next
    case (Cons a left)
    then obtain v where v: "store_value env (ac_kind a) (dict_get (ps_ns ps) (ac_dest a)) s = Inr v"
      "ps' = ps\<lparr>ps_ns := dict_set (ps_ns ps) (ac_dest a) v, ps_left := left, ps_seen := ac_name a # ps_seen ps\<rparr>"
      using Tok_Positional assms(1) by (auto simp: parse_token_def res_map_Inr_iff)
    moreover have "ac_kind a = Kind_Str \<longrightarrow> (\<exists>s. v = PyStr s)" using v(1) by (auto simp: store_value_def)
    ultimately show ?thesis using Cons assms(2) by (intro disjI2 exI [of _ a] exI [of _ v]) auto
  qed
qed

lemma token_present:
  assumes "parse_token env as tok ps = Inr ps'" and "\<forall>a \<in> set as. fits K a" and "set (ps_left ps) \<subseteq> set as" and "present as ps"
  shows "present as ps'"
  using token_effect [OF assms(1,3)]
proof (elim disjE exE conjE)
  assume "ps' = ps\<lparr>ps_extra := True\<rparr>"
  then show ?thesis using assms(4) by (simp add: present_def)
next
  fix a v
  assume a: "a \<in> set as" "ps_ns ps' = dict_set (ps_ns ps) (ac_dest a) v" "ps_seen ps' = ac_name a # ps_seen ps"
    and str: "ac_kind a = Kind_Str \<longrightarrow> (\<exists>s. v = PyStr s)"
  have same: "ac_kind b = ac_kind a" if "b \<in> set as" "ac_dest b = ac_dest a" for b
    using assms(2) a(1) that by (auto simp: fits_def) (metis option.inject)
  have wf: "wf_dict (ps_ns ps)" using assms(4) by (simp add: present_def)
  have "dict_get (ps_ns ps') (ac_dest b) \<noteq> None" if "b \<in> set as" "ac_default b \<noteq> None" for b
    using assms(4) a(2) that by (simp add: present_def)
  moreover have "\<exists>s. dict_get (ps_ns ps') (ac_dest b) = Some (PyStr s)"
    if b: "b \<in> set as" "ac_kind b = Kind_Str" "ac_name b \<in> set (ps_seen ps')" for b
  proof (cases "ac_dest b = ac_dest a")
    case True
    have "ac_kind a = Kind_Str" using same [OF b(1) True] b(2) by simp
    then obtain s where "v = PyStr s" using str by blast
    then show ?thesis unfolding a(2) True by simp
  next
    case False
    then have "ac_name b \<noteq> ac_name a" using ac_dest_name by blast
    then have "ac_name b \<in> set (ps_seen ps)" using b(3) a(3) by simp
    then obtain s where "dict_get (ps_ns ps) (ac_dest b) = Some (PyStr s)"
      using assms(4) b(1,2) unfolding present_def by blast
    then show ?thesis unfolding a(2) using False by simp
  qed
  ultimately show ?thesis using wf a(2) by (simp add: present_def)
qed

lemma token_left:
  "parse_token env as tok ps = Inr ps' \<Longrightarrow> set (ps_left ps) \<subseteq> set as \<Longrightarrow> set (ps_left ps') \<subseteq> set as"
  by (auto simp: parse_token_def res_map_Inr_iff split: token.splits if_splits option.splits list.splits)

lemma level_present:
  assumes "parse_level env as toks = Inr (ns, x)" and fit: "\<forall>a \<in> set as. fits K a"
  shows "wf_dict ns \<and> (\<forall>a \<in> set as. ac_default a \<noteq> None \<longrightarrow> dict_get ns (ac_dest a) \<noteq> None) \<and>
    (\<forall>a \<in> set as. ac_kind a = Kind_Str \<longrightarrow> ac_required a \<longrightarrow> (\<exists>s. dict_get ns (ac_dest a) = Some (PyStr s)))"
proof -
  let ?s = "\<lparr>ps_ns = defaults_of as, ps_left = filter (\<lambda>a. \<not> is_option (ac_name a)) as, ps_seen = [], ps_extra = False\<rparr>"
  let ?I = "\<lambda>ps. present as ps \<and> set (ps_left ps) \<subseteq> set as"
  obtain ps where run: "res_fold (parse_token env as) toks ?s = Inr ps" and ns: "ns = ps_ns ps"
    and seen: "\<not> list_ex (\<lambda>a. ac_required a \<and> ac_name a \<notin> set (ps_seen ps)) as"
    using assms(1) by (auto simp: parse_level_def res_simps split: if_splits)
  have "?I ?s" using defaults_present [of as] by (auto simp: present_def)
  then have "?I ps"
    using res_fold_invariant [OF run, of ?I] token_present [OF _ fit] token_left by blast
  then show ?thesis using ns seen by (auto simp: present_def list_ex_iff)
qed

definition attr_of :: "arg_data \<Rightarrow> string" where
  "attr_of d = ac_dest \<lparr>ac_name = ad_name d, ac_kind = Kind_Str, ac_default = None, ac_required = False\<rparr>"

definition required_text :: "arg_data \<Rightarrow> bool" where
  "required_text d \<longleftrightarrow> kind_of_type (type_of d) = Some Kind_Str \<and>
     (case ad_required d of Some r \<Rightarrow> r | None \<Rightarrow> \<not> is_option (ad_name d))"

lemma own_tables_no_version: "list_all (\<lambda>d. kind_of_type (type_of d) \<noteq> Some Kind_Version) (own_tables env)"
  by code_simp

lemma update_typed: "ns_typed K d \<Longrightarrow> ns_typed K e \<Longrightarrow> wf_dict e \<Longrightarrow> ns_typed K (dict_update d e)"
  by (auto simp: ns_typed_def dict_get_update split: option.splits)

text \<open>What a subparser leaves behind.\<close>

lemma subparser_result:
  assumes "run_subparser env registry name toks ns0 = Inr (ns, x, cb)" and "known_registry env registry" and "ns_typed kinds ns0"
  shows "ns_typed kinds ns \<and> (\<exists>cmd \<in> set registry. sc_callback cmd = cb \<and>
    (\<forall>d \<in> set (sc_args cmd). \<exists>w. dict_get ns (attr_of d) = Some w \<and> (required_text d \<longrightarrow> (\<exists>s. w = PyStr s))))"
proof -
  obtain cmd as sub where cmd: "find (\<lambda>c. sc_name c = name) (groups_to_process registry) = Some cmd" "sc_callback cmd = cb"
    and as: "sub_actions env cmd = Inr as" and lvl: "parse_level env as toks = Inr (sub, x)" and ns: "ns = dict_update ns0 sub"
    using assms(1) by (auto simp: run_subparser_def res_map_Inr_iff res_simps split: option.splits prod.splits)
  have mem: "cmd \<in> set registry" using find_in [OF cmd(1)] by (auto simp: groups_to_process_def)
  have fit: "\<forall>a \<in> set as. fits kinds a" using sub_actions_fit [OF assms(2) mem as] .
  note pres = level_present [OF lvl fit]
  have "ns_typed kinds ns" using update_typed [OF assms(3) level_typed [OF lvl fit]] pres ns by blast
  moreover have "\<exists>w. dict_get ns (attr_of d) = Some w \<and> (required_text d \<longrightarrow> (\<exists>s. w = PyStr s))" if d: "d \<in> set (sc_args cmd)" for d
  proof -
    have "d \<in> set (own_tables env)" using d mem assms(2) by (auto simp: own_tables_def known_registry_def)
    then have ok: "data_kind_fits d" "default_ok d" "kind_of_type (type_of d) \<noteq> Some Kind_Version"
      using own_tables_fit own_tables_defaults own_tables_no_version [of env] by (auto simp: list_all_iff)
    obtain own where "add_args env False (sc_args cmd) = Inr own" "set own \<subseteq> set as"
      using as by (auto simp: sub_actions_def res_simps)
    then obtain a where a: "a \<in> set as" "add_arg env False d = Inr a" using mapM_image d unfolding add_args_def by (metis subsetD)
    note f = add_arg_fits [OF a(2) ok(1,2)]
    have dest: "ac_dest a = attr_of d" using f ac_dest_name by (simp add: attr_of_def)
    have "ac_default a \<noteq> None" using f ok(3) by auto
    then have here: "dict_get sub (attr_of d) \<noteq> None" using pres a(1) dest by metis
    moreover have "\<exists>s. dict_get sub (attr_of d) = Some (PyStr s)" if "required_text d"
      using pres a(1) dest f that by (metis option.inject required_text_def)
    ultimately show ?thesis using ns pres by (auto simp: dict_get_update split: option.splits)
  qed
  ultimately show ?thesis using mem cmd(2) by blast
qed

text \<open>
  C21: The parsed command line is well typed: every attribute has a value of the kind its argument declares
  (texts, truth values, lists of texts), the choice of a virtual machine is made, and every attribute of
  the command is there, the required ones as texts.
\<close>

theorem parsed_args_typed:
  assumes "parse_args env registry toks = Inr (ns, cb)" and "known_registry env registry"
  shows "(dict_get ns k = Some v \<longrightarrow> (\<exists>kind. kinds k = Some kind \<and> arg_typed kind v \<and> (k = ''vm'' \<longrightarrow> v \<noteq> PyNone))) \<and>
    (cb = No_Subcommand \<or> (\<exists>cmd \<in> set registry. sc_callback cmd = cb \<and>
      (\<forall>d \<in> set (sc_args cmd). \<exists>w. dict_get ns (attr_of d) = Some w \<and> (required_text d \<longrightarrow> (\<exists>s. w = PyStr s)))))"
proof -
  obtain as ns0 x ns1 y where as: "main_actions env = Inr as"
    and lvl: "parse_level env as (takeWhile (\<lambda>t. \<not> is_positional t) toks) = Inr (ns0, x)"
    and run: "(case dropWhile (\<lambda>t. \<not> is_positional t) toks of
          Tok_Positional name # rest \<Rightarrow> run_subparser env registry name rest ns0
        | _ \<Rightarrow> Inr (ns0, False, No_Subcommand)) = Inr (ns1, y, cb)" and ns: "ns = set_vm (mode_of env ns1) ns1"
    using assms(1) by (auto simp: parse_args_def res_simps split: if_splits prod.splits)
  have t0: "ns_typed kinds ns0" by (rule level_typed [OF lvl main_actions_fit [OF as]])
  have r: "ns_typed kinds ns1 \<and> (cb = No_Subcommand \<or> (\<exists>cmd \<in> set registry. sc_callback cmd = cb \<and>
      (\<forall>d \<in> set (sc_args cmd). \<exists>w. dict_get ns1 (attr_of d) = Some w \<and> (required_text d \<longrightarrow> (\<exists>s. w = PyStr s)))))"
  proof (cases "\<exists>name rest. dropWhile (\<lambda>t. \<not> is_positional t) toks = Tok_Positional name # rest")
    case True
    then show ?thesis using run subparser_result [OF _ assms(2) t0] by auto
  next
    case False
    then have "ns1 = ns0 \<and> cb = No_Subcommand" using run by (auto split: list.splits token.splits)
    then show ?thesis using t0 by simp
  qed
  have vm: "kinds ''vm'' = Some Kind_Bool_Optional" by code_simp
  have "ns_typed kinds ns" using ns r vm ns_typed_set [where K = kinds and k = "''vm''" and kind = Kind_Bool_Optional]
    by (auto simp: set_vm_def)
  moreover have "dict_get ns ''vm'' \<noteq> Some PyNone" by (auto simp: ns set_vm_def)
  moreover have "(dict_get ns1 j = Some (PyStr s) \<longrightarrow> dict_get ns j = Some (PyStr s)) \<and> (dict_get ns1 j \<noteq> None \<longrightarrow> dict_get ns j \<noteq> None)" for j s
    by (auto simp: ns set_vm_def)
  ultimately show ?thesis using r by (auto simp: ns_typed_def) (metis option.distinct(1) option.exhaust)+
qed

definition sample_arg_env :: "(string \<Rightarrow> string option) \<Rightarrow> arg_env" where
  "sample_arg_env vars = \<lparr>ae_environ = vars, ae_machine = ''aarch64'', ae_isatty = False, ae_regular_file = (\<lambda>p. None),
     ae_resolve = (\<lambda>p. p), ae_container = \<lparr>cs_in_container = False, cs_rootless = False\<rparr>, ae_uid = 1000\<rparr>"

definition no_vars :: "string \<Rightarrow> string option" where
  "no_vars v = None"

definition to_disk_line :: "token list" where
  "to_disk_line = [Tok_Option ''--verbose'' None, Tok_Positional ''to-disk-image'', Tok_Positional ''img'', Tok_Positional ''out.img'']"

theorem parsed_args_typed_witness:
  "\<exists>ns b. parse_args (sample_arg_env no_vars) (aib_commands (sample_arg_env no_vars)) to_disk_line = Inr (ns, To_Disk_Image) \<and>
    dict_get ns ''vm'' = Some (PyBool b)"
proof -
  define r where "r = parse_args (sample_arg_env no_vars) (aib_commands (sample_arg_env no_vars)) to_disk_line"
  have "map_sum (\<lambda>_. ()) (map_prod (\<lambda>ns. dict_get ns ''vm'' \<noteq> None) id) r = Inr (True, To_Disk_Image)" unfolding r_def by code_simp
  then obtain ns v where r: "r = Inr (ns, To_Disk_Image)" "dict_get ns ''vm'' = Some v" by (cases r) auto
  have k: "known_registry (sample_arg_env no_vars) (aib_commands (sample_arg_env no_vars))" by (simp add: known_registry_def)
  have vm: "kinds ''vm'' = Some Kind_Bool_Optional" by code_simp
  show ?thesis
    using parsed_args_typed [OF r(1) [unfolded r_def] k, of "''vm''" v] r(2) r(1) [unfolded r_def] vm by auto
qed

end
