(* ===== verification/Arguments_Place.thy ===== *)
theory Arguments_Place
  imports Arguments_Laws
begin

text \<open>
  The place of the option for the container storage: the main parser and the parsers of the commands both
  have it, and \<open>src/aib/arguments.py\<close> means it to work in both places.
\<close>

definition storage_flag :: string where "storage_flag = ''--container-storage''"
definition storage_attr :: string where "storage_attr = ''container_storage''"

lemma storage_kind: "kinds storage_attr = Some Kind_Str"
  by code_simp

lemma storage_dest: "ac_name a = storage_flag \<Longrightarrow> ac_dest a = storage_attr"
  using ac_dest_name [of a "\<lparr>ac_name = storage_flag, ac_kind = Kind_Str, ac_default = None, ac_required = False\<rparr>"]
  by (simp, code_simp)

text \<open>The actions that the option can reach.\<close>

lemma storage_action:
  assumes "fits kinds a" and "storage_flag \<in> set (ac_flags a)"
  shows "ac_name a = storage_flag \<and> ac_dest a = storage_attr \<and> ac_kind a = Kind_Str"
proof -
  have "ac_name a = storage_flag" using assms(2) by (auto simp: ac_flags_def storage_flag_def split: if_splits)
  then show ?thesis using storage_dest storage_kind assms(1) by (auto simp: fits_def)
qed

lemma no_help: "storage_flag \<notin> set help_flags"
  by code_simp

text \<open>Reading the option in a parser that knows it.\<close>

definition with_storage :: "string \<Rightarrow> parse_state \<Rightarrow> parse_state" where
  "with_storage p ps = ps\<lparr>ps_ns := dict_set (ps_ns ps) storage_attr (PyStr p), ps_seen := storage_flag # ps_seen ps\<rparr>"

lemma storage_token:
  assumes "\<forall>a \<in> set as. fits kinds a" and "b \<in> set as" and "storage_flag \<in> set (ac_flags b)"
  shows "parse_token env as (Tok_Option storage_flag (Some p)) ps = Inr (with_storage p ps)"
proof -
  obtain a where a: "find (\<lambda>a. storage_flag \<in> set (ac_flags a)) as = Some a"
    using assms(2,3) by (metis (no_types, lifting) find_None_iff option.exhaust)
  have "ac_name a = storage_flag" "ac_dest a = storage_attr" "ac_kind a = Kind_Str"
    using storage_action find_in [OF a] assms(1) by blast+
  then show ?thesis using a no_help by (simp add: parse_token_def take_option_def store_value_def with_storage_def)
qed

text \<open>Two runs that differ in the container storage alone.\<close>

definition alike :: "string \<Rightarrow> parse_state \<Rightarrow> parse_state \<Rightarrow> bool" where
  "alike p s t \<longleftrightarrow> ps_left s = ps_left t \<and> ps_extra s = ps_extra t \<and>
     (\<forall>n. n \<noteq> storage_flag \<longrightarrow> n \<in> set (ps_seen s) \<longleftrightarrow> n \<in> set (ps_seen t)) \<and>
     (\<forall>k. k \<noteq> storage_attr \<longrightarrow> dict_get (ps_ns s) k = dict_get (ps_ns t) k) \<and>
     dict_get (ps_ns t) storage_attr \<noteq> None \<and>
     (dict_get (ps_ns s) storage_attr = dict_get (ps_ns t) storage_attr \<or>
      dict_get (ps_ns s) storage_attr = None \<and> dict_get (ps_ns t) storage_attr = Some (PyStr p))"

lemma store_alike:
  assumes "fits kinds a" and "alike p s t"
  shows "store_value env (ac_kind a) (dict_get (ps_ns s) (ac_dest a)) x = store_value env (ac_kind a) (dict_get (ps_ns t) (ac_dest a)) x"
proof (cases "ac_dest a = storage_attr")
  case True
  then have "ac_kind a = Kind_Str" using assms(1) storage_kind by (simp add: fits_def)
  then show ?thesis by (simp add: store_value_def)
next
  case False
  then show ?thesis using assms(2) by (simp add: alike_def)
qed

lemma set_alike:
  assumes "alike p s t"
  shows "alike p (s\<lparr>ps_ns := dict_set (ps_ns s) k v, ps_seen := n # ps_seen s\<rparr>) (t\<lparr>ps_ns := dict_set (ps_ns t) k v, ps_seen := n # ps_seen t\<rparr>)"
  using assms by (auto simp: alike_def)

lemma option_alike:
  assumes "fits kinds a" and "alike p s t"
  shows "rel_sum (=) (alike p)
    (res_map (\<lambda>ns. s\<lparr>ps_ns := ns, ps_seen := ac_name a # ps_seen s\<rparr>) (take_option env a flag val (ps_ns s)))
    (res_map (\<lambda>ns. t\<lparr>ps_ns := ns, ps_seen := ac_name a # ps_seen t\<rparr>) (take_option env a flag val (ps_ns t)))"
proof (cases val)
  case None
  then show ?thesis using set_alike [OF assms(2)] by (cases "ac_kind a") (simp_all add: take_option_def)
next
  case (Some x)
  then show ?thesis using set_alike [OF assms(2)] store_alike [OF assms, of env x]
    by (cases "store_value env (ac_kind a) (dict_get (ps_ns t) (ac_dest a)) x") (simp_all add: take_option_def)
qed

lemma token_alike:
  assumes "\<forall>a \<in> set as. fits kinds a" and "alike p s t" and "set (ps_left s) \<subseteq> set as"
  shows "rel_sum (=) (alike p) (parse_token env as tok s) (parse_token env as tok t)"
proof (cases tok)
  case (Tok_Option flag val)
  have extra: "alike p (s\<lparr>ps_extra := True\<rparr>) (t\<lparr>ps_extra := True\<rparr>)" using assms(2) by (simp add: alike_def)
  show ?thesis
  proof (cases "find (\<lambda>a. flag \<in> set (ac_flags a)) as")
    case None
    then show ?thesis using Tok_Option extra by (simp add: parse_token_def)
  next
    case (Some a)
    then have "fits kinds a" using assms(1) find_in by metis
    then show ?thesis using Tok_Option Some option_alike [OF _ assms(2), of a env flag val] by (simp add: parse_token_def)
  qed
next
  case (Tok_Positional x)
  have left: "ps_left t = ps_left s" using assms(2) by (simp add: alike_def)
  show ?thesis
  proof (cases "ps_left s")
    case Nil
    then show ?thesis using Tok_Positional left assms(2) by (simp add: parse_token_def alike_def)
  next
    case (Cons a rest)
    have a: "fits kinds a" using assms(1,3) Cons by auto
    have "alike p (s\<lparr>ps_ns := dict_set (ps_ns s) k v, ps_left := rest, ps_seen := n # ps_seen s\<rparr>)
        (t\<lparr>ps_ns := dict_set (ps_ns t) k v, ps_left := rest, ps_seen := n # ps_seen t\<rparr>)" for k v n
      using set_alike [OF assms(2), where k = k and v = v and n = n] by (simp add: alike_def)
    then show ?thesis using Tok_Positional Cons left store_alike [OF a assms(2), of env x]
      by (cases "store_value env (ac_kind a) (dict_get (ps_ns t) (ac_dest a)) x") (simp_all add: parse_token_def)
  qed
qed

lemma fold_alike:
  assumes "\<forall>a \<in> set as. fits kinds a" and "alike p s t" and "set (ps_left s) \<subseteq> set as"
  shows "rel_sum (=) (alike p) (res_fold (parse_token env as) toks s) (res_fold (parse_token env as) toks t)"
  using assms(2,3)
proof (induction toks arbitrary: s t)
  case (Cons tok toks)
  have r: "rel_sum (=) (alike p) (parse_token env as tok s) (parse_token env as tok t)"
    by (rule token_alike [OF assms(1) Cons.prems])
  show ?case
  proof (cases "parse_token env as tok s")
    case (Inl e)
    then have "parse_token env as tok t = Inl e" using r by (cases "parse_token env as tok t") auto
    then show ?thesis using Inl by simp
  next
    case (Inr s')
    then obtain t' where t': "parse_token env as tok t = Inr t'" "alike p s' t'" using r by (cases "parse_token env as tok t") auto
    then show ?thesis using Inr Cons.IH [OF t'(2)] token_left [OF Inr Cons.prems(2)] by simp
  qed
qed simp

text \<open>The parser of a command: with the option in front, its namespace has the storage as well.\<close>

definition level_alike :: "string \<Rightarrow> dict \<times> bool \<Rightarrow> dict \<times> bool \<Rightarrow> bool" where
  "level_alike p s t \<longleftrightarrow> snd s = snd t \<and> wf_dict (fst s) \<and> wf_dict (fst t) \<and>
     (\<forall>k. k \<noteq> storage_attr \<longrightarrow> dict_get (fst s) k = dict_get (fst t) k) \<and>
     dict_get (fst t) storage_attr \<noteq> None \<and>
     (dict_get (fst s) storage_attr = dict_get (fst t) storage_attr \<or>
      dict_get (fst s) storage_attr = None \<and> dict_get (fst t) storage_attr = Some (PyStr p))"

lemma level_storage_first:
  assumes "\<forall>a \<in> set as. fits kinds a" and "b \<in> set as" and "storage_flag \<in> set (ac_flags b)"
    and "\<forall>a \<in> set as. ac_name a = storage_flag \<longrightarrow> \<not> ac_required a" and "dict_get (defaults_of as) storage_attr = None"
  shows "rel_sum (=) (level_alike p) (parse_level env as toks) (parse_level env as (Tok_Option storage_flag (Some p) # toks))"
proof -
  define s where "s = \<lparr>ps_ns = defaults_of as, ps_left = filter (\<lambda>a. \<not> is_option (ac_name a)) as, ps_seen = [], ps_extra = False\<rparr>"
  have al: "alike p s (with_storage p s)" using assms(5) by (auto simp: alike_def s_def with_storage_def)
  have left: "set (ps_left s) \<subseteq> set as" by (auto simp: s_def)
  have first: "res_fold (parse_token env as) (Tok_Option storage_flag (Some p) # toks) s = res_fold (parse_token env as) toks (with_storage p s)"
    using storage_token [OF assms(1-3)] by simp
  have rel: "rel_sum (=) (alike p) (res_fold (parse_token env as) toks s) (res_fold (parse_token env as) toks (with_storage p s))"
    by (rule fold_alike [OF assms(1) al left])
  have req: "list_ex (\<lambda>a. ac_required a \<and> ac_name a \<notin> set (ps_seen u)) as = list_ex (\<lambda>a. ac_required a \<and> ac_name a \<notin> set (ps_seen v)) as"
    if "alike p u v" for u v
    using that assms(4) unfolding alike_def list_ex_iff by metis
  show ?thesis
  proof (cases "res_fold (parse_token env as) toks s")
    case (Inl e)
    then have "res_fold (parse_token env as) toks (with_storage p s) = Inl e"
      using rel by (cases "res_fold (parse_token env as) toks (with_storage p s)") auto
    then show ?thesis using Inl unfolding parse_level_def s_def [symmetric] first by simp
  next
    case (Inr u)
    then obtain v where v: "res_fold (parse_token env as) toks (with_storage p s) = Inr v" "alike p u v"
      using rel by (cases "res_fold (parse_token env as) toks (with_storage p s)") auto
    have lvl: "parse_level env as toks = (if list_ex (\<lambda>a. ac_required a \<and> ac_name a \<notin> set (ps_seen v)) as then Inl usage_error
          else Inr (ps_ns u, ps_extra u))"
      "parse_level env as (Tok_Option storage_flag (Some p) # toks) =
        (if list_ex (\<lambda>a. ac_required a \<and> ac_name a \<notin> set (ps_seen v)) as then Inl usage_error else Inr (ps_ns v, ps_extra v))"
      unfolding parse_level_def s_def [symmetric] first using Inr v req [OF v(2)] by simp_all
    show ?thesis
    proof (cases "list_ex (\<lambda>a. ac_required a \<and> ac_name a \<notin> set (ps_seen v)) as")
      case False
      then have wf: "wf_dict (ps_ns u)" "wf_dict (ps_ns v)" using lvl level_present [OF _ assms(1)] by auto
      then have "level_alike p (ps_ns u, ps_extra u) (ps_ns v, ps_extra v)" using v(2) unfolding level_alike_def alike_def by simp
      then show ?thesis using False lvl by simp
    qed (simp add: lvl)
  qed
qed

text \<open>The main parser: the option at the end sets the attribute.\<close>

lemma level_storage_last:
  assumes "\<forall>a \<in> set as. fits kinds a" and "b \<in> set as" and "storage_flag \<in> set (ac_flags b)"
    and "\<forall>a \<in> set as. \<not> ac_required a"
  shows "parse_level env as (toks @ [Tok_Option storage_flag (Some p)]) =
    res_map (\<lambda>(ns, x). (dict_set ns storage_attr (PyStr p), x)) (parse_level env as toks)"
proof -
  have noreq: "\<not> list_ex (\<lambda>a. ac_required a \<and> ac_name a \<notin> S) as" for S using assms(4) by (auto simp: list_ex_iff)
  show ?thesis
    using storage_token [OF assms(1-3)]
    by (cases "res_fold (parse_token env as) toks \<lparr>ps_ns = defaults_of as, ps_left = filter (\<lambda>a. \<not> is_option (ac_name a)) as, ps_seen = [], ps_extra = False\<rparr>")
      (simp_all add: parse_level_def res_fold_append noreq with_storage_def)
qed

section \<open>The option in both programs\<close>

definition storage_data :: arg_data where
  "storage_data = (typed_arg ''--container-storage'' ''path'')\<lparr>ad_env := Some ''AIB_CONTAINER_STORAGE''\<rparr>"

lemma own_tables_no_storage: "list_all (\<lambda>d. attr_of d \<noteq> storage_attr) (own_tables env)"
  by code_simp

lemma main_table_storage:
  "list_all (\<lambda>d. (if attr_of d = storage_attr then d = storage_data else True) \<and> ad_required d = None \<and> is_option (ad_name d)) main_table"
  by code_simp

lemma main_storage: "storage_data \<in> set main_table"
  by (simp add: main_table_def storage_data_def)

lemma main_data_fits: "d \<in> set main_table \<Longrightarrow> data_kind_fits d \<and> default_ok d"
  using main_table_fits main_table_defaults by (auto simp: list_all_iff)

lemma storage_flags: "add_arg env su storage_data = Inr a \<Longrightarrow> storage_flag \<in> set (ac_flags a)"
  using add_arg_fits [of env su storage_data a] main_data_fits [OF main_storage]
  by (auto simp: ac_flags_def storage_data_def storage_flag_def plain_arg_def typed_arg_def is_option_def)

lemma add_arg_attr:
  assumes "add_arg env su d = Inr a" and "data_kind_fits d" and "default_ok d"
  shows "ac_dest a = attr_of d"
  using add_arg_fits [OF assms] ac_dest_name by (simp add: attr_of_def)

lemma main_actions_storage:
  assumes "main_actions env = Inr as"
  shows "(\<exists>b \<in> set as. storage_flag \<in> set (ac_flags b)) \<and> (\<forall>a \<in> set as. \<not> ac_required a)"
proof -
  have m: "res_mapM (add_arg env False) main_table = Inr as" using assms by (simp add: main_actions_def main_table_def add_args_def)
  have "\<not> ac_required a" if a: "a \<in> set as" for a
  proof -
    obtain d where d: "d \<in> set main_table" "add_arg env False d = Inr a" using mapM_mem [OF m a] by blast
    then have "ad_required d = None \<and> is_option (ad_name d)" using main_table_storage by (auto simp: list_all_iff)
    then show ?thesis using add_arg_fits [OF d(2)] main_data_fits [OF d(1)] by simp
  qed
  then show ?thesis using mapM_image [OF m main_storage] storage_flags by blast
qed

lemma defaults_storage:
  assumes "\<forall>a \<in> set as. ac_dest a = storage_attr \<longrightarrow> ac_default a = None"
  shows "dict_get (defaults_of as) storage_attr = None"
proof -
  have "dict_get (fold default_step as ns) storage_attr = dict_get ns storage_attr" for ns
    using assms by (induction as arbitrary: ns) (auto simp: default_step_def split: option.splits)
  then show ?thesis by (simp add: defaults_of_def)
qed

text \<open>The parser of a command that has the option, when the variable is not set.\<close>

lemma sub_actions_storage:
  assumes "known_registry env registry" and "cmd \<in> set registry" and "sub_actions env cmd = Inr as"
    and "Shared_Container \<in> set (sc_shared cmd)" and "ae_environ env ''AIB_CONTAINER_STORAGE'' = None"
  shows "(\<exists>b \<in> set as. storage_flag \<in> set (ac_flags b)) \<and> (\<forall>a \<in> set as. ac_name a = storage_flag \<longrightarrow> \<not> ac_required a) \<and>
    dict_get (defaults_of as) storage_attr = None"
proof -
  let ?shared = "common_args @ concat (map shareable_args (sc_shared cmd))"
  obtain own shared where own: "res_mapM (add_arg env False) (sc_args cmd) = Inr own" and as: "as = own @ shared"
    and shared: "res_mapM (add_arg env True) ?shared = Inr shared"
    using assms(3) by (auto simp: sub_actions_def res_simps add_args_def)
  have mem: "storage_data \<in> set ?shared" using assms(4) by (force simp: storage_data_def)
  have sub: "d \<in> set ?shared \<Longrightarrow> data_kind_fits d \<and> default_ok d" for d using shared_args_fit by (auto simp: list_all_iff)
  have main: "d \<in> set main_table" if "d \<in> set ?shared" for d
  proof -
    have "set (shareable_args g) \<subseteq> set main_table" for g by (cases g) (auto simp: main_table_def)
    then show ?thesis using that by (auto simp: main_table_def)
  qed
  have "ac_default a = None \<and> \<not> ac_required a" if a: "a \<in> set as" "ac_dest a = storage_attr" for a
  proof (cases "a \<in> set own")
    case True
    obtain d where d: "d \<in> set (sc_args cmd)" "add_arg env False d = Inr a" using mapM_mem [OF own True] by blast
    have "d \<in> set (own_tables env)" using d(1) assms(1,2) by (auto simp: own_tables_def known_registry_def)
    then have "attr_of d \<noteq> storage_attr" "data_kind_fits d" "default_ok d"
      using own_tables_no_storage own_tables_fit own_tables_defaults by (auto simp: list_all_iff)
    then show ?thesis using add_arg_attr [OF d(2)] a(2) by simp
  next
    case False
    then have "a \<in> set shared" using a(1) as by simp
    then obtain d where d: "d \<in> set ?shared" "add_arg env True d = Inr a" using mapM_mem [OF shared] by blast
    then have "attr_of d = storage_attr" using add_arg_attr [OF d(2)] sub [OF d(1)] a(2) by simp
    then have "d = storage_data" using main_table_storage main [OF d(1)] by (auto simp: list_all_iff)
    then show ?thesis using d(2) assms(5)
      by (auto simp: add_arg_def storage_data_def typed_arg_def plain_arg_def type_of_def kind_of_type_def is_option_def)
  qed
  note none = this
  obtain b where "b \<in> set shared" "add_arg env True storage_data = Inr b" using mapM_image [OF shared mem] by blast
  then have "b \<in> set as" "storage_flag \<in> set (ac_flags b)" using storage_flags as by auto
  moreover have "\<forall>a \<in> set as. ac_name a = storage_flag \<longrightarrow> \<not> ac_required a" using none storage_dest by blast
  moreover have "dict_get (defaults_of as) storage_attr = None" using none by (intro defaults_storage) blast
  ultimately show ?thesis by blast
qed

definition same_outcome :: "(dict \<times> callback) res \<Rightarrow> (dict \<times> callback) res \<Rightarrow> bool" where
  "same_outcome = rel_sum (=) (\<lambda>r r'. snd r = snd r' \<and> (\<forall>k. dict_get (fst r) k = dict_get (fst r') k))"

lemma finish_same:
  assumes "\<forall>k. dict_get ns k = dict_get ns' k"
  shows "dict_get (set_vm (mode_of env ns) ns) k = dict_get (set_vm (mode_of env ns') ns') k"
  using assms by (simp add: set_vm_def mode_of_def dict_get_or_def)

text \<open>The two ways through the subparsers.\<close>

lemma subparser_storage:
  assumes "known_registry env registry" and "ae_environ env ''AIB_CONTAINER_STORAGE'' = None"
    and "\<forall>cmd \<in> set registry. sc_name cmd = name \<longrightarrow> Shared_Container \<in> set (sc_shared cmd)"
  shows "rel_sum (=) (\<lambda>r r'. snd r = snd r' \<and> (\<forall>k. dict_get (fst r) k = dict_get (fst r') k))
    (run_subparser env registry name post (dict_set ns storage_attr (PyStr p)))
    (run_subparser env registry name (Tok_Option storage_flag (Some p) # post) ns)"
proof (cases "find (\<lambda>c. sc_name c = name) (groups_to_process registry)")
  case None
  then show ?thesis by (simp add: run_subparser_def)
next
  case (Some cmd)
  let ?post = "Tok_Option storage_flag (Some p) # post"
  have cmd: "cmd \<in> set registry" "sc_name cmd = name" using find_in [OF Some] by (auto simp: groups_to_process_def)
  show ?thesis
  proof (cases "sub_actions env cmd")
    case (Inl e)
    then show ?thesis using Some by (simp add: run_subparser_def)
  next
    case (Inr subs)
    obtain c where c: "c \<in> set subs" "storage_flag \<in> set (ac_flags c)"
      and opt: "\<forall>a \<in> set subs. ac_name a = storage_flag \<longrightarrow> \<not> ac_required a" "dict_get (defaults_of subs) storage_attr = None"
      using sub_actions_storage [OF assms(1) cmd(1) Inr _ assms(2)] assms(3) cmd by blast
    note rel = level_storage_first [OF sub_actions_fit [OF assms(1) cmd(1) Inr] c opt, of p env post]
    show ?thesis
    proof (cases "parse_level env subs post")
      case (Inl e)
      then have "parse_level env subs ?post = Inl e" using rel by (cases "parse_level env subs ?post") auto
      then show ?thesis using Some Inr Inl by (simp add: run_subparser_def)
    next
      case sub: (Inr s)
      then obtain t where t: "parse_level env subs ?post = Inr t" and al: "level_alike p s t"
        using rel by (cases "parse_level env subs ?post") auto
      have "\<forall>k. dict_get (dict_update (dict_set ns storage_attr (PyStr p)) (fst s)) k = dict_get (dict_update ns (fst t)) k"
        using al by (auto simp: level_alike_def dict_get_update split: option.splits)
      then show ?thesis using Some Inr sub t al by (cases s; cases t) (simp add: run_subparser_def level_alike_def)
    qed
  qed
qed

text \<open>
  C22: The option for the container storage means the same before and after the command, for every command
  that has it, when the environment does not set the storage: both command lines fail in the same way or
  give every attribute the same value.
\<close>

theorem storage_place:
  assumes "known_registry env registry" and "ae_environ env ''AIB_CONTAINER_STORAGE'' = None"
    and "\<forall>t \<in> set pre. \<not> is_positional t"
    and "\<forall>cmd \<in> set registry. sc_name cmd = name \<longrightarrow> Shared_Container \<in> set (sc_shared cmd)"
  shows "same_outcome
    (parse_args env registry (pre @ Tok_Option ''--container-storage'' (Some p) # Tok_Positional name # post))
    (parse_args env registry (pre @ Tok_Positional name # Tok_Option ''--container-storage'' (Some p) # post))"
proof (cases "main_actions env")
  case (Inl e)
  then show ?thesis by (simp add: parse_args_def same_outcome_def)
next
  case (Inr as)
  let ?opt = "Tok_Option storage_flag (Some p)"
  have fit: "\<forall>a \<in> set as. fits kinds a" by (rule main_actions_fit [OF Inr])
  obtain b where b: "b \<in> set as" "storage_flag \<in> set (ac_flags b)" and noreq: "\<forall>a \<in> set as. \<not> ac_required a"
    using main_actions_storage [OF Inr] by blast
  have pos: "\<not> is_positional ?opt" "is_positional (Tok_Positional name)" by (simp_all add: is_positional_def)
  have pre: "takeWhile (\<lambda>t. \<not> is_positional t) (pre @ Tok_Positional name # ts) = pre"
    "dropWhile (\<lambda>t. \<not> is_positional t) (pre @ Tok_Positional name # ts) = Tok_Positional name # ts"
    "takeWhile (\<lambda>t. \<not> is_positional t) (pre @ ?opt # Tok_Positional name # ts) = pre @ [?opt]"
    "dropWhile (\<lambda>t. \<not> is_positional t) (pre @ ?opt # Tok_Positional name # ts) = Tok_Positional name # ts" for ts
    using assms(3) pos by (auto simp: takeWhile_append dropWhile_append)
  note main = level_storage_last [OF fit b noreq, of env pre p]
  show ?thesis
  proof (cases "parse_level env as pre")
    case (Inl e)
    then show ?thesis unfolding storage_flag_def [symmetric]
      using Inr main by (simp add: parse_args_def same_outcome_def pre)
  next
    case lvl: (Inr r)
    obtain ns x where r: "r = (ns, x)" by (cases r)
    let ?finish = "\<lambda>(ns', sub_extra, cb). if x \<or> sub_extra then Inl usage_error else Inr (set_vm (mode_of env ns') ns', cb)"
    have 1: "parse_args env registry (pre @ ?opt # Tok_Positional name # post) =
        res_bind (run_subparser env registry name post (dict_set ns storage_attr (PyStr p))) ?finish"
      unfolding parse_args_def Inr using main lvl r by (simp add: pre)
    have 2: "parse_args env registry (pre @ Tok_Positional name # ?opt # post) =
        res_bind (run_subparser env registry name (?opt # post) ns) ?finish"
      unfolding parse_args_def Inr using lvl r by (simp add: pre)
    have rel: "rel_sum (=) (\<lambda>r r'. snd r = snd r' \<and> (\<forall>k. dict_get (fst r) k = dict_get (fst r') k))
        (run_subparser env registry name post (dict_set ns storage_attr (PyStr p))) (run_subparser env registry name (?opt # post) ns)"
      by (rule subparser_storage [OF assms(1,2,4)])
    then show ?thesis unfolding storage_flag_def [symmetric] 1 2 same_outcome_def
      by (cases "run_subparser env registry name post (dict_set ns storage_attr (PyStr p))";
        cases "run_subparser env registry name (?opt # post) ns") (auto intro: finish_same)
  qed
qed

theorem storage_place_witness:
  "map_sum id (\<lambda>r. dict_get (fst r) ''container_storage'') (parse_args (sample_arg_env no_vars) (aib_commands (sample_arg_env no_vars))
     [Tok_Option ''--container-storage'' (Some ''/c''), Tok_Positional ''extract-for-signing'', Tok_Positional ''img'', Tok_Positional ''out'']) =
   Inr (Some (PyStr ''/c''))"
proof -
  let ?env = "sample_arg_env no_vars"
  define r where "r = parse_args ?env (aib_commands ?env)
     [Tok_Positional ''extract-for-signing'', Tok_Option ''--container-storage'' (Some ''/c''), Tok_Positional ''img'', Tok_Positional ''out'']"
  have r: "map_sum id (\<lambda>r. dict_get (fst r) ''container_storage'') r = Inr (Some (PyStr ''/c''))" unfolding r_def by code_simp
  have k: "known_registry ?env (aib_commands ?env)" by (simp add: known_registry_def)
  have e: "ae_environ ?env ''AIB_CONTAINER_STORAGE'' = None" by (simp add: sample_arg_env_def no_vars_def)
  have c: "\<forall>cmd \<in> set (aib_commands ?env). sc_name cmd = ''extract-for-signing'' \<longrightarrow> Shared_Container \<in> set (sc_shared cmd)" by code_simp
  from storage_place [OF k e _ c, of "[]" "''/c''" "[Tok_Positional ''img'', Tok_Positional ''out'']"]
  have same: "same_outcome (parse_args ?env (aib_commands ?env)
     [Tok_Option ''--container-storage'' (Some ''/c''), Tok_Positional ''extract-for-signing'', Tok_Positional ''img'', Tok_Positional ''out'']) r"
    unfolding r_def by simp
  show ?thesis using same r unfolding same_outcome_def by (cases r) (auto elim!: rel_sum.cases)
qed

text \<open>
  With the variable set, the option before the command is lost: the parser of the command has the variable as
  its default, although defaults of shared options are meant to be suppressed there.
\<close>

definition storage_var :: "string \<Rightarrow> string option" where
  "storage_var v = (if v = ''AIB_CONTAINER_STORAGE'' then Some ''/env'' else None)"

theorem storage_option_lost:
  "map_sum id (\<lambda>r. dict_get (fst r) ''container_storage'') (parse_args (sample_arg_env storage_var) (aib_commands (sample_arg_env storage_var))
     [Tok_Option ''--container-storage'' (Some ''/c''), Tok_Positional ''extract-for-signing'', Tok_Positional ''img'', Tok_Positional ''out'']) =
   Inr (Some (PyStr ''/env''))"
  by code_simp

end
