(* ===== verification/Parameters.thy ===== *)
theory Parameters
  imports Export Command_Tables
begin

text \<open>
  The parameters of a command (\<open>AIBParameters\<close> in \<open>src/aib/__init__.py\<close>), the arguments they give to a
  build, and the commands that list distributions and targets (\<open>src/aib/list_ops.py\<close>).
\<close>

section \<open>Attributes\<close>

text \<open>
  The attributes of the parsed command line; an attribute that is missing reads as None.  The manifest of
  the simple format is replaced by the one that loads it.
\<close>

definition is_simple_manifest :: "string \<Rightarrow> bool" where
  "is_simple_manifest m \<longleftrightarrow> ends_with m ''.aib'' \<or> ends_with m ''.aib.yml'' \<or> ends_with m ''.aib.yaml''"

definition aib_parameters :: "string \<Rightarrow> dict \<Rightarrow> dict res" where
  "aib_parameters base_dir args =
     (case dict_get args ''manifest'' of
        None \<Rightarrow> Inr args
      | Some (PyStr m) \<Rightarrow>
          Inr (if is_simple_manifest m then
                 dict_set (dict_set args ''simple_manifest'' (PyStr m)) ''manifest'' (PyStr (path_join base_dir ''files/simple.mpp.yml''))
               else args)
      | Some v \<Rightarrow> Inl Attribute_Error)"

definition attr :: "dict \<Rightarrow> string \<Rightarrow> pyval" where
  "attr args k = dict_get_or args k PyNone"

definition attr_text :: "dict \<Rightarrow> string \<Rightarrow> string option" where
  "attr_text args k = (case attr args k of PyStr s \<Rightarrow> Some s | _ \<Rightarrow> None)"

definition attr_flag :: "dict \<Rightarrow> string \<Rightarrow> bool" where
  "attr_flag args k = py_truthy (attr args k)"

definition attr_texts :: "dict \<Rightarrow> string \<Rightarrow> string list" where
  "attr_texts args k = (case attr args k of PyList xs \<Rightarrow> str_items (PyList xs) | _ \<Rightarrow> [])"

text \<open>The truth value of an optional text, and its value where the code has checked that it is there.\<close>

definition given :: "string option \<Rightarrow> bool" where
  "given s \<longleftrightarrow> s \<noteq> None \<and> s \<noteq> Some []"

definition text_of :: "dict \<Rightarrow> string \<Rightarrow> string" where
  "text_of args k = (case attr_text args k of Some s \<Rightarrow> s | None \<Rightarrow> [])"

definition include_dirs :: "string \<Rightarrow> dict \<Rightarrow> string list" where
  "include_dirs base_dir args = base_dir # attr_texts args ''include''"

section \<open>The policy\<close>

definition policy_search_paths :: "string \<Rightarrow> bool \<Rightarrow> string \<Rightarrow> string list" where
  "policy_search_paths base_dir search_local name =
     (if search_local then [name] else []) @
     [path_join ''/etc/automotive-image-builder/policies'' name,
      path_join (path_join (path_join base_dir ''files'') ''policies'') name]"

definition find_policy_path :: "policy_env \<Rightarrow> string \<Rightarrow> bool \<Rightarrow> string \<Rightarrow> string" where
  "find_policy_path env base_dir search_local name =
     (let ps = policy_search_paths base_dir search_local name
      in case find (pe_exists env) ps of Some p \<Rightarrow> p | None \<Rightarrow> last ps)"

definition policy_path :: "policy_env \<Rightarrow> string \<Rightarrow> string \<Rightarrow> string" where
  "policy_path env base_dir s =
     (if slash \<in> set s then s
      else if \<not> ends_with s ''.aibp.yml'' then find_policy_path env base_dir False (s @ ''.aibp.yml'')
      else find_policy_path env base_dir True s)"

definition policy_of :: "policy_env \<Rightarrow> string \<Rightarrow> dict \<Rightarrow> policy option res" where
  "policy_of env base_dir args =
     (case attr_text args ''policy'' of
        None \<Rightarrow> Inr None
      | Some s \<Rightarrow>
          if s = [] then Inr None
          else
            let p = policy_path env base_dir s
            in case load_policy env \<lparr>pl_base_dir = base_dir, pl_schema = None\<rparr> p (attr_text args ''target'') of
                 Inr (pol, ld) \<Rightarrow> Inr (Some pol)
               | Inl File_Not_Found_Error \<Rightarrow> Inl (Policy_Error (''Policy file not found: '' @ p))
               | Inl e \<Rightarrow> Inl e)"

section \<open>Arguments of a build\<close>

text \<open>
  \<open>expanduser\<close> and the time stamp are parameters.  The name of the log file uses the directory as it was
  given, before \<open>expanduser\<close>.
\<close>

definition build_dir_of :: "(string \<Rightarrow> string) \<Rightarrow> dict \<Rightarrow> string option" where
  "build_dir_of expanduser args =
     (if given (attr_text args ''build_dir'') then Some (expanduser (text_of args ''build_dir'')) else None)"

definition log_file :: "string \<Rightarrow> dict \<Rightarrow> string \<Rightarrow> string option" where
  "log_file stamp args tmpdir =
     (if attr_flag args ''progress'' \<or> attr_flag args ''logfile'' then
        Some (if given (attr_text args ''logfile'') then text_of args ''logfile''
              else path_join (if given (attr_text args ''build_dir'') then text_of args ''build_dir'' else tmpdir)
                     (''automotive-image-builder-'' @ stamp @ ''.log''))
      else None)"

definition to_build_args :: "string \<Rightarrow> string \<Rightarrow> policy option \<Rightarrow> dict \<Rightarrow> build_args" where
  "to_build_args base_dir mode pol args =
     \<lparr>ba_manifest = text_of args ''manifest'', ba_simple_manifest = attr_text args ''simple_manifest'', ba_base_dir = base_dir,
      ba_arch = text_of args ''arch'', ba_distro = text_of args ''distro'', ba_mode = mode, ba_target = attr_text args ''target'',
      ba_policy = pol, ba_dump_variables = attr_flag args ''dump_variables'', ba_root_password = attr_text args ''root_password'',
      ba_ostree_repo = attr_text args ''ostree_repo'', ba_reproducible = attr_flag args ''reproducible'',
      ba_define = attr_texts args ''define'', ba_define_file = attr_texts args ''define_file'',
      ba_extend_define = attr_texts args ''extend_define'', ba_local_repo = attr_text args ''local_repo'',
      ba_extra_repo = attr_texts args ''extra_repo'', ba_extra_copr_repo = attr_texts args ''extra_copr_repo'',
      ba_include_dirs = include_dirs base_dir args, ba_cache = attr_text args ''cache'', ba_lockfile = attr_text args ''lockfile'',
      ba_generate_lockfile = attr_text args ''generate_lockfile'', ba_generate_sbom = attr_flag args ''generate_sbom'',
      ba_sbom_dir = attr_text args ''sbom_dir''\<rparr>"

definition to_run_args :: "(string \<Rightarrow> string) \<Rightarrow> string \<Rightarrow> string \<Rightarrow> build_args \<Rightarrow> dict \<Rightarrow> run_args" where
  "to_run_args expanduser stamp tmpdir ba args =
     \<lparr>ra_build = ba, ra_build_dir = build_dir_of expanduser args, ra_osbuild_manifest = attr_text args ''osbuild_manifest'',
      ra_cache_max_size = attr_text args ''cache_max_size'', ra_progress = attr_flag args ''progress'',
      ra_log_file = log_file stamp args tmpdir\<rparr>"

section \<open>Listing\<close>

text \<open>A directory, or the exception of reading it; what a file is: a link with its target, or lines.\<close>

datatype listed_file = Link_To string | Lines "string list"

record list_env =
  le_listdir :: "string \<Rightarrow> string list res"
  le_file :: "string \<Rightarrow> listed_file"

definition item_of :: "string \<Rightarrow> string \<Rightarrow> (string \<times> string) list" where
  "item_of subdir f = (if ends_with f ''.ipp.yml'' then [(take (length f - 8) f, path_join subdir f)] else [])"

definition add_item :: "string \<times> string \<Rightarrow> (string \<times> string) list \<Rightarrow> (string \<times> string) list" where
  "add_item it items = (if fst it \<in> set (map fst items) then items else items @ [it])"

definition list_subdir :: "list_env \<Rightarrow> string \<Rightarrow> string \<Rightarrow> (string \<times> string) list \<Rightarrow> (string \<times> string) list res" where
  "list_subdir le item_type inc items =
     (let subdir = path_join inc item_type
      in res_map (\<lambda>fs. fold add_item (concat (map (item_of subdir) fs)) items) (le_listdir le subdir))"

definition remove_suffix :: "string \<Rightarrow> string \<Rightarrow> string" where
  "remove_suffix s suf = (if suf \<noteq> [] \<and> ends_with s suf then take (length s - length suf) s else s)"

definition describe_item :: "list_env \<Rightarrow> string \<Rightarrow> string" where
  "describe_item le path =
     (case le_file le path of
        Link_To target \<Rightarrow> ''Alias of '' @ [CHR 0x27] @ remove_suffix (path_basename target) ''.ipp.yml'' @ [CHR 0x27]
      | Lines file \<Rightarrow> py_replace [CHR 0x0A] '' '' (hd (py_split [CHR 0x0A, CHR 0x0A] (extract_comment_header file))))"

definition list_line :: "list_env \<Rightarrow> bool \<Rightarrow> string \<times> string \<Rightarrow> string" where
  "list_line le quiet it = (if quiet then fst it else fst it @ '' - '' @ describe_item le (snd it))"

definition list_ipp_items :: "list_env \<Rightarrow> string \<Rightarrow> dict \<Rightarrow> string \<Rightarrow> string list res" where
  "list_ipp_items le base_dir args item_type =
     res_map (\<lambda>items. map (list_line le (attr_flag args ''quiet'')) (sort_key fst items))
       (res_fold (list_subdir le item_type) (include_dirs base_dir args) [])"

end
