(* ===== verification/Commands.thy ===== *)
theory Commands
  imports Parameters Osbuild_Laws
begin

text \<open>
  The commands of \<open>src/aib/main.py\<close>, as programs over the world of files and events.  The world has the
  exit stack of the command, which holds the temporary containers, and the lines it prints.
\<close>

section \<open>World and environment\<close>

record cmd_world = disk_world +
  cw_stack :: "temp_container list"
  cw_out :: "string list"

record cmd_env =
  ce_run :: run_env
  ce_disk :: disk_env
  ce_policy :: policy_env
  ce_list :: list_env
  ce_args :: arg_env
  ce_base_dir :: string
  ce_random :: "event list \<Rightarrow> string"
  ce_b64encode :: "string \<Rightarrow> string"
  ce_b64decode :: "string \<Rightarrow> string res"
  ce_expanduser :: "string \<Rightarrow> string"
  ce_stamp :: "event list \<Rightarrow> string"
  ce_tmpdir_base :: "string option"

type_synonym 'a cmd = "(cmd_world, 'a) prog"

abbreviation ce_pe :: "cmd_env \<Rightarrow> podman_env" where "ce_pe ce \<equiv> re_podman (ce_run ce)"
abbreviation ce_os :: "cmd_env \<Rightarrow> os_env" where "ce_os ce \<equiv> re_os (ce_run ce)"
abbreviation ce_priv :: "cmd_env \<Rightarrow> privilege" where "ce_priv ce \<equiv> re_priv (ce_run ce)"

definition say :: "string \<Rightarrow> unit cmd" where
  "say line = update_world (\<lambda>w. w\<lparr>cw_out := cw_out w @ [line]\<rparr>)"

definition storage_of :: "cmd_env \<Rightarrow> dict \<Rightarrow> string \<Rightarrow> container_storage cmd" where
  "storage_of ce args tmpdir = make_storage (ce_pe ce) (attr_text args ''container_storage'') tmpdir"

definition random_container_name :: "cmd_env \<Rightarrow> string cmd" where
  "random_container_name ce = ask (\<lambda>w. ''localhost/aib-'' @ ce_random ce (rw_log w))"

text \<open>The container is cleaned up when the stack is unwound, after the command.\<close>

definition temporary_container_name :: "cmd_env \<Rightarrow> container_storage \<Rightarrow> string cmd" where
  "temporary_container_name ce cs =
     andthen (random_container_name ce) (\<lambda>name.
       seq (update_world (\<lambda>w. w\<lparr>cw_stack := temporary_container cs name # cw_stack w\<rparr>)) (ret name))"

text \<open>\<open>with outputdir: body\<close>.\<close>

definition with_dir :: "cmd_env \<Rightarrow> tmpdir \<Rightarrow> 'a cmd \<Rightarrow> 'a cmd" where
  "with_dir ce td body = andthen (with_tmpdir (ce_run ce) td (andthen body (\<lambda>x. ret (x, td)))) (\<lambda>(x, td'). ret x)"

section \<open>Containers\<close>

definition bootc_archive_to_store :: "cmd_env \<Rightarrow> string \<Rightarrow> container_storage \<Rightarrow> string \<Rightarrow> unit cmd" where
  "bootc_archive_to_store ce archive_file cs name =
     run_as_root (ce_os ce) (ce_priv ce) [''skopeo'', ''copy'', ''--quiet'', ''oci-archive:'' @ archive_file, skopeo_name cs name]"

definition store_to_bootc_archive :: "cmd_env \<Rightarrow> container_storage \<Rightarrow> string \<Rightarrow> string \<Rightarrow> unit cmd" where
  "store_to_bootc_archive ce cs name archive_file =
     run_as_root (ce_os ce) (ce_priv ce) [''skopeo'', ''copy'', ''--quiet'', skopeo_name cs name, ''oci-archive:'' @ archive_file]"

definition distro_of :: "container_info \<Rightarrow> pyval" where
  "distro_of info =
     (case ci_build_info info of
        None \<Rightarrow> PyStr default_distro
      | Some d \<Rightarrow> if d = [] then PyStr default_distro else dict_get_or d ''DISTRO'' (PyStr default_distro))"

definition get_build_container_for :: "cmd_env \<Rightarrow> container_storage \<Rightarrow> string \<Rightarrow> string cmd" where
  "get_build_container_for ce cs container =
     andthen (podman_image_info (ce_pe ce) cs container) (\<lambda>info.
       case info of
         None \<Rightarrow> raise_exn (Container_Not_Found container)
       | Some i \<Rightarrow>
           andthen (lift_res (as_text (distro_of i))) (\<lambda>distro.
           andthen (podman_image_exists (ce_pe ce) cs (aib_build_container_name distro)) (\<lambda>there.
             if there then ret (aib_build_container_name distro)
             else raise_exn (Build_Container_Not_Found (aib_build_container_name distro) distro))))"

definition build_container_of :: "cmd_env \<Rightarrow> dict \<Rightarrow> container_storage \<Rightarrow> string \<Rightarrow> string cmd" where
  "build_container_of ce args cs container =
     (if given (attr_text args ''build_container'') then ret (text_of args ''build_container'')
      else get_build_container_for ce cs container)"

definition image_builder_cmdline ::
  "dict \<Rightarrow> string \<Rightarrow> string \<Rightarrow> string \<Rightarrow> string \<Rightarrow> string \<Rightarrow> string list" where
  "image_builder_cmdline args cachedir rpmmddir outdir build_container src_container =
     [''image-builder'', ''--cache'', cachedir, ''--rpmmd-cache'', rpmmddir, ''--output-dir'', outdir,
      ''--output-name'', ''image'', ''--bootc-build-ref'', build_container, ''--bootc-ref'', src_container] @
     (if attr_flag args ''verbose'' then [''--progress'', ''verbose''] else []) @
     [''build'', ''raw''] @
     (if attr_flag args ''vm'' then [''--in-vm''] else [])"

definition container_to_disk_image ::
  "cmd_env \<Rightarrow> dict \<Rightarrow> string \<Rightarrow> container_storage \<Rightarrow> string \<Rightarrow> disk_format \<Rightarrow> string \<Rightarrow> unit cmd" where
  "container_to_disk_image ce args tmpdir cs src_container fmt out =
     andthen (make_tmpdir (ce_run ce) ''bib-out--'' (path_dirname out)) (\<lambda>td.
       with_dir ce td
         (andthen (build_container_of ce args cs src_container) (\<lambda>build_container.
          let cachedir = path_join tmpdir ''cache''; rpmmddir = path_join tmpdir ''rpmmd'' in
          seq (file_op (ce_os ce) (Ev_Mkdir cachedir))
            (seq (file_op (ce_os ce) (Ev_Mkdir rpmmddir))
              (andthen (get_config_path (ce_pe ce) cs) (\<lambda>(conf, cs').
                seq (run_as_root (ce_os ce) (ce_priv ce)
                      ([''env'', ''CONTAINERS_STORAGE_CONF='' @ conf] @ get_override_env cs' @
                       image_builder_cmdline args cachedir rpmmddir (td_path td) build_container src_container))
                  (export_disk_image_file (ce_run ce) (ce_disk ce) (attr_flag args ''separate_partitions'') tmpdir
                    (path_join (td_path td) ''image.raw'') out fmt)))))))"

definition format_of :: "dict \<Rightarrow> string \<Rightarrow> disk_format res" where
  "format_of args filename =
     res_map (\<lambda>f. case f of Some fmt \<Rightarrow> fmt | None \<Rightarrow> format_from_filename filename) (format_from_string (attr_text args ''format''))"

section \<open>Composing\<close>

text \<open>The arguments of the build of a command; the policy is loaded when it is first asked for.\<close>

definition build_args_of :: "cmd_env \<Rightarrow> string \<Rightarrow> dict \<Rightarrow> build_args res" where
  "build_args_of ce mode args =
     res_map (\<lambda>pol. to_build_args (ce_base_dir ce) mode pol args) (policy_of (ce_policy ce) (ce_base_dir ce) args)"

definition osbuild_of ::
  "cmd_env \<Rightarrow> string \<Rightarrow> dict \<Rightarrow> string \<Rightarrow> string list \<Rightarrow> string list \<Rightarrow> container_storage option \<Rightarrow> build_etag option \<Rightarrow>
    (container_storage option \<times> tmpdir) cmd" where
  "osbuild_of ce mode args tmpdir exports in_vm storage etag =
     andthen (lift_res (build_args_of ce mode args)) (\<lambda>ba.
     andthen (ask (\<lambda>w. to_run_args (ce_expanduser ce) (ce_stamp ce (rw_log w)) tmpdir ba args)) (\<lambda>ra.
       run_osbuild (ce_run ce) ra tmpdir exports in_vm storage etag))"

definition compose_for ::
  "cmd_env \<Rightarrow> string \<Rightarrow> dict \<Rightarrow> string \<Rightarrow> string cmd" where
  "compose_for ce mode args tmpdir =
     andthen (storage_of ce args tmpdir) (\<lambda>cs.
     andthen (lift_res (build_args_of ce mode args)) (\<lambda>ba.
       let manifest = path_join tmpdir ''osbuild.json''
       in seq (compose_manifest (ce_run ce) ba tmpdir manifest (Some cs)) (ret manifest)))"

definition listrpms :: "cmd_env \<Rightarrow> string \<Rightarrow> dict \<Rightarrow> string \<Rightarrow> unit cmd" where
  "listrpms ce mode args tmpdir =
     andthen (compose_for ce mode args tmpdir) (\<lambda>manifest.
     andthen (\<lambda>w. lift_res (re_read_json (ce_run ce) (rw_log w) manifest) w) (\<lambda>doc.
     andthen (lift_res (extract_rpmlist_json (ce_b64decode ce) doc)) say))"

definition lockfile_path :: "dict \<Rightarrow> string" where
  "lockfile_path args =
     (if given (attr_text args ''output'') then text_of args ''output''
      else fst (path_splitext (if given (attr_text args ''simple_manifest'') then text_of args ''simple_manifest'' else text_of args ''manifest'')) @ ''.lock'')"

definition resolve :: "cmd_env \<Rightarrow> string \<Rightarrow> dict \<Rightarrow> string \<Rightarrow> unit cmd" where
  "resolve ce mode args tmpdir =
     (let lock = path_abspath (be_cwd (re_build (ce_run ce))) (lockfile_path args)
      in seq (compose_for ce mode (dict_set args ''generate_lockfile'' (PyStr lock)) tmpdir)
           (run_as_root (ce_os ce) (ce_priv ce) (chown_command (ce_run ce) lock)))"

definition download :: "cmd_env \<Rightarrow> string \<Rightarrow> exn \<Rightarrow> dict \<Rightarrow> string \<Rightarrow> unit cmd" where
  "download ce mode no_dir args tmpdir =
     (if build_dir_of (ce_expanduser ce) args = None then raise_exn no_dir
      else andthen (osbuild_of ce mode (dict_set args ''out'' PyNone) tmpdir [] [] None None) (\<lambda>(st, td).
        seq (cleanup (ce_os ce) (pe_fs (ce_pe ce)) (ce_priv ce) td) (ret ())))"

section \<open>Building\<close>

text \<open>What happens to the output of a build, inside the block of its directory: the name of the container, if any.\<close>

definition export_build :: "cmd_env \<Rightarrow> dict \<Rightarrow> container_storage \<Rightarrow> string \<Rightarrow> string option cmd" where
  "export_build ce args cs outdir =
     (let output_file = path_join outdir (if attr_flag args ''tar'' then ''bootc-tar/rootfs.tar'' else ''bootc-archive/image.oci-archive'');
          disk = given (attr_text args ''disk'')
      in if attr_flag args ''dry_run'' then ret None
         else if attr_flag args ''tar'' \<or> attr_flag args ''oci_archive'' then
           andthen
             (if disk \<and> attr_flag args ''oci_archive'' then
                andthen (temporary_container_name ce cs) (\<lambda>name.
                  seq (bootc_archive_to_store ce output_file cs name) (ret (Some name)))
              else ret None)
             (\<lambda>name. seq (move_chown (ce_os ce) (ce_priv ce) output_file (text_of args ''out'')) (ret name))
         else
           andthen
             (if text_of args ''out'' \<noteq> ''-'' then ret (Some (text_of args ''out''))
              else if disk then andthen (temporary_container_name ce cs) (\<lambda>name. ret (Some name))
              else ret None)
             (\<lambda>name. case name of
                None \<Rightarrow> ret None
              | Some n \<Rightarrow> if n = [] then ret name else seq (bootc_archive_to_store ce output_file cs n) (ret name)))"

definition build :: "cmd_env \<Rightarrow> dict \<Rightarrow> string \<Rightarrow> unit cmd" where
  "build ce args tmpdir =
     (let exports = (if attr_flag args ''dry_run'' then [] else if attr_flag args ''tar'' then [''bootc-tar''] else [''bootc-archive'']);
          in_vm = (if attr_flag args ''vm'' then [''image''] else []);
          disk = given (attr_text args ''disk'')
      in if disk \<and> attr_flag args ''tar'' then
           raise_exn (Incompatible_Options ''--tar'' ''generating disk image'' (Some ''tar format is only for container archives''))
         else
           andthen (storage_of ce args tmpdir) (\<lambda>cs.
           andthen (osbuild_of ce ''bootc'' args tmpdir exports in_vm (Some cs) None) (\<lambda>(cs', td).
           andthen (with_dir ce td (export_build ce args (case cs' of Some c \<Rightarrow> c | None \<Rightarrow> cs) (td_path td))) (\<lambda>name.
             if disk \<and> \<not> attr_flag args ''dry_run'' then
               (case name of
                  None \<Rightarrow> raise_exn Assertion_Error
                | Some n \<Rightarrow>
                    andthen (lift_res (format_of args (text_of args ''disk''))) (\<lambda>fmt.
                      container_to_disk_image ce args tmpdir (case cs' of Some c \<Rightarrow> c | None \<Rightarrow> cs) n fmt (text_of args ''disk'')))
             else ret ()))))"

definition builder_args :: "cmd_env \<Rightarrow> dict \<Rightarrow> dict" where
  "builder_args ce args =
     dict_update args
       [(''simple_manifest'', PyStr (path_join (ce_base_dir ce) ''files/bootc-builder.aib.yml'')),
        (''manifest'', PyStr (path_join (ce_base_dir ce) ''files/simple.mpp.yml'')),
        (''target'', PyStr ''qemu''), (''reproducible'', PyBool True)]"

definition old_digest :: "cmd_env \<Rightarrow> dict \<Rightarrow> container_storage \<Rightarrow> string \<Rightarrow> string option cmd" where
  "old_digest ce args cs dest_image =
     (if attr_flag args ''if_needed'' \<and> \<not> attr_flag args ''oci_archive'' then
        andthen (podman_image_labels (ce_pe ce) cs dest_image) (\<lambda>labels.
          lift_res (res_map (\<lambda>v. case v of PyStr s \<Rightarrow> Some s | _ \<Rightarrow> None) (py_get_or labels build_digest_label PyNone)))
      else ret None)"

text \<open>A build that is up to date is None.\<close>

definition build_if_changed :: "cmd_env \<Rightarrow> dict \<Rightarrow> string \<Rightarrow> build_etag \<Rightarrow> tmpdir option cmd" where
  "build_if_changed ce args tmpdir etag =
     with_except
       (andthen (osbuild_of ce ''bootc'' (builder_args ce args) tmpdir [''bootc-archive''] [] None (Some etag)) (\<lambda>(st, td). ret (Some td)))
       (\<lambda>e. e = Not_Build_By_Etag) (\<lambda>_. ret None)"

definition build_builder :: "cmd_env \<Rightarrow> dict \<Rightarrow> string \<Rightarrow> unit cmd" where
  "build_builder ce args tmpdir =
     (let dest_image = (if given (attr_text args ''out'') then text_of args ''out'' else aib_build_container_name (text_of args ''distro''))
      in andthen (storage_of ce args tmpdir) (\<lambda>cs.
         andthen (old_digest ce args cs dest_image) (\<lambda>old.
         andthen (build_if_changed ce args tmpdir \<lparr>et_old = old, et_new = None\<rparr>) (\<lambda>outputdir.
           case outputdir of
             None \<Rightarrow> say (''Image '' @ dest_image @ '' is up to date, doing nothing.'')
           | Some td \<Rightarrow>
               with_dir ce td
                 (let output_file = path_join (td_path td) ''bootc-archive/image.oci-archive''
                  in seq (if attr_flag args ''oci_archive'' then move_chown (ce_os ce) (ce_priv ce) output_file (text_of args ''out'')
                          else bootc_archive_to_store ce output_file cs dest_image)
                       (say (''Built image '' @ dest_image)))))))"

definition to_disk_image :: "cmd_env \<Rightarrow> dict \<Rightarrow> string \<Rightarrow> unit cmd" where
  "to_disk_image ce args tmpdir =
     andthen (storage_of ce args tmpdir) (\<lambda>cs.
     andthen (lift_res (format_of args (text_of args ''out''))) (\<lambda>fmt.
     andthen
       (if attr_flag args ''oci_archive'' then
          andthen (temporary_container_name ce cs) (\<lambda>name.
            seq (bootc_archive_to_store ce (text_of args ''src_container'') cs name) (ret name))
        else andthen (podman_image_exists (ce_pe ce) cs (text_of args ''src_container'')) (\<lambda>there.
          if there then ret (text_of args ''src_container'')
          else raise_exn (Container_Not_Found (text_of args ''src_container''))))
       (\<lambda>name. container_to_disk_image ce args tmpdir cs name fmt (text_of args ''out''))))"

end
