(* ===== verification/Main_Program.thy ===== *)
theory Main_Program
  imports Commands
begin

text \<open>
  Signing and sealing of images, and the main programs (\<open>src/aib/main.py\<close>, \<open>src/aib/main_dev.py\<close>, and the
  keys of \<open>src/aib/utils.py\<close>).
\<close>

section \<open>Keys\<close>

definition openssl_stdout :: "cmd_env \<Rightarrow> string list \<Rightarrow> string option \<Rightarrow> string cmd" where
  "openssl_stdout ce args passargs =
     andthen (execute (ce_os ce) ([''openssl''] @ args @ (if given passargs then [''-passin'', the passargs] else []))) (\<lambda>r.
       case r of
         Cmd_Ok out \<Rightarrow> ret out
       | Cmd_Exit n \<Rightarrow> raise_exn Called_Process_Error
       | Cmd_Missing \<Rightarrow> raise_exn File_Not_Found_Error)"

definition last_bytes :: "nat \<Rightarrow> string \<Rightarrow> string" where
  "last_bytes n s = drop (length s - n) s"

definition read_public_key :: "cmd_env \<Rightarrow> string \<Rightarrow> string option \<Rightarrow> string cmd" where
  "read_public_key ce pemfile passargs =
     andthen (openssl_stdout ce [''pkey'', ''-outform'', ''DER'', ''-pubout'', ''-in'', pemfile] passargs) (\<lambda>out.
       ret (ce_b64encode ce (last_bytes 32 out)))"

definition read_keys :: "cmd_env \<Rightarrow> string \<Rightarrow> string option \<Rightarrow> (string \<times> string) cmd" where
  "read_keys ce pemfile passargs =
     andthen (openssl_stdout ce [''pkey'', ''-outform'', ''DER'', ''-pubout'', ''-in'', pemfile] passargs) (\<lambda>pub.
     andthen (openssl_stdout ce [''pkey'', ''-outform'', ''DER'', ''-in'', pemfile] passargs) (\<lambda>seed.
       ret (ce_b64encode ce (last_bytes 32 pub), ce_b64encode ce (last_bytes 32 seed @ last_bytes 32 pub))))"

definition generate_keys :: "cmd_env \<Rightarrow> (string \<times> string) cmd" where
  "generate_keys ce =
     andthen (ask (\<lambda>w. pe_tmpname (ce_pe ce) (rw_log w) ''tmp'')) (\<lambda>td.
       with_finally
         (let keypath = path_join td ''key''
          in seq (openssl_stdout ce [''genpkey'', ''-algorithm'', ''ed25519'', ''-outform'', ''PEM'', ''-out'', keypath] None)
               (read_keys ce keypath None))
         (file_op (ce_os ce) (Ev_Rmtree td)))"

section \<open>Signing\<close>

text \<open>A type that is no text is shown as an empty one.\<close>

definition signing_subdir :: "pyval \<Rightarrow> string res" where
  "signing_subdir t =
     (if py_eq t (PyStr ''efi'') then Inr ''efi''
      else if py_in t [PyStr ''aboot'', PyStr ''vbmeta''] then Inr ''aboot''
      else Inl (Unknown_Signature_Type (case t of PyStr s \<Rightarrow> s | _ \<Rightarrow> [])))"

definition make_dirs :: "cmd_env \<Rightarrow> string \<Rightarrow> unit cmd" where
  "make_dirs ce dir = andthen (path_exists (ce_os ce) dir) (\<lambda>there. if there then ret () else file_op (ce_os ce) (Ev_Mkdir dir))"

definition rm_rf_user :: "cmd_env \<Rightarrow> string \<Rightarrow> unit cmd" where
  "rm_rf_user ce path = andthen (path_exists (ce_os ce) path) (\<lambda>there. if there then file_op (ce_os ce) (Ev_Rmtree path) else ret ())"

text \<open>The place of a signed file below a directory: \<open>os.path.join(dir, subdir, filename)\<close>.\<close>

definition signing_place :: "string \<Rightarrow> string \<Rightarrow> string \<Rightarrow> string" where
  "signing_place dir subdir filename = path_join (path_join dir subdir) filename"

definition extract_file :: "cmd_env \<Rightarrow> string \<Rightarrow> image_mount \<Rightarrow> pyval \<Rightarrow> unit cmd" where
  "extract_file ce out mount f =
     andthen (lift_res (py_item f ''type'')) (\<lambda>t.
     andthen (lift_res (py_item f ''filename'')) (\<lambda>filename.
     andthen (lift_res (res_bind (py_item f ''paths'') py_first)) (\<lambda>src.
     andthen (lift_res (signing_subdir t)) (\<lambda>sub.
     seq (make_dirs ce (path_join out sub))
       (andthen (lift_res (as_text filename)) (\<lambda>name.
        andthen (lift_res (as_text src)) (\<lambda>s.
          copy_out_file (ce_pe ce) mount s (signing_place out sub name))))))))"

definition signing_info :: "string" where
  "signing_info = ''/etc/signing_info.json''"

definition signed_files :: "pyval \<Rightarrow> pyval list res" where
  "signed_files info = res_bind (py_get_or info ''signed_files'' (PyList [])) py_iter"

definition extract_files :: "cmd_env \<Rightarrow> string \<Rightarrow> image_mount \<Rightarrow> unit cmd" where
  "extract_files ce out mount =
     andthen (has_file (ce_pe ce) mount signing_info) (\<lambda>there.
       if \<not> there then raise_exn (Sys_Exit 0)
       else andthen (read_file (ce_pe ce) mount signing_info) (\<lambda>content.
            andthen (lift_res (pe_json (ce_pe ce) content)) (\<lambda>info.
            seq (file_op (ce_os ce) (Ev_Write (path_join out ''signing_info.json'') content))
              (andthen (lift_res (signed_files info)) (each (extract_file ce out mount))))))"

definition extract_for_signing :: "cmd_env \<Rightarrow> dict \<Rightarrow> string \<Rightarrow> unit cmd" where
  "extract_for_signing ce args tmpdir =
     andthen (storage_of ce args tmpdir) (\<lambda>cs.
     andthen (podman_image_exists (ce_pe ce) cs (text_of args ''src_container'')) (\<lambda>there.
       if \<not> there then raise_exn (Container_Not_Found (text_of args ''src_container''))
       else seq (rm_rf_user ce (text_of args ''out''))
              (seq (file_op (ce_os ce) (Ev_Mkdir (text_of args ''out'')))
                (andthen (with_mount (ce_pe ce) (image_mount cs (text_of args ''src_container'') False None) (extract_files ce (text_of args ''out'')))
                  (\<lambda>_. ret ())))))"

definition inject_file :: "cmd_env \<Rightarrow> string \<Rightarrow> image_mount \<Rightarrow> pyval \<Rightarrow> unit cmd" where
  "inject_file ce srcdir mount f =
     andthen (lift_res (py_item f ''type'')) (\<lambda>t.
     andthen (lift_res (py_item f ''filename'')) (\<lambda>filename.
     andthen (lift_res (signing_subdir t)) (\<lambda>sub.
     andthen (lift_res (as_text filename)) (\<lambda>name.
     andthen (lift_res (res_bind (py_item f ''paths'') py_iter)) (\<lambda>dests.
       each (\<lambda>d. andthen (lift_res (as_text d)) (copy_in_file (ce_pe ce) mount (signing_place srcdir sub name))) dests)))))"

definition inject_files :: "cmd_env \<Rightarrow> string \<Rightarrow> image_mount \<Rightarrow> unit cmd" where
  "inject_files ce srcdir mount =
     andthen (has_file (ce_pe ce) mount signing_info) (\<lambda>there.
       if \<not> there then raise_exn (Sys_Exit 0)
       else andthen (read_file (ce_pe ce) mount signing_info) (\<lambda>content.
            andthen (lift_res (pe_json (ce_pe ce) content)) (\<lambda>info.
            andthen (lift_res (signed_files info)) (each (inject_file ce srcdir mount)))))"

section \<open>Sealing\<close>

definition do_reseal_image ::
  "cmd_env \<Rightarrow> string \<Rightarrow> string \<Rightarrow> container_storage \<Rightarrow> string \<Rightarrow> string \<Rightarrow> unit cmd" where
  "do_reseal_image ce tmpdir privkey cs src_container dst_container =
     (let privkey_file = path_join tmpdir ''pkey''
      in seq (file_op (ce_os ce) (Ev_Write privkey_file privkey))
           (andthen (get_config_path (ce_pe ce) cs) (\<lambda>(conf, cs').
             run_as_root (ce_os ce) (ce_priv ce)
               [''env'', ''CONTAINERS_STORAGE_CONF='' @ conf, ''rpm-ostree'', ''experimental'', ''compose'', ''build-chunked-oci'',
                ''--sign-commit'', ''ed25519='' @ privkey_file, ''--bootc'', ''--format-version=1'', ''--from='' @ src_container,
                ''--output='' @ skopeo_name cs' dst_container])))"

text \<open>The container that is written: the one asked for, or a temporary one for an archive.\<close>

definition new_container :: "cmd_env \<Rightarrow> dict \<Rightarrow> container_storage \<Rightarrow> string cmd" where
  "new_container ce args cs =
     (if attr_flag args ''oci_archive'' then temporary_container_name ce cs else ret (text_of args ''new_container''))"

definition archive_result :: "cmd_env \<Rightarrow> dict \<Rightarrow> container_storage \<Rightarrow> string \<Rightarrow> unit cmd" where
  "archive_result ce args cs name =
     (if attr_flag args ''oci_archive'' then store_to_bootc_archive ce cs name (text_of args ''new_container'') else ret ())"

text \<open>The storage and the check that begin each of the commands.\<close>

definition with_source :: "cmd_env \<Rightarrow> dict \<Rightarrow> string \<Rightarrow> (container_storage \<Rightarrow> string \<Rightarrow> unit cmd) \<Rightarrow> unit cmd" where
  "with_source ce args tmpdir body =
     andthen (storage_of ce args tmpdir) (\<lambda>cs.
     andthen (podman_image_exists (ce_pe ce) cs (text_of args ''src_container'')) (\<lambda>there.
       if \<not> there then raise_exn (Container_Not_Found (text_of args ''src_container''))
       else body cs (text_of args ''src_container'')))"

definition inject_signed :: "cmd_env \<Rightarrow> dict \<Rightarrow> string \<Rightarrow> unit cmd" where
  "inject_signed ce args tmpdir =
     with_source ce args tmpdir (\<lambda>cs src.
       andthen (new_container ce args cs) (\<lambda>new.
       let key = attr_text args ''reseal_with_key''
       in andthen (with_mount (ce_pe ce) (image_mount cs src True (if given key then None else Some new))
              (inject_files ce (text_of args ''srcdir''))) (\<lambda>(u, mount).
          seq (if given key then
                 andthen (read_keys ce (the key) (attr_text args ''passwd'')) (\<lambda>(pub, priv).
                   let img = (case im_image_id mount of Some i \<Rightarrow> i | None \<Rightarrow> ''None'')
                   in with_temp_container (ce_pe ce) (temporary_container cs img) (do_reseal_image ce tmpdir priv cs img new))
               else ret ())
            (archive_result ce args cs new))))"

definition reseal :: "cmd_env \<Rightarrow> dict \<Rightarrow> string \<Rightarrow> unit cmd" where
  "reseal ce args tmpdir =
     with_source ce args tmpdir (\<lambda>cs src.
       andthen (new_container ce args cs) (\<lambda>new.
       andthen
         (if given (attr_text args ''key'') then
            andthen (read_keys ce (text_of args ''key'') (attr_text args ''passwd'')) (\<lambda>(pub, priv). ret (priv, src))
          else
            andthen (generate_keys ce) (\<lambda>(pub, priv).
            let pubkey_file = path_join tmpdir ''pubkey'' in
            seq (file_op (ce_os ce) (Ev_Write pubkey_file pub))
              (andthen (build_container_of ce args cs src) (\<lambda>bc.
               andthen (podman_bootc_inject_pubkey (ce_pe ce) cs src None pubkey_file bc) (\<lambda>img.
                 ret (priv, case img of Some i \<Rightarrow> i | None \<Rightarrow> ''None''))))))
         (\<lambda>(priv, from). seq (do_reseal_image ce tmpdir priv cs from new) (archive_result ce args cs new))))"

definition prepare_reseal :: "cmd_env \<Rightarrow> dict \<Rightarrow> string \<Rightarrow> unit cmd" where
  "prepare_reseal ce args tmpdir =
     with_source ce args tmpdir (\<lambda>cs src.
       andthen (build_container_of ce args cs src) (\<lambda>bc.
       andthen (read_public_key ce (text_of args ''key'') (attr_text args ''passwd'')) (\<lambda>pub.
       let pubkey_file = path_join tmpdir ''pubkey'' in
       seq (file_op (ce_os ce) (Ev_Write pubkey_file pub))
         (andthen (podman_bootc_inject_pubkey (ce_pe ce) cs src (attr_text args ''new_container'') pubkey_file bc) (\<lambda>_. ret ())))))"

section \<open>The programs\<close>

definition list_items :: "cmd_env \<Rightarrow> dict \<Rightarrow> string \<Rightarrow> unit cmd" where
  "list_items ce args item_type = andthen (lift_res (list_ipp_items (ce_list ce) (ce_base_dir ce) args item_type)) (each say)"

fun run_callback :: "cmd_env \<Rightarrow> callback \<Rightarrow> dict \<Rightarrow> string \<Rightarrow> unit cmd" where
  "run_callback ce No_Subcommand args tmpdir = ret ()"
| "run_callback ce List_Distro args tmpdir = list_items ce args ''distro''"
| "run_callback ce List_Targets args tmpdir = list_items ce args ''targets''"
| "run_callback ce List_Rpms args tmpdir = listrpms ce ''bootc'' args tmpdir"
| "run_callback ce Resolve args tmpdir = resolve ce ''bootc'' args tmpdir"
| "run_callback ce Build args tmpdir = build ce args tmpdir"
| "run_callback ce Download args tmpdir = download ce ''bootc'' Invalid_Build_Dir args tmpdir"
| "run_callback ce Build_Builder args tmpdir = build_builder ce args tmpdir"
| "run_callback ce To_Disk_Image args tmpdir = to_disk_image ce args tmpdir"
| "run_callback ce Extract_For_Signing args tmpdir = extract_for_signing ce args tmpdir"
| "run_callback ce Inject_Signed args tmpdir = inject_signed ce args tmpdir"
| "run_callback ce Reseal args tmpdir = reseal ce args tmpdir"
| "run_callback ce Prepare_Reseal args tmpdir = prepare_reseal ce args tmpdir"

text \<open>The exit stack: the containers are cleaned up from the last to the first, whatever the command did.\<close>

definition unwind :: "cmd_env \<Rightarrow> unit cmd" where
  "unwind ce w =
     seq (each (\<lambda>tc. seq (tc_exit (ce_pe ce) tc) (ret ())) (cw_stack w)) (update_world (\<lambda>w. w\<lparr>cw_stack := []\<rparr>)) w"

definition with_exit_stack :: "cmd_env \<Rightarrow> 'a cmd \<Rightarrow> 'a cmd" where
  "with_exit_stack ce body = with_finally body (unwind ce)"

definition main_handler :: "exn \<Rightarrow> exn" where
  "main_handler e =
     (if e = Keyboard_Interrupt then Sys_Exit 130
      else if is_aib_exception e \<or> e = File_Not_Found_Error then Sys_Exit 1
      else e)"

definition guarded :: "cmd_env \<Rightarrow> unit cmd \<Rightarrow> unit cmd" where
  "guarded ce body = with_except (with_exit_stack ce body) (\<lambda>e. True) (\<lambda>e. raise_exn (main_handler e))"

text \<open>The mode of execution is decided once, from the parsed command line.\<close>

definition in_mode :: "cmd_env \<Rightarrow> dict \<Rightarrow> cmd_env" where
  "in_mode ce ns =
     ce\<lparr>ce_run := (ce_run ce)\<lparr>re_podman := (ce_pe ce)\<lparr>pe_priv := mode_of (ce_args ce) ns,
        pe_in_rootless := cs_rootless (ae_container (ce_args ce))\<rparr>\<rparr>\<rparr>"

definition main_with ::
  "(cmd_env \<Rightarrow> callback \<Rightarrow> dict \<Rightarrow> string \<Rightarrow> unit cmd) \<Rightarrow> (arg_env \<Rightarrow> sub_command list) \<Rightarrow> string \<Rightarrow> cmd_env \<Rightarrow> token list \<Rightarrow> unit cmd" where
  "main_with run registry base ce0 toks =
     andthen (lift_res (parse_args (ce_args ce0) (registry (ce_args ce0)) toks)) (\<lambda>(ns, cb).
     andthen (lift_res (aib_parameters (ce_base_dir ce0) ns)) (\<lambda>args.
     let ce = in_mode ce0 ns in
     andthen (make_tmpdir (ce_run ce) ''aib-'' base) (\<lambda>td.
       with_dir ce td (guarded ce (run ce cb args (td_path td))))))"

definition aib_main :: "cmd_env \<Rightarrow> token list \<Rightarrow> unit cmd" where
  "aib_main ce toks =
     main_with run_callback aib_commands (case ce_tmpdir_base ce of Some d \<Rightarrow> d | None \<Rightarrow> ''/var/tmp'') ce toks"

text \<open>The status of the process: an exception that arrives at the top is a traceback and status 1.\<close>

definition exit_status :: "'a res \<Rightarrow> int" where
  "exit_status r = (case r of Inr x \<Rightarrow> 0 | Inl (Sys_Exit n) \<Rightarrow> n | Inl e \<Rightarrow> 1)"

section \<open>The development program\<close>

definition dev_build :: "cmd_env \<Rightarrow> dict \<Rightarrow> string \<Rightarrow> unit cmd" where
  "dev_build ce args tmpdir =
     andthen (lift_res (format_of args (text_of args ''out''))) (\<lambda>fmt.
     andthen (storage_of ce args tmpdir) (\<lambda>cs.
     andthen (osbuild_of ce ''package'' args tmpdir (if attr_flag args ''dry_run'' then [] else [''image''])
         (if attr_flag args ''vm'' then [''image''] else []) (Some cs) None) (\<lambda>(cs', td).
       with_dir ce td
         (if attr_flag args ''dry_run'' then ret ()
          else export_disk_image_file (ce_run ce) (ce_disk ce) (attr_flag args ''separate_partitions'') tmpdir
                 (path_join (td_path td) ''image/disk.img'') (text_of args ''out'') fmt))))"

fun run_dev_callback :: "cmd_env \<Rightarrow> callback \<Rightarrow> dict \<Rightarrow> string \<Rightarrow> unit cmd" where
  "run_dev_callback ce Resolve args tmpdir = resolve ce ''package'' args tmpdir"
| "run_dev_callback ce List_Rpms args tmpdir = listrpms ce ''package'' args tmpdir"
| "run_dev_callback ce Build args tmpdir = dev_build ce args tmpdir"
| "run_dev_callback ce Download args tmpdir = download ce ''package'' (Sys_Exit 1) args tmpdir"
| "run_dev_callback ce cb args tmpdir = run_callback ce cb args tmpdir"

definition aib_dev_main :: "cmd_env \<Rightarrow> token list \<Rightarrow> unit cmd" where
  "aib_dev_main ce toks = main_with run_dev_callback aib_dev_commands ''/var/tmp'' ce toks"

end
