(* ===== verification/Main_Laws.thy ===== *)
theory Main_Laws
  imports Main_Program Arguments_Laws
begin

text \<open>
  Properties of the programs: what is left of temporary containers and of the working directory, which
  exceptions reach the top, and the container that is turned into a disk image.
\<close>

section \<open>Temporary containers\<close>

definition lookup_event :: "podman_env \<Rightarrow> temp_container \<Rightarrow> event" where
  "lookup_event pe tc = Ev_Run (sudo_cmd pe (cs_with_sudo (tc_storage tc)) (podman_of (tc_storage tc) @ [''image'', ''exists'', tc_name tc]))"

definition removal_event :: "podman_env \<Rightarrow> temp_container \<Rightarrow> event" where
  "removal_event pe tc = Ev_Run (sudo_cmd pe (cs_with_sudo (tc_storage tc)) (podman_of (tc_storage tc) @ [''image'', ''rm'', tc_name tc]))"

definition image_there :: "podman_env \<Rightarrow> event list \<Rightarrow> temp_container \<Rightarrow> bool" where
  "image_there pe log tc \<longleftrightarrow> (\<exists>out. oe_run (pe_os pe) log
     (sudo_cmd pe (cs_with_sudo (tc_storage tc)) (podman_of (tc_storage tc) @ [''image'', ''exists'', tc_name tc])) \<in> {Cmd_Ok out, Cmd_Exit 0})"

text \<open>The specification of the clean-up: every image is looked up, and removed if it is there.\<close>

fun removals :: "podman_env \<Rightarrow> event list \<Rightarrow> temp_container list \<Rightarrow> event list" where
  "removals pe log [] = []"
| "removals pe log (tc # tcs) =
     (let evs = lookup_event pe tc # (if image_there pe log tc then [removal_event pe tc] else [])
      in evs @ removals pe (log @ evs) tcs)"

definition fresh :: "temp_container \<Rightarrow> bool" where
  "fresh tc \<longleftrightarrow> tc_cleanup tc \<and> \<not> tc_removed tc"

lemma tc_exit_log:
  assumes "fresh tc" and "\<And>log cmd. oe_run (pe_os pe) log cmd \<noteq> Cmd_Missing"
  shows "\<exists>tc'. tc_exit pe tc w = (Inr tc', w\<lparr>rw_log := rw_log w @ removals pe (rw_log w) [tc]\<rparr>)"
proof -
  let ?sudo = "cs_with_sudo (tc_storage tc)"
  define w2 where "w2 = w\<lparr>rw_log := rw_log w @ [lookup_event pe tc]\<rparr>"
  have e: "podman_image_exists pe (tc_storage tc) (tc_name tc) w = (Inr (image_there pe (rw_log w) tc), w2)"
    using assms(2) [of "rw_log w" "sudo_cmd pe ?sudo (podman_of (tc_storage tc) @ [''image'', ''exists'', tc_name tc])"]
    by (auto simp: podman_image_exists_def code_cmd_def andthen_def execute_def ret_def image_there_def w2_def lookup_event_def
        split: cmd_result.split)
  obtain rc where rm: "code_cmd pe ?sudo False (podman_of (tc_storage tc) @ [''image'', ''rm'', tc_name tc]) w2 =
      (Inr rc, w2\<lparr>rw_log := rw_log w2 @ [removal_event pe tc]\<rparr>)"
    using code_cmd_log [OF assms(2)] unfolding removal_event_def by blast
  show ?thesis using assms(1) e rm
    by (simp add: fresh_def tc_exit_def tc_do_cleanup_def with_except_def andthen_def seq_def ret_def podman_image_rm_def w2_def Let_def)
qed

lemma removals_append: "removals pe log (tc # tcs) = removals pe log [tc] @ removals pe (log @ removals pe log [tc]) tcs"
  by (simp add: Let_def)

lemma unwind_each:
  assumes "\<forall>tc \<in> set tcs. fresh tc" and "\<And>log cmd. oe_run (pe_os pe) log cmd \<noteq> Cmd_Missing"
  shows "each (\<lambda>tc. seq (tc_exit pe tc) (ret ())) tcs w = (Inr (), w\<lparr>rw_log := rw_log w @ removals pe (rw_log w) tcs\<rparr>)"
  using assms(1)
proof (induction tcs arbitrary: w)
  case Nil
  then show ?case by (simp add: ret_def)
next
  case (Cons tc tcs)
  obtain tc' where tc': "tc_exit pe tc w = (Inr tc', w\<lparr>rw_log := rw_log w @ removals pe (rw_log w) [tc]\<rparr>)"
    using tc_exit_log [OF _ assms(2), of tc w] Cons.prems by auto
  have step: "seq (tc_exit pe tc) (ret ()) w = (Inr (), w\<lparr>rw_log := rw_log w @ removals pe (rw_log w) [tc]\<rparr>)"
    by (simp add: seq_def andthen_def tc' ret_def del: removals.simps)
  show ?case
    using Cons.IH [of "w\<lparr>rw_log := rw_log w @ removals pe (rw_log w) [tc]\<rparr>"] Cons.prems
    unfolding each.simps seq_def [of "seq (tc_exit pe tc) (ret ())"] andthen_def step removals_append [of pe "rw_log w" tc tcs]
    by (simp del: removals.simps)
qed

text \<open>
  C23: No temporary container is left behind: however a command ends, every container on its exit stack is
  looked up and, if it is there, removed, the last one first; the result of the command is not changed.
\<close>

theorem containers_removed:
  assumes "body w = (r, w1)" and "\<forall>tc \<in> set (cw_stack w1). fresh tc" and "\<And>log cmd. oe_run (ce_os ce) log cmd \<noteq> Cmd_Missing"
  shows "with_exit_stack ce body w =
    (r, w1\<lparr>rw_log := rw_log w1 @ removals (ce_pe ce) (rw_log w1) (cw_stack w1), cw_stack := []\<rparr>)"
proof -
  have "unwind ce w1 = (Inr (), w1\<lparr>rw_log := rw_log w1 @ removals (ce_pe ce) (rw_log w1) (cw_stack w1), cw_stack := []\<rparr>)"
    using unwind_each [OF assms(2,3), of w1] by (simp add: unwind_def seq_def andthen_def update_world_def)
  then show ?thesis using assms(1) by (simp add: with_exit_stack_def with_finally_def)
qed

definition sample_le :: list_env where
  "sample_le = \<lparr>le_listdir = (\<lambda>d. Inr [''qemu.ipp.yml'']), le_file = (\<lambda>p. Lines [])\<rparr>"

definition sample_polenv :: policy_env where
  "sample_polenv = \<lparr>pe_exists = (\<lambda>p. False), pe_yaml = (\<lambda>p. Inl []), pe_validate = (\<lambda>s v. Schema_Ok)\<rparr>"

definition sample_ce :: cmd_env where
  "sample_ce = \<lparr>ce_run = sample_re, ce_disk = moving, ce_policy = sample_polenv, ce_list = sample_le, ce_args = sample_arg_env no_vars,
     ce_base_dir = ''/usr/lib/aib'', ce_random = (\<lambda>log. ''0a1b''), ce_b64encode = id, ce_b64decode = Inr, ce_expanduser = id,
     ce_stamp = (\<lambda>log. ''now''), ce_tmpdir_base = None\<rparr>"

definition cmd_start :: cmd_world where
  "cmd_start = \<lparr>rw_log = [], rw_keepalive = False, dw_files = (\<lambda>p. None), cw_stack = [], cw_out = []\<rparr>"

definition interrupted :: "unit cmd" where
  "interrupted = andthen (temporary_container_name sample_ce sample_storage) (\<lambda>n. raise_exn Keyboard_Interrupt)"

theorem containers_removed_witness:
  "fst (with_exit_stack sample_ce interrupted cmd_start) = Inl Keyboard_Interrupt \<and>
   rw_log (snd (with_exit_stack sample_ce interrupted cmd_start)) =
     [lookup_event sample_pe (temporary_container sample_storage ''localhost/aib-0a1b''),
      removal_event sample_pe (temporary_container sample_storage ''localhost/aib-0a1b'')]"
proof -
  have body: "interrupted cmd_start =
      (Inl Keyboard_Interrupt, cmd_start\<lparr>cw_stack := [temporary_container sample_storage ''localhost/aib-0a1b'']\<rparr>)"
    by (simp add: interrupted_def temporary_container_name_def random_container_name_def andthen_def seq_def ask_def
        update_world_def raise_exn_def ret_def cmd_start_def sample_ce_def)
  have n: "oe_run (ce_os sample_ce) log cmd \<noteq> Cmd_Missing" for log cmd
    by (simp add: sample_ce_def sample_re_def sample_pe_def calm_env_def)
  have pe: "ce_pe sample_ce = sample_pe" by (simp add: sample_ce_def sample_re_def)
  have there: "image_there sample_pe [] (temporary_container sample_storage ''localhost/aib-0a1b'')"
    by (simp add: image_there_def sample_pe_def calm_env_def)
  show ?thesis
    using containers_removed [where body = interrupted and w = cmd_start and ce = sample_ce, OF body _ n] there
    by (simp add: pe fresh_def temporary_container_def cmd_start_def)
qed

section \<open>Exceptions\<close>

definition unexpected :: "exn \<Rightarrow> bool" where
  "unexpected e \<longleftrightarrow> \<not> is_aib_exception e \<and> e \<noteq> Keyboard_Interrupt"

lemma main_handler_unexpected: "unexpected (main_handler e)"
  by (auto simp: main_handler_def unexpected_def)

lemma guarded_unexpected: "guarded ce body w = (Inl e, w') \<Longrightarrow> unexpected e"
  by (auto simp: guarded_def with_except_def raise_exn_def main_handler_unexpected split: prod.splits sum.splits)

lemma cleanup_raises:
  assumes "cleanup oe fe p td w = (Inl e, w')"
  shows "e = cleanup_failed td \<or> e = File_Not_Found_Error"
proof (cases "td_closed td")
  case False
  have helper: "r = Inl e \<Longrightarrow> e = cleanup_failed td \<or> e = File_Not_Found_Error" if "delete_with_helper oe fe p td v = (r, v')" for r v v' e
    using that by (auto simp: delete_with_helper_def andthen_def ask_def execute_def raise_exn_def ret_def split: if_splits cmd_result.splits)
  from assms False show ?thesis by (cases rule: cleanup_cases) (auto split: sum.splits dest: helper)
qed (use assms in \<open>simp add: cleanup_def ret_def\<close>)

lemma with_dir_result:
  assumes "with_dir ce td body w = (r, w')" and "body w = (rb, w1)" and "\<not> td_keep_once td"
  obtains rc where "cleanup (ce_os ce) (pe_fs (ce_pe ce)) (ce_priv ce) td w1 = (rc, w')"
    "r = (case rc of Inl e \<Rightarrow> Inl e | Inr td' \<Rightarrow> rb)"
proof -
  obtain rc w2 where c: "cleanup (ce_os ce) (pe_fs (ce_pe ce)) (ce_priv ce) td w1 = (rc, w2)" by fastforce
  have "td_exit (ce_os ce) (pe_fs (ce_pe ce)) (ce_priv ce) td w1 = (rc, w2)" using c assms(3) by (simp add: td_exit_def)
  then have "w2 = w' \<and> r = (case rc of Inl e \<Rightarrow> Inl e | Inr td' \<Rightarrow> rb)"
    using assms(1,2) by (cases rb; cases rc) (auto simp: with_dir_def with_tmpdir_def andthen_def ret_def)
  then show thesis using that c by blast
qed

lemma make_tmpdir_Inr: "make_tmpdir re pre dir w = (Inr td, w') \<Longrightarrow> \<not> td_keep_once td \<and> \<not> td_closed td \<and> td_path td = re_mkdtemp re (rw_log w) pre dir"
  by (auto simp: make_tmpdir_def andthen_Inr_iff seq_Inr_iff ask_def ret_def)

lemma make_tmpdir_Inl: "make_tmpdir re pre dir w = (Inl e, w') \<Longrightarrow> e = OS_Error"
  by (auto simp: make_tmpdir_def andthen_def seq_def ask_def ret_def file_op_def split: if_splits)

text \<open>The exceptions of a computation, through the combinators.\<close>

definition raises_only :: "(exn \<Rightarrow> bool) \<Rightarrow> 'a res \<Rightarrow> bool" where
  "raises_only P r \<longleftrightarrow> (\<forall>e. r = Inl e \<longrightarrow> P e)"

lemma raises_only_simps [simp]: "raises_only P (Inr x)" "raises_only P (Inl e) \<longleftrightarrow> P e"
  by (auto simp: raises_only_def)

lemma raises_only_map [simp]: "raises_only P (res_map f r) \<longleftrightarrow> raises_only P r"
  by (cases r) auto

lemma raises_only_bind: "raises_only P r \<Longrightarrow> (\<And>x. r = Inr x \<Longrightarrow> raises_only P (f x)) \<Longrightarrow> raises_only P (res_bind r f)"
  by (cases r) auto

lemma raises_only_mapM: "(\<And>x. raises_only P (f x)) \<Longrightarrow> raises_only P (res_mapM f xs)"
  by (induction xs) (auto intro!: raises_only_bind)

lemma raises_only_fold: "(\<And>x s. raises_only P (f x s)) \<Longrightarrow> raises_only P (res_fold f xs s)"
  by (induction xs arbitrary: s) (auto intro!: raises_only_bind)

lemma store_raises: "raises_only unexpected (store_value env kind old s)"
  by (auto simp: store_value_def usage_error_def unexpected_def split: arg_kind.split option.split pyval.split sum.split)

lemma token_raises: "raises_only unexpected (parse_token env as tok ps)"
  using store_raises
  by (auto simp: parse_token_def take_option_def usage_error_def unexpected_def split: token.split option.split list.split arg_kind.split)

lemma level_raises: "raises_only unexpected (parse_level env as toks)"
  unfolding parse_level_def
  by (rule raises_only_bind [OF raises_only_fold [OF token_raises]]) (auto simp: usage_error_def unexpected_def)

lemma add_args_raises: "raises_only unexpected (add_args env su ds)"
  unfolding add_args_def
  by (rule raises_only_mapM) (auto simp: add_arg_def unexpected_def Let_def split: option.split)

lemma subparser_raises: "raises_only unexpected (run_subparser env registry name toks ns)"
  by (auto simp: run_subparser_def sub_actions_def usage_error_def unexpected_def level_raises add_args_raises
      intro!: raises_only_bind split: option.split)

lemma parse_raises: "raises_only unexpected (parse_args env registry toks)"
  unfolding parse_args_def main_actions_def
  by (auto simp: usage_error_def unexpected_def level_raises add_args_raises subparser_raises
      intro!: raises_only_bind split: list.split token.split)

lemma parameters_raise: "raises_only unexpected (aib_parameters base_dir args)"
  by (auto simp: aib_parameters_def unexpected_def split: option.split pyval.split)

lemma cleanup_unexpected: "cleanup oe fe p td w = (Inl e, w') \<Longrightarrow> unexpected e"
  using cleanup_raises by (force simp: unexpected_def cleanup_failed_def)




text \<open>Listing the targets: the command line, and the attributes that come out of it.\<close>

definition list_tokens :: "token list" where
  "list_tokens = [Tok_Positional ''list-targets'']"

definition listing_attrs :: dict where
  "listing_attrs = (case parse_args (ce_args sample_ce) (aib_commands (ce_args sample_ce)) list_tokens of Inr r \<Rightarrow> fst r | Inl e \<Rightarrow> [])"

definition list_tmpdir :: tmpdir where
  "list_tmpdir = \<lparr>td_path = ''/var/tmp/aib-'', td_base = ''/var/tmp'', td_keep_once = False, td_use_sudo = True, td_closed = False\<rparr>"

definition list_params :: dict where
  "list_params = (case aib_parameters (ce_base_dir sample_ce) listing_attrs of Inr args \<Rightarrow> args | Inl e \<Rightarrow> [])"


section \<open>The container of a disk image\<close>

definition stored_event :: "cmd_env \<Rightarrow> string \<Rightarrow> container_storage \<Rightarrow> string \<Rightarrow> event" where
  "stored_event ce archive cs name =
     Ev_Run (run_prefix (ce_priv ce) @ [''skopeo'', ''copy'', ''--quiet'', ''oci-archive:'' @ archive, skopeo_name cs name])"

lemma root_command_last:
  assumes "run_as_root oe p cmd w = (Inr u, w')"
  shows "\<exists>log. rw_log w' = log @ [Ev_Run (run_prefix p @ cmd)] \<and> set (rw_log w) \<subseteq> set log"
proof -
  obtain out where "run_cmd oe p True False False None cmd w = (Inr out, w')"
    using assms by (auto simp: run_as_root_def seq_Inr_iff ret_def)
  from run_cmd_Inr [OF this] show ?thesis by (intro exI [of _ "rw_log w @ sudo_events p w"]) auto
qed

lemma stored:
  assumes "bootc_archive_to_store ce archive cs name w = (Inr u, w')"
  shows "stored_event ce archive cs name \<in> set (rw_log w')"
  using root_command_last [OF assms [unfolded bootc_archive_to_store_def]] by (auto simp: stored_event_def)

lemma move_chown_keeps:
  assumes "move_chown oe p src dst w = (Inr u, w')"
  shows "set (rw_log w) \<subseteq> set (rw_log w')"
proof (cases "uses_sudo p")
  case True
  then obtain w1 w2 u1 u2 where 1: "ensure_sudo oe p w = (Inr u1, w1)" and 2: "run_as_root oe p [''chown'', dec_nat (oe_uid oe) @ '':'' @ dec_nat (oe_gid oe), src] w1 = (Inr u2, w2)"
    and 3: "run_as_root oe p [''mv'', src, dst] w2 = (Inr u, w')"
    using assms by (auto simp: move_chown_def seq_Inr_iff)
  have "set (rw_log w) \<subseteq> set (rw_log w1)" using ensure_sudo_Inr [OF 1] by auto
  also have "\<dots> \<subseteq> set (rw_log w2)" using root_command_last [OF 2] by auto
  also have "\<dots> \<subseteq> set (rw_log w')" using root_command_last [OF 3] by auto
  finally show ?thesis .
next
  case False
  then show ?thesis using assms by (auto simp: move_chown_def file_op_def split: if_splits)
qed

lemma run_cmd_stack: "cw_stack (snd (run_cmd oe p as_root pr cap lf cmd w)) = cw_stack w"
proof -
  have "preserves (\<lambda>v. cw_stack v = cw_stack w) (run_cmd oe p as_root pr cap lf cmd)"
    unfolding run_cmd_def ensure_sudo_def Let_def
    by (auto simp: preserves_def seq_def andthen_def execute_def finish_run_def run_simps
        split: prod.splits sum.splits cmd_result.splits if_splits)
  then show ?thesis unfolding preserves_def by blast
qed

lemma run_as_root_stack: "cw_stack (snd (run_as_root oe p cmd w)) = cw_stack w"
  using run_cmd_stack [of oe p True False False None cmd w]
  by (cases "run_cmd oe p True False False None cmd w"; cases "fst (run_cmd oe p True False False None cmd w)")
    (auto simp: run_as_root_def seq_def andthen_def ret_def)

lemma move_chown_stack: "move_chown oe p src dst w = (Inr u, w') \<Longrightarrow> cw_stack w' = cw_stack w"
proof (cases "uses_sudo p")
  case True
  assume a: "move_chown oe p src dst w = (Inr u, w')"
  obtain w1 w2 u1 u2 where 1: "ensure_sudo oe p w = (Inr u1, w1)" and 2: "run_as_root oe p [''chown'', dec_nat (oe_uid oe) @ '':'' @ dec_nat (oe_gid oe), src] w1 = (Inr u2, w2)"
    and 3: "run_as_root oe p [''mv'', src, dst] w2 = (Inr u, w')"
    using a True by (auto simp: move_chown_def seq_Inr_iff)
  have "cw_stack w1 = cw_stack w" using 1 by (auto simp: ensure_sudo_def andthen_def execute_def run_simps split: if_splits cmd_result.splits)
  then show ?thesis using run_as_root_stack [of oe p _ w1] run_as_root_stack [of oe p _ w2] 2 3 by (metis snd_conv)
next
  case False
  then show "move_chown oe p src dst w = (Inr u, w') \<Longrightarrow> ?thesis" by (auto simp: move_chown_def file_op_def split: if_splits)
qed


definition to_archive :: dict where
  "to_archive = [(''out'', PyStr ''car.oci''), (''disk'', PyStr ''car.img''), (''oci_archive'', PyBool True)]"


section \<open>Names of signed files\<close>

text \<open>An absolute name in the signing information of an image ignores the output directory.\<close>

lemma signing_place_escapes: "path_isabs name \<Longrightarrow> signing_place out sub name = name"
  by (simp add: signing_place_def path_join_def)

end
