(* ===== verification/Progress.thy ===== *)
theory Progress
  imports Effects Podman Complex_Main
begin

text \<open>
  The monitor of the progress of osbuild (\<open>src/aib/progress.py\<close>): the events it reads, the state of the
  progress bar, the log file it writes, and the progress bar itself.  Numbers are exact rationals where the
  code computes with floats.  The bar is the fallback of the module; the library \<open>rich\<close> keeps the same
  fields of a task.
\<close>

section \<open>Numbers\<close>

definition num_rat :: "int \<times> int \<Rightarrow> rat" where
  "num_rat x = of_int (fst x) * 2 powi (snd x)"

text \<open>A value in arithmetic or in an ordered comparison with a number.\<close>

definition number :: "pyval \<Rightarrow> rat res" where
  "number v = (case py_num v of Some x \<Rightarrow> Inr (num_rat x) | None \<Rightarrow> Inl Type_Error)"

lemma num_rat_split: "e \<le> x \<Longrightarrow> num_rat (m, x) = of_int (m * 2 ^ nat (x - e)) * 2 powi e"
proof -
  assume "e \<le> x"
  then have "(2 :: rat) powi x = 2 ^ nat (x - e) * 2 powi e"
    using power_int_add [of "2 :: rat" "x - e" e] by (simp add: power_int_def)
  then show ?thesis by (simp add: num_rat_def)
qed

lemma num_eq_rat: "num_eq x y \<longleftrightarrow> num_rat x = num_rat y"
proof -
  obtain m a n b where xy: "x = (m, a)" "y = (n, b)" by (cases x, cases y) auto
  let ?e = "min a b"
  have "num_rat x = of_int (m * 2 ^ nat (a - ?e)) * 2 powi ?e" "num_rat y = of_int (n * 2 ^ nat (b - ?e)) * 2 powi ?e"
    unfolding xy by (rule num_rat_split; simp)+
  moreover have "(2 :: rat) powi ?e \<noteq> 0" by simp
  ultimately show ?thesis
    unfolding xy by (simp add: num_eq_def num_align_def Let_def del: of_int_mult of_int_power)
qed

lemma py_eq_number: "number v = Inr x \<Longrightarrow> number w = Inr y \<Longrightarrow> py_eq v w \<longleftrightarrow> x = y"
  by (cases v; cases w) (auto simp: number_def num_eq_rat)

section \<open>Names\<close>

definition is_upper :: "char \<Rightarrow> bool" where
  "is_upper c \<longleftrightarrow> CHR ''A'' \<le> c \<and> c \<le> CHR ''Z''"

definition is_lower :: "char \<Rightarrow> bool" where
  "is_lower c \<longleftrightarrow> CHR ''a'' \<le> c \<and> c \<le> CHR ''z''"

definition to_upper :: "char \<Rightarrow> char" where
  "to_upper c = (if is_lower c then char_of (of_char c - 32 :: nat) else c)"

definition to_lower :: "char \<Rightarrow> char" where
  "to_lower c = (if is_upper c then char_of (of_char c + 32 :: nat) else c)"

text \<open>\<open>str.title\<close>: the flag tells whether the character before is a letter (of the ASCII ones).\<close>

fun title_from :: "bool \<Rightarrow> string \<Rightarrow> string" where
  "title_from after [] = []"
| "title_from after (c # cs) = (if after then to_lower c else to_upper c) # title_from (is_upper c \<or> is_lower c) cs"

definition py_title :: "string \<Rightarrow> string" where
  "py_title = title_from False"

definition formatted_text :: "string \<Rightarrow> string" where
  "formatted_text name =
     (if starts_with name ''org.osbuild.'' then py_title (py_replace ''_'' '' '' (py_replace ''org.osbuild.'' [] name))
      else if starts_with name ''pipeline:'' then py_title (py_strip (py_replace ''pipeline:'' [] name)) @ '' Pipeline''
      else if starts_with name ''pipelines/'' then py_title (py_strip (py_replace ''pipelines/'' [] name)) @ '' Pipelines''
      else py_title (py_replace ''-'' '' '' (py_replace ''_'' '' '' name)))"

definition formatted_name :: "pyval \<Rightarrow> string res" where
  "formatted_name v = (case v of PyStr s \<Rightarrow> Inr (formatted_text s) | _ \<Rightarrow> Inl Attribute_Error)"

section \<open>Events\<close>

record progress_step =
  ps_name :: pyval
  ps_total :: pyval
  ps_done :: pyval

datatype progress_info =
    Nested_Info progress_step progress_step
  | Stage_Event pyval

text \<open>\<open>value.get(key, default)\<close> of a value that should be a dictionary.\<close>

definition val_get :: "pyval \<Rightarrow> string \<Rightarrow> pyval \<Rightarrow> pyval res" where
  "val_get v k d = (case v of PyDict m \<Rightarrow> Inr (dict_get_or m k d) | _ \<Rightarrow> Inl Attribute_Error)"

definition step_of :: "dict \<Rightarrow> progress_step" where
  "step_of d =
     \<lparr>ps_name = dict_get_or d ''name'' (PyStr []), ps_total = dict_get_or d ''total'' (PyInt 0), ps_done = dict_get_or d ''done'' (PyInt 0)\<rparr>"

text \<open>\<open>ProgressStep.percentage\<close>.\<close>

definition step_percentage :: "progress_step \<Rightarrow> rat res" where
  "step_percentage s =
     (if py_eq (ps_total s) (PyInt 0) then Inr 0
      else res_bind (number (ps_done s)) (\<lambda>d. res_bind (number (ps_total s)) (\<lambda>t. Inr (min 100 (d / t * 100)))))"

definition partial_progress :: "progress_step \<Rightarrow> progress_step \<Rightarrow> rat res" where
  "partial_progress parent cur =
     res_bind (number (ps_total parent)) (\<lambda>pt.
       if pt > 0 then
         res_bind (number (ps_done cur)) (\<lambda>cd.
         res_bind (number (ps_total cur)) (\<lambda>ct.
           if ct = 0 then Inl Zero_Division_Error else res_bind (number (ps_done parent)) (\<lambda>pd. Inr (pd + cd / ct))))
       else number (ps_done parent))"

definition info_completed :: "progress_step \<Rightarrow> progress_step \<Rightarrow> rat res" where
  "info_completed parent cur =
     res_bind (partial_progress parent cur) (\<lambda>x. res_bind (number (ps_total parent)) (\<lambda>t. Inr (min x t)))"

text \<open>The bullet of the description, which has no character of type \<open>char\<close>, as its encoding in UTF-8.\<close>

definition bullet :: string where
  "bullet = [CHR 0xE2, CHR 0x80, CHR 0xA2]"

definition nested_description :: "(pyval \<Rightarrow> string) \<Rightarrow> progress_step \<Rightarrow> progress_step \<Rightarrow> string res" where
  "nested_description str parent cur =
     res_bind (formatted_name (ps_name parent)) (\<lambda>p.
     res_bind (formatted_name (ps_name cur)) (\<lambda>c.
     res_bind (number (ps_total cur)) (\<lambda>t.
       Inr (p @ '': '' @ c @ (if t > 0 then '' '' @ bullet @ '' '' @ str (ps_done cur) @ ''/'' @ str (ps_total cur) else [])))))"

text \<open>The text without the markup of \<open>rich\<close>: \<open>re.sub(r"\[[^\]]*\]", "", text)\<close>.\<close>

function strip_markup :: "string \<Rightarrow> string" where
  "strip_markup [] = []"
| "strip_markup (c # cs) =
     (if c = CHR ''['' \<and> CHR '']'' \<in> set cs then strip_markup (drop 1 (dropWhile (\<lambda>d. d \<noteq> CHR '']'') cs)) else c # strip_markup cs)"
  by pat_completeness auto

termination
proof (relation "measure length")
  fix c :: char and cs :: string
  have "length (dropWhile (\<lambda>d. d \<noteq> CHR '']'') cs) \<le> length cs" by (rule length_dropWhile_le)
  then show "(drop 1 (dropWhile (\<lambda>d. d \<noteq> CHR '']'') cs), c # cs) \<in> measure length" by simp
qed auto

section \<open>The monitor\<close>

record progress_task =
  tk_description :: string
  tk_total :: rat
  tk_completed :: rat

record monitor_state =
  ms_log :: string
  ms_console :: "string list"
  ms_total :: pyval
  ms_task :: progress_task

text \<open>What the monitor uses of the library: \<open>json.loads\<close>, \<open>str\<close>, \<open>json.dump\<close> and the format of a duration.\<close>

record monitor_env =
  me_loads :: "string \<Rightarrow> pyval option"
  me_text :: "pyval \<Rightarrow> string"
  me_dump :: "pyval \<Rightarrow> string"
  me_duration :: "pyval \<Rightarrow> string res"
  me_verbose :: bool

type_synonym 'a mon = "(monitor_state, 'a) prog"

definition newline :: string where
  "newline = [CHR 0x0A]"

definition write_log :: "string \<Rightarrow> unit mon" where
  "write_log s = update_world (\<lambda>w. w\<lparr>ms_log := ms_log w @ s\<rparr>)"

definition console_print :: "string \<Rightarrow> unit mon" where
  "console_print s = update_world (\<lambda>w. w\<lparr>ms_console := ms_console w @ [strip_markup s]\<rparr>)"

definition update_task :: "(progress_task \<Rightarrow> progress_task) \<Rightarrow> unit mon" where
  "update_task f = update_world (\<lambda>w. w\<lparr>ms_task := f (ms_task w)\<rparr>)"

definition parse_json_sequence_line :: "monitor_env \<Rightarrow> string \<Rightarrow> pyval option" where
  "parse_json_sequence_line me line = (if py_strip line = [] then None else me_loads me (py_strip line))"

text \<open>\<open>data.get("context", {}).get("pipeline", {}).get("stage", {})\<close>.\<close>

definition stage_context :: "dict \<Rightarrow> pyval res" where
  "stage_context data =
     res_bind (val_get (dict_get_or data ''context'' (PyDict [])) ''pipeline'' (PyDict [])) (\<lambda>p. val_get p ''stage'' (PyDict []))"

definition log_result_info :: "monitor_env \<Rightarrow> dict \<Rightarrow> unit mon" where
  "log_result_info me data =
     (let result = dict_get_or data ''result'' (PyDict []) in
      andthen (lift_res (stage_context data)) (\<lambda>stage.
      andthen (lift_res (val_get result ''name'' (PyStr []))) (\<lambda>rname.
      andthen (lift_res (val_get stage ''name'' rname)) (\<lambda>name.
      andthen (lift_res (val_get result ''id'' (PyStr []))) (\<lambda>rid.
      andthen (lift_res (val_get stage ''id'' rid)) (\<lambda>i.
      seq (if \<not> py_truthy name then ret ()
           else if py_truthy i then write_log (me_text me name @ '': '' @ me_text me i)
           else andthen (lift_res (as_text name)) write_log)
      (seq (let options = dict_get_or data ''options'' PyNone
            in if py_truthy options then write_log ('' '' @ me_dump me options) else ret ())
      (seq (write_log newline)
        (let duration = dict_get_or data ''duration'' PyNone
         in if duration = PyNone then ret () else andthen (lift_res (me_duration me duration)) write_log)))))))))"

definition event_info :: "dict \<Rightarrow> progress_info option" where
  "event_info data =
     (case dict_get data ''progress'' of
        Some (PyDict p) \<Rightarrow>
          (case dict_get_or p ''progress'' (PyDict []) of
             PyDict n \<Rightarrow> if n = [] then None else Some (Nested_Info (step_of p) (step_of n))
           | _ \<Rightarrow> None)
      | Some v \<Rightarrow> None
      | None \<Rightarrow>
          (case dict_get data ''stage'' of
             Some (PyDict s) \<Rightarrow> Some (Stage_Event (dict_get_or s ''name'' (PyStr ''Unknown'')))
           | _ \<Rightarrow> None))"

definition event_message :: "dict \<Rightarrow> string res" where
  "event_message data = (case dict_get_or data ''message'' (PyStr []) of PyStr m \<Rightarrow> Inr (py_rstrip m) | _ \<Rightarrow> Inl Attribute_Error)"

definition extract_progress_info :: "monitor_env \<Rightarrow> pyval \<Rightarrow> progress_info option mon" where
  "extract_progress_info me v =
     (case v of
        PyDict data \<Rightarrow>
          andthen (lift_res (event_message data)) (\<lambda>m.
          seq (if m = [] then ret ()
               else seq (write_log (m @ newline)) (if me_verbose me then console_print (''[dim]'' @ m @ ''[/dim]'') else ret ()))
            (seq (if dict_get data ''result'' \<noteq> None then log_result_info me data else ret ())
              (ret (event_info data))))
      | _ \<Rightarrow> raise_exn Attribute_Error)"

definition update_progress :: "monitor_env \<Rightarrow> progress_info \<Rightarrow> unit mon" where
  "update_progress me info =
     (case info of
        Stage_Event name \<Rightarrow> andthen (lift_res (formatted_name name)) (\<lambda>d. update_task (\<lambda>t. t\<lparr>tk_description := d\<rparr>))
      | Nested_Info parent cur \<Rightarrow>
          andthen (lift_res (number (ps_total parent))) (\<lambda>total.
            if total > 0 then
              seq (\<lambda>w. if py_eq (ms_total w) (ps_total parent) then ret () w
                       else seq (update_world (\<lambda>w. w\<lparr>ms_total := ps_total parent\<rparr>)) (update_task (\<lambda>t. t\<lparr>tk_total := total\<rparr>)) w)
                (andthen (lift_res (info_completed parent cur)) (\<lambda>c.
                 andthen (lift_res (nested_description (me_text me) parent cur)) (\<lambda>d.
                   update_task (\<lambda>t. t\<lparr>tk_completed := c, tk_description := d\<rparr>))))
            else ret ()))"

text \<open>A line of the output, decoded and without the white space around it.\<close>

definition monitor_line :: "monitor_env \<Rightarrow> string \<Rightarrow> unit mon" where
  "monitor_line me raw =
     (let line = py_strip raw in
      case parse_json_sequence_line me line of
        Some v \<Rightarrow>
          if py_truthy v then
            andthen (extract_progress_info me v) (\<lambda>info. case info of Some i \<Rightarrow> update_progress me i | None \<Rightarrow> ret ())
          else if line \<noteq> [] then seq (console_print line) (write_log (line @ newline)) else ret ()
      | None \<Rightarrow> if line \<noteq> [] then seq (console_print line) (write_log (line @ newline)) else ret ())"

text \<open>The lines of the output, and the failure that ends the reading of it, if any.\<close>

definition monitor_output :: "monitor_env \<Rightarrow> string list \<Rightarrow> string option \<Rightarrow> unit mon" where
  "monitor_output me lines failure =
     seq (each (monitor_line me) lines)
       (case failure of None \<Rightarrow> ret () | Some m \<Rightarrow> console_print (''[red]Error monitoring output: '' @ m @ ''[/red]''))"

text \<open>A command: it did not start, or it wrote its output and ended with a code.\<close>

datatype monitored = Not_Started string | Ran "string list" "string option" int

definition initial_monitor :: monitor_state where
  "initial_monitor =
     \<lparr>ms_log = [], ms_console = [], ms_total = PyInt 0, ms_task = \<lparr>tk_description = ''Preparing build...'', tk_total = 100, tk_completed = 0\<rparr>\<rparr>"

definition final_update :: "int \<Rightarrow> unit mon" where
  "final_update code =
     (if code = 0 then
        andthen (\<lambda>w. lift_res (number (ms_total w)) w) (\<lambda>total.
          update_task (\<lambda>t. t\<lparr>tk_completed := (if total > 0 then total else 100), tk_description := ''[green]Build completed successfully![/green]''\<rparr>))
      else update_task (\<lambda>t. t\<lparr>tk_description := ''[red]['' @ [CHR 0xE2, CHR 0x9C, CHR 0x97] @ ''] Build failed![/red]''\<rparr>))"

definition run_monitor :: "monitor_env \<Rightarrow> monitored \<Rightarrow> int mon" where
  "run_monitor me p =
     (case p of
        Not_Started m \<Rightarrow>
          seq (update_task (\<lambda>t. t\<lparr>tk_description := ''[red]['' @ [CHR 0xE2, CHR 0x9C, CHR 0x97] @ ''] Error: '' @ m @ ''[/red]''\<rparr>)) (ret 1)
      | Ran lines failure code \<Rightarrow> seq (monitor_output me lines failure) (seq (final_update code) (ret code)))"

section \<open>The bar\<close>

definition task_percentage :: "progress_task \<Rightarrow> rat" where
  "task_percentage t = (if tk_total t = 0 then 0 else min 100 (tk_completed t / tk_total t * 100))"

text \<open>\<open>int(x)\<close> rounds towards zero.\<close>

definition py_trunc :: "rat \<Rightarrow> int" where
  "py_trunc x = (if x < 0 then - \<lfloor>- x\<rfloor> else \<lfloor>x\<rfloor>)"

definition bar_width :: int where
  "bar_width = 30"

text \<open>The cells of the bar, True where they are filled; a string times a negative number is empty.\<close>

definition progress_bar :: "progress_task \<Rightarrow> bool list" where
  "progress_bar t =
     (let w = py_trunc (task_percentage t / 100 * of_int bar_width)
      in replicate (nat w) True @ replicate (nat (bar_width - w)) False)"

definition shown_description :: "string \<Rightarrow> string" where
  "shown_description s = (let c = strip_markup s in if length c > 40 then take 40 c @ ''...'' else c)"

definition pad2 :: "int \<Rightarrow> string" where
  "pad2 n = (let s = dec_int n in if length s < 2 then ''0'' @ s else s)"

definition remaining_time :: "progress_task \<Rightarrow> rat \<Rightarrow> string" where
  "remaining_time t elapsed =
     (if tk_completed t \<le> 0 \<or> elapsed \<le> 0 then ''??:??''
      else let rate = tk_completed t / elapsed;
               r = py_trunc ((tk_total t - tk_completed t) / rate)
           in pad2 (r div 60) @ '':'' @ pad2 (r mod 60))"

end
