(* ===== verification/Progress_Laws.thy ===== *)
theory Progress_Laws
  imports Progress
begin

text \<open>
  Properties of the progress monitor: the bar never runs over and is full after a successful build, the exit
  code of the build survives the monitoring, and nothing of the output is missing in the log file.
\<close>

section \<open>The bar\<close>

text \<open>What holds of the monitor after every line: the total is the known one, or still the initial 100.\<close>

definition in_bounds :: "monitor_state \<Rightarrow> bool" where
  "in_bounds w \<longleftrightarrow> (\<exists>t. number (ms_total w) = Inr t \<and> (t > 0 \<and> tk_total (ms_task w) = t \<or> t = 0 \<and> tk_total (ms_task w) = 100)) \<and>
     tk_completed (ms_task w) \<le> tk_total (ms_task w)"

definition ends_in_bounds :: "'a mon \<Rightarrow> bool" where
  "ends_in_bounds m \<longleftrightarrow> (\<forall>w x w'. in_bounds w \<longrightarrow> m w = (Inr x, w') \<longrightarrow> in_bounds w')"

named_theorems bounded \<open>programs of the monitor that stay in bounds\<close>

lemma bounded_basic [bounded]:
  "ends_in_bounds (ret x)" "ends_in_bounds (raise_exn e)" "ends_in_bounds (lift_res r)"
  "ends_in_bounds (write_log s)" "ends_in_bounds (console_print s)" "ends_in_bounds (update_task (tk_description_update f))"
  by (auto simp: ends_in_bounds_def in_bounds_def ret_def raise_exn_def lift_res_def write_log_def console_print_def update_task_def
      update_world_def)

lemma bounded_andthen [bounded]: "ends_in_bounds m \<Longrightarrow> (\<And>x. ends_in_bounds (f x)) \<Longrightarrow> ends_in_bounds (andthen m f)"
  unfolding ends_in_bounds_def andthen_Inr_iff by blast

lemma bounded_seq [bounded]: "ends_in_bounds m \<Longrightarrow> ends_in_bounds n \<Longrightarrow> ends_in_bounds (seq m n)"
  unfolding seq_def by (rule bounded_andthen)

lemma bounded_if [bounded]: "ends_in_bounds m \<Longrightarrow> ends_in_bounds n \<Longrightarrow> ends_in_bounds (if b then m else n)"
  by simp

lemma bounded_each [bounded]: "(\<And>x. ends_in_bounds (f x)) \<Longrightarrow> ends_in_bounds (each f xs)"
  by (induction xs) (auto intro: bounded)

lemma bounded_result [bounded]: "ends_in_bounds (log_result_info me data)"
  unfolding log_result_info_def Let_def by (intro bounded)

lemma bounded_extract [bounded]: "ends_in_bounds (extract_progress_info me v)"
  unfolding extract_progress_info_def by (auto intro!: bounded split: pyval.split)

lemma set_total:
  assumes "in_bounds w" and "number v = Inr t" and "t > 0"
  shows "\<exists>w'. (if py_eq (ms_total w) v then ret () w
      else seq (update_world (\<lambda>w. w\<lparr>ms_total := v\<rparr>)) (update_task (\<lambda>k. k\<lparr>tk_total := t\<rparr>)) w) = (Inr (), w') \<and>
    number (ms_total w') = Inr t \<and> tk_total (ms_task w') = t"
proof (cases "py_eq (ms_total w) v")
  case True
  obtain s where s: "number (ms_total w) = Inr s" "s > 0 \<and> tk_total (ms_task w) = s \<or> s = 0 \<and> tk_total (ms_task w) = 100"
    using assms(1) by (auto simp: in_bounds_def)
  have "s = t" using True py_eq_number [OF s(1) assms(2)] by simp
  then show ?thesis using True s assms(3) by (simp add: ret_def)
next
  case False
  then show ?thesis using assms(2) by (simp add: seq_def andthen_def update_world_def update_task_def)
qed

lemma bounded_update [bounded]: "ends_in_bounds (update_progress me info)"
proof (cases info)
  case (Stage_Event n)
  then show ?thesis by (simp add: update_progress_def) (intro bounded)
next
  case (Nested_Info parent cur)
  have "in_bounds w'" if w: "in_bounds w" and run: "update_progress me info w = (Inr x, w')" for w x w'
  proof -
    obtain total where t: "number (ps_total parent) = Inr total"
      using run by (cases "number (ps_total parent)") (auto simp: Nested_Info update_progress_def andthen_def lift_res_def)
    show ?thesis
    proof (cases "total > 0")
      case True
      obtain w1 where w1: "(if py_eq (ms_total w) (ps_total parent) then ret () w
          else seq (update_world (\<lambda>w. w\<lparr>ms_total := ps_total parent\<rparr>)) (update_task (\<lambda>k. k\<lparr>tk_total := total\<rparr>)) w) = (Inr (), w1)"
        "number (ms_total w1) = Inr total" "tk_total (ms_task w1) = total"
        using set_total [OF w t True] by blast
      obtain c d where c: "info_completed parent cur = Inr c" and w': "w' = w1\<lparr>ms_task := (ms_task w1)\<lparr>tk_completed := c, tk_description := d\<rparr>\<rparr>"
        using run True t w1(1)
        by (cases "info_completed parent cur"; cases "nested_description (me_text me) parent cur")
          (auto simp: Nested_Info update_progress_def seq_def andthen_def lift_res_def update_task_def update_world_def)
      have "c \<le> total" using c t by (cases "partial_progress parent cur") (auto simp: info_completed_def)
      then show ?thesis using w1 True w' by (simp add: in_bounds_def)
    next
      case False
      then show ?thesis using run t w by (simp add: Nested_Info update_progress_def andthen_def lift_res_def ret_def)
    qed
  qed
  then show ?thesis unfolding ends_in_bounds_def by blast
qed

lemma bounded_line [bounded]: "ends_in_bounds (monitor_line me raw)"
  unfolding monitor_line_def Let_def
  by (cases "parse_json_sequence_line me (py_strip raw)") (auto intro!: bounded split: option.split)

lemma bounded_output [bounded]: "ends_in_bounds (monitor_output me lines failure)"
  unfolding monitor_output_def by (cases failure) (auto intro!: bounded)

text \<open>
  The bar of a build that the monitor follows to its end: it never runs over its total, and after a
  successful build it is full.
\<close>

theorem bar_bounded:
  assumes "run_monitor me (Ran lines failure code) initial_monitor = (Inr rc, w)"
  shows "tk_completed (ms_task w) \<le> tk_total (ms_task w) \<and> (rc = 0 \<longrightarrow> progress_bar (ms_task w) = replicate 30 True)"
proof -
  obtain w1 where out: "monitor_output me lines failure initial_monitor = (Inr (), w1)"
    and fin: "seq (final_update code) (ret code) w1 = (Inr rc, w)"
    using assms by (auto simp: run_monitor_def seq_Inr_iff)
  have "in_bounds initial_monitor" by (simp add: in_bounds_def initial_monitor_def number_def num_rat_def)
  then have b: "in_bounds w1" using bounded_output out unfolding ends_in_bounds_def by blast
  then obtain t where t: "number (ms_total w1) = Inr t" "t > 0 \<and> tk_total (ms_task w1) = t \<or> t = 0 \<and> tk_total (ms_task w1) = 100"
    by (auto simp: in_bounds_def)
  show ?thesis
  proof (cases "code = 0")
    case True
    have "tk_completed (ms_task w) = tk_total (ms_task w) \<and> tk_total (ms_task w) > 0"
      using fin True t by (auto simp: final_update_def seq_def andthen_def lift_res_def update_task_def update_world_def ret_def)
    then show ?thesis by (simp add: progress_bar_def task_percentage_def py_trunc_def bar_width_def)
  next
    case False
    then show ?thesis using fin b by (auto simp: final_update_def seq_def andthen_def update_task_def update_world_def ret_def in_bounds_def)
  qed
qed

text \<open>An event of osbuild, and the lines of a short build.\<close>

definition sample_event :: "pyval \<Rightarrow> pyval" where
  "sample_event cur_total = PyDict [(''message'', PyStr ''Starting''),
     (''progress'', PyDict [(''name'', PyStr ''pipelines/sources''), (''total'', PyInt 4), (''done'', PyInt 1),
       (''progress'', PyDict [(''name'', PyStr ''pipeline: rootfs''), (''total'', cur_total), (''done'', PyInt 1)])])]"

definition sample_monitor :: monitor_env where
  "sample_monitor = \<lparr>me_loads = (\<lambda>s. if s = ''half'' then Some (sample_event (PyInt 2)) else if s = ''zero'' then Some (sample_event (PyInt 0)) else None),
     me_text = (\<lambda>v. ''1''), me_dump = (\<lambda>v. []), me_duration = (\<lambda>v. Inr []), me_verbose = False\<rparr>"

lemma sample_runs:
  "\<exists>w. run_monitor sample_monitor (Ran [''half'', '' warning ''] None 0) initial_monitor = (Inr 0, w)"
proof -
  have "fst (run_monitor sample_monitor (Ran [''half'', '' warning ''] None 0) initial_monitor) = Inr 0" by code_simp
  then show ?thesis by (metis prod.collapse)
qed

theorem bar_bounded_witness:
  "\<exists>w. run_monitor sample_monitor (Ran [''half'', '' warning ''] None 0) initial_monitor = (Inr 0, w) \<and>
     progress_bar (ms_task w) = replicate 30 True"
proof -
  obtain w where run: "run_monitor sample_monitor (Ran [''half'', '' warning ''] None 0) initial_monitor = (Inr 0, w)"
    using sample_runs by blast
  show ?thesis using bar_bounded [OF run] run by simp
qed

section \<open>The exit code\<close>

definition numeric :: "pyval \<Rightarrow> bool" where
  "numeric v \<longleftrightarrow> py_num v \<noteq> None"

definition is_text :: "pyval \<Rightarrow> bool" where
  "is_text v = (case v of PyStr s \<Rightarrow> True | _ \<Rightarrow> False)"

text \<open>Events as osbuild writes them; a step in progress has a total that is not zero.\<close>

fun sound_info :: "progress_info \<Rightarrow> bool" where
  "sound_info (Stage_Event name) \<longleftrightarrow> is_text name"
| "sound_info (Nested_Info parent cur) \<longleftrightarrow> is_text (ps_name parent) \<and> is_text (ps_name cur) \<and> numeric (ps_total parent) \<and>
     numeric (ps_done parent) \<and> numeric (ps_total cur) \<and> numeric (ps_done cur) \<and> number (ps_total cur) \<noteq> Inr 0"

definition sound_result :: "monitor_env \<Rightarrow> dict \<Rightarrow> bool" where
  "sound_result me data \<longleftrightarrow>
     (case (stage_context data, dict_get_or data ''result'' (PyDict [])) of
        (Inr (PyDict s), PyDict r) \<Rightarrow>
          is_text (dict_get_or s ''name'' (dict_get_or r ''name'' (PyStr []))) \<and>
          (case dict_get_or data ''duration'' PyNone of PyNone \<Rightarrow> True | d \<Rightarrow> (case me_duration me d of Inr t \<Rightarrow> True | Inl e \<Rightarrow> False))
      | _ \<Rightarrow> False)"

definition sound_event :: "monitor_env \<Rightarrow> pyval \<Rightarrow> bool" where
  "sound_event me v =
     (case v of
        PyDict data \<Rightarrow> is_text (dict_get_or data ''message'' (PyStr [])) \<and> (dict_get data ''result'' \<noteq> None \<longrightarrow> sound_result me data) \<and>
          (case event_info data of None \<Rightarrow> True | Some i \<Rightarrow> sound_info i)
      | _ \<Rightarrow> False)"

definition sound_line :: "monitor_env \<Rightarrow> string \<Rightarrow> bool" where
  "sound_line me raw = (case parse_json_sequence_line me (py_strip raw) of None \<Rightarrow> True | Some v \<Rightarrow> py_truthy v \<longrightarrow> sound_event me v)"

definition succeeds :: "'a mon \<Rightarrow> bool" where
  "succeeds m \<longleftrightarrow> (\<forall>w. numeric (ms_total w) \<longrightarrow> (\<exists>x w'. m w = (Inr x, w') \<and> numeric (ms_total w')))"

named_theorems succeeding \<open>programs of the monitor that do not raise\<close>

lemma succeeds_basic [succeeding]:
  "succeeds (ret x)" "succeeds (write_log s)" "succeeds (console_print s)" "succeeds (update_task f)" "succeeds (lift_res (Inr x))"
  by (auto simp: succeeds_def ret_def write_log_def console_print_def update_task_def update_world_def lift_res_def)

lemma succeeds_lift [succeeding]: "r = Inr x \<Longrightarrow> succeeds (lift_res r)"
  by (simp add: succeeds_basic)

lemma succeeds_seq [succeeding]: "succeeds m \<Longrightarrow> succeeds n \<Longrightarrow> succeeds (seq m n)"
  unfolding succeeds_def seq_def andthen_def by (metis (no_types, lifting) case_prod_conv sum.case(2))

lemma succeeds_lifted [succeeding]: "r = Inr x \<Longrightarrow> succeeds (f x) \<Longrightarrow> succeeds (andthen (lift_res r) f)"
  by (simp add: succeeds_def andthen_def lift_res_def)

lemma succeeds_if [succeeding]: "(b \<Longrightarrow> succeeds m) \<Longrightarrow> (\<not> b \<Longrightarrow> succeeds n) \<Longrightarrow> succeeds (if b then m else n)"
  by simp

lemma lifted: "andthen (lift_res (Inr x)) f = f x"
  by (simp add: fun_eq_iff andthen_def lift_res_def)

lemma numericD: "numeric v \<Longrightarrow> \<exists>x. number v = Inr x"
  by (auto simp: numeric_def number_def)

lemma is_textD: "is_text v \<Longrightarrow> \<exists>s. v = PyStr s"
  by (auto simp: is_text_def split: pyval.splits)

lemma result_succeeds:
  assumes "sound_result me data"
  shows "succeeds (log_result_info me data)"
proof -
  obtain s r where sr: "stage_context data = Inr (PyDict s)" "dict_get_or data ''result'' (PyDict []) = PyDict r"
    and n: "is_text (dict_get_or s ''name'' (dict_get_or r ''name'' (PyStr [])))"
    and d: "case dict_get_or data ''duration'' PyNone of PyNone \<Rightarrow> True | d \<Rightarrow> (case me_duration me d of Inr t \<Rightarrow> True | Inl e \<Rightarrow> False)"
    using assms by (auto simp: sound_result_def split: sum.splits pyval.splits)
  obtain name where name: "dict_get_or s ''name'' (dict_get_or r ''name'' (PyStr [])) = PyStr name" using is_textD [OF n] by blast
  show ?thesis
  proof (cases "dict_get_or data ''duration'' PyNone = PyNone")
    case True
    show ?thesis
      unfolding log_result_info_def Let_def sr(2)
      by (simp add: lifted sr(1) val_get_def name as_text_def True) (intro conjI impI succeeding)
  next
    case False
    then obtain t where t: "me_duration me (dict_get_or data ''duration'' PyNone) = Inr t"
      using d by (cases "dict_get_or data ''duration'' PyNone") (auto split: sum.splits)
    show ?thesis
      unfolding log_result_info_def Let_def sr(2)
      by (simp add: lifted sr(1) val_get_def name as_text_def False t) (intro conjI impI succeeding)
  qed
qed

lemma completed_succeeds:
  assumes "sound_info (Nested_Info parent cur)"
  shows "\<exists>c. info_completed parent cur = Inr c"
  using assms by (auto simp: info_completed_def partial_progress_def dest!: numericD)

lemma description_succeeds:
  assumes "sound_info (Nested_Info parent cur)"
  shows "\<exists>d. nested_description str parent cur = Inr d"
  using assms by (auto simp: nested_description_def formatted_name_def dest!: numericD is_textD)

lemma total_succeeds:
  "numeric v \<Longrightarrow> succeeds (\<lambda>w. if py_eq (ms_total w) v then ret () w
     else seq (update_world (\<lambda>w. w\<lparr>ms_total := v\<rparr>)) (update_task f) w)"
  by (simp add: succeeds_def ret_def seq_def andthen_def update_world_def update_task_def)

lemma update_succeeds:
  assumes "sound_info i"
  shows "succeeds (update_progress me i)"
proof (cases i)
  case (Stage_Event n)
  then obtain s where "n = PyStr s" using assms is_textD by auto
  then show ?thesis by (simp add: Stage_Event update_progress_def formatted_name_def lifted succeeding)
next
  case (Nested_Info parent cur)
  note sound = assms [unfolded Nested_Info]
  have n: "numeric (ps_total parent)" using sound by simp
  obtain total where t: "number (ps_total parent) = Inr total" using numericD [OF n] by blast
  obtain c where c: "info_completed parent cur = Inr c" using completed_succeeds [OF sound] by blast
  obtain d where d: "nested_description (me_text me) parent cur = Inr d" using description_succeeds [OF sound] by blast
  show ?thesis
    unfolding Nested_Info update_progress_def
    by (simp add: t c d lifted) (intro conjI impI succeeding total_succeeds n)
qed

lemma event_succeeds:
  assumes "sound_event me v"
  shows "succeeds (andthen (extract_progress_info me v) (\<lambda>info. case info of Some i \<Rightarrow> update_progress me i | None \<Rightarrow> ret ()))"
proof -
  obtain data m where v: "v = PyDict data" and m: "dict_get_or data ''message'' (PyStr []) = PyStr m"
    and r: "dict_get data ''result'' \<noteq> None \<longrightarrow> sound_result me data"
    and i: "case event_info data of None \<Rightarrow> True | Some i \<Rightarrow> sound_info i"
    using assms by (auto simp: sound_event_def split: pyval.splits dest!: is_textD)
  have rest: "succeeds (case event_info data of Some i \<Rightarrow> update_progress me i | None \<Rightarrow> ret ())"
    using i update_succeeds by (auto simp: succeeding split: option.splits)
  have assoc: "andthen (seq a (seq b (ret x))) f = seq a (seq b (f x))" for a :: "unit mon" and b :: "unit mon" and x f
    by (auto simp: fun_eq_iff seq_def andthen_def ret_def split: prod.split sum.split)
  show ?thesis
    unfolding v extract_progress_info_def
    by (simp add: event_message_def m lifted assoc) (use r in \<open>intro conjI impI succeeding rest result_succeeds; simp\<close>)
qed

lemma line_succeeds: "sound_line me raw \<Longrightarrow> succeeds (monitor_line me raw)"
  unfolding monitor_line_def Let_def sound_line_def
  by (cases "parse_json_sequence_line me (py_strip raw)") (auto intro!: succeeding event_succeeds)

lemma lines_succeed: "\<forall>line \<in> set lines. sound_line me line \<Longrightarrow> succeeds (each (monitor_line me) lines)"
  by (induction lines) (auto intro!: succeeding line_succeeds)



text \<open>A step whose total is zero, or missing, ends the program instead of the line.\<close>

lemma zero_total_raises:
  "fst (run_monitor sample_monitor (Ran [''zero''] None 0) initial_monitor) = Inl Zero_Division_Error"
  by code_simp

section \<open>The log file\<close>

text \<open>The text that a line of output contributes: its message, or the line itself.\<close>

definition logged :: "monitor_env \<Rightarrow> string \<Rightarrow> string" where
  "logged me raw =
     (let line = py_strip raw; plain = (if line = [] then [] else line @ newline) in
      case parse_json_sequence_line me line of
        None \<Rightarrow> plain
      | Some (PyDict d) \<Rightarrow>
          if d = [] then plain
          else (case event_message d of Inr m \<Rightarrow> if m = [] then [] else m @ newline | Inl e \<Rightarrow> [])
      | Some v \<Rightarrow> if py_truthy v then [] else plain)"

definition log_has :: "string \<Rightarrow> monitor_state \<Rightarrow> bool" where
  "log_has l w \<longleftrightarrow> prefix l (ms_log w)"

lemma log_grows [preserved]:
  "preserves (log_has l) (write_log s)" "preserves (log_has l) (console_print s)" "preserves (log_has l) (update_task f)"
  by (auto simp: preserves_def log_has_def write_log_def console_print_def update_task_def update_world_def prefix_def)

lemma result_grows: "preserves (log_has l) (log_result_info me data)"
  unfolding log_result_info_def Let_def by (intro preserved)

lemma update_grows: "preserves (log_has l) (update_progress me i)"
proof -
  have "preserves (log_has l) (\<lambda>w. if py_eq (ms_total w) v then ret () w
      else seq (update_world (\<lambda>w. w\<lparr>ms_total := v\<rparr>)) (update_task f) w)" for v f
    by (auto simp: preserves_def log_has_def ret_def seq_def andthen_def update_world_def update_task_def)
  then show ?thesis unfolding update_progress_def by (cases i) (auto intro!: preserved)
qed

lemma line_logged:
  assumes "monitor_line me raw w = (Inr u, w')"
  shows "\<exists>more. ms_log w' = ms_log w @ logged me raw @ more"
proof (cases "\<exists>v. parse_json_sequence_line me (py_strip raw) = Some v \<and> py_truthy v")
  case False
  then have "logged me raw = (if py_strip raw = [] then [] else py_strip raw @ newline)"
    unfolding logged_def Let_def by (cases "parse_json_sequence_line me (py_strip raw)") (auto split: pyval.split)
  then show ?thesis using assms False
    by (auto simp: monitor_line_def Let_def seq_def andthen_def console_print_def write_log_def update_world_def ret_def split: option.splits if_splits)
next
  case True
  then obtain v where v: "parse_json_sequence_line me (py_strip raw) = Some v" "py_truthy v" by blast
  from assms v have run: "andthen (extract_progress_info me v) (\<lambda>info. case info of Some i \<Rightarrow> update_progress me i | None \<Rightarrow> ret ()) w = (Inr u, w')"
    by (simp add: monitor_line_def Let_def)
  then obtain info w3 where ext: "extract_progress_info me v w = (Inr info, w3)"
    and upd: "(case info of Some i \<Rightarrow> update_progress me i | None \<Rightarrow> ret ()) w3 = (Inr u, w')"
    by (auto simp: andthen_Inr_iff)
  obtain data where d: "v = PyDict data" using ext by (cases v) (auto simp: extract_progress_info_def raise_exn_def)
  obtain m where m: "event_message data = Inr m"
    using ext by (cases "event_message data") (auto simp: d extract_progress_info_def andthen_def lift_res_def)
  let ?msg = "if m = [] then ret () else seq (write_log (m @ newline)) (if me_verbose me then console_print (''[dim]'' @ m @ ''[/dim]'') else ret ())"
  let ?rest = "seq (if dict_get data ''result'' \<noteq> None then log_result_info me data else ret ()) (ret (event_info data))"
  obtain w1 u1 where 1: "?msg w = (Inr u1, w1)" and 2: "?rest w1 = (Inr info, w3)"
    using ext unfolding d extract_progress_info_def m pyval.case lifted by (auto simp: seq_Inr_iff [where m = ?msg])
  have l1: "ms_log w1 = ms_log w @ logged me raw"
    using 1 v d m
    by (auto simp: logged_def seq_def andthen_def console_print_def write_log_def update_world_def ret_def split: if_splits)
  have "preserves (log_has (ms_log w1)) ?rest" by (intro preserved result_grows)
  then have "log_has (ms_log w1) w3" using 2 by (auto simp: preserves_def log_has_def)
  moreover have "preserves (log_has (ms_log w1)) (case info of Some i \<Rightarrow> update_progress me i | None \<Rightarrow> ret ())"
    by (cases info) (auto intro!: preserved update_grows)
  ultimately have "log_has (ms_log w1) w'" using upd unfolding preserves_def by (metis snd_conv)
  then show ?thesis using l1 by (auto simp: log_has_def prefix_def)
qed



end
