(* ===== verification/Sbom.thy ===== *)
theory Sbom
  imports Podman
begin

text \<open>
  The bill of materials of an image (\<open>src/mpp/sbom.py\<close>): packages and their dependencies from the package
  lists of the preprocessor, and the document in the SPDX format.  The names in \<open>requires\<close> and \<open>provides\<close>
  are texts.  SHA-256 and the textual form of values are parameters; a set is iterated in an order of its own,
  which is a parameter too.
\<close>

section \<open>Data\<close>

record sbom_package =
  sp_checksum :: pyval
  sp_name :: pyval
  sp_version :: string
  sp_arch :: pyval
  sp_supplier :: pyval
  sp_files_analyzed :: bool
  sp_download_url :: pyval
  sp_src_rpm :: pyval
  sp_licenses :: pyval
  sp_requires :: "string list"
  sp_provides :: "string list"

record sbom_relation =
  sr_source :: string
  sr_target :: string
  sr_rtype :: string

record sbom =
  sb_version :: string
  sb_license :: string
  sb_element_id :: string
  sb_name :: string
  sb_creator :: "string list"
  sb_created :: string
  sb_packages :: "sbom_package list"
  sb_relations :: "sbom_relation list"

record sbom_env =
  se_str :: "pyval \<Rightarrow> string"
  se_sha256 :: "string \<Rightarrow> string"
  se_order :: "string list \<Rightarrow> string list"
  se_now :: string

definition removeprefix :: "string \<Rightarrow> string \<Rightarrow> string" where
  "removeprefix p s = (if starts_with s p then drop (length p) s else s)"

text \<open>The property \<open>id\<close> of a package.\<close>

definition package_id :: "sbom_env \<Rightarrow> sbom_package \<Rightarrow> string res" where
  "package_id se p =
     (case sp_checksum p of
        PyStr c \<Rightarrow> Inr (''SPDXRef-Package-rpm-'' @ se_str se (sp_name p) @ ''-'' @ removeprefix ''sha256:'' c)
      | _ \<Rightarrow> Inl Attribute_Error)"

section \<open>Packages\<close>

text \<open>The version without its epoch.\<close>

definition strip_epoch :: "pyval \<Rightarrow> string res" where
  "strip_epoch evr =
     (case evr of
        PyStr v \<Rightarrow> Inr (if contains '':'' v then py_split '':'' v ! 1 else v)
      | _ \<Rightarrow> Inl Type_Error)"

definition text_items :: "pyval \<Rightarrow> string list res" where
  "text_items v = res_bind (py_iter v) (res_mapM as_text)"

definition package_of :: "dict \<Rightarrow> sbom_package res" where
  "package_of pkg =
     res_bind (strip_epoch (dict_get_or pkg ''evr'' PyNone)) (\<lambda>version.
     res_bind (text_items (dict_get_or pkg ''requires'' (PyList []))) (\<lambda>requires.
     res_bind (text_items (dict_get_or pkg ''provides'' (PyList []))) (\<lambda>provides.
       Inr \<lparr>sp_checksum = dict_get_or pkg ''checksum'' PyNone, sp_name = dict_get_or pkg ''name'' PyNone, sp_version = version,
            sp_arch = dict_get_or pkg ''arch'' PyNone, sp_supplier = dict_get_or pkg ''vendor'' PyNone, sp_files_analyzed = False,
            sp_download_url = dict_get_or pkg ''url'' PyNone, sp_src_rpm = dict_get_or pkg ''sourcerpm'' PyNone,
            sp_licenses = dict_get_or pkg ''license'' PyNone, sp_requires = requires, sp_provides = provides\<rparr>)))"

text \<open>The package that provides a name: the last one that says so.\<close>

type_synonym provides_map = "string \<Rightarrow> string option"

definition add_provides :: "sbom_env \<Rightarrow> sbom_package \<Rightarrow> provides_map \<Rightarrow> provides_map res" where
  "add_provides se p prov =
     (if sp_provides p = [] then Inr prov
      else res_bind (package_id se p) (\<lambda>i. Inr (fold (\<lambda>name m. m(name \<mapsto> i)) (sp_provides p) prov)))"

definition read_packages :: "sbom_env \<Rightarrow> pyval list \<Rightarrow> (sbom_package list \<times> provides_map) res" where
  "read_packages se pkgs =
     res_fold (\<lambda>v (ps, prov).
       case v of
         PyDict d \<Rightarrow> res_bind (package_of d) (\<lambda>p. res_bind (add_provides se p prov) (\<lambda>prov'. Inr (ps @ [p], prov')))
       | _ \<Rightarrow> Inl Attribute_Error) pkgs ([], \<lambda>name. None)"

definition noassertion :: pyval where
  "noassertion = PyStr ''NOASSERTION''"

text \<open>The stand-in for a requirement that no package provides.\<close>

definition unknown_package :: "sbom_env \<Rightarrow> string \<Rightarrow> sbom_package" where
  "unknown_package se req =
     \<lparr>sp_checksum = PyStr (se_sha256 se req), sp_name = PyStr (py_replace ''/'' ''-'' req), sp_version = ''NOASSERTION'',
      sp_arch = noassertion, sp_supplier = noassertion, sp_files_analyzed = False, sp_download_url = noassertion,
      sp_src_rpm = noassertion, sp_licenses = noassertion, sp_requires = [], sp_provides = [req]\<rparr>"

section \<open>Dependencies\<close>

text \<open>The packages added so far, by the name that they stand for.\<close>

type_synonym unknown_map = "(string \<times> sbom_package) list"

definition dependency ::
  "sbom_env \<Rightarrow> provides_map \<Rightarrow> string \<Rightarrow> unknown_map \<times> string list \<Rightarrow> (unknown_map \<times> string list) res" where
  "dependency se prov req st =
     (case st of (unknown, deps) \<Rightarrow>
        (case prov req of
           Some dep \<Rightarrow> Inr (unknown, List.insert dep deps)
         | None \<Rightarrow>
             let unknown' = (if map_of unknown req = None then unknown @ [(req, unknown_package se req)] else unknown)
             in res_bind (package_id se (the (map_of unknown' req))) (\<lambda>dep. Inr (unknown', List.insert dep deps))))"

definition dependencies :: "sbom_env \<Rightarrow> provides_map \<Rightarrow> sbom_package \<Rightarrow> unknown_map \<Rightarrow> (unknown_map \<times> string list) res" where
  "dependencies se prov p unknown = res_fold (dependency se prov) (sp_requires p) (unknown, [])"

definition relations_from :: "sbom_env \<Rightarrow> sbom_package \<Rightarrow> string list \<Rightarrow> sbom_relation list res" where
  "relations_from se p deps =
     (if deps = [] then Inr []
      else res_bind (package_id se p) (\<lambda>i. Inr (map (\<lambda>dep. \<lparr>sr_source = i, sr_target = dep, sr_rtype = ''DEPENDS_ON''\<rparr>) (se_order se deps))))"

lemma dependency_unknown:
  "dependency se prov req (unknown, deps) = Inr (unknown', deps') \<Longrightarrow>
     \<exists>new. unknown' = unknown @ new \<and> length new \<le> 1 \<and> (\<forall>(r, p) \<in> set new. p = unknown_package se r \<and> sp_requires p = [])"
  by (auto simp: dependency_def Let_def res_bind_Inr_iff unknown_package_def split: option.splits if_splits)

lemma dependencies_unknown:
  "res_fold (dependency se prov) reqs (unknown, deps) = Inr (unknown', deps') \<Longrightarrow>
     \<exists>new. unknown' = unknown @ new \<and> length new \<le> length reqs \<and> (\<forall>(r, p) \<in> set new. p = unknown_package se r \<and> sp_requires p = [])"
proof (induction reqs arbitrary: unknown deps)
  case Nil
  then show ?case by simp
next
  case (Cons req reqs)
  obtain u d where u: "dependency se prov req (unknown, deps) = Inr (u, d)"
    and rest: "res_fold (dependency se prov) reqs (u, d) = Inr (unknown', deps')"
    using Cons.prems by (auto simp: res_bind_Inr_iff)
  obtain new1 where 1: "u = unknown @ new1" "length new1 \<le> 1" "\<forall>(r, p) \<in> set new1. p = unknown_package se r \<and> sp_requires p = []"
    using dependency_unknown [OF u] by blast
  obtain new2 where 2: "unknown' = u @ new2" "length new2 \<le> length reqs" "\<forall>(r, p) \<in> set new2. p = unknown_package se r \<and> sp_requires p = []"
    using Cons.IH [OF rest] by blast
  show ?case using 1 2 by (intro exI [of _ "new1 @ new2"]) auto
qed

text \<open>
  The loop over the packages, which grows the list it goes through: the packages still to come, the stand-ins,
  and the relations so far.  A stand-in requires nothing, so the loop ends.
\<close>

definition queue_measure :: "sbom_package list \<Rightarrow> nat" where
  "queue_measure ps = sum_list (map (\<lambda>p. Suc (length (sp_requires p))) ps)"

lemma queue_measure_none: "\<forall>(r, p) \<in> set new. sp_requires p = [] \<Longrightarrow> queue_measure (map snd new) = length new"
  by (induction new) (auto simp: queue_measure_def)

function relate ::
  "sbom_env \<Rightarrow> provides_map \<Rightarrow> sbom_package list \<Rightarrow> unknown_map \<Rightarrow> sbom_relation list \<Rightarrow> (unknown_map \<times> sbom_relation list) res" where
  "relate se prov [] unknown rels = Inr (unknown, rels)"
| "relate se prov (p # ps) unknown rels =
     (case dependencies se prov p unknown of
        Inl e \<Rightarrow> Inl e
      | Inr (unknown', deps) \<Rightarrow>
          (case relations_from se p deps of
             Inl e \<Rightarrow> Inl e
           | Inr new \<Rightarrow> relate se prov (ps @ map snd (drop (length unknown) unknown')) unknown' (rels @ new)))"
  by pat_completeness auto

termination
proof (relation "measure (\<lambda>(se, prov, ps, unknown, rels). queue_measure ps)")
  fix se prov p ps unknown rels unknown' deps new
  fix r :: "unknown_map \<times> string list"
  assume "dependencies se prov p unknown = Inr r" and "(unknown', deps) = r"
  then obtain more where more: "unknown' = unknown @ more" "length more \<le> length (sp_requires p)"
    "\<forall>(r, q) \<in> set more. q = unknown_package se r \<and> sp_requires q = []"
    using dependencies_unknown unfolding dependencies_def by blast
  have "queue_measure (map snd more) = length more" using more(3) by (intro queue_measure_none) auto
  then have "queue_measure (ps @ map snd more) < queue_measure (p # ps)" using more(2) by (simp add: queue_measure_def)
  then show "((se, prov, ps @ map snd (drop (length unknown) unknown'), unknown', rels @ new), se, prov, p # ps, unknown, rels)
      \<in> measure (\<lambda>(se, prov, ps, unknown, rels). queue_measure ps)"
    using more(1) by simp
qed simp

definition from_pkgs :: "sbom_env \<Rightarrow> string \<Rightarrow> pyval list \<Rightarrow> sbom res" where
  "from_pkgs se env pkgs =
     res_bind (read_packages se pkgs) (\<lambda>(ps, prov).
     res_bind (relate se prov ps [] []) (\<lambda>(unknown, rels).
       Inr \<lparr>sb_version = ''SPDX-2.3'', sb_license = ''CC0-1.0'', sb_element_id = ''SPDXRef-DOCUMENT'', sb_name = env,
            sb_creator = [''Organization: Automotive Stream Distribution'', ''Tool: automotive-image-builder''],
            sb_created = se_now se, sb_packages = ps @ map snd unknown, sb_relations = rels\<rparr>))"

section \<open>The document\<close>

definition line_end :: string where
  "line_end = [CHR 0x0A]"

definition format_package :: "sbom_env \<Rightarrow> sbom_package \<Rightarrow> string res" where
  "format_package se p =
     res_bind (package_id se p) (\<lambda>i.
       let s = se_str se; name = s (sp_name p)
       in Inr (py_join line_end
         [''##### Package: '' @ name, [], ''PackageName: '' @ name, ''SPDXID: '' @ i, ''PackageVersion: '' @ sp_version p,
          ''PackageSupplier: Organization: '' @ s (sp_supplier p), ''PackageDownloadLocation: '' @ s (sp_download_url p),
          ''FilesAnalyzed: '' @ (if sp_files_analyzed p then ''true'' else ''false''),
          ''PackageSourceInfo: acquired package info during image build'',
          ''PackageLicenseDeclared: '' @ (if py_truthy (sp_licenses p) then ''('' @ s (sp_licenses p) @ '')'' else ''NOASSERTION''),
          ''ExternalRef: PACKAGE-MANAGER purl pkg:rpm/'' @ name @ ''@'' @ sp_version p @ ''?arch='' @ s (sp_arch p) @
            ''&upstream='' @ s (sp_src_rpm p), []]))"

definition format_relation :: "sbom_relation \<Rightarrow> string" where
  "format_relation r = ''Relationship: '' @ sr_source r @ '' '' @ sr_rtype r @ '' '' @ sr_target r"

definition spdx_formatter :: "sbom_env \<Rightarrow> sbom \<Rightarrow> string res" where
  "spdx_formatter se sb =
     res_bind (res_mapM (format_package se) (sb_packages sb)) (\<lambda>ps.
       let packages = py_join line_end ps; relations = py_join line_end (map format_relation (sb_relations sb));
           namespace = removeprefix ''sha256:'' (se_sha256 se (packages @ relations))
       in Inr (py_join line_end
         [''SPDXVersion: '' @ sb_version sb, ''DataLicense: '' @ sb_license sb, ''SPDXID: '' @ sb_element_id sb,
          ''DocumentName: '' @ sb_name sb, ''DocumentNamespace: https://aib.org/spdx/'' @ sb_name sb @ ''-'' @ namespace,
          ''Created: '' @ sb_created sb, py_join line_end (map (\<lambda>c. ''Creator: '' @ c) (sb_creator sb)), [], packages, [],
          ''##### Relationships'', [], relations, []]))"

end
