(* ===== verification/Sbom_Laws.thy ===== *)
theory Sbom_Laws
  imports Sbom
begin

text \<open>
  Properties of the bill of materials: its relations only name packages of the document, and every requirement
  of a package is among them.
\<close>

text \<open>The identifiers of a list of packages.\<close>

definition ids :: "sbom_env \<Rightarrow> sbom_package list \<Rightarrow> string set" where
  "ids se ps = {i. \<exists>p \<in> set ps. package_id se p = Inr i}"

lemma ids_append [simp]: "ids se (ps @ qs) = ids se ps \<union> ids se qs"
  by (auto simp: ids_def)

lemma ids_mem: "p \<in> set ps \<Longrightarrow> package_id se p = Inr i \<Longrightarrow> i \<in> ids se ps"
  by (auto simp: ids_def)

text \<open>What the iteration over a set gives: its elements, in some order.\<close>

definition enumerates :: "sbom_env \<Rightarrow> bool" where
  "enumerates se \<longleftrightarrow> (\<forall>xs. set (se_order se xs) = set xs)"

lemma read_packages_known:
  assumes "read_packages se pkgs = Inr (ps, prov)"
  shows "ran prov \<subseteq> ids se ps"
proof -
  let ?step = "\<lambda>v (ps, prov). case v of
      PyDict d \<Rightarrow> res_bind (package_of d) (\<lambda>p. res_bind (add_provides se p prov) (\<lambda>prov'. Inr (ps @ [p], prov')))
    | _ \<Rightarrow> Inl Attribute_Error"
  have provides: "ran (fold (\<lambda>name m. m(name \<mapsto> i)) names prov) \<subseteq> insert i (ran prov)" for i names prov
  proof (induction names arbitrary: prov)
    case (Cons a names)
    have "ran (prov(a \<mapsto> i)) \<subseteq> insert i (ran prov)" by (auto simp: ran_def)
    moreover have e: "fold (\<lambda>name m. m(name \<mapsto> i)) (a # names) prov = fold (\<lambda>name m. m(name \<mapsto> i)) names (prov(a \<mapsto> i))"
      by simp
    ultimately show ?case unfolding e using Cons.IH [of "prov(a \<mapsto> i)"] by blast
  qed auto
  have step: "ran prov' \<subseteq> ids se ps'" if one: "?step v (ps, prov) = Inr (ps', prov')" and known: "ran prov \<subseteq> ids se ps" for v ps prov ps' prov'
  proof -
    obtain d p where "v = PyDict d" and p: "add_provides se p prov = Inr prov'" "ps' = ps @ [p]"
      using one by (auto simp: res_bind_Inr_iff split: pyval.splits)
    show ?thesis
    proof (cases "sp_provides p = []")
      case True
      then show ?thesis using p known by (auto simp: add_provides_def)
    next
      case False
      then obtain i where i: "package_id se p = Inr i" "prov' = fold (\<lambda>name m. m(name \<mapsto> i)) (sp_provides p) prov"
        using p(1) by (auto simp: add_provides_def res_bind_Inr_iff)
      show ?thesis using provides [of i "sp_provides p" prov] known p(2) i by (auto simp: ids_def)
    qed
  qed
  have "ran prov \<subseteq> ids se ps" if "res_fold ?step pkgs (ps0, prov0) = Inr (ps, prov)" "ran prov0 \<subseteq> ids se ps0" for ps0 prov0
    using that
  proof (induction pkgs arbitrary: ps0 prov0)
    case Nil
    then show ?case by simp
  next
    case (Cons v pkgs)
    obtain ps1 prov1 where 1: "?step v (ps0, prov0) = Inr (ps1, prov1)" and 2: "res_fold ?step pkgs (ps1, prov1) = Inr (ps, prov)"
      using Cons.prems(1) by (auto simp: res_bind_Inr_iff)
    show ?case using Cons.IH [OF 2 step [OF 1 Cons.prems(2)]] .
  qed
  from this [of "[]" "\<lambda>name. None"] show ?thesis using assms by (simp add: read_packages_def)
qed

section \<open>Dependencies\<close>

text \<open>The target of a requirement.\<close>

definition target_of :: "sbom_env \<Rightarrow> provides_map \<Rightarrow> string \<Rightarrow> string" where
  "target_of se prov req =
     (case prov req of Some dep \<Rightarrow> dep | None \<Rightarrow> (case package_id se (unknown_package se req) of Inr i \<Rightarrow> i | Inl e \<Rightarrow> []))"

text \<open>The stand-ins are those of their names.\<close>

definition stand_ins :: "sbom_env \<Rightarrow> unknown_map \<Rightarrow> bool" where
  "stand_ins se unknown \<longleftrightarrow> (\<forall>(r, p) \<in> set unknown. p = unknown_package se r)"

lemma unknown_id: "\<exists>i. package_id se (unknown_package se r) = Inr i"
  by (simp add: package_id_def unknown_package_def)

lemma dependency_targets:
  assumes "dependency se prov req (unknown, deps) = Inr (unknown', deps')" and "stand_ins se unknown"
  shows "stand_ins se unknown' \<and> set deps' = insert (target_of se prov req) (set deps) \<and>
    target_of se prov req \<in> ran prov \<union> ids se (map snd unknown')"
proof (cases "prov req")
  case (Some dep)
  then show ?thesis using assms by (auto simp: dependency_def target_of_def ran_def)
next
  case None
  define u where "u = (if map_of unknown req = None then unknown @ [(req, unknown_package se req)] else unknown)"
  have s: "stand_ins se u" using assms(2) by (auto simp: u_def stand_ins_def)
  have m: "map_of u req = Some (unknown_package se req)"
  proof (cases "map_of unknown req")
    case None
    then show ?thesis by (simp add: u_def map_of_append map_add_def)
  next
    case (Some p)
    then show ?thesis using assms(2) map_of_SomeD [OF Some] by (auto simp: u_def stand_ins_def)
  qed
  obtain i where i: "package_id se (unknown_package se req) = Inr i" using unknown_id by blast
  have res: "unknown' = u" "deps' = List.insert i deps"
    using assms(1) None m i by (auto simp: dependency_def Let_def u_def [symmetric])
  have "i \<in> ids se (map snd u)" using map_of_SomeD [OF m] i by (force simp: ids_def)
  then show ?thesis using res s None i by (simp add: target_of_def)
qed

lemma dependencies_targets:
  assumes "res_fold (dependency se prov) reqs (unknown, deps) = Inr (unknown', deps')" and "stand_ins se unknown"
  shows "stand_ins se unknown' \<and> set deps' = target_of se prov ` set reqs \<union> set deps \<and>
    target_of se prov ` set reqs \<subseteq> ran prov \<union> ids se (map snd unknown')"
  using assms
proof (induction reqs arbitrary: unknown deps)
  case Nil
  then show ?case by simp
next
  case (Cons req reqs)
  obtain u d where u: "dependency se prov req (unknown, deps) = Inr (u, d)"
    and rest: "res_fold (dependency se prov) reqs (u, d) = Inr (unknown', deps')"
    using Cons.prems by (auto simp: res_bind_Inr_iff)
  note 1 = dependency_targets [OF u Cons.prems(2)]
  have 2: "stand_ins se unknown' \<and> set deps' = target_of se prov ` set reqs \<union> set d \<and>
      target_of se prov ` set reqs \<subseteq> ran prov \<union> ids se (map snd unknown')"
    using Cons.IH [OF rest] 1 by blast
  obtain new where "unknown' = u @ new" using dependencies_unknown [OF rest] by blast
  then have "ids se (map snd u) \<subseteq> ids se (map snd unknown')" by simp
  then show ?case using 1 2 by auto
qed

section \<open>Relations\<close>

definition closed_relations :: "string set \<Rightarrow> sbom_relation list \<Rightarrow> bool" where
  "closed_relations I rels \<longleftrightarrow> (\<forall>r \<in> set rels. sr_source r \<in> I \<and> sr_target r \<in> I)"

definition related :: "sbom_env \<Rightarrow> provides_map \<Rightarrow> sbom_relation list \<Rightarrow> sbom_package \<Rightarrow> bool" where
  "related se prov rels p \<longleftrightarrow> (\<forall>req \<in> set (sp_requires p). \<exists>r \<in> set rels.
     package_id se p = Inr (sr_source r) \<and> sr_target r = target_of se prov req \<and> sr_rtype r = ''DEPENDS_ON'')"

lemma relations_from_all:
  assumes "relations_from se p deps = Inr new" and "enumerates se"
  shows "(\<forall>r \<in> set new. package_id se p = Inr (sr_source r) \<and> sr_target r \<in> set deps) \<and>
    (\<forall>dep \<in> set deps. \<exists>r \<in> set new. package_id se p = Inr (sr_source r) \<and> sr_target r = dep \<and> sr_rtype r = ''DEPENDS_ON'')"
  using assms by (auto simp: relations_from_def enumerates_def res_bind_Inr_iff split: if_splits)

lemma relate_result:
  assumes "relate se prov queue unknown rels = Inr (unknown', rels')" and "enumerates se" and "stand_ins se unknown"
    and "ran prov \<subseteq> ids se all" and "set queue \<subseteq> set all \<union> snd ` set unknown"
    and "closed_relations (ids se (all @ map snd unknown)) rels"
  shows "closed_relations (ids se (all @ map snd unknown')) rels' \<and> set rels \<subseteq> set rels' \<and> (\<forall>p \<in> set queue. related se prov rels' p)"
  using assms
proof (induction se prov queue unknown rels rule: relate.induct)
  case (1 se prov unknown rels)
  then show ?case by simp
next
  case (2 se prov p ps unknown rels)
  obtain u deps where d: "dependencies se prov p unknown = Inr (u, deps)"
    using 2(2) by (auto split: sum.splits)
  obtain new where new: "relations_from se p deps = Inr new"
    and rest: "relate se prov (ps @ map snd (drop (length unknown) u)) u (rels @ new) = Inr (unknown', rels')"
    using 2(2) d by (auto split: sum.splits)
  obtain more where more: "u = unknown @ more" using dependencies_unknown d unfolding dependencies_def by blast
  have t: "stand_ins se u" "set deps = target_of se prov ` set (sp_requires p)"
    "set deps \<subseteq> ran prov \<union> ids se (map snd u)"
    using dependencies_targets [OF d [unfolded dependencies_def] 2(4)] by auto
  note r = relations_from_all [OF new 2(3)]
  have p: "p \<in> set all \<union> snd ` set unknown" using 2(6) by simp
  have "closed_relations (ids se (all @ map snd u)) (rels @ new)"
  proof -
    have "sr_source r \<in> ids se (all @ map snd u)" if "r \<in> set new" for r
      using r that p more by (auto simp: ids_def)
    moreover have "sr_target r \<in> ids se (all @ map snd u)" if "r \<in> set new" for r
      using r that t(3) 2(5) by auto
    ultimately show ?thesis using 2(7) more by (auto simp: closed_relations_def)
  qed
  moreover have "set (ps @ map snd (drop (length unknown) u)) \<subseteq> set all \<union> snd ` set u" using 2(6) more by auto
  ultimately have ih: "closed_relations (ids se (all @ map snd unknown')) rels' \<and> set (rels @ new) \<subseteq> set rels' \<and>
      (\<forall>q \<in> set (ps @ map snd (drop (length unknown) u)). related se prov rels' q)"
    using 2(1) [OF d refl new rest 2(3) t(1) 2(5)] by blast
  have "related se prov rels' p"
    unfolding related_def
  proof
    fix req
    assume "req \<in> set (sp_requires p)"
    then have "target_of se prov req \<in> set deps" using t(2) by simp
    then obtain r' where "r' \<in> set new" "package_id se p = Inr (sr_source r')" "sr_target r' = target_of se prov req"
      "sr_rtype r' = ''DEPENDS_ON''"
      using r by blast
    then show "\<exists>r\<in>set rels'. package_id se p = Inr (sr_source r) \<and> sr_target r = target_of se prov req \<and> sr_rtype r = ''DEPENDS_ON''"
      using ih by auto
  qed
  then show ?case using ih by auto
qed

text \<open>
  C29: The bill of materials is closed and complete: each relation leads from a package of the document to a
  package of the document, and each requirement of a package is one of its relations, if only to a stand-in.
\<close>

theorem sbom_closed:
  assumes "from_pkgs se env pkgs = Inr sb" and "enumerates se"
  shows "\<exists>ps prov unknown. read_packages se pkgs = Inr (ps, prov) \<and> sb_packages sb = ps @ unknown \<and>
    closed_relations (ids se (sb_packages sb)) (sb_relations sb) \<and> (\<forall>p \<in> set ps. related se prov (sb_relations sb) p)"
proof -
  obtain ps prov unknown rels where 1: "read_packages se pkgs = Inr (ps, prov)" and 2: "relate se prov ps [] [] = Inr (unknown, rels)"
    and sb: "sb_packages sb = ps @ map snd unknown" "sb_relations sb = rels"
    using assms(1) by (auto simp: from_pkgs_def res_bind_Inr_iff)
  have "closed_relations (ids se (ps @ map snd unknown)) rels \<and> set [] \<subseteq> set rels \<and> (\<forall>p \<in> set ps. related se prov rels p)"
    using 2 assms(2) read_packages_known [OF 1]
    by (intro relate_result [where unknown = "[]" and rels = "[]"]) (auto simp: stand_ins_def closed_relations_def)
  then show ?thesis using 1 sb by auto
qed

definition sample_sbom :: sbom_env where
  "sample_sbom = \<lparr>se_str = (\<lambda>v. case v of PyStr s \<Rightarrow> s | _ \<Rightarrow> ''None''), se_sha256 = (\<lambda>s. ''abc''), se_order = rev, se_now = ''now''\<rparr>"

definition sample_pkgs :: "pyval list" where
  "sample_pkgs =
     [PyDict [(''name'', PyStr ''bash''), (''evr'', PyStr ''1:5.2''), (''checksum'', PyStr ''sha256:11''), (''provides'', PyList [PyStr ''/bin/bash''])],
      PyDict [(''name'', PyStr ''app''), (''evr'', PyStr ''2''), (''checksum'', PyStr ''sha256:22''),
        (''requires'', PyList [PyStr ''/bin/bash'', PyStr ''/usr/bin/x''])]]"

theorem sbom_closed_witness:
  "\<exists>sb. from_pkgs sample_sbom ''rootfs'' sample_pkgs = Inr sb \<and> closed_relations (ids sample_sbom (sb_packages sb)) (sb_relations sb) \<and>
     length (sb_relations sb) = 2"
proof -
  define r where "r = from_pkgs sample_sbom ''rootfs'' sample_pkgs"
  have "map_sum id (\<lambda>sb. length (sb_relations sb)) r = Inr 2" unfolding r_def by code_simp
  then obtain sb where sb: "r = Inr sb" "length (sb_relations sb) = 2" by (cases r) auto
  have e: "enumerates sample_sbom" by (simp add: enumerates_def sample_sbom_def)
  from sbom_closed [OF sb(1) [unfolded r_def] e] sb show ?thesis unfolding r_def by auto
qed

end
