(* ===== verification/Mpp_World.thy ===== *)
theory Mpp_World
  imports Podman
begin

text \<open>
  The manifest preprocessor (\<open>src/mpp/aib-osbuild-mpp\<close>): its state, the variables of a manifest with their
  substitution in texts, and the lockfile.  The state has what the preprocessor asked of the network and of
  other programs; their answers, \<open>json\<close>, SHA-256 and the textual form of values are parameters.
\<close>

section \<open>World\<close>

text \<open>
  \<open>self.pipeline\<close> of a manifest of version 1: not yet set, the pipeline of the root, or a value apart from it.
\<close>

datatype pipeline_ref = No_Pipeline | In_Root | Apart pyval

text \<open>
  The manifest that is processed: the directory of its file, its sources, its variables and its pipeline; and
  the run.
\<close>

record mpp_world =
  mw_asked :: "string list list"
  mw_basedir :: string
  mw_sources :: dict
  mw_vars :: dict
  mw_pipeline :: pipeline_ref
  mw_lock :: "dict option"
  mw_lock_out :: "dict option"
  mw_sbom :: "dict option"

text \<open>A package as the dependency solver of osbuild returns it.\<close>

record solved_package =
  sd_name :: pyval
  sd_version :: pyval
  sd_release :: pyval
  sd_epoch :: int
  sd_checksum :: pyval
  sd_arch :: pyval
  sd_license :: pyval
  sd_summary :: pyval
  sd_source_rpm :: pyval
  sd_build_time :: pyval
  sd_vendor :: pyval
  sd_requires :: "string list"
  sd_provides :: "string list"
  sd_locations :: "pyval list"
  sd_repo :: string

text \<open>
  The host and the libraries: what they answer may depend on what was asked before.  The solver returns the
  packages and the repositories that it knows to need a subscription.  The version is that of
  the manifest, hence the class of \<open>self\<close>.
\<close>

record mpp_env =
  mv_version :: int
  mv_overrides :: dict
  mv_searchdirs :: "string list"
  mv_tmpdir :: string
  mv_str :: "pyval \<Rightarrow> string"
  mv_repr :: "pyval \<Rightarrow> string"
  mv_canonical :: "pyval \<Rightarrow> string"
  mv_sha256 :: "string \<Rightarrow> string"
  mv_loads :: "string \<Rightarrow> pyval res"
  mv_yaml :: "string \<Rightarrow> pyval res"
  mv_eval :: "string \<Rightarrow> dict \<Rightarrow> pyval res"
  mv_fstring :: "string \<Rightarrow> dict \<Rightarrow> string res"
  mv_url :: "string \<Rightarrow> (bool \<times> string list) option"
  mv_scheme :: "string \<Rightarrow> bool option"
  mv_file_uri :: "string \<Rightarrow> string option"
  mv_getenv :: "string \<Rightarrow> string option"
  mv_exists :: "string \<Rightarrow> bool"
  mv_command :: "string list list \<Rightarrow> string list \<Rightarrow> cmd_result"
  mv_fetch :: "string list list \<Rightarrow> string \<Rightarrow> string res"
  mv_solve :: "string list list \<Rightarrow> pyval \<Rightarrow> (solved_package list \<times> string list) res"
  mv_read_file :: "string \<Rightarrow> string res"
  mv_base64 :: "string \<Rightarrow> string"
  mv_base64url :: "string \<Rightarrow> string res"

type_synonym 'a mpp = "(mpp_world, 'a) prog"

definition ask_command :: "mpp_env \<Rightarrow> string list \<Rightarrow> string mpp" where
  "ask_command me cmd w =
     (case mv_command me (mw_asked w) cmd of
        Cmd_Ok out \<Rightarrow> (Inr out, w\<lparr>mw_asked := mw_asked w @ [cmd]\<rparr>)
      | Cmd_Exit n \<Rightarrow> (Inl Called_Process_Error, w\<lparr>mw_asked := mw_asked w @ [cmd]\<rparr>)
      | Cmd_Missing \<Rightarrow> (Inl File_Not_Found_Error, w))"

definition fetch_url :: "mpp_env \<Rightarrow> string \<Rightarrow> string mpp" where
  "fetch_url me url w = (mv_fetch me (mw_asked w) url, w\<lparr>mw_asked := mw_asked w @ [[''fetch'', url]]\<rparr>)"

definition ask_solver :: "mpp_env \<Rightarrow> pyval \<Rightarrow> (solved_package list \<times> string list) mpp" where
  "ask_solver me request w = (mv_solve me (mw_asked w) request, w\<lparr>mw_asked := mw_asked w @ [[''solve'']]\<rparr>)"

text \<open>The first of some directories that has a file; an error that is not that the file is missing ends the search.\<close>

fun first_open :: "mpp_env \<Rightarrow> string \<Rightarrow> string list \<Rightarrow> (string \<times> string) res" where
  "first_open me path [] = Inl File_Not_Found_Error"
| "first_open me path (d # ds) =
     (case mv_read_file me (path_join d path) of
        Inr content \<Rightarrow> Inr (content, path_normpath (path_join d path))
      | Inl e \<Rightarrow> if e = File_Not_Found_Error then first_open me path ds else Inl e)"

definition find_and_open_file :: "mpp_env \<Rightarrow> string \<Rightarrow> string list \<Rightarrow> (string \<times> string) mpp" where
  "find_and_open_file me path dirs w = lift_res (first_open me path (mw_basedir w # dirs)) w"

text \<open>\<open>element_enter\<close> for a dictionary that holds a dictionary: the element with the key, and what is there.\<close>

definition element_enter :: "dict \<Rightarrow> string \<Rightarrow> (dict \<times> dict) res" where
  "element_enter element key =
     (case dict_get element key of
        None \<Rightarrow> Inr (dict_set element key (PyDict []), [])
      | Some (PyDict d) \<Rightarrow> Inr (element, d)
      | Some v \<Rightarrow> Inl Attribute_Error)"

text \<open>Enter two levels and set an item there: \<open>element[a][b][k] = v\<close>.\<close>

definition set_item :: "dict \<Rightarrow> string \<Rightarrow> string \<Rightarrow> string \<Rightarrow> pyval \<Rightarrow> dict res" where
  "set_item element a b k v =
     res_bind (element_enter element a) (\<lambda>(e1, d1).
     res_bind (element_enter d1 b) (\<lambda>(e2, d2).
       Inr (dict_set e1 a (PyDict (dict_set e2 b (PyDict (dict_set d2 k v)))))))"

definition put_source :: "string \<Rightarrow> string \<Rightarrow> string \<Rightarrow> pyval \<Rightarrow> unit mpp" where
  "put_source source field key v w =
     (case set_item (mw_sources w) source field key v of
        Inl e \<Rightarrow> (Inl e, w)
      | Inr s \<Rightarrow> (Inr (), w\<lparr>mw_sources := s\<rparr>))"

definition add_source :: "string \<Rightarrow> string \<Rightarrow> pyval \<Rightarrow> unit mpp" where
  "add_source source = put_source source ''items''"

text \<open>\<open>self.source_urls\<close>: where the sources of packages go.\<close>

definition url_source :: "int \<Rightarrow> string \<times> string" where
  "url_source version =
     (if version = 1 then (''org.osbuild.files'', ''urls'') else (''org.osbuild.curl'', ''items''))"

definition enter_source :: "string \<Rightarrow> string \<Rightarrow> unit mpp" where
  "enter_source source field w =
     (case res_bind (element_enter (mw_sources w) source) (\<lambda>(s, d). res_map (\<lambda>(d', items). dict_set s source (PyDict d')) (element_enter d field)) of
        Inl e \<Rightarrow> (Inl e, w)
      | Inr s \<Rightarrow> (Inr (), w\<lparr>mw_sources := s\<rparr>))"

section \<open>Variables\<close>

definition get_vars :: "mpp_env \<Rightarrow> mpp_world \<Rightarrow> dict" where
  "get_vars me w = dict_update (mw_vars w) (mv_overrides me)"

definition is_id_start :: "char \<Rightarrow> bool" where
  "is_id_start c \<longleftrightarrow>
     (let n = of_char c :: nat in 65 \<le> n \<and> n \<le> 90 \<or> n = 95 \<or> 97 \<le> n \<and> n \<le> 122)"

definition is_id_char :: "char \<Rightarrow> bool" where
  "is_id_char c \<longleftrightarrow> is_id_start c \<or> is_digit c"

text \<open>A name at the beginning of a text, and what follows it.\<close>

definition take_name :: "string \<Rightarrow> (string \<times> string) option" where
  "take_name s =
     (case s of
        [] \<Rightarrow> None
      | c # cs \<Rightarrow> if is_id_start c then Some (c # takeWhile is_id_char cs, dropWhile is_id_char cs) else None)"

lemma take_name_length: "take_name s = Some (n, rest) \<Longrightarrow> length rest < length s"
  using length_dropWhile_le [of is_id_char "tl s"] by (auto simp: take_name_def split: list.splits if_splits)

text \<open>The braces of \<open>${name}\<close>.\<close>

definition take_braced :: "string \<Rightarrow> (string \<times> string) option" where
  "take_braced s =
     (case s of
        c # cs \<Rightarrow>
          if c = CHR ''{'' then
            (case take_name cs of
               Some (n, d # rest) \<Rightarrow> if d = CHR ''}'' then Some (n, rest) else None
             | _ \<Rightarrow> None)
          else None
      | [] \<Rightarrow> None)"

lemma take_braced_length: "take_braced s = Some (n, rest) \<Longrightarrow> length rest < length s"
  by (auto simp: take_braced_def split: list.splits if_splits option.splits dest: take_name_length)

text \<open>\<open>string.Template(s).safe_substitute(vars)\<close>.\<close>

function substitute_text :: "(string \<Rightarrow> string option) \<Rightarrow> string \<Rightarrow> string" where
  "substitute_text look [] = []"
| "substitute_text look (c # cs) =
     (if c \<noteq> CHR ''$'' then c # substitute_text look cs
      else if cs \<noteq> [] \<and> hd cs = CHR ''$'' then CHR ''$'' # substitute_text look (tl cs)
      else case take_name cs of
        Some (n, rest) \<Rightarrow> (case look n of Some v \<Rightarrow> v | None \<Rightarrow> CHR ''$'' # n) @ substitute_text look rest
      | None \<Rightarrow>
          (case take_braced cs of
             Some (n, rest) \<Rightarrow> (case look n of Some v \<Rightarrow> v | None \<Rightarrow> ''${'' @ n @ ''}'') @ substitute_text look rest
           | None \<Rightarrow> CHR ''$'' # substitute_text look cs))"
  by pat_completeness auto

termination
  by (relation "measure (length \<circ> snd)") (auto dest: take_name_length take_braced_length)

definition var_text :: "mpp_env \<Rightarrow> dict \<Rightarrow> string \<Rightarrow> string option" where
  "var_text me vars n = map_option (mv_str me) (dict_get vars n)"

fun substitute_vars :: "(string \<Rightarrow> string option) \<Rightarrow> pyval \<Rightarrow> pyval"
  and substitute_list :: "(string \<Rightarrow> string option) \<Rightarrow> pyval list \<Rightarrow> pyval list"
  and substitute_items :: "(string \<Rightarrow> string option) \<Rightarrow> dict \<Rightarrow> dict" where
  "substitute_vars look (PyStr s) = PyStr (substitute_text look s)"
| "substitute_vars look (PyList xs) = PyList (substitute_list look xs)"
| "substitute_vars look (PyDict d) = PyDict (substitute_items look d)"
| "substitute_vars look v = v"
| "substitute_list look [] = []"
| "substitute_list look (x # xs) = substitute_vars look x # substitute_list look xs"
| "substitute_items look [] = []"
| "substitute_items look ((k, v) # d) = (k, substitute_vars look v) # substitute_items look d"

text \<open>A node that is false counts as absent; otherwise it is taken out, and counts if it is true with its variables.\<close>

definition get_mpp_node :: "mpp_env \<Rightarrow> dict \<Rightarrow> string \<Rightarrow> (pyval option \<times> dict) mpp" where
  "get_mpp_node me parent name =
     ask (\<lambda>w. let desc = dict_get_or parent (''mpp-'' @ name) PyNone in
       if \<not> py_truthy desc then (None, parent)
       else let node = substitute_vars (var_text me (get_vars me w)) desc
            in (if py_truthy node then Some node else None, dict_del parent (''mpp-'' @ name)))"

section \<open>Lockfiles\<close>

definition lock_drop_fields :: "string list" where
  "lock_drop_fields = [''root-dir'', ''sslclientkey'', ''sslclientcert'', ''sslcacert'', ''username'', ''password'']"

fun omit_none :: "pyval \<Rightarrow> pyval" and omit_list :: "pyval list \<Rightarrow> pyval list" and omit_items :: "dict \<Rightarrow> dict" where
  "omit_none (PyDict d) = PyDict (omit_items d)"
| "omit_none (PyList xs) = PyList (omit_list xs)"
| "omit_none v = v"
| "omit_list [] = []"
| "omit_list (x # xs) = omit_none x # omit_list xs"
| "omit_items [] = []"
| "omit_items ((k, v) # d) = (if v = PyNone then omit_items d else (k, omit_none v) # omit_items d)"

fun lock_sanitize :: "pyval \<Rightarrow> pyval" and sanitize_list :: "pyval list \<Rightarrow> pyval list" and sanitize_items :: "dict \<Rightarrow> dict" where
  "lock_sanitize (PyDict d) = PyDict (sanitize_items d)"
| "lock_sanitize (PyList xs) = PyList (sanitize_list xs)"
| "lock_sanitize v = v"
| "sanitize_list [] = []"
| "sanitize_list (x # xs) = lock_sanitize x # sanitize_list xs"
| "sanitize_items [] = []"
| "sanitize_items ((k, v) # d) =
     (if k \<in> set lock_drop_fields \<or> v = PyNone then sanitize_items d else (k, lock_sanitize v) # sanitize_items d)"

definition password_key :: "string \<Rightarrow> bool" where
  "password_key k \<longleftrightarrow> py_lower k \<in> {''password'', ''passwd''}"

fun contains_password :: "(string \<Rightarrow> (bool \<times> string list) option) \<Rightarrow> pyval \<Rightarrow> bool"
  and list_password :: "(string \<Rightarrow> (bool \<times> string list) option) \<Rightarrow> pyval list \<Rightarrow> bool"
  and items_password :: "(string \<Rightarrow> (bool \<times> string list) option) \<Rightarrow> dict \<Rightarrow> bool" where
  "contains_password url (PyDict d) = items_password url d"
| "contains_password url (PyList xs) = list_password url xs"
| "contains_password url (PyStr s) = (case url s of None \<Rightarrow> False | Some (pw, query) \<Rightarrow> pw \<or> list_ex password_key query)"
| "contains_password url v = False"
| "list_password url [] = False"
| "list_password url (x # xs) = (contains_password url x \<or> list_password url xs)"
| "items_password url [] = False"
| "items_password url ((k, v) # d) = (password_key k \<and> v \<noteq> PyNone \<or> contains_password url v \<or> items_password url d)"

definition lock_key :: "mpp_env \<Rightarrow> pyval \<Rightarrow> string" where
  "lock_key me descriptor = mv_sha256 me (mv_canonical me (lock_sanitize descriptor))"

text \<open>\<open>_lock_container_request\<close>.\<close>

definition lock_container_request :: "dict \<Rightarrow> pyval \<Rightarrow> pyval \<Rightarrow> pyval res" where
  "lock_container_request img oci_arch ostype =
     (case dict_get img ''source'' of
        None \<Rightarrow> Inl Key_Error
      | Some source \<Rightarrow>
          Inr (lock_sanitize (PyDict
            [(''source'', source), (''tag'', dict_get_or img ''tag'' PyNone), (''digest'', dict_get_or img ''digest'' PyNone),
             (''arch'', oci_arch), (''os'', ostype), (''variant'', dict_get_or img ''variant'' PyNone),
             (''transport'', dict_get_or img ''containers-transport'' PyNone), (''index'', dict_get_or img ''index'' (PyBool False))])))"

text \<open>How a miss is explained: the entry with the fewest differing keys, and those keys.\<close>

definition differing :: "dict \<Rightarrow> dict \<Rightarrow> nat" where
  "differing a b =
     length (filter (\<lambda>k. \<not> py_eq (dict_get_or a k PyNone) (dict_get_or b k PyNone))
       (remdups (dict_keys a @ dict_keys b)))"

fun nearest :: "dict \<Rightarrow> (string \<times> dict) list \<Rightarrow> (string \<times> dict) option" where
  "nearest request [] = None"
| "nearest request (e # es) =
     (case nearest request es of
        None \<Rightarrow> Some e
      | Some f \<Rightarrow> if differing (snd f) request < differing (snd e) request then Some f else Some e)"

definition absent :: pyval where
  "absent = PyStr ''<absent>''"

definition difference_lines :: "mpp_env \<Rightarrow> dict \<Rightarrow> dict \<Rightarrow> string list" where
  "difference_lines me stored request =
     map (\<lambda>k. ''  '' @ k @ '': lock='' @ mv_repr me (dict_get_or stored k absent) @ '' vs current='' @ mv_repr me (dict_get_or request k absent))
       (filter (\<lambda>k. \<not> py_eq (dict_get_or stored k absent) (dict_get_or request k absent)) (sort (remdups (dict_keys stored @ dict_keys request))))"

definition sanitized_entry :: "string \<times> pyval \<Rightarrow> (string \<times> dict) res" where
  "sanitized_entry e =
     res_bind (py_get_or (snd e) ''request'' (PyDict [])) (\<lambda>r.
       case lock_sanitize r of PyDict d \<Rightarrow> Inr (fst e, d) | _ \<Rightarrow> Inl Attribute_Error)"

definition miss_message :: "mpp_env \<Rightarrow> dict \<Rightarrow> string \<Rightarrow> string \<Rightarrow> dict \<Rightarrow> string res" where
  "miss_message me entries key label request =
     (let start = ''Lockfile miss for '' @ label @ '' (key '' @ key @ '').'';
          finish = [CHR 0x0A] @ ''Re-run `aib resolve` to update the lockfile.''
      in if request = [] \<or> entries = [] then Inr (start @ finish)
         else res_bind (res_mapM sanitized_entry entries) (\<lambda>safe.
           case nearest (sanitize_items request) safe of
             None \<Rightarrow> Inr (start @ finish)
           | Some (near, stored) \<Rightarrow>
               let diffs = difference_lines me stored (sanitize_items request)
               in Inr (start @
                    (if diffs = [] then []
                     else [CHR 0x0A] @ ''  Nearest entry (key '' @ near @ '') differs:'' @ [CHR 0x0A] @ py_join [CHR 0x0A] diffs) @ finish)))"

text \<open>An absent or empty lockfile has no entry; otherwise the entry must be there.\<close>

definition lock_read :: "mpp_env \<Rightarrow> string \<Rightarrow> string \<Rightarrow> string \<Rightarrow> dict \<Rightarrow> pyval option mpp" where
  "lock_read me section key label request w =
     (case mw_lock w of
        None \<Rightarrow> (Inr None, w)
      | Some lock \<Rightarrow>
          if lock = [] then (Inr None, w)
          else (case dict_get_or lock section (PyDict []) of
              PyDict entries \<Rightarrow>
                (case dict_get entries key of
                   Some v \<Rightarrow> (Inr (Some v), w)
                 | None \<Rightarrow> (res_bind (miss_message me entries key label request) (\<lambda>m. Inl (Runtime_Error m)), w))
            | _ \<Rightarrow> (Inl Type_Error, w)))"

definition write_entry :: "dict \<Rightarrow> string \<Rightarrow> string \<Rightarrow> pyval \<Rightarrow> dict res" where
  "write_entry lock section key entry =
     res_map (\<lambda>(lock', entries). dict_set lock' section (PyDict (dict_set entries key (omit_none entry)))) (element_enter lock section)"

definition lock_write :: "string \<Rightarrow> string \<Rightarrow> pyval \<Rightarrow> unit mpp" where
  "lock_write section key entry w =
     (case mw_lock_out w of
        None \<Rightarrow> (Inr (), w)
      | Some out \<Rightarrow>
          (case write_entry out section key entry of
             Inl e \<Rightarrow> (Inl e, w)
           | Inr out' \<Rightarrow> (Inr (), w\<lparr>mw_lock_out := Some out'\<rparr>)))"

text \<open>What is read of a lockfile: an entry counts only if it is true, as after \<open>if locked\<close>.\<close>

definition locked_entry :: "pyval option \<Rightarrow> dict option res" where
  "locked_entry v =
     (case v of
        None \<Rightarrow> Inr None
      | Some (PyDict d) \<Rightarrow> Inr (if d = [] then None else Some d)
      | Some x \<Rightarrow> if py_truthy x then Inl Type_Error else Inr None)"

end
