(* ===== verification/Mpp_Stages.thy ===== *)
theory Mpp_Stages
  imports Mpp_World
begin

text \<open>
  The stages that the preprocessor completes (\<open>src/mpp/aib-osbuild-mpp\<close>, with \<open>is_manifest_list\<close> of
  \<open>src/mpp/aibosbuild/util/containers.py\<close> and \<open>setup_remote\<close>, \<open>rev_parse\<close>, \<open>cli\<close> of
  \<open>src/mpp/aibosbuild/util/ostree.py\<close>): containers, ostree commits, embedded files and packages, each from the
  lockfile or from the network.
\<close>

section \<open>Image manifests\<close>

record image_manifest =
  mf_name :: pyval
  mf_json :: dict
  mf_schema :: pyval
  mf_digest :: string

definition arch_from_rpm :: "pyval \<Rightarrow> pyval" where
  "arch_from_rpm a =
     (if a = PyStr ''x86_64'' then PyStr ''amd64'' else if a = PyStr ''aarch64'' then PyStr ''arm64''
      else if a = PyStr ''armhfp'' then PyStr ''arm'' else a)"

definition default_variant :: "pyval \<Rightarrow> pyval option" where
  "default_variant arch =
     (if arch = PyStr ''arm64'' then Some (PyStr ''v8'') else if arch = PyStr ''arm'' then Some (PyStr ''v7'') else None)"

definition manifest_source :: "mpp_env \<Rightarrow> pyval \<Rightarrow> pyval \<Rightarrow> pyval \<Rightarrow> pyval \<Rightarrow> string res" where
  "manifest_source me name tag digest transport =
     res_bind
       (if transport = PyStr ''docker'' \<or> transport = PyNone then Inr ''docker://''
        else if transport = PyStr ''containers-storage'' then Inr ''containers-storage:''
        else Inl (Runtime_Error (''The '' @ [CHR 0x27] @ mv_str me transport @ [CHR 0x27] @
          '' transport is not supported for the container image resolution'')))
       (\<lambda>protocol. Inr (protocol @ mv_str me name @
          (if py_truthy digest then ''@'' @ mv_str me digest else if py_truthy tag then '':'' @ mv_str me tag else [])))"

text \<open>\<open>s[0:n]\<close>.\<close>

definition slice_to :: "string \<Rightarrow> int \<Rightarrow> string" where
  "slice_to s n = (if n \<ge> 0 then take (nat n) s else take (nat (int (length s) + n)) s)"

text \<open>\<open>_jose_base64url_decode\<close>: padded, but not stripped, since \<open>replace\<close> does not change the text.\<close>

definition jose_decode :: "mpp_env \<Rightarrow> string \<Rightarrow> string res" where
  "jose_decode me s = mv_base64url me (s @ (if length s mod 4 > 0 then replicate (4 - length s mod 4) CHR ''='' else []))"

definition signature_format :: "mpp_env \<Rightarrow> pyval \<Rightarrow> (int \<times> string) res" where
  "signature_format me s =
     res_bind (py_item s ''protected'') (\<lambda>p.
     res_bind (as_text p) (\<lambda>ptext.
     res_bind (jose_decode me ptext) (\<lambda>htext.
     res_bind (mv_loads me htext) (\<lambda>header.
     res_bind (py_item header ''formatLength'') (\<lambda>n.
     res_bind (py_item header ''formatTail'') (\<lambda>t.
     res_bind (as_text t) (\<lambda>ttext.
     res_bind (jose_decode me ttext) (\<lambda>tail.
       case n of PyInt i \<Rightarrow> Inr (i, tail) | _ \<Rightarrow> Inl Type_Error))))))))"

text \<open>The digest of a manifest; a signed one of schema 1 is taken without its last signature.\<close>

definition manifest_digest :: "mpp_env \<Rightarrow> string \<Rightarrow> dict \<Rightarrow> string res" where
  "manifest_digest me raw json =
     res_bind
       (if py_eq (dict_get_or json ''schemaVersion'' (PyInt 0)) (PyInt 1) \<and> dict_get json ''signatures'' \<noteq> None then
          res_bind (py_iter (the (dict_get json ''signatures''))) (\<lambda>sigs.
          res_bind (res_mapM (signature_format me) sigs) (\<lambda>formats.
            if formats = [] then Inl Type_Error
            else Inr (slice_to raw (fst (last formats)) @ snd (last formats))))
        else Inr raw)
       (\<lambda>bytes. Inr (''sha256:'' @ mv_sha256 me bytes))"

definition make_manifest :: "mpp_env \<Rightarrow> pyval \<Rightarrow> string \<Rightarrow> image_manifest res" where
  "make_manifest me name raw =
     res_bind (mv_loads me raw) (\<lambda>v.
       case v of
         PyDict json \<Rightarrow>
           res_bind (manifest_digest me raw json) (\<lambda>digest.
             Inr \<lparr>mf_name = name, mf_json = json, mf_schema = dict_get_or json ''schemaVersion'' (PyInt 0), mf_digest = digest\<rparr>)
       | _ \<Rightarrow> Inl Attribute_Error)"

definition inspect_image :: "mpp_env \<Rightarrow> pyval \<Rightarrow> pyval \<Rightarrow> pyval \<Rightarrow> pyval \<Rightarrow> image_manifest mpp" where
  "inspect_image me name tag digest transport =
     andthen (lift_res (manifest_source me name tag digest transport)) (\<lambda>src.
     andthen (ask_command me [''skopeo'', ''inspect'', ''--raw'', src]) (\<lambda>raw.
       lift_res (make_manifest me name raw)))"

definition list_media_types :: "pyval list" where
  "list_media_types =
     [PyStr ''application/vnd.docker.distribution.manifest.list.v2+json'', PyStr ''application/vnd.oci.image.index.v1+json'']"

definition is_manifest_list :: "dict \<Rightarrow> bool" where
  "is_manifest_list json \<longleftrightarrow>
     (let t = dict_get_or json ''mediaType'' PyNone
      in py_in t list_media_types \<or> t = PyNone \<and> dict_get_or json ''manifests'' PyNone \<noteq> PyNone)"

text \<open>The first manifest of the list for a platform; a variant that is false does not matter.\<close>

definition platform_matches :: "pyval \<Rightarrow> pyval \<Rightarrow> pyval \<Rightarrow> pyval \<Rightarrow> bool res" where
  "platform_matches arch os variant m =
     res_bind (py_get_or m ''platform'' (PyDict [])) (\<lambda>p.
     res_bind (py_get_or p ''architecture'' (PyStr [])) (\<lambda>a.
     res_bind (py_get_or p ''os'' (PyStr [])) (\<lambda>ostype.
     res_bind (py_get_or p ''variant'' PyNone) (\<lambda>v.
       Inr (py_eq a arch \<and> py_eq os ostype \<and> (py_truthy variant \<longrightarrow> py_eq variant v))))))"

fun match_platform :: "pyval \<Rightarrow> pyval \<Rightarrow> pyval \<Rightarrow> pyval list \<Rightarrow> pyval res" where
  "match_platform arch os variant [] = Inr PyNone"
| "match_platform arch os variant (m # ms) =
     res_bind (platform_matches arch os variant m) (\<lambda>ok.
       if ok then py_item m ''digest'' else match_platform arch os variant ms)"

text \<open>
  The digest for a platform: with a variant exactly that one; without, the default variant of the architecture
  if it is there, else the first manifest with any variant.
\<close>

definition pick_digest :: "pyval \<Rightarrow> pyval \<Rightarrow> pyval \<Rightarrow> pyval list \<Rightarrow> pyval res" where
  "pick_digest arch os variant ms =
     (if py_truthy variant then match_platform arch os variant ms
      else res_bind (case default_variant arch of Some v \<Rightarrow> match_platform arch os v ms | None \<Rightarrow> Inr PyNone) (\<lambda>d.
        if py_truthy d then Inr d else match_platform arch os PyNone ms))"

definition no_platform :: "mpp_env \<Rightarrow> pyval \<Rightarrow> pyval \<Rightarrow> pyval \<Rightarrow> exn" where
  "no_platform me arch os variant =
     Runtime_Error (''No manifest matching architecture '' @ [CHR 0x27] @ mv_str me arch @ [CHR 0x27] @ '', os '' @ [CHR 0x27] @
       mv_str me os @ [CHR 0x27] @ '', variant '' @ [CHR 0x27] @ mv_str me variant @ [CHR 0x27] @ ''.'')"

definition resolve_list :: "mpp_env \<Rightarrow> image_manifest \<Rightarrow> pyval \<Rightarrow> pyval \<Rightarrow> pyval \<Rightarrow> pyval \<Rightarrow> image_manifest mpp" where
  "resolve_list me m arch os variant transport =
     (if \<not> is_manifest_list (mf_json m) then ret m
      else andthen (lift_res (res_bind (py_iter (dict_get_or (mf_json m) ''manifests'' (PyList []))) (pick_digest arch os variant))) (\<lambda>digest.
        if \<not> py_truthy digest then raise_exn (no_platform me arch os variant)
        else inspect_image me (mf_name m) PyNone digest transport))"

definition config_digest :: "image_manifest \<Rightarrow> pyval res" where
  "config_digest m =
     (if py_eq (mf_schema m) (PyInt 1) then Inl (Runtime_Error ''Old docker images with schema version 1 not supported.'')
      else if is_manifest_list (mf_json m) then Inl (Runtime_Error ''No config existis for manifest lists.'')
      else py_get_or (dict_get_or (mf_json m) ''config'' (PyDict [])) ''digest'' (PyStr []))"

section \<open>Containers\<close>

text \<open>What is known of an image once it is resolved: the identifier, its digest, the digest of its index.\<close>

record resolved_image =
  ri_id :: pyval
  ri_digest :: pyval
  ri_index :: pyval

definition container_label :: "mpp_env \<Rightarrow> pyval \<Rightarrow> pyval \<Rightarrow> pyval \<Rightarrow> string" where
  "container_label me source tag arch =
     ''container '' @ mv_str me source @ '':'' @ (if py_truthy tag then mv_str me tag else ''latest'') @ '' ('' @ mv_str me arch @ '')''"

definition locked_image :: "mpp_env \<Rightarrow> pyval \<Rightarrow> bool \<Rightarrow> dict \<Rightarrow> resolved_image res" where
  "locked_image me source needs_index entry =
     res_bind (py_item (PyDict entry) ''config_digest'') (\<lambda>i.
     res_bind (py_item (PyDict entry) ''manifest_digest'') (\<lambda>d.
       let ix = dict_get_or entry ''index_digest'' PyNone
       in if needs_index \<and> \<not> py_truthy ix
          then Inl (Runtime_Error (''Container '' @ mv_str me source @ '' requires index but lockfile has no index_digest. Re-run `aib resolve`.''))
          else Inr \<lparr>ri_id = i, ri_digest = d, ri_index = ix\<rparr>))"

definition online_image ::
  "mpp_env \<Rightarrow> dict \<Rightarrow> pyval \<Rightarrow> pyval \<Rightarrow> pyval \<Rightarrow> bool \<Rightarrow> pyval \<Rightarrow> string \<Rightarrow> resolved_image mpp" where
  "online_image me img source arch os needs_index request key =
     (let tag = dict_get_or img ''tag'' PyNone; digest = dict_get_or img ''digest'' PyNone;
          transport = dict_get_or img ''containers-transport'' PyNone; variant = dict_get_or img ''variant'' PyNone
      in andthen (inspect_image me source tag digest transport) (\<lambda>main.
         andthen (resolve_list me main arch os variant transport) (\<lambda>resolved.
         andthen (lift_res (config_digest resolved)) (\<lambda>i.
           seq (lock_write ''containers'' key (PyDict
                 [(''request'', request), (''config_digest'', i), (''manifest_digest'', PyStr (mf_digest resolved)),
                  (''index_digest'', if needs_index then PyStr (mf_digest main) else PyNone)]))
             (ret \<lparr>ri_id = i, ri_digest = PyStr (mf_digest resolved), ri_index = PyStr (mf_digest main)\<rparr>)))))"

definition request_items :: "pyval \<Rightarrow> dict" where
  "request_items v = (case v of PyDict d \<Rightarrow> d | _ \<Rightarrow> [])"

definition resolve_image :: "mpp_env \<Rightarrow> dict \<Rightarrow> pyval \<Rightarrow> pyval \<Rightarrow> pyval \<Rightarrow> bool \<Rightarrow> resolved_image mpp" where
  "resolve_image me img source arch os needs_index =
     andthen (lift_res (lock_container_request img arch os)) (\<lambda>request.
     let key = lock_key me request in
     andthen (lock_read me ''containers'' key (container_label me source (dict_get_or img ''tag'' PyNone) arch) (request_items request)) (\<lambda>v.
     andthen (lift_res (locked_entry v)) (\<lambda>entry.
       case entry of
         Some e \<Rightarrow> lift_res (locked_image me source needs_index e)
       | None \<Rightarrow> online_image me img source arch os needs_index request key)))"

text \<open>The references of the stage and its manifest lists so far.\<close>

definition process_image :: "mpp_env \<Rightarrow> pyval \<Rightarrow> dict \<times> pyval list \<Rightarrow> (dict \<times> pyval list) mpp" where
  "process_image me v st =
     (case v of
        PyDict img \<Rightarrow>
          andthen (lift_res (py_item v ''source'')) (\<lambda>source.
          let tag = dict_get_or img ''tag'' PyNone; transport = dict_get_or img ''containers-transport'' PyNone;
              needs_index = py_truthy (dict_get_or img ''index'' (PyBool False));
              name = dict_get_or img ''name'' (if py_truthy tag then PyStr (mv_str me source @ '':'' @ mv_str me tag) else source)
          in andthen (\<lambda>w. lift_res (py_item (PyDict (get_vars me w)) ''arch'') w) (\<lambda>default_arch.
             andthen (resolve_image me img source (arch_from_rpm (dict_get_or img ''arch'' default_arch))
               (dict_get_or img ''os'' (PyStr ''linux'')) needs_index) (\<lambda>ri.
             andthen (lift_res (as_text (ri_id ri))) (\<lambda>i.
               seq (add_source ''org.osbuild.skopeo'' i (PyDict [(''image'', PyDict
                     ([(''name'', source), (''digest'', ri_digest ri)] @
                      (if py_truthy transport then [(''containers-transport'', transport)] else [])))]))
                 (if needs_index \<and> py_truthy (ri_index ri) then
                    andthen (lift_res (as_text (ri_index ri))) (\<lambda>ix.
                      seq (add_source ''org.osbuild.skopeo-index'' ix (PyDict [(''image'', PyDict [(''name'', source)])]))
                        (ret (dict_set (fst st) i (PyDict [(''name'', name)]), snd st @ [ri_index ri])))
                  else ret (dict_set (fst st) i (PyDict [(''name'', name)]), snd st))))))
      | _ \<Rightarrow> raise_exn Type_Error)"

fun fold_prog :: "('a \<Rightarrow> 's \<Rightarrow> ('w, 's) prog) \<Rightarrow> 'a list \<Rightarrow> 's \<Rightarrow> ('w, 's) prog" where
  "fold_prog f [] s = ret s"
| "fold_prog f (x # xs) s = andthen (f x s) (fold_prog f xs)"

definition container_stages :: "pyval list" where
  "container_stages =
     map PyStr [''org.osbuild.skopeo'', ''org.osbuild.ostree.deploy.container'', ''org.osbuild.container-deploy'',
       ''org.osbuild.bootc.install-to-filesystem'']"

text \<open>
  An input of a stage that waits for a directive: its kind and its origin fit, and the directive is there.  The
  input is entered in any case; the result is the stage, the inputs, the input, and the directive if any.
\<close>

definition waiting_input ::
  "mpp_env \<Rightarrow> dict \<Rightarrow> string \<Rightarrow> string list \<Rightarrow> string \<Rightarrow> (dict \<times> dict \<times> dict \<times> pyval option) mpp" where
  "waiting_input me stage name types directive =
     andthen (lift_res (element_enter stage ''inputs'')) (\<lambda>(stage1, inputs).
     andthen (lift_res (element_enter inputs name)) (\<lambda>(inputs1, input).
       if \<not> py_in (dict_get_or input ''type'' (PyStr [])) (map PyStr types) \<or>
          \<not> py_eq (dict_get_or input ''origin'' (PyStr [])) (PyStr ''org.osbuild.source'')
       then ret (stage1, inputs1, input, None)
       else andthen (get_mpp_node me input directive) (\<lambda>(node, input1). ret (stage1, inputs1, input1, node))))"

definition put_input :: "dict \<Rightarrow> dict \<Rightarrow> string \<Rightarrow> dict \<Rightarrow> dict" where
  "put_input stage inputs name input = dict_set stage ''inputs'' (PyDict (dict_set inputs name (PyDict input)))"

definition manifest_lists_input :: "dict \<Rightarrow> pyval list \<Rightarrow> dict res" where
  "manifest_lists_input inputs indexes =
     (if indexes = [] then Inr inputs
      else res_map (\<lambda>(inputs1, d).
        dict_set inputs1 ''manifest-lists'' (PyDict (dict_set (dict_set (dict_set d ''type'' (PyStr ''org.osbuild.files''))
          ''origin'' (PyStr ''org.osbuild.source'')) ''references'' (PyList indexes))))
        (element_enter inputs ''manifest-lists''))"

text \<open>The formatting of a directive is passed on: \<open>_process_format\<close>.\<close>

definition process_container :: "mpp_env \<Rightarrow> (pyval \<Rightarrow> pyval mpp) \<Rightarrow> dict \<Rightarrow> dict mpp" where
  "process_container me fmt stage =
     (if \<not> py_in (dict_get_or stage ''type'' (PyStr [])) container_stages then ret stage
      else andthen (waiting_input me stage ''images'' [''org.osbuild.containers'', ''org.osbuild.containers-storage''] ''resolve-images'')
        (\<lambda>(stage1, inputs, input, node).
          case node of
            None \<Rightarrow> ret (put_input stage1 inputs ''images'' input)
          | Some mpp0 \<Rightarrow>
              andthen (fmt mpp0) (\<lambda>mpp.
              andthen (lift_res (element_enter input ''references'')) (\<lambda>(input1, refs).
              andthen (lift_res (res_bind (py_get_or mpp ''images'' (PyList [])) py_iter)) (\<lambda>imgs.
              andthen (fold_prog (process_image me) imgs (refs, [])) (\<lambda>(refs1, indexes).
              andthen (lift_res (manifest_lists_input (dict_set inputs ''images'' (PyDict (dict_set input1 ''references'' (PyDict refs1)))) indexes))
                (\<lambda>inputs1. ret (dict_set stage1 ''inputs'' (PyDict inputs1)))))))))"

section \<open>OSTree commits\<close>

definition ostree_cli :: "mpp_env \<Rightarrow> string list \<Rightarrow> unit mpp" where
  "ostree_cli me args = seq (ask_command me (''ostree'' # args)) (ret ())"

definition rev_parse :: "mpp_env \<Rightarrow> string \<Rightarrow> string \<Rightarrow> string mpp" where
  "rev_parse me repo ref w =
     (let cmd = [''ostree'', ''rev-parse'', ref, ''--repo='' @ repo] in
      case mv_command me (mw_asked w) cmd of
        Cmd_Ok out \<Rightarrow> (Inr (py_strip out), w\<lparr>mw_asked := mw_asked w @ [cmd]\<rparr>)
      | Cmd_Exit n \<Rightarrow> (Inl (Runtime_Error []), w\<lparr>mw_asked := mw_asked w @ [cmd]\<rparr>)
      | Cmd_Missing \<Rightarrow> (Inl File_Not_Found_Error, w))"

text \<open>\<open>get_consumer_secrets\<close> of \<open>src/mpp/aibosbuild/util/rhsm.py\<close>: the key and the certificate.\<close>

definition get_consumer_secrets :: "mpp_env \<Rightarrow> (string \<times> string) res" where
  "get_consumer_secrets me =
     (if \<not> (mv_exists me ''/etc/pki/consumer/key.pem'' \<and> mv_exists me ''/etc/pki/consumer/cert.pem'')
      then Inl (Runtime_Error ''rhsm consumer key and cert not found'')
      else Inr (''/etc/pki/consumer/key.pem'', ''/etc/pki/consumer/cert.pem''))"

definition env_option :: "mpp_env \<Rightarrow> string \<Rightarrow> string \<Rightarrow> string list" where
  "env_option me var opt = (case mv_getenv me var of None \<Rightarrow> [] | Some s \<Rightarrow> if s = [] then [] else [opt @ s])"

text \<open>The options for the secrets of a remote.\<close>

definition mtls_options :: "mpp_env \<Rightarrow> string list" where
  "mtls_options me =
     env_option me ''OSBUILD_SOURCES_OSTREE_SSL_CA_CERT'' ''--set=tls-ca-path='' @
     env_option me ''OSBUILD_SOURCES_OSTREE_SSL_CLIENT_CERT'' ''--set=tls-client-cert-path='' @
     env_option me ''OSBUILD_SOURCES_OSTREE_SSL_CLIENT_KEY'' ''--set=tls-client-key-path='' @
     env_option me ''OSBUILD_SOURCES_OSTREE_PROXY'' ''--set=proxy='' @
     (case mv_getenv me ''OSBUILD_SOURCES_OSTREE_INSECURE'' of
        None \<Rightarrow> []
      | Some s \<Rightarrow> if s \<noteq> [] \<and> py_lower s \<in> {''true'', ''yes'', ''1''} then [''--set=tls-permissive=true''] else [])"

definition secret_options :: "mpp_env \<Rightarrow> pyval \<Rightarrow> string list res" where
  "secret_options me remote =
     res_bind (py_get_or remote ''secrets'' (PyDict [])) (\<lambda>secrets.
     res_bind (py_get_or secrets ''name'' PyNone) (\<lambda>name.
       if py_eq name (PyStr ''org.osbuild.rhsm.consumer'') then
         res_map (\<lambda>(key, cert). [''--set=tls-client-key-path='' @ key, ''--set=tls-client-cert-path='' @ cert]) (get_consumer_secrets me)
       else Inr (if py_eq name (PyStr ''org.osbuild.mtls'') then mtls_options me else [])))"

definition content_options :: "mpp_env \<Rightarrow> dict \<Rightarrow> string list" where
  "content_options me remote =
     (case dict_get remote ''contenturl'' of None \<Rightarrow> [] | Some c \<Rightarrow> [''--contenturl='' @ mv_str me c])"

definition setup_remote :: "mpp_env \<Rightarrow> string \<Rightarrow> string \<Rightarrow> pyval \<Rightarrow> unit mpp" where
  "setup_remote me repo name remote =
     andthen (lift_res (res_bind (py_item remote ''url'') as_text)) (\<lambda>url.
     andthen (lift_res (py_get_or remote ''gpgkeys'' (PyList []))) (\<lambda>gpg.
     andthen (lift_res (secret_options me remote)) (\<lambda>secrets.
       seq (ostree_cli me ([''remote'', ''add'', name, url] @ (if py_truthy gpg then [] else [''--no-gpg-verify'']) @
             content_options me (case remote of PyDict d \<Rightarrow> d | _ \<Rightarrow> []) @ secrets @ [''--repo='' @ repo]))
         (andthen (lift_res (py_iter gpg)) (each (\<lambda>key.
           ostree_cli me [''remote'', ''gpg-import'', ''--stdin'', name, ''--repo='' @ repo]))))))"

definition ostree_request :: "pyval \<Rightarrow> pyval \<Rightarrow> pyval" where
  "ostree_request remote ref = PyDict [(''remote'', remote), (''ref'', ref)]"

definition online_commit :: "mpp_env \<Rightarrow> pyval \<Rightarrow> pyval \<Rightarrow> string \<Rightarrow> pyval mpp" where
  "online_commit me remote ref key =
     (let repo = mv_tmpdir me in
     seq (ostree_cli me [''init'', ''--mode=archive'', ''--repo='' @ repo])
       (seq (setup_remote me repo ''tmpremote'' remote)
         (andthen (lift_res (as_text ref)) (\<lambda>r.
           seq (ostree_cli me [''pull'', ''--commit-metadata-only'', ''--mirror'', ''tmpremote'', r, ''--repo='' @ repo])
             (andthen (rev_parse me repo r) (\<lambda>checksum.
               seq (lock_write ''ostree_commits'' key (PyDict [(''request'', lock_sanitize (ostree_request remote ref)), (''checksum'', PyStr checksum)]))
                 (ret (PyStr checksum))))))))"

definition resolve_commit :: "mpp_env \<Rightarrow> pyval \<Rightarrow> pyval \<Rightarrow> pyval mpp" where
  "resolve_commit me remote ref =
     (let request = ostree_request remote ref; key = lock_key me request in
      andthen (lock_read me ''ostree_commits'' key (''ostree '' @ mv_str me remote @ '' '' @ mv_str me ref) (request_items request)) (\<lambda>v.
      andthen (lift_res (locked_entry v)) (\<lambda>entry.
        case entry of
          Some e \<Rightarrow> lift_res (py_item (PyDict e) ''checksum'')
        | None \<Rightarrow> online_commit me remote ref key)))"

definition process_commit :: "mpp_env \<Rightarrow> pyval \<Rightarrow> dict \<Rightarrow> dict mpp" where
  "process_commit me v refs =
     andthen (lift_res (py_item v ''remote'')) (\<lambda>remote.
     andthen (lift_res (py_item v ''ref'')) (\<lambda>ref.
     andthen (lift_res (py_get_or v ''target'' ref)) (\<lambda>target.
     andthen (resolve_commit me remote ref) (\<lambda>checksum.
     andthen (lift_res (as_text checksum)) (\<lambda>c.
       seq (add_source ''org.osbuild.ostree'' c (PyDict [(''remote'', remote)]))
         (ret (dict_set refs c (PyDict [(''ref'', target)]))))))))"

definition process_ostree_commits :: "mpp_env \<Rightarrow> dict \<Rightarrow> dict mpp" where
  "process_ostree_commits me stage =
     (let t = dict_get_or stage ''type'' (PyStr []) in
      if \<not> py_in t [PyStr ''org.osbuild.ostree.pull'', PyStr ''org.osbuild.ostree.deploy''] then ret stage
      else andthen (lift_res (if py_eq t (PyStr ''org.osbuild.ostree.deploy'')
          then res_map (\<lambda>c. c = None) (case dict_get_or stage ''inputs'' (PyDict []) of PyDict i \<Rightarrow> Inr (dict_get i ''commits'') | _ \<Rightarrow> Inl Type_Error)
          else Inr False)) (\<lambda>skip.
        if skip then ret stage
        else andthen (waiting_input me stage ''commits'' [''org.osbuild.ostree''] ''resolve-ostree-commits'') (\<lambda>(stage1, inputs, input, node).
          case node of
            None \<Rightarrow> ret (put_input stage1 inputs ''commits'' input)
          | Some mpp \<Rightarrow>
              andthen (lift_res (element_enter input ''references'')) (\<lambda>(input1, refs).
              andthen (lift_res (res_bind (py_get_or mpp ''commits'' (PyList [])) py_iter)) (\<lambda>commits.
              seq (enter_source ''org.osbuild.ostree'' ''items'')
                (andthen (fold_prog (process_commit me) commits refs) (\<lambda>refs1.
                  ret (put_input stage1 inputs ''commits'' (dict_set input1 ''references'' (PyDict refs1))))))))))"

end
