(* ===== verification/Mpp_Solver.thy ===== *)
theory Mpp_Solver
  imports Mpp_Stages
begin

text \<open>
  The dependency solvers of the preprocessor (\<open>OsbuildSolver\<close>, \<open>PacmanSolver\<close> and the packages \<open>PkgInfo\<close> of
  \<open>src/mpp/aib-osbuild-mpp\<close>).  The request that is built for the solver of osbuild is a dictionary of its
  fields; a package is the dictionary of the fields of \<open>PkgInfo\<close>.
\<close>

section \<open>Packages\<close>

text \<open>\<open>PkgInfo.from_dict\<close>, \<open>to_lock_dict\<close> and \<open>to_dict\<close>.\<close>

definition required_fields :: "string list" where
  "required_fields = [''checksum'', ''name'', ''evr'', ''arch'']"

definition optional_fields :: "string list" where
  "optional_fields = [''url'', ''license'', ''summary'', ''sourcerpm'', ''buildtime'', ''vendor'', ''secrets'']"

definition pkg_from_dict :: "pyval \<Rightarrow> dict res" where
  "pkg_from_dict v =
     res_bind (res_mapM (\<lambda>k. res_map (\<lambda>x. (k, x)) (py_item v k)) required_fields) (\<lambda>req.
     res_bind (res_mapM (\<lambda>k. res_map (\<lambda>x. (k, x)) (py_get_or v k PyNone)) (optional_fields @ [''requires'', ''provides''])) (\<lambda>opt.
       Inr (req @ opt)))"

definition to_lock_dict :: "dict \<Rightarrow> dict" where
  "to_lock_dict pkg =
     filter (\<lambda>(k, v). v \<noteq> PyNone) (map (\<lambda>k. (k, dict_get_or pkg k PyNone)) (required_fields @ optional_fields))"

text \<open>The names of the required and provided packages; each is an object with its name.\<close>

definition named :: "string \<Rightarrow> pyval" where
  "named n = PyDict [(''name'', PyStr n)]"

definition name_of :: "pyval \<Rightarrow> pyval res" where
  "name_of v = (case v of PyDict d \<Rightarrow> (case dict_get d ''name'' of Some n \<Rightarrow> Inr n | None \<Rightarrow> Inl Attribute_Error) | _ \<Rightarrow> Inl Attribute_Error)"

definition names_field :: "dict \<Rightarrow> string \<Rightarrow> dict res" where
  "names_field pkg k =
     (if py_truthy (dict_get_or pkg k PyNone)
      then res_bind (py_iter (dict_get_or pkg k PyNone)) (\<lambda>xs. res_map (\<lambda>ns. [(k, PyList ns)]) (res_mapM name_of xs))
      else Inr [])"

definition to_dict :: "dict \<Rightarrow> dict res" where
  "to_dict pkg =
     res_bind (names_field pkg ''requires'') (\<lambda>rs.
     res_bind (names_field pkg ''provides'') (\<lambda>ps. Inr (to_lock_dict pkg @ rs @ ps)))"

text \<open>The release of a root directory: \<open>VERSION_ID\<close> of its \<open>os-release\<close>, or nothing.\<close>

definition get_releasever :: "mpp_env \<Rightarrow> string \<Rightarrow> string" where
  "get_releasever me root =
     (case mv_read_file me (path_join root ''etc/os-release'') of
        Inl e \<Rightarrow> []
      | Inr content \<Rightarrow>
          (case filter (\<lambda>l. starts_with l ''VERSION_ID='') (py_splitlines content) of
             [] \<Rightarrow> []
           | l # ls \<Rightarrow> rev (dropWhile (\<lambda>c. c = CHR 0x22) (rev (dropWhile (\<lambda>c. c = CHR 0x22) (py_strip (drop 11 l)))))))"

definition resolve_releasever :: "mpp_env \<Rightarrow> pyval \<Rightarrow> pyval \<Rightarrow> pyval res" where
  "resolve_releasever me releasever root =
     (if py_truthy releasever then Inr releasever
      else if py_truthy root then res_map (\<lambda>r. PyStr (get_releasever me r)) (as_text root)
      else Inr PyNone)"

section \<open>Repositories\<close>

definition supported_repo_keys :: "string list" where
  "supported_repo_keys =
     [''id'', ''baseurl'', ''metalink'', ''mirrorlist'', ''gpgcheck'', ''sslverify'', ''sslcacert'', ''sslclientkey'', ''sslclientcert'',
      ''metadata_expire'', ''secrets'', ''rhsm'', ''system-repo'', ''enabled'', ''priority'', ''username'', ''password'',
      ''skip_if_unavailable'']"

definition system_repo_keys :: "string list" where
  "system_repo_keys = [''id'', ''system-repo'', ''rhsm'']"

text \<open>A relative address is a path below the directory of the manifest; whatever fails leaves it as it is.\<close>

definition expand_baseurl :: "mpp_env \<Rightarrow> string \<Rightarrow> pyval \<Rightarrow> pyval" where
  "expand_baseurl me basedir url =
     (case url of
        PyStr u \<Rightarrow>
          (case mv_scheme me u of
             Some False \<Rightarrow> (case mv_file_uri me (path_join basedir u) of Some f \<Rightarrow> PyStr f | None \<Rightarrow> url)
           | _ \<Rightarrow> url)
      | _ \<Rightarrow> url)"

definition validate_system_repo :: "dict \<Rightarrow> unit res" where
  "validate_system_repo desc =
     (if list_all (\<lambda>k. k \<in> set system_repo_keys) (dict_keys desc) then Inr ()
      else res_bind (py_item (PyDict desc) ''id'') (\<lambda>_. Inl Value_Error))"

definition copied_repo_keys :: "string list" where
  "copied_repo_keys =
     [''metalink'', ''mirrorlist'', ''gpgcheck'', ''sslverify'', ''sslcacert'', ''sslclientkey'', ''sslclientcert'', ''metadata_expire'',
      ''enabled'', ''priority'', ''username'', ''password'', ''skip_if_unavailable'']"

definition repo_secrets :: "dict \<Rightarrow> bool res" where
  "repo_secrets desc =
     (let secrets = dict_get_or desc ''secrets'' PyNone in
      if \<not> py_truthy secrets then Inr False
      else res_bind (py_get_or secrets ''name'' PyNone) (\<lambda>name.
        if py_eq name (PyStr ''org.osbuild.rhsm'') then Inr True else Inl Value_Error))"

definition repo_url :: "mpp_env \<Rightarrow> string \<Rightarrow> dict \<Rightarrow> pyval \<Rightarrow> pyval" where
  "repo_url me basedir desc baseurl =
     (let own = dict_get_or desc ''baseurl'' PyNone; url = if py_truthy own then own else baseurl
      in if py_truthy url then PyList [expand_baseurl me basedir url] else PyNone)"

definition repo_dict_to_model :: "mpp_env \<Rightarrow> string \<Rightarrow> dict \<Rightarrow> pyval \<Rightarrow> dict res" where
  "repo_dict_to_model me basedir desc baseurl =
     (if \<not> list_all (\<lambda>k. k \<in> set supported_repo_keys) (dict_keys desc) then Inl Value_Error
      else res_bind (repo_secrets desc) (\<lambda>secrets.
        res_bind (py_item (PyDict desc) ''id'') (\<lambda>i.
          Inr ([(''repo_id'', i), (''baseurl'', repo_url me basedir desc baseurl)] @
            map (\<lambda>k. (k, dict_get_or desc k PyNone)) copied_repo_keys @
            [(''rhsm'', if secrets then PyBool True else dict_get_or desc ''rhsm'' (PyBool False))]))))"

text \<open>One repository: what is passed to the solver, if anything, and the identifiers that need a subscription.\<close>

definition has_rhsm :: "dict \<Rightarrow> bool res" where
  "has_rhsm desc =
     (if py_truthy (dict_get_or desc ''rhsm'' PyNone) then Inr True
      else res_bind (py_get_or (dict_get_or desc ''secrets'' (PyDict [])) ''name'' PyNone) (\<lambda>name.
        Inr (py_eq name (PyStr ''org.osbuild.rhsm''))))"

definition resolve_repo :: "mpp_env \<Rightarrow> string \<Rightarrow> pyval \<Rightarrow> pyval \<Rightarrow> (pyval list \<times> pyval list) res" where
  "resolve_repo me basedir baseurl v =
     (case v of
        PyDict desc \<Rightarrow>
          res_bind (has_rhsm desc) (\<lambda>rhsm.
          res_bind (if rhsm then res_map (\<lambda>i. [i]) (py_item v ''id'') else Inr []) (\<lambda>ids.
            if py_truthy (dict_get_or desc ''system-repo'' (PyBool False)) then res_map (\<lambda>_. ([], ids)) (validate_system_repo desc)
            else res_map (\<lambda>r. ([PyDict r], ids)) (repo_dict_to_model me basedir desc baseurl)))
      | _ \<Rightarrow> Inl Attribute_Error)"

section \<open>Solvers\<close>

definition or_none :: "pyval \<Rightarrow> pyval" where
  "or_none v = (if py_truthy v then v else PyNone)"

definition solver_type :: "pyval \<Rightarrow> pyval" where
  "solver_type v = (if py_in v [PyStr ''dnf'', PyStr ''dnf5''] then v else PyStr ''dnf'')"

definition solver_request :: "mpp_env \<Rightarrow> dict \<Rightarrow> pyval \<Rightarrow> pyval \<Rightarrow> pyval list \<Rightarrow> pyval" where
  "solver_request me desc module rel repos = PyDict
     [(''solver'', solver_type (dict_get_or desc ''solver'' (PyStr ''dnf''))),
      (''arch'', dict_get_or desc ''architecture'' PyNone), (''releasever'', rel), (''module_platform_id'', module),
      (''repos'', or_none (PyList repos)), (''root_dir'', dict_get_or desc ''root-dir'' PyNone),
      (''package_specs'', dict_get_or desc ''packages'' (PyList [])),
      (''exclude_specs'', or_none (dict_get_or desc ''excludes'' (PyList []))),
      (''repo_ids'', or_none (dict_get_or desc ''enabled-repo-ids'' PyNone)),
      (''install_weak_deps'', PyBool (\<not> py_truthy (dict_get_or desc ''ignore-weak-deps'' PyNone)))]"

text \<open>\<open>_model_package_to_pkginfo\<close>.\<close>

definition package_evr :: "mpp_env \<Rightarrow> solved_package \<Rightarrow> string" where
  "package_evr me p =
     (let evr = mv_str me (sd_version p) @ ''-'' @ mv_str me (sd_release p)
      in if sd_epoch p > 0 then dec_int (sd_epoch p) @ '':'' @ evr else evr)"

definition package_info :: "mpp_env \<Rightarrow> pyval list \<Rightarrow> solved_package \<Rightarrow> dict" where
  "package_info me rhsm p =
     [(''checksum'', PyStr (mv_str me (sd_checksum p))), (''name'', sd_name p), (''evr'', PyStr (package_evr me p)), (''arch'', sd_arch p),
      (''url'', case sd_locations p of [] \<Rightarrow> PyNone | u # us \<Rightarrow> u),
      (''license'', sd_license p), (''summary'', sd_summary p), (''sourcerpm'', sd_source_rpm p), (''buildtime'', sd_build_time p),
      (''vendor'', sd_vendor p), (''secrets'', if py_in (PyStr (sd_repo p)) rhsm then PyStr ''org.osbuild.rhsm'' else PyNone),
      (''requires'', PyList (map named (sd_requires p))), (''provides'', PyList (map named (sd_provides p)))]"

definition osbuild_resolve :: "mpp_env \<Rightarrow> dict \<Rightarrow> pyval \<Rightarrow> pyval \<Rightarrow> pyval list \<Rightarrow> dict list mpp" where
  "osbuild_resolve me desc module rel repos =
     andthen (\<lambda>w. lift_res (res_mapM (resolve_repo me (mw_basedir w) (dict_get_or desc ''baseurl'' PyNone)) repos) w) (\<lambda>resolved.
     andthen (ask_solver me (solver_request me desc module rel (concat (map fst resolved)))) (\<lambda>(packages, known).
       ret (map (package_info me (map PyStr known @ concat (map snd resolved))) packages)))"

text \<open>The solver for pacman: \<open>resolve\<close> does not take the argument that it is called with.\<close>

definition pacman_repo :: "pyval \<Rightarrow> unit res" where
  "pacman_repo v = res_bind (py_item v ''id'') (\<lambda>_. res_bind (py_item v ''baseurl'') (\<lambda>_. Inr ()))"

definition pacman_resolve :: "pyval list \<Rightarrow> dict list res" where
  "pacman_resolve repos = res_bind (res_mapM pacman_repo repos) (\<lambda>_. Inl Type_Error)"

text \<open>\<open>get_depsolver\<close>, \<open>reset\<close>, \<open>add_repo\<close> for each repository, and \<open>resolve\<close>.\<close>

definition solve_packages :: "mpp_env \<Rightarrow> dict \<Rightarrow> pyval \<Rightarrow> dict list mpp" where
  "solve_packages me desc rel =
     andthen (lift_res (py_item (PyDict desc) ''module-platform-id'')) (\<lambda>module.
     andthen (lift_res (resolve_releasever me rel (dict_get_or desc ''root-dir'' PyNone))) (\<lambda>rel2.
     andthen (lift_res (py_iter (dict_get_or desc ''repos'' (PyList [])))) (\<lambda>repos.
       if py_eq (dict_get_or desc ''solver'' (PyStr ''dnf'')) (PyStr ''alpm'') then lift_res (pacman_resolve repos)
       else osbuild_resolve me desc module rel2 repos)))"

end
