(* ===== verification/Mpp_Packages.thy ===== *)
theory Mpp_Packages
  imports Mpp_Solver
begin

text \<open>
  Embedded files and packages of a stage in the manifest preprocessor (\<open>src/mpp/aib-osbuild-mpp\<close>).  A package
  is the dictionary of its fields.
\<close>

section \<open>Embedded files\<close>

text \<open>The data of a file: its digest, and its content unless it comes from an address.\<close>

definition fetched_checksum :: "mpp_env \<Rightarrow> pyval \<Rightarrow> pyval \<Rightarrow> string mpp" where
  "fetched_checksum me uid url =
     (let key = lock_key me (PyDict [(''url'', url)]) in
      andthen (lock_read me ''embedded_files'' key (''embedded file '' @ mv_str me uid) []) (\<lambda>v.
      andthen (lift_res (locked_entry v)) (\<lambda>entry.
        case entry of
          Some e \<Rightarrow> andthen (lift_res (py_item (PyDict e) ''checksum'')) (\<lambda>c.
            if \<not> py_truthy c then raise_exn Unbound_Local_Error else lift_res (as_text c))
        | None \<Rightarrow>
            andthen (lift_res (as_text url)) (\<lambda>u.
            andthen (fetch_url me u) (\<lambda>content.
              seq (lock_write ''embedded_files'' key (PyDict [(''checksum'', PyStr (mv_sha256 me content))]))
                (ret (mv_sha256 me content)))))))"

definition digest_of :: "string \<Rightarrow> string" where
  "digest_of checksum = ''sha256:'' @ checksum"

definition add_inline :: "mpp_env \<Rightarrow> string \<Rightarrow> string mpp" where
  "add_inline me content =
     (let digest = digest_of (mv_sha256 me content) in
      seq (add_source ''org.osbuild.inline'' digest (PyDict [(''encoding'', PyStr ''base64''), (''data'', PyStr (mv_base64 me content))]))
        (ret digest))"

definition bool_count :: "bool list \<Rightarrow> nat" where
  "bool_count bs = length (filter id bs)"

definition embed_source :: "mpp_env \<Rightarrow> pyval \<Rightarrow> pyval \<Rightarrow> pyval \<Rightarrow> pyval \<Rightarrow> string mpp" where
  "embed_source me uid path url text =
     (let n = bool_count [py_truthy text, py_truthy path, py_truthy url] in
      if n \<noteq> 1 then raise_exn Value_Error
      else if py_truthy path then
        andthen (lift_res (as_text path)) (\<lambda>p. andthen (find_and_open_file me p []) (\<lambda>(content, full). add_inline me content))
      else if py_truthy url then
        andthen (fetched_checksum me uid url) (\<lambda>checksum.
          seq (add_source ''org.osbuild.curl'' (digest_of checksum) url) (ret (digest_of checksum)))
      else andthen (lift_res (as_text text)) (add_inline me))"

text \<open>The variable \<open>embedded\<close>; the pair of name and digest kept there is shown as the digest.\<close>

definition set_embedded :: "string \<Rightarrow> string \<Rightarrow> unit mpp" where
  "set_embedded uid digest w =
     (case element_enter (mw_vars w) ''embedded'' of
        Inl e \<Rightarrow> (Inl e, w)
      | Inr (vars, ef) \<Rightarrow> (Inr (), w\<lparr>mw_vars := dict_set vars ''embedded'' (PyDict (dict_set ef uid (PyStr digest)))\<rparr>))"

definition embed_data :: "mpp_env \<Rightarrow> (pyval \<Rightarrow> pyval mpp) \<Rightarrow> dict \<Rightarrow> pyval \<Rightarrow> dict mpp" where
  "embed_data me fmt input mpp0 =
     andthen (fmt mpp0) (\<lambda>mpp.
     andthen (lift_res (py_item mpp ''id'')) (\<lambda>uid.
     andthen (lift_res (py_get_or mpp ''path'' PyNone)) (\<lambda>path.
     andthen (lift_res (py_get_or mpp ''url'' PyNone)) (\<lambda>url.
     andthen (lift_res (py_get_or mpp ''text'' PyNone)) (\<lambda>content.
     andthen (embed_source me uid path url content) (\<lambda>digest.
     andthen (lift_res (element_enter input ''references'')) (\<lambda>(input1, refs).
     andthen (lift_res (py_get_or mpp ''options'' (PyDict []))) (\<lambda>options.
     andthen (lift_res (as_text uid)) (\<lambda>u.
       seq (set_embedded u digest)
         (ret (dict_set input1 ''references'' (PyDict (dict_set refs digest options)))))))))))))"

definition embed_input :: "mpp_env \<Rightarrow> (pyval \<Rightarrow> pyval mpp) \<Rightarrow> pyval \<Rightarrow> pyval mpp" where
  "embed_input me fmt v =
     (case v of
        PyDict input \<Rightarrow>
          if \<not> py_eq (dict_get_or input ''type'' PyNone) (PyStr ''org.osbuild.files'') \<or>
             \<not> py_eq (dict_get_or input ''origin'' PyNone) (PyStr ''org.osbuild.source'') then ret v
          else andthen (get_mpp_node me input ''embed'') (\<lambda>(node, input1).
            case node of None \<Rightarrow> ret (PyDict input1) | Some mpp \<Rightarrow> andthen (embed_data me fmt input1 mpp) (\<lambda>d. ret (PyDict d)))
      | _ \<Rightarrow> raise_exn Attribute_Error)"

fun map_items :: "(pyval \<Rightarrow> ('w, pyval) prog) \<Rightarrow> dict \<Rightarrow> ('w, dict) prog" where
  "map_items f [] = ret []"
| "map_items f ((k, v) # d) = andthen (f v) (\<lambda>v'. andthen (map_items f d) (\<lambda>d'. ret ((k, v') # d')))"

definition process_embed_files :: "mpp_env \<Rightarrow> (pyval \<Rightarrow> pyval mpp) \<Rightarrow> dict \<Rightarrow> dict mpp" where
  "process_embed_files me fmt stage =
     (case dict_get stage ''inputs'' of
        None \<Rightarrow> ret stage
      | Some (PyDict inputs) \<Rightarrow> andthen (map_items (embed_input me fmt) inputs) (\<lambda>d. ret (dict_set stage ''inputs'' (PyDict d)))
      | Some v \<Rightarrow> raise_exn Attribute_Error)"

section \<open>Packages\<close>

definition solved_packages :: "mpp_env \<Rightarrow> dict \<Rightarrow> pyval \<Rightarrow> pyval \<Rightarrow> string \<Rightarrow> dict list mpp" where
  "solved_packages me desc rel request key =
     andthen (solve_packages me desc rel) (\<lambda>deps.
       seq (lock_write ''depsolves'' key (PyDict [(''request'', lock_sanitize request),
             (''packages'', PyList (map (\<lambda>d. PyDict (to_lock_dict d)) deps))]))
         (ret deps))"

definition locked_packages :: "dict \<Rightarrow> dict list res" where
  "locked_packages entry =
     res_bind (py_item (PyDict entry) ''packages'') (\<lambda>ps. res_bind (py_iter ps) (res_mapM pkg_from_dict))"

definition depsolve :: "mpp_env \<Rightarrow> dict \<Rightarrow> dict list mpp" where
  "depsolve me desc =
     (let packages = dict_get_or desc ''packages'' (PyList []) in
      if \<not> py_truthy packages then ret []
      else
        andthen (lift_res (resolve_releasever me (dict_get_or desc ''releasever'' PyNone) (dict_get_or desc ''root-dir'' PyNone))) (\<lambda>rel.
        andthen (lift_res (py_iter packages)) (\<lambda>names.
        let request = PyDict (dict_set desc ''releasever'' rel); key = lock_key me request;
            label = ''depsolve ('' @ dec_nat (length names) @ '' packages, '' @ mv_str me (dict_get_or desc ''architecture'' PyNone) @ '')''
        in andthen (lock_read me ''depsolves'' key label (request_items request)) (\<lambda>v.
           andthen (lift_res (locked_entry v)) (\<lambda>entry.
             case entry of Some e \<Rightarrow> lift_res (locked_packages e) | None \<Rightarrow> solved_packages me desc rel request key)))))"

text \<open>The sources of the packages, and the variable \<open>rpms\<close> of the pipeline.\<close>

definition package_source :: "dict \<Rightarrow> pyval" where
  "package_source pkg =
     (let url = dict_get_or pkg ''url'' PyNone; secrets = dict_get_or pkg ''secrets'' PyNone
      in if py_truthy secrets then PyDict [(''url'', url), (''secrets'', PyDict [(''name'', secrets)])] else url)"

definition add_package :: "mpp_env \<Rightarrow> dict \<Rightarrow> string list \<times> dict \<Rightarrow> (string list \<times> dict) mpp" where
  "add_package me pkg st =
     andthen (lift_res (res_bind (py_item (PyDict pkg) ''checksum'') as_text)) (\<lambda>checksum.
     andthen (lift_res (res_bind (py_item (PyDict pkg) ''name'') as_text)) (\<lambda>name.
       seq (case_prod put_source (url_source (mv_version me)) checksum (package_source pkg))
         (ret (fst st @ [checksum], dict_set (snd st) name (PyDict pkg)))))"

definition set_rpms :: "string \<Rightarrow> dict \<Rightarrow> unit mpp" where
  "set_rpms pipeline infos w =
     (case element_enter (mw_vars w) ''rpms'' of
        Inl e \<Rightarrow> (Inl e, w)
      | Inr (vars, d) \<Rightarrow> (Inr (), w\<lparr>mw_vars := dict_set vars ''rpms'' (PyDict (dict_set d pipeline (PyDict infos)))\<rparr>))"

definition add_packages :: "mpp_env \<Rightarrow> dict list \<Rightarrow> string \<Rightarrow> string list mpp" where
  "add_packages me deps pipeline =
     andthen (fold_prog (add_package me) deps ([], [])) (\<lambda>(checksums, infos). seq (set_rpms pipeline infos) (ret checksums))"

definition sbom_write :: "string \<Rightarrow> pyval \<Rightarrow> unit mpp" where
  "sbom_write pipeline packages =
     update_world (\<lambda>w. case mw_sbom w of None \<Rightarrow> w | Some s \<Rightarrow> w\<lparr>mw_sbom := Some (dict_set s pipeline (omit_none packages))\<rparr>)"

definition package_stages :: "pyval list" where
  "package_stages = map PyStr [''org.osbuild.pacman'', ''org.osbuild.rpm'']"

definition process_depsolve :: "mpp_env \<Rightarrow> (pyval \<Rightarrow> pyval mpp) \<Rightarrow> string \<Rightarrow> dict \<Rightarrow> dict mpp" where
  "process_depsolve me fmt pipeline stage =
     (if \<not> py_in (dict_get_or stage ''type'' (PyStr [])) package_stages then ret stage
      else andthen (lift_res (element_enter stage ''inputs'')) (\<lambda>(stage1, inputs).
           andthen (lift_res (element_enter inputs ''packages'')) (\<lambda>(inputs1, packages).
           andthen (get_mpp_node me packages ''depsolve'') (\<lambda>(node, packages1).
             case node of
               None \<Rightarrow> ret (put_input stage1 inputs1 ''packages'' packages1)
             | Some mpp0 \<Rightarrow>
                 andthen (fmt mpp0) (\<lambda>mpp.
                 andthen (lift_res (element_enter packages1 ''references'')) (\<lambda>(packages2, refs).
                 andthen (case mpp of PyDict desc \<Rightarrow> depsolve me desc | _ \<Rightarrow> raise_exn Attribute_Error) (\<lambda>deps.
                 andthen (add_packages me deps pipeline) (\<lambda>checksums.
                 andthen (lift_res (res_mapM to_dict deps)) (\<lambda>listed.
                   seq (sbom_write pipeline (PyList (map PyDict listed)))
                     (ret (put_input stage1 inputs1 ''packages''
                       (dict_set packages2 ''references'' (PyDict (fold (\<lambda>c r. dict_set r c (PyDict [])) checksums refs))))))))))))))"

text \<open>Version 1: the packages are in the options of the stage; \<open>+=\<close> needs a list there.\<close>

definition append_packages :: "pyval \<Rightarrow> string list \<Rightarrow> pyval res" where
  "append_packages v checksums =
     (case v of PyList xs \<Rightarrow> Inr (PyList (xs @ map PyStr checksums)) | _ \<Rightarrow> Inl Type_Error)"

definition process_depsolve1 :: "mpp_env \<Rightarrow> (pyval \<Rightarrow> pyval mpp) \<Rightarrow> string \<Rightarrow> dict \<Rightarrow> dict mpp" where
  "process_depsolve1 me fmt pipeline stage =
     (let v = dict_get_or stage ''options'' PyNone in
      if \<not> py_in (dict_get_or stage ''name'' (PyStr [])) package_stages \<or> \<not> py_truthy v then ret stage
      else case v of
        PyDict options \<Rightarrow>
          andthen (get_mpp_node me options ''depsolve'') (\<lambda>(node, options1).
            case node of
              None \<Rightarrow> ret (dict_set stage ''options'' (PyDict options1))
            | Some mpp0 \<Rightarrow>
                andthen (fmt mpp0) (\<lambda>mpp.
                let packages = dict_get_or options1 ''packages'' (PyList []) in
                andthen (case mpp of PyDict desc \<Rightarrow> depsolve me desc | _ \<Rightarrow> raise_exn Attribute_Error) (\<lambda>deps.
                andthen (add_packages me deps pipeline) (\<lambda>checksums.
                andthen (lift_res (res_mapM to_dict deps)) (\<lambda>listed.
                  seq (sbom_write pipeline (PyList (map PyDict listed)))
                    (andthen (lift_res (append_packages packages checksums)) (\<lambda>all.
                       ret (dict_set stage ''options'' (PyDict (dict_set options1 ''packages'' all))))))))))
      | _ \<Rightarrow> raise_exn Attribute_Error)"

section \<open>Stages\<close>

text \<open>
  Everything that is done with a stage, in the order of \<open>_process_stage\<close>; in version 1 only packages are
  supported.
\<close>

definition process_stage :: "mpp_env \<Rightarrow> (pyval \<Rightarrow> pyval mpp) \<Rightarrow> string \<Rightarrow> dict \<Rightarrow> dict mpp" where
  "process_stage me fmt pipeline stage =
     (if mv_version me = 1 then process_depsolve1 me fmt pipeline stage
      else andthen (process_depsolve me fmt pipeline stage) (\<lambda>s1.
        andthen (process_embed_files me fmt s1) (\<lambda>s2.
        andthen (process_container me fmt s2) (\<lambda>s3. process_ostree_commits me s3))))"

end
