(* ===== verification/Mpp_Format.thy ===== *)
theory Mpp_Format
  imports Mpp_Packages Build_Defines
begin

text \<open>
  The expansion of a manifest in the preprocessor (\<open>_process_format\<close> of \<open>src/mpp/aib-osbuild-mpp\<close>): the
  traversal that evaluates the directives \<open>mpp-if\<close>, \<open>mpp-eval\<close>, \<open>mpp-join\<close> and \<open>mpp-format-*\<close>, and completes
  the stages it comes across.  Python code is evaluated by a parameter.  The bound on the recursion is that of
  the interpreter, which raises \<open>RecursionError\<close>.
\<close>

section \<open>Directives\<close>

definition format_keys :: "string list" where
  "format_keys = [''mpp-eval'', ''mpp-join'', ''mpp-if'', ''mpp-format-int'', ''mpp-format-string'', ''mpp-format-json'']"

definition is_format :: "pyval \<Rightarrow> bool" where
  "is_format v = (case v of PyDict d \<Rightarrow> list_ex (\<lambda>k. dict_get d k \<noteq> None) format_keys | _ \<Rightarrow> False)"

text \<open>The dictionaries above a node, the nearest first, each with the key below which the node is.\<close>

type_synonym frame = "(dict \<times> string) list"

type_synonym formatter = "frame \<Rightarrow> pyval \<Rightarrow> pyval mpp"

text \<open>\<open>except Exception\<close>: the error is printed and the program ends.\<close>

definition exit_on_error :: "'a res \<Rightarrow> 'a res" where
  "exit_on_error r = (case r of Inl e \<Rightarrow> Inl (case e of Sys_Exit n \<Rightarrow> Sys_Exit n | Keyboard_Interrupt \<Rightarrow> Keyboard_Interrupt | _ \<Rightarrow> Sys_Exit 1) | Inr x \<Rightarrow> Inr x)"

definition eval_code :: "mpp_env \<Rightarrow> pyval \<Rightarrow> pyval mpp" where
  "eval_code me code w = (exit_on_error (res_bind (as_text code) (\<lambda>c. mv_eval me c (get_vars me w))), w)"

definition format_text :: "mpp_env \<Rightarrow> pyval \<Rightarrow> string mpp" where
  "format_text me text w = (exit_on_error (mv_fstring me (mv_str me text) (get_vars me w)), w)"

text \<open>\<open>int(res)\<close>, without a \<open>.0\<close> at the end.\<close>

definition format_int :: "string \<Rightarrow> pyval res" where
  "format_int s =
     (case py_int (if ends_with s ''.0'' then take (length s - 2) s else s) of Some i \<Rightarrow> Inr (PyInt i) | None \<Rightarrow> Inl Value_Error)"

text \<open>A node by itself: what is left of it, if anything.\<close>

definition rewrite_node :: "formatter \<Rightarrow> frame \<Rightarrow> pyval \<Rightarrow> pyval option mpp" where
  "rewrite_node format fr v =
     andthen (format fr (PyList [v])) (\<lambda>r. ret (case r of PyList (x # xs) \<Rightarrow> Some x | _ \<Rightarrow> None))"

definition join_lists :: "pyval \<Rightarrow> pyval res" where
  "join_lists l = res_bind (py_iter l) (\<lambda>xs. res_map (\<lambda>yss. PyList (concat yss)) (res_mapM py_iter xs))"

definition eval_if :: "mpp_env \<Rightarrow> formatter \<Rightarrow> frame \<Rightarrow> dict \<Rightarrow> pyval \<Rightarrow> pyval option mpp" where
  "eval_if me format fr node code =
     andthen (eval_code me code) (\<lambda>r.
       case dict_get node (if py_truthy r then ''then'' else ''else'') of
         Some v \<Rightarrow> rewrite_node format fr v
       | None \<Rightarrow> ret None)"

definition eval_text :: "mpp_env \<Rightarrow> dict \<Rightarrow> pyval mpp" where
  "eval_text me node =
     (case dict_get node ''mpp-format-string'' of
        Some t \<Rightarrow> andthen (format_text me t) (\<lambda>s. ret (PyStr s))
      | None \<Rightarrow>
          (case dict_get node ''mpp-format-json'' of
             Some t \<Rightarrow> andthen (format_text me t) (\<lambda>s. lift_res (mv_loads me s))
           | None \<Rightarrow>
               andthen (lift_res (py_item (PyDict node) ''mpp-format-int'')) (\<lambda>t.
               andthen (format_text me t) (\<lambda>s. lift_res (format_int s)))))"

definition eval_format :: "mpp_env \<Rightarrow> formatter \<Rightarrow> frame \<Rightarrow> pyval \<Rightarrow> pyval option mpp" where
  "eval_format me format fr v =
     (let node = request_items v in
      case dict_get node ''mpp-join'' of
        Some l \<Rightarrow> andthen (format fr l) (\<lambda>l'. andthen (lift_res (join_lists l')) (\<lambda>r. ret (Some r)))
      | None \<Rightarrow>
          (case dict_get node ''mpp-if'' of
             Some code \<Rightarrow> eval_if me format fr node code
           | None \<Rightarrow>
               (case dict_get node ''mpp-eval'' of
                  Some code \<Rightarrow> andthen (eval_code me code) (\<lambda>r. ret (Some r))
                | None \<Rightarrow> andthen (eval_text me node) (\<lambda>r. ret (Some r)))))"

section \<open>Traversal\<close>

text \<open>A node of a dictionary or list: a directive is replaced by its result or removed, others are traversed.\<close>

definition format_node :: "mpp_env \<Rightarrow> formatter \<Rightarrow> frame \<Rightarrow> pyval \<Rightarrow> pyval option mpp" where
  "format_node me format fr v =
     (if is_format v then eval_format me format fr v else andthen (format fr v) (\<lambda>r. ret (Some r)))"

definition format_key :: "mpp_env \<Rightarrow> formatter \<Rightarrow> frame \<Rightarrow> string \<Rightarrow> dict \<Rightarrow> dict mpp" where
  "format_key me format fr k d =
     (case dict_get d k of
        None \<Rightarrow> raise_exn Key_Error
      | Some v \<Rightarrow> andthen (format_node me format ((d, k) # fr) v) (\<lambda>r. ret (case r of Some x \<Rightarrow> dict_set d k x | None \<Rightarrow> dict_del d k)))"

fun format_elems :: "mpp_env \<Rightarrow> formatter \<Rightarrow> frame \<Rightarrow> pyval list \<Rightarrow> pyval list mpp" where
  "format_elems me format fr [] = ret []"
| "format_elems me format fr (x # xs) =
     andthen (format_node me format fr x) (\<lambda>r.
     andthen (format_elems me format fr xs) (\<lambda>ys. ret (case r of Some y \<Rightarrow> y # ys | None \<Rightarrow> ys)))"

text \<open>
  The name of the pipeline that a node is, in version 1 by its place below \<open>self.pipeline\<close>.  The dictionaries of
  the stack are as they were when their key was entered: those that the node is part of differ from it, so
  only its place among them counts, and the builds apart from it are compared.
\<close>

definition build_name :: "nat \<Rightarrow> string" where
  "build_name depth = (if depth = 0 then ''stages'' else if depth = 1 then ''build'' else ''build'' @ dec_nat depth)"

definition next_build :: "pyval \<Rightarrow> pyval res" where
  "next_build p = res_bind (py_get_or p ''build'' (PyDict [])) (\<lambda>b. py_get_or b ''pipeline'' PyNone)"

lemma dict_get_size: "dict_get d k = Some v \<Longrightarrow> size v < size (PyDict d)"
  by (induction d) (auto split: if_splits)

lemma get_or_size: "py_get_or v k x = Inr y \<Longrightarrow> y = x \<or> size y < size v"
  by (cases v) (auto simp: dict_get_or_def dest!: dict_get_size split: option.splits)

lemma next_build_size: "next_build p = Inr b \<Longrightarrow> size b < size p"
proof -
  assume "next_build p = Inr b"
  then obtain v where v: "py_get_or p ''build'' (PyDict []) = Inr v" "py_get_or v ''pipeline'' PyNone = Inr b"
    by (auto simp: next_build_def res_bind_Inr_iff)
  have "0 < size p" using v(1) by (cases p) auto
  moreover have "v = PyDict [] \<Longrightarrow> b = PyNone" using v(2) by (simp add: dict_get_or_def)
  ultimately show ?thesis using get_or_size [OF v(1)] get_or_size [OF v(2)] by auto
qed

function find_pipeline :: "dict \<Rightarrow> nat \<Rightarrow> pyval \<Rightarrow> string res" where
  "find_pipeline node depth p =
     (if py_eq p (PyDict node) then Inr (build_name depth)
      else if depth > 0 \<and> \<not> py_truthy p then Inr []
      else case next_build p of Inl e \<Rightarrow> Inl e | Inr b \<Rightarrow> find_pipeline node (Suc depth) b)"
  by pat_completeness auto

termination
  by (relation "measure (\<lambda>(node, depth, p). size p)") (auto dest: next_build_size)

declare find_pipeline.simps [simp del]

definition entered :: "dict \<Rightarrow> string \<Rightarrow> bool" where
  "entered d k \<longleftrightarrow> (case dict_get d k of Some (PyDict e) \<Rightarrow> \<not> is_format (PyDict e) | _ \<Rightarrow> False)"

text \<open>From a pipeline at a depth inwards, along the dictionaries below it.\<close>

fun find_inwards :: "dict \<Rightarrow> nat \<Rightarrow> frame \<Rightarrow> string res" where
  "find_inwards node depth [] = Inr []"
| "find_inwards node depth [(c, k)] = Inr (build_name depth)"
| "find_inwards node depth ((c, k) # (b, j) # fs) =
     (if k = ''build'' \<and> entered c k then
        (if j = ''pipeline'' \<and> entered b j then find_inwards node (Suc depth) fs
         else find_pipeline node (Suc depth) (dict_get_or b ''pipeline'' PyNone))
      else res_bind (next_build (PyDict c)) (find_pipeline node (Suc depth)))"

definition pipeline_name1 :: "pipeline_ref \<Rightarrow> dict \<Rightarrow> frame \<Rightarrow> string res" where
  "pipeline_name1 p node fr =
     (case p of
        No_Pipeline \<Rightarrow> Inl Attribute_Error
      | Apart v \<Rightarrow> find_pipeline node 0 v
      | In_Root \<Rightarrow>
          (case rev fr of
             [] \<Rightarrow> Inr []
           | (root, k) # fs \<Rightarrow>
               if k = ''pipeline'' then find_inwards node 0 fs
               else find_pipeline node 0 (dict_get_or root ''pipeline'' PyNone)))"

definition get_pipeline_name :: "mpp_env \<Rightarrow> dict \<Rightarrow> frame \<Rightarrow> string mpp" where
  "get_pipeline_name me node fr w =
     lift_res (if mv_version me = 1 then pipeline_name1 (mw_pipeline w) node fr
               else as_text (dict_get_or node ''name'' (PyStr []))) w"

text \<open>A dictionary in the list of stages is completed first.\<close>

definition format_dict_node :: "mpp_env \<Rightarrow> formatter \<Rightarrow> frame \<Rightarrow> dict \<Rightarrow> dict mpp" where
  "format_dict_node me format fr node =
     (case fr of
        [] \<Rightarrow> ret node
      | (parent, key) # _ \<Rightarrow>
          if key = ''stages'' then
            andthen (get_pipeline_name me parent fr) (\<lambda>pipeline. process_stage me (format fr) pipeline node)
          else ret node)"

definition format_once :: "mpp_env \<Rightarrow> formatter \<Rightarrow> formatter" where
  "format_once me format fr v =
     (case v of
        PyDict node \<Rightarrow>
          andthen (format_dict_node me format fr node) (\<lambda>d.
          andthen (fold_prog (format_key me format fr) (dict_keys d) d) (\<lambda>d'. ret (PyDict d')))
      | PyList xs \<Rightarrow> andthen (format_elems me format fr xs) (\<lambda>ys. ret (PyList ys))
      | _ \<Rightarrow> ret v)"

text \<open>The traversal, down to a depth.\<close>

primrec format_tree :: "mpp_env \<Rightarrow> nat \<Rightarrow> formatter" where
  "format_tree me 0 = (\<lambda>fr v. raise_exn Recursion_Error)"
| "format_tree me (Suc n) = format_once me (format_tree me n)"

text \<open>
  The root of the manifest.  Its sources are those of the state, since the stages add to them; the entry of the
  root only keeps their place.
\<close>

definition format_sources :: "mpp_env \<Rightarrow> nat \<Rightarrow> dict \<Rightarrow> unit mpp" where
  "format_sources me n root =
     andthen (ask mw_sources) (\<lambda>s.
     andthen (format_tree me n [(root, ''sources'')] (PyDict s)) (\<lambda>v.
       update_world (\<lambda>w. w\<lparr>mw_sources := request_items v\<rparr>)))"

definition format_root_key :: "mpp_env \<Rightarrow> nat \<Rightarrow> string \<Rightarrow> dict \<Rightarrow> dict mpp" where
  "format_root_key me n k root =
     (if k = ''sources'' then seq (format_sources me n root) (ret root) else format_key me (format_tree me n) [] k root)"

definition process_format :: "mpp_env \<Rightarrow> nat \<Rightarrow> dict \<Rightarrow> dict mpp" where
  "process_format me n root = fold_prog (format_root_key me n) (dict_keys root) root"

end
