(* ===== verification/Mpp_Partitions.thy ===== *)
theory Mpp_Partitions
  imports Mpp_Format
begin

text \<open>
  Images that a manifest defines (\<open>Partition\<close>, \<open>PartitionTable\<close> and \<open>Image\<close> of \<open>src/mpp/aib-osbuild-mpp\<close>): the
  partition table is written to an empty disk by \<open>sfdisk\<close> and read back, so that the manifest can refer to the
  places of the partitions.  An object that Python code of the manifest sees is the dictionary of its fields.
\<close>

section \<open>Partitions\<close>

record mpp_partition =
  mp_id :: pyval
  mp_type :: pyval
  mp_start :: pyval
  mp_size :: pyval
  mp_bootable :: pyval
  mp_name :: pyval
  mp_uuid :: pyval
  mp_attrs :: pyval
  mp_partnum :: pyval

record partition_table =
  tb_label :: pyval
  tb_uuid :: pyval
  tb_partitions :: "mpp_partition list"

text \<open>The index of a partition, from its number: \<open>self.index\<close>.\<close>

definition partition_index :: "mpp_partition \<Rightarrow> pyval" where
  "partition_index p = (case mp_partnum p of PyInt n \<Rightarrow> PyInt (n - 1) | _ \<Rightarrow> PyNone)"

definition as_partnum :: "pyval \<Rightarrow> pyval res" where
  "as_partnum v =
     (if \<not> py_truthy v then Inr PyNone
      else case v of PyInt n \<Rightarrow> Inr v | PyBool b \<Rightarrow> Inr (PyInt 1) | _ \<Rightarrow> Inl Type_Error)"

definition partition_from_dict :: "pyval \<Rightarrow> mpp_partition res" where
  "partition_from_dict v =
     (case v of
        PyDict js \<Rightarrow>
          let get = (\<lambda>k. dict_get_or js k PyNone)
          in res_map (\<lambda>n. \<lparr>mp_id = (if py_truthy (get ''id'') then get ''id'' else get ''name''), mp_type = get ''type'',
               mp_start = get ''start'', mp_size = get ''size'', mp_bootable = get ''bootable'', mp_name = get ''name'',
               mp_uuid = get ''uuid'', mp_attrs = get ''attrs'', mp_partnum = n\<rparr>) (as_partnum (get ''partnum''))
      | _ \<Rightarrow> Inl Attribute_Error)"

definition extended_partition :: mpp_partition where
  "extended_partition = \<lparr>mp_id = PyNone, mp_type = PyStr ''0f'', mp_start = PyNone, mp_size = PyNone, mp_bootable = PyBool False,
     mp_name = PyNone, mp_uuid = PyNone, mp_attrs = PyNone, mp_partnum = PyNone\<rparr>"

text \<open>The constructor of the table: more than four partitions of a DOS label need an extended one.\<close>

definition make_table :: "pyval \<Rightarrow> pyval \<Rightarrow> mpp_partition list \<Rightarrow> partition_table" where
  "make_table label uuid ps =
     \<lparr>tb_label = label, tb_uuid = uuid,
      tb_partitions =
        (if py_eq label (PyStr ''dos'') \<and> length ps > 4 \<and> \<not> list_ex (\<lambda>p. py_eq (mp_type p) (PyStr ''0f'')) ps
         then take 3 ps @ extended_partition # drop 3 ps else ps)\<rparr>"

definition table_from_dict :: "pyval \<Rightarrow> partition_table res" where
  "table_from_dict js =
     res_bind (py_item js ''uuid'') (\<lambda>uuid.
     res_bind (py_item js ''label'') (\<lambda>label.
     res_bind (py_get_or js ''partitions'' PyNone) (\<lambda>ps.
     res_bind (py_iter ps) (\<lambda>xs.
     res_bind (res_mapM partition_from_dict xs) (\<lambda>parts. Inr (make_table label uuid parts))))))"

section \<open>Scripts of sfdisk\<close>

text \<open>The attributes of a partition by their bits; bits that are reserved have no name and are left out.\<close>

definition attr_text :: "pyval \<Rightarrow> string list res" where
  "attr_text v =
     (case v of
        PyInt b \<Rightarrow>
          Inr (if b = 0 then [''RequiredPartition''] else if b = 1 then [''NoBlockIOProtocol''] else if b = 2 then [''LegacyBIOSBootable'']
               else if 48 \<le> b \<and> b \<le> 63 then [dec_int b] else [])
      | _ \<Rightarrow> Inl Type_Error)"

definition quoted_field :: "string \<Rightarrow> string \<Rightarrow> string" where
  "quoted_field k v = k @ ''='' @ [CHR 0x22] @ v @ [CHR 0x22]"

definition plain_field :: "mpp_env \<Rightarrow> string \<Rightarrow> pyval \<Rightarrow> string list" where
  "plain_field me k v = (if py_truthy v then [quoted_field k (mv_str me v)] else [])"

definition attrs_field :: "pyval \<Rightarrow> string list res" where
  "attrs_field v =
     (if py_truthy v
      then res_bind (py_iter v) (\<lambda>bits. res_map (\<lambda>ns. [quoted_field ''attrs'' (py_join '','' (concat ns))]) (res_mapM attr_text bits))
      else Inr [])"

definition partition_fields :: "mpp_env \<Rightarrow> mpp_partition \<Rightarrow> string list res" where
  "partition_fields me p =
     res_map (\<lambda>attrs.
       plain_field me ''start'' (mp_start p) @ plain_field me ''size'' (mp_size p) @ plain_field me ''type'' (mp_type p) @
       plain_field me ''name'' (mp_name p) @ plain_field me ''uuid'' (mp_uuid p) @ attrs @
       (if py_truthy (mp_bootable p) then [''bootable''] else []))
     (attrs_field (mp_attrs p))"

definition partition_line :: "mpp_env \<Rightarrow> string \<Rightarrow> mpp_partition \<Rightarrow> string res" where
  "partition_line me shown p =
     res_map (\<lambda>fields.
       [CHR 0x0A] @ (if py_truthy (mp_partnum p) then shown @ ''p'' @ mv_str me (mp_partnum p) @ '': '' else []) @ py_join '', '' fields)
     (partition_fields me p)"

definition sfdisk_script :: "mpp_env \<Rightarrow> string \<Rightarrow> partition_table \<Rightarrow> string res" where
  "sfdisk_script me shown table =
     res_map (\<lambda>ls. ''label: '' @ mv_str me (tb_label table) @ [CHR 0x0A] @ ''label-id: '' @ mv_str me (tb_uuid table) @ concat ls)
       (res_mapM (partition_line me shown) (tb_partitions table))"

section \<open>Reading the table back\<close>

text \<open>The digits at the end of a device name, with leading zeros.\<close>

definition node_number :: "pyval \<Rightarrow> pyval res" where
  "node_number v =
     res_bind (as_text v) (\<lambda>s.
       case py_int (rev (takeWhile is_digit (rev s))) of Some n \<Rightarrow> Inr (PyInt n) | None \<Rightarrow> Inl Index_Error)"

definition updated_partition :: "mpp_partition \<Rightarrow> pyval \<Rightarrow> mpp_partition res" where
  "updated_partition p disk =
     res_bind (res_bind (py_item disk ''node'') node_number) (\<lambda>n.
     res_bind (py_item disk ''start'') (\<lambda>start.
     res_bind (py_item disk ''size'') (\<lambda>sz.
     res_bind (py_get_or disk ''type'' PyNone) (\<lambda>t.
     res_bind (py_get_or disk ''name'' PyNone) (\<lambda>name.
       Inr (p\<lparr>mp_partnum := n, mp_start := start, mp_size := sz, mp_type := t, mp_name := name\<rparr>))))))"

fun update_partitions :: "mpp_partition list \<Rightarrow> pyval list \<Rightarrow> mpp_partition list res" where
  "update_partitions (p # ps) (d # ds) =
     res_bind (updated_partition p d) (\<lambda>p'. res_bind (update_partitions ps ds) (\<lambda>ps'. Inr (p' # ps')))"
| "update_partitions ps ds = Inr []"

definition update_from :: "mpp_env \<Rightarrow> partition_table \<Rightarrow> string \<Rightarrow> partition_table res" where
  "update_from me table out =
     res_bind (mv_loads me out) (\<lambda>v.
     res_bind (py_item v ''partitiontable'') (\<lambda>t.
     res_bind (py_item t ''partitions'') (\<lambda>parts.
     res_bind (py_iter parts) (\<lambda>ds.
       if length ds \<noteq> length (tb_partitions table) then Inl Assertion_Error
       else res_map (\<lambda>ps. table\<lparr>tb_partitions := ps\<rparr>) (update_partitions (tb_partitions table) ds)))))"

text \<open>\<open>target\<close> is the device, and \<open>shown\<close> its text in the script.\<close>

definition write_table :: "mpp_env \<Rightarrow> string \<Rightarrow> string \<Rightarrow> partition_table \<Rightarrow> partition_table mpp" where
  "write_table me dev shown table =
     andthen (lift_res (sfdisk_script me shown table)) (\<lambda>script.
       seq (ask_command me [''sfdisk'', ''-q'', ''--no-tell-kernel'', dev, script])
         (andthen (ask_command me [''sfdisk'', ''--json'', dev]) (\<lambda>out. lift_res (update_from me table out))))"

section \<open>Images\<close>

definition partition_object :: "mpp_partition \<Rightarrow> pyval" where
  "partition_object p = PyDict
     [(''id'', mp_id p), (''type'', mp_type p), (''start'', mp_start p), (''size'', mp_size p), (''bootable'', mp_bootable p),
      (''name'', mp_name p), (''uuid'', mp_uuid p), (''attrs'', mp_attrs p), (''index'', partition_index p), (''partnum'', mp_partnum p)]"

definition image_object :: "pyval \<Rightarrow> partition_table \<Rightarrow> pyval" where
  "image_object sz table = PyDict
     [(''size'', sz), (''layout'', PyDict [(''label'', tb_label table), (''uuid'', tb_uuid table),
        (''partitions'', PyList (map partition_object (tb_partitions table)))])]"

text \<open>\<open>losetup\<close> prints bytes, whose textual form is used in the script.\<close>

definition bytes_text :: "string \<Rightarrow> string" where
  "bytes_text s = ''b'' @ [CHR 0x27] @ s @ [CHR 0x27]"

definition with_loop_device :: "mpp_env \<Rightarrow> pyval \<Rightarrow> string \<Rightarrow> partition_table \<Rightarrow> partition_table mpp" where
  "with_loop_device me sector disk table =
     andthen (ask_command me [''losetup'', ''--find'', ''--show'', ''--sector-size='' @ mv_str me sector, disk]) (\<lambda>out.
       let loop = py_rstrip out
       in with_finally (write_table me loop (bytes_text loop) table) (seq (ask_command me [''losetup'', ''-d'', loop]) (ret ())))"

definition image_from_dict :: "mpp_env \<Rightarrow> pyval \<Rightarrow> pyval mpp" where
  "image_from_dict me js =
     andthen (lift_res (py_item js ''size'')) (\<lambda>sz.
     andthen (lift_res (py_item js ''table'')) (\<lambda>data.
     andthen (lift_res (py_get_or js ''sector_size'' (PyInt 512))) (\<lambda>sector.
     andthen (lift_res (as_text sz)) (\<lambda>sz_text.
     let disk = path_join (mv_tmpdir me) ''disk.img'' in
       seq (ask_command me [''truncate'', ''--size'', sz_text, disk])
         (andthen (lift_res (table_from_dict data)) (\<lambda>table.
          andthen (if py_eq sector (PyInt 512) then write_table me disk disk table else with_loop_device me sector disk table) (\<lambda>table'.
            ret (image_object sz table'))))))))"

text \<open>
  The images of a manifest.  A single one is always called \<open>image\<close>: the test for its own name is for the
  function \<open>id\<close> of Python.
\<close>

definition named_image :: "pyval \<Rightarrow> pyval res" where
  "named_image v = (case v of PyDict d \<Rightarrow> Inr (PyDict (dict_set d ''id'' (PyStr ''image''))) | _ \<Rightarrow> Inl Type_Error)"

definition set_var :: "string \<Rightarrow> pyval \<Rightarrow> unit mpp" where
  "set_var k v = update_world (\<lambda>w. w\<lparr>mw_vars := dict_set (mw_vars w) k v\<rparr>)"

definition define_image :: "mpp_env \<Rightarrow> nat \<Rightarrow> pyval \<Rightarrow> unit mpp" where
  "define_image me n v =
     andthen (format_tree me n [] v) (\<lambda>js.
     andthen (lift_res (res_bind (py_item js ''id'') as_text)) (\<lambda>name.
     andthen (image_from_dict me js) (set_var name)))"

definition process_partitions :: "mpp_env \<Rightarrow> nat \<Rightarrow> dict \<Rightarrow> dict mpp" where
  "process_partitions me n root =
     andthen (get_mpp_node me root ''define-images'') (\<lambda>(many, root1).
     andthen (get_mpp_node me root1 ''define-image'') (\<lambda>(one, root2).
     andthen (lift_res (case many of None \<Rightarrow> Inr [] | Some v \<Rightarrow> py_iter v)) (\<lambda>images.
     andthen (lift_res (case one of None \<Rightarrow> Inr [] | Some v \<Rightarrow> res_map (\<lambda>i. [i]) (named_image v))) (\<lambda>last.
       seq (each (define_image me n) (images @ last)) (ret root2)))))"

end
