(* ===== verification/Mpp_Load.thy ===== *)
theory Mpp_Load
  imports Mpp_Partitions Sbom
begin

text \<open>
  Loading manifests of both versions with their imports, and the main program of the preprocessor
  (\<open>ManifestFile\<close>, \<open>ManifestFileV1\<close>, \<open>ManifestFileV2\<close> and \<open>main\<close> of \<open>src/mpp/aib-osbuild-mpp\<close>).  While an imported file is
  loaded the state is that of the import; what the importing manifest takes over is merged afterwards.
\<close>

section \<open>Loading a file\<close>

definition parse_document :: "mpp_env \<Rightarrow> string \<Rightarrow> string \<Rightarrow> pyval res" where
  "parse_document me path content =
     (if ends_with path ''.yml'' \<or> ends_with path ''.yaml''
      then (case mv_yaml me content of Inl (YAML_Error m) \<Rightarrow> Inl (Sys_Exit 1) | r \<Rightarrow> r)
      else (case mv_loads me content of Inl Value_Error \<Rightarrow> Inl (Sys_Exit 1) | r \<Rightarrow> r))"

definition int_of_value :: "pyval \<Rightarrow> int res" where
  "int_of_value v =
     (case v of
        PyInt i \<Rightarrow> Inr i
      | PyBool b \<Rightarrow> Inr (if b then 1 else 0)
      | PyStr s \<Rightarrow> (case py_int s of Some i \<Rightarrow> Inr i | None \<Rightarrow> Inl Value_Error)
      | _ \<Rightarrow> Inl Type_Error)"

definition document_version :: "pyval \<Rightarrow> int res" where
  "document_version v = res_bind (py_get_or v ''version'' (PyStr ''1'')) int_of_value"

text \<open>The variables: each is expanded by itself, then all are substituted, one after the other.\<close>

definition init_var :: "mpp_env \<Rightarrow> nat \<Rightarrow> string \<times> pyval \<Rightarrow> unit mpp" where
  "init_var me n e =
     andthen (rewrite_node (format_tree me n) [] (snd e)) (\<lambda>r. set_var (fst e) (case r of Some v \<Rightarrow> v | None \<Rightarrow> PyNone))"

definition substitute_var :: "mpp_env \<Rightarrow> string \<Rightarrow> unit mpp" where
  "substitute_var me k =
     update_world (\<lambda>w. case dict_get (mw_vars w) k of
        None \<Rightarrow> w
      | Some v \<Rightarrow> w\<lparr>mw_vars := dict_set (mw_vars w) k (substitute_vars (var_text me (get_vars me w)) v)\<rparr>)"

definition init_vars :: "mpp_env \<Rightarrow> nat \<Rightarrow> dict \<Rightarrow> dict mpp" where
  "init_vars me n root =
     andthen (get_mpp_node me root ''vars'') (\<lambda>(node, root1).
       case node of
         None \<Rightarrow> ret root1
       | Some (PyDict d) \<Rightarrow>
           seq (each (init_var me n) d)
             (andthen (ask (\<lambda>w. dict_keys (mw_vars w))) (\<lambda>ks. seq (each (substitute_var me) ks) (ret root1)))
       | Some _ \<Rightarrow> raise_exn Attribute_Error)"

text \<open>
  The state of the manifest: its own sources, the variables that it was given, the directory of its file.  The
  pipeline of version 1 is only set when the variables are there.
\<close>

definition start_manifest :: "string \<Rightarrow> dict \<Rightarrow> unit mpp" where
  "start_manifest path sources =
     update_world (\<lambda>w. w\<lparr>mw_basedir := (if path_dirname path = [] then ''.'' else path_dirname path), mw_sources := sources,
       mw_pipeline := No_Pipeline\<rparr>)"

section \<open>Imports\<close>

definition merge_options :: "dict \<Rightarrow> pyval \<Rightarrow> dict res" where
  "merge_options target desc =
     res_bind (py_get_or desc ''options'' PyNone) (\<lambda>options.
       if \<not> py_truthy options then Inr target
       else case options of
         PyDict new \<Rightarrow> res_map (\<lambda>(t, old). dict_set t ''options'' (PyDict (dict_update old new))) (element_enter target ''options'')
       | _ \<Rightarrow> Inl Type_Error)"

definition merge_items :: "dict \<Rightarrow> pyval \<Rightarrow> dict res" where
  "merge_items target desc =
     res_bind (element_enter target ''items'') (\<lambda>(t, items).
     res_bind (py_get_or desc ''items'' (PyDict [])) (\<lambda>v.
       case v of PyDict new \<Rightarrow> Inr (dict_set t ''items'' (PyDict (dict_update items new))) | _ \<Rightarrow> Inl Type_Error))"

definition merge_source :: "string \<times> pyval \<Rightarrow> dict \<Rightarrow> dict res" where
  "merge_source e sources =
     (let source = fst e; desc = snd e; target = dict_get_or sources source PyNone in
      if \<not> py_truthy target then Inr (dict_set sources source desc)
      else case target of
        PyDict t \<Rightarrow>
          res_bind (merge_options t desc) (\<lambda>t1. res_map (\<lambda>t2. dict_set sources source (PyDict t2)) (merge_items t1 desc))
      | _ \<Rightarrow> Inl Attribute_Error)"

definition merge_sources :: "dict \<Rightarrow> dict \<Rightarrow> dict res" where
  "merge_sources sources imported = res_fold merge_source imported sources"

text \<open>The importing manifest after the import: its variables and sources with those of the import.\<close>

definition back_from_import :: "mpp_world \<Rightarrow> mpp_world \<Rightarrow> mpp_world res" where
  "back_from_import w imp =
     res_map (\<lambda>s. imp\<lparr>mw_basedir := mw_basedir w, mw_vars := dict_update (mw_vars w) (mw_vars imp), mw_sources := s,
         mw_pipeline := mw_pipeline w\<rparr>)
       (merge_sources (mw_sources w) (mw_sources imp))"

text \<open>Load an import, which has to be of the same version, and go back to the importing manifest.\<close>

definition load_with ::
  "mpp_env \<Rightarrow> (string \<Rightarrow> string \<Rightarrow> (int \<times> dict) mpp) \<Rightarrow> (dict \<Rightarrow> mpp_world \<Rightarrow> mpp_world \<Rightarrow> ('a \<times> mpp_world) res) \<Rightarrow> string \<Rightarrow> 'a mpp" where
  "load_with me load back path w =
     (case andthen (find_and_open_file me path (mv_searchdirs me)) (\<lambda>(content, full). load full content) w of
        (Inl e, w1) \<Rightarrow> (Inl e, w1)
      | (Inr (version, root), w1) \<Rightarrow>
          if version \<noteq> mv_version me then (Inl Value_Error, w1)
          else (case back root w w1 of Inl e \<Rightarrow> (Inl e, w1) | Inr (x, w2) \<Rightarrow> (Inr x, w2)))"

definition load_import :: "mpp_env \<Rightarrow> (string \<Rightarrow> string \<Rightarrow> (int \<times> dict) mpp) \<Rightarrow> string \<Rightarrow> dict mpp" where
  "load_import me load = load_with me load (\<lambda>root w imp. res_map (Pair root) (back_from_import w imp))"

text \<open>The pipelines that are taken, in the order of the import, each over the keys of the importing
  entry; \<open>ids\<close> is a list.\<close>

definition taken :: "pyval \<Rightarrow> pyval \<Rightarrow> bool res" where
  "taken ids p =
     (if \<not> py_truthy ids then Inr True
      else res_bind (py_get_or p ''name'' PyNone) (\<lambda>name. case ids of PyList names \<Rightarrow> Inr (py_in name names) | _ \<Rightarrow> Inl Type_Error))"

definition take_pipeline :: "dict \<Rightarrow> pyval \<Rightarrow> pyval \<Rightarrow> pyval list res" where
  "take_pipeline pipeline ids p =
     res_bind (taken ids p) (\<lambda>t.
       if \<not> t then Inr [] else case p of PyDict d \<Rightarrow> Inr [PyDict (dict_update pipeline d)] | _ \<Rightarrow> Inl Type_Error)"

definition imported_pipelines :: "dict \<Rightarrow> pyval \<Rightarrow> dict \<Rightarrow> pyval list res" where
  "imported_pipelines pipeline ids root =
     res_bind (py_iter (dict_get_or root ''pipelines'' (PyList []))) (\<lambda>ps. res_map concat (res_mapM (take_pipeline pipeline ids) ps))"

definition import_from ::
  "mpp_env \<Rightarrow> (string \<Rightarrow> string \<Rightarrow> (int \<times> dict) mpp) \<Rightarrow> dict \<Rightarrow> pyval \<Rightarrow> pyval \<Rightarrow> pyval list mpp" where
  "import_from me load pipeline ids mpp =
     andthen (lift_res (res_bind (py_item mpp ''path'') as_text)) (\<lambda>path.
     andthen (load_import me load path) (\<lambda>root. lift_res (imported_pipelines pipeline ids root)))"

definition process_import :: "mpp_env \<Rightarrow> (string \<Rightarrow> string \<Rightarrow> (int \<times> dict) mpp) \<Rightarrow> pyval \<Rightarrow> pyval list mpp" where
  "process_import me load v =
     (case v of
        PyDict pipeline \<Rightarrow>
          andthen (get_mpp_node me pipeline ''import-pipelines'') (\<lambda>(many, p1).
            case many of
              Some mpp \<Rightarrow> andthen (lift_res (py_get_or mpp ''ids'' PyNone)) (\<lambda>ids. import_from me load p1 ids mpp)
            | None \<Rightarrow>
                andthen (get_mpp_node me p1 ''import-pipeline'') (\<lambda>(one, p2).
                  case one of
                    None \<Rightarrow> ret [PyDict p2]
                  | Some mpp \<Rightarrow> andthen (lift_res (py_item mpp ''id'')) (\<lambda>i. import_from me load p2 (PyList [i]) mpp)))
      | _ \<Rightarrow> raise_exn Attribute_Error)"

fun process_imports :: "mpp_env \<Rightarrow> (string \<Rightarrow> string \<Rightarrow> (int \<times> dict) mpp) \<Rightarrow> pyval list \<Rightarrow> pyval list mpp" where
  "process_imports me load [] = ret []"
| "process_imports me load (p # ps) =
     andthen (process_import me load p) (\<lambda>qs. andthen (process_imports me load ps) (\<lambda>rs. ret (qs @ rs)))"

section \<open>Manifests of version 2\<close>

definition load_version2 :: "mpp_env \<Rightarrow> nat \<Rightarrow> (string \<Rightarrow> string \<Rightarrow> (int \<times> dict) mpp) \<Rightarrow> string \<Rightarrow> dict \<Rightarrow> dict mpp" where
  "load_version2 me n load path document =
     andthen (lift_res (element_enter document ''sources'')) (\<lambda>(root, sources).
     seq (start_manifest path sources)
       (andthen (init_vars me n root) (\<lambda>root1.
        andthen (lift_res (py_iter (dict_get_or root1 ''pipelines'' (PyList [])))) (\<lambda>pipelines.
        seq (enter_source ''org.osbuild.curl'' ''items'')
          (andthen (process_imports me load pipelines) (\<lambda>ps.
             process_partitions me n (dict_set root1 ''pipelines'' (PyList ps))))))))"

section \<open>Manifests of version 1\<close>

text \<open>
  An import has to have the sources \<open>org.osbuild.files\<close> only, and nothing beside its pipeline and its
  sources.  What it gives is its \<open>self.pipeline\<close>.
\<close>

definition own_pipeline :: "mpp_world \<Rightarrow> dict \<Rightarrow> pyval" where
  "own_pipeline w root = (case mw_pipeline w of Apart v \<Rightarrow> v | _ \<Rightarrow> dict_get_or root ''pipeline'' PyNone)"

definition source_urls :: "dict \<Rightarrow> (dict \<times> dict \<times> dict) res" where
  "source_urls sources =
     res_bind (element_enter sources ''org.osbuild.files'') (\<lambda>(s, d).
       res_map (\<lambda>(d1, urls). (s, d1, urls)) (element_enter d ''urls''))"

definition merge_urls :: "dict \<Rightarrow> dict \<Rightarrow> dict res" where
  "merge_urls sources imported =
     res_bind (source_urls sources) (\<lambda>(s, d, urls).
       res_map (\<lambda>(_, _, new). dict_set s ''org.osbuild.files'' (PyDict (dict_set d ''urls'' (PyDict (dict_update urls new)))))
         (source_urls imported))"

definition back_from_import1 :: "dict \<Rightarrow> mpp_world \<Rightarrow> mpp_world \<Rightarrow> (pyval \<times> mpp_world) res" where
  "back_from_import1 root w imp =
     (if dict_keys (mw_sources imp) \<noteq> [''org.osbuild.files''] \<or> sort (dict_keys root) \<noteq> [''pipeline'', ''sources'']
      then Inl Assertion_Error
      else res_map (\<lambda>s. (own_pipeline imp root, imp\<lparr>mw_basedir := mw_basedir w, mw_vars := dict_update (mw_vars w) (mw_vars imp),
               mw_sources := s, mw_pipeline := mw_pipeline w\<rparr>))
             (merge_urls (mw_sources w) (mw_sources imp)))"

text \<open>The build, and whether its pipeline is now that of an import.\<close>

definition process_import1 :: "mpp_env \<Rightarrow> (string \<Rightarrow> string \<Rightarrow> (int \<times> dict) mpp) \<Rightarrow> dict \<Rightarrow> (dict \<times> bool) mpp" where
  "process_import1 me load build =
     andthen (get_mpp_node me build ''import-pipeline'') (\<lambda>(node, b).
       case node of
         None \<Rightarrow> ret (b, False)
       | Some mpp \<Rightarrow>
           andthen (lift_res (res_bind (py_item mpp ''path'') as_text)) (\<lambda>path.
           andthen (load_with me load back_from_import1 path) (\<lambda>pipeline. ret (dict_set b ''pipeline'' pipeline, True))))"

text \<open>\<open>current.get("pipeline", {}).get("build")\<close>, with the pipeline that has it.\<close>

definition current_build :: "dict \<Rightarrow> (dict \<times> pyval) res" where
  "current_build current =
     (case dict_get_or current ''pipeline'' (PyDict []) of
        PyDict p \<Rightarrow> Inr (p, dict_get_or p ''build'' PyNone)
      | _ \<Rightarrow> Inl Attribute_Error)"

text \<open>
  The imports of the builds below, one after the other.  Each import may add builds, and imports may go in a
  circle; builds that are nested too deeply for the expansion end the loop.
\<close>

primrec imports_below :: "mpp_env \<Rightarrow> (string \<Rightarrow> string \<Rightarrow> (int \<times> dict) mpp) \<Rightarrow> nat \<Rightarrow> dict \<Rightarrow> dict mpp" where
  "imports_below me load 0 = (\<lambda>current. raise_exn Recursion_Error)"
| "imports_below me load (Suc n) = (\<lambda>current.
     andthen (lift_res (current_build current)) (\<lambda>(p, b).
       if \<not> py_truthy b then ret current
       else case b of
         PyDict build \<Rightarrow>
           andthen (process_import1 me load build) (\<lambda>(b1, _).
           andthen (imports_below me load n b1) (\<lambda>b2.
             ret (dict_set current ''pipeline'' (PyDict (dict_set p ''build'' (PyDict b2))))))
       | _ \<Rightarrow> raise_exn Attribute_Error))"

definition process_imports1 ::
  "mpp_env \<Rightarrow> (string \<Rightarrow> string \<Rightarrow> (int \<times> dict) mpp) \<Rightarrow> nat \<Rightarrow> dict \<Rightarrow> (dict \<times> bool) mpp" where
  "process_imports1 me load n root =
     andthen (process_import1 me load root) (\<lambda>(root1, moved).
     andthen (imports_below me load n root1) (\<lambda>root2. ret (root2, moved)))"

text \<open>
  After an import at the root, \<open>self.pipeline\<close> is still what the root had before.  A pipeline that is a directive
  is replaced by its result, too, when the root is expanded.
\<close>

definition set_pipeline :: "pipeline_ref \<Rightarrow> unit mpp" where
  "set_pipeline p = update_world (\<lambda>w. w\<lparr>mw_pipeline := p\<rparr>)"

definition pipeline_after :: "pyval \<Rightarrow> dict \<Rightarrow> bool \<Rightarrow> pyval" where
  "pipeline_after before root moved = (if moved then before else dict_get_or root ''pipeline'' PyNone)"

definition load_version1 :: "mpp_env \<Rightarrow> nat \<Rightarrow> (string \<Rightarrow> string \<Rightarrow> (int \<times> dict) mpp) \<Rightarrow> string \<Rightarrow> dict \<Rightarrow> dict mpp" where
  "load_version1 me n load path document =
     andthen (lift_res (element_enter document ''sources'')) (\<lambda>(root, sources).
     seq (start_manifest path sources)
       (andthen (init_vars me n root) (\<lambda>root1.
        let before = dict_get_or root1 ''pipeline'' (PyDict []);
            root2 = (if dict_get root1 ''pipeline'' = None then dict_set root1 ''pipeline'' before else root1)
        in seq (enter_source ''org.osbuild.files'' ''urls'')
             (andthen (process_imports1 me load n root2) (\<lambda>(root3, moved).
              let own = pipeline_after before root3 moved in
                seq (set_pipeline (Apart own))
                  (andthen (process_partitions me n root3) (\<lambda>root4.
                     seq (set_pipeline (if moved \<or> is_format own then Apart own else In_Root)) (ret root4))))))))"

section \<open>Files\<close>

definition load_once :: "mpp_env \<Rightarrow> nat \<Rightarrow> (string \<Rightarrow> string \<Rightarrow> (int \<times> dict) mpp) \<Rightarrow> string \<Rightarrow> string \<Rightarrow> (int \<times> dict) mpp" where
  "load_once me n load path content =
     andthen (lift_res (parse_document me path content)) (\<lambda>v.
     andthen (lift_res (document_version v)) (\<lambda>version.
       if version = 1 then andthen (load_version1 (me\<lparr>mv_version := 1\<rparr>) n load path (request_items v)) (\<lambda>root. ret (1, root))
       else if version = 2 then andthen (load_version2 (me\<lparr>mv_version := 2\<rparr>) n load path (request_items v)) (\<lambda>root. ret (2, root))
       else raise_exn Value_Error))"

text \<open>Imports may be nested down to the recursion limit.\<close>

primrec load_manifest_file :: "mpp_env \<Rightarrow> nat \<Rightarrow> string \<Rightarrow> string \<Rightarrow> (int \<times> dict) mpp" where
  "load_manifest_file me 0 = (\<lambda>path content. raise_exn Recursion_Error)"
| "load_manifest_file me (Suc n) = load_once me n (load_manifest_file me n)"

section \<open>The main program\<close>

text \<open>\<open>--define\<close>: a value in JSON, or True.\<close>

definition parse_override :: "mpp_env \<Rightarrow> string \<Rightarrow> (string \<times> pyval) res" where
  "parse_override me arg =
     (if CHR ''='' \<in> set arg
      then res_map (\<lambda>v. (takeWhile (\<lambda>c. c \<noteq> CHR ''='') arg, v)) (mv_loads me (tl (dropWhile (\<lambda>c. c \<noteq> CHR ''='') arg)))
      else Inr (arg, PyBool True))"

definition parse_overrides :: "mpp_env \<Rightarrow> string list \<Rightarrow> dict res" where
  "parse_overrides me args = res_map (\<lambda>es. fold (\<lambda>(k, v) d. dict_set d k v) es []) (res_mapM (parse_override me) args)"

text \<open>The packages in the order of their addresses; addresses that are not texts cannot be compared.\<close>

definition url_key :: "pyval \<Rightarrow> pyval res" where
  "url_key v = (case v of PyDict d \<Rightarrow> py_item v ''url'' | _ \<Rightarrow> Inr v)"

definition sorted_urls :: "dict \<Rightarrow> dict res" where
  "sorted_urls urls =
     res_bind (res_mapM (\<lambda>(k, v). res_map (\<lambda>u. (u, (k, v))) (url_key v)) urls) (\<lambda>keyed.
       if length keyed \<le> 1 then Inr urls
       else res_map (\<lambda>named. map snd (sort_key fst named)) (res_mapM (\<lambda>(u, e). res_map (\<lambda>t. (t, e)) (as_text u)) keyed))"

definition sort_urls :: "int \<Rightarrow> dict \<Rightarrow> dict res" where
  "sort_urls version sources =
     (let source = fst (url_source version); field = snd (url_source version)
      in res_bind (element_enter sources source) (\<lambda>(s, curl).
         res_bind (element_enter curl field) (\<lambda>(c, items).
           res_map (\<lambda>sorted. dict_set s source (PyDict (dict_set c field (PyDict sorted)))) (sorted_urls items))))"

record mpp_args =
  ma_define :: "string list"
  ma_src :: string
  ma_content :: string
  ma_lockfile :: "string option"
  ma_generate_lockfile :: bool
  ma_generate_sbom :: bool

text \<open>What is written: the lockfile and whether there is a warning for it, the bills of materials, the manifest.\<close>

record mpp_output =
  mo_lockfile :: "dict option"
  mo_warning :: bool
  mo_sboms :: "(string \<times> sbom) list"
  mo_manifest :: dict

definition read_lockfile :: "mpp_env \<Rightarrow> string \<Rightarrow> dict res" where
  "read_lockfile me content =
     res_bind (mv_loads me content) (\<lambda>v.
     res_bind (py_get_or v ''version'' PyNone) (\<lambda>version.
       if \<not> py_eq version (PyInt 1) then Inl (Sys_Exit 1) else Inr (request_items v)))"

definition start_lock :: "mpp_env \<Rightarrow> mpp_args \<Rightarrow> unit mpp" where
  "start_lock me ma =
     andthen (lift_res (case ma_lockfile ma of None \<Rightarrow> Inr None | Some c \<Rightarrow> res_map Some (read_lockfile me c))) (\<lambda>lock.
       update_world (\<lambda>w. w\<lparr>mw_lock := lock,
         mw_lock_out := (if ma_generate_lockfile ma then Some [(''version'', PyInt 1)] else None),
         mw_sbom := (if ma_generate_sbom ma then Some [] else None)\<rparr>))"

definition make_sbom :: "sbom_env \<Rightarrow> string \<times> pyval \<Rightarrow> (string \<times> sbom) res" where
  "make_sbom se e = res_bind (py_iter (snd e)) (\<lambda>ps. res_map (Pair (fst e)) (from_pkgs se (fst e) ps))"

definition make_sboms :: "sbom_env \<Rightarrow> dict option \<Rightarrow> (string \<times> sbom) list res" where
  "make_sboms se s = (case s of None \<Rightarrow> Inr [] | Some d \<Rightarrow> res_mapM (make_sbom se) d)"

definition lock_warning :: "mpp_env \<Rightarrow> dict option \<Rightarrow> bool" where
  "lock_warning me out = (case out of None \<Rightarrow> False | Some d \<Rightarrow> contains_password (mv_url me) (PyDict d))"

definition write_output :: "mpp_env \<Rightarrow> sbom_env \<Rightarrow> int \<Rightarrow> dict \<Rightarrow> mpp_output mpp" where
  "write_output me se version root =
     andthen (ask (\<lambda>w. w)) (\<lambda>w.
     andthen (lift_res (make_sboms se (mw_sbom w))) (\<lambda>sboms.
     andthen (lift_res (sort_urls version (mw_sources w))) (\<lambda>sources.
       ret \<lparr>mo_lockfile = mw_lock_out w, mo_warning = lock_warning me (mw_lock_out w), mo_sboms = sboms,
            mo_manifest = dict_set root ''sources'' (PyDict sources)\<rparr>)))"

definition mpp_main :: "mpp_env \<Rightarrow> sbom_env \<Rightarrow> nat \<Rightarrow> mpp_args \<Rightarrow> mpp_output mpp" where
  "mpp_main me0 se n ma =
     andthen (lift_res (parse_overrides me0 (ma_define ma))) (\<lambda>overrides.
     let me = me0\<lparr>mv_overrides := overrides\<rparr> in
       andthen (load_manifest_file me n (ma_src ma) (ma_content ma)) (\<lambda>(version, root).
       seq (start_lock me ma) (andthen (process_format (me\<lparr>mv_version := version\<rparr>) n root) (write_output me se version))))"

end
