(* ===== verification/Mpp_Laws.thy ===== *)
theory Mpp_Laws
  imports Mpp_Format
begin

text \<open>
  Properties of the lockfile of the preprocessor: what is written is read back, a locked build asks nothing of
  the network, a locked image is the one that was resolved, the requests that are kept have no credentials, and
  which manifest of a list is taken.
\<close>

section \<open>Lockfiles\<close>

text \<open>A store of entries in sections, where an entry may be kept in a normal form.\<close>

locale entry_store =
  fixes look :: "'l \<Rightarrow> 's \<Rightarrow> 'k \<Rightarrow> 'v option" and put :: "'l \<Rightarrow> 's \<Rightarrow> 'k \<Rightarrow> 'v \<Rightarrow> 'e + 'l" and norm :: "'v \<Rightarrow> 'v"
  assumes look_put: "put l s k v = Inr l' \<Longrightarrow> look l' s' k' = (if s' = s \<and> k' = k then Some (norm v) else look l s' k')"
    and norm_idem: "norm (norm v) = norm v"
begin

text \<open>Several entries, one after the other.\<close>

fun puts :: "'l \<Rightarrow> ('s \<times> 'k \<times> 'v) list \<Rightarrow> 'e + 'l" where
  "puts l [] = Inr l"
| "puts l ((s, k, v) # es) = res_bind (put l s k v) (\<lambda>l'. puts l' es)"

lemma look_puts_other:
  "puts l es = Inr l' \<Longrightarrow> (s, k) \<notin> (\<lambda>(s, k, v). (s, k)) ` set es \<Longrightarrow> look l' s k = look l s k"
  by (induction es arbitrary: l) (auto simp: res_bind_Inr_iff look_put split: if_splits)

lemma look_puts:
  "puts l es = Inr l' \<Longrightarrow> (s, k, v) \<in> set es \<Longrightarrow> distinct (map (\<lambda>(s, k, v). (s, k)) es) \<Longrightarrow> look l' s k = Some (norm v)"
proof (induction es arbitrary: l)
  case (Cons e es)
  obtain s1 k1 v1 where e: "e = (s1, k1, v1)" by (cases e)
  obtain l1 where l1: "put l s1 k1 v1 = Inr l1" "puts l1 es = Inr l'" using Cons.prems(1) by (auto simp: e res_bind_Inr_iff)
  show ?case
  proof (cases "(s, k, v) = e")
    case True
    then have "(s, k) \<notin> (\<lambda>(s, k, v). (s, k)) ` set es" using Cons.prems(3) by (auto simp: e)
    then show ?thesis using look_puts_other [OF l1(2)] look_put [OF l1(1), of s k] True e by simp
  next
    case False
    then show ?thesis using Cons.IH [OF l1(2)] Cons.prems by simp
  qed
qed simp

end

definition lock_entry :: "dict \<Rightarrow> string \<Rightarrow> string \<Rightarrow> pyval option" where
  "lock_entry lock section key = (case dict_get lock section of Some (PyDict entries) \<Rightarrow> dict_get entries key | _ \<Rightarrow> None)"

lemma omit_none_None [simp]: "omit_none v = PyNone \<longleftrightarrow> v = PyNone"
  by (cases v) auto

lemma omit_none_idem: "omit_none (omit_none v) = omit_none v"
  and "omit_list (omit_list vs) = omit_list vs" and "omit_items (omit_items d) = omit_items d"
  by (induction v and vs and d rule: omit_none_omit_list_omit_items.induct) auto

lemma write_entry_Inr:
  assumes "write_entry l s k v = Inr l'"
  shows "\<exists>l1 entries. l' = dict_set l1 s (PyDict (dict_set entries k (omit_none v))) \<and>
    (dict_get l s = Some (PyDict entries) \<and> l1 = l \<or> dict_get l s = None \<and> entries = [] \<and> l1 = dict_set l s (PyDict []))"
proof -
  obtain l1 entries where e: "element_enter l s = Inr (l1, entries)" and l': "l' = dict_set l1 s (PyDict (dict_set entries k (omit_none v)))"
    using assms by (cases "element_enter l s") (auto simp: write_entry_def res_map_def)
  show ?thesis
  proof (cases "dict_get l s")
    case None
    then show ?thesis using e l' by (auto simp: element_enter_def)
  next
    case (Some x)
    then show ?thesis using e l' by (cases x) (auto simp: element_enter_def)
  qed
qed

interpretation lf: entry_store lock_entry write_entry omit_none
proof
  fix l l' s k v s' k'
  assume "write_entry l s k v = Inr l'"
  from write_entry_Inr [OF this]
  show "lock_entry l' s' k' = (if s' = s \<and> k' = k then Some (omit_none v) else lock_entry l s' k')"
    by (auto simp: lock_entry_def)
qed (rule omit_none_idem)

text \<open>
  Lockfiles are faithful: entries written one after the other, each to its own key, are all read back, up
  to the fields that are None; nothing else changes.
\<close>

theorem lockfile_roundtrip:
  assumes "lf.puts lock es = Inr lock'" and "distinct (map (\<lambda>(s, k, v). (s, k)) es)" and "(s, k, v) \<in> set es"
    and "mw_lock w = Some lock'"
  shows "fst (lock_read me s k label request w) = Inr (Some (omit_none v))"
proof -
  have e: "lock_entry lock' s k = Some (omit_none v)" by (rule lf.look_puts [OF assms(1,3,2)])
  then obtain entries where d: "dict_get lock' s = Some (PyDict entries)" "dict_get entries k = Some (omit_none v)"
    by (auto simp: lock_entry_def split: option.splits pyval.splits)
  then have "lock' \<noteq> []" by auto
  then show ?thesis using assms(4) d by (simp add: lock_read_def dict_get_or_def)
qed

section \<open>Builds with a lockfile\<close>

text \<open>A lockfile with something in it, whose entries are dictionaries that are not empty.\<close>

definition full_lock :: "dict \<Rightarrow> bool" where
  "full_lock lock \<longleftrightarrow> lock \<noteq> [] \<and>
     (\<forall>(s, v) \<in> set lock. case v of PyDict entries \<Rightarrow> (\<forall>(k, e) \<in> set entries. case e of PyDict d \<Rightarrow> d \<noteq> [] | _ \<Rightarrow> False) | _ \<Rightarrow> True)"

definition offline :: "string list list \<Rightarrow> dict \<Rightarrow> mpp_world \<Rightarrow> bool" where
  "offline asked lock w \<longleftrightarrow> mw_asked w = asked \<and> mw_lock w = Some lock"

lemma lock_read_full:
  assumes "full_lock lock" and "mw_lock w = Some lock" and "lock_read me s k label request w = (Inr v, w')"
  shows "\<exists>d. v = Some (PyDict d) \<and> d \<noteq> []"
proof -
  have ne: "lock \<noteq> []" using assms(1) by (simp add: full_lock_def)
  obtain entries where d: "dict_get_or lock s (PyDict []) = PyDict entries"
    using assms(2,3) ne by (cases "dict_get_or lock s (PyDict [])") (auto simp: lock_read_def)
  obtain e where e: "dict_get entries k = Some e" "v = Some e"
    using assms(2,3) ne d
    by (cases "dict_get entries k"; cases "miss_message me entries k label request") (auto simp: lock_read_def)
  then have "dict_get lock s = Some (PyDict entries)"
    using d by (cases "dict_get lock s") (auto simp: dict_get_or_def)
  then have "case e of PyDict d \<Rightarrow> d \<noteq> [] | _ \<Rightarrow> False"
    using assms(1) dict_get_in [OF e(1)] dict_get_in [of lock s "PyDict entries"] unfolding full_lock_def by fastforce
  then show ?thesis using e(2) by (cases e) auto
qed

lemma lock_read_world: "snd (lock_read me s k label request w) = w"
  by (auto simp: lock_read_def split: option.split pyval.split)

lemma offline_locked:
  assumes "full_lock lock" and "\<And>e. preserves (offline asked lock) (f e)"
  shows "preserves (offline asked lock) (andthen (lock_read me s k label request) (\<lambda>v. andthen (lift_res (locked_entry v)) (\<lambda>entry.
    case entry of Some e \<Rightarrow> f e | None \<Rightarrow> online)))"
  unfolding preserves_def
proof (intro allI impI)
  fix w
  assume w: "offline asked lock w"
  let ?rest = "\<lambda>v. andthen (lift_res (locked_entry v)) (\<lambda>entry. case entry of Some e \<Rightarrow> f e | None \<Rightarrow> online)"
  obtain r w' where r: "lock_read me s k label request w = (r, w')" by fastforce
  have w': "w' = w" using lock_read_world [of me s k label request w] r by simp
  show "offline asked lock (snd (andthen (lock_read me s k label request) ?rest w))"
  proof (cases r)
    case (Inl x)
    then show ?thesis using r w' w by (simp add: andthen_def)
  next
    case (Inr v)
    have "mw_lock w = Some lock" using w by (simp add: offline_def)
    then obtain d where d: "v = Some (PyDict d)" "d \<noteq> []" using lock_read_full [OF assms(1)] r Inr by blast
    then have "andthen (lock_read me s k label request) ?rest w = f d w"
      using r w' Inr by (simp add: andthen_def lift_res_def locked_entry_def)
    then show ?thesis using assms(2) w unfolding preserves_def by metis
  qed
qed

lemma offline_basic [preserved]:
  "preserves (offline asked lock) (put_source source field key v)" "preserves (offline asked lock) (add_source source key v)"
  "preserves (offline asked lock) (enter_source source field)" "preserves (offline asked lock) (get_pipeline_name me node fr)"
  "preserves (offline asked lock) (lock_write section key entry)" "preserves (offline asked lock) (set_embedded uid digest)"
  "preserves (offline asked lock) (set_rpms pipeline infos)" "preserves (offline asked lock) (sbom_write pipeline packages)"
  "preserves (offline asked lock) (find_and_open_file me path dirs)"
  by (auto simp: find_and_open_file_def lift_res_def preserves_def offline_def add_source_def put_source_def get_pipeline_name_def enter_source_def lock_write_def set_embedded_def set_rpms_def sbom_write_def
      update_world_def split: sum.split option.split)

lemma offline_node [preserved]: "preserves (offline asked lock) (get_mpp_node me parent name)"
  unfolding get_mpp_node_def by (rule preserved)

lemma preserves_fold [preserved]: "(\<And>x s. preserves I (f x s)) \<Longrightarrow> preserves I (fold_prog f xs s)"
  by (induction xs arbitrary: s) (auto intro: preserved)

lemma preserves_map_items [preserved]: "(\<And>v. preserves I (f v)) \<Longrightarrow> preserves I (map_items f d)"
  by (induction f d rule: map_items.induct) (auto intro!: preserved)

lemma offline_image [preserved]: "full_lock lock \<Longrightarrow> preserves (offline asked lock) (resolve_image me img source arch os needs_index)"
  unfolding resolve_image_def Let_def by (intro preserved offline_locked)

lemma offline_process_image [preserved]: "full_lock lock \<Longrightarrow> preserves (offline asked lock) (process_image me v st)"
proof -
  assume full: "full_lock lock"
  have arch: "preserves (offline asked lock) (\<lambda>w. lift_res (f w) w)" for f :: "mpp_world \<Rightarrow> pyval res"
    by (simp add: preserves_def lift_res_def)
  show ?thesis unfolding process_image_def Let_def by (auto intro!: preserved arch full split: pyval.split)
qed

lemma offline_waiting [preserved]: "preserves (offline asked lock) (waiting_input me stage name types directive)"
  unfolding waiting_input_def by (auto intro!: preserved split: prod.split)

lemma offline_container:
  "full_lock lock \<Longrightarrow> (\<And>x. preserves (offline asked lock) (fmt x)) \<Longrightarrow> preserves (offline asked lock) (process_container me fmt stage)"
  unfolding process_container_def by (auto intro!: preserved split: prod.split option.split)

lemma offline_commits: "full_lock lock \<Longrightarrow> preserves (offline asked lock) (process_ostree_commits me stage)"
  unfolding process_ostree_commits_def process_commit_def resolve_commit_def Let_def
  by (auto intro!: preserved offline_locked split: prod.split option.split)

lemma offline_embed:
  "full_lock lock \<Longrightarrow> (\<And>x. preserves (offline asked lock) (fmt x)) \<Longrightarrow> preserves (offline asked lock) (process_embed_files me fmt stage)"
  unfolding process_embed_files_def embed_input_def embed_data_def embed_source_def add_inline_def fetched_checksum_def Let_def
  by (auto intro!: preserved offline_locked split: prod.split option.split pyval.split)

lemma offline_packages:
  "full_lock lock \<Longrightarrow> (\<And>x. preserves (offline asked lock) (fmt x)) \<Longrightarrow> preserves (offline asked lock) (process_depsolve me fmt pipeline stage)"
  "full_lock lock \<Longrightarrow> (\<And>x. preserves (offline asked lock) (fmt x)) \<Longrightarrow> preserves (offline asked lock) (process_depsolve1 me fmt pipeline stage)"
  unfolding process_depsolve_def process_depsolve1_def depsolve_def add_packages_def add_package_def Let_def
  by (auto intro!: preserved offline_locked split: prod.split option.split pyval.split)

text \<open>A property that every stage keeps is kept by the expansion of the manifest.\<close>

locale kept_by_stages =
  fixes me :: mpp_env and I :: "mpp_world \<Rightarrow> bool"
  assumes stage_keeps: "(\<And>x. preserves I (fmt x)) \<Longrightarrow> preserves I (process_stage me fmt pipeline stage)"
    and sources_keep: "I w \<Longrightarrow> I (w\<lparr>mw_sources := s\<rparr>)"
begin

lemma name_keeps: "preserves I (get_pipeline_name me node fr)"
  by (simp add: preserves_def get_pipeline_name_def lift_res_def)

lemma eval_keeps: "preserves I (eval_code me code)" "preserves I (format_text me text)"
  by (simp_all add: preserves_def eval_code_def format_text_def)

lemma elems_keep: "(\<And>x. preserves I (format_node me format fr x)) \<Longrightarrow> preserves I (format_elems me format fr xs)"
  by (induction xs) (auto intro!: preserved split: option.split)

lemma node_keeps: "(\<And>fr v. preserves I (format fr v)) \<Longrightarrow> preserves I (format_node me format fr v)"
  unfolding format_node_def eval_format_def eval_if_def eval_text_def rewrite_node_def Let_def
  by (auto intro!: preserved eval_keeps split: option.split)

lemma once_keeps: "(\<And>fr v. preserves I (format fr v)) \<Longrightarrow> preserves I (format_once me format fr v)"
  unfolding format_once_def format_dict_node_def format_key_def
  by (auto intro!: preserved node_keeps elems_keep stage_keeps name_keeps split: pyval.split option.split prod.split list.split)

lemma value_keeps: "preserves I (format_tree me n fr v)"
proof (induction n arbitrary: fr v)
  case (Suc n)
  then show ?case by (simp add: once_keeps)
qed (simp add: preserved)

lemma manifest_keeps: "preserves I (process_format me n root)"
proof -
  have s: "preserves I (format_sources me n r)" for r
    unfolding format_sources_def using sources_keep by (intro preserved value_keeps preserves_update)
  show ?thesis unfolding process_format_def format_root_key_def format_key_def
    by (auto intro!: preserved s node_keeps value_keeps split: option.split)
qed

end

lemma stage_offline:
  assumes "full_lock lock" and "\<And>x. preserves (offline asked lock) (fmt x)"
  shows "preserves (offline asked lock) (process_stage me fmt pipeline stage)"
  unfolding process_stage_def
  by (simp, intro conjI impI preserved offline_packages offline_embed offline_container offline_commits assms)

lemma full_lock_offline: "full_lock lock \<Longrightarrow> kept_by_stages me (offline asked lock)"
  by unfold_locales (auto intro: stage_offline simp: offline_def)

text \<open>
  C30: A build with a lockfile asks nothing of the network or of other programs: whatever the manifest has, the
  containers, commits, embedded files and packages are those of the lockfile, or the build ends with an error.
\<close>

theorem locked_is_offline:
  assumes "mw_lock w = Some lock" and "full_lock lock"
  shows "mw_asked (snd (process_format me n root w)) = mw_asked w"
proof -
  have "preserves (offline (mw_asked w) lock) (process_format me n root)"
    by (rule kept_by_stages.manifest_keeps [OF full_lock_offline [OF assms(2)]])
  then show ?thesis using assms(1) by (simp add: preserves_def offline_def)
qed

text \<open>A host without a network, a lockfile with one container, and a stage that installs it.\<close>

definition sample_mv :: mpp_env where
  "sample_mv = \<lparr>mv_version = 2, mv_overrides = [], mv_searchdirs = [], mv_tmpdir = ''/tmp/repo'',
     mv_str = (\<lambda>v. case v of PyStr s \<Rightarrow> s | _ \<Rightarrow> ''?''), mv_repr = (\<lambda>v. []), mv_canonical = (\<lambda>v. ''c''), mv_sha256 = (\<lambda>s. ''abc''),
     mv_loads = (\<lambda>s. Inl Value_Error), mv_yaml = (\<lambda>s. Inl Value_Error), mv_eval = (\<lambda>c d. if c = ''True'' then Inr (PyBool True) else Inl Value_Error),
     mv_fstring = (\<lambda>c d. Inr c), mv_url = (\<lambda>s. None), mv_scheme = (\<lambda>s. Some True), mv_file_uri = (\<lambda>s. None), mv_getenv = (\<lambda>v. None),
     mv_exists = (\<lambda>p. False), mv_command = (\<lambda>asked cmd. Cmd_Exit 1), mv_fetch = (\<lambda>asked u. Inl OS_Error),
     mv_solve = (\<lambda>asked r. Inl (Runtime_Error [])), mv_read_file = (\<lambda>p. Inl File_Not_Found_Error), mv_base64 = id, mv_base64url = Inr\<rparr>"

definition sample_locked :: pyval where
  "sample_locked = PyDict [(''config_digest'', PyStr ''sha256:1''), (''manifest_digest'', PyStr ''sha256:2''), (''index_digest'', PyNone)]"

definition sample_lock :: dict where
  "sample_lock = [(''version'', PyInt 1), (''containers'', PyDict [(''abc'', omit_none sample_locked)])]"

definition mpp_start :: mpp_world where
  "mpp_start = \<lparr>mw_asked = [], mw_basedir = ''.'', mw_sources = [], mw_vars = [(''arch'', PyStr ''x86_64'')], mw_pipeline = No_Pipeline, mw_lock = Some sample_lock, mw_lock_out = None,
     mw_sbom = None\<rparr>"

definition skopeo_stage :: dict where
  "skopeo_stage = [(''type'', PyStr ''org.osbuild.skopeo''), (''inputs'', PyDict [(''images'', PyDict
     [(''type'', PyStr ''org.osbuild.containers''), (''origin'', PyStr ''org.osbuild.source''),
      (''mpp-resolve-images'', PyDict [(''images'', PyList [PyDict [(''source'', PyStr ''app'')]])])])])]"

definition rootfs_with :: "dict \<Rightarrow> dict" where
  "rootfs_with stage = [(''version'', PyStr ''2''), (''sources'', PyDict []),
     (''pipelines'', PyList [PyDict [(''name'', PyStr ''rootfs''), (''stages'', PyList [PyDict stage])]])]"

theorem lockfile_roundtrip_witness:
  "fst (lock_read sample_mv ''containers'' ''abc'' ''label'' [] mpp_start) = Inr (Some (omit_none sample_locked))"
proof -
  have w: "lf.puts [(''version'', PyInt 1)] [(''containers'', ''abc'', sample_locked)] = Inr sample_lock"
    by (simp add: write_entry_def element_enter_def sample_lock_def res_map_def)
  show ?thesis by (rule lockfile_roundtrip [OF w]) (simp_all add: mpp_start_def)
qed

theorem locked_is_offline_witness: "mw_asked (snd (process_format sample_mv 9 (rootfs_with skopeo_stage) mpp_start)) = []"
proof -
  have full: "full_lock sample_lock" by (simp add: full_lock_def sample_lock_def sample_locked_def)
  have start: "mw_lock mpp_start = Some sample_lock" by (simp add: mpp_start_def)
  show ?thesis using locked_is_offline [OF start full] by (simp add: mpp_start_def)
qed

section \<open>Locked images\<close>

text \<open>What a stage uses of a resolved image.\<close>

definition same_image :: "bool \<Rightarrow> resolved_image \<Rightarrow> resolved_image \<Rightarrow> bool" where
  "same_image needs_index r s \<longleftrightarrow> ri_id r = ri_id s \<and> ri_digest r = ri_digest s \<and> (needs_index \<longrightarrow> ri_index r = ri_index s)"

lemma keeps_lock_out [preserved]: "preserves (\<lambda>w. mw_lock_out w = out) (inspect_image me source tag digest transport)"
  unfolding inspect_image_def
  by (intro preserved) (auto simp: preserves_def ask_command_def split: cmd_result.split)

lemma keeps_lock_out_list [preserved]: "preserves (\<lambda>w. mw_lock_out w = out) (resolve_list me m arch os variant transport)"
  unfolding resolve_list_def by (intro preserved)

lemma preservesD: "preserves I m \<Longrightarrow> m w = (r, w1) \<Longrightarrow> I w \<Longrightarrow> I w1"
  unfolding preserves_def by (metis snd_conv)

lemma lock_write_Inr:
  "lock_write section key entry w = (Inr u, w1) \<Longrightarrow> mw_lock_out w = Some out \<Longrightarrow>
    \<exists>out'. write_entry out section key entry = Inr out' \<and> mw_lock_out w1 = Some out'"
  by (auto simp: lock_write_def split: sum.splits)

lemma loaded_digest:
  assumes "inspect_image me source tag digest transport w = (Inr m, w1)" shows "mf_digest m \<noteq> []"
proof -
  obtain raw where "make_manifest me source raw = Inr m"
    using assms by (auto simp: inspect_image_def andthen_Inr_iff lift_res_def)
  then obtain v where v: "(case v of PyDict json \<Rightarrow> res_bind (manifest_digest me raw json) (\<lambda>digest.
      Inr \<lparr>mf_name = source, mf_json = json, mf_schema = dict_get_or json ''schemaVersion'' (PyInt 0), mf_digest = digest\<rparr>)
    | _ \<Rightarrow> Inl Attribute_Error) = Inr m"
    unfolding make_manifest_def res_bind_Inr_iff by blast
  then obtain json d where d: "manifest_digest me raw json = Inr d" "mf_digest m = d"
    by (cases v) (auto simp: res_bind_Inr_iff)
  then show ?thesis unfolding manifest_digest_def res_bind_Inr_iff by auto
qed

text \<open>Resolving online writes the entry that says what was found.\<close>

definition image_entry :: "bool \<Rightarrow> pyval \<Rightarrow> resolved_image \<Rightarrow> pyval" where
  "image_entry needs_index request ri = PyDict
     [(''request'', request), (''config_digest'', ri_id ri), (''manifest_digest'', ri_digest ri),
      (''index_digest'', if needs_index then ri_index ri else PyNone)]"

lemma online_image_locks:
  assumes "online_image me img source arch os needs_index request key w = (Inr ri, w1)" and "mw_lock_out w = Some out"
  shows "\<exists>out'. mw_lock_out w1 = Some out' \<and> write_entry out ''containers'' key (image_entry needs_index request ri) = Inr out'"
    and "\<exists>d. ri_digest ri = PyStr d" and "\<exists>x. ri_index ri = PyStr x \<and> x \<noteq> []"
proof -
  obtain main wa resolved wb u where
      a: "inspect_image me source (dict_get_or img ''tag'' PyNone) (dict_get_or img ''digest'' PyNone)
            (dict_get_or img ''containers-transport'' PyNone) w = (Inr main, wa)" and
      b: "resolve_list me main arch os (dict_get_or img ''variant'' PyNone) (dict_get_or img ''containers-transport'' PyNone) wa
            = (Inr resolved, wb)" and
      c: "lock_write ''containers'' key (image_entry needs_index request ri) wb = (Inr u, w1)" and
      d: "ri_digest ri = PyStr (mf_digest resolved)" "ri_index ri = PyStr (mf_digest main)"
    using assms(1) by (cases needs_index) (auto simp: online_image_def Let_def seq_def andthen_Inr_iff lift_res_def ret_def image_entry_def)
  have "mw_lock_out wa = Some out" using preservesD [OF keeps_lock_out a] assms(2) by blast
  then have "mw_lock_out wb = Some out" using preservesD [OF keeps_lock_out_list b] by blast
  then show "\<exists>out'. mw_lock_out w1 = Some out' \<and> write_entry out ''containers'' key (image_entry needs_index request ri) = Inr out'"
    using lock_write_Inr [OF c] by blast
  show "\<exists>d. ri_digest ri = PyStr d" "\<exists>x. ri_index ri = PyStr x \<and> x \<noteq> []" using d loaded_digest [OF a] by auto
qed

lemma locked_entry_agrees:
  assumes "request = PyDict q" and "ri_id ri = PyStr i" and "ri_digest ri = PyStr d" and "ri_index ri = PyStr x" and "x \<noteq> []"
  shows "\<exists>e ri'. omit_none (image_entry needs_index request ri) = PyDict e \<and> e \<noteq> [] \<and>
    locked_image me source needs_index e = Inr ri' \<and> same_image needs_index ri ri'"
  using assms by (cases needs_index)
    (auto simp: image_entry_def locked_image_def same_image_def dict_get_or_def Let_def)

lemma container_request_dict: "lock_container_request img arch os = Inr request \<Longrightarrow> \<exists>q. request = PyDict q"
  by (auto simp: lock_container_request_def split: option.splits)

text \<open>
  C31: A locked image is the one that was resolved: what a build takes from the lockfile that was generated while
  an image was resolved online is the same image, with the same digests, and nothing is asked for it, whatever
  the network of the later build would answer.
\<close>

theorem locked_image_agrees:
  assumes "resolve_image me img source arch os needs_index w = (Inr ri, w1)" and "mw_lock w = None" and "mw_lock_out w = Some out"
    and "ri_id ri = PyStr i" and "mw_lock v = mw_lock_out w1"
    and "mv_sha256 other = mv_sha256 me" and "mv_canonical other = mv_canonical me"
  shows "\<exists>ri'. resolve_image other img source arch os needs_index v = (Inr ri', v) \<and> same_image needs_index ri ri'"
proof -
  obtain request where request: "lock_container_request img arch os = Inr request"
      "online_image me img source arch os needs_index request (lock_key me request) w = (Inr ri, w1)"
    using assms(1,2) by (auto simp: resolve_image_def Let_def andthen_Inr_iff lift_res_def lock_read_def locked_entry_def)
  note locks = online_image_locks [OF request(2) assms(3)]
  obtain out' where out': "mw_lock_out w1 = Some out'"
      "write_entry out ''containers'' (lock_key me request) (image_entry needs_index request ri) = Inr out'"
    using locks(1) by blast
  obtain e ri' where e: "omit_none (image_entry needs_index request ri) = PyDict e" "e \<noteq> []"
      "locked_image other source needs_index e = Inr ri'" "same_image needs_index ri ri'"
    using locked_entry_agrees [OF _ assms(4)] container_request_dict [OF request(1)] locks(2,3) by metis
  have entry: "lock_entry out' ''containers'' (lock_key me request) = Some (PyDict e)"
    using lf.look_put [OF out'(2)] e(1) by simp
  then obtain entries where d: "dict_get out' ''containers'' = Some (PyDict entries)" "dict_get entries (lock_key me request) = Some (PyDict e)"
    by (auto simp: lock_entry_def split: option.splits pyval.splits)
  then have "out' \<noteq> []" by auto
  have "lock_key other request = lock_key me request" using assms(6,7) by (simp add: lock_key_def)
  then have "resolve_image other img source arch os needs_index v = (Inr ri', v)"
    using request(1) assms(5) out'(1) d e(2,3) \<open>out' \<noteq> []\<close>
    by (simp add: resolve_image_def Let_def andthen_def lift_res_def lock_read_def dict_get_or_def locked_entry_def)
  then show ?thesis using e(4) by blast
qed

text \<open>A registry with one image, and a build that records what it resolves.\<close>

definition sample_online :: mpp_env where
  "sample_online = sample_mv\<lparr>mv_command := (\<lambda>asked cmd. Cmd_Ok ''m''),
     mv_loads := (\<lambda>s. Inr (PyDict [(''schemaVersion'', PyInt 2), (''config'', PyDict [(''digest'', PyStr ''sha256:1'')])]))\<rparr>"

definition recording :: mpp_world where
  "recording = mpp_start\<lparr>mw_lock := None, mw_lock_out := Some [(''version'', PyInt 1)]\<rparr>"

definition resolved_app :: "resolved_image res \<times> mpp_world" where
  "resolved_app = resolve_image sample_online [(''source'', PyStr ''app'')] (PyStr ''app'') (PyStr ''amd64'') (PyStr ''linux'') True recording"

definition found_app :: resolved_image where
  "found_app = \<lparr>ri_id = PyStr ''sha256:1'', ri_digest = PyStr ''sha256:abc'', ri_index = PyStr ''sha256:abc''\<rparr>"

lemma resolved_app_ok: "fst resolved_app = Inr found_app"
  by code_simp

theorem locked_image_agrees_witness:
  "\<exists>ri'. resolve_image sample_mv [(''source'', PyStr ''app'')] (PyStr ''app'') (PyStr ''amd64'') (PyStr ''linux'') True
      (mpp_start\<lparr>mw_lock := mw_lock_out (snd resolved_app)\<rparr>) = (Inr ri', mpp_start\<lparr>mw_lock := mw_lock_out (snd resolved_app)\<rparr>) \<and>
    same_image True found_app ri'"
proof (rule locked_image_agrees)
  show "resolve_image sample_online [(''source'', PyStr ''app'')] (PyStr ''app'') (PyStr ''amd64'') (PyStr ''linux'') True recording
      = (Inr found_app, snd resolved_app)"
    using resolved_app_ok unfolding resolved_app_def by (metis prod.collapse)
qed (simp_all add: recording_def found_app_def sample_online_def)

section \<open>Credentials\<close>

text \<open>No field for credentials or for a directory of the host at any depth.\<close>

fun no_secrets :: "pyval \<Rightarrow> bool" and all_no_secrets :: "pyval list \<Rightarrow> bool" and items_no_secrets :: "dict \<Rightarrow> bool" where
  "no_secrets (PyDict d) = items_no_secrets d"
| "no_secrets (PyList xs) = all_no_secrets xs"
| "no_secrets v = True"
| "all_no_secrets [] = True"
| "all_no_secrets (x # xs) = (no_secrets x \<and> all_no_secrets xs)"
| "items_no_secrets [] = True"
| "items_no_secrets ((k, v) # d) = (k \<notin> set lock_drop_fields \<and> no_secrets v \<and> items_no_secrets d)"

lemma sanitized [simp]: "no_secrets (lock_sanitize v)"
  and "all_no_secrets (sanitize_list vs)" and "items_no_secrets (sanitize_items d)"
  by (induction v and vs and d rule: lock_sanitize_sanitize_list_sanitize_items.induct) auto

lemma omit_keeps_clean: "no_secrets v \<Longrightarrow> no_secrets (omit_none v)"
  and "all_no_secrets vs \<Longrightarrow> all_no_secrets (omit_list vs)" and "items_no_secrets d \<Longrightarrow> items_no_secrets (omit_items d)"
  by (induction v and vs and d rule: omit_none_omit_list_omit_items.induct) auto

text \<open>The request that is kept with an entry, if there is one, is without them.\<close>

definition clean_entry :: "pyval \<Rightarrow> bool" where
  "clean_entry v \<longleftrightarrow> (\<forall>(k, r) \<in> set (request_items v). k = ''request'' \<longrightarrow> no_secrets r)"

definition clean_out :: "mpp_world \<Rightarrow> bool" where
  "clean_out w \<longleftrightarrow> (\<forall>lock s k v. mw_lock_out w = Some lock \<longrightarrow> lock_entry lock s k = Some v \<longrightarrow> clean_entry v)"

lemma omit_items_subset: "set (omit_items d) \<subseteq> (\<lambda>(k, v). (k, omit_none v)) ` set d"
proof (induction d)
  case (Cons e d)
  then show ?case by (cases e) (auto 4 3)
qed simp

lemma omit_items_in: "(k, r) \<in> set (omit_items d) \<Longrightarrow> \<exists>r0. (k, r0) \<in> set d \<and> r = omit_none r0"
  using omit_items_subset [of d] by auto

lemma clean_entry_omit: "clean_entry v \<Longrightarrow> clean_entry (omit_none v)"
  unfolding clean_entry_def request_items_def
  by (cases v) (auto dest!: omit_items_in intro: omit_keeps_clean)

lemma clean_basic [preserved]:
  "preserves clean_out (put_source source field key v)" "preserves clean_out (add_source source key v)" "preserves clean_out (enter_source source field)" "preserves clean_out (ask_command me cmd)"
  "preserves clean_out (fetch_url me url)" "preserves clean_out (ask_solver me r)" "preserves clean_out (rev_parse me repo ref)"
  "preserves clean_out (set_embedded uid digest)" "preserves clean_out (set_rpms pipeline infos)" "preserves clean_out (sbom_write pipeline packages)"
  "preserves clean_out (find_and_open_file me path dirs)"
  by (auto simp: find_and_open_file_def lift_res_def preserves_def clean_out_def add_source_def put_source_def enter_source_def ask_command_def fetch_url_def ask_solver_def
      rev_parse_def set_embedded_def set_rpms_def sbom_write_def update_world_def Let_def split: sum.split option.split cmd_result.split)

lemma clean_read [preserved]: "preserves clean_out (lock_read me s k label request)"
  by (simp add: preserves_def lock_read_world)

lemma clean_write [preserved]: "clean_entry entry \<Longrightarrow> preserves clean_out (lock_write section key entry)"
  unfolding preserves_def
proof (intro allI impI)
  fix w
  assume e: "clean_entry entry" and w: "clean_out w"
  show "clean_out (snd (lock_write section key entry w))"
  proof (cases "mw_lock_out w")
    case None
    then show ?thesis using w by (simp add: lock_write_def)
  next
    case (Some out)
    then show ?thesis using w clean_entry_omit [OF e] lf.look_put [where l = out]
      by (auto simp: lock_write_def clean_out_def split: sum.splits if_splits)
  qed
qed

lemma clean_get_vars [preserved]: "preserves clean_out (\<lambda>w. lift_res (f w) w)"
  by (simp add: preserves_def lift_res_def)

lemma clean_node [preserved]: "preserves clean_out (get_mpp_node me parent name)"
  unfolding get_mpp_node_def by (rule preserved)

lemma clean_waiting [preserved]: "preserves clean_out (waiting_input me stage name types directive)"
  unfolding waiting_input_def by (auto intro!: preserved split: prod.split)

lemma request_clean: "lock_container_request img arch os = Inr request \<Longrightarrow> no_secrets request"
  by (auto simp: lock_container_request_def split: option.splits simp del: lock_sanitize.simps)

lemma clean_load [preserved]: "preserves clean_out (inspect_image me source tag digest transport)"
  unfolding inspect_image_def by (intro preserved)

lemma clean_list [preserved]: "preserves clean_out (resolve_list me m arch os variant transport)"
  unfolding resolve_list_def by (intro preserved)

lemma clean_online [preserved]: "no_secrets request \<Longrightarrow> preserves clean_out (online_image me img source arch os needs_index request key)"
  unfolding online_image_def Let_def by (intro preserved) (simp add: clean_entry_def request_items_def)

lemma andthen_lift: "andthen (lift_res r) f w = (case r of Inl e \<Rightarrow> (Inl e, w) | Inr x \<Rightarrow> f x w)"
  by (simp add: andthen_def lift_res_def)

lemma preserves_lifted: "(\<And>x. r = Inr x \<Longrightarrow> preserves I (f x)) \<Longrightarrow> preserves I (andthen (lift_res r) f)"
  by (auto simp: preserves_def andthen_lift split: sum.split)

lemma clean_image [preserved]: "preserves clean_out (resolve_image me img source arch os needs_index)"
  unfolding resolve_image_def Let_def
  by (rule preserves_lifted) (auto intro!: preserved request_clean split: option.split)

lemma clean_process_image [preserved]: "preserves clean_out (process_image me v st)"
  unfolding process_image_def Let_def by (auto intro!: preserved split: pyval.split)

lemma clean_container: "(\<And>x. preserves clean_out (fmt x)) \<Longrightarrow> preserves clean_out (process_container me fmt stage)"
  unfolding process_container_def by (auto intro!: preserved split: prod.split option.split)

lemma clean_commits: "preserves clean_out (process_ostree_commits me stage)"
  unfolding process_ostree_commits_def process_commit_def resolve_commit_def online_commit_def setup_remote_def ostree_cli_def Let_def
  by (auto intro!: preserved simp: clean_entry_def request_items_def simp del: lock_sanitize.simps split: prod.split option.split)

lemma clean_embed: "(\<And>x. preserves clean_out (fmt x)) \<Longrightarrow> preserves clean_out (process_embed_files me fmt stage)"
  unfolding process_embed_files_def embed_input_def embed_data_def embed_source_def add_inline_def fetched_checksum_def Let_def
  by (auto intro!: preserved simp: clean_entry_def request_items_def split: prod.split option.split pyval.split)

lemma clean_packages: "(\<And>x. preserves clean_out (fmt x)) \<Longrightarrow> preserves clean_out (process_depsolve me fmt pipeline stage)"
  "(\<And>x. preserves clean_out (fmt x)) \<Longrightarrow> preserves clean_out (process_depsolve1 me fmt pipeline stage)"
  unfolding process_depsolve_def process_depsolve1_def depsolve_def solved_packages_def solve_packages_def osbuild_resolve_def add_packages_def add_package_def Let_def
  by (auto intro!: preserved simp: clean_entry_def request_items_def simp del: lock_sanitize.simps split: prod.split option.split pyval.split)

lemma stage_clean:
  assumes "\<And>x. preserves clean_out (fmt x)" shows "preserves clean_out (process_stage me fmt pipeline stage)"
  unfolding process_stage_def by (simp, intro conjI impI preserved clean_packages clean_embed clean_container clean_commits assms)

interpretation clean: kept_by_stages me clean_out for me
  by unfold_locales (auto intro: stage_clean simp: clean_out_def)

text \<open>
  C32: The requests of a generated lockfile never contain the fields for credentials (keys and certificates of
  the client, user names, passwords) or root directories, at no depth, whatever the stages ask for.
\<close>

theorem requests_have_no_credentials:
  assumes "clean_out w" and "mw_lock_out (snd (process_format me n root w)) = Some lock"
    and "lock_entry lock s k = Some (PyDict e)" and "(''request'', r) \<in> set e"
  shows "no_secrets r"
proof -
  have "clean_out (snd (process_format me n root w))"
    using clean.manifest_keeps [of me n root] assms(1) by (simp add: preserves_def)
  then have "clean_entry (PyDict e)" using assms(2,3) unfolding clean_out_def by blast
  then show ?thesis using assms(4) by (auto simp: clean_entry_def request_items_def)
qed

text \<open>A stage that installs a package from a repository with a key of the client.\<close>

definition rpm_stage :: dict where
  "rpm_stage = [(''type'', PyStr ''org.osbuild.rpm''), (''inputs'', PyDict [(''packages'', PyDict [(''mpp-depsolve'', PyDict
     [(''module-platform-id'', PyStr ''el10''), (''packages'', PyList [PyStr ''bash'']),
      (''repos'', PyList [PyDict [(''id'', PyStr ''base''), (''baseurl'', PyStr ''http://r''), (''sslclientkey'', PyStr ''/etc/key'')]])])])])]"

definition bash_package :: solved_package where
  "bash_package = \<lparr>sd_name = PyStr ''bash'', sd_version = PyStr ''5'', sd_release = PyStr ''1'', sd_epoch = 0,
     sd_checksum = PyStr ''sha256:9'', sd_arch = PyStr ''x86_64'', sd_license = PyNone, sd_summary = PyNone, sd_source_rpm = PyNone,
     sd_build_time = PyNone, sd_vendor = PyNone, sd_requires = [], sd_provides = [''sh''], sd_locations = [], sd_repo = ''base''\<rparr>"

definition rpm_solver :: mpp_env where
  "rpm_solver = sample_online\<lparr>mv_solve := (\<lambda>asked r. Inr ([bash_package], []))\<rparr>"

definition rpm_built :: "dict res \<times> mpp_world" where
  "rpm_built = process_format rpm_solver 12 (rootfs_with rpm_stage) recording"

definition rpm_request :: pyval where
  "rpm_request = PyDict [(''module-platform-id'', PyStr ''el10''), (''packages'', PyList [PyStr ''bash'']),
     (''repos'', PyList [PyDict [(''id'', PyStr ''base''), (''baseurl'', PyStr ''http://r'')]])]"

definition rpm_entry :: dict where
  "rpm_entry = [(''request'', rpm_request), (''packages'', PyList [PyDict [(''checksum'', PyStr ''sha256:9''), (''name'', PyStr ''bash''),
     (''evr'', PyStr ''5-1''), (''arch'', PyStr ''x86_64'')]])]"

definition rpm_lock :: dict where
  "rpm_lock = [(''version'', PyInt 1), (''depsolves'', PyDict [(''abc'', PyDict rpm_entry)])]"

lemma rpm_built_lock: "mw_lock_out (snd rpm_built) = Some rpm_lock"
  by code_simp

theorem requests_have_no_credentials_witness: "no_secrets rpm_request"
proof (rule requests_have_no_credentials)
  show "mw_lock_out (snd (process_format rpm_solver 12 (rootfs_with rpm_stage) recording)) = Some rpm_lock"
    using rpm_built_lock by (simp add: rpm_built_def)
  show "lock_entry rpm_lock ''depsolves'' ''abc'' = Some (PyDict rpm_entry)" by (simp add: rpm_lock_def lock_entry_def)
  show "clean_out recording" by (simp add: clean_out_def recording_def lock_entry_def split: if_splits)
qed (simp add: rpm_entry_def)

section \<open>Lists of manifests\<close>

text \<open>Every manifest has a platform that can be read and a digest that is not empty.\<close>

definition readable :: "pyval \<Rightarrow> pyval \<Rightarrow> pyval \<Rightarrow> bool" where
  "readable arch os m \<longleftrightarrow> (\<forall>v. \<exists>b. platform_matches arch os v m = Inr b) \<and> (\<exists>d. py_item m ''digest'' = Inr d \<and> py_truthy d)"

definition fits :: "pyval \<Rightarrow> pyval \<Rightarrow> pyval \<Rightarrow> pyval \<Rightarrow> bool" where
  "fits arch os variant m \<longleftrightarrow> platform_matches arch os variant m = Inr True"

lemma match_platform_fits:
  assumes "\<And>m. m \<in> set ms \<Longrightarrow> readable arch os m"
  shows "\<exists>d. match_platform arch os variant ms = Inr d \<and> (py_truthy d \<longleftrightarrow> (\<exists>m \<in> set ms. fits arch os variant m)) \<and>
    (py_truthy d \<longrightarrow> (\<exists>m \<in> set ms. fits arch os variant m \<and> py_item m ''digest'' = Inr d))"
  using assms
proof (induction ms)
  case (Cons m ms)
  have m: "readable arch os m" using Cons.prems by simp
  obtain ok where ok: "platform_matches arch os variant m = Inr ok"
    using m unfolding readable_def by blast
  show ?case
  proof (cases ok)
    case True
    then show ?thesis using m ok by (auto simp: readable_def fits_def)
  next
    case False
    then show ?thesis using Cons.IH Cons.prems ok by (auto simp: fits_def)
  qed
qed simp

lemma fits_any: "fits arch os variant m \<Longrightarrow> \<not> py_truthy w \<Longrightarrow> fits arch os w m"
  unfolding fits_def platform_matches_def res_bind_Inr_iff by auto

text \<open>
  The image that is taken from a manifest list fits: an image is found exactly if the list has one for the
  architecture, the system and the variant; it is one of those; and if no variant is asked for, an image for
  the default variant of the architecture goes before the others.
\<close>

theorem picked_image_fits:
  assumes "\<And>m. m \<in> set ms \<Longrightarrow> readable arch os m"
  shows "\<exists>d. pick_digest arch os variant ms = Inr d \<and> (py_truthy d \<longleftrightarrow> (\<exists>m \<in> set ms. fits arch os variant m)) \<and>
    (py_truthy d \<longrightarrow> (\<exists>m \<in> set ms. fits arch os variant m \<and> py_item m ''digest'' = Inr d \<and>
      (\<forall>v. \<not> py_truthy variant \<longrightarrow> default_variant arch = Some v \<longrightarrow> (\<exists>m' \<in> set ms. fits arch os v m') \<longrightarrow> fits arch os v m)))"
proof -
  have match: "\<exists>d. match_platform arch os v ms = Inr d \<and> (py_truthy d \<longleftrightarrow> (\<exists>m \<in> set ms. fits arch os v m)) \<and>
    (py_truthy d \<longrightarrow> (\<exists>m \<in> set ms. fits arch os v m \<and> py_item m ''digest'' = Inr d))" for v
    using assms by (rule match_platform_fits)
  show ?thesis
  proof (cases "py_truthy variant")
    case True
    then show ?thesis using match [of variant] by (auto simp: pick_digest_def)
  next
    case False
    have same: "fits arch os PyNone m \<longleftrightarrow> fits arch os variant m" for m using fits_any False by (metis py_truthy.simps(1))
    obtain d where d: "match_platform arch os PyNone ms = Inr d" "py_truthy d \<longleftrightarrow> (\<exists>m \<in> set ms. fits arch os variant m)"
        "py_truthy d \<longrightarrow> (\<exists>m \<in> set ms. fits arch os variant m \<and> py_item m ''digest'' = Inr d)"
      using match [of PyNone] same by auto
    show ?thesis
    proof (cases "default_variant arch")
      case None
      then show ?thesis using False d by (simp add: pick_digest_def)
    next
      case (Some v)
      obtain e where e: "match_platform arch os v ms = Inr e" "py_truthy e \<longleftrightarrow> (\<exists>m \<in> set ms. fits arch os v m)"
          "py_truthy e \<longrightarrow> (\<exists>m \<in> set ms. fits arch os v m \<and> py_item m ''digest'' = Inr e)"
        using match [of v] by auto
      have any: "fits arch os v m \<Longrightarrow> fits arch os variant m" for m using fits_any False by blast
      show ?thesis
      proof (cases "py_truthy e")
        case True
        then show ?thesis using False Some e any by (auto simp: pick_digest_def)
      next
        case no: False
        then show ?thesis using False Some e d by (auto simp: pick_digest_def)
      qed
    qed
  qed
qed

theorem picked_image_fits_witness:
  "\<exists>d. pick_digest (PyStr ''arm64'') (PyStr ''linux'') PyNone
      [PyDict [(''digest'', PyStr ''sha256:7''), (''platform'', PyDict [(''architecture'', PyStr ''arm64''), (''os'', PyStr ''linux'')])]] = Inr d \<and>
    py_truthy d"
proof -
  let ?ms = "[PyDict [(''digest'', PyStr ''sha256:7''), (''platform'', PyDict [(''architecture'', PyStr ''arm64''), (''os'', PyStr ''linux'')])]]"
  have "readable (PyStr ''arm64'') (PyStr ''linux'') m" if "m \<in> set ?ms" for m
    using that by (simp add: readable_def platform_matches_def dict_get_or_def)
  moreover have "\<exists>m \<in> set ?ms. fits (PyStr ''arm64'') (PyStr ''linux'') PyNone m"
    by (simp add: fits_def platform_matches_def dict_get_or_def)
  ultimately show ?thesis using picked_image_fits [of ?ms "PyStr ''arm64''" "PyStr ''linux''" PyNone] by blast
qed

end
