(* ===== verification/Mpp_Format_Laws.thy ===== *)
theory Mpp_Format_Laws
  imports Mpp_Laws
begin

text \<open>
  Properties of the expansion of manifests: no directive is left, and the traversal ends within the depth of
  the manifest.
\<close>

section \<open>Expanded values\<close>

text \<open>Nothing below is a directive.\<close>

inductive expanded :: "pyval \<Rightarrow> bool" where
  expanded_leaf: "(\<And>d. v \<noteq> PyDict d) \<Longrightarrow> (\<And>xs. v \<noteq> PyList xs) \<Longrightarrow> expanded v"
| expanded_list: "(\<And>x. x \<in> set xs \<Longrightarrow> expanded x) \<Longrightarrow> expanded (PyList xs)"
| expanded_dict: "\<not> is_format (PyDict d) \<Longrightarrow> (\<And>k v. dict_get d k = Some v \<Longrightarrow> expanded v) \<Longrightarrow> expanded (PyDict d)"

inductive_simps expanded_PyList [simp]: "expanded (PyList xs)"
  and expanded_PyDict: "expanded (PyDict d)" and expanded_PyStr: "expanded (PyStr s)" and expanded_PyInt: "expanded (PyInt i)"

lemma expanded_text [simp]: "expanded (PyStr s)" "expanded (PyInt i)" "expanded PyNone" "expanded (PyBool b)"
  by (rule expanded_leaf; simp)+

text \<open>What Python code and JSON texts give has no directives.\<close>

definition plain_answers :: "mpp_env \<Rightarrow> bool" where
  "plain_answers me \<longleftrightarrow> (\<forall>c d r. mv_eval me c d = Inr r \<longrightarrow> expanded r) \<and> (\<forall>s r. mv_loads me s = Inr r \<longrightarrow> expanded r)"

definition expands :: "formatter \<Rightarrow> bool" where
  "expands format \<longleftrightarrow> (\<forall>fr v w v' w'. format fr v w = (Inr v', w') \<longrightarrow>
     (\<not> is_format v \<longrightarrow> expanded v') \<and> (\<forall>d. v = PyDict d \<longrightarrow> (\<exists>d'. v' = PyDict d')))"

lemma exit_on_error_Inr [simp]: "exit_on_error r = Inr x \<longleftrightarrow> r = Inr x"
  by (cases r) (auto simp: exit_on_error_def)

lemma strings_expanded: "py_iter v = Inr xs \<Longrightarrow> (\<And>ys. v = PyList ys \<Longrightarrow> expanded v) \<Longrightarrow> x \<in> set xs \<Longrightarrow> expanded x"
  by (cases v) auto

lemma res_mapM_in: "res_mapM f xs = Inr ys \<Longrightarrow> y \<in> set ys \<Longrightarrow> \<exists>x \<in> set xs. f x = Inr y"
  by (induction xs arbitrary: ys) (auto simp: res_bind_Inr_iff)

lemma join_expanded:
  assumes "join_lists l = Inr r" and "\<And>ys. l = PyList ys \<Longrightarrow> expanded l" shows "expanded r"
proof -
  obtain xs yss where xs: "py_iter l = Inr xs" "res_mapM py_iter xs = Inr yss" "r = PyList (concat yss)"
    using assms(1) by (auto simp: join_lists_def res_bind_Inr_iff res_map_def split: sum.splits)
  have "expanded y" if y: "y \<in> set ys" "ys \<in> set yss" for y ys
  proof -
    obtain x where x: "x \<in> set xs" "py_iter x = Inr ys" using res_mapM_in [OF xs(2) y(2)] by blast
    have "expanded x" by (rule strings_expanded [OF xs(1) assms(2) x(1)])
    then show ?thesis using strings_expanded [OF x(2) _ y(1)] by blast
  qed
  then show ?thesis using xs(3) by auto
qed

section \<open>Stages keep the form of a node\<close>

lemma element_enter_other: "element_enter e k = Inr (e', d) \<Longrightarrow> k' \<noteq> k \<Longrightarrow> dict_get e' k' = dict_get e k'"
  by (auto simp: element_enter_def split: option.splits pyval.splits)

definition same_form :: "dict \<Rightarrow> dict \<Rightarrow> bool" where
  "same_form d e \<longleftrightarrow> (\<forall>k. k \<notin> {''inputs'', ''options''} \<longrightarrow> dict_get e k = dict_get d k)"

lemma same_form_refl [simp]: "same_form d d"
  by (simp add: same_form_def)

lemma same_form_trans: "same_form d e \<Longrightarrow> same_form e f \<Longrightarrow> same_form d f"
  by (simp add: same_form_def)

lemma put_input_form: "element_enter stage ''inputs'' = Inr (stage1, inputs) \<Longrightarrow> same_form stage (put_input stage1 i n d)"
  "element_enter stage ''inputs'' = Inr (stage1, inputs) \<Longrightarrow> same_form stage (dict_set stage1 ''inputs'' v)"
  by (auto simp: same_form_def put_input_def element_enter_other)

lemma depsolve_form: "process_depsolve me fmt p stage w = (Inr s, w') \<Longrightarrow> same_form stage s"
  by (auto simp: process_depsolve_def andthen_Inr_iff lift_res_def ret_def seq_def put_input_form split: if_splits prod.splits option.splits)

lemma options_form: "same_form stage (dict_set stage ''options'' v)"
  by (simp add: same_form_def)

lemma depsolve1_form: "process_depsolve1 me fmt p stage w = (Inr s, w') \<Longrightarrow> same_form stage s"
  by (cases "dict_get_or stage ''options'' PyNone")
    (auto simp: process_depsolve1_def Let_def andthen_Inr_iff lift_res_def ret_def raise_exn_def seq_def intro: options_form
      split: if_splits prod.splits option.splits)

lemma embed_form: "process_embed_files me fmt stage w = (Inr s, w') \<Longrightarrow> same_form stage s"
  by (auto simp: process_embed_files_def andthen_Inr_iff ret_def raise_exn_def same_form_def split: option.splits pyval.splits)

lemma waiting_form:
  "waiting_input me stage n types dr w = (Inr (stage1, i, d, node), w') \<Longrightarrow> \<exists>inputs. element_enter stage ''inputs'' = Inr (stage1, inputs)"
  by (auto simp: waiting_input_def andthen_Inr_iff lift_res_def ret_def split: if_splits prod.splits)

lemma container_form: "process_container me fmt stage w = (Inr s, w') \<Longrightarrow> same_form stage s"
  by (auto simp: process_container_def andthen_Inr_iff lift_res_def ret_def split: if_splits prod.splits option.splits
      dest!: waiting_form intro: put_input_form)

lemma commits_form: "process_ostree_commits me stage w = (Inr s, w') \<Longrightarrow> same_form stage s"
  by (auto simp: process_ostree_commits_def Let_def seq_def andthen_Inr_iff lift_res_def ret_def split: if_splits prod.splits option.splits
      dest!: waiting_form intro: put_input_form)

lemma stage_form: "process_stage me fmt p stage w = (Inr s, w') \<Longrightarrow> same_form stage s"
  by (auto simp: process_stage_def andthen_Inr_iff split: if_splits dest!: depsolve_form depsolve1_form embed_form container_form commits_form
      intro: same_form_trans)

lemma same_form_format: "same_form d e \<Longrightarrow> is_format (PyDict e) \<longleftrightarrow> is_format (PyDict d)"
  by (simp add: same_form_def is_format_def format_keys_def)

section \<open>Expansion\<close>

lemma rewrite_expanded:
  assumes "expands format" and "rewrite_node format fr v w = (Inr (Some x), w')" shows "expanded x"
proof -
  obtain l w1 where l: "format fr (PyList [v]) w = (Inr l, w1)" "(case l of PyList (x # xs) \<Rightarrow> Some x | _ \<Rightarrow> None) = Some x"
    using assms(2) by (auto simp: rewrite_node_def andthen_Inr_iff ret_def)
  have "expanded l" using assms(1) l(1) unfolding expands_def by (fastforce simp: is_format_def)
  then show ?thesis using l(2) by (auto split: pyval.splits list.splits)
qed

lemma text_expanded: "plain_answers me \<Longrightarrow> eval_text me node w = (Inr x, w') \<Longrightarrow> expanded x"
  by (auto simp: eval_text_def andthen_Inr_iff ret_def lift_res_def plain_answers_def format_int_def split: option.splits)

lemma eval_format_expanded:
  assumes "plain_answers me" and "expands format" and "eval_format me format fr v w = (Inr (Some x), w')" shows "expanded x"
proof -
  let ?node = "request_items v"
  consider (join) l where "dict_get ?node ''mpp-join'' = Some l"
    | (cond) code where "dict_get ?node ''mpp-join'' = None" "dict_get ?node ''mpp-if'' = Some code"
    | (evaled) code where "dict_get ?node ''mpp-join'' = None" "dict_get ?node ''mpp-if'' = None" "dict_get ?node ''mpp-eval'' = Some code"
    | (formatted) "dict_get ?node ''mpp-join'' = None" "dict_get ?node ''mpp-if'' = None" "dict_get ?node ''mpp-eval'' = None"
    by fastforce
  then show ?thesis
  proof cases
    case join
    then obtain l' w1 where l': "format fr l w = (Inr l', w1)" "join_lists l' = Inr x"
      using assms(3) by (auto simp: eval_format_def andthen_Inr_iff lift_res_def ret_def)
    have "expanded l'" if "l' = PyList ys" for ys
    proof -
      have "l \<noteq> PyDict d" for d using assms(2) l'(1) that unfolding expands_def by blast
      then have "\<not> is_format l" by (auto simp: is_format_def split: pyval.split)
      then show ?thesis using assms(2) l'(1) unfolding expands_def by blast
    qed
    then show ?thesis using join_expanded [OF l'(2)] by blast
  next
    case cond
    then obtain r w1 y where "rewrite_node format fr y w1 = (Inr (Some x), w')"
      using assms(3) by (auto simp: eval_format_def eval_if_def andthen_Inr_iff ret_def split: option.splits)
    then show ?thesis using rewrite_expanded [OF assms(2)] by blast
  next
    case evaled
    then show ?thesis using assms(1,3)
      by (auto simp: eval_format_def eval_code_def andthen_Inr_iff ret_def plain_answers_def res_bind_Inr_iff)
  next
    case formatted
    then show ?thesis using assms(1,3) by (auto simp: eval_format_def andthen_Inr_iff ret_def intro: text_expanded)
  qed
qed

lemma node_expanded:
  "plain_answers me \<Longrightarrow> expands format \<Longrightarrow> format_node me format fr v w = (Inr (Some x), w') \<Longrightarrow> expanded x"
proof (cases "is_format v")
  case False
  assume e: "expands format" and "format_node me format fr v w = (Inr (Some x), w')"
  then have "format fr v w = (Inr x, w')" using False by (auto simp: format_node_def andthen_Inr_iff ret_def)
  then show ?thesis using e False unfolding expands_def by blast
qed (simp add: format_node_def eval_format_expanded)

lemma elems_expanded:
  "plain_answers me \<Longrightarrow> expands format \<Longrightarrow> format_elems me format fr xs w = (Inr ys, w') \<Longrightarrow> y \<in> set ys \<Longrightarrow> expanded y"
proof (induction xs arbitrary: w ys)
  case (Cons x xs)
  then obtain r w1 zs where r: "format_node me format fr x w = (Inr r, w1)" "format_elems me format fr xs w1 = (Inr zs, w')"
      "ys = (case r of Some y \<Rightarrow> y # zs | None \<Rightarrow> zs)"
    by (auto simp: andthen_Inr_iff ret_def)
  then show ?case using Cons.IH [OF Cons.prems(1,2) r(2)] Cons.prems node_expanded [OF Cons.prems(1,2)] by (cases r) auto
qed (simp add: ret_def)

lemma key_result:
  assumes "format_key me format fr k d w = (Inr d', w')"
  obtains r v w1 where "format_node me format ((d, k) # fr) v w = (Inr r, w')" "d' = (case r of Some x \<Rightarrow> dict_set d k x | None \<Rightarrow> dict_del d k)"
  using assms by (auto simp: format_key_def raise_exn_def andthen_Inr_iff ret_def split: option.splits)

lemma keys_expanded:
  assumes "plain_answers me" and "expands format"
  shows "fold_prog (format_key me format fr) ks d w = (Inr d', w') \<Longrightarrow>
    (\<forall>k v. dict_get d' k = Some v \<longrightarrow> expanded v \<or> k \<notin> set ks \<and> dict_get d k = Some v) \<and>
    (\<forall>k. dict_get d k = None \<longrightarrow> k \<notin> set ks \<longrightarrow> dict_get d' k = None)"
proof (induction ks arbitrary: d w)
  case (Cons k ks)
  obtain d1 w1 where d1: "format_key me format fr k d w = (Inr d1, w1)" "fold_prog (format_key me format fr) ks d1 w1 = (Inr d', w')"
    using Cons.prems by (auto simp: andthen_Inr_iff)
  obtain r v where r: "format_node me format ((d, k) # fr) v w = (Inr r, w1)" "d1 = (case r of Some x \<Rightarrow> dict_set d k x | None \<Rightarrow> dict_del d k)"
    using key_result [OF d1(1)] by metis
  have x: "r = Some x \<Longrightarrow> expanded x" for x using node_expanded [OF assms] r(1) by blast
  show ?case using Cons.IH [OF d1(2)] r(2) x by (cases r) (auto split: if_splits)
qed (simp add: ret_def)

lemma dict_node_form: "format_dict_node me format fr node w = (Inr d, w') \<Longrightarrow> same_form node d"
  by (auto simp: format_dict_node_def andthen_Inr_iff lift_res_def ret_def intro: stage_form split: list.splits prod.splits if_splits)

lemma dict_keys_iff: "k \<in> set (dict_keys d) \<longleftrightarrow> dict_get d k \<noteq> None"
  using dict_get_None_iff [of d k] by (auto simp: dict_keys_def)

lemma dict_keys_get: "dict_get d k = Some v \<Longrightarrow> k \<in> set (dict_keys d)"
  by (simp add: dict_keys_iff)

lemma once_expands:
  assumes "plain_answers me" and "expands format" shows "expands (format_once me format)"
  unfolding expands_def
proof (intro allI impI conjI)
  fix fr v w v' w'
  assume r: "format_once me format fr v w = (Inr v', w')"
  show "\<exists>d'. v' = PyDict d'" if "v = PyDict d" for d
    using r that by (auto simp: format_once_def andthen_Inr_iff ret_def)
  show "expanded v'" if "\<not> is_format v"
  proof (cases v)
    case (PyDict node)
    obtain d w1 d' where d: "format_dict_node me format fr node w = (Inr d, w1)"
        "fold_prog (format_key me format fr) (dict_keys d) d w1 = (Inr d', w')" "v' = PyDict d'"
      using r PyDict by (auto simp: format_once_def andthen_Inr_iff ret_def)
    note keys = keys_expanded [OF assms d(2)]
    have "\<not> is_format (PyDict d)" using same_form_format [OF dict_node_form [OF d(1)]] that PyDict by simp
    moreover have "dict_get d k \<noteq> None" if "dict_get d' k \<noteq> None" for k
      using conjunct2 [OF keys, rule_format, of k] that dict_keys_iff [of k d] by (cases "dict_get d k") auto
    ultimately have "\<not> is_format (PyDict d')" unfolding is_format_def list_ex_iff by (simp, blast)
    moreover have "expanded x" if "dict_get d' k = Some x" for k x
      using conjunct1 [OF keys, rule_format, of k x] that dict_keys_get [of d k x] by blast
    ultimately show ?thesis using d(3) by (auto intro: expanded_dict)
  next
    case (PyList xs)
    then show ?thesis using r elems_expanded [OF assms] by (auto simp: format_once_def andthen_Inr_iff ret_def)
  qed (use r in \<open>auto simp: format_once_def ret_def intro!: expanded_leaf\<close>)
qed

lemma tree_expands: "plain_answers me \<Longrightarrow> expands (format_tree me n)"
proof (induction n)
  case 0
  then show ?case by (simp add: expands_def raise_exn_def)
next
  case (Suc n)
  then show ?case by (simp add: once_expands)
qed

lemma root_expanded:
  assumes "plain_answers me"
  shows "fold_prog (format_root_key me n) ks root w = (Inr root', w') \<Longrightarrow>
    \<forall>k v. dict_get root' k = Some v \<longrightarrow> expanded v \<or> (k \<notin> set ks \<or> k = ''sources'') \<and> dict_get root k = Some v"
proof (induction ks arbitrary: root w)
  case (Cons k ks)
  obtain r1 w1 where r1: "format_root_key me n k root w = (Inr r1, w1)" "fold_prog (format_root_key me n) ks r1 w1 = (Inr root', w')"
    using Cons.prems by (auto simp: andthen_Inr_iff)
  show ?case
  proof (cases "k = ''sources''")
    case True
    then have "r1 = root" using r1(1) by (auto simp: format_root_key_def seq_def andthen_Inr_iff ret_def)
    then show ?thesis using Cons.IH [OF r1(2)] True by auto
  next
    case False
    then have "fold_prog (format_key me (format_tree me n) []) [k] root w = (Inr r1, w1)"
      using r1(1) by (simp add: format_root_key_def andthen_Inr_iff ret_def)
    from keys_expanded [OF assms tree_expands [OF assms] this] show ?thesis using Cons.IH [OF r1(2)] by auto
  qed
qed (simp add: ret_def)


text \<open>A pipeline with a condition.\<close>

definition when_true :: dict where
  "when_true = [(''version'', PyStr ''2''), (''sources'', PyDict []), (''pipelines'', PyList [PyDict
     [(''mpp-if'', PyStr ''True''), (''then'', PyDict [(''name'', PyDict [(''mpp-format-string'', PyStr ''rootfs'')])])]])]"


section \<open>Termination\<close>

fun depth :: "pyval \<Rightarrow> nat" and depth_list :: "pyval list \<Rightarrow> nat" and depth_items :: "dict \<Rightarrow> nat" where
  "depth (PyList xs) = Suc (depth_list xs)"
| "depth (PyDict d) = Suc (depth_items d)"
| "depth v = 1"
| "depth_list [] = 0"
| "depth_list (x # xs) = max (depth x) (depth_list xs)"
| "depth_items [] = 0"
| "depth_items ((k, v) # d) = max (depth v) (depth_items d)"

lemma depth_list_in: "x \<in> set xs \<Longrightarrow> depth x \<le> depth_list xs"
  by (induction xs) auto

lemma depth_get: "dict_get d k = Some v \<Longrightarrow> depth v \<le> depth_items d"
  by (induction d) (auto split: if_splits)

text \<open>Dictionaries with distinct keys, and without a list of stages.\<close>

inductive stageless :: "pyval \<Rightarrow> bool" where
  stageless_leaf: "(\<And>d. v \<noteq> PyDict d) \<Longrightarrow> (\<And>xs. v \<noteq> PyList xs) \<Longrightarrow> stageless v"
| stageless_list: "(\<And>x. x \<in> set xs \<Longrightarrow> stageless x) \<Longrightarrow> stageless (PyList xs)"
| stageless_dict: "wf_dict d \<Longrightarrow> dict_get d ''stages'' = None \<Longrightarrow> (\<And>k v. dict_get d k = Some v \<Longrightarrow> stageless v) \<Longrightarrow> stageless (PyDict d)"

inductive_simps stageless_PyList [simp]: "stageless (PyList xs)" and stageless_PyDict: "stageless (PyDict d)"

definition plain_frame :: "frame \<Rightarrow> bool" where
  "plain_frame fr \<longleftrightarrow> (case fr of [] \<Rightarrow> True | (d, k) # _ \<Rightarrow> k \<noteq> ''stages'')"

definition ends :: "'a mpp \<Rightarrow> bool" where
  "ends m \<longleftrightarrow> (\<forall>w. fst (m w) \<noteq> Inl Recursion_Error)"

named_theorems ending \<open>programs that stay within the recursion limit\<close>

lemma ends_ret [ending]: "ends (ret x)"
  by (simp add: ends_def ret_def)

lemma ends_andthen [ending]: "ends m \<Longrightarrow> (\<And>x w w'. m w = (Inr x, w') \<Longrightarrow> ends (f x)) \<Longrightarrow> ends (andthen m f)"
  unfolding ends_def andthen_def by (auto split: prod.split sum.split, metis fst_conv)

lemma ends_lift: "r \<noteq> Inl Recursion_Error \<Longrightarrow> ends (lift_res r)"
  by (simp add: ends_def lift_res_def)

lemma ends_exit: "exit_on_error r \<noteq> Inl Recursion_Error"
  by (cases r) (auto simp: exit_on_error_def split: exn.splits)

lemma ends_eval [ending]: "ends (eval_code me code)" "ends (format_text me text)"
  by (simp_all add: ends_def eval_code_def format_text_def ends_exit)

lemma ends_bind: "r \<noteq> Inl Recursion_Error \<Longrightarrow> (\<And>x. f x \<noteq> Inl Recursion_Error) \<Longrightarrow> res_bind r f \<noteq> Inl Recursion_Error"
  by (cases r) auto

lemma ends_iter: "py_iter v \<noteq> Inl Recursion_Error"
  by (cases v) auto

lemma ends_mapM: "(\<And>x. f x \<noteq> Inl Recursion_Error) \<Longrightarrow> res_mapM f xs \<noteq> Inl Recursion_Error"
proof (induction xs)
  case (Cons x xs)
  then show ?case using Cons.prems [of x] by (cases "f x"; cases "res_mapM f xs") auto
qed simp

lemma ends_join [ending]: "ends (lift_res (join_lists l))"
  unfolding join_lists_def res_map_def
  by (intro ends_lift ends_bind ends_mapM) (auto simp: ends_iter intro!: ends_bind ends_mapM split: sum.split)

lemma ends_text: "(\<And>s. mv_loads me s \<noteq> Inl Recursion_Error) \<Longrightarrow> ends (eval_text me node)"
  unfolding eval_text_def by (auto intro!: ending ends_lift simp: format_int_def split: option.splits)

text \<open>The traversal below a depth.\<close>

definition ends_below :: "nat \<Rightarrow> formatter \<Rightarrow> bool" where
  "ends_below n format \<longleftrightarrow> (\<forall>fr v. stageless v \<longrightarrow> depth v \<le> n \<longrightarrow> plain_frame fr \<longrightarrow> ends (format fr v))"

lemma ends_format:
  assumes "\<And>s. mv_loads me s \<noteq> Inl Recursion_Error" and "ends_below n format"
    and "stageless (PyDict d)" and "depth (PyDict d) \<le> n" and "plain_frame fr"
  shows "ends (eval_format me format fr (PyDict d))"
proof -
  have child: "ends (format fr v)" if "dict_get d k = Some v" for k v
    using that assms(2-5) depth_get [OF that] unfolding ends_below_def stageless_PyDict by auto
  have node: "ends (rewrite_node format fr v)" if "dict_get d k = Some v" for k v
    using that assms(2-5) depth_get [OF that] unfolding ends_below_def stageless_PyDict rewrite_node_def
    by (intro ending) auto
  show ?thesis unfolding eval_format_def eval_if_def Let_def
    by (auto intro!: ending ends_text assms(1) simp: request_items_def split: option.split dest: child node)
qed

lemma ends_node:
  assumes "\<And>s. mv_loads me s \<noteq> Inl Recursion_Error" and "ends_below n format" and "stageless v" and "depth v \<le> n" and "plain_frame fr"
  shows "ends (format_node me format fr v)"
proof (cases "is_format v")
  case True
  then obtain d where "v = PyDict d" by (cases v) (auto simp: is_format_def)
  then show ?thesis using True ends_format [OF assms(1,2)] assms(3-5) by (simp add: format_node_def)
next
  case False
  then show ?thesis using assms(2-5) unfolding ends_below_def by (auto simp: format_node_def intro!: ending)
qed

lemma ends_elems:
  assumes "\<And>s. mv_loads me s \<noteq> Inl Recursion_Error" and "ends_below n format" and "plain_frame fr"
  shows "(\<And>x. x \<in> set xs \<Longrightarrow> stageless x \<and> depth x \<le> n) \<Longrightarrow> ends (format_elems me format fr xs)"
  by (induction xs) (auto intro!: ending ends_node [OF assms(1,2) _ _ assms(3)])

lemma ends_keys:
  assumes "\<And>s. mv_loads me s \<noteq> Inl Recursion_Error" and "ends_below n format" and "distinct ks" and "''stages'' \<notin> set ks"
  shows "(\<And>k. k \<in> set ks \<Longrightarrow> \<exists>v. dict_get d k = Some v \<and> stageless v \<and> depth v \<le> n) \<Longrightarrow> ends (fold_prog (format_key me format fr) ks d)"
  using assms(3,4)
proof (induction ks arbitrary: d)
  case (Cons k ks)
  obtain v where v: "dict_get d k = Some v" "stageless v" "depth v \<le> n" using Cons.prems(1) by auto
  have frame: "plain_frame ((d, k) # fr)" using Cons.prems(3) by (auto simp: plain_frame_def)
  have key: "ends (format_key me format fr k d)" using v(1)
    by (auto simp: format_key_def intro!: ending ends_node [OF assms(1,2) v(2,3) frame])
  have rest: "ends (fold_prog (format_key me format fr) ks d1)" if d1: "format_key me format fr k d w = (Inr d1, w1)" for w w1 d1
  proof (rule Cons.IH)
    fix j assume j: "j \<in> set ks"
    obtain r where "d1 = (case r of Some x \<Rightarrow> dict_set d k x | None \<Rightarrow> dict_del d k)" using key_result [OF d1] by metis
    then have "dict_get d1 j = dict_get d j" using j Cons.prems(2) by (auto split: option.splits)
    then show "\<exists>v. dict_get d1 j = Some v \<and> stageless v \<and> depth v \<le> n" using Cons.prems(1) j by simp
  qed (use Cons.prems in auto)
  then show ?case using key by (auto intro: ending)
qed (simp add: ending)

lemma ends_once:
  assumes "\<And>s. mv_loads me s \<noteq> Inl Recursion_Error" and "ends_below n format"
  shows "ends_below (Suc n) (format_once me format)"
  unfolding ends_below_def
proof (intro allI impI)
  fix fr v
  assume v: "stageless v" "depth v \<le> Suc n" and fr: "plain_frame fr"
  show "ends (format_once me format fr v)"
  proof (cases v)
    case (PyDict d)
    have same: "format_dict_node me format fr d = ret d" using fr
      by (auto simp: format_dict_node_def plain_frame_def split: list.splits prod.splits)
    have "ends (fold_prog (format_key me format fr) (dict_keys d) d)"
    proof (rule ends_keys [OF assms])
      show "distinct (dict_keys d)" "''stages'' \<notin> set (dict_keys d)"
        using v(1) PyDict by (auto simp: stageless_PyDict wf_dict_def dict_keys_iff) (simp add: dict_keys_def)
      show "\<exists>x. dict_get d k = Some x \<and> stageless x \<and> depth x \<le> n" if k: "k \<in> set (dict_keys d)" for k
      proof -
        obtain x where "dict_get d k = Some x" using k by (auto simp: dict_keys_iff)
        then show ?thesis using v PyDict depth_get [of d k x] by (auto simp: stageless_PyDict)
      qed
    qed
    then have "ends (andthen (ret d) (\<lambda>d. andthen (fold_prog (format_key me format fr) (dict_keys d) d) (\<lambda>d'. ret (PyDict d'))))"
      by (auto intro!: ending simp: ret_def)
    then show ?thesis by (simp add: PyDict format_once_def same)
  next
    case (PyList xs)
    then show ?thesis using v by (auto simp: format_once_def intro!: ending ends_elems [OF assms fr] dest: depth_list_in)
  qed (auto simp: format_once_def intro: ending)
qed

lemma tree_ends:
  assumes "\<And>s. mv_loads me s \<noteq> Inl Recursion_Error" shows "ends_below n (format_tree me n)"
proof (induction n)
  case 0
  have "\<not> depth v \<le> 0" for v by (cases v) auto
  then show ?case unfolding ends_below_def by blast
next
  case (Suc n)
  then show ?case using ends_once [OF assms] by simp
qed

text \<open>
  C34: The expansion ends: a recursion limit of the depth of the value is enough, whatever the directives
  evaluate to; the results of Python code are not expanded again.
\<close>

theorem expansion_ends:
  assumes "stageless v" and "depth v \<le> n" and "\<And>s. mv_loads me s \<noteq> Inl Recursion_Error"
  shows "fst (format_tree me n [] v w) \<noteq> Inl Recursion_Error"
  using tree_ends [OF assms(3)] assms(1,2) unfolding ends_below_def ends_def by (simp add: plain_frame_def)

lemma stageless_items: "wf_dict d \<Longrightarrow> ''stages'' \<notin> set (dict_keys d) \<Longrightarrow> (\<forall>e \<in> set d. stageless (snd e)) \<Longrightarrow> stageless (PyDict d)"
proof (rule stageless_dict)
  assume all: "\<forall>e \<in> set d. stageless (snd e)"
  show "stageless v" if "dict_get d k = Some v" for k v using bspec [OF all dict_get_in [OF that]] by simp
qed (simp_all add: dict_keys_iff)

lemma stageless_PyStr [simp]: "stageless (PyStr s)"
  by (rule stageless_leaf) auto

lemma when_true_stageless: "stageless (PyDict when_true)"
  unfolding when_true_def by (simp add: stageless_items wf_dict_def dict_keys_def)

theorem expansion_ends_witness: "fst (format_tree sample_mv 6 [] (PyDict when_true) mpp_start) \<noteq> Inl Recursion_Error"
proof -
  have "depth (PyDict when_true) \<le> 6" by (simp add: when_true_def)
  moreover have "mv_loads sample_mv s \<noteq> Inl Recursion_Error" for s by (simp add: sample_mv_def)
  ultimately show ?thesis by (intro expansion_ends [OF when_true_stageless])
qed

end
