(* ===== verification/Mpp_Load_Laws.thy ===== *)
theory Mpp_Load_Laws
  imports Mpp_Load Mpp_Format_Laws
begin

text \<open>
  Properties of imports and of packages in lockfiles: what an import brings to the sources and variables, and
  which fields of a package are kept.
\<close>

section \<open>Imports\<close>

definition source_item :: "dict \<Rightarrow> string \<Rightarrow> string \<Rightarrow> pyval option" where
  "source_item sources s k =
     (case dict_get sources s of
        Some (PyDict d) \<Rightarrow> (case dict_get d ''items'' of Some (PyDict items) \<Rightarrow> dict_get items k | _ \<Rightarrow> None)
      | _ \<Rightarrow> None)"

text \<open>The keys of the sources, and of the items of each, are distinct, as in any document that was read.\<close>

definition wf_source :: "pyval \<Rightarrow> bool" where
  "wf_source v \<longleftrightarrow> (case v of PyDict d \<Rightarrow> (case dict_get d ''items'' of Some (PyDict items) \<Rightarrow> wf_dict items | _ \<Rightarrow> True) | _ \<Rightarrow> True)"

definition wf_sources :: "dict \<Rightarrow> bool" where
  "wf_sources sources \<longleftrightarrow> wf_dict sources \<and> (\<forall>e \<in> set sources. wf_source (snd e))"

definition override :: "'a option \<Rightarrow> 'a option \<Rightarrow> 'a option" where
  "override new old = (case new of Some v \<Rightarrow> Some v | None \<Rightarrow> old)"

lemma override_None [simp]: "override None old = old" and override_Some [simp]: "override (Some v) old = Some v"
  and override_old [simp]: "override new None = new"
  by (auto simp: override_def split: option.split)

lemma source_item_set:
  "source_item (dict_set sources s v) s' k = (if s' = s then source_item [(s, v)] s k else source_item sources s' k)"
  by (simp add: source_item_def)

lemma update_override: "wf_dict e \<Longrightarrow> dict_get (dict_update d e) k = override (dict_get e k) (dict_get d k)"
  by (simp add: dict_get_update override_def)

lemma merge_options_items: "merge_options target v = Inr t \<Longrightarrow> dict_get t ''items'' = dict_get target ''items''"
  by (auto simp: merge_options_def res_bind_Inr_iff res_map_def element_enter_other split: if_splits pyval.splits)

definition items_of :: "dict \<Rightarrow> dict" where
  "items_of d = (case dict_get d ''items'' of Some (PyDict items) \<Rightarrow> items | _ \<Rightarrow> [])"

lemma source_item_items: "dict_get sources s = Some (PyDict d) \<Longrightarrow> source_item sources s k = dict_get (items_of d) k"
  by (auto simp: source_item_def items_of_def split: option.split pyval.split)

lemma merge_items_get:
  assumes "merge_items target v = Inr t" and "wf_source v"
  shows "dict_get (items_of t) k = override (source_item [(s, v)] s k) (dict_get (items_of target) k)"
proof -
  obtain t1 items x where x: "element_enter target ''items'' = Inr (t1, items)" "py_get_or v ''items'' (PyDict []) = Inr x"
      "(case x of PyDict new \<Rightarrow> Inr (dict_set t1 ''items'' (PyDict (dict_update items new))) | _ \<Rightarrow> Inl Type_Error) = Inr t"
    using assms(1) unfolding merge_items_def by (fastforce simp: res_bind_Inr_iff)
  obtain new where new: "x = PyDict new" "t = dict_set t1 ''items'' (PyDict (dict_update items new))" using x(3) by (cases x) auto
  obtain d where d: "v = PyDict d" "dict_get_or d ''items'' (PyDict []) = PyDict new" using x(2) new(1) by (cases v) auto
  have old: "items = items_of target"
    using x(1) by (auto simp: element_enter_def items_of_def split: option.splits pyval.splits)
  have "wf_dict new" "source_item [(s, v)] s k = dict_get new k"
    using assms(2) d by (auto simp: wf_source_def source_item_def dict_get_or_def split: option.splits)
  then show ?thesis by (simp add: new(2) old items_of_def [of "dict_set _ _ _"] update_override)
qed

lemma merged_items:
  assumes "merge_source (s, v) sources = Inr sources'" and "wf_source v"
  shows "source_item sources' s' k = (if s' = s then override (source_item [(s, v)] s k) (source_item sources s k) else source_item sources s' k)"
proof (cases "py_truthy (dict_get_or sources s PyNone)")
  case False
  then have "source_item sources s k = None" by (auto simp: source_item_def dict_get_or_def split: option.splits pyval.splits)
  moreover have "sources' = dict_set sources s v" using assms(1) False by (simp add: merge_source_def)
  ultimately show ?thesis by (simp add: source_item_set)
next
  case True
  obtain target t1 t2 where t: "dict_get_or sources s PyNone = PyDict target" "merge_options target v = Inr t1" "merge_items t1 v = Inr t2"
      "sources' = dict_set sources s (PyDict t2)"
    using assms(1) True
    by (cases "dict_get_or sources s PyNone") (auto simp: merge_source_def Let_def res_bind_Inr_iff res_map_def)
  have "source_item sources s k = dict_get (items_of target) k"
    using t(1) by (intro source_item_items) (auto simp: dict_get_or_def split: option.splits)
  moreover have "items_of t1 = items_of target" using merge_options_items [OF t(2)] by (simp add: items_of_def)
  ultimately show ?thesis using merge_items_get [OF t(3) assms(2), of k s] t(4)
    by (simp add: source_item_set source_item_items [of "[(s, PyDict t2)]" s t2])
qed

lemma merged_all:
  "merge_sources sources imported = Inr sources' \<Longrightarrow> wf_sources imported \<Longrightarrow>
    source_item sources' s k = override (source_item imported s k) (source_item sources s k)"
proof (induction imported arbitrary: sources)
  case Nil
  then show ?case by (simp add: merge_sources_def source_item_def)
next
  case (Cons e imported)
  obtain t v where e: "e = (t, v)" by (cases e)
  obtain s1 where s1: "merge_source (t, v) sources = Inr s1" "merge_sources s1 imported = Inr sources'"
    using Cons.prems(1) by (auto simp: merge_sources_def res_bind_Inr_iff e)
  have wf: "wf_source v" "wf_sources imported" "dict_get imported t = None"
    using Cons.prems(2) by (auto simp: wf_sources_def e wf_dict_def dict_get_None_iff)
  have rest: "source_item imported t k = None" using wf(3) by (simp add: source_item_def)
  show ?case using Cons.IH [OF s1(2) wf(2)] merged_items [OF s1(1) wf(1), of s k] rest
    by (cases "s = t") (auto simp: e source_item_def)
qed

text \<open>
  C35: An import loses nothing: each item of the sources of the imported manifest is there afterwards, and each
  item of the importing one that is not replaced by it; likewise for the variables.
\<close>

theorem import_loses_nothing:
  assumes "load_import me load path w = (Inr root, w')"
    and "andthen (find_and_open_file me path (mv_searchdirs me)) (\<lambda>(content, full). load full content) w = (Inr (2, root), w1)"
    and "wf_sources (mw_sources w1)" and "wf_dict (mw_vars w1)"
  shows "source_item (mw_sources w') s k = override (source_item (mw_sources w1) s k) (source_item (mw_sources w) s k) \<and>
    dict_get (mw_vars w') x = override (dict_get (mw_vars w1) x) (dict_get (mw_vars w) x) \<and> mw_basedir w' = mw_basedir w"
proof -
  obtain sources where sources: "merge_sources (mw_sources w) (mw_sources w1) = Inr sources"
      "w' = w1\<lparr>mw_basedir := mw_basedir w, mw_vars := dict_update (mw_vars w) (mw_vars w1), mw_sources := sources,
         mw_pipeline := mw_pipeline w\<rparr>"
    using assms(1) unfolding load_import_def load_with_def assms(2)
    by (auto simp: back_from_import_def res_map_def res_bind_Inr_iff split: sum.splits if_splits)
  then show ?thesis using merged_all [OF sources(1) assms(3)] update_override [OF assms(4)] by simp
qed

text \<open>A file with a source and a variable of its own.\<close>

definition lib_env :: mpp_env where
  "lib_env = sample_mv\<lparr>mv_read_file := (\<lambda>p. if p = ''./lib.json'' then Inr ''lib'' else Inl File_Not_Found_Error),
     mv_loads := (\<lambda>s. Inr (PyDict [(''version'', PyStr ''2''), (''mpp-vars'', PyDict [(''distro'', PyStr ''el10'')]),
       (''sources'', PyDict [(''org.osbuild.inline'', PyDict [(''items'', PyDict [(''sha256:1'', PyStr ''x'')])])])]))\<rparr>"

definition lib_loaded :: "dict res \<times> mpp_world" where
  "lib_loaded = load_import lib_env (load_manifest_file lib_env 5) ''lib.json'' mpp_start"

definition lib_imported :: "(int \<times> dict) res \<times> mpp_world" where
  "lib_imported = andthen (find_and_open_file lib_env ''lib.json'' (mv_searchdirs lib_env))
     (\<lambda>(content, full). load_manifest_file lib_env 5 full content) mpp_start"

definition lib_root :: dict where
  "lib_root = [(''version'', PyStr ''2''), (''sources'', PyDict [(''org.osbuild.inline'', PyDict [(''items'', PyDict [(''sha256:1'', PyStr ''x'')])])]),
     (''pipelines'', PyList [])]"

definition lib_world :: mpp_world where
  "lib_world = mpp_start\<lparr>mw_sources := [(''org.osbuild.inline'', PyDict [(''items'', PyDict [(''sha256:1'', PyStr ''x'')])]),
      (''org.osbuild.curl'', PyDict [(''items'', PyDict [])])],
     mw_vars := [(''arch'', PyStr ''x86_64''), (''distro'', PyStr ''el10'')]\<rparr>"

lemma lib_imported_eq: "lib_imported = (Inr (2, lib_root), lib_world)"
  by code_simp

lemma lib_loaded_eq: "fst lib_loaded = Inr lib_root"
  by code_simp

theorem import_loses_nothing_witness: "dict_get (mw_vars (snd lib_loaded)) ''distro'' = Some (PyStr ''el10'')"
proof -
  have loaded: "load_import lib_env (load_manifest_file lib_env 5) ''lib.json'' mpp_start = (Inr lib_root, snd lib_loaded)"
    using lib_loaded_eq unfolding lib_loaded_def by (metis prod.collapse)
  have wf: "wf_sources (mw_sources lib_world)" "wf_dict (mw_vars lib_world)"
    by (simp_all add: lib_world_def wf_sources_def wf_source_def wf_dict_def)
  show ?thesis using import_loses_nothing [OF loaded lib_imported_eq [unfolded lib_imported_def] wf, of _ _ "''distro''"]
    by (simp add: lib_world_def)
qed

section \<open>Packages of a lockfile\<close>

text \<open>The fields that a lockfile keeps of a package.\<close>

definition kept_fields :: "string list" where
  "kept_fields = required_fields @ optional_fields"

lemma dict_get_map: "dict_get (map (\<lambda>k. (k, f k)) ks) k = (if k \<in> set ks then Some (f k) else None)"
  by (induction ks) auto

lemma lock_dict_get:
  "dict_get (to_lock_dict p) k = (if k \<in> set kept_fields \<and> dict_get_or p k PyNone \<noteq> PyNone then Some (dict_get_or p k PyNone) else None)"
proof -
  have "dict_get (filter (\<lambda>(k, v). v \<noteq> PyNone) (map (\<lambda>k. (k, f k)) ks)) k = (if k \<in> set ks \<and> f k \<noteq> PyNone then Some (f k) else None)"
    for f :: "string \<Rightarrow> pyval" and ks by (induction ks) auto
  from this [of "\<lambda>k. dict_get_or p k PyNone" "required_fields @ optional_fields"]
  show ?thesis unfolding to_lock_dict_def kept_fields_def by blast
qed

lemma omit_get: "wf_dict d \<Longrightarrow> dict_get (omit_items d) k = (case dict_get d k of None \<Rightarrow> None | Some v \<Rightarrow> if v = PyNone then None else Some (omit_none v))"
proof (induction d)
  case (Cons e d)
  obtain j v where e: "e = (j, v)" by (cases e)
  have "wf_dict d" "dict_get d j = None" using Cons.prems by (auto simp: e wf_dict_def dict_get_None_iff)
  then show ?case using Cons.IH by (auto simp: e)
qed simp

lemma lock_dict_wf: "wf_dict (to_lock_dict p)"
  unfolding to_lock_dict_def by (rule wf_dict_filter) (simp add: wf_dict_def required_fields_def optional_fields_def)

lemma pkg_from_dict_eq:
  assumes "\<And>k. k \<in> set required_fields \<Longrightarrow> dict_get d k \<noteq> None"
  shows "pkg_from_dict (PyDict d) = Inr (map (\<lambda>k. (k, dict_get_or d k PyNone)) (kept_fields @ [''requires'', ''provides'']))"
proof -
  have req: "res_mapM (\<lambda>k. res_map (\<lambda>x. (k, x)) (py_item (PyDict d) k)) required_fields = Inr (map (\<lambda>k. (k, dict_get_or d k PyNone)) required_fields)"
    by (rule res_mapM_total) (use assms in \<open>auto simp: dict_get_or_def split: option.split\<close>)
  have opt: "res_mapM (\<lambda>k. res_map (\<lambda>x. (k, x)) (py_get_or (PyDict d) k PyNone)) ks = Inr (map (\<lambda>k. (k, dict_get_or d k PyNone)) ks)" for ks
    by (rule res_mapM_total) simp
  show ?thesis unfolding pkg_from_dict_def req opt by (simp add: kept_fields_def)
qed

text \<open>
  A package from a lockfile is the one that was locked, in all fields but its requirements and provisions,
  which a lockfile does not have: a bill of materials of a locked build has no relations.
\<close>

theorem locked_package_roundtrip:
  assumes "\<And>k. k \<in> set required_fields \<Longrightarrow> dict_get_or p k PyNone \<noteq> PyNone"
    and "\<And>k. k \<in> set kept_fields \<Longrightarrow> omit_none (dict_get_or p k PyNone) = dict_get_or p k PyNone"
  shows "\<exists>q. pkg_from_dict (omit_none (PyDict (to_lock_dict p))) = Inr q \<and>
    (\<forall>k. dict_get_or q k PyNone = (if k \<in> set kept_fields then dict_get_or p k PyNone else PyNone)) \<and> to_dict q = Inr (to_lock_dict p)"
proof -
  let ?d = "omit_items (to_lock_dict p)"
  have get: "dict_get_or ?d k PyNone = (if k \<in> set kept_fields then dict_get_or p k PyNone else PyNone)" for k
    using assms(2) [of k] by (simp add: dict_get_or_def [of ?d] omit_get [OF lock_dict_wf] lock_dict_get)
  have "dict_get ?d k \<noteq> None" if "k \<in> set required_fields" for k
    using get [of k] assms(1) [OF that] that by (auto simp: dict_get_or_def [of ?d] kept_fields_def split: option.splits)
  from pkg_from_dict_eq [OF this] obtain q where q: "pkg_from_dict (PyDict ?d) = Inr q"
      "q = map (\<lambda>k. (k, dict_get_or ?d k PyNone)) (kept_fields @ [''requires'', ''provides''])" by blast
  have field: "dict_get_or q k PyNone = (if k \<in> set kept_fields then dict_get_or p k PyNone else PyNone)" for k
    using get [of k] by (auto simp: q(2) dict_get_or_def [of "map _ _"] dict_get_map simp del: map_append)
  have names: "names_field q ''requires'' = Inr []" "names_field q ''provides'' = Inr []"
    by (simp_all add: names_field_def field kept_fields_def required_fields_def optional_fields_def)
  have "to_lock_dict q = to_lock_dict p"
    unfolding to_lock_dict_def using field by (simp add: kept_fields_def required_fields_def optional_fields_def)
  then show ?thesis using q(1) field names by (auto simp: to_dict_def)
qed

theorem locked_package_roundtrip_witness:
  "\<exists>q. pkg_from_dict (omit_none (PyDict (to_lock_dict (package_info sample_mv [] bash_package)))) = Inr q \<and>
     to_dict q = Inr (to_lock_dict (package_info sample_mv [] bash_package))"
proof -
  have "dict_get_or (package_info sample_mv [] bash_package) k PyNone \<noteq> PyNone" if "k \<in> set required_fields" for k
    using that by (auto simp: required_fields_def package_info_def bash_package_def dict_get_or_def)
  moreover have "omit_none (dict_get_or (package_info sample_mv [] bash_package) k PyNone) = dict_get_or (package_info sample_mv [] bash_package) k PyNone"
    if "k \<in> set kept_fields" for k
    using that by (auto simp: kept_fields_def required_fields_def optional_fields_def package_info_def bash_package_def dict_get_or_def py_in_def)
  ultimately show ?thesis using locked_package_roundtrip [of "package_info sample_mv [] bash_package"] by blast
qed

end
