(* ===== verification/Mpp_Version1_Laws.thy ===== *)
theory Mpp_Version1_Laws
  imports Mpp_Load_Laws
begin

text \<open>
  Manifests of version 1: the name of a pipeline by its place on the stack is the one that the code finds by
  comparing dictionaries, and what an import at the root of a manifest does to the names.
\<close>

section \<open>Values inside of others\<close>

inductive inside :: "pyval \<Rightarrow> pyval \<Rightarrow> bool" where
  inside_list: "x \<in> set xs \<Longrightarrow> inside x (PyList xs)"
| inside_dict: "dict_get d k = Some v \<Longrightarrow> inside v (PyDict d)"
| inside_trans: "inside u v \<Longrightarrow> inside v w \<Longrightarrow> inside u w"

lemma inside_depth: "inside v w \<Longrightarrow> depth v < depth w"
  by (induction rule: inside.induct) (auto simp: less_Suc_eq_le dest: depth_list_in depth_get)

lemma depth_number: "py_num v = Some x \<Longrightarrow> depth v = 1"
  by (cases v) auto

lemma py_eq_depth:
  "py_eq v w \<Longrightarrow> depth v \<le> depth w"
  "py_eq_list xs ys \<Longrightarrow> depth_list xs \<le> depth_list ys"
  "py_eq_items d e \<Longrightarrow> depth_items d \<le> depth_items e"
  by (induction v w and xs ys and d e rule: py_eq_py_eq_list_py_eq_items.induct)
    (auto split: list.splits option.splits dest!: depth_get depth_number)

lemma inside_differs: "inside v w \<Longrightarrow> \<not> py_eq w v"
  using inside_depth [of v w] py_eq_depth(1) [of w v] by auto

section \<open>Names of pipelines\<close>

text \<open>
  A stack from a value inwards to a dictionary: each dictionary is below the key of the one before it, where a
  directive and a list may lie between.
\<close>

fun stack_of :: "pyval \<Rightarrow> dict \<Rightarrow> frame \<Rightarrow> bool" where
  "stack_of p node [] \<longleftrightarrow> False"
| "stack_of p node [(c, k)] \<longleftrightarrow> p = PyDict c \<and> c = node"
| "stack_of p node ((c, k) # (b, j) # fs) \<longleftrightarrow> p = PyDict c \<and>
     (\<exists>v. dict_get c k = Some v \<and> (if entered c k then v = PyDict b else inside (PyDict b) v)) \<and>
     stack_of (PyDict b) node ((b, j) # fs)"

lemma stack_below: "stack_of p node ((c, k) # (b, j) # fs) \<Longrightarrow> inside (PyDict b) (PyDict c)"
  by (auto intro: inside_dict inside_trans split: if_splits)

lemma stack_inside: "stack_of p node fs \<Longrightarrow> p = PyDict node \<or> inside (PyDict node) p"
proof (induction p node fs rule: stack_of.induct)
  case (3 p node c k b j fs)
  have p: "p = PyDict c" "stack_of (PyDict b) node ((b, j) # fs)" using "3.prems" by auto
  then show ?case using "3.IH" stack_below [OF "3.prems"] by (auto intro: inside_trans)
qed auto

lemma entered_dict: "entered c k \<Longrightarrow> \<exists>b. dict_get c k = Some (PyDict b)"
  by (auto simp: entered_def split: option.splits pyval.splits)

lemma name_inwards:
  "stack_of p node fs \<Longrightarrow> snd (last fs) = ''stages'' \<Longrightarrow> py_eq (PyDict node) (PyDict node) \<Longrightarrow>
    find_inwards node i fs = find_pipeline node i p"
proof (induction node i fs arbitrary: p rule: find_inwards.induct)
  case (2 node i c k)
  then show ?case using 2 by (simp add: find_pipeline.simps)
next
  case (3 node i c k b j fs)
  have p: "p = PyDict c" "stack_of (PyDict b) node ((b, j) # fs)" using "3.prems"(1) by auto
  have "inside (PyDict node) (PyDict c)"
    using stack_inside [OF p(2)] stack_below [OF "3.prems"(1)] by (auto intro: inside_trans)
  then have differs: "\<not> py_eq (PyDict c) (PyDict node)" by (rule inside_differs)
  have "c \<noteq> []" using "3.prems"(1) by auto
  then have outer: "find_pipeline node i p = res_bind (next_build p) (find_pipeline node (Suc i))"
    using differs p(1) by (subst find_pipeline.simps) (cases "next_build p"; simp del: py_eq.simps)
  show ?case
  proof (cases "k = ''build'' \<and> entered c k")
    case True
    then have b: "next_build p = Inr (dict_get_or b ''pipeline'' PyNone)"
      using "3.prems"(1) p(1) by (auto simp: next_build_def dict_get_or_def)
    show ?thesis
    proof (cases "j = ''pipeline'' \<and> entered b j")
      case pipeline: True
      then obtain d l gs where fs: "fs = (d, l) # gs" using "3.prems"(2) by (cases fs) auto
      then have "dict_get b ''pipeline'' = Some (PyDict d)" "stack_of (PyDict d) node fs"
        using p(2) pipeline by (auto split: if_splits)
      then show ?thesis using "3.IH"(1) [of "PyDict d"] True pipeline b outer "3.prems"(2,3) fs
        by (simp add: dict_get_or_def True)
    qed (use True b outer in auto)
  next
    case False
    then show ?thesis using outer p(1) by auto
  qed
qed simp

text \<open>
  The name of a pipeline by its place on the stack is the one that comparing it with the pipeline of the
  manifest and its builds gives, as the code does.
\<close>

lemma name_by_place:
  assumes "stack_of (PyDict root) node fs" and "snd (last fs) = ''stages''" and "entered root ''pipeline''" and "py_eq (PyDict node) (PyDict node)"
  shows "pipeline_name1 In_Root node (rev fs) = pipeline_name1 (Apart (dict_get_or root ''pipeline'' PyNone)) node fr"
proof (cases fs)
  case (Cons e fs')
  then obtain k where e: "e = (root, k)" using assms(1) by (cases e; cases fs') auto
  show ?thesis
  proof (cases "k = ''pipeline''")
    case True
    then obtain c j gs where fs': "fs' = (c, j) # gs" using assms(2) Cons e by (cases fs') auto
    then have "dict_get root ''pipeline'' = Some (PyDict c)" "stack_of (PyDict c) node fs'"
      using assms(1,3) Cons e True by auto
    then show ?thesis using name_inwards [of "PyDict c" node fs' 0] assms(2,4) Cons e True fs'
      by (simp add: pipeline_name1_def dict_get_or_def)
  qed (use Cons e in \<open>simp add: pipeline_name1_def\<close>)
qed (use assms(1) in simp)

section \<open>Imports\<close>

text \<open>A manifest that installs a package, to be imported.\<close>

definition base_pipeline :: dict where
  "base_pipeline = [(''stages'', PyList [PyDict [(''name'', PyStr ''org.osbuild.rpm''), (''options'', PyDict [(''mpp-depsolve'', PyDict
     [(''module-platform-id'', PyStr ''el10''), (''packages'', PyList [PyStr ''bash''])])])]])]"

definition import_base :: "string \<times> pyval" where
  "import_base = (''mpp-import-pipeline'', PyDict [(''path'', PyStr ''base.json'')])"

definition base_env :: mpp_env where
  "base_env = rpm_solver\<lparr>mv_read_file := (\<lambda>p. if p = ''./base.json'' then Inr ''base'' else Inl File_Not_Found_Error),
     mv_loads := (\<lambda>s. Inr (PyDict (
       if s = ''base'' then [(''sources'', PyDict []), (''pipeline'', PyDict base_pipeline)]
       else if s = ''main'' then [import_base, (''sources'', PyDict [])]
       else [(''pipeline'', PyDict [(''build'', PyDict [import_base])])])))\<rparr>"

text \<open>The pipelines that have packages, once a manifest is loaded and expanded.\<close>

definition named_pipelines :: "string \<Rightarrow> string list res" where
  "named_pipelines content =
     (let (r, w) = andthen (load_manifest_file base_env 6 ''main.json'' content) (\<lambda>(v, root). process_format (base_env\<lparr>mv_version := v\<rparr>) 14 root) recording
      in res_map (\<lambda>_. case dict_get (mw_vars w) ''rpms'' of Some (PyDict d) \<Rightarrow> dict_keys d | _ \<Rightarrow> []) r)"

lemma base_named: "named_pipelines ''base'' = Inr [''stages'']"
  by code_simp

lemma build_import_named: "named_pipelines ''nested'' = Inr [''build'']"
  by code_simp

text \<open>After an import at the root the pipeline has no name: \<open>self.pipeline\<close> is still that of before.\<close>

lemma root_import_unnamed: "named_pipelines ''main'' = Inr [[]]"
  by code_simp

text \<open>A manifest that names its version cannot be imported.\<close>

lemma versioned_import_refused:
  "back_from_import1 [(''version'', PyStr ''1''), (''sources'', PyDict []), (''pipeline'', p)] w imp = Inl Assertion_Error"
proof -
  have "sort [''version'', ''sources'', ''pipeline''] = [''pipeline'', ''sources'', ''version'']" by code_simp
  then show ?thesis by (simp add: back_from_import1_def dict_keys_def)
qed

lemma urls_merged:
  assumes "merge_urls sources imported = Inr s" and "source_urls imported = Inr (t, d, new)" and "source_urls sources = Inr (t', d', old)" and "wf_dict new"
  shows "\<exists>u v urls. source_urls s = Inr (u, v, urls) \<and> (\<forall>k. dict_get urls k = override (dict_get new k) (dict_get old k))"
  using assms by (auto simp: merge_urls_def res_map_def source_urls_def element_enter_def update_override)

end
