(* ===== verification/Lvm_Text.thy ===== *)
theory Lvm_Text
  imports Build_Defines
begin

text \<open>
  The metadata of LVM volume groups as text (\<open>Metadata\<close> of \<open>src/mpp/aibosbuild/util/lvm2.py\<close>): the decoder with
  its substitutions and its parser, and the encoder.  The parser may read past the end of the text for ever, so
  it has a number of steps that it may take and returns None when they are used up: the code returns if some
  number of steps is enough.  \<open>float\<close> is a parameter.
\<close>

section \<open>Substitutions\<close>

definition newline :: char where "newline = CHR 0x0A"

text \<open>\<open>re.sub("#.*\n", "", data)\<close>: a comment without an end of line stays.\<close>

function strip_comments :: "string \<Rightarrow> string" where
  "strip_comments [] = []"
| "strip_comments (c # cs) =
     (if c = CHR ''#'' \<and> newline \<in> set cs then strip_comments (tl (dropWhile (\<lambda>d. d \<noteq> newline) cs))
      else c # strip_comments cs)"
  by pat_completeness auto

termination
proof (relation "measure length")
  fix c :: char and cs
  show "(tl (dropWhile (\<lambda>d. d \<noteq> newline) cs), c # cs) \<in> measure length"
    using length_dropWhile_le [of "\<lambda>d. d \<noteq> newline" cs] by simp
qed auto

definition spaced_char :: "char \<Rightarrow> string" where
  "spaced_char c =
     (if c = CHR ''['' then ''[ '' else if c = CHR '']'' then '' ]''
      else if c = CHR 0x22 then [CHR '' '', CHR 0x22, CHR '' ''] else if c = CHR ''='' \<or> c = CHR '','' then [] else [c])"

text \<open>The four substitutions that replace single characters.\<close>

definition space_tokens :: "string \<Rightarrow> string" where
  "space_tokens s = concat (map spaced_char s)"

text \<open>\<open>re.sub("\s+", " ", data)\<close>, with the blanks that were just seen.\<close>

fun collapse :: "bool \<Rightarrow> string \<Rightarrow> string" where
  "collapse seen [] = []"
| "collapse seen (c # cs) =
     (if is_space c then (if seen then [] else '' '') @ collapse True cs else c # collapse False cs)"

definition strip_nul :: "string \<Rightarrow> string" where
  "strip_nul s = (if s \<noteq> [] \<and> last s = CHR 0x00 then butlast s else s)"

text \<open>\<open>data.split()\<close>.\<close>

fun split_words :: "string \<Rightarrow> string \<Rightarrow> string list" where
  "split_words w [] = (if w = [] then [] else [w])"
| "split_words w (c # cs) =
     (if is_space c then (if w = [] then [] else [w]) @ split_words [] cs else split_words (w @ [c]) cs)"

definition tokens :: "string \<Rightarrow> string list" where
  "tokens raw = split_words [] (strip_nul (collapse False (space_tokens (strip_comments raw))))"

section \<open>Parser\<close>

type_synonym 'a steps = "'a res option"

definition step_bind :: "'a steps \<Rightarrow> ('a \<Rightarrow> 'b steps) \<Rightarrow> 'b steps" where
  "step_bind m f = (case m of None \<Rightarrow> None | Some (Inl e) \<Rightarrow> Some (Inl e) | Some (Inr x) \<Rightarrow> f x)"

lemma step_bind_simps [simp]: "step_bind None f = None" "step_bind (Some (Inl e)) f = Some (Inl e)" "step_bind (Some (Inr x)) f = f x"
  by (simp_all add: step_bind_def)

text \<open>The next token and the rest; None when there is none.\<close>

definition next_token :: "string list \<Rightarrow> string option \<times> string list" where
  "next_token data = (case data of [] \<Rightarrow> (None, []) | t # ts \<Rightarrow> (Some t, ts))"

definition token_text :: "string option \<Rightarrow> string" where
  "token_text t = (case t of None \<Rightarrow> ''None'' | Some s \<Rightarrow> s)"

definition quote :: string where "quote = [CHR 0x22]"

text \<open>Beyond the end of the data the loop goes on.\<close>

fun parse_str :: "nat \<Rightarrow> string \<Rightarrow> string option \<Rightarrow> string list \<Rightarrow> (pyval \<times> string list) steps" where
  "parse_str 0 result val data = None"
| "parse_str (Suc n) result val data =
     (if val = Some quote then Some (Inr (PyStr (py_strip result), data))
      else let (val', data') = next_token data in parse_str n (result @ '' '' @ token_text val) val' data')"

definition parse_type :: "(string \<Rightarrow> pyval res) \<Rightarrow> nat \<Rightarrow> string option \<Rightarrow> string list \<Rightarrow> (pyval \<times> string list) steps" where
  "parse_type to_float n val data =
     (case val of
        None \<Rightarrow> Some (Inl Type_Error)
      | Some t \<Rightarrow>
          if t = quote then (let (val', data') = next_token data in parse_str n [] val' data')
          else if CHR ''.'' \<in> set t then Some (res_map (\<lambda>v. (v, data)) (to_float t))
          else Some (case py_int t of Some i \<Rightarrow> Inr (PyInt i, data) | None \<Rightarrow> Inl Value_Error))"

fun parse_array ::
  "(string \<Rightarrow> pyval res) \<Rightarrow> nat \<Rightarrow> string option \<Rightarrow> string list \<Rightarrow> pyval list \<Rightarrow> (pyval \<times> string list) steps" where
  "parse_array to_float 0 val data acc = None"
| "parse_array to_float (Suc n) val data acc =
     (if val = Some '']'' then Some (Inr (PyList acc, data))
      else step_bind (parse_type to_float n val data) (\<lambda>(v, data1).
        let (val', data2) = next_token data1 in parse_array to_float n val' data2 (acc @ [v])))"

fun parse_value :: "(string \<Rightarrow> pyval res) \<Rightarrow> nat \<Rightarrow> string list \<Rightarrow> (pyval \<times> string list) steps"
  and parse_section :: "(string \<Rightarrow> pyval res) \<Rightarrow> nat \<Rightarrow> string option \<Rightarrow> string list \<Rightarrow> dict \<Rightarrow> (dict \<times> string list) steps" where
  "parse_value to_float 0 data = None"
| "parse_value to_float (Suc n) data =
     (let (val, data1) = next_token data in
      if val = Some ''{'' then
        (let (val', data2) = next_token data1 in
         step_bind (parse_section to_float n val' data2 []) (\<lambda>(d, rest). Some (Inr (PyDict d, rest))))
      else if val = Some ''['' then (let (val', data2) = next_token data1 in parse_array to_float n val' data2 [])
      else parse_type to_float n val data1)"
| "parse_section to_float 0 val data acc = None"
| "parse_section to_float (Suc n) val data acc =
     (case val of
        None \<Rightarrow> Some (Inr (acc, data))
      | Some k \<Rightarrow>
          if k = ''}'' then Some (Inr (acc, data))
          else step_bind (parse_value to_float n data) (\<lambda>(v, data1).
            let (val', data2) = next_token data1 in parse_section to_float n val' data2 (dict_set acc k v)))"

text \<open>The first token is the name of the volume group, and the first key.\<close>

definition decode_data :: "(string \<Rightarrow> pyval res) \<Rightarrow> nat \<Rightarrow> string \<Rightarrow> (string option \<times> dict) steps" where
  "decode_data to_float n raw =
     (let (name, data) = next_token (tokens raw) in
      step_bind (parse_section to_float n name data []) (\<lambda>(d, rest). Some (Inr (name, d))))"

section \<open>Encoder\<close>

text \<open>There is no case for floats: \<open>s\<close> is not bound then.\<close>

fun encode_val :: "pyval \<Rightarrow> string res" and encode_list :: "pyval list \<Rightarrow> string list res" and encode_dict :: "dict \<Rightarrow> string res" where
  "encode_val (PyInt i) = Inr (dec_int i)"
| "encode_val (PyBool b) = Inr (if b then ''True'' else ''False'')"
| "encode_val (PyStr s) = Inr (quote @ s @ quote)"
| "encode_val (PyList xs) = res_map (\<lambda>ss. ''['' @ py_join '', '' ss @ '']'') (encode_list xs)"
| "encode_val (PyDict d) = res_map (\<lambda>s. ''{'' @ [newline] @ s @ ''}'' @ [newline]) (encode_dict d)"
| "encode_val v = Inl Unbound_Local_Error"
| "encode_list [] = Inr []"
| "encode_list (x # xs) = res_bind (encode_val x) (\<lambda>s. res_map (\<lambda>ss. s # ss) (encode_list xs))"
| "encode_dict [] = Inr []"
| "encode_dict ((k, v) # d) =
     res_bind (encode_val v) (\<lambda>s. res_map (\<lambda>r.
       k @ (case v of PyDict _ \<Rightarrow> '' '' | _ \<Rightarrow> '' = '') @ s @ [newline] @ r) (encode_dict d))"

definition encode_data :: "dict \<Rightarrow> string res" where
  "encode_data d = res_map (\<lambda>s. s @ [CHR 0x00]) (encode_dict d)"

end
