(* ===== verification/Lvm.thy ===== *)
theory Lvm
  imports Lvm_Text Simg "HOL-Library.AList"
begin

unbundle bit_operations_syntax

text \<open>
  LVM disks (\<open>src/mpp/aibosbuild/util/lvm2.py\<close>): C structures, the label, the headers of the physical volume and
  of the metadata areas, and the operations of a disk.  A file is its bytes, the position in it and whether it is
  open; offsets from \<open>2 ^ 63\<close> on do not fit the type of offsets.
\<close>

section \<open>Checksums\<close>

fun crc_shift :: "nat \<Rightarrow> 32 word \<Rightarrow> 32 word" where
  "crc_shift 0 c = c"
| "crc_shift (Suc k) c = crc_shift k (if bit c 0 then drop_bit 1 c XOR 0xEDB88320 else drop_bit 1 c)"

definition crc_byte :: "byte \<Rightarrow> 32 word \<Rightarrow> 32 word" where
  "crc_byte b c = crc_shift 8 (c XOR ucast b)"

text \<open>\<open>binascii.crc32(buf, value)\<close>.\<close>

definition crc32 :: "byte list \<Rightarrow> 32 word \<Rightarrow> 32 word" where
  "crc32 buf value = NOT (fold crc_byte buf (NOT value))"

definition initial_crc :: "32 word" where "initial_crc = 0xf597a6cf"

definition calc_crc :: "byte list \<Rightarrow> 32 word \<Rightarrow> 32 word" where
  "calc_crc buf crc = crc32 buf (crc XOR 0xFFFFFFFF) XOR 0xFFFFFFFF"

section \<open>Files\<close>

record bfile =
  bf_bytes :: "byte list"
  bf_pos :: nat
  bf_open :: bool

definition bytes_io :: "byte list \<Rightarrow> bfile" where
  "bytes_io bs = \<lparr>bf_bytes = bs, bf_pos = 0, bf_open = True\<rparr>"

definition offset_limit :: nat where "offset_limit = 2 ^ 63"

definition need_open :: "(bfile, unit) prog" where
  "need_open f = (if bf_open f then Inr () else Inl Value_Error, f)"

definition f_seek :: "nat \<Rightarrow> (bfile, unit) prog" where
  "f_seek off = seq need_open
     (if off < offset_limit then update_world (\<lambda>f. f\<lparr>bf_pos := off\<rparr>) else raise_exn Overflow_Error)"

definition f_read :: "nat \<Rightarrow> (bfile, byte list) prog" where
  "f_read n = seq need_open
     (if n < offset_limit
      then (\<lambda>f. let bs = take n (drop (bf_pos f) (bf_bytes f)) in (Inr bs, f\<lparr>bf_pos := bf_pos f + length bs\<rparr>))
      else raise_exn Overflow_Error)"

definition f_write :: "byte list \<Rightarrow> (bfile, nat) prog" where
  "f_write bs = seq need_open
     (\<lambda>f. (Inr (length bs), f\<lparr>bf_bytes := write_at (bf_pos f) bs (bf_bytes f), bf_pos := bf_pos f + length bs\<rparr>))"

definition f_tell :: "(bfile, nat) prog" where
  "f_tell = seq need_open (ask bf_pos)"

section \<open>C structures\<close>

datatype ctype = Chars nat | U32 | U64

datatype fval = Num nat | Raw "byte list"

type_synonym cstruct = "(string \<times> ctype) list"
type_synonym fields = "(string \<times> fval) list"

fun ctype_size :: "ctype \<Rightarrow> nat" where
  "ctype_size (Chars n) = n"
| "ctype_size U32 = 4"
| "ctype_size U64 = 8"

definition cs_size :: "cstruct \<Rightarrow> nat" where
  "cs_size cs = sum_list (map (ctype_size \<circ> snd) cs)"

fun unpack_value :: "ctype \<Rightarrow> byte list \<Rightarrow> fval" where
  "unpack_value (Chars n) bs = Raw (take n bs)"
| "unpack_value t bs = Num (le_val (take (ctype_size t) bs))"

fun unpack_values :: "cstruct \<Rightarrow> byte list \<Rightarrow> fields" where
  "unpack_values [] bs = []"
| "unpack_values ((f, t) # cs) bs = (f, unpack_value t bs) # unpack_values cs (drop (ctype_size t) bs)"

definition cs_unpack :: "cstruct \<Rightarrow> byte list \<Rightarrow> fields res" where
  "cs_unpack cs data = (if length data < cs_size cs then Inl Struct_Error else Inr (unpack_values cs data))"

definition cs_read :: "cstruct \<Rightarrow> (bfile, fields option) prog" where
  "cs_read cs =
     andthen f_tell (\<lambda>pos.
     andthen (f_read (cs_size cs)) (\<lambda>data.
     if length data < cs_size cs then ret None
     else lift_res (res_map (\<lambda>d. Some (d @ [(''_position'', Num pos)])) (cs_unpack cs data))))"

definition field :: "fields \<Rightarrow> string \<Rightarrow> fval res" where
  "field d k = (case map_of d k of None \<Rightarrow> Inl Key_Error | Some v \<Rightarrow> Inr v)"

fun pack_value :: "ctype \<Rightarrow> fval \<Rightarrow> byte list res" where
  "pack_value (Chars n) (Raw b) = Inr (take n b @ replicate (n - length b) 0)"
| "pack_value U32 (Num n) = pack_field (4, n)"
| "pack_value U64 (Num n) = pack_field (8, n)"
| "pack_value _ _ = Inl Struct_Error"

definition cs_pack :: "cstruct \<Rightarrow> fields \<Rightarrow> byte list res" where
  "cs_pack cs d =
     res_bind (res_mapM (field d) (map fst cs)) (\<lambda>vs.
     res_map concat (res_mapM (\<lambda>(t, v). pack_value t v) (zip (map snd cs) vs)))"

text \<open>An offset of zero is taken for no offset, and a position of zero is not gone back to.\<close>

definition cs_write :: "cstruct \<Rightarrow> fields \<Rightarrow> nat option \<Rightarrow> (bfile, unit) prog" where
  "cs_write cs d offset =
     andthen (lift_res (cs_pack cs d)) (\<lambda>packed.
     andthen (case offset of
         None \<Rightarrow> ret None
       | Some off \<Rightarrow> if off = 0 then ret None else andthen f_tell (\<lambda>save. seq (f_seek off) (ret (Some save)))) (\<lambda>save.
     seq (f_write packed) (case save of None \<Rightarrow> ret () | Some s \<Rightarrow> if s = 0 then ret () else f_seek s)))"

text \<open>The test compares a name with a field, which are never equal.\<close>

definition cs_getitem :: "cstruct \<Rightarrow> string \<Rightarrow> (string \<times> ctype) res" where
  "cs_getitem cs name = Inl Key_Error"

definition cs_contains :: "cstruct \<Rightarrow> string \<Rightarrow> bool" where
  "cs_contains cs name = (name \<in> fst ` set cs)"

section \<open>Headers\<close>

text \<open>A header has the data of its structure, or None if the file is too short.\<close>

definition field_of :: "fields option \<Rightarrow> string \<Rightarrow> fval res" where
  "field_of h k = (case h of None \<Rightarrow> Inl Type_Error | Some d \<Rightarrow> field d k)"

definition num_of :: "fields option \<Rightarrow> string \<Rightarrow> nat res" where
  "num_of h k = res_bind (field_of h k) (\<lambda>v. case v of Num n \<Rightarrow> Inr n | Raw _ \<Rightarrow> Inl Type_Error)"

definition hdr_get :: "cstruct \<Rightarrow> fields option \<Rightarrow> string \<Rightarrow> nat res" where
  "hdr_get cs h name = (if cs_contains cs name then num_of h name else Inl Assertion_Error)"

definition hdr_set :: "cstruct \<Rightarrow> fields \<Rightarrow> string \<Rightarrow> fval \<Rightarrow> fields res" where
  "hdr_set cs d name v = (if cs_contains cs name then Inr (AList.update name v d) else Inl Assertion_Error)"

definition hdr_pack :: "cstruct \<Rightarrow> fields option \<Rightarrow> byte list res" where
  "hdr_pack cs h = (case h of None \<Rightarrow> Inl Type_Error | Some d \<Rightarrow> cs_pack cs d)"

definition hdr_write :: "cstruct \<Rightarrow> fields option \<Rightarrow> (bfile, unit) prog" where
  "hdr_write cs h = andthen (lift_res (hdr_pack cs h)) (\<lambda>raw. andthen (f_write raw) (\<lambda>_. ret ()))"

definition label_struct :: cstruct where
  "label_struct = [(''id'', Chars 8), (''sector'', U64), (''crc'', U32), (''offset'', U32), (''type'', Chars 8)]"

definition disk_locn_struct :: cstruct where
  "disk_locn_struct = [(''offset'', U64), (''size'', U64)]"

definition pv_struct :: cstruct where
  "pv_struct = [(''uuid'', Chars 32), (''disk_size'', U64)]"

definition raw_locn_struct :: cstruct where
  "raw_locn_struct = [(''offset'', U64), (''size'', U64), (''checksum'', U32), (''flags'', U32)]"

definition mda_struct :: cstruct where
  "mda_struct = [(''checksum'', U32), (''magic'', Chars 16), (''version'', U32), (''start'', U64), (''size'', U64)]"

definition ascii_bytes :: "string \<Rightarrow> byte list" where
  "ascii_bytes s = map (\<lambda>c. word_of_nat (of_char c)) s"

definition label_id :: "byte list" where "label_id = ascii_bytes ''LABELONE''"

text \<open>The sectors 0 to 3.\<close>

fun label_scan :: "nat \<Rightarrow> nat \<Rightarrow> (bfile, fields option) prog" where
  "label_scan sector_size 0 = ret None"
| "label_scan sector_size (Suc k) =
     andthen (f_read sector_size) (\<lambda>raw.
     if take (length label_id) raw = label_id then lift_res (res_map Some (cs_unpack label_struct raw))
     else label_scan sector_size k)"

definition label_search :: "nat \<Rightarrow> (bfile, fields option) prog" where
  "label_search sector_size = seq (f_seek 0) (label_scan sector_size 4)"

text \<open>The arrays of locations end with an offset of zero or with the file.\<close>

lemma cs_read_pos: "cs_read cs f = (Inr (Some d), f') \<Longrightarrow> bf_bytes f' = bf_bytes f \<and> bf_open f' = bf_open f \<and>
    bf_pos f' = bf_pos f + cs_size cs \<and> (cs_size cs = 0 \<or> bf_pos f' \<le> length (bf_bytes f))"
  by (auto simp: cs_read_def f_tell_def f_read_def need_open_def seq_def andthen_def run_simps Let_def split: if_splits sum.splits)

function read_array :: "cstruct \<Rightarrow> (bfile, fields list) prog" where
  "read_array cs f =
     (case cs_read cs f of
        (Inl e, f') \<Rightarrow> (Inl e, f')
      | (Inr None, f') \<Rightarrow> (Inr [], f')
      | (Inr (Some d), f') \<Rightarrow>
          if cs_size cs = 0 \<or> map_of d ''offset'' = Some (Num 0) then (Inr [], f')
          else (case read_array cs f' of (Inl e, f'') \<Rightarrow> (Inl e, f'') | (Inr ds, f'') \<Rightarrow> (Inr (d # ds), f'')))"
  by pat_completeness auto

termination
  by (relation "measure (\<lambda>(cs, f). length (bf_bytes f) - bf_pos f)") (auto dest!: cs_read_pos [OF sym])

declare read_array.simps [simp del]

record pv_header =
  pv_data :: "fields option"
  pv_data_areas :: "fields list"
  pv_meta_areas :: "fields list"

definition pv_read :: "(bfile, pv_header) prog" where
  "pv_read =
     andthen (cs_read pv_struct) (\<lambda>data.
     andthen (read_array disk_locn_struct) (\<lambda>das.
     andthen (read_array disk_locn_struct) (\<lambda>mas.
     ret \<lparr>pv_data = data, pv_data_areas = das, pv_meta_areas = mas\<rparr>)))"

definition read_pv_header :: "fields \<Rightarrow> (bfile, pv_header) prog" where
  "read_pv_header lbl =
     andthen (lift_res (num_of (Some lbl) ''sector'')) (\<lambda>sector.
     andthen (lift_res (num_of (Some lbl) ''offset'')) (\<lambda>offset.
     seq (f_seek (sector * 512 + offset)) pv_read))"

text \<open>The area as a file of its own.\<close>

definition locn_read_data :: "fields \<Rightarrow> (bfile, bfile) prog" where
  "locn_read_data d =
     andthen (lift_res (num_of (Some d) ''offset'')) (\<lambda>off.
     seq (f_seek off)
     (andthen (lift_res (num_of (Some d) ''size'')) (\<lambda>n.
      andthen (f_read n) (\<lambda>bs. ret (bytes_io bs)))))"

record mda_header =
  mda_data :: "fields option"
  mda_locs :: "fields list"

definition mda_read :: "(bfile, mda_header) prog" where
  "mda_read =
     andthen (cs_read mda_struct) (\<lambda>data.
     andthen (read_array raw_locn_struct) (\<lambda>locs.
     ret \<lparr>mda_data = data, mda_locs = locs\<rparr>))"

definition committed :: "mda_header \<Rightarrow> fields res" where
  "committed h = (case mda_locs h of [] \<Rightarrow> Inl Index_Error | l # _ \<Rightarrow> Inr l)"

definition metadata_offset :: "mda_header \<Rightarrow> fields \<Rightarrow> nat res" where
  "metadata_offset h l =
     res_bind (num_of (mda_data h) ''start'') (\<lambda>start.
     res_map (\<lambda>off. start + off) (hdr_get raw_locn_struct (Some l) ''offset''))"

text \<open>The bytes of the metadata.\<close>

definition mda_read_metadata :: "mda_header \<Rightarrow> (bfile, byte list) prog" where
  "mda_read_metadata h =
     andthen (lift_res (committed h)) (\<lambda>l.
     andthen (lift_res (metadata_offset h l)) (\<lambda>off.
     seq (f_seek off)
     (andthen (lift_res (hdr_get raw_locn_struct (Some l) ''size'')) f_read)))"

definition header_size :: nat where "header_size = 512"

text \<open>
  The header is built with its old checksum, gets the checksum of what follows, and is built again over the first
  bytes.  The structure in memory is changed too.
\<close>

definition mda_image :: "mda_header \<Rightarrow> byte list res" where
  "mda_image h =
     res_bind (hdr_pack mda_struct (mda_data h)) (\<lambda>data.
     res_map (\<lambda>locs. let fr = data @ concat locs in fr @ replicate (header_size - length fr) 0)
       (res_mapM (cs_pack raw_locn_struct) (mda_locs h)))"

definition on_file :: "(bfile, 'a) prog \<Rightarrow> (bfile \<times> mda_header, 'a) prog" where
  "on_file p fh = (case p (fst fh) of (r, f) \<Rightarrow> (r, (f, snd fh)))"

definition mda_write :: "(bfile \<times> mda_header, nat) prog" where
  "mda_write =
     andthen (ask snd) (\<lambda>h.
     andthen (lift_res (mda_image h)) (\<lambda>raw.
     andthen (lift_res (case mda_data h of None \<Rightarrow> Inl Type_Error
         | Some d \<Rightarrow> Inr (AList.update ''checksum'' (Num (unat (calc_crc (drop 4 raw) initial_crc))) d))) (\<lambda>d.
     seq (update_world (\<lambda>(f, h). (f, h\<lparr>mda_data := Some d\<rparr>)))
     (andthen (lift_res (cs_pack mda_struct d)) (\<lambda>data.
      andthen (lift_res (num_of (Some d) ''start'')) (\<lambda>start.
      on_file (seq (f_seek start) (f_write (write_at 0 data raw)))))))))"

definition mda_write_metadata :: "byte list \<Rightarrow> (bfile \<times> mda_header, nat) prog" where
  "mda_write_metadata raw =
     andthen (ask snd) (\<lambda>h.
     andthen (lift_res (committed h)) (\<lambda>l.
     andthen (lift_res (metadata_offset h l)) (\<lambda>off.
     andthen (on_file (seq (f_seek off) (f_write raw))) (\<lambda>n.
     andthen (lift_res (hdr_set raw_locn_struct l ''size'' (Num n))) (\<lambda>l1.
     andthen (lift_res (hdr_set raw_locn_struct l1 ''checksum'' (Num (unat (calc_crc raw initial_crc))))) (\<lambda>l2.
     seq (update_world (\<lambda>(f, h). (f, h\<lparr>mda_locs := l2 # tl (mda_locs h)\<rparr>))) mda_write))))))"

section \<open>Metadata\<close>

text \<open>Texts are their bytes in UTF-8; the bytes that are read have to be UTF-8.\<close>

definition in_range :: "byte \<Rightarrow> byte \<Rightarrow> byte \<Rightarrow> bool" where
  "in_range lo b hi \<longleftrightarrow> lo \<le> b \<and> b \<le> hi"

fun utf8_ok :: "byte list \<Rightarrow> bool" where
  "utf8_ok [] = True"
| "utf8_ok (b # bs) =
     (if b < 0x80 then utf8_ok bs
      else if in_range 0xC2 b 0xDF then (case bs of c # cs \<Rightarrow> in_range 0x80 c 0xBF \<and> utf8_ok cs | _ \<Rightarrow> False)
      else if in_range 0xE0 b 0xEF
        then (case bs of
            c # d # cs \<Rightarrow> in_range (if b = 0xE0 then 0xA0 else 0x80) c (if b = 0xED then 0x9F else 0xBF) \<and>
              in_range 0x80 d 0xBF \<and> utf8_ok cs
          | _ \<Rightarrow> False)
      else if in_range 0xF0 b 0xF4
        then (case bs of
            c # d # e # cs \<Rightarrow> in_range (if b = 0xF0 then 0x90 else 0x80) c (if b = 0xF4 then 0x8F else 0xBF) \<and>
              in_range 0x80 d 0xBF \<and> in_range 0x80 e 0xBF \<and> utf8_ok cs
          | _ \<Rightarrow> False)
      else False)"

definition decode_utf8 :: "byte list \<Rightarrow> string res" where
  "decode_utf8 bs = (if utf8_ok bs then Inr (map (\<lambda>b. char_of (unat b)) bs) else Inl Value_Error)"

record lvm_metadata =
  md_name :: "string option"
  md_data :: dict

definition metadata_decode :: "(string \<Rightarrow> pyval res) \<Rightarrow> nat \<Rightarrow> byte list \<Rightarrow> lvm_metadata steps" where
  "metadata_decode to_float n bs =
     (case decode_utf8 bs of
        Inl e \<Rightarrow> Some (Inl e)
      | Inr s \<Rightarrow> step_bind (decode_data to_float n s) (\<lambda>(name, d). Some (Inr \<lparr>md_name = name, md_data = d\<rparr>)))"

definition metadata_encode :: "lvm_metadata \<Rightarrow> byte list res" where
  "metadata_encode md = res_map ascii_bytes (encode_data (md_data md))"

text \<open>The name under which the data is looked up stays the old one.\<close>

definition rename_vg :: "string \<Rightarrow> lvm_metadata \<Rightarrow> lvm_metadata res" where
  "rename_vg new_name md =
     (case md_name md of
        None \<Rightarrow> Inl Key_Error
      | Some name \<Rightarrow>
          (case dict_get (md_data md) name of
             None \<Rightarrow> Inl Key_Error
           | Some d \<Rightarrow> Inr (md\<lparr>md_data := (new_name, d) # dict_del (dict_del (md_data md) name) new_name\<rparr>)))"

section \<open>Disks\<close>

record lvm_disk =
  dk_label :: fields
  dk_pv :: pv_header
  dk_headers :: "mda_header list"
  dk_metadata :: lvm_metadata

fun read_mdas :: "fields list \<Rightarrow> (bfile, mda_header list) prog" where
  "read_mdas [] = ret []"
| "read_mdas (ma # mas) =
     andthen (locn_read_data ma) (\<lambda>data.
     andthen (lift_res (fst (mda_read data))) (\<lambda>h.
     andthen (read_mdas mas) (\<lambda>hs. ret (h # hs))))"

definition read_headers :: "(bfile, fields \<times> pv_header \<times> mda_header list \<times> byte list) prog" where
  "read_headers =
     andthen (label_search 512) (\<lambda>lbl.
     case lbl of
       None \<Rightarrow> raise_exn (Runtime_Error ''Could not find label header'')
     | Some l \<Rightarrow>
         andthen (read_pv_header l) (\<lambda>pv.
         andthen (read_mdas (pv_meta_areas pv)) (\<lambda>hs.
         case hs of
           [] \<Rightarrow> raise_exn (Runtime_Error ''Could not find metadata header'')
         | h # _ \<Rightarrow> andthen (mda_read_metadata h) (\<lambda>raw. ret (l, pv, hs, raw)))))"

definition f_close :: "bfile \<Rightarrow> bfile" where
  "f_close f = f\<lparr>bf_open := False\<rparr>"

text \<open>Every exception closes the file; None is a text that never ends.\<close>

definition disk_init :: "(string \<Rightarrow> pyval res) \<Rightarrow> nat \<Rightarrow> bfile \<Rightarrow> (lvm_disk res \<times> bfile) option" where
  "disk_init to_float n f =
     (case read_headers f of
        (Inl e, f') \<Rightarrow> Some (Inl e, f_close f')
      | (Inr (l, pv, hs, raw), f') \<Rightarrow>
          (case metadata_decode to_float n raw of
             None \<Rightarrow> None
           | Some (Inl e) \<Rightarrow> Some (Inl e, f_close f')
           | Some (Inr md) \<Rightarrow> Some (Inr \<lparr>dk_label = l, dk_pv = pv, dk_headers = hs, dk_metadata = md\<rparr>, f')))"

fun flush_headers :: "lvm_metadata \<Rightarrow> bfile \<Rightarrow> mda_header list \<Rightarrow> unit res \<times> bfile \<times> mda_header list" where
  "flush_headers md f [] = (Inr (), f, [])"
| "flush_headers md f (h # hs) =
     (case metadata_encode md of
        Inl e \<Rightarrow> (Inl e, f, h # hs)
      | Inr raw \<Rightarrow>
          (case mda_write_metadata raw (f, h) of
             (Inl e, f', h') \<Rightarrow> (Inl e, f', h' # hs)
           | (Inr _, f', h') \<Rightarrow> (case flush_headers md f' hs of (r, f'', hs') \<Rightarrow> (r, f'', h' # hs'))))"

definition flush_metadata :: "bfile \<times> lvm_disk \<Rightarrow> unit res \<times> bfile \<times> lvm_disk" where
  "flush_metadata fd =
     (case flush_headers (dk_metadata (snd fd)) (fst fd) (dk_headers (snd fd)) of
        (r, f, hs) \<Rightarrow> (r, f, (snd fd)\<lparr>dk_headers := hs\<rparr>))"

definition disk_rename_vg :: "string \<Rightarrow> lvm_disk \<Rightarrow> lvm_disk res" where
  "disk_rename_vg new_name d = res_map (\<lambda>md. d\<lparr>dk_metadata := md\<rparr>) (rename_vg new_name (dk_metadata d))"

definition set_metadata :: "string \<Rightarrow> pyval \<Rightarrow> lvm_disk \<Rightarrow> lvm_disk" where
  "set_metadata k v d = d\<lparr>dk_metadata := (dk_metadata d)\<lparr>md_data := dict_set (md_data (dk_metadata d)) k v\<rparr>\<rparr>"

definition set_description :: "string \<Rightarrow> lvm_disk \<Rightarrow> lvm_disk" where
  "set_description desc = set_metadata ''description'' (PyStr desc)"

definition set_creation_time :: "int \<Rightarrow> lvm_disk \<Rightarrow> lvm_disk" where
  "set_creation_time t = set_metadata ''creation_time'' (PyInt t)"

definition set_creation_host :: "string \<Rightarrow> lvm_disk \<Rightarrow> lvm_disk" where
  "set_creation_host host = set_metadata ''creation_host'' (PyStr host)"

end
