(* ===== verification/Int_Text.thy ===== *)
theory Int_Text
  imports Build_Defines
begin

text \<open>Integers are read from the texts they are printed as; both the metadata of LVM and the cache rely on it.\<close>

lemma dec_int_chars: "c \<in> set (dec_int i) \<Longrightarrow> is_digit c \<or> c = CHR ''-''"
  by (auto simp: dec_int_def dest: dec_nat_digits split: if_splits)

lemma digits_value_digits: "\<forall>c \<in> set ds. is_digit c \<Longrightarrow> digits_value ds n = Some (foldl (\<lambda>n c. 10 * n + digit_val c) n ds)"
  by (induction ds n rule: digits_value.induct) auto

lemma unsigned_dec: "unsigned_int (dec_nat n) = Some n"
proof -
  obtain c cs where c: "dec_nat n = c # cs" by (cases "dec_nat n") auto
  have d: "\<forall>x \<in> set (c # cs). is_digit x" using dec_nat_digits [of _ n] c by auto
  have "digits_value cs (digit_val c) = Some (nat_of_digits (dec_nat n))" using d by (simp add: digits_value_digits nat_of_digits_def c)
  then show ?thesis using d nat_of_dec_nat [of n] by (simp add: unsigned_int_def c)
qed

lemma no_blanks_dropped: "\<forall>c \<in> set s. \<not> is_space c \<Longrightarrow> dropWhile is_space s = s"
  by (cases s) auto

lemma strip_plain: "\<forall>c \<in> set s. \<not> is_space c \<Longrightarrow> py_strip s = s"
  by (simp add: py_strip_def py_lstrip_def py_rstrip_def no_blanks_dropped)

lemma py_int_dec: "py_int (dec_int i) = Some i"
proof -
  have "\<forall>c \<in> set (dec_int i). \<not> is_space c" by (auto dest!: dec_int_chars simp: is_digit_def is_space_def)
  then have strip: "py_strip (dec_int i) = dec_int i" by (rule strip_plain)
  show ?thesis
  proof (cases "i < 0")
    case True
    then show ?thesis unfolding py_int_def strip by (simp add: dec_int_def unsigned_dec)
  next
    case False
    obtain c cs where c: "dec_nat (nat i) = c # cs" by (cases "dec_nat (nat i)") auto
    have "is_digit c" using dec_nat_digits [of c "nat i"] c by simp
    then have "c \<noteq> CHR ''-''" "c \<noteq> CHR ''+''" by (auto simp: is_digit_def)
    then show ?thesis using False unsigned_dec [of "nat i"] unfolding py_int_def strip by (simp add: dec_int_def c)
  qed
qed

end
