(* ===== verification/Lvm_Text_Laws.thy ===== *)
theory Lvm_Text_Laws
  imports Lvm_Text Int_Text
begin

text \<open>
  Properties of the metadata text: what is encoded is decoded to the same data, and a text in quotes that does
  not end makes the decoder run for ever.
\<close>

section \<open>Words\<close>

lemma split_words_sep: "is_space c \<Longrightarrow> split_words w (a @ c # b) = split_words w a @ split_words [] b"
  by (induction w a rule: split_words.induct) auto

lemma split_words_word: "\<forall>c \<in> set k. \<not> is_space c \<Longrightarrow> split_words w k = (if w @ k = [] then [] else [w @ k])"
  by (induction k arbitrary: w) auto

lemma split_words_blank: "is_space c \<Longrightarrow> split_words [] (c # s) = split_words [] s"
  by simp

lemma words_collapse: "split_words w (collapse False s) = split_words w s \<and> split_words [] (collapse True s) = split_words [] s"
proof (induction s arbitrary: w)
  case (Cons c s)
  then show ?case by (auto simp: is_space_def)
qed simp

lemma collapse_nul: "collapse b (s @ [CHR 0x00]) = collapse b s @ [CHR 0x00]"
  by (induction b s rule: collapse.induct) (auto simp: is_space_def)

lemma space_tokens_append [simp]: "space_tokens (a @ b) = space_tokens a @ space_tokens b"
  by (simp add: space_tokens_def)

lemma no_comments: "CHR ''#'' \<notin> set s \<Longrightarrow> strip_comments s = s"
  by (induction s rule: strip_comments.induct) auto

definition text_words :: "string \<Rightarrow> string list" where
  "text_words s = split_words [] (space_tokens s)"

lemma tokens_nul: "CHR ''#'' \<notin> set s \<Longrightarrow> tokens (s @ [CHR 0x00]) = text_words s"
  by (simp add: tokens_def text_words_def no_comments collapse_nul strip_nul_def space_tokens_def [of "[_]"] spaced_char_def words_collapse)

lemma text_words_sep:
  assumes "space_tokens [c] = [d]" and "is_space d" shows "text_words (a @ c # b) = text_words a @ text_words b"
  using split_words_sep [OF assms(2)] assms(1) space_tokens_append [of "[c]" b]
  by (simp add: text_words_def)

text \<open>A text without blanks and without the characters of the format.\<close>

definition plain_text :: "string \<Rightarrow> bool" where
  "plain_text s \<longleftrightarrow> (\<forall>c \<in> set s. c \<notin> {CHR ''#'', CHR ''['', CHR '']'', CHR 0x22, CHR ''='', CHR '','', CHR 0x00})"

definition plain_word :: "string \<Rightarrow> bool" where
  "plain_word s \<longleftrightarrow> s \<noteq> [] \<and> plain_text s \<and> (\<forall>c \<in> set s. \<not> is_space c)"

lemma plain_text_tokens: "plain_text s \<Longrightarrow> space_tokens s = s"
  by (induction s) (auto simp: plain_text_def space_tokens_def spaced_char_def)

lemma plain_text_words: "plain_text s \<Longrightarrow> text_words s = split_words [] s"
  by (simp add: text_words_def plain_text_tokens)

lemma plain_word_words: "plain_word s \<Longrightarrow> text_words s = [s]"
  by (simp add: plain_word_def plain_text_words split_words_word)

lemma words_plain: "w \<in> set (split_words v s) \<Longrightarrow> \<forall>c \<in> set v. \<not> is_space c \<Longrightarrow> w \<noteq> [] \<and> (\<forall>c \<in> set w. \<not> is_space c)"
proof (induction v s rule: split_words.induct)
  case (2 v c cs)
  then show ?case by (cases "is_space c") (simp_all split: if_splits, blast)
qed (simp split: if_splits)

lemma words_chars: "w \<in> set (split_words v s) \<Longrightarrow> set w \<subseteq> set v \<union> set s"
proof (induction v s rule: split_words.induct)
  case (2 v c cs)
  then show ?case by (cases "is_space c") (simp_all split: if_splits, blast+)
qed (simp split: if_splits)

section \<open>Encodable data\<close>

text \<open>
  Texts have no characters of the format and single blanks between words; lists have numbers and texts; keys
  are distinct words other than a brace.
\<close>

definition clean_text :: "string \<Rightarrow> bool" where
  "clean_text s \<longleftrightarrow> plain_text s \<and> py_join '' '' (split_words [] s) = s"

fun encodable :: "pyval \<Rightarrow> bool" and encodable_list :: "pyval list \<Rightarrow> bool" and encodable_dict :: "dict \<Rightarrow> bool" where
  "encodable (PyInt i) = True"
| "encodable (PyStr s) = clean_text s"
| "encodable (PyList xs) = encodable_list xs"
| "encodable (PyDict d) = encodable_dict d"
| "encodable v = False"
| "encodable_list [] = True"
| "encodable_list (x # xs) = ((case x of PyInt i \<Rightarrow> True | PyStr s \<Rightarrow> clean_text s | _ \<Rightarrow> False) \<and> encodable_list xs)"
| "encodable_dict [] = True"
| "encodable_dict ((k, v) # d) = (plain_word k \<and> k \<noteq> ''}'' \<and> k \<notin> fst ` set d \<and> encodable v \<and> encodable_dict d)"

text \<open>The tokens of the encoded text.\<close>

fun val_tokens :: "pyval \<Rightarrow> string list" and list_tokens :: "pyval list \<Rightarrow> string list" and dict_tokens :: "dict \<Rightarrow> string list" where
  "val_tokens (PyInt i) = [dec_int i]"
| "val_tokens (PyStr s) = quote # split_words [] s @ [quote]"
| "val_tokens (PyList xs) = ''['' # list_tokens xs @ ['']'']"
| "val_tokens (PyDict d) = ''{'' # dict_tokens d @ [''}'']"
| "val_tokens v = []"
| "list_tokens [] = []"
| "list_tokens (x # xs) = val_tokens x @ list_tokens xs"
| "dict_tokens [] = []"
| "dict_tokens ((k, v) # d) = k # val_tokens v @ dict_tokens d"

lemma dec_int_word: "plain_word (dec_int i)"
proof -
  have "c \<notin> {CHR ''#'', CHR ''['', CHR '']'', CHR 0x22, CHR ''='', CHR '','', CHR 0x00} \<and> \<not> is_space c" if "c \<in> set (dec_int i)" for c
    using dec_int_chars [OF that] by (auto simp: is_digit_def is_space_def)
  then show ?thesis by (auto simp: plain_word_def plain_text_def dec_int_def)
qed

lemma quoted_words:
  assumes "plain_text s" shows "text_words (quote @ s @ quote) = quote # split_words [] s @ [quote]"
proof -
  have q: "space_tokens quote = '' '' @ quote @ '' ''" by (simp add: quote_def space_tokens_def spaced_char_def)
  have sp: "is_space CHR '' ''" by (simp add: is_space_def)
  have "text_words (quote @ s @ quote) = split_words [] ('' '' @ quote @ CHR '' '' # (s @ CHR '' '' # (quote @ '' '')))"
    by (simp add: text_words_def q plain_text_tokens [OF assms])
  also have "\<dots> = split_words [] ('' '' @ quote) @ split_words [] s @ split_words [] (quote @ '' '')"
    using split_words_sep [OF sp, of "[]" "'' '' @ quote" "s @ CHR '' '' # quote @ '' ''"]
      split_words_sep [OF sp, of "[]" s "quote @ '' ''"] by simp
  also have "\<dots> = quote # split_words [] s @ [quote]" by (simp add: quote_def is_space_def)
  finally show ?thesis .
qed

text \<open>What is encoded has no comment sign and the tokens above.\<close>

definition encoded :: "string \<Rightarrow> string list \<Rightarrow> bool" where
  "encoded s ts \<longleftrightarrow> CHR ''#'' \<notin> set s \<and> text_words s = ts"

lemma no_hash: "plain_text s \<Longrightarrow> CHR ''#'' \<notin> set s"
  by (auto simp: plain_text_def)

lemma encoded_int: "encoded (dec_int i) [dec_int i]"
  using dec_int_word [of i] by (simp add: encoded_def plain_word_words no_hash plain_word_def)

lemma encoded_text: "clean_text s \<Longrightarrow> encoded (quote @ s @ quote) (quote # split_words [] s @ [quote])"
  by (simp add: encoded_def clean_text_def quoted_words no_hash) (simp add: quote_def)

lemma encoded_sep:
  "encoded a ts \<Longrightarrow> encoded b us \<Longrightarrow> space_tokens [c] = [d] \<Longrightarrow> is_space d \<Longrightarrow> c \<noteq> CHR ''#'' \<Longrightarrow> encoded (a @ c # b) (ts @ us)"
  by (simp add: encoded_def text_words_sep)

lemma blank [simp]: "is_space CHR '' ''" "is_space newline" "space_tokens '' '' = '' ''" "space_tokens [newline] = [newline]"
  by (simp_all add: is_space_def newline_def space_tokens_def spaced_char_def)

lemma newline_char [simp]: "newline \<noteq> CHR ''#''"
  by (simp add: newline_def)

lemma encoded_nil: "encoded [] []"
  by (simp add: encoded_def text_words_def space_tokens_def)

lemma encoded_join: "list_all2 encoded ss tss \<Longrightarrow> encoded (py_join '', '' ss) (concat tss)"
proof (induction ss tss rule: list_all2_induct)
  case (Cons s ss t tss)
  show ?case
  proof (cases ss)
    case Nil
    then show ?thesis using Cons by auto
  next
    case (Cons s' ss')
    have "encoded (s @ CHR '','' # '' '' @ py_join '', '' ss) (t @ concat tss)"
    proof -
      have "text_words (CHR '','' # '' '' @ b) = text_words ('' '' @ b)" for b
        by (simp add: text_words_def space_tokens_def spaced_char_def)
      moreover have "text_words (s @ CHR '','' # '' '' @ b) = text_words (s @ '' '' @ b)" for b
        by (simp add: text_words_def space_tokens_def spaced_char_def)
      ultimately show ?thesis
        using encoded_sep [OF Cons.hyps(1) Cons.IH, of "CHR '' ''" "CHR '' ''"] by (simp add: encoded_def)
    qed
    then show ?thesis using Cons by simp
  qed
qed (simp add: encoded_nil)

lemma encoded_brackets: "encoded s ts \<Longrightarrow> encoded (''['' @ s @ '']'') (''['' # ts @ ['']''])"
proof -
  assume s: "encoded s ts"
  have "text_words (''['' @ s @ '']'') = split_words [] (''['' @ CHR '' '' # (space_tokens s @ CHR '' '' # '']''))"
    by (simp add: text_words_def space_tokens_def [of "''[''"] space_tokens_def [of "'']''"] spaced_char_def)
      (simp add: space_tokens_def spaced_char_def)
  also have "\<dots> = ''['' # split_words [] (space_tokens s) @ ['']'']"
    using split_words_sep [OF blank(1), of "[]" "''[''" "space_tokens s @ CHR '' '' # '']''"]
      split_words_sep [OF blank(1), of "[]" "space_tokens s" "'']''"] by (simp add: is_space_def)
  finally show ?thesis using s by (simp add: encoded_def text_words_def)
qed

lemma encoded_blank: "encoded x ts \<Longrightarrow> encoded (''= '' @ x) ts"
proof -
  have "space_tokens (CHR ''='' # CHR '' '' # x) = CHR '' '' # space_tokens x" by (simp add: space_tokens_def spaced_char_def)
  then show "encoded x ts \<Longrightarrow> encoded (''= '' @ x) ts" by (simp add: encoded_def text_words_def)
qed

text \<open>The text of a dictionary, with what follows it.\<close>

definition encoded_before :: "string \<Rightarrow> string list \<Rightarrow> bool" where
  "encoded_before s ts \<longleftrightarrow> (\<forall>b us. encoded b us \<longrightarrow> encoded (s @ b) (ts @ us))"

lemma encoded_braces:
  assumes "encoded_before s ts" shows "encoded (''{'' @ [newline] @ s @ ''}'' @ [newline]) (''{'' # ts @ [''}''])"
proof -
  have open_brace: "encoded ''{'' [''{'']" and close_brace: "encoded ''}'' [''}'']"
    by (simp_all add: encoded_def text_words_def space_tokens_def spaced_char_def is_space_def)
  have "encoded (''}'' @ newline # []) ([''}''] @ [])"
    by (rule encoded_sep [OF close_brace encoded_nil, of newline newline]) simp_all
  then have "encoded (s @ ''}'' @ [newline]) (ts @ [''}''])" using assms by (simp add: encoded_before_def)
  from encoded_sep [OF open_brace this, of newline newline] show ?thesis by simp
qed

lemma encoded_entry:
  assumes "plain_word k" and "encoded s ts" and "encoded_before r us"
  shows "encoded_before (k @ '' = '' @ s @ [newline] @ r) (k # ts @ us)" and "encoded_before (k @ '' '' @ s @ [newline] @ r) (k # ts @ us)"
proof -
  have k: "encoded k [k]" using assms(1) by (simp add: encoded_def plain_word_words no_hash plain_word_def)
  have rest: "encoded (s @ newline # (r @ b)) (ts @ (us @ vs))" if "encoded b vs" for b vs
    using that assms(3) by (intro encoded_sep [OF assms(2), of _ _ newline newline]) (simp_all add: encoded_before_def)
  show "encoded_before (k @ '' '' @ s @ [newline] @ r) (k # ts @ us)" unfolding encoded_before_def
    using encoded_sep [OF k rest, of _ _ "CHR '' ''" "CHR '' ''"] by simp
  show "encoded_before (k @ '' = '' @ s @ [newline] @ r) (k # ts @ us)" unfolding encoded_before_def
    using encoded_sep [OF k encoded_blank [OF rest], of _ _ "CHR '' ''" "CHR '' ''"] by simp
qed

lemma encoded_scalar:
  "(case x of PyInt i \<Rightarrow> True | PyStr s \<Rightarrow> clean_text s | _ \<Rightarrow> False) \<Longrightarrow> \<exists>s. encode_val x = Inr s \<and> encoded s (val_tokens x)"
  by (cases x) (auto intro: encoded_int encoded_text)

lemma encoded_list: "encodable_list vs \<Longrightarrow> \<exists>ss. encode_list vs = Inr ss \<and> list_all2 encoded ss (map val_tokens vs) \<and> concat (map val_tokens vs) = list_tokens vs"
proof (induction vs)
  case (Cons x xs)
  then show ?case using encoded_scalar [of x] by auto
qed simp

lemma encoded_all:
  "encodable v \<Longrightarrow> \<exists>s. encode_val v = Inr s \<and> encoded s (val_tokens v)" "encodable_list vs \<Longrightarrow> True"
  "encodable_dict d \<Longrightarrow> \<exists>s. encode_dict d = Inr s \<and> encoded_before s (dict_tokens d)"
proof (induction v and vs and d rule: encodable_encodable_list_encodable_dict.induct)
  case (3 xs)
  then obtain ss where ss: "encode_list xs = Inr ss" "list_all2 encoded ss (map val_tokens xs)" "concat (map val_tokens xs) = list_tokens xs"
    using encoded_list [of xs] by auto
  then show ?case using encoded_brackets [OF encoded_join [OF ss(2)]] by simp
next
  case (4 d)
  then show ?case using encoded_braces by auto
next
  case (9 k v d)
  then obtain s r where s: "encode_val v = Inr s" "encoded s (val_tokens v)" "encode_dict d = Inr r" "encoded_before r (dict_tokens d)"
    by auto
  then show ?case using encoded_entry [OF _ s(2,4), of k] 9 by (cases v) auto
qed (auto intro: encoded_int encoded_text simp: encoded_nil encoded_before_def)

lemma encoded_tokens:
  assumes "encodable_dict d" shows "\<exists>s. encode_data d = Inr s \<and> tokens s = dict_tokens d"
proof -
  obtain s where s: "encode_dict d = Inr s" "encoded_before s (dict_tokens d)" using encoded_all(3) [OF assms] by blast
  from s(2) encoded_nil have "encoded (s @ []) (dict_tokens d @ [])" unfolding encoded_before_def by blast
  then show ?thesis using s(1) by (auto simp: encode_data_def encoded_def tokens_nul)
qed

section \<open>Parsing\<close>

lemma next_token_Cons [simp]: "next_token (t # ts) = (Some t, ts)" and next_token_Nil [simp]: "next_token [] = (None, [])"
  by (simp_all add: next_token_def)

lemma parse_str_words:
  "quote \<notin> set ws \<Longrightarrow> length ws < n \<Longrightarrow>
    (let (val, data) = next_token (ws @ quote # rest) in parse_str n result val data) =
      Some (Inr (PyStr (py_strip (result @ concat (map (\<lambda>w. '' '' @ w) ws))), rest))"
proof (induction ws arbitrary: n result)
  case Nil
  then show ?case by (cases n) simp_all
next
  case (Cons w ws)
  then obtain m where m: "n = Suc m" "length ws < m" by (cases n) auto
  have "w \<noteq> quote" using Cons.prems(1) by auto
  then show ?case using Cons.IH [of m "result @ '' '' @ w"] Cons.prems(1) m by (simp add: token_text_def Let_def)
qed

lemma join_blanks: "ws \<noteq> [] \<Longrightarrow> concat (map (\<lambda>w. '' '' @ w) ws) = '' '' @ py_join '' '' ws"
proof (induction ws)
  case (Cons w ws)
  then show ?case by (cases ws) auto
qed simp

lemma join_ends:
  assumes "\<forall>w \<in> set ws. w \<noteq> [] \<and> (\<forall>c \<in> set w. \<not> is_space c)" and "ws \<noteq> []"
  shows "py_join '' '' ws \<noteq> [] \<and> \<not> is_space (hd (py_join '' '' ws)) \<and> \<not> is_space (last (py_join '' '' ws))"
  using assms
proof (induction ws rule: induct_list012)
  case (3 w v ws)
  then show ?case by (simp add: hd_append)
qed simp_all

lemma strip_join:
  assumes "\<forall>w \<in> set ws. w \<noteq> [] \<and> (\<forall>c \<in> set w. \<not> is_space c)" and "ws \<noteq> []"
  shows "py_strip ('' '' @ py_join '' '' ws) = py_join '' '' ws"
proof -
  let ?s = "py_join '' '' ws"
  have "dropWhile is_space ?s = ?s" "dropWhile is_space (rev ?s) = rev ?s"
    using join_ends [OF assms] by (simp_all add: dropWhile_eq_self_iff hd_rev)
  then show ?thesis by (simp add: py_strip_def py_lstrip_def py_rstrip_def is_space_def)
qed

text \<open>A text in quotes is read back.\<close>

lemma parse_quoted:
  assumes "clean_text s" and "Suc (length (split_words [] s)) < n"
  shows "parse_type f n (Some quote) (split_words [] s @ quote # rest) = Some (Inr (PyStr s, rest))"
proof -
  let ?ws = "split_words [] s"
  have words: "w \<noteq> [] \<and> (\<forall>c \<in> set w. \<not> is_space c)" if "w \<in> set ?ws" for w using words_plain [OF that] by simp
  have "quote \<notin> set ?ws" using words_chars [of quote "[]" s] assms(1) by (auto simp: clean_text_def plain_text_def quote_def)
  moreover have "py_strip (concat (map (\<lambda>w. '' '' @ w) ?ws)) = s"
  proof (cases "?ws = []")
    case True
    then show ?thesis using assms(1) by (simp add: clean_text_def py_strip_def py_lstrip_def py_rstrip_def)
  next
    case False
    then show ?thesis using strip_join [of ?ws] words join_blanks [OF False] assms(1) by (simp add: clean_text_def)
  qed
  ultimately show ?thesis using parse_str_words [where ws = ?ws and n = n and result = "[]" and rest = rest] assms(2) by (simp add: parse_type_def)
qed

lemma parse_number: "parse_type f n (Some (dec_int i)) rest = Some (Inr (PyInt i, rest))"
proof -
  have "dec_int i \<noteq> quote" "CHR ''.'' \<notin> set (dec_int i)"
    using dec_int_chars [of _ i] by (auto simp: quote_def is_digit_def)
  then show ?thesis by (simp add: parse_type_def py_int_dec)
qed

text \<open>The tokens of a value are read back, with as many steps as there are tokens and one more.\<close>

lemma val_tokens_length: "encodable v \<Longrightarrow> 0 < length (val_tokens v)"
  by (cases v) auto

lemma parse_scalar:
  assumes "case x of PyInt i \<Rightarrow> True | PyStr s \<Rightarrow> clean_text s | _ \<Rightarrow> False" and "length (val_tokens x) \<le> n"
  shows "(let (val, data) = next_token (val_tokens x @ rest) in parse_type f n val data) = Some (Inr (x, rest))"
proof (cases x)
  case (PyStr s)
  then show ?thesis using assms parse_quoted [of s n f rest] by simp
qed (use assms in \<open>auto simp: parse_number\<close>)

lemma scalar_first:
  assumes "case x of PyInt i \<Rightarrow> True | PyStr s \<Rightarrow> clean_text s | _ \<Rightarrow> False"
  obtains t ts where "val_tokens x = t # ts" and "t \<notin> {''{'', ''['', '']''}"
proof (cases x)
  case (PyInt i)
  then show ?thesis using that dec_int_chars [of _ i] by (fastforce simp: is_digit_def)
next
  case (PyStr s)
  then show ?thesis using that by (auto simp: quote_def)
qed (use assms in auto)

lemma parse_list:
  "encodable_list xs \<Longrightarrow> length (list_tokens xs) < n \<Longrightarrow>
    (let (val, data) = next_token (list_tokens xs @ '']'' # rest) in parse_array f n val data acc) =
      Some (Inr (PyList (acc @ xs), rest))"
proof (induction xs arbitrary: n acc)
  case Nil
  then show ?case by (cases n) simp_all
next
  case (Cons x xs)
  from Cons.prems have x: "case x of PyInt i \<Rightarrow> True | PyStr s \<Rightarrow> clean_text s | _ \<Rightarrow> False" by simp
  from scalar_first [OF x] obtain t ts where t: "val_tokens x = t # ts" "t \<notin> {''{'', ''['', '']''}" by blast
  from Cons.prems t obtain m where m: "n = Suc m" "length ts + length (list_tokens xs) < m" by (cases n) auto
  have "parse_type f m (Some t) (ts @ list_tokens xs @ '']'' # rest) = Some (Inr (x, list_tokens xs @ '']'' # rest))"
    using parse_scalar [OF x, of m "list_tokens xs @ '']'' # rest" f] t m by simp
  then show ?case using Cons.IH [of m "acc @ [x]"] Cons.prems m t by simp
qed

text \<open>A dictionary ends with a brace or with the tokens.\<close>

definition dict_end :: "string list \<Rightarrow> string list \<Rightarrow> bool" where
  "dict_end ts rest \<longleftrightarrow> ts = ''}'' # rest \<or> ts = [] \<and> rest = []"

lemma parse_all:
  "encodable v \<Longrightarrow> (\<And>n rest. length (val_tokens v) < n \<Longrightarrow> parse_value f n (val_tokens v @ rest) = Some (Inr (v, rest)))"
  "encodable_list xs \<Longrightarrow> True"
  "encodable_dict d \<Longrightarrow> (\<And>n ts rest acc. length (dict_tokens d) < n \<Longrightarrow> dict_end ts rest \<Longrightarrow> fst ` set acc \<inter> fst ` set d = {} \<Longrightarrow>
     (let (val, data) = next_token (dict_tokens d @ ts) in parse_section f n val data acc) = Some (Inr (acc @ d, rest)))"
proof (induction v and xs and d rule: encodable_encodable_list_encodable_dict.induct)
  case (1 i)
  have "dec_int i \<notin> {''{'', ''['', '']''}" by (rule scalar_first [of "PyInt i"]) auto
  then show ?case using 1 parse_number [of f _ i rest] by (cases n) auto
next
  case (2 s)
  then show ?case using parse_quoted [of s "n - 1" f rest] by (cases n) (auto simp: quote_def)
next
  case (3 xs)
  then show ?case using parse_list [of xs "n - 1" rest f "[]"] by (cases n) auto
next
  case (4 d)
  then obtain m where m: "n = Suc m" "length (dict_tokens d) < m" by (cases n) auto
  then show ?case using 4 "4.IH" [of m "''}'' # rest" rest "[]"]
    by (cases "next_token (dict_tokens d @ ''}'' # rest)") (simp add: dict_end_def)
next
  case (8)
  then show ?case by (cases n) (auto simp: dict_end_def)
next
  case (9 k v d)
  then obtain m where m: "n = Suc m" "length (val_tokens v) < m" "length (dict_tokens d) < m" by (cases n) auto
  have "fst ` set (acc @ [(k, v)]) \<inter> fst ` set d = {}" and "dict_set acc k v = acc @ [(k, v)]"
    using 9 by (auto intro: dict_set_fresh)
  then show ?case using 9 m by simp
qed simp_all

lemma first_key: "encodable_dict d \<Longrightarrow> tokens s = dict_tokens d \<Longrightarrow> Suc (length (dict_tokens d)) \<le> m \<Longrightarrow>
    decode_data f m s = Some (Inr (map_option fst (List.find (\<lambda>_. True) d), d))"
  using parse_all(3) [of d m "[]" "[]" "[]" f] by (cases d) (auto simp: decode_data_def dict_end_def)

lemma encoded_decoded:
  assumes "encodable_dict d" obtains s where "encode_data d = Inr s" "tokens s = dict_tokens d"
  using encoded_tokens [OF assms] by blast

text \<open>
  The text of a volume group's metadata decodes to the dictionary it was encoded from, with the first key as the
  name of the group, if its texts and keys do not have the characters of the format and the keys are distinct; the
  decoder returns.
\<close>

theorem metadata_roundtrip:
  assumes "encodable_dict d"
  shows "\<exists>s n. encode_data d = Inr s \<and>
    (\<forall>m \<ge> n. decode_data f m s = Some (Inr (map_option fst (List.find (\<lambda>_. True) d), d)))"
proof -
  obtain s where "encode_data d = Inr s" "tokens s = dict_tokens d" using encoded_decoded [OF assms] .
  then show ?thesis using first_key [OF assms] by blast
qed

definition sample_group :: dict where
  "sample_group =
     [(''vg'', PyDict [(''id'', PyStr ''a-1''), (''seqno'', PyInt 3), (''status'', PyList [PyStr ''RESIZEABLE'', PyStr ''READ'']),
        (''max_lv'', PyInt 0)]),
      (''contents'', PyStr ''Text Format Volume Group''), (''version'', PyInt (-1))]"

lemma sample_encodable: "encodable_dict sample_group"
  by code_simp

lemma metadata_roundtrip_witness:
  "\<exists>s n. encode_data sample_group = Inr s \<and>
    (\<forall>m \<ge> n. decode_data (\<lambda>_. Inl Value_Error) m s = Some (Inr (Some ''vg'', sample_group)))"
  using metadata_roundtrip [OF sample_encodable, of "\<lambda>_. Inl Value_Error"] by (simp add: sample_group_def)

section \<open>Texts without an end\<close>

lemma open_text: "quote \<notin> set data \<Longrightarrow> val \<noteq> Some quote \<Longrightarrow> parse_str n result val data = None"
proof (induction n arbitrary: result val data)
  case (Suc n)
  then show ?case by (cases data) (auto simp: Let_def)
qed simp

text \<open>
  If the first value of the metadata is a text whose closing quote is missing, the decoder does not return,
  whatever the number of steps it may take.
\<close>

theorem open_quote_never_ends:
  assumes "tokens s = k # quote # ts" and "k \<noteq> ''}''" and "quote \<notin> set ts"
  shows "decode_data f n s = None"
proof -
  have "parse_type f m (Some quote) ts = None" for m
    using open_text [of "tl ts"] assms(3) by (cases ts) (auto simp: parse_type_def open_text)
  then have "parse_value f m (quote # ts) = None" for m by (cases m) (auto simp: quote_def)
  then show ?thesis using assms(1,2) by (cases n) (auto simp: decode_data_def)
qed

lemma open_quote_never_ends_witness:
  "decode_data (\<lambda>_. Inl Value_Error) n (''description = '' @ quote @ ''left open'') = None"
  by (rule open_quote_never_ends [where k = "''description''" and ts = "[''left'', ''open'']"]) (code_simp, simp_all add: quote_def)

end
