(* ===== verification/Lvm_Laws.thy ===== *)
theory Lvm_Laws
  imports Lvm Lvm_Text_Laws
begin

text \<open>
  Properties of LVM disks: structures are read back, and so are the header and the metadata of a metadata area after
  they were written, with valid checksums; renaming a volume group.
\<close>

section \<open>Structures\<close>

fun well_typed :: "ctype \<Rightarrow> fval \<Rightarrow> bool" where
  "well_typed (Chars n) (Raw b) = (length b = n)"
| "well_typed U32 (Num n) = (n < 2 ^ 32)"
| "well_typed U64 (Num n) = (n < 2 ^ 64)"
| "well_typed _ _ = False"

definition fits :: "cstruct \<Rightarrow> fields \<Rightarrow> bool" where
  "fits cs d \<longleftrightarrow> (\<forall>(f, t) \<in> set cs. \<exists>v. map_of d f = Some v \<and> well_typed t v)"

definition only :: "cstruct \<Rightarrow> fields \<Rightarrow> fields" where
  "only cs d = map (\<lambda>(f, t). (f, the (map_of d f))) cs"

definition value_bytes :: "ctype \<Rightarrow> fval \<Rightarrow> byte list" where
  "value_bytes t v = (case pack_value t v of Inl e \<Rightarrow> [] | Inr bs \<Rightarrow> bs)"

definition image :: "cstruct \<Rightarrow> fields \<Rightarrow> byte list" where
  "image cs d = concat (map (\<lambda>(f, t). value_bytes t (the (map_of d f))) cs)"

lemma value_packed:
  assumes "well_typed t v"
  shows "pack_value t v = Inr (value_bytes t v)" and "length (value_bytes t v) = ctype_size t"
    and "unpack_value t (value_bytes t v @ rest) = v"
  using assms by (cases t; cases v; simp add: value_bytes_def pack_field_def le_val_bytes)+

lemma fits_Cons: "fits ((f, t) # cs) d \<longleftrightarrow> well_typed t (the (map_of d f)) \<and> f \<in> dom (map_of d) \<and> fits cs d"
  by (auto simp: fits_def)

lemma image_Cons: "image ((f, t) # cs) d = value_bytes t (the (map_of d f)) @ image cs d"
  by (simp add: image_def)

lemma packed:
  assumes "fits cs d"
  shows "cs_pack cs d = Inr (image cs d)"
proof -
  let ?v = "\<lambda>f. the (map_of d f)"
  have "res_mapM (field d) (map fst cs) = Inr (map ?v (map fst cs))"
    using assms by (intro res_mapM_total) (auto simp: fits_def field_def)
  moreover have "zip (map snd cs) (map ?v (map fst cs)) = map (\<lambda>(f, t). (t, ?v f)) cs"
    by (induction cs) auto
  moreover have "res_mapM (\<lambda>(t, v). pack_value t v) (map (\<lambda>(f, t). (t, ?v f)) cs) =
      Inr (map (\<lambda>(t, v). value_bytes t v) (map (\<lambda>(f, t). (t, ?v f)) cs))"
  proof (rule res_mapM_total)
    fix x assume "x \<in> set (map (\<lambda>(f, t). (t, ?v f)) cs)"
    then obtain f t where "x = (t, ?v f)" "(f, t) \<in> set cs" by auto
    then show "(\<lambda>(t, v). pack_value t v) x = Inr ((\<lambda>(t, v). value_bytes t v) x)"
      using assms value_packed(1) [of t "?v f"] by (fastforce simp: fits_def)
  qed
  ultimately show ?thesis by (simp add: cs_pack_def image_def comp_def case_prod_unfold)
qed

lemma length_image: "fits cs d \<Longrightarrow> length (image cs d) = cs_size cs"
proof (induction cs)
  case (Cons c cs)
  obtain f t where c: "c = (f, t)" by (cases c)
  have "fits cs d" "well_typed t (the (map_of d f))" using Cons.prems by (simp_all add: c fits_Cons)
  then show ?case using Cons.IH by (simp add: c cs_size_def image_Cons value_packed(2))
qed (simp add: cs_size_def image_def)

lemma unpacked: "fits cs d \<Longrightarrow> unpack_values cs (image cs d @ rest) = only cs d"
proof (induction cs)
  case (Cons c cs)
  obtain f t where c: "c = (f, t)" by (cases c)
  have "fits cs d" "well_typed t (the (map_of d f))" using Cons.prems by (simp_all add: c fits_Cons)
  then show ?case using Cons.IH by (simp add: c only_def image_Cons value_packed(2) value_packed(3))
qed (simp add: only_def)

lemma fits_update:
  "fits cs d \<Longrightarrow> (\<And>t. (k, t) \<in> set cs \<Longrightarrow> well_typed t v) \<Longrightarrow> fits cs (AList.update k v d)"
  by (auto simp: fits_def update_conv')

lemma only_field: "(f, t) \<in> set cs \<Longrightarrow> map_of (only cs d @ e) f = Some (the (map_of d f))"
  by (induction cs) (auto simp: only_def)

lemma only_fits: "fits cs d \<Longrightarrow> fits cs (only cs d @ e)"
  unfolding fits_def using only_field by fastforce

lemma only_only: "only cs (only cs d @ e) = only cs d"
proof -
  have "only cs d' = only cs d" if "\<And>f t. (f, t) \<in> set cs \<Longrightarrow> map_of d' f = Some (the (map_of d f))" for d'
    using that by (auto simp: only_def)
  then show ?thesis using only_field by blast
qed

lemma image_only: "image cs (only cs d @ e) = image cs d"
  unfolding image_def by (rule arg_cong [where f = concat], rule map_cong) (auto simp: only_field simp del: map_of_append)

section \<open>Files\<close>

lemma f_seek_run: "bf_open f \<Longrightarrow> off < offset_limit \<Longrightarrow> f_seek off f = (Inr (), f\<lparr>bf_pos := off\<rparr>)"
  by (simp add: f_seek_def need_open_def seq_def andthen_def run_simps)

lemma f_read_run: "bf_open f \<Longrightarrow> n < offset_limit \<Longrightarrow>
    f_read n f = (let bs = take n (drop (bf_pos f) (bf_bytes f)) in (Inr bs, f\<lparr>bf_pos := bf_pos f + length bs\<rparr>))"
  by (simp add: f_read_def need_open_def seq_def andthen_def)

lemma f_write_run: "bf_open f \<Longrightarrow>
    f_write bs f = (Inr (length bs), f\<lparr>bf_bytes := write_at (bf_pos f) bs (bf_bytes f), bf_pos := bf_pos f + length bs\<rparr>)"
  by (simp add: f_write_def need_open_def seq_def andthen_def)

lemma cs_read_run:
  assumes "bf_open f" and "fits cs d" and "drop (bf_pos f) (bf_bytes f) = image cs d @ rest" and "cs_size cs < offset_limit"
  shows "cs_read cs f = (Inr (Some (only cs d @ [(''_position'', Num (bf_pos f))])), f\<lparr>bf_pos := bf_pos f + cs_size cs\<rparr>)"
  using assms length_image [OF assms(2)] unpacked [OF assms(2), of "[]"]
  by (simp add: cs_read_def f_tell_def need_open_def seq_def andthen_def run_simps f_read_run Let_def cs_unpack_def)

lemma drop_written [simp]: "new \<noteq> [] \<Longrightarrow> drop off (write_at off new xs) = new @ drop (off + length new) xs"
  by (simp add: write_at_def min_def)

lemma drop_behind: "off + length new \<le> k \<Longrightarrow> drop k (write_at off new xs) = drop k xs"
  by (auto simp: write_at_def min_def)

section \<open>Arrays of locations\<close>

definition location :: "fields \<Rightarrow> bool" where
  "location l \<longleftrightarrow> fits raw_locn_struct l \<and> map_of l ''offset'' \<noteq> Some (Num 0)"

lemma raw_locn_size: "cs_size raw_locn_struct = 24" and mda_size: "cs_size mda_struct = 40"
  by (simp_all add: raw_locn_struct_def mda_struct_def cs_size_def)

lemma zero_location: "unpack_values raw_locn_struct (replicate 24 0 @ rest) = map (\<lambda>(f, t). (f, Num 0)) raw_locn_struct"
  by (simp add: raw_locn_struct_def eval_nat_numeral)

lemma read_locations:
  assumes "bf_open f" and "\<forall>l \<in> set ls. location l"
    and "drop (bf_pos f) (bf_bytes f) = concat (map (image raw_locn_struct) ls) @ replicate 24 0 @ rest"
  shows "\<exists>ds f'. read_array raw_locn_struct f = (Inr ds, f') \<and> map (only raw_locn_struct) ds = map (only raw_locn_struct) ls \<and>
    (\<forall>d \<in> set ds. location d)"
  using assms
proof (induction ls arbitrary: f)
  case Nil
  have "cs_read raw_locn_struct f = (Inr (Some (map (\<lambda>(f, t). (f, Num 0)) raw_locn_struct @ [(''_position'', Num (bf_pos f))])),
      f\<lparr>bf_pos := bf_pos f + 24\<rparr>)"
    using Nil(1,3) zero_location [of "[]"]
    by (simp add: cs_read_def f_tell_def need_open_def seq_def andthen_def run_simps f_read_run Let_def cs_unpack_def
        raw_locn_size offset_limit_def)
  moreover have "map_of (map (\<lambda>(f, t). (f, Num 0)) raw_locn_struct @ e) ''offset'' = Some (Num 0)" for e
    by (simp add: raw_locn_struct_def)
  ultimately show ?case by (subst read_array.simps) (simp del: map_of_append)
next
  case (Cons l ls)
  let ?d = "only raw_locn_struct l @ [(''_position'', Num (bf_pos f))]" and ?f = "f\<lparr>bf_pos := bf_pos f + 24\<rparr>"
  have l: "fits raw_locn_struct l" "map_of l ''offset'' \<noteq> Some (Num 0)" using Cons.prems(2) by (simp_all add: location_def)
  have read: "cs_read raw_locn_struct f = (Inr (Some ?d), ?f)"
    using cs_read_run [OF Cons.prems(1) l(1)] Cons.prems(3) by (simp add: raw_locn_size offset_limit_def)
  have offset: "map_of ?d ''offset'' = map_of l ''offset''"
  proof -
    have "(''offset'', U64) \<in> set raw_locn_struct" by (simp add: raw_locn_struct_def)
    then show ?thesis using only_field [of "''offset''" U64 raw_locn_struct l] l(1) by (fastforce simp: fits_def simp del: map_of_append)
  qed
  have "drop (bf_pos ?f) (bf_bytes ?f) = concat (map (image raw_locn_struct) ls) @ replicate 24 0 @ rest"
  proof -
    have "drop 24 (drop (bf_pos f) (bf_bytes f)) = concat (map (image raw_locn_struct) ls) @ replicate 24 0 @ rest"
      using Cons.prems(3) length_image [OF l(1)] by (simp add: raw_locn_size)
    then show ?thesis by (simp add: add.commute)
  qed
  then obtain ds f' where ds: "read_array raw_locn_struct ?f = (Inr ds, f')"
    "map (only raw_locn_struct) ds = map (only raw_locn_struct) ls" "\<forall>d \<in> set ds. location d"
    using Cons.IH [of ?f] Cons.prems by auto
  have "location ?d" using only_fits [OF l(1)] l(2) offset by (simp add: location_def)
  moreover have "read_array raw_locn_struct f = (Inr (?d # ds), f')"
    using read ds(1) l(2) offset by (subst read_array.simps) (simp add: raw_locn_size)
  ultimately show ?case using ds(2,3) by (auto simp: only_only)
qed

section \<open>Metadata areas\<close>

text \<open>A header that fits its 512 bytes, with the place of the metadata.\<close>

definition good_header :: "mda_header \<Rightarrow> nat \<Rightarrow> nat \<Rightarrow> bool" where
  "good_header h st off \<longleftrightarrow>
     (case mda_data h of
        None \<Rightarrow> False
      | Some d \<Rightarrow> fits mda_struct d \<and> map_of d ''start'' = Some (Num st)) \<and>
     (case mda_locs h of
        [] \<Rightarrow> False
      | l # ls \<Rightarrow> map_of l ''offset'' = Some (Num off) \<and> length ls < 18) \<and>
     list_all location (mda_locs h)"

lemma header_image:
  assumes "good_header h st off" and "mda_data h = Some d"
  obtains rest where
    "mda_image h = Inr (image mda_struct d @ concat (map (image raw_locn_struct) (mda_locs h)) @ replicate 24 0 @ rest)"
    "length (image mda_struct d @ concat (map (image raw_locn_struct) (mda_locs h)) @ replicate 24 0 @ rest) = 512"
proof -
  let ?fr = "image mda_struct d @ concat (map (image raw_locn_struct) (mda_locs h))"
  have locs: "fits raw_locn_struct l" if "l \<in> set (mda_locs h)" for l
    using assms that by (auto simp: good_header_def location_def list_all_iff)
  have "length (concat (map (image raw_locn_struct) ls)) = 24 * length ls" if "\<And>l. l \<in> set ls \<Longrightarrow> fits raw_locn_struct l" for ls
    using that by (induction ls) (simp_all add: length_image raw_locn_size)
  then have len: "length ?fr = 40 + 24 * length (mda_locs h)"
    using locs assms by (simp add: good_header_def length_image mda_size)
  have few: "length (mda_locs h) \<le> 18" using assms by (auto simp: good_header_def split: list.splits)
  define m where "m = 448 - 24 * length (mda_locs h)"
  have m: "512 - length ?fr = 24 + m" using len few by (simp add: m_def)
  have "mda_image h = Inr (?fr @ replicate (24 + m) 0)"
    using assms m res_mapM_total [of "mda_locs h" "cs_pack raw_locn_struct" "image raw_locn_struct"] locs
    by (simp add: mda_image_def hdr_pack_def good_header_def packed header_size_def Let_def)
  moreover have "length (?fr @ replicate (24 + m) 0) = 512" using len few by (simp add: m_def)
  ultimately show ?thesis using that [of "replicate m 0"] by (simp add: replicate_add)
qed

text \<open>What is read from the bytes of a header.\<close>

lemma header_read:
  assumes "fits mda_struct d" and "\<forall>l \<in> set ls. location l"
  shows "\<exists>h io. mda_read (bytes_io (image mda_struct d @ concat (map (image raw_locn_struct) ls) @ replicate 24 0 @ rest)) = (Inr h, io) \<and>
    mda_data h = Some (only mda_struct d @ [(''_position'', Num 0)]) \<and>
    map (only raw_locn_struct) (mda_locs h) = map (only raw_locn_struct) ls \<and> (\<forall>l \<in> set (mda_locs h). location l)"
proof -
  let ?f = "bytes_io (image mda_struct d @ concat (map (image raw_locn_struct) ls) @ replicate 24 0 @ rest)"
  have read: "cs_read mda_struct ?f = (Inr (Some (only mda_struct d @ [(''_position'', Num 0)])), ?f\<lparr>bf_pos := 40\<rparr>)"
    using cs_read_run [OF _ assms(1), of ?f] by (simp add: bytes_io_def mda_size offset_limit_def)
  obtain ds f' where "read_array raw_locn_struct (?f\<lparr>bf_pos := 40\<rparr>) = (Inr ds, f')"
    "map (only raw_locn_struct) ds = map (only raw_locn_struct) ls" "\<forall>d \<in> set ds. location d"
    using read_locations [OF _ assms(2), of "?f\<lparr>bf_pos := 40\<rparr>" rest] length_image [OF assms(1)]
    by (auto simp: bytes_io_def mda_size)
  then show ?thesis using read by (simp add: mda_read_def andthen_def run_simps)
qed

definition header_bytes :: "fields \<Rightarrow> fields list \<Rightarrow> byte list \<Rightarrow> byte list" where
  "header_bytes d ls rest = image mda_struct d @ concat (map (image raw_locn_struct) ls) @ replicate 24 0 @ rest"

lemma header_write:
  assumes "good_header h st off" and "bf_open f" and "st < offset_limit"
  obtains d rest where
    "mda_write (f, h) = (Inr 512, f\<lparr>bf_bytes := write_at st (header_bytes d (mda_locs h) rest) (bf_bytes f), bf_pos := st + 512\<rparr>,
      h\<lparr>mda_data := Some d\<rparr>)"
    "length (header_bytes d (mda_locs h) rest) = 512" "fits mda_struct d" "map_of d ''start'' = Some (Num st)"
    "map_of d ''checksum'' = Some (Num (unat (calc_crc (drop 4 (header_bytes d (mda_locs h) rest)) initial_crc)))"
proof -
  obtain d0 where d0: "mda_data h = Some d0" "fits mda_struct d0" "map_of d0 ''start'' = Some (Num st)"
    using assms(1) by (auto simp: good_header_def split: option.splits)
  obtain rest where img: "mda_image h = Inr (header_bytes d0 (mda_locs h) rest)" "length (header_bytes d0 (mda_locs h) rest) = 512"
    using header_image [OF assms(1) d0(1)] by (metis header_bytes_def)
  let ?crc = "unat (calc_crc (drop 4 (header_bytes d0 (mda_locs h) rest)) initial_crc)"
  let ?d = "AList.update ''checksum'' (Num ?crc) d0"
  have crc: "?crc < 2 ^ 32" using unsigned_less [of "calc_crc (drop 4 (header_bytes d0 (mda_locs h) rest)) initial_crc"] by simp
  have fits: "fits mda_struct ?d" using crc by (intro fits_update [OF d0(2)]) (auto simp: mda_struct_def)
  have tail: "image (tl mda_struct) ?d = image (tl mda_struct) d0"
    by (simp add: image_def mda_struct_def update_conv')
  have typed: "well_typed U32 (the (map_of d0 ''checksum''))" using d0(2) by (auto simp: fits_def mda_struct_def)
  have parts: "image mda_struct x = value_bytes U32 (the (map_of x ''checksum'')) @ image (tl mda_struct) x" for x
    by (simp add: image_def mda_struct_def)
  have same: "drop 4 (header_bytes ?d (mda_locs h) rest) = drop 4 (header_bytes d0 (mda_locs h) rest)"
    using value_packed(2) [OF typed] value_packed(2) [of U32 "Num ?crc"] crc tail
    by (simp add: header_bytes_def parts update_conv')
  have over: "write_at 0 (image mda_struct ?d) (header_bytes d0 (mda_locs h) rest) = header_bytes ?d (mda_locs h) rest"
    using length_image [OF fits] length_image [OF d0(2)] by (auto simp: write_at_def header_bytes_def mda_size)
  have len: "length (header_bytes ?d (mda_locs h) rest) = 512"
    using img(2) length_image [OF fits] length_image [OF d0(2)] by (simp add: header_bytes_def)
  have "mda_write (f, h) = (Inr 512, f\<lparr>bf_bytes := write_at st (header_bytes ?d (mda_locs h) rest) (bf_bytes f), bf_pos := st + 512\<rparr>,
      h\<lparr>mda_data := Some ?d\<rparr>)"
    using assms(2,3) img(1) d0 over len
    by (simp add: mda_write_def andthen_def seq_def run_simps packed [OF fits] num_of_def field_of_def field_def update_conv'
        on_file_def f_seek_run f_write_run)
  then show ?thesis using that [of ?d rest] fits len d0(3) same by (simp add: update_conv')
qed

text \<open>What is read from a file with a header and its metadata.\<close>

definition num_field :: "fields \<Rightarrow> string \<Rightarrow> nat \<Rightarrow> bool" where
  "num_field d k n \<longleftrightarrow> map_of d k = Some (Num n)"

lemma num_field_of: "num_field d k n \<Longrightarrow> num_of (Some d) k = Inr n"
  by (simp add: num_field_def num_of_def field_of_def field_def)

lemma only_num:
  assumes "num_field d k n" and "(k, t) \<in> set cs" shows "num_field (only cs d @ e) k n"
  using only_field [OF assms(2), of d e] assms(1) by (simp add: num_field_def del: map_of_append)

lemma same_num:
  assumes "only cs d' = only cs d" and "fits cs d'" and "num_field d k n" and "(k, t) \<in> set cs" shows "num_field d' k n"
proof -
  have "the (map_of d' k) = the (map_of d k)" using assms(1,4) by (auto simp: only_def)
  then show ?thesis using assms(2-4) by (fastforce simp: num_field_def fits_def)
qed

lemma area_read:
  assumes d: "fits mda_struct d" "num_field d ''start'' st" "num_field d ''checksum'' chk"
    and l: "location l" "num_field l ''offset'' off" "num_field l ''size'' (length raw)" "num_field l ''checksum'' crc"
    and ls: "list_all location ls" "length ls < 18"
    and f: "length raw < offset_limit" "st + off < offset_limit" "bf_open f" "take (length raw) (drop (st + off) (bf_bytes f)) = raw"
  obtains h io where
    "mda_read (bytes_io (header_bytes d (l # ls) rest)) = (Inr h, io)" "good_header h st off"
    "fst (mda_read_metadata h f) = Inr raw" "num_of (mda_data h) ''checksum'' = Inr chk"
    "map (\<lambda>l. num_of (Some l) ''checksum'') (take 1 (mda_locs h)) = [Inr crc]"
proof -
  obtain h io where h: "mda_read (bytes_io (header_bytes d (l # ls) rest)) = (Inr h, io)"
    "mda_data h = Some (only mda_struct d @ [(''_position'', Num 0)])"
    "map (only raw_locn_struct) (mda_locs h) = map (only raw_locn_struct) (l # ls)" "\<forall>l \<in> set (mda_locs h). location l"
    using header_read [OF d(1), of "l # ls" rest] l(1) ls(1) unfolding header_bytes_def by (auto simp: list_all_iff)
  let ?d = "only mda_struct d @ [(''_position'', Num 0)]"
  have dn: "num_field ?d ''start'' st" "num_field ?d ''checksum'' chk"
    by (rule only_num [OF d(2), where t = U64], simp add: mda_struct_def) (rule only_num [OF d(3), where t = U32], simp add: mda_struct_def)
  obtain m ms where m: "mda_locs h = m # ms" "only raw_locn_struct m = only raw_locn_struct l" "length ms = length ls" "location m"
    using h(3,4) by (cases "mda_locs h") (auto dest: map_eq_imp_length_eq)
  have fits_m: "fits raw_locn_struct m" using m(4) by (simp add: location_def)
  have mn: "num_field m ''offset'' off" "num_field m ''size'' (length raw)" "num_field m ''checksum'' crc"
    using same_num [OF m(2) fits_m l(2), of U64] same_num [OF m(2) fits_m l(3), of U64] same_num [OF m(2) fits_m l(4), of U32]
    by (simp_all add: raw_locn_struct_def)
  have "good_header h st off"
    using m mn(1) dn(1) h(2,4) ls(2) only_fits [OF d(1)] by (simp add: good_header_def list_all_iff num_field_def del: map_of_append)
  moreover have "fst (mda_read_metadata h f) = Inr raw"
    using f m(1) num_field_of [OF mn(1)] num_field_of [OF mn(2)] num_field_of [OF dn(1)] h(2)
    by (simp add: mda_read_metadata_def andthen_def seq_def run_simps committed_def metadata_offset_def hdr_get_def
        cs_contains_def raw_locn_struct_def f_seek_run f_read_run Let_def)
  ultimately show ?thesis using that [OF h(1)] num_field_of [OF dn(2)] num_field_of [OF mn(3)] h(2) m(1) by simp
qed

text \<open>The location of the metadata after it was written.\<close>

definition new_location :: "byte list \<Rightarrow> fields \<Rightarrow> fields" where
  "new_location raw l =
     AList.update ''checksum'' (Num (unat (calc_crc raw initial_crc))) (AList.update ''size'' (Num (length raw)) l)"

lemma new_location:
  assumes "location l" and "length raw < offset_limit" and "num_field l ''offset'' off"
  shows "location (new_location raw l)" and "num_field (new_location raw l) ''offset'' off"
    and "num_field (new_location raw l) ''size'' (length raw)" and "num_field (new_location raw l) ''checksum'' (unat (calc_crc raw initial_crc))"
proof -
  have "unat (calc_crc raw initial_crc) < 2 ^ 32" using unsigned_less [of "calc_crc raw initial_crc"] by simp
  then have "fits raw_locn_struct (new_location raw l)" using assms(1,2) unfolding new_location_def
    by (intro fits_update) (auto simp: location_def raw_locn_struct_def offset_limit_def)
  then show "location (new_location raw l)" using assms(1) by (simp add: location_def new_location_def update_conv')
qed (use assms(3) in \<open>simp_all add: num_field_def new_location_def update_conv'\<close>)

theorem metadata_written_back:
  assumes "good_header h st off" and "bf_open f" and "raw \<noteq> []" and "length raw < offset_limit"
    and "512 \<le> off" and "st + off < offset_limit" and "512 \<le> n"
  obtains f' h' h2 io where
    "mda_write_metadata raw (f, h) = (Inr 512, f', h')" "bf_open f'"
    "mda_read (bytes_io (take n (drop st (bf_bytes f')))) = (Inr h2, io)"
    "good_header h2 st off" "fst (mda_read_metadata h2 f') = Inr raw"
    "num_of (mda_data h2) ''checksum'' = Inr (unat (calc_crc (take 508 (drop (st + 4) (bf_bytes f'))) initial_crc))"
    "map (\<lambda>l. num_of (Some l) ''checksum'') (take 1 (mda_locs h2)) = [Inr (unat (calc_crc raw initial_crc))]"
proof -
  obtain l ls where l: "mda_locs h = l # ls" "location l" "list_all location ls" "num_field l ''offset'' off" "length ls < 18"
    using assms(1) by (auto simp: good_header_def num_field_def split: list.splits)
  obtain d0 where d0: "mda_data h = Some d0" "fits mda_struct d0" "num_field d0 ''start'' st"
    using assms(1) by (auto simp: good_header_def num_field_def split: option.splits)
  let ?l = "new_location raw l"
  let ?B = "write_at (st + off) raw (bf_bytes f)"
  let ?f = "f\<lparr>bf_bytes := ?B, bf_pos := st + off + length raw\<rparr>" and ?h = "h\<lparr>mda_locs := ?l # ls\<rparr>"
  note loc = new_location [OF l(2) assms(4) l(4)]
  have good: "good_header ?h st off" using assms(1) loc l by (auto simp: good_header_def num_field_def)
  obtain d rest where w: "mda_write (?f, ?h) = (Inr 512, ?f\<lparr>bf_bytes := write_at st (header_bytes d (?l # ls) rest) (bf_bytes ?f), bf_pos := st + 512\<rparr>,
      ?h\<lparr>mda_data := Some d\<rparr>)"
    "length (header_bytes d (?l # ls) rest) = 512" "fits mda_struct d" "num_field d ''start'' st"
    "num_field d ''checksum'' (unat (calc_crc (drop 4 (header_bytes d (?l # ls) rest)) initial_crc))"
    using header_write [OF good, of ?f] assms(2,6) by (auto simp: num_field_def)
  let ?hb = "header_bytes d (?l # ls) rest" and ?bytes = "write_at st (header_bytes d (?l # ls) rest) ?B"
  let ?f' = "f\<lparr>bf_bytes := ?bytes, bf_pos := st + 512\<rparr>"
  have written: "mda_write_metadata raw (f, h) = (Inr 512, ?f', ?h\<lparr>mda_data := Some d\<rparr>)"
    using assms(2,6) l(1) d0(1) w(1) num_field_of [OF d0(3)] num_field_of [OF l(4)]
    by (simp add: mda_write_metadata_def andthen_def seq_def run_simps committed_def metadata_offset_def hdr_get_def hdr_set_def
        cs_contains_def raw_locn_struct_def on_file_def f_seek_run f_write_run new_location_def)
  have ne: "?hb \<noteq> []" using w(2) by auto
  have from_start: "drop st ?bytes = ?hb @ drop (st + 512) ?B" using w(2) by (simp add: drop_written [OF ne])
  then have area: "take n (drop st ?bytes) = header_bytes d (?l # ls) (rest @ take (n - 512) (drop (st + 512) ?B))"
    using assms(7) w(2) by simp (simp add: header_bytes_def)
  have chk: "take 508 (drop (st + 4) ?bytes) = drop 4 ?hb"
  proof -
    have "drop (st + 4) ?bytes = drop 4 (drop st ?bytes)" by (simp add: add.commute)
    then show ?thesis unfolding from_start using w(2) by simp
  qed
  have raw: "take (length raw) (drop (st + off) ?bytes) = raw"
    using assms(3,5) w(2) drop_behind [of st ?hb "st + off"] by simp
  obtain h2 io where "mda_read (bytes_io (header_bytes d (?l # ls) (rest @ take (n - 512) (drop (st + 512) ?B)))) = (Inr h2, io)"
    "good_header h2 st off" "fst (mda_read_metadata h2 ?f') = Inr raw" "num_of (mda_data h2) ''checksum'' = Inr (unat (calc_crc (drop 4 ?hb) initial_crc))"
    "map (\<lambda>l. num_of (Some l) ''checksum'') (take 1 (mda_locs h2)) = [Inr (unat (calc_crc raw initial_crc))]"
    using area_read [OF w(3,4,5) loc l(3,5) assms(4,6), of ?f'] raw assms(2) by auto
  then show ?thesis using that [OF written] area chk assms(2) by simp
qed

section \<open>Renaming\<close>

lemma rename_cases:
  assumes "rename_vg new_name md = Inr md'"
  obtains old d where "md_name md = Some old" "dict_get (md_data md) old = Some d"
    "md' = md\<lparr>md_data := (new_name, d) # dict_del (dict_del (md_data md) old) new_name\<rparr>"
  using assms by (auto simp: rename_vg_def split: option.splits)

text \<open>The name that is looked up is the one that was read, so only one new name can be given.\<close>

lemma second_rename_fails:
  assumes "rename_vg a md = Inr md'" and "md_name md \<noteq> Some a"
  shows "rename_vg b md' = Inl Key_Error"
proof -
  obtain old d where old: "md_name md = Some old" "md' = md\<lparr>md_data := (a, d) # dict_del (dict_del (md_data md) old) a\<rparr>"
    using rename_cases [OF assms(1)] by blast
  have "dict_get ((a, d) # e) old = dict_get e old" for e using assms(2) old(1) by (simp add: dict_get_def)
  then show ?thesis using old by (simp add: rename_vg_def)
qed

text \<open>
  C36: After a volume group was renamed and the metadata was written to a metadata area, what is read back from the
  area is the metadata with the new name as its first key and as the name of the group, with what was below the old
  name below it; the header and the metadata have the checksums that the header and its location say.
\<close>

theorem renamed_group_read_back:
  assumes "rename_vg new_name md = Inr md'" and "encodable_dict (md_data md')"
    and "metadata_encode md' = Inr raw" and "utf8_ok raw" and "length raw < offset_limit"
    and "good_header h st off" and "bf_open f" and "512 \<le> off" and "st + off < offset_limit" and "512 \<le> n"
  shows "\<exists>f' h' h2 io k. flush_headers md' f [h] = (Inr (), f', [h']) \<and>
    mda_read (bytes_io (take n (drop st (bf_bytes f')))) = (Inr h2, io) \<and>
    num_of (mda_data h2) ''checksum'' = Inr (unat (calc_crc (take 508 (drop (st + 4) (bf_bytes f'))) initial_crc)) \<and>
    map (\<lambda>l. num_of (Some l) ''checksum'') (take 1 (mda_locs h2)) = [Inr (unat (calc_crc raw initial_crc))] \<and>
    fst (mda_read_metadata h2 f') = Inr raw \<and>
    (\<forall>m \<ge> k. metadata_decode to_float m raw = Some (Inr (md'\<lparr>md_name := Some new_name\<rparr>))) \<and>
    dict_get (md_data md') new_name = dict_get (md_data md) (the (md_name md))"
proof -
  obtain s where s: "encode_data (md_data md') = Inr s" "tokens s = dict_tokens (md_data md')" using encoded_decoded [OF assms(2)] .
  have raw: "raw = ascii_bytes s" and "s \<noteq> []"
    using assms(3) s(1) by (cases "encode_dict (md_data md')"; auto simp: metadata_encode_def encode_data_def)+
  then have ne: "raw \<noteq> []" by (simp add: ascii_bytes_def)
  have utf8: "decode_utf8 raw = Inr s" using assms(4) raw by (simp add: decode_utf8_def ascii_bytes_def comp_def unat_of_nat)
  obtain old d where old: "md_name md = Some old" "dict_get (md_data md) old = Some d"
    "md' = md\<lparr>md_data := (new_name, d) # dict_del (dict_del (md_data md) old) new_name\<rparr>" using rename_cases [OF assms(1)] .
  have "metadata_decode to_float m raw = Some (Inr (md'\<lparr>md_name := Some new_name\<rparr>))" if "Suc (length (dict_tokens (md_data md'))) \<le> m" for m
    using first_key [OF assms(2) s(2) that, of to_float] utf8 old(3) by (simp add: metadata_decode_def)
  moreover obtain f' h' h2 io where
    "mda_write_metadata raw (f, h) = (Inr 512, f', h')" "bf_open f'"
    "mda_read (bytes_io (take n (drop st (bf_bytes f')))) = (Inr h2, io)" "good_header h2 st off"
    "fst (mda_read_metadata h2 f') = Inr raw"
    "num_of (mda_data h2) ''checksum'' = Inr (unat (calc_crc (take 508 (drop (st + 4) (bf_bytes f'))) initial_crc))"
    "map (\<lambda>l. num_of (Some l) ''checksum'') (take 1 (mda_locs h2)) = [Inr (unat (calc_crc raw initial_crc))]"
    by (rule metadata_written_back [OF assms(6,7) ne assms(5,8-10)])
  moreover have "dict_get (md_data md') new_name = dict_get (md_data md) (the (md_name md))" using old by (simp add: dict_get_def)
  ultimately show ?thesis using assms(3) by auto
qed

definition sample_metadata :: lvm_metadata where
  "sample_metadata = \<lparr>md_name = Some ''vg'', md_data = sample_group\<rparr>"

definition sample_renamed :: lvm_metadata where
  "sample_renamed = (case rename_vg ''root'' sample_metadata of Inl _ \<Rightarrow> sample_metadata | Inr md \<Rightarrow> md)"

definition sample_raw :: "byte list" where
  "sample_raw = (case metadata_encode sample_renamed of Inl _ \<Rightarrow> [] | Inr bs \<Rightarrow> bs)"

definition sample_header :: mda_header where
  "sample_header =
     \<lparr>mda_data = Some [(''checksum'', Num 0), (''magic'', Raw (replicate 16 32)), (''version'', Num 1), (''start'', Num 4096),
        (''size'', Num 1044480)],
      mda_locs = [[(''offset'', Num 512), (''size'', Num 0), (''checksum'', Num 0), (''flags'', Num 0)]]\<rparr>"

lemma sample_written: "rename_vg ''root'' sample_metadata = Inr sample_renamed" "encodable_dict (md_data sample_renamed)"
  by code_simp+

lemma sample_raw_ok: "utf8_ok sample_raw"
  by code_simp

lemma sample_raw_short: "length sample_raw < offset_limit"
proof -
  have "length sample_raw < 200" by code_simp
  then show ?thesis by (simp add: offset_limit_def)
qed

lemma sample_encoded: "metadata_encode sample_renamed = Inr sample_raw"
  by (rule encoded_decoded [OF sample_written(2)]) (simp add: sample_raw_def metadata_encode_def)

lemma sample_good: "good_header sample_header 4096 512"
  by (simp add: good_header_def sample_header_def location_def fits_def mda_struct_def raw_locn_struct_def)

lemma renamed_group_read_back_witness:
  "\<exists>f' h2 io k. mda_read (bytes_io (take 512 (drop 4096 (bf_bytes f')))) = (Inr h2, io) \<and>
    fst (mda_read_metadata h2 f') = Inr sample_raw \<and>
    metadata_decode (\<lambda>_. Inl Value_Error) k sample_raw = Some (Inr (sample_renamed\<lparr>md_name := Some ''root''\<rparr>))"
proof -
  have "bf_open (bytes_io [])" "512 \<le> (512::nat)" "4096 + 512 < offset_limit" by (simp_all add: bytes_io_def offset_limit_def)
  then show ?thesis
    using renamed_group_read_back [OF sample_written sample_encoded sample_raw_ok sample_raw_short sample_good, of "bytes_io []" 512 "\<lambda>_. Inl Value_Error"]
    by blast
qed

end
