(* ===== verification/Cache_Files.thy ===== *)
theory Cache_Files
  imports Effects Build_Defines "HOL-Library.AList"
begin

text \<open>
  The directory of a cache (\<open>src/mpp/aibosbuild/util/fscache.py\<close>): a tree of files, the locks on them, and the calls
  of the operating system that the cache makes.  Paths are relative to the directory of the cache and names are single
  components.  Files are used one operation at a time; a lock that is waited for is one its holder has released.
  What other processes do between two calls is modelled in \<open>Cache_Protocol\<close>.
\<close>

section \<open>Trees\<close>

text \<open>
  A file has its blocks, its text and the time of its last use; a link has its blocks and whether it leads to a
  directory.
\<close>

datatype node = File nat string int | Link nat bool | Dir nat "(string \<times> node) list"

type_synonym path = "string list"

fun find_node :: "path \<Rightarrow> node \<Rightarrow> node res" where
  "find_node [] n = Inr n"
| "find_node (p # ps) (Dir b es) = (case map_of es p of None \<Rightarrow> Inl (Errno ''ENOENT'') | Some n \<Rightarrow> find_node ps n)"
| "find_node (p # ps) n = Inl (Errno ''ENOTDIR'')"

text \<open>Change, add or remove what is at a path; the directory of the cache itself is not changed.\<close>

fun edit :: "path \<Rightarrow> (node option \<Rightarrow> node option res) \<Rightarrow> node \<Rightarrow> node res" where
  "edit [] f n = Inl (Errno ''EBUSY'')"
| "edit [p] f (Dir b es) =
     res_map (\<lambda>r. Dir b (case r of None \<Rightarrow> AList.delete p es | Some n \<Rightarrow> AList.update p n es)) (f (map_of es p))"
| "edit (p # q # ps) f (Dir b es) =
     (case map_of es p of
        None \<Rightarrow> Inl (Errno ''ENOENT'')
      | Some n \<Rightarrow> res_map (\<lambda>n'. Dir b (AList.update p n' es)) (edit (q # ps) f n))"
| "edit (p # ps) f n = Inl (Errno ''ENOTDIR'')"

text \<open>\<open>_calculate_space\<close>: blocks of 512 bytes of all that is in a tree.\<close>

fun space :: "node \<Rightarrow> nat" where
  "space (File b s t) = b * 512"
| "space (Link b d) = b * 512"
| "space (Dir b es) = b * 512 + sum_list (map (\<lambda>e. space (snd e)) es)"

fun is_dir :: "node \<Rightarrow> bool" where
  "is_dir (Dir b es) = True"
| "is_dir (Link b d) = d"
| "is_dir (File b s t) = False"

fun entries :: "node \<Rightarrow> (string \<times> node) list" where
  "entries (Dir b es) = es"
| "entries _ = []"

section \<open>World\<close>

text \<open>What is known of a cache (\<open>FsCacheInfo\<close>).\<close>

record cache_info =
  ci_boot_id :: "pyval option"
  ci_maximum_size :: "pyval option"
  ci_version :: "pyval option"

text \<open>
  The tree and the locks: the open file, the path of the locked file as long as it has one, and whether it is for
  writing.  Then the attributes of \<open>FsCache\<close>.
\<close>

record cache_world =
  cw_root :: node
  cw_locks :: "(nat \<times> path option \<times> bool) list"
  cw_next_fd :: nat
  cw_uuids :: nat
  cw_now :: int
  cw_active :: bool
  cw_bootid :: "string option"
  cw_lock :: "nat option"
  cw_info :: cache_info
  cw_maximum :: int

record cache_env =
  ce_uuid :: "nat \<Rightarrow> string"
  ce_file_blocks :: "string \<Rightarrow> nat"
  ce_dir_blocks :: nat
  ce_dumps :: "pyval \<Rightarrow> string"
  ce_loads :: "string \<Rightarrow> pyval res"
  ce_boot_id :: string
  ce_copy :: "string \<Rightarrow> path \<Rightarrow> node \<Rightarrow> int \<times> string \<times> node"

type_synonym 'a cache = "(cache_world, 'a) prog"

section \<open>Calls of the operating system\<close>

definition errno_in :: "string list \<Rightarrow> exn \<Rightarrow> bool" where
  "errno_in ks e = (case e of Errno k \<Rightarrow> k \<in> set ks | _ \<Rightarrow> False)"

text \<open>\<open>ctx.suppress_oserror\<close>.\<close>

definition suppress_oserror :: "string list \<Rightarrow> unit cache \<Rightarrow> unit cache" where
  "suppress_oserror ks m = with_except m (errno_in ks) (\<lambda>_. ret ())"

definition gone :: "string list" where "gone = [''ENOENT'', ''ENOTDIR'']"

definition lookup :: "path \<Rightarrow> node cache" where
  "lookup p w = (find_node p (cw_root w), w)"

definition lexists :: "path \<Rightarrow> bool cache" where
  "lexists p w = (Inr (case find_node p (cw_root w) of Inl _ \<Rightarrow> False | Inr _ \<Rightarrow> True), w)"

definition change :: "path \<Rightarrow> (node option \<Rightarrow> node option res) \<Rightarrow> unit cache" where
  "change p f w = (case edit p f (cw_root w) of Inl e \<Rightarrow> (Inl e, w) | Inr r \<Rightarrow> (Inr (), w\<lparr>cw_root := r\<rparr>))"

definition relocate :: "(path \<Rightarrow> path option) \<Rightarrow> unit cache" where
  "relocate g = update_world (\<lambda>w. w\<lparr>cw_locks := map (\<lambda>(fd, p, wr). (fd, Option.bind p g, wr)) (cw_locks w)\<rparr>)"

definition is_prefix :: "path \<Rightarrow> path \<Rightarrow> bool" where
  "is_prefix p q \<longleftrightarrow> take (length p) q = p"

definition make_node :: "node \<Rightarrow> node option \<Rightarrow> node option res" where
  "make_node n old = (case old of None \<Rightarrow> Inr (Some n) | Some _ \<Rightarrow> Inl (Errno ''EEXIST''))"

definition os_mkdir :: "cache_env \<Rightarrow> path \<Rightarrow> unit cache" where
  "os_mkdir ce p = change p (make_node (Dir (ce_dir_blocks ce) []))"

text \<open>\<open>os.makedirs(path, exist_ok=True)\<close> of a directory in the cache.\<close>

definition os_makedirs :: "cache_env \<Rightarrow> path \<Rightarrow> unit cache" where
  "os_makedirs ce p = change p (\<lambda>old.
     case old of
       None \<Rightarrow> Inr (Some (Dir (ce_dir_blocks ce) []))
     | Some n \<Rightarrow> if is_dir n then Inr (Some n) else Inl (Errno ''EEXIST''))"

definition new_file :: "cache_env \<Rightarrow> string \<Rightarrow> int \<Rightarrow> node" where
  "new_file ce s now = File (ce_file_blocks ce s) s now"

definition os_create :: "cache_env \<Rightarrow> path \<Rightarrow> string \<Rightarrow> unit cache" where
  "os_create ce p s = andthen (ask cw_now) (\<lambda>now. change p (make_node (new_file ce s now)))"

definition os_write :: "cache_env \<Rightarrow> path \<Rightarrow> string \<Rightarrow> unit cache" where
  "os_write ce p s = change p (\<lambda>old. case old of Some (File b s' t) \<Rightarrow> Inr (Some (new_file ce s t)) | _ \<Rightarrow> Inl (Errno ''ENOENT''))"

definition drop_file :: "node option \<Rightarrow> node option res" where
  "drop_file old =
     (case old of None \<Rightarrow> Inl (Errno ''ENOENT'') | Some (Dir b es) \<Rightarrow> Inl (Errno ''EISDIR'') | Some _ \<Rightarrow> Inr None)"

definition os_unlink :: "path \<Rightarrow> unit cache" where
  "os_unlink p = seq (change p drop_file) (relocate (\<lambda>q. if q = p then None else Some q))"

definition drop_dir :: "node option \<Rightarrow> node option res" where
  "drop_dir old =
     (case old of
        None \<Rightarrow> Inl (Errno ''ENOENT'')
      | Some (Dir b es) \<Rightarrow> if es = [] then Inr None else Inl (Errno ''ENOTEMPTY'')
      | Some _ \<Rightarrow> Inl (Errno ''ENOTDIR''))"

definition os_rmdir :: "path \<Rightarrow> unit cache" where
  "os_rmdir p = change p drop_dir"

text \<open>\<open>rmrf.rmtree\<close>, with the permissions it needs; a link to a directory is refused by \<open>shutil.rmtree\<close>.\<close>

definition drop_tree :: "node option \<Rightarrow> node option res" where
  "drop_tree old = (case old of None \<Rightarrow> Inl (Errno ''ENOENT'') | Some (Link b d) \<Rightarrow> Inl OS_Error | Some _ \<Rightarrow> Inr None)"

definition rmtree :: "path \<Rightarrow> unit cache" where
  "rmtree p = seq (change p drop_tree) (relocate (\<lambda>q. if is_prefix p q then None else Some q))"

definition put_renamed :: "node \<Rightarrow> node option \<Rightarrow> node option res" where
  "put_renamed n old =
     (case old of
        None \<Rightarrow> Inr (Some n)
      | Some (Dir b es) \<Rightarrow>
          (case n of Dir _ _ \<Rightarrow> if es = [] then Inr (Some n) else Inl (Errno ''ENOTEMPTY'') | _ \<Rightarrow> Inl (Errno ''EISDIR''))
      | Some _ \<Rightarrow> (case n of Dir _ _ \<Rightarrow> Inl (Errno ''ENOTDIR'') | _ \<Rightarrow> Inr (Some n)))"

text \<open>The locks of a renamed file stay on it, those of a replaced one are on a file without a path.\<close>

definition os_rename :: "path \<Rightarrow> path \<Rightarrow> unit cache" where
  "os_rename src dst =
     andthen (lookup src) (\<lambda>n.
     seq (change dst (put_renamed n))
     (seq (change src (\<lambda>_. Inr None))
      (relocate (\<lambda>q. if is_prefix src q then Some (dst @ drop (length src) q) else if is_prefix dst q then None else Some q))))"

text \<open>The first name of a linked file is removed soon after; its locks are listed below the second one.\<close>

definition os_link :: "path \<Rightarrow> path \<Rightarrow> unit cache" where
  "os_link src dst =
     andthen (lookup src) (\<lambda>n. seq (change dst (make_node n)) (relocate (\<lambda>q. if q = src then Some dst else Some q)))"

section \<open>Locks\<close>

definition conflicts :: "path \<Rightarrow> bool \<Rightarrow> nat \<times> path option \<times> bool \<Rightarrow> bool" where
  "conflicts p write l = (case l of (fd, q, wr) \<Rightarrow> q = Some p \<and> (write \<or> wr))"

text \<open>\<open>linux.fcntl_flock\<close>: if it waits, the locks in the way have been released.\<close>

definition flock :: "nat \<Rightarrow> path \<Rightarrow> bool \<Rightarrow> bool \<Rightarrow> unit cache" where
  "flock fd p write wait =
     andthen (ask (\<lambda>w. list_ex (conflicts p write) (cw_locks w))) (\<lambda>busy.
     if busy \<and> \<not> wait then raise_exn (Errno ''EAGAIN'')
     else update_world (\<lambda>w. w\<lparr>cw_locks := (fd, Some p, write) # filter (\<lambda>l. \<not> conflicts p write l) (cw_locks w)\<rparr>))"

definition unlock :: "nat \<Rightarrow> unit cache" where
  "unlock fd = update_world (\<lambda>w. w\<lparr>cw_locks := filter (\<lambda>(fd', _). fd' \<noteq> fd) (cw_locks w)\<rparr>)"

definition new_fd :: "nat cache" where
  "new_fd = andthen (ask cw_next_fd) (\<lambda>fd. seq (update_world (\<lambda>w. w\<lparr>cw_next_fd := Suc fd\<rparr>)) (ret fd))"

definition os_open :: "cache_env \<Rightarrow> path \<Rightarrow> bool \<Rightarrow> bool \<Rightarrow> nat cache" where
  "os_open ce p write create =
     seq (if create then os_create ce p []
          else andthen (lookup p) (\<lambda>n. if write \<and> is_dir n then raise_exn (Errno ''EISDIR'') else ret ()))
       new_fd"

section \<open>Atomic files and directories\<close>

text \<open>
  \<open>_atomic_open\<close>: the file is not replaced between opening and locking it here, so the loop is left in its first
  round.
\<close>

definition open_locked :: "cache_env \<Rightarrow> path \<Rightarrow> bool \<Rightarrow> bool \<Rightarrow> bool \<Rightarrow> nat cache" where
  "open_locked ce p wait write create =
     andthen (os_open ce p write create) (\<lambda>fd. seq (flock fd p write wait) (ret fd))"

definition atomic_open :: "cache_env \<Rightarrow> path \<Rightarrow> bool \<Rightarrow> bool \<Rightarrow> bool \<Rightarrow> bool \<Rightarrow> (nat \<Rightarrow> 'a cache) \<Rightarrow> 'a cache" where
  "atomic_open ce p wait write create closefd body =
     andthen (open_locked ce p wait write create) (\<lambda>fd.
     if closefd then with_finally (body fd) (unlock fd)
     else with_except (body fd) (\<lambda>_. True) (\<lambda>e. seq (unlock fd) (raise_exn e)))"

definition fresh_name :: "cache_env \<Rightarrow> string cache" where
  "fresh_name ce =
     andthen (ask cw_uuids) (\<lambda>n. seq (update_world (\<lambda>w. w\<lparr>cw_uuids := Suc n\<rparr>)) (ret (''uuid-'' @ ce_uuid ce n)))"

text \<open>\<open>_atomic_file\<close>: \<open>fill\<close> is what the caller does with the temporary file.\<close>

definition atomic_file ::
  "cache_env \<Rightarrow> path \<Rightarrow> path \<Rightarrow> bool \<Rightarrow> bool \<Rightarrow> bool \<Rightarrow> (path \<Rightarrow> unit cache) \<Rightarrow> nat cache" where
  "atomic_file ce p store closefd ignore_exist replace fill =
     (if replace \<and> ignore_exist then raise_exn Assertion_Error
      else andthen (fresh_name ce) (\<lambda>name.
        let tmp = store @ [name] in
        with_finally
          (atomic_open ce tmp True True True closefd (\<lambda>fd.
             seq (fill tmp)
             (seq (if replace then os_rename tmp p
                   else suppress_oserror (if ignore_exist then [''EEXIST''] else []) (os_link tmp p))
              (ret fd))))
          (suppress_oserror [''ENOENT''] (os_unlink tmp))))"

definition object_lock :: string where "object_lock = ''object.lock''"

text \<open>
  \<open>_atomic_dir\<close>.  The directory that was just made is still there when the lock file is linked into it, so there is
  no second round.
\<close>

definition atomic_dir :: "cache_env \<Rightarrow> path \<Rightarrow> (string \<times> nat) cache" where
  "atomic_dir ce store =
     andthen (fresh_name ce) (\<lambda>name.
     let dir = store @ [name]; lock = dir @ [object_lock] in
     with_except
       (andthen (atomic_file ce lock store False False False (\<lambda>_. os_mkdir ce dir)) (\<lambda>fd. ret (name, fd)))
       (\<lambda>_. True)
       (\<lambda>e. seq (suppress_oserror gone (os_unlink lock)) (seq (suppress_oserror gone (os_rmdir dir)) (raise_exn e))))"

end
