(* ===== verification/Fs_Cache.thy ===== *)
theory Fs_Cache
  imports Cache_Files
begin

text \<open>
  The cache of \<open>src/mpp/aibosbuild/util/fscache.py\<close>: its information, its recorded size, storing, loading and
  removing objects, and the removal of the objects that were used longest ago.  A body of a \<open>with\<close> block is a
  program that gets the path.
\<close>

section \<open>Information\<close>

definition no_info :: cache_info where
  "no_info = \<lparr>ci_boot_id = None, ci_maximum_size = None, ci_version = None\<rparr>"

text \<open>Booleans are integers.\<close>

fun is_int :: "pyval \<Rightarrow> bool" where
  "is_int (PyInt i) = True"
| "is_int (PyBool b) = True"
| "is_int v = False"

fun int_value :: "pyval \<Rightarrow> int res" where
  "int_value (PyInt i) = Inr i"
| "int_value (PyBool b) = Inr (if b then 1 else 0)"
| "int_value v = Inl Type_Error"

definition boot_id_field :: "pyval option \<Rightarrow> pyval option" where
  "boot_id_field v = (case v of Some (PyStr s) \<Rightarrow> if length s = 32 then v else None | _ \<Rightarrow> None)"

definition maximum_field :: "pyval option \<Rightarrow> pyval option" where
  "maximum_field v =
     (case v of Some x \<Rightarrow> if is_int x \<or> x = PyStr ''unlimited'' then v else None | None \<Rightarrow> None)"

definition version_field :: "pyval option \<Rightarrow> pyval option" where
  "version_field v = (case v of Some x \<Rightarrow> if is_int x then v else None | None \<Rightarrow> None)"

definition info_from_json :: "pyval \<Rightarrow> cache_info" where
  "info_from_json data =
     (case data of
        PyDict d \<Rightarrow> \<lparr>ci_boot_id = boot_id_field (dict_get d ''creation-boot-id''),
           ci_maximum_size = maximum_field (dict_get d ''maximum-size''), ci_version = version_field (dict_get d ''version'')\<rparr>
      | _ \<Rightarrow> no_info)"

definition info_item :: "string \<Rightarrow> pyval option \<Rightarrow> dict" where
  "info_item k v = (case v of None \<Rightarrow> [] | Some x \<Rightarrow> [(k, x)])"

definition info_to_json :: "cache_info \<Rightarrow> dict" where
  "info_to_json i =
     info_item ''creation-boot-id'' (ci_boot_id i) @ info_item ''maximum-size'' (ci_maximum_size i) @
     info_item ''version'' (ci_version i)"

text \<open>\<open>_is_compatible\<close>: the only version is 1.\<close>

definition is_compatible :: "cache_info \<Rightarrow> bool res" where
  "is_compatible i = (case ci_version i of None \<Rightarrow> Inr False | Some v \<Rightarrow> res_map (\<lambda>n. 1 \<le> n \<and> n \<le> 1) (int_value v))"

definition maximum_of :: "cache_info \<Rightarrow> int res" where
  "maximum_of i =
     (case ci_maximum_size i of
        None \<Rightarrow> Inr 0
      | Some v \<Rightarrow> if v = PyStr ''unlimited'' then Inr (-1) else if is_int v then int_value v else Inl Value_Error)"

section \<open>Scaffolding\<close>

definition objects_dir :: path where "objects_dir = [''objects'']"
definition stage_dir :: path where "stage_dir = [''stage'']"
definition cache_info_file :: path where "cache_info_file = [''cache.info'']"
definition cache_lock_file :: path where "cache_lock_file = [''cache.lock'']"
definition cache_size_file :: path where "cache_size_file = [''cache.size'']"
definition cache_tag_file :: path where "cache_tag_file = [''CACHEDIR.TAG'']"

definition tag_text :: string where
  "tag_text = ''Signature: 8a477f597d28d172789f06886806bc55'' @ [CHR 0x0A] @
     ''# This is a cache directory tag created by osbuild (see https://bford.info/cachedir/)'' @ [CHR 0x0A]"

definition scaffold_file :: "cache_env \<Rightarrow> path \<Rightarrow> string \<Rightarrow> unit cache" where
  "scaffold_file ce p s =
     andthen (atomic_file ce p objects_dir True True False (\<lambda>tmp. os_write ce tmp s)) (\<lambda>_. ret ())"

definition create_scaffolding :: "cache_env \<Rightarrow> unit cache" where
  "create_scaffolding ce =
     seq (os_makedirs ce objects_dir)
     (seq (os_makedirs ce stage_dir)
     (seq (scaffold_file ce cache_tag_file tag_text)
     (seq (scaffold_file ce cache_info_file (ce_dumps ce (PyDict [(''version'', PyInt 1)])))
     (seq (scaffold_file ce cache_lock_file [])
      (scaffold_file ce cache_size_file ''0'')))))"

section \<open>Entering and leaving\<close>

definition read_text :: "path \<Rightarrow> string cache" where
  "read_text p = andthen (lookup p) (\<lambda>n. case n of File b s t \<Rightarrow> ret s | _ \<Rightarrow> raise_exn (Errno ''EISDIR''))"

definition read_json :: "cache_env \<Rightarrow> path \<Rightarrow> pyval cache" where
  "read_json ce p = andthen (read_text p) (\<lambda>s. lift_res (ce_loads ce s))"

definition retain_info :: "cache_info \<Rightarrow> unit cache" where
  "retain_info i =
     seq (update_world (\<lambda>w. w\<lparr>cw_info := i\<rparr>))
     (andthen (lift_res (maximum_of i)) (\<lambda>m. update_world (\<lambda>w. w\<lparr>cw_maximum := m\<rparr>)))"

definition load_cache_info :: "cache_env \<Rightarrow> cache_info option \<Rightarrow> unit cache" where
  "load_cache_info ce i =
     andthen (case i of
         Some i \<Rightarrow> ret i
       | None \<Rightarrow> andthen (read_json ce cache_info_file) (\<lambda>v. ret (info_from_json v)))
       retain_info"

definition cache_exit :: "unit cache" where
  "cache_exit =
     seq (andthen (ask cw_lock) (\<lambda>l. case l of
            None \<Rightarrow> ret ()
          | Some fd \<Rightarrow> seq (unlock fd) (update_world (\<lambda>w. w\<lparr>cw_lock := None\<rparr>))))
       (update_world (\<lambda>w. w\<lparr>cw_active := False, cw_bootid := None, cw_info := no_info\<rparr>))"

definition cache_enter :: "cache_env \<Rightarrow> unit cache" where
  "cache_enter ce =
     andthen (ask cw_active) (\<lambda>active.
     if active then raise_exn Assertion_Error
     else with_except
       (seq (update_world (\<lambda>w. w\<lparr>cw_bootid := Some (ce_boot_id ce)\<rparr>))
       (seq (create_scaffolding ce)
       (andthen (os_open ce cache_lock_file False False) (\<lambda>fd.
        seq (update_world (\<lambda>w. w\<lparr>cw_lock := Some fd\<rparr>))
       (seq (flock fd cache_lock_file False True)
       (seq (load_cache_info ce None)
        (update_world (\<lambda>w. w\<lparr>cw_active := True\<rparr>))))))))
       (\<lambda>_. True) (\<lambda>e. seq cache_exit (raise_exn e)))"

definition require_active :: "unit cache" where
  "require_active = andthen (ask cw_active) (\<lambda>a. if a then ret () else raise_exn Assertion_Error)"

definition compatible :: "bool cache" where
  "compatible = andthen (ask cw_info) (\<lambda>i. lift_res (is_compatible i))"

section \<open>Recorded size\<close>

text \<open>The size to write, or None if the size would be too large.\<close>

definition new_size :: "int \<Rightarrow> int \<Rightarrow> int \<Rightarrow> int option" where
  "new_size maximum n diff =
     (if n + diff < 0 then Some 0
      else if maximum < 0 \<or> n + diff \<le> maximum then Some (n + diff)
      else None)"

definition replace_json :: "cache_env \<Rightarrow> path \<Rightarrow> pyval \<Rightarrow> unit cache" where
  "replace_json ce p v =
     andthen (atomic_file ce p objects_dir True False True (\<lambda>tmp. os_write ce tmp (ce_dumps ce v))) (\<lambda>_. ret ())"

definition update_cache_size :: "cache_env \<Rightarrow> int \<Rightarrow> bool cache" where
  "update_cache_size ce diff =
     seq require_active
     (andthen compatible (\<lambda>ok.
      if \<not> ok then raise_exn Assertion_Error
      else atomic_open ce cache_size_file True True False True (\<lambda>_.
        andthen (read_json ce cache_size_file) (\<lambda>v.
        andthen (lift_res (int_value v)) (\<lambda>n.
        andthen (ask cw_maximum) (\<lambda>maximum.
        case new_size maximum n diff of
          None \<Rightarrow> ret False
        | Some k \<Rightarrow> seq (replace_json ce cache_size_file (PyInt k)) (ret True)))))))"

section \<open>Removing objects\<close>

definition object_info :: string where "object_info = ''object.info''"
definition data_dir :: string where "data_dir = ''data''"

definition drop_entry :: "path \<Rightarrow> string \<times> node \<Rightarrow> unit cache" where
  "drop_entry dir e =
     (if fst e = object_lock then ret ()
      else suppress_oserror gone (if is_dir (snd e) then rmtree (dir @ [fst e]) else os_unlink (dir @ [fst e])))"

definition rm_r_object :: "path \<Rightarrow> unit cache" where
  "rm_r_object dir =
     andthen (lexists dir) (\<lambda>there.
     if \<not> there then ret ()
     else seq (suppress_oserror gone (os_unlink (dir @ [object_info])))
       (seq (suppress_oserror gone
              (andthen (lookup dir) (\<lambda>n. if is_dir n then each (drop_entry dir) (entries n) else raise_exn (Errno ''ENOTDIR''))))
       (seq (suppress_oserror gone (os_unlink (dir @ [object_lock])))
        (suppress_oserror gone (os_rmdir dir)))))"

section \<open>Least recently used objects\<close>

definition lock_path :: "string \<Rightarrow> path" where
  "lock_path name = objects_dir @ [name, object_lock]"

definition access_time :: "node \<Rightarrow> int" where
  "access_time n = (case n of File b s t \<Rightarrow> t | _ \<Rightarrow> 0)"

definition last_used :: "string \<Rightarrow> int cache" where
  "last_used name =
     with_except (andthen (lookup (lock_path name)) (\<lambda>n. ret (access_time n)))
       (errno_in [''EAGAIN'', ''ENOENT'', ''ENOTDIR'']) (\<lambda>_. raise_exn Cache_Miss)"

fun used_times :: "string list \<Rightarrow> (string \<times> int) list cache" where
  "used_times [] = ret []"
| "used_times (name # names) =
     andthen (with_except (andthen (last_used name) (\<lambda>t. ret [(name, t)]))
         (\<lambda>e. (case e of Errno _ \<Rightarrow> True | _ \<Rightarrow> e = OS_Error \<or> e = Cache_Miss)) (\<lambda>_. ret [])) (\<lambda>o1.
     andthen (used_times names) (\<lambda>os. ret (o1 @ os)))"

definition last_used_objs :: "(string \<times> int) list cache" where
  "last_used_objs =
     andthen (lookup objects_dir) (\<lambda>n.
     andthen (used_times (map fst (entries n))) (\<lambda>os. ret (sort_key snd os)))"

text \<open>Inside the lock: the freed size, or None if the object was used in between.\<close>

definition remove_object :: "cache_env \<Rightarrow> string \<Rightarrow> int \<Rightarrow> nat option cache" where
  "remove_object ce name used =
     atomic_open ce (lock_path name) False True False True (\<lambda>_.
       andthen (last_used name) (\<lambda>t.
       if used \<noteq> t then ret None
       else andthen (lookup (objects_dir @ [name])) (\<lambda>n.
         seq (rm_r_object (objects_dir @ [name]))
         (seq (update_cache_size ce (- int (space n))) (ret (Some (space n)))))))"

fun free_objects :: "cache_env \<Rightarrow> nat \<Rightarrow> (string \<times> int) list \<Rightarrow> nat \<Rightarrow> nat cache" where
  "free_objects ce try_to_free [] freed = ret freed"
| "free_objects ce try_to_free ((name, used) # os) freed =
     andthen (with_except (remove_object ce name used) (errno_in [''EAGAIN'']) (\<lambda>_. ret None)) (\<lambda>r.
     case r of
       None \<Rightarrow> free_objects ce try_to_free os freed
     | Some sz \<Rightarrow> if freed + sz \<ge> try_to_free then ret (freed + sz) else free_objects ce try_to_free os (freed + sz))"

definition remove_lru :: "cache_env \<Rightarrow> nat \<Rightarrow> bool cache" where
  "remove_lru ce required_size =
     andthen last_used_objs (\<lambda>os.
     andthen (free_objects ce (required_size * 2) os 0) (\<lambda>freed. ret (freed > required_size)))"

section \<open>Staging and storing\<close>

definition stage :: "cache_env \<Rightarrow> (path \<Rightarrow> unit cache) \<Rightarrow> unit cache" where
  "stage ce body =
     seq require_active
     (andthen (atomic_dir ce stage_dir) (\<lambda>(uuidname, fd).
      with_finally
        (let data = stage_dir @ [uuidname, data_dir] in seq (os_mkdir ce data) (body data))
        (seq (rm_r_object (stage_dir @ [uuidname])) (unlock fd))))"

definition object_json :: "string \<Rightarrow> nat \<Rightarrow> pyval" where
  "object_json bootid sz = PyDict [(''creation-boot-id'', PyStr bootid), (''size'', PyInt (int sz))]"

text \<open>A target that exists already is left as it is.\<close>

definition publish :: "cache_env \<Rightarrow> path \<Rightarrow> string \<Rightarrow> pyval \<Rightarrow> unit cache" where
  "publish ce dir name info =
     seq (os_create ce (dir @ [object_info]) (ce_dumps ce info))
       (with_except (os_rename dir (objects_dir @ [name])) (errno_in [''EEXIST'', ''ENOTDIR'', ''ENOTEMPTY'']) (\<lambda>_. ret ()))"

text \<open>
  The result tells also whether the name of the anonymous entry was forgotten, which it is when the entry was
  published, but also when the target existed already.
\<close>

definition commit :: "cache_env \<Rightarrow> path \<Rightarrow> string \<Rightarrow> pyval \<Rightarrow> nat \<Rightarrow> cache_world \<Rightarrow> unit res \<times> bool \<times> cache_world" where
  "commit ce dir name info sz w =
     (case publish ce dir name info w of
        (r, w1) \<Rightarrow>
          let forgotten = (case r of Inl _ \<Rightarrow> False | Inr _ \<Rightarrow> True) in
          (case andthen (lexists dir) (\<lambda>there.
                  if there
                  then seq (suppress_oserror gone (os_unlink (dir @ [object_info])))
                    (andthen (update_cache_size ce (- int sz)) (\<lambda>_. ret ()))
                  else ret ()) w1 of
             (Inl e, w2) \<Rightarrow> (Inl e, forgotten, w2)
           | (Inr _, w2) \<Rightarrow> (r, forgotten, w2)))"

definition make_room :: "cache_env \<Rightarrow> nat \<Rightarrow> bool cache" where
  "make_room ce sz =
     andthen (update_cache_size ce (int sz)) (\<lambda>ok.
     if ok then ret True else seq (remove_lru ce sz) (update_cache_size ce (int sz)))"

text \<open>What is done with the anonymous entry, and whether its name was forgotten.\<close>

definition fill_entry :: "cache_env \<Rightarrow> string \<Rightarrow> path \<Rightarrow> (path \<Rightarrow> unit cache) \<Rightarrow> cache_world \<Rightarrow> unit res \<times> bool \<times> cache_world" where
  "fill_entry ce name dir body w =
     (let data = dir @ [data_dir] in
      case seq (os_mkdir ce data)
           (seq (body data)
           (andthen (lookup data) (\<lambda>n.
            andthen (ask cw_bootid) (\<lambda>b.
            andthen (ask cw_maximum) (\<lambda>maximum.
            if maximum > -1 \<and> int (space n) > maximum then ret None
            else andthen (make_room ce (space n)) (\<lambda>ok. ret (if ok then Some (the b, space n) else None))))))) w of
        (Inl e, w1) \<Rightarrow> (Inl e, False, w1)
      | (Inr None, w1) \<Rightarrow> (Inr (), False, w1)
      | (Inr (Some (b, sz)), w1) \<Rightarrow> commit ce dir name (object_json b sz) sz w1)"

definition store :: "cache_env \<Rightarrow> string \<Rightarrow> (path \<Rightarrow> unit cache) \<Rightarrow> unit cache" where
  "store ce name body =
     seq require_active
     (andthen (ask cw_bootid) (\<lambda>b.
      if b = None then raise_exn Assertion_Error
      else if name = [] then raise_exn Value_Error
      else andthen compatible (\<lambda>ok.
        if \<not> ok then stage ce body
        else andthen (atomic_dir ce objects_dir) (\<lambda>(uuidname, fd) w.
          case fill_entry ce name (objects_dir @ [uuidname]) body w of
            (r, forgotten, w1) \<Rightarrow>
              with_finally (\<lambda>w. (r, w))
                (seq (if forgotten then ret () else rm_r_object (objects_dir @ [uuidname])) (unlock fd)) w1))))"

definition copy_error :: "int \<Rightarrow> string \<Rightarrow> exn" where
  "copy_error code msg = Runtime_Error (''Cannot copy into file-system cache ('' @ dec_int code @ ''): '' @ py_strip msg)"

definition store_tree :: "cache_env \<Rightarrow> string \<Rightarrow> string \<Rightarrow> unit cache" where
  "store_tree ce name tree =
     store ce name (\<lambda>data w.
       case ce_copy ce tree data (cw_root w) of
         (code, msg, root) \<Rightarrow> (if code = 0 then Inr () else Inl (copy_error code msg), w\<lparr>cw_root := root\<rparr>))"

section \<open>Loading\<close>

text \<open>\<open>futimens\<close> sets the time of the last use.\<close>

definition touch :: "path \<Rightarrow> unit cache" where
  "touch p =
     andthen (ask cw_now) (\<lambda>now. change p (\<lambda>old. case old of Some (File b s t) \<Rightarrow> Inr (Some (File b s now)) | _ \<Rightarrow> Inr old))"

definition load :: "cache_env \<Rightarrow> string \<Rightarrow> (path \<Rightarrow> 'a cache) \<Rightarrow> 'a cache" where
  "load ce name body =
     seq require_active
     (if name = [] then raise_exn Value_Error
      else andthen compatible (\<lambda>ok.
        if \<not> ok then raise_exn Cache_Miss
        else andthen (with_except (open_locked ce (lock_path name) False False False)
               (errno_in [''EAGAIN'', ''ENOENT'', ''ENOTDIR'']) (\<lambda>_. raise_exn Cache_Miss)) (\<lambda>fd.
             with_finally (seq (touch (lock_path name)) (body (objects_dir @ [name, data_dir]))) (unlock fd))))"

section \<open>Changing the information\<close>

definition get_info :: "cache_info cache" where
  "get_info = seq require_active (ask cw_info)"

definition set_info :: "cache_env \<Rightarrow> cache_info \<Rightarrow> unit cache" where
  "set_info ce i =
     seq require_active
     (andthen (atomic_open ce cache_info_file True True False True (\<lambda>_.
        andthen (read_json ce cache_info_file) (\<lambda>v.
        case v of
          PyDict d \<Rightarrow>
            let raw = dict_update d (info_to_json i) in
            andthen compatible (\<lambda>ok.
            seq (if ok then replace_json ce cache_info_file (PyDict raw) else ret ()) (ret (info_from_json (PyDict raw))))
        | _ \<Rightarrow> ret i))) (\<lambda>i'. load_cache_info ce (Some i')))"

end
