(* ===== verification/Fs_Cache_Laws.thy ===== *)
theory Fs_Cache_Laws
  imports Fs_Cache Int_Text
begin

text \<open>
  Properties of the cache: the recorded size stays within the maximum, an object that was stored can be loaded, and two
  ways in which the accounting goes wrong.
\<close>

section \<open>Trees\<close>

lemma find_edit_other: "edit p f r = Inr r' \<Longrightarrow> hd p \<noteq> k \<Longrightarrow> find_node [k] r' = find_node [k] r"
proof (induction p f r rule: edit.induct)
  case (2 p f b es)
  then show ?case by (cases "f (map_of es p)") (auto simp: update_conv' delete_conv' split: option.splits)
next
  case (3 p q ps f b es)
  then show ?case by (cases "map_of es p"; cases "edit (q # ps) f (the (map_of es p))") (auto simp: update_conv' split: option.splits)
qed auto

lemma find_edit_same: "edit p f r = Inr r' \<Longrightarrow> \<exists>old x. f old = Inr x \<and> (\<forall>n. x = Some n \<longrightarrow> find_node p r' = Inr n)"
proof (induction p f r arbitrary: r' rule: edit.induct)
  case (2 p f b es)
  then show ?case by (cases "f (map_of es p)") (fastforce simp: update_conv')+
next
  case (3 p q ps f b es)
  then show ?case
    by (cases "map_of es p"; cases "edit (q # ps) f (the (map_of es p))") (auto simp: update_conv' split: option.splits)
qed auto

section \<open>The recorded size\<close>

definition recorded :: "cache_env \<Rightarrow> cache_world \<Rightarrow> int option" where
  "recorded ce w =
     (case find_node cache_size_file (cw_root w) of
        Inr (File b s t) \<Rightarrow> (case ce_loads ce s of Inr (PyInt n) \<Rightarrow> Some n | _ \<Rightarrow> None)
      | _ \<Rightarrow> None)"

definition within :: "cache_world \<Rightarrow> int \<Rightarrow> bool" where
  "within w n \<longleftrightarrow> 0 \<le> n \<and> (0 \<le> cw_maximum w \<longrightarrow> n \<le> cw_maximum w)"

definition size_within :: "cache_env \<Rightarrow> cache_world \<Rightarrow> bool" where
  "size_within ce w \<longleftrightarrow> (\<exists>n. recorded ce w = Some n \<and> within w n)"

text \<open>What neither the file of the size nor the maximum depends on.\<close>

definition keeps :: "'a cache \<Rightarrow> bool" where
  "keeps m \<longleftrightarrow> (\<forall>c. preserves (\<lambda>w. (find_node cache_size_file (cw_root w), cw_maximum w) = c) m)"

lemma keeps_size: "keeps m \<Longrightarrow> preserves (size_within ce) m"
  by (auto simp: keeps_def preserves_def size_within_def recorded_def within_def)

named_theorems kept \<open>programs that leave the recorded size and the maximum alone\<close>

lemma keeps_basic [kept]: "keeps (ret x)" "keeps (raise_exn e)" "keeps (lift_res r)" "keeps (ask g)"
  by (simp_all add: keeps_def preserved)

lemma keeps_andthen [kept]: "keeps m \<Longrightarrow> (\<And>x. keeps (f x)) \<Longrightarrow> keeps (andthen m f)"
  by (simp add: keeps_def preserved)

lemma keeps_seq [kept]: "keeps m \<Longrightarrow> keeps n \<Longrightarrow> keeps (seq m n)"
  by (simp add: keeps_def preserved)

lemma keeps_finally [kept]: "keeps m \<Longrightarrow> keeps n \<Longrightarrow> keeps (with_finally m n)"
  by (simp add: keeps_def preserved)

lemma keeps_except [kept]: "keeps m \<Longrightarrow> (\<And>e. keeps (h e)) \<Longrightarrow> keeps (with_except m c h)"
  by (simp add: keeps_def preserved)

lemma keeps_each [kept]: "(\<And>x. keeps (f x)) \<Longrightarrow> keeps (each f xs)"
  by (simp add: keeps_def preserved)

lemma keeps_if [kept]: "keeps m \<Longrightarrow> keeps n \<Longrightarrow> keeps (if b then m else n)"
  by simp

lemma keeps_update: "(\<And>w. cw_root (g w) = cw_root w \<and> cw_maximum (g w) = cw_maximum w) \<Longrightarrow> keeps (update_world g)"
  by (simp add: keeps_def preserves_def update_world_def)

lemma keeps_read [kept]: "keeps (lookup p)" "keeps (lexists p)"
  by (simp_all add: keeps_def preserves_def lookup_def lexists_def)

definition elsewhere :: "path \<Rightarrow> bool" where
  "elsewhere p \<longleftrightarrow> p \<noteq> [] \<and> hd p \<noteq> ''cache.size''"

lemma elsewhere_dirs [simp]: "elsewhere (objects_dir @ q)" "elsewhere (stage_dir @ q)" "elsewhere (lock_path name)" "elsewhere objects_dir"
  "elsewhere stage_dir" "elsewhere cache_info_file" "elsewhere p \<Longrightarrow> elsewhere (p @ q)"
  by (simp_all add: elsewhere_def objects_dir_def stage_dir_def lock_path_def cache_info_file_def)

lemma keeps_change [kept]: "elsewhere p \<Longrightarrow> keeps (change p f)"
  by (auto simp: keeps_def preserves_def change_def elsewhere_def cache_size_file_def dest: find_edit_other split: sum.splits)

lemma keeps_relocate [kept]: "keeps (relocate g)"
  unfolding relocate_def by (rule keeps_update) simp

lemma keeps_locks [kept]: "keeps (flock fd p write wait)" "keeps (unlock fd)" "keeps new_fd" "keeps (fresh_name ce)"
  unfolding flock_def unlock_def new_fd_def fresh_name_def by (intro kept keeps_update; simp)+

lemma keeps_calls [kept]:
  "elsewhere p \<Longrightarrow> keeps (os_mkdir ce p)" "elsewhere p \<Longrightarrow> keeps (os_create ce p s)" "elsewhere p \<Longrightarrow> keeps (os_write ce p s)"
  "elsewhere p \<Longrightarrow> keeps (os_unlink p)" "elsewhere p \<Longrightarrow> keeps (os_rmdir p)" "elsewhere p \<Longrightarrow> keeps (rmtree p)"
  "elsewhere p \<Longrightarrow> elsewhere q \<Longrightarrow> keeps (os_rename p q)" "elsewhere q \<Longrightarrow> keeps (os_link p q)"
  unfolding os_mkdir_def os_create_def os_write_def os_unlink_def os_rmdir_def rmtree_def os_rename_def os_link_def
  by (intro kept; assumption)+

lemma keeps_suppress [kept]: "keeps m \<Longrightarrow> keeps (suppress_oserror ks m)"
  unfolding suppress_oserror_def by (intro kept)

lemma keeps_open [kept]: "\<not> create \<or> elsewhere p \<Longrightarrow> keeps (open_locked ce p wait write create)"
  unfolding open_locked_def os_open_def by (cases create) (auto intro!: kept)

lemma keeps_atomic_dir [kept]: "elsewhere dir \<Longrightarrow> keeps (atomic_dir ce dir)"
  unfolding atomic_dir_def atomic_file_def atomic_open_def Let_def by (auto intro!: kept)

lemma keeps_rm [kept]: "elsewhere dir \<Longrightarrow> keeps (rm_r_object dir)"
  unfolding rm_r_object_def drop_entry_def by (auto intro!: kept)

lemma keeps_active [kept]: "keeps require_active" "keeps compatible"
  unfolding require_active_def compatible_def by (intro kept)+

lemma keeps_last_used [kept]: "keeps (last_used name)" "keeps last_used_objs"
proof -
  show used: "keeps (last_used name)" for name unfolding last_used_def by (intro kept)
  have "keeps (used_times names)" for names by (induction names) (auto intro!: kept used)
  then show "keeps last_used_objs" unfolding last_used_objs_def by (intro kept)
qed

lemma put_file: "put_renamed (File b s t) old = Inr x \<Longrightarrow> x = Some (File b s t)"
  by (auto simp: put_renamed_def split: option.splits node.splits)

lemma seq_assoc: "seq m (seq n k) = seq (seq m n) k"
  by (auto simp: seq_def andthen_def fun_eq_iff split: prod.splits sum.splits)

text \<open>The file is replaced by one with a size that is within the maximum.\<close>

lemma replaced_size:
  assumes "size_within ce w" and "within w n" and "ce_loads ce (ce_dumps ce (PyInt n)) = Inr (PyInt n)"
    and "seq (os_write ce tmp (ce_dumps ce (PyInt n))) (os_rename tmp cache_size_file) w = (r, w')" and "elsewhere tmp"
  shows "size_within ce w'"
proof -
  let ?s = "ce_dumps ce (PyInt n)"
  obtain r1 w1 where w1: "os_write ce tmp ?s w = (r1, w1)" by (cases "os_write ce tmp ?s w")
  have ok: "size_within ce w1" and maximum: "cw_maximum w1 = cw_maximum w"
    using keeps_size [OF keeps_calls(3) [OF assms(5)], of ce ce ?s] keeps_calls(3) [OF assms(5), of ce ?s] assms(1) w1
    by (auto simp: preserves_def keeps_def dest: spec [of _ w])
  show ?thesis
  proof (cases r1)
    case (Inl e)
    then show ?thesis using assms(4) ok w1 by (simp add: seq_Inl)
  next
    case (Inr u)
    then have "\<exists>b t. find_node tmp (cw_root w1) = Inr (File b ?s t)"
      using w1 find_edit_same [of tmp _ "cw_root w"]
      by (fastforce simp: os_write_def change_def new_file_def split: sum.splits option.splits node.splits)
    then obtain b t where tmp: "find_node tmp (cw_root w1) = Inr (File b ?s t)" by blast
    have run: "os_rename tmp cache_size_file w1 = (r, w')" using assms(4) Inr w1 by (simp add: seq_Inr)
    obtain r2 w2 where w2: "change cache_size_file (put_renamed (File b ?s t)) w1 = (r2, w2)"
      by (cases "change cache_size_file (put_renamed (File b ?s t)) w1")
    show ?thesis
    proof (cases r2)
      case (Inl e)
      then have "w2 = w1" "w' = w1" using w2 run tmp
        by (auto simp: os_rename_def lookup_def change_def andthen_def seq_def split: sum.splits)
      then show ?thesis using ok by simp
    next
      case (Inr u)
      then have e: "edit cache_size_file (put_renamed (File b ?s t)) (cw_root w1) = Inr (cw_root w2)" "cw_maximum w2 = cw_maximum w1"
        using w2 by (auto simp: change_def split: sum.splits)
      obtain old x where "put_renamed (File b ?s t) old = Inr x" "\<forall>n. x = Some n \<longrightarrow> find_node cache_size_file (cw_root w2) = Inr n"
        using find_edit_same [OF e(1)] by blast
      then have "find_node cache_size_file (cw_root w2) = Inr (File b ?s t)" using put_file by blast
      then have "size_within ce w2" using assms(2,3) maximum e(2) by (simp add: size_within_def recorded_def within_def)
      moreover have "preserves (size_within ce) (seq (change tmp (\<lambda>_. Inr None)) (relocate g))" for g
        by (intro keeps_size kept assms)
      moreover have "seq (change cache_size_file (put_renamed (File b ?s t))) m w1 = m w2" for m :: "unit cache"
        using w2 Inr by (simp add: seq_def andthen_def)
      then have "\<exists>g. os_rename tmp cache_size_file w1 = seq (change tmp (\<lambda>_. Inr None)) (relocate g) w2"
        using tmp by (auto simp: os_rename_def lookup_def andthen_def)
      ultimately show ?thesis using run unfolding preserves_def by (metis snd_conv)
    qed
  qed
qed

text \<open>JSON texts of integers are read as what was written.\<close>

definition json_ints :: "cache_env \<Rightarrow> bool" where
  "json_ints ce \<longleftrightarrow> (\<forall>n. ce_loads ce (ce_dumps ce (PyInt n)) = Inr (PyInt n))"

definition room_for :: "cache_env \<Rightarrow> int \<Rightarrow> cache_world \<Rightarrow> bool" where
  "room_for ce n w \<longleftrightarrow> size_within ce w \<and> within w n"

lemma keeps_room: "keeps m \<Longrightarrow> preserves (room_for ce n) m"
  using keeps_size [of m ce] by (auto simp: preserves_def keeps_def room_for_def within_def)

lemma maximum_kept: "cw_maximum (snd (seq (os_write ce tmp s) (os_rename tmp p) w)) = cw_maximum w"
proof -
  have "preserves (\<lambda>w. cw_maximum w = m) (change p f)" "preserves (\<lambda>w. cw_maximum w = m) (relocate g)"
    "preserves (\<lambda>w. cw_maximum w = m) (lookup p)" for p f g m
    by (auto simp: preserves_def change_def relocate_def update_world_def lookup_def split: sum.splits)
  then have "preserves (\<lambda>w. cw_maximum w = m) (seq (os_write ce tmp s) (os_rename tmp p))" for m
    unfolding os_write_def os_rename_def by (intro preserved)
  then show ?thesis by (simp add: preserves_def)
qed

lemma room_replaced:
  assumes "json_ints ce" and "elsewhere tmp"
  shows "preserves (room_for ce n) (seq (os_write ce tmp (ce_dumps ce (PyInt n))) (os_rename tmp cache_size_file))"
proof (unfold preserves_def, intro allI impI)
  fix w assume "room_for ce n w"
  then show "room_for ce n (snd (seq (os_write ce tmp (ce_dumps ce (PyInt n))) (os_rename tmp cache_size_file) w))"
    using replaced_size [of ce w n tmp "fst (seq (os_write ce tmp (ce_dumps ce (PyInt n))) (os_rename tmp cache_size_file) w)"]
      assms maximum_kept [of ce tmp "ce_dumps ce (PyInt n)" cache_size_file w]
    by (simp add: room_for_def within_def json_ints_def)
qed

lemma replace_size:
  assumes "json_ints ce" shows "preserves (room_for ce n) (replace_json ce cache_size_file (PyInt n))"
proof -
  have inner: "preserves (room_for ce n) (seq (os_write ce (objects_dir @ [name]) (ce_dumps ce (PyInt n)))
      (seq (os_rename (objects_dir @ [name]) cache_size_file) (ret fd)))" for name and fd :: nat
    unfolding seq_assoc by (rule preserves_seq [OF room_replaced [OF assms] preserves_ret]) simp
  show ?thesis
    by (simp add: replace_json_def atomic_file_def atomic_open_def Let_def)
      (intro preserves_andthen preserves_finally inner; rule keeps_room; intro kept; simp)
qed

lemma new_size_within: "new_size (cw_maximum w) n d = Some k \<Longrightarrow> within w n \<Longrightarrow> within w k"
  by (auto simp: new_size_def within_def split: if_splits)

lemma read_recorded:
  assumes "recorded ce w = Some n" shows "read_json ce cache_size_file w = (Inr (PyInt n), w)"
  using assms by (auto simp: recorded_def read_json_def read_text_def lookup_def andthen_def run_simps
      split: sum.splits node.splits pyval.splits)

lemma size_step:
  assumes "json_ints ce"
  shows "preserves (size_within ce)
     (andthen (read_json ce cache_size_file) (\<lambda>v. andthen (lift_res (int_value v)) (\<lambda>n. andthen (ask cw_maximum) (\<lambda>maximum.
        case new_size maximum n diff of None \<Rightarrow> ret False | Some k \<Rightarrow> seq (replace_json ce cache_size_file (PyInt k)) (ret True)))))"
    (is "preserves _ ?m")
proof (unfold preserves_def, intro allI impI)
  fix w assume w: "size_within ce w"
  then obtain n where n: "recorded ce w = Some n" "within w n" by (auto simp: size_within_def)
  have run: "?m w = (case new_size (cw_maximum w) n diff of None \<Rightarrow> ret False | Some k \<Rightarrow> seq (replace_json ce cache_size_file (PyInt k)) (ret True)) w"
    using read_recorded [OF n(1)] by (simp add: andthen_def run_simps)
  show "size_within ce (snd (?m w))"
  proof (cases "new_size (cw_maximum w) n diff")
    case None
    then show ?thesis using run w by (simp add: run_simps)
  next
    case (Some k)
    have "preserves (room_for ce k) (seq (replace_json ce cache_size_file (PyInt k)) (ret True))"
      by (intro preserved replace_size assms)
    moreover have "room_for ce k w" using w new_size_within [OF Some n(2)] by (simp add: room_for_def)
    ultimately show ?thesis using run Some by (simp add: preserves_def room_for_def)
  qed
qed

lemma keeps_open_size: "keeps (open_locked ce cache_size_file wait write False)"
  by (rule keeps_open) simp

lemma update_size_within: "json_ints ce \<Longrightarrow> preserves (size_within ce) (update_cache_size ce diff)"
  unfolding update_cache_size_def atomic_open_def
  by (simp only: if_True) (intro preserves_seq preserves_andthen preserves_if preserves_finally preserves_raise size_step
      keeps_size [OF keeps_active(1)] keeps_size [OF keeps_active(2)] keeps_size [OF keeps_locks(2)] keeps_size [OF keeps_open_size])

text \<open>Programs that only change the recorded size as the cache does.\<close>

lemma remove_lru_within:
  assumes "json_ints ce" shows "preserves (size_within ce) (remove_lru ce n)"
proof -
  have remove: "preserves (size_within ce) (remove_object ce name used)" for name used
    unfolding remove_object_def atomic_open_def
    by (simp only: if_True) (intro preserves_andthen preserves_seq preserves_if preserves_finally update_size_within [OF assms]; rule keeps_size; intro kept; simp)
  have "preserves (size_within ce) (free_objects ce m os freed)" for m os freed
  proof (induction os arbitrary: freed)
    case (Cons o1 os)
    obtain name used where "o1 = (name, used)" by (cases o1)
    then show ?case using Cons by (auto intro!: preserves_andthen preserves_except preserves_if preserved remove split: option.split)
  qed (simp add: preserved)
  then show ?thesis unfolding remove_lru_def by (intro preserves_andthen preserves_ret keeps_size [OF keeps_last_used(2)])
qed

lemma make_room_within: "json_ints ce \<Longrightarrow> preserves (size_within ce) (make_room ce n)"
  unfolding make_room_def by (intro preserves_andthen preserves_seq preserves_if preserves_ret update_size_within remove_lru_within)

lemma stage_within: "(\<And>p. preserves (size_within ce) (body p)) \<Longrightarrow> preserves (size_within ce) (stage ce body)"
  unfolding stage_def Let_def
  by (rule preserves_seq [OF keeps_size [OF keeps_active(1)]], rule preserves_andthen [OF keeps_size [OF keeps_atomic_dir]], simp)
    (auto intro!: preserves_finally preserves_seq keeps_size [OF keeps_calls(1)] keeps_size [OF keeps_rm] keeps_size [OF keeps_locks(2)])

lemma preserves_run: "m w = (r, w') \<Longrightarrow> preserves I m \<Longrightarrow> I w \<Longrightarrow> I w'"
  unfolding preserves_def by (metis snd_conv)

lemma commit_within:
  assumes "json_ints ce" and "size_within ce w" and "commit ce (objects_dir @ [u]) name info n w = (r, forgotten, w')"
  shows "size_within ce w'"
proof -
  let ?dir = "objects_dir @ [u]"
  obtain r1 w1 where w1: "publish ce ?dir name info w = (r1, w1)" by (cases "publish ce ?dir name info w")
  have "keeps (publish ce ?dir name info)" unfolding publish_def by (intro kept) simp_all
  then have ok: "size_within ce w1" using preserves_run [where m = "publish ce ?dir name info" and w = w] keeps_size w1 assms(2) by metis
  let ?m = "andthen (lexists ?dir) (\<lambda>there. if there then seq (suppress_oserror gone (os_unlink (?dir @ [object_info])))
      (andthen (update_cache_size ce (- int n)) (\<lambda>_. ret ())) else ret ())"
  obtain r2 w2 where w2: "?m w1 = (r2, w2)" by (cases "?m w1")
  have "preserves (size_within ce) ?m"
    by (intro preserves_andthen preserves_seq preserves_if preserves_ret update_size_within assms keeps_size [OF keeps_read(2)]
        keeps_size [OF keeps_suppress] keeps_calls) simp
  then have "size_within ce w2" using preserves_run [where m = ?m and w = w1] ok w2 by metis
  moreover have "w' = w2" using assms(3) w1 w2 by (auto simp: commit_def Let_def split: sum.splits)
  ultimately show ?thesis by simp
qed

lemma fill_within:
  assumes "json_ints ce" and "\<And>p. preserves (size_within ce) (body p)" and "size_within ce w"
    and "fill_entry ce name (objects_dir @ [u]) body w = (r, forgotten, w')"
  shows "size_within ce w'"
proof -
  let ?data = "(objects_dir @ [u]) @ [data_dir]"
  let ?m = "seq (os_mkdir ce ?data) (seq (body ?data) (andthen (lookup ?data) (\<lambda>n. andthen (ask cw_bootid) (\<lambda>b.
      andthen (ask cw_maximum) (\<lambda>maximum. if maximum > -1 \<and> int (space n) > maximum then ret None
        else andthen (make_room ce (space n)) (\<lambda>ok. ret (if ok then Some (the b, space n) else None)))))))"
  obtain x w1 where w1: "?m w = (x, w1)" by (cases "?m w")
  have inv: "preserves (size_within ce) ?m"
    by (intro preserves_seq preserves_andthen preserves_if preserves_ret preserves_ask make_room_within assms
        keeps_size [OF keeps_read(1)] keeps_size [OF keeps_calls(1)]) simp
  have ok: "size_within ce w1" by (rule preserves_run [where m = ?m and w = w and I = "size_within ce"]) (rule w1, rule inv, rule assms(3))
  show ?thesis using assms(4) w1 ok commit_within [OF assms(1) ok]
    by (auto simp: fill_entry_def Let_def split: sum.splits option.splits)
qed

text \<open>
  C39: Whatever objects are stored, whatever the caller fills them with and whatever is removed to make room, the
  recorded size of the cache is never negative and never above its maximum, if it was not before.
\<close>

theorem store_within_maximum:
  assumes "json_ints ce" and "\<And>p. preserves (size_within ce) (body p)" and "size_within ce w"
  shows "size_within ce (snd (store ce name body w))"
proof -
  have inner: "preserves (size_within ce) (\<lambda>w. case fill_entry ce name (objects_dir @ [u]) body w of (r, forgotten, w1) \<Rightarrow>
      with_finally (\<lambda>w. (r, w)) (seq (if forgotten then ret () else rm_r_object (objects_dir @ [u])) (unlock fd)) w1)" for u fd
  proof (unfold preserves_def, intro allI impI)
    fix w assume w: "size_within ce w"
    obtain r forgotten w1 where f: "fill_entry ce name (objects_dir @ [u]) body w = (r, forgotten, w1)" by (metis prod_cases3)
    have "preserves (size_within ce) (with_finally (\<lambda>w. (r, w)) (seq (if forgotten then ret () else rm_r_object (objects_dir @ [u])) (unlock fd)))"
      by (intro preserves_finally preserves_seq preserves_if preserves_ret preserves_lift [unfolded lift_res_def]
          keeps_size [OF keeps_rm] keeps_size [OF keeps_locks(2)]) (simp_all add: preserves_def)
    then show "size_within ce (snd (case fill_entry ce name (objects_dir @ [u]) body w of (r, forgotten, w1) \<Rightarrow>
        with_finally (\<lambda>w. (r, w)) (seq (if forgotten then ret () else rm_r_object (objects_dir @ [u])) (unlock fd)) w1))"
      using fill_within [OF assms(1,2) w f] f by (simp add: preserves_def)
  qed
  have "preserves (size_within ce) (store ce name body)"
    unfolding store_def
    by (intro preserves_seq preserves_andthen preserves_if preserves_raise preserves_ask stage_within assms(2)
        keeps_size [OF keeps_active(1)] keeps_size [OF keeps_active(2)] keeps_size [OF keeps_atomic_dir])
      (use inner in auto)
  then show ?thesis using assms(3) by (simp add: preserves_def)
qed

section \<open>Examples\<close>

text \<open>The recorded size is not even decreased when it is above the maximum, which the code says it always is.\<close>

lemma decrease_refused: "0 \<le> m \<Longrightarrow> m < n + d \<Longrightarrow> new_size m n d = None"
  by (simp add: new_size_def)

text \<open>A cache with integers for texts; files take no blocks.\<close>

definition sample_env :: cache_env where
  "sample_env = \<lparr>ce_uuid = (\<lambda>n. dec_nat n), ce_file_blocks = (\<lambda>_. 0), ce_dir_blocks = 1,
     ce_dumps = (\<lambda>v. case v of PyInt n \<Rightarrow> dec_int n | _ \<Rightarrow> []), ce_loads = (\<lambda>s. case py_int s of Some n \<Rightarrow> Inr (PyInt n) | None \<Rightarrow> Inl Value_Error),
     ce_boot_id = ''boot'', ce_copy = (\<lambda>tree p root. (0, [], root))\<rparr>"

definition sample_object :: "int \<Rightarrow> node" where
  "sample_object t = Dir 1 [(''object.lock'', File 0 [] t), (''data'', Dir 1 []), (''object.info'', File 0 [] 0)]"

definition sample_world :: "int \<Rightarrow> int \<Rightarrow> (string \<times> node) list \<Rightarrow> cache_world" where
  "sample_world maximum n objects =
     \<lparr>cw_root = Dir 1 [(''objects'', Dir 1 objects), (''stage'', Dir 1 []), (''cache.size'', File 0 (dec_int n) 0)],
      cw_locks = [], cw_next_fd = 3, cw_uuids = 0, cw_now = 9, cw_active = True, cw_bootid = Some ''boot'', cw_lock = Some 2,
      cw_info = \<lparr>ci_boot_id = None, ci_maximum_size = Some (PyInt maximum), ci_version = Some (PyInt 1)\<rparr>, cw_maximum = maximum\<rparr>"

definition object_names :: "cache_world \<Rightarrow> string list" where
  "object_names w = (case find_node objects_dir (cw_root w) of Inr n \<Rightarrow> map fst (entries n) | _ \<Rightarrow> [])"

lemma sample_ints: "json_ints sample_env"
  by (simp add: json_ints_def sample_env_def py_int_dec)

lemma sample_within: "0 \<le> n \<Longrightarrow> n \<le> m \<Longrightarrow> size_within sample_env (sample_world m n objects)"
  by (simp add: size_within_def recorded_def within_def sample_world_def sample_env_def cache_size_file_def py_int_dec)

lemma store_within_maximum_witness:
  "size_within sample_env (snd (store sample_env ''b'' (\<lambda>_. ret ()) (sample_world 1024 1024 [(''a'', sample_object 1)])))"
  using store_within_maximum [OF sample_ints preserves_ret sample_within [of 1024 1024 "[(''a'', sample_object 1)]"], of "''b''"] by simp

text \<open>
  Storing under a name that exists leaves the anonymous entry of the new object among the objects: its name was
  forgotten, so that it is not removed.
\<close>

lemma anonymous_entry_left:
  "map (take 5) (object_names (snd (store sample_env ''a'' (\<lambda>_. ret ()) (sample_world 1024 512 [(''a'', sample_object 1)])))) = [''a'', ''uuid-'']"
  by code_simp

text \<open>The space of the data of all objects.\<close>

definition data_space :: "cache_world \<Rightarrow> nat" where
  "data_space w =
     (case find_node objects_dir (cw_root w) of
        Inr n \<Rightarrow> sum_list (map (\<lambda>e. case find_node [data_dir] (snd e) of Inr d \<Rightarrow> space d | _ \<Rightarrow> 0) (entries n))
      | _ \<Rightarrow> 0)"

text \<open>
  An object is removed with the space of its whole directory, but was recorded with that of its data.  Of three objects
  that fill a cache of 1536 bytes one is removed to make room for a fourth, and then a fifth is stored without removing
  any: the cache has more than its maximum, and its recorded size is the maximum.
\<close>

lemma removed_too_much:
  "let w = sample_world 1536 1536 [(''a'', sample_object 1), (''b'', sample_object 2), (''c'', sample_object 3)];
       w1 = snd (store sample_env ''d'' (\<lambda>_. ret ()) w); w2 = snd (store sample_env ''e'' (\<lambda>_. ret ()) w1)
   in object_names w2 = [''b'', ''c'', ''d'', ''e''] \<and> data_space w2 = 2048 \<and> recorded sample_env w2 = Some 1536 \<and> cw_maximum w2 = 1536"
  by code_simp

end
