(* ===== verification/Cache_Load_Laws.thy ===== *)
theory Cache_Load_Laws
  imports Fs_Cache_Laws
begin

text \<open>What is stored in the cache is loaded from it.\<close>

section \<open>The objects of a tree\<close>

definition objects_of :: "node \<Rightarrow> (string \<times> node) list" where
  "objects_of r = (case map_of (entries r) ''objects'' of Some d \<Rightarrow> entries d | None \<Rightarrow> [])"

definition objs :: "node \<Rightarrow> string \<Rightarrow> node option" where
  "objs r = map_of (objects_of r)"

definition size_file :: "node \<Rightarrow> node option" where
  "size_file r = map_of (entries r) ''cache.size''"

definition scaffold :: "node \<Rightarrow> bool" where
  "scaffold r \<longleftrightarrow> (\<exists>b es ob ol. r = Dir b es \<and> map_of es ''objects'' = Some (Dir ob ol))"

fun put_entry :: "string \<Rightarrow> node option \<Rightarrow> (string \<times> node) list \<Rightarrow> (string \<times> node) list" where
  "put_entry x None es = AList.delete x es"
| "put_entry x (Some n) es = AList.update x n es"

fun with_entry :: "string \<Rightarrow> node option \<Rightarrow> node \<Rightarrow> node" where
  "with_entry x y (Dir b es) = Dir b (put_entry x y es)"
| "with_entry x y n = n"

definition put_object :: "string \<Rightarrow> node option \<Rightarrow> node \<Rightarrow> node" where
  "put_object x y r = with_entry ''objects'' (Some (with_entry x y (the (map_of (entries r) ''objects'')))) r"

lemma put_entry_map: "map_of (put_entry x y es) = (map_of es)(x := y)"
  by (cases y) (simp_all add: update_conv' delete_conv')

lemma scaffold_put [simp]: "scaffold r \<Longrightarrow> scaffold (put_object x y r)" "scaffold r \<Longrightarrow> scaffold (with_entry ''cache.size'' z r)"
  by (auto simp: scaffold_def put_object_def put_entry_map update_conv')

lemma objs_put [simp]: "scaffold r \<Longrightarrow> objs (put_object x y r) = (objs r)(x := y)" "scaffold r \<Longrightarrow> objs (with_entry ''cache.size'' z r) = objs r"
  by (auto simp: scaffold_def put_object_def objs_def objects_of_def put_entry_map update_conv')

lemma size_put [simp]: "scaffold r \<Longrightarrow> size_file (put_object x y r) = size_file r" "scaffold r \<Longrightarrow> size_file (with_entry ''cache.size'' z r) = z"
  by (auto simp: scaffold_def put_object_def size_file_def put_entry_map update_conv')

lemma edit_object: "scaffold r \<Longrightarrow> edit [''objects'', x] f r = res_map (\<lambda>y. put_object x y r) (f (objs r x))"
  by (cases "f (objs r x)") (auto simp: scaffold_def objs_def objects_of_def put_object_def split: option.split)

lemma edit_entry:
  "scaffold r \<Longrightarrow> objs r x = Some (Dir b es) \<Longrightarrow>
    edit [''objects'', x, y] f r = res_map (\<lambda>z. put_object x (Some (Dir b (put_entry y z es))) r) (f (map_of es y))"
  by (cases "f (map_of es y)") (auto simp: scaffold_def objs_def objects_of_def put_object_def split: option.split)

lemma edit_size: "scaffold r \<Longrightarrow> edit [''cache.size''] f r = res_map (\<lambda>z. with_entry ''cache.size'' z r) (f (size_file r))"
  by (cases "f (size_file r)") (auto simp: scaffold_def size_file_def split: option.split)

lemma find_object: "scaffold r \<Longrightarrow> find_node [''objects'', x] r = (case objs r x of None \<Rightarrow> Inl (Errno ''ENOENT'') | Some n \<Rightarrow> Inr n)"
  by (auto simp: scaffold_def objs_def objects_of_def split: option.split)

lemma find_entry: "scaffold r \<Longrightarrow> objs r x = Some n \<Longrightarrow> find_node [''objects'', x, y] r = find_node [y] n"
  by (auto simp: scaffold_def objs_def objects_of_def split: option.split)

lemma find_size: "scaffold r \<Longrightarrow> find_node [''cache.size''] r = (case size_file r of None \<Rightarrow> Inl (Errno ''ENOENT'') | Some n \<Rightarrow> Inr n)"
  by (auto simp: scaffold_def size_file_def split: option.split)

lemmas tree_simps = edit_object edit_entry edit_size find_object find_entry find_size

section \<open>Steps\<close>

text \<open>A world with another tree, other locks and other counters.\<close>

definition at :: "cache_world \<Rightarrow> node \<Rightarrow> (nat \<times> path option \<times> bool) list \<Rightarrow> nat \<Rightarrow> nat \<Rightarrow> cache_world" where
  "at w r l k u = w\<lparr>cw_root := r, cw_locks := l, cw_next_fd := k, cw_uuids := u\<rparr>"

lemma at_fields [simp]:
  "cw_root (at w r l k u) = r" "cw_locks (at w r l k u) = l" "cw_next_fd (at w r l k u) = k" "cw_uuids (at w r l k u) = u"
  "cw_now (at w r l k u) = cw_now w" "cw_active (at w r l k u) = cw_active w" "cw_bootid (at w r l k u) = cw_bootid w"
  "cw_info (at w r l k u) = cw_info w" "cw_maximum (at w r l k u) = cw_maximum w"
  "(at w r l k u)\<lparr>cw_root := r'\<rparr> = at w r' l k u" "(at w r l k u)\<lparr>cw_locks := l'\<rparr> = at w r l' k u"
  "(at w r l k u)\<lparr>cw_next_fd := k'\<rparr> = at w r l k' u" "(at w r l k u)\<lparr>cw_uuids := u'\<rparr> = at w r l k u'"
  by (simp_all add: at_def)

lemma at_self: "w = at w (cw_root w) (cw_locks w) (cw_next_fd w) (cw_uuids w)"
  by (simp add: at_def)

lemmas prog_simps = andthen_def seq_def run_simps with_finally_def with_except_def

text \<open>Only one open file has locks below the objects.\<close>

definition far :: "path option \<Rightarrow> bool" where
  "far p \<longleftrightarrow> (\<forall>q. p = Some q \<longrightarrow> take 1 q \<noteq> [''objects''])"

definition held :: "nat \<Rightarrow> (nat \<times> path option \<times> bool) list \<Rightarrow> bool" where
  "held k l \<longleftrightarrow> (\<forall>(fd, p, wr) \<in> set l. fd = k \<or> far p)"

lemma held_simps:
  "held k ((fd, p, wr) # l) \<longleftrightarrow> (fd = k \<or> far p) \<and> held k l" "held k l \<Longrightarrow> held k (filter P l)"
  by (auto simp: held_def)

lemma held_map: "held k l \<Longrightarrow> (\<And>p. far p \<Longrightarrow> far (Option.bind p g)) \<Longrightarrow> held k (map (\<lambda>(fd, p, wr). (fd, Option.bind p g, wr)) l)"
  by (fastforce simp: held_def)

lemma far_bind: "far p \<Longrightarrow> (\<And>q q'. far (Some q) \<Longrightarrow> g q = Some q' \<Longrightarrow> far (Some q')) \<Longrightarrow> far (Option.bind p g)"
  by (auto simp: far_def bind_eq_Some_conv)

definition uuid_name :: "cache_env \<Rightarrow> nat \<Rightarrow> string" where
  "uuid_name ce n = ''uuid-'' @ ce_uuid ce n"

lemma new_name: "fresh_name ce (at w r l k u) = (Inr (uuid_name ce u), at w r l k (Suc u))"
  by (simp add: fresh_name_def prog_simps uuid_name_def)

lemma new_entry:
  assumes "scaffold r" and "objs r (uuid_name ce u) = None" and "objs r (uuid_name ce (Suc u)) = None"
    and "uuid_name ce u \<noteq> uuid_name ce (Suc u)" and "held k l"
  shows "\<exists>R l'. atomic_dir ce objects_dir (at w r l k u) = (Inr (uuid_name ce u, k), at w R l' (Suc k) (Suc (Suc u))) \<and> scaffold R \<and>
    objs R = (objs r)(uuid_name ce u \<mapsto> Dir (ce_dir_blocks ce) [(object_lock, new_file ce [] (cw_now w))]) \<and>
    size_file R = size_file r \<and> held k l'"
proof -
  let ?u = "uuid_name ce u" and ?tmp = "uuid_name ce (Suc u)"
  let ?file = "File (ce_file_blocks ce []) [] (cw_now w)" and ?dir = "\<lambda>es. Dir (ce_dir_blocks ce) es"
  let ?R = "put_object ?tmp None (put_object ?u (Some (?dir [(object_lock, ?file)])) (put_object ?u (Some (?dir [])) (put_object ?tmp (Some ?file) r)))"
  have objs: "objs ?R = (objs r)(?u \<mapsto> ?dir [(object_lock, ?file)])" using assms(1,3,4) by (auto simp: fun_eq_iff)
  have "\<exists>l'. atomic_dir ce objects_dir (at w r l k u) = (Inr (?u, k), at w ?R l' (Suc k) (Suc (Suc u))) \<and> held k l'"
    using assms
    by (simp add: atomic_dir_def objects_dir_def new_name atomic_file_def atomic_open_def open_locked_def os_open_def os_create_def os_mkdir_def
      os_link_def os_unlink_def change_def lookup_def suppress_oserror_def tree_simps prog_simps Let_def make_node_def drop_file_def new_file_def
      new_fd_def flock_def relocate_def unlock_def del: map_map)
      (intro exI conjI, rule refl, auto simp: held_simps far_def simp del: map_map intro!: held_map far_bind split: if_splits)
  then obtain l' where "atomic_dir ce objects_dir (at w r l k u) = (Inr (?u, k), at w ?R l' (Suc k) (Suc (Suc u)))" "held k l'" by blast
  moreover have "scaffold ?R" "size_file ?R = size_file r" using assms(1) by simp_all
  ultimately show ?thesis using objs unfolding new_file_def by blast
qed

text \<open>A cache whose size file has a number, in an active and compatible instance.\<close>

definition usable :: "cache_env \<Rightarrow> cache_world \<Rightarrow> node \<Rightarrow> int \<Rightarrow> bool" where
  "usable ce w r n \<longleftrightarrow> scaffold r \<and> cw_active w \<and> is_compatible (cw_info w) = Inr True \<and>
     (\<exists>b s t. size_file r = Some (File b s t) \<and> ce_loads ce s = Inr (PyInt n))"

lemma conflicts_entry [simp]: "conflicts p write (fd, q, wr) \<longleftrightarrow> q = Some p \<and> (write \<or> wr)"
  by (simp add: conflicts_def)

lemma held_renamed: "far (Some q) \<Longrightarrow> \<not> is_prefix [''objects'', x] q"
  by (cases q) (auto simp: far_def is_prefix_def)

lemma size_updated:
  assumes "usable ce w r n" and "json_ints ce" and "new_size (cw_maximum w) n d = Some m" and "objs r (uuid_name ce u) = None"
    and "held k0 l" and "k0 < k"
  shows "\<exists>R l'. update_cache_size ce d (at w r l k u) = (Inr True, at w R l' (Suc (Suc k)) (Suc u)) \<and> usable ce w R m \<and> objs R = objs r \<and> held k0 l'"
proof -
  let ?tmp = "uuid_name ce u"
  obtain b s t where s: "size_file r = Some (File b s t)" "ce_loads ce s = Inr (PyInt n)" using assms(1) by (auto simp: usable_def)
  have ok: "scaffold r" "cw_active w" "is_compatible (cw_info w) = Inr True" using assms(1) by (auto simp: usable_def)
  let ?file = "\<lambda>s. Some (File (ce_file_blocks ce s) s (cw_now w))" and ?text = "ce_dumps ce (PyInt m)"
  let ?R = "put_object ?tmp None (with_entry ''cache.size'' (?file ?text) (put_object ?tmp (?file ?text) (put_object ?tmp (?file []) r)))"
  have "\<exists>l'. update_cache_size ce d (at w r l k u) = (Inr True, at w ?R l' (Suc (Suc k)) (Suc u)) \<and> held k0 l'"
    using assms(3-6) s ok
    by (simp add: update_cache_size_def require_active_def compatible_def read_json_def read_text_def replace_json_def cache_size_file_def
      objects_dir_def new_name atomic_file_def atomic_open_def open_locked_def os_open_def os_create_def os_write_def os_rename_def
      os_unlink_def change_def lookup_def suppress_oserror_def errno_in_def tree_simps prog_simps Let_def make_node_def put_renamed_def drop_file_def new_file_def
      new_fd_def flock_def relocate_def unlock_def del: map_map filter_filter)
      (auto simp: held_renamed simp del: map_map filter_filter intro!: exI held_simps(2) held_map far_bind split: if_splits)
  then obtain l' where l': "update_cache_size ce d (at w r l k u) = (Inr True, at w ?R l' (Suc (Suc k)) (Suc u))" "held k0 l'" by blast
  moreover have "usable ce w ?R m" using ok s assms(2) by (auto simp: usable_def json_ints_def)
  moreover have "objs ?R = objs r" using ok assms(4) by (auto simp: fun_eq_iff)
  ultimately show ?thesis by blast
qed

section \<open>Storing and loading\<close>

text \<open>A caller that puts a tree where the data is to be.\<close>

definition put_tree :: "node \<Rightarrow> path \<Rightarrow> unit cache" where
  "put_tree t p = change p (\<lambda>_. Inr (Some t))"

lemma published:
  assumes "scaffold r" and "objs r x = Some (Dir b es)" and "map_of es object_info = None" and "objs r name = None" and "x \<noteq> name"
    and "held k0 l" and "cw_bootid w = Some boot"
  shows "\<exists>R l'. commit ce [''objects'', x] name info n (at w r l k u) = (Inr (), True, at w R l' k u) \<and> scaffold R \<and> size_file R = size_file r \<and>
    (\<exists>es'. objs R name = Some (Dir b es') \<and> (\<forall>y. y \<noteq> object_info \<longrightarrow> map_of es' y = map_of es y)) \<and> held k0 l'"
proof -
  let ?es = "put_entry object_info (Some (new_file ce (ce_dumps ce info) (cw_now w))) es"
  let ?R1 = "put_object x (Some (Dir b ?es)) r"
  let ?R = "put_object x None (put_object name (Some (Dir b ?es)) ?R1)"
  have "\<exists>l'. commit ce [''objects'', x] name info n (at w r l k u) = (Inr (), True, at w ?R l' k u) \<and> held k0 l'"
    using assms
    by (simp add: commit_def publish_def lexists_def objects_dir_def os_create_def os_rename_def change_def lookup_def tree_simps prog_simps Let_def
        make_node_def put_renamed_def relocate_def del: map_map put_entry.simps)
      (auto simp: held_renamed simp del: map_map intro!: exI held_map far_bind split: if_splits)
  then obtain l' where "commit ce [''objects'', x] name info n (at w r l k u) = (Inr (), True, at w ?R l' k u)" "held k0 l'" by blast
  moreover have "objs ?R name = Some (Dir b ?es)" "\<forall>y. y \<noteq> object_info \<longrightarrow> map_of ?es y = map_of es y" "scaffold ?R" "size_file ?R = size_file r"
    using assms(1,5) by (simp_all add: put_entry_map del: put_entry.simps)
  ultimately show ?thesis by blast
qed

lemma entry_filled:
  assumes "usable ce w r n" and "json_ints ce" and "0 \<le> n" and "new_size (cw_maximum w) n (int (space t)) = Some m"
    and "objs r x = Some (Dir b [(object_lock, f)])" and "objs r name = None" and "x \<noteq> name"
    and "objs r (uuid_name ce u) = None" and "held k0 l" and "k0 < k" and "cw_bootid w = Some boot"
  shows "\<exists>R l'. fill_entry ce name [''objects'', x] (put_tree t) (at w r l k u) = (Inr (), True, at w R l' (Suc (Suc k)) (Suc u)) \<and>
    usable ce w R m \<and> (\<exists>es. objs R name = Some (Dir b es) \<and> map_of es object_lock = Some f \<and> map_of es data_dir = Some t) \<and> held k0 l'"
proof -
  let ?R1 = "put_object x (Some (Dir b [(object_lock, f), (data_dir, Dir (ce_dir_blocks ce) [])])) r"
  let ?R2 = "put_object x (Some (Dir b [(object_lock, f), (data_dir, t)])) ?R1"
  have sc: "scaffold r" using assms(1) by (simp add: usable_def)
  have "usable ce w ?R2 n" using assms(1) sc by (auto simp: usable_def)
  moreover have "objs ?R2 (uuid_name ce u) = None" using sc assms(5,8) by auto
  ultimately obtain R l1 where R: "update_cache_size ce (int (space t)) (at w ?R2 l k u) = (Inr True, at w R l1 (Suc (Suc k)) (Suc u))"
    "usable ce w R m" "objs R = objs ?R2" "held k0 l1"
    using size_updated [of ce w ?R2 n "int (space t)" m u k0 l k] assms(2,4,9,10) by blast
  have x: "objs R x = Some (Dir b [(object_lock, f), (data_dir, t)])" "objs R name = None" "scaffold R"
    using R(2,3) sc assms(6,7) by (simp_all add: usable_def)
  have ni: "map_of [(object_lock, f), (data_dir, t)] object_info = None" by (simp add: object_info_def object_lock_def data_dir_def)
  obtain R' l' es where R': "commit ce [''objects'', x] name (object_json boot (space t)) (space t) (at w R l1 (Suc (Suc k)) (Suc u)) =
      (Inr (), True, at w R' l' (Suc (Suc k)) (Suc u))" "scaffold R'" "size_file R' = size_file R" "objs R' name = Some (Dir b es)"
    "\<forall>y. y \<noteq> object_info \<longrightarrow> map_of es y = map_of [(object_lock, f), (data_dir, t)] y" "held k0 l'"
    using published [OF x(3,1) ni x(2) assms(7) R(4) assms(11)] by metis
  have small: "\<not> (cw_maximum w > -1 \<and> int (space t) > cw_maximum w)" using assms(3,4) by (auto simp: new_size_def split: if_splits)
  have names: "data_dir \<noteq> object_lock" "data_dir \<noteq> object_info" "object_lock \<noteq> object_info" by (simp_all add: data_dir_def object_lock_def object_info_def)
  have "fill_entry ce name [''objects'', x] (put_tree t) (at w r l k u) = (Inr (), True, at w R' l' (Suc (Suc k)) (Suc u))"
    using sc assms(5,11) R(1) R'(1) small names
    by (simp add: fill_entry_def os_mkdir_def put_tree_def change_def lookup_def tree_simps prog_simps Let_def make_node_def make_room_def)
  moreover have "usable ce w R' m" using R(2) R'(2,3) by (auto simp: usable_def)
  moreover have "map_of es object_lock = Some f" "map_of es data_dir = Some t" using R'(5) names by auto
  ultimately show ?thesis using R'(4,6) by blast
qed

text \<open>The names of the temporary files and of the entry do not exist, nor does the object.\<close>

definition fresh_names :: "cache_env \<Rightarrow> cache_world \<Rightarrow> string \<Rightarrow> bool" where
  "fresh_names ce w name \<longleftrightarrow>
     (let us = map (uuid_name ce) [cw_uuids w, Suc (cw_uuids w), Suc (Suc (cw_uuids w))] in
      distinct (name # us) \<and> (\<forall>x \<in> set (name # us). objs (cw_root w) x = None))"

definition unlocked_objects :: "cache_world \<Rightarrow> bool" where
  "unlocked_objects w \<longleftrightarrow> (\<forall>(fd, p, wr) \<in> set (cw_locks w). far p)"

text \<open>
  C40: If the cache has room for it, a tree that is stored under a new name is what loading that name gives
  afterwards, and the recorded size has grown by its space.
\<close>

theorem stored_is_loaded:
  assumes "usable ce w (cw_root w) n" and "json_ints ce" and "0 \<le> n" and "new_size (cw_maximum w) n (int (space t)) = Some m"
    and "cw_bootid w = Some boot" and "name \<noteq> []" and "fresh_names ce w name" and "unlocked_objects w"
  shows "\<exists>w' w''. store ce name (put_tree t) w = (Inr (), w') \<and> recorded ce w' = Some m \<and> load ce name lookup w' = (Inr t, w'')"
proof -
  let ?r = "cw_root w" and ?l = "cw_locks w" and ?k = "cw_next_fd w" and ?u = "cw_uuids w"
  have ok: "scaffold ?r" "cw_active w" "is_compatible (cw_info w) = Inr True" using assms(1) by (auto simp: usable_def)
  have "held ?k ?l" using assms(8) by (auto simp: held_def unlocked_objects_def)
  then obtain r1 l1 where r1: "atomic_dir ce objects_dir (at w ?r ?l ?k ?u) = (Inr (uuid_name ce ?u, ?k), at w r1 l1 (Suc ?k) (Suc (Suc ?u)))"
    "scaffold r1" "objs r1 = (objs ?r)(uuid_name ce ?u \<mapsto> Dir (ce_dir_blocks ce) [(object_lock, new_file ce [] (cw_now w))])"
    "size_file r1 = size_file ?r" "held ?k l1"
    using new_entry [OF ok(1), of ce ?u ?k ?l w] assms(7) by (auto simp: fresh_names_def Let_def)
  have "usable ce w r1 n" using assms(1) r1(2,4) by (auto simp: usable_def)
  then obtain r2 l2 es where r2: "fill_entry ce name [''objects'', uuid_name ce ?u] (put_tree t) (at w r1 l1 (Suc ?k) (Suc (Suc ?u))) =
      (Inr (), True, at w r2 l2 (Suc (Suc (Suc ?k))) (Suc (Suc (Suc ?u))))" "usable ce w r2 m"
    "objs r2 name = Some (Dir (ce_dir_blocks ce) es)" "map_of es object_lock = Some (new_file ce [] (cw_now w))" "map_of es data_dir = Some t" "held ?k l2"
    using entry_filled [of ce w r1 n t m "uuid_name ce ?u" "ce_dir_blocks ce" "new_file ce [] (cw_now w)" name "Suc (Suc ?u)" ?k l1 "Suc ?k" boot]
      assms(2-5,7) r1(3,5) by (auto simp: fresh_names_def Let_def)
  let ?l3 = "filter (\<lambda>(fd', _). fd' \<noteq> ?k) l2"
  let ?w' = "at w r2 ?l3 (Suc (Suc (Suc ?k))) (Suc (Suc (Suc ?u)))"
  have "store ce name (put_tree t) (at w ?r ?l ?k ?u) = (Inr (), ?w')"
    using ok assms(5,6) r1(1) r2(1) by (simp add: store_def require_active_def compatible_def prog_simps objects_dir_def unlock_def)
  then have stored: "store ce name (put_tree t) w = (Inr (), ?w')" using at_self [of w] by simp
  have "recorded ce ?w' = Some m" using r2(2) by (auto simp: usable_def recorded_def cache_size_file_def find_size)
  moreover have "\<not> list_ex (conflicts [''objects'', name, object_lock] False) ?l3"
    using r2(6) by (auto simp: held_def far_def list_ex_iff conflicts_def)
  then have "\<exists>w''. load ce name lookup ?w' = (Inr t, w'')"
    using r2(2-5) ok assms(6)
    by (simp add: load_def require_active_def compatible_def open_locked_def os_open_def lock_path_def objects_dir_def touch_def change_def lookup_def
        new_fd_def flock_def unlock_def tree_simps prog_simps new_file_def usable_def update_conv' data_dir_def object_lock_def)
  ultimately show ?thesis using stored by blast
qed

lemma sample_usable: "usable sample_env (sample_world m n objects) (cw_root (sample_world m n objects)) n"
  by (simp add: usable_def scaffold_def size_file_def is_compatible_def sample_world_def sample_env_def py_int_dec)

lemma sample_names: "fresh_names sample_env (sample_world m n [(''a'', sample_object 1)]) ''b''"
  by (simp add: fresh_names_def Let_def uuid_name_def objs_def objects_of_def sample_world_def sample_env_def dec_nat_inj)

lemma stored_is_loaded_witness:
  "\<exists>w' w''. store sample_env ''b'' (put_tree (Dir 1 [])) (sample_world 1024 512 [(''a'', sample_object 1)]) = (Inr (), w') \<and>
    recorded sample_env w' = Some 1024 \<and> load sample_env ''b'' lookup w' = (Inr (Dir 1 []), w'')"
  by (rule stored_is_loaded [OF sample_usable sample_ints _ _ _ _ sample_names, where boot = "''boot''"])
    (simp_all add: new_size_def sample_world_def unlocked_objects_def)

end
