(* ===== verification/Cache_Protocol.thy ===== *)
theory Cache_Protocol
  imports Fs_Cache
begin

text \<open>
  Updates of the recorded size of a cache by several processes at the same time (\<open>_update_cache_size\<close>,
  \<open>_atomic_open\<close> and \<open>_atomic_file\<close> of \<open>src/mpp/aibosbuild/util/fscache.py\<close>), one call of the operating system
  after another.  Files are inodes: the file that a process opened may have been replaced when the process has
  locked it, and is opened again then.  A process may end at any point; its locks are released then.
\<close>

section \<open>Processes\<close>

text \<open>
  Where a process is in its update: before \<open>os.open\<close>, before the lock, before the test for a replaced file, before
  reading, before the temporary file is written, before it is renamed, before its lock is released, before the lock of
  the first file is released, and at the end.
\<close>

datatype place =
    Opening
  | Locking nat
  | Testing nat
  | Reading nat
  | Filling nat nat int
  | Renaming nat nat
  | Leaving nat nat
  | Unlocking nat bool
  | Returned bool
  | Crashed

record shared =
  sh_file :: nat
  sh_size :: "nat \<Rightarrow> int option"
  sh_holder :: "nat \<Rightarrow> nat option"
  sh_fresh :: nat
  sh_place :: "nat \<Rightarrow> place"
  sh_done :: "nat list"

definition goes :: "nat \<Rightarrow> place \<Rightarrow> shared \<Rightarrow> shared" where
  "goes p l s = s\<lparr>sh_place := (sh_place s)(p := l)\<rparr>"

definition holds :: "nat \<Rightarrow> nat option \<Rightarrow> shared \<Rightarrow> shared" where
  "holds i h s = s\<lparr>sh_holder := (sh_holder s)(i := h)\<rparr>"

text \<open>
  The temporary file is created and locked first, its text is written when it is closed.  \<open>sh_done\<close> lists the
  processes whose file has become the recorded size; the code does not keep it.
\<close>

inductive step :: "(nat \<Rightarrow> int) \<Rightarrow> (nat \<Rightarrow> int) \<Rightarrow> nat \<Rightarrow> shared \<Rightarrow> shared \<Rightarrow> bool" for maximum diff p where
  open_file: "sh_place s p = Opening \<Longrightarrow> step maximum diff p s (goes p (Locking (sh_file s)) s)"
| take_lock: "sh_place s p = Locking i \<Longrightarrow> sh_holder s i = None \<Longrightarrow>
    step maximum diff p s (goes p (Testing i) (holds i (Some p) s))"
| replaced: "sh_place s p = Testing i \<Longrightarrow> i \<noteq> sh_file s \<Longrightarrow> step maximum diff p s (goes p Opening (holds i None s))"
| unchanged: "sh_place s p = Testing i \<Longrightarrow> i = sh_file s \<Longrightarrow> step maximum diff p s (goes p (Reading i) s)"
| too_large: "sh_place s p = Reading i \<Longrightarrow> sh_size s i = Some n \<Longrightarrow> new_size (maximum p) n (diff p) = None \<Longrightarrow>
    step maximum diff p s (goes p (Unlocking i False) s)"
| make_tmp: "sh_place s p = Reading i \<Longrightarrow> sh_size s i = Some n \<Longrightarrow> new_size (maximum p) n (diff p) = Some k \<Longrightarrow>
    step maximum diff p s
      (goes p (Filling i (sh_fresh s) k) (holds (sh_fresh s) (Some p) (s\<lparr>sh_fresh := Suc (sh_fresh s)\<rparr>)))"
| fill: "sh_place s p = Filling i t k \<Longrightarrow>
    step maximum diff p s (goes p (Renaming i t) (s\<lparr>sh_size := (sh_size s)(t := Some k)\<rparr>))"
| rename: "sh_place s p = Renaming i t \<Longrightarrow>
    step maximum diff p s (goes p (Leaving i t) (s\<lparr>sh_file := t, sh_done := sh_done s @ [p]\<rparr>))"
| leave: "sh_place s p = Leaving i t \<Longrightarrow> step maximum diff p s (goes p (Unlocking i True) (holds t None s))"
| unlock: "sh_place s p = Unlocking i ok \<Longrightarrow> step maximum diff p s (goes p (Returned ok) (holds i None s))"

inductive run :: "(nat \<Rightarrow> int) \<Rightarrow> (nat \<Rightarrow> int) \<Rightarrow> shared \<Rightarrow> shared \<Rightarrow> bool" for maximum diff where
  start: "run maximum diff s s"
| call: "run maximum diff s t \<Longrightarrow> step maximum diff p t u \<Longrightarrow> run maximum diff s u"
| crash: "run maximum diff s t \<Longrightarrow> sh_place t p \<noteq> Returned ok \<Longrightarrow>
    run maximum diff s (goes p Crashed (t\<lparr>sh_holder := (\<lambda>i. if sh_holder t i = Some p then None else sh_holder t i)\<rparr>))"

definition first_state :: "int \<Rightarrow> shared" where
  "first_state n = \<lparr>sh_file = 0, sh_size = [0 \<mapsto> n], sh_holder = (\<lambda>_. None), sh_fresh = 1, sh_place = (\<lambda>_. Opening), sh_done = []\<rparr>"

inductive_cases step_cases: "step maximum diff p s t"

section \<open>Invariant\<close>

text \<open>The files that a process has locked, and the one that it knows to be the recorded size.\<close>

fun locked_files :: "place \<Rightarrow> nat set" where
  "locked_files (Testing i) = {i}"
| "locked_files (Reading i) = {i}"
| "locked_files (Filling i t k) = {i, t}"
| "locked_files (Renaming i t) = {i, t}"
| "locked_files (Leaving i t) = {i, t}"
| "locked_files (Unlocking i ok) = {i}"
| "locked_files _ = {}"

fun current_file :: "place \<Rightarrow> nat option" where
  "current_file (Reading i) = Some i"
| "current_file (Filling i t k) = Some i"
| "current_file (Renaming i t) = Some i"
| "current_file _ = None"

text \<open>The effect of the updates that are done, in their order.\<close>

definition total :: "(nat \<Rightarrow> int) \<Rightarrow> (nat \<Rightarrow> int) \<Rightarrow> int \<Rightarrow> nat list \<Rightarrow> int option" where
  "total maximum diff n ps = fold (\<lambda>p r. Option.bind r (\<lambda>n. new_size (maximum p) n (diff p))) ps (Some n)"

fun finished :: "place \<Rightarrow> bool option" where
  "finished (Leaving i t) = Some True"
| "finished (Unlocking i ok) = Some ok"
| "finished (Returned ok) = Some ok"
| "finished Crashed = None"
| "finished _ = Some False"

fun two_files :: "place \<Rightarrow> bool" where
  "two_files (Filling i t k) = (i \<noteq> t)"
| "two_files (Renaming i t) = (i \<noteq> t)"
| "two_files (Leaving i t) = (i \<noteq> t)"
| "two_files _ = True"

text \<open>A file is locked by the process that says so, and by no other.\<close>

definition locks_ok :: "shared \<Rightarrow> bool" where
  "locks_ok s \<longleftrightarrow>
     (\<forall>p i. i \<in> locked_files (sh_place s p) \<longleftrightarrow> sh_holder s i = Some p) \<and>
     (\<forall>p i. i \<in> locked_files (sh_place s p) \<or> sh_place s p = Locking i \<longrightarrow> i < sh_fresh s) \<and> sh_file s < sh_fresh s \<and>
     (\<forall>p. two_files (sh_place s p))"

definition file_ok :: "shared \<Rightarrow> bool" where
  "file_ok s \<longleftrightarrow> (\<forall>p i. current_file (sh_place s p) = Some i \<longrightarrow> i = sh_file s)"

text \<open>The size that a process is about to record is the right one for the size that is recorded.\<close>

fun size_ok :: "(nat \<Rightarrow> int \<Rightarrow> int option) \<Rightarrow> (nat \<Rightarrow> int option) \<Rightarrow> nat \<Rightarrow> place \<Rightarrow> bool" where
  "size_ok f sizes p (Filling i t k) = (i \<noteq> t \<and> Option.bind (sizes i) (f p) = Some k)"
| "size_ok f sizes p (Renaming i t) = (i \<noteq> t \<and> sizes t \<noteq> None \<and> Option.bind (sizes i) (f p) = sizes t)"
| "size_ok f sizes p l = True"

definition sizes_ok :: "(nat \<Rightarrow> int) \<Rightarrow> (nat \<Rightarrow> int) \<Rightarrow> int \<Rightarrow> shared \<Rightarrow> bool" where
  "sizes_ok maximum diff n s \<longleftrightarrow>
     (\<forall>p. size_ok (\<lambda>p n. new_size (maximum p) n (diff p)) (sh_size s) p (sh_place s p)) \<and>
     sh_size s (sh_file s) = total maximum diff n (sh_done s) \<and> (\<exists>k. total maximum diff n (sh_done s) = Some k)"

definition done_ok :: "shared \<Rightarrow> bool" where
  "done_ok s \<longleftrightarrow> distinct (sh_done s) \<and> (\<forall>p ok. finished (sh_place s p) = Some ok \<longrightarrow> (p \<in> set (sh_done s) \<longleftrightarrow> ok))"

definition consistent :: "(nat \<Rightarrow> int) \<Rightarrow> (nat \<Rightarrow> int) \<Rightarrow> int \<Rightarrow> shared \<Rightarrow> bool" where
  "consistent maximum diff n s \<longleftrightarrow> locks_ok s \<and> file_ok s \<and> sizes_ok maximum diff n s \<and> done_ok s"

lemma first_consistent: "consistent maximum diff n (first_state n)"
  by (simp add: consistent_def first_state_def total_def locks_ok_def file_ok_def sizes_ok_def done_ok_def)

lemma total_append: "total maximum diff n (ps @ [p]) = Option.bind (total maximum diff n ps) (\<lambda>k. new_size (maximum p) k (diff p))"
  by (simp add: total_def)

lemmas place_simps = goes_def holds_def

lemma only_holder: "locks_ok s \<Longrightarrow> i \<in> locked_files (sh_place s p) \<Longrightarrow> i \<in> locked_files (sh_place s q) \<Longrightarrow> q = p"
  by (metis locks_ok_def option.inject)

lemma current_locked: "current_file l = Some i \<Longrightarrow> i \<in> locked_files l"
  by (cases l) auto

lemma locks_goes:
  assumes "locks_ok s" and "locked_files l = locked_files (sh_place s p)" and "\<And>i. l = Locking i \<Longrightarrow> i < sh_fresh s"
    and "two_files l"
  shows "locks_ok (goes p l s)"
  using assms by (auto simp: locks_ok_def goes_def)

lemma locks_acquire:
  assumes "locks_ok s" and "sh_holder s i = None" and "locked_files l = insert i (locked_files (sh_place s p))" and "i < sh_fresh s"
    and "\<And>i. l \<noteq> Locking i" and "two_files l"
  shows "locks_ok (goes p l (holds i (Some p) s))"
  using assms by (auto simp: locks_ok_def place_simps)

lemma locks_release:
  assumes "locks_ok s" and "i \<in> locked_files (sh_place s p)" and "locked_files l = locked_files (sh_place s p) - {i}"
    and "\<And>i. l \<noteq> Locking i" and "two_files l"
  shows "locks_ok (goes p l (holds i None s))"
proof -
  have "sh_holder s i = Some p" using assms(1,2) by (auto simp: locks_ok_def)
  then show ?thesis using assms(1,3-5) unfolding locks_ok_def by (simp add: place_simps)
qed

lemma fresh_unlocked: "locks_ok s \<Longrightarrow> sh_holder s (sh_fresh s) = None"
  by (cases "sh_holder s (sh_fresh s)") (auto simp: locks_ok_def)

lemma locks_same: "locks_ok s \<Longrightarrow> locks_ok (s\<lparr>sh_size := f\<rparr>)" "locks_ok s \<Longrightarrow> locks_ok (s\<lparr>sh_fresh := Suc (sh_fresh s)\<rparr>)"
  by (fastforce simp: locks_ok_def)+

lemma locks_bounds: "locks_ok s \<Longrightarrow> sh_file s < sh_fresh s" "locks_ok s \<Longrightarrow> sh_place s p = Locking i \<Longrightarrow> i < sh_fresh s"
    "locks_ok s \<Longrightarrow> i \<in> locked_files (sh_place s p) \<Longrightarrow> i < sh_fresh s" "locks_ok s \<Longrightarrow> two_files (sh_place s p)"
  by (auto simp: locks_ok_def)

lemma locks_step:
  assumes "step maximum diff p s t" and "locks_ok s" shows "locks_ok t"
  using assms(1)
proof cases
  case open_file
  then show ?thesis using assms(2) by (auto intro!: locks_goes locks_bounds)
next
  case (take_lock i)
  then show ?thesis using assms(2) by (auto intro!: locks_acquire intro: locks_bounds)
next
  case (replaced i)
  then show ?thesis using assms(2) by (auto intro!: locks_release)
next
  case (unchanged i)
  then show ?thesis using assms(2) by (auto intro!: locks_goes)
next
  case (too_large i n)
  then show ?thesis using assms(2) by (auto intro!: locks_goes)
next
  case (make_tmp i n k)
  then have "i < sh_fresh s" using locks_bounds(3) [OF assms(2), of i p] by simp
  then show ?thesis using make_tmp assms(2) fresh_unlocked by (auto intro!: locks_acquire locks_same)
next
  case (fill i t k)
  then show ?thesis using assms(2) locks_bounds(4) [OF assms(2), of p] by (auto intro!: locks_goes locks_same)
next
  case (rename i t)
  then have "t < sh_fresh s" using locks_bounds(3) [OF assms(2), of t p] by simp
  then have "locks_ok (s\<lparr>sh_file := t, sh_done := sh_done s @ [p]\<rparr>)" using assms(2) by (simp add: locks_ok_def)
  then show ?thesis using rename locks_bounds(4) [OF assms(2), of p] by (auto intro!: locks_goes)
next
  case (leave i t)
  then show ?thesis using assms(2) locks_bounds(4) [OF assms(2), of p] by (auto intro!: locks_release)
next
  case (unlock i ok)
  then show ?thesis using assms(2) by (auto intro!: locks_release)
qed

lemma file_current: "file_ok s \<Longrightarrow> current_file (sh_place s p) = Some i \<Longrightarrow> i = sh_file s"
  by (auto simp: file_ok_def)

lemma others_not_current:
  assumes "locks_ok s" and "file_ok s" and "current_file (sh_place s p) = Some i" and "q \<noteq> p"
  shows "current_file (sh_place s q) = None"
proof (cases "current_file (sh_place s q)")
  case (Some j)
  then have "j = i" using assms(2,3) by (auto simp: file_ok_def)
  then show ?thesis using only_holder [OF assms(1)] current_locked [OF assms(3)] current_locked [OF Some] assms(4) by blast
qed

lemma file_goes: "file_ok s \<Longrightarrow> current_file l = None \<or> current_file l = Some (sh_file s) \<Longrightarrow> file_ok (goes p l s)"
  by (auto simp: file_ok_def goes_def)

lemma file_same: "file_ok (holds i h s) = file_ok s" "file_ok (s\<lparr>sh_size := f\<rparr>) = file_ok s" "file_ok (s\<lparr>sh_fresh := k\<rparr>) = file_ok s"
    "sh_file (holds i h s) = sh_file s"
  by (simp_all add: file_ok_def holds_def)

lemma file_step:
  assumes "step maximum diff p s t" and "locks_ok s" and "file_ok s" shows "file_ok t"
  using assms(1)
proof cases
  case (rename i t)
  then have "current_file (sh_place s q) = None" if "q \<noteq> p" for q using others_not_current [OF assms(2,3) _ that, of i] by simp
  then show ?thesis using rename by (auto simp: file_ok_def goes_def)
next
  case (make_tmp i n k)
  then have "i = sh_file s" using file_current [OF assms(3), of p i] by simp
  then show ?thesis using make_tmp assms(3) by (auto intro!: file_goes simp: file_same)
next
  case (fill i t k)
  then have "i = sh_file s" using file_current [OF assms(3), of p i] by simp
  then show ?thesis using fill assms(3) by (auto intro!: file_goes simp: file_same)
qed (use assms(3) in \<open>auto intro!: file_goes simp: file_same\<close>)

lemma size_ok_other: "size_ok f sizes q l \<Longrightarrow> t \<notin> locked_files l \<Longrightarrow> size_ok f (sizes(t := x)) q l"
  by (cases l) auto

lemma sizes_goes:
  "sizes_ok maximum diff n s \<Longrightarrow> size_ok (\<lambda>p n. new_size (maximum p) n (diff p)) (sh_size s) p l \<Longrightarrow> sizes_ok maximum diff n (goes p l s)"
  by (auto simp: sizes_ok_def goes_def)

lemma sizes_same: "sizes_ok maximum diff n (holds i h s) = sizes_ok maximum diff n s" "sizes_ok maximum diff n (s\<lparr>sh_fresh := k\<rparr>) = sizes_ok maximum diff n s"
    "sh_size (holds i h s) = sh_size s"
  by (simp_all add: sizes_ok_def holds_def)

lemma sizes_step:
  assumes "step maximum diff p s t" and "locks_ok s" and "file_ok s" and "sizes_ok maximum diff n s"
  shows "sizes_ok maximum diff n t"
  using assms(1)
proof cases
  case (make_tmp i m k)
  then have "i \<noteq> sh_fresh s" using locks_bounds(3) [OF assms(2), of i p] by auto
  then show ?thesis using make_tmp assms(4) by (auto intro!: sizes_goes simp: sizes_same)
next
  case (fill i t k)
  have i: "i = sh_file s" "i \<noteq> t" using fill file_current [OF assms(3), of p i] locks_bounds(4) [OF assms(2), of p] by auto
  have "t \<notin> locked_files (sh_place s q)" if "q \<noteq> p" for q using only_holder [OF assms(2), of t p q] fill that by auto
  moreover have "Option.bind (sh_size s i) (\<lambda>n. new_size (maximum p) n (diff p)) = Some k" using fill assms(4) by (auto simp: sizes_ok_def dest: spec [where x = p])
  ultimately show ?thesis using fill assms(4) i by (auto simp: sizes_ok_def goes_def intro!: size_ok_other)
next
  case (rename i t)
  have "i = sh_file s" using rename file_current [OF assms(3), of p i] by simp
  moreover have "Option.bind (sh_size s i) (\<lambda>n. new_size (maximum p) n (diff p)) = sh_size s t" "sh_size s t \<noteq> None"
    using rename assms(4) by (auto simp: sizes_ok_def dest: spec [where x = p])
  ultimately show ?thesis using rename assms(4) by (auto simp: sizes_ok_def goes_def total_append)
qed (use assms(4) in \<open>auto intro!: sizes_goes simp: sizes_same\<close>)

lemma done_goes: "done_ok s \<Longrightarrow> finished l = None \<or> finished l = finished (sh_place s p) \<Longrightarrow> done_ok (goes p l s)"
  by (auto simp: done_ok_def goes_def)

lemma done_same: "done_ok (holds i h s) = done_ok s" "done_ok (s\<lparr>sh_fresh := k\<rparr>) = done_ok s" "done_ok (s\<lparr>sh_size := f\<rparr>) = done_ok s"
    "sh_place (holds i h s) = sh_place s"
  by (simp_all add: done_ok_def holds_def)

lemma done_place: "done_ok s \<Longrightarrow> finished (sh_place s p) = Some ok \<Longrightarrow> (p \<in> set (sh_done s)) = ok"
  by (auto simp: done_ok_def)

lemma done_step:
  assumes "step maximum diff p s t" and "done_ok s" shows "done_ok t"
  using assms(1)
proof cases
  case (rename i t)
  then have "p \<notin> set (sh_done s)" using done_place [OF assms(2), of p False] by simp
  then show ?thesis using rename assms(2) by (auto simp: done_ok_def goes_def)
qed (use assms(2) in \<open>auto intro!: done_goes simp: done_same\<close>)

lemma consistent_step: "step maximum diff p s t \<Longrightarrow> consistent maximum diff n s \<Longrightarrow> consistent maximum diff n t"
  using locks_step file_step sizes_step done_step by (metis consistent_def)

lemma consistent_crash:
  assumes "consistent maximum diff n s"
  shows "consistent maximum diff n (goes p Crashed (s\<lparr>sh_holder := (\<lambda>i. if sh_holder s i = Some p then None else sh_holder s i)\<rparr>))"
  using assms by (auto simp: consistent_def locks_ok_def file_ok_def sizes_ok_def done_ok_def goes_def)

lemma run_consistent: "run maximum diff s t \<Longrightarrow> consistent maximum diff n s \<Longrightarrow> consistent maximum diff n t"
  by (induction rule: run.induct) (auto intro: consistent_step consistent_crash)

section \<open>Properties\<close>

text \<open>
  C37: However the updates of several processes are interleaved, and wherever processes end early, the recorded size
  is what the successful updates give one after the other; each process that was told that its update was made is
  among them once, and none that was told it was not.
\<close>

theorem no_update_lost:
  assumes "run maximum diff (first_state n) s"
  shows "sh_size s (sh_file s) = total maximum diff n (sh_done s) \<and> sh_size s (sh_file s) \<noteq> None \<and> distinct (sh_done s) \<and>
    (\<forall>p ok. sh_place s p = Returned ok \<longrightarrow> (p \<in> set (sh_done s) \<longleftrightarrow> ok))"
  using run_consistent [OF assms first_consistent] by (auto simp: consistent_def sizes_ok_def done_ok_def)

lemma total_bounded:
  assumes "total maximum diff n ps = Some k" and "0 \<le> n" and "\<And>p. p \<in> set ps \<Longrightarrow> 0 \<le> maximum p \<Longrightarrow> maximum p \<le> m" and "n \<le> m"
    and "\<And>p. p \<in> set ps \<Longrightarrow> 0 \<le> maximum p"
  shows "0 \<le> k \<and> k \<le> m"
  using assms
proof (induction ps arbitrary: k rule: rev_induct)
  case Nil
  then show ?case by (simp add: total_def)
next
  case (snoc p ps)
  then obtain j where "total maximum diff n ps = Some j" "new_size (maximum p) j (diff p) = Some k"
    by (auto simp: total_append bind_eq_Some_conv)
  moreover have "0 \<le> m" "0 \<le> maximum p" "maximum p \<le> m" using snoc.prems by auto
  ultimately show ?case by (auto simp: new_size_def split: if_splits)
qed

text \<open>
  While every process keeps to a maximum, the recorded size is never below zero and never above the largest of
  the maxima, if it was not before.
\<close>

theorem shared_size_bounded:
  assumes "run maximum diff (first_state n) s" and "0 \<le> n" and "n \<le> m" and "\<And>p. 0 \<le> maximum p \<and> maximum p \<le> m"
  shows "\<exists>k. sh_size s (sh_file s) = Some k \<and> 0 \<le> k \<and> k \<le> m"
proof -
  obtain k where "sh_size s (sh_file s) = Some k" "total maximum diff n (sh_done s) = Some k"
    using run_consistent [OF assms(1) first_consistent] by (auto simp: consistent_def sizes_ok_def)
  then show ?thesis using total_bounded [of maximum diff n "sh_done s" k m] assms(2-4) by auto
qed

lemma holder_steps:
  assumes "consistent maximum diff n s" and "i \<in> locked_files (sh_place s p)"
  shows "\<exists>t. step maximum diff p s t"
proof (cases "sh_place s p")
  case (Testing j)
  then show ?thesis using step.replaced step.unchanged by blast
next
  case (Reading j)
  then have "j = sh_file s" using assms(1) file_current [of s p j] by (simp add: consistent_def)
  then obtain m where "sh_size s j = Some m" using assms(1) by (auto simp: consistent_def sizes_ok_def)
  then show ?thesis using Reading step.too_large step.make_tmp by (metis option.exhaust)
qed (use assms(2) step.fill step.rename step.leave step.unlock in \<open>fastforce+\<close>)


section \<open>An interleaving\<close>

text \<open>Process 1 opens the file that process 0 is about to replace, and has to open it again.\<close>

lemma interleaved: "\<exists>s. run (\<lambda>_. 10) (\<lambda>_. 3) (first_state 5) s \<and> sh_place s 0 = Returned True \<and> sh_place s 1 = Opening \<and> sh_file s = 1 \<and>
    sh_size s 1 = Some 8 \<and> sh_done s = [0]"
proof -
  define s0 where "s0 = first_state 5"
  define s1 where "s1 = goes 0 (Locking (sh_file s0)) s0"
  define s2 where "s2 = goes 0 (Testing 0) (holds 0 (Some 0) s1)"
  define s3 where "s3 = goes 0 (Reading 0) s2"
  define s4 where "s4 = goes 0 (Filling 0 (sh_fresh s3) 8) (holds (sh_fresh s3) (Some 0) (s3\<lparr>sh_fresh := Suc (sh_fresh s3)\<rparr>))"
  define s5 where "s5 = goes 0 (Renaming 0 1) (s4\<lparr>sh_size := (sh_size s4)(1 := Some 8)\<rparr>)"
  define s6 where "s6 = goes 1 (Locking (sh_file s5)) s5"
  define s7 where "s7 = goes 0 (Leaving 0 1) (s6\<lparr>sh_file := 1, sh_done := sh_done s6 @ [0]\<rparr>)"
  define s8 where "s8 = goes 0 (Unlocking 0 True) (holds 1 None s7)"
  define s9 where "s9 = goes 0 (Returned True) (holds 0 None s8)"
  define s10 where "s10 = goes 1 (Testing 0) (holds 0 (Some 1) s9)"
  define s11 where "s11 = goes 1 Opening (holds 0 None s10)"
  note states = s0_def s1_def s2_def s3_def s4_def s5_def s6_def s7_def s8_def s9_def s10_def s11_def place_simps first_state_def new_size_def
  have r0: "run (\<lambda>_. 10) (\<lambda>_. 3) s0 s0" by (rule run.start)
  have r1: "run (\<lambda>_. 10) (\<lambda>_. 3) s0 s1" unfolding s1_def by (rule run.call [OF r0 step.open_file]) (simp_all add: states)
  have r2: "run (\<lambda>_. 10) (\<lambda>_. 3) s0 s2" unfolding s2_def by (rule run.call [OF r1 step.take_lock]) (simp_all add: states)
  have r3: "run (\<lambda>_. 10) (\<lambda>_. 3) s0 s3" unfolding s3_def by (rule run.call [OF r2 step.unchanged]) (simp_all add: states)
  have r4: "run (\<lambda>_. 10) (\<lambda>_. 3) s0 s4" unfolding s4_def by (rule run.call [OF r3 step.make_tmp [where n = 5]]) (simp_all add: states)
  have r5: "run (\<lambda>_. 10) (\<lambda>_. 3) s0 s5" unfolding s5_def by (rule run.call [OF r4 step.fill]) (simp_all add: states)
  have r6: "run (\<lambda>_. 10) (\<lambda>_. 3) s0 s6" unfolding s6_def by (rule run.call [OF r5 step.open_file]) (simp_all add: states)
  have r7: "run (\<lambda>_. 10) (\<lambda>_. 3) s0 s7" unfolding s7_def by (rule run.call [OF r6 step.rename]) (simp_all add: states)
  have r8: "run (\<lambda>_. 10) (\<lambda>_. 3) s0 s8" unfolding s8_def by (rule run.call [OF r7 step.leave]) (simp_all add: states)
  have r9: "run (\<lambda>_. 10) (\<lambda>_. 3) s0 s9" unfolding s9_def by (rule run.call [OF r8 step.unlock]) (simp_all add: states)
  have r10: "run (\<lambda>_. 10) (\<lambda>_. 3) s0 s10" unfolding s10_def by (rule run.call [OF r9 step.take_lock]) (simp_all add: states)
  have r11: "run (\<lambda>_. 10) (\<lambda>_. 3) s0 s11" unfolding s11_def by (rule run.call [OF r10 step.replaced]) (simp_all add: states)
  show ?thesis using r11 unfolding s0_def by (intro exI [of _ s11] conjI) (simp_all add: states)
qed

lemma no_update_lost_witness: "\<exists>s :: shared. sh_size s (sh_file s) = total (\<lambda>_. 10) (\<lambda>_. 3) 5 [0] \<and> sh_size s 1 = Some 8 \<and> sh_place s 1 = Opening"
proof -
  obtain s where s: "run (\<lambda>_. 10) (\<lambda>_. 3) (first_state 5) s" "sh_size s 1 = Some 8" "sh_place s 1 = Opening" "sh_done s = [0]"
    using interleaved by blast
  show ?thesis using no_update_lost [OF s(1)] s(2-4) by (intro exI [of _ s]) simp
qed

lemma shared_size_bounded_witness: "\<exists>(s :: shared) k. sh_place s 0 = Returned True \<and> sh_size s (sh_file s) = Some k \<and> 0 \<le> k \<and> k \<le> (10::int)"
proof -
  obtain s where s: "run (\<lambda>_. 10) (\<lambda>_. 3) (first_state 5) s" "sh_place s 0 = Returned True" using interleaved by blast
  show ?thesis using shared_size_bounded [OF s(1), of 10] s(2) by (intro exI [of _ s]) simp
qed


end
