(* ===== verification/Spec2Isabelle.thy ===== *)
theory Spec2Isabelle
  imports Manifest_Laws Build_Laws Simg_Laws Host_Laws Podman_Laws Osbuild_Laws Arguments_Place Main_Laws Progress_Laws Sbom_Laws
    Mpp_Version1_Laws Lvm_Laws Cache_Load_Laws Cache_Protocol
begin

text \<open>
  A model of automotive-image-builder and proofs about it.

  The program.  \<open>aib\<close> and \<open>aib-dev\<close> (\<open>src/aib/main.py\<close>, \<open>src/aib/main_dev.py\<close>) parse a command line,
  make a working directory and run one command.  The build commands load a manifest (\<open>src/aib/simple.py\<close>),
  check it against its schema and a policy (\<open>src/aib/policy.py\<close>), compute the defines of the manifest
  preprocessor (\<open>src/aib/osbuild.py\<close>), run the preprocessor and osbuild with the privileges of the chosen
  mode (\<open>src/aib/execmode.py\<close>, \<open>src/aib/runner.py\<close>), and export the result: as a container in a store
  (\<open>src/aib/podman.py\<close>), as an archive, or as a disk image, whole or in partitions and optionally as an
  Android sparse image (\<open>src/aib/utils.py\<close>).  The other commands work on containers: disk images, signing,
  sealing.  \<open>src/contrib/write_simg.py\<close> writes sparse images to a device.

  How code becomes definitions.  A Python function without effects is a function; one that can raise has a
  result \<open>exn + 'a\<close>, where \<open>exn\<close> has the exceptions of the sources and the standard ones they let through.
  A function with effects is a program (\<open>Effects\<close>): it takes the state of the world and returns its result
  or exception with the new state, so that an exception keeps the effects made before it; \<open>finally\<close>,
  \<open>except\<close> and \<open>with\<close> are combinators.  The world records the commands run and the file operations made, in
  order; the answers of commands and of the file system are functions of that history and are parameters
  (\<open>os_env\<close>, \<open>podman_env\<close>, \<open>run_env\<close>, \<open>cmd_env\<close>), as are the YAML and JSON parsers, the schema validator,
  digests and random names.  YAML and JSON data are values of \<open>pyval\<close>, dictionaries lists of pairs in
  insertion order.  Loops are recursive functions with termination proofs; only the recursion of the manifest
  preprocessor over data that Python code can extend has a bound, which is the recursion limit of the interpreter:
  beyond it the model raises \<open>RecursionError\<close>, and \<open>expansion_ends\<close> says which limit is enough.

  Theories.
  \<^item> \<open>Aib_Prelude\<close>, \<open>Py_Values\<close>, \<open>Os_Path\<close>, \<open>Effects\<close>: strings, values, exceptions, paths, programs.
  \<^item> \<open>Policy\<close>, \<open>Policy_Check\<close>, \<open>Policy_Laws\<close>: loading and applying policies.  The checks are compared with
    declarative readings of the allow and disallow rules, the merge of target sections with its specification.
  \<^item> \<open>Sizes\<close>, \<open>Content\<close>, \<open>Manifest\<close> with \<open>Content_Laws\<close> and \<open>Manifest_Laws\<close>: the manifest loader, section by
    section; which defines a manifest can set, which paths it can write, sizes and sectors.
  \<^item> \<open>Build_Defines\<close>, \<open>Build_Laws\<close>: everything \<open>create_osbuild_manifest\<close> computes; precedence of defines, policy.
  \<^item> \<open>Runner\<close>: modes of execution and running as root or as the user; no sudo outside the sudo mode.
  \<^item> \<open>Sparse_File\<close>, \<open>Simg\<close>, \<open>Simg_Laws\<close>: files with holes, parts of disk images, the encoder and decoder of
    sparse images.  Header fields have 16 and 32 bits as in the format; a block count that does not fit is an
    error of the packing, as in Python's \<open>struct\<close>.
  \<^item> \<open>Host_Utils\<close>, \<open>Host_Laws\<close>: unmounting, temporary directories and their clean-up, initrd compression.
  \<^item> \<open>Podman\<close>, \<open>Podman_Ops\<close>, \<open>Podman_Laws\<close>: storage, image mounts, temporary containers, build information.
  \<^item> \<open>Osbuild\<close>, \<open>Export\<close>, \<open>Osbuild_Laws\<close>: running osbuild and exporting its result; the partitions written are
    compared with a plan of their contents.
  \<^item> \<open>Arguments\<close>, \<open>Command_Tables\<close>, \<open>Arguments_Laws\<close>, \<open>Arguments_Place\<close>: the command line; types of the
    attributes, and the two places of a shared option.
  \<^item> \<open>Progress\<close>, \<open>Progress_Laws\<close>: the monitor of the progress of osbuild (\<open>src/aib/progress.py\<close>); its bar, the
    exit code and the log file.  Floats are exact rationals.
  \<^item> \<open>Sbom\<close>, \<open>Sbom_Laws\<close>: the bill of materials (\<open>src/mpp/sbom.py\<close>); its relations are closed and complete.
  \<^item> The manifest preprocessor \<open>src/mpp/aib-osbuild-mpp\<close>, for manifests of both versions: \<open>Mpp_World\<close> has its state,
    variables and lockfiles, \<open>Mpp_Stages\<close> containers and ostree commits, \<open>Mpp_Solver\<close> and \<open>Mpp_Packages\<close> packages
    and embedded files, \<open>Mpp_Format\<close> the expansion of directives, \<open>Mpp_Partitions\<close> partition tables, \<open>Mpp_Load\<close>
    imports and the main program.  \<open>Mpp_Laws\<close>: builds with a lockfile are offline and get what was locked,
    lockfiles have no credentials; \<open>Mpp_Format_Laws\<close>: the expansion is complete and ends; \<open>Mpp_Load_Laws\<close>: imports
    and packages of lockfiles; \<open>Mpp_Version1_Laws\<close>: the names of pipelines in version 1, where the loop over nested
    imports may go round for ever and has the same bound as the expansion.
  \<^item> \<open>Lvm_Text\<close>, \<open>Lvm\<close>, \<open>Lvm_Text_Laws\<close>, \<open>Lvm_Laws\<close>: the metadata of LVM disks
    (\<open>src/mpp/aibosbuild/util/lvm2.py\<close>).  Its decoder may read beyond the end of a text for ever and has a number of
    steps; one more than the text has tokens is enough for what the encoder writes, no number is for an open quote.
    A renamed group is read back from the disk with valid checksums.
  \<^item> \<open>Cache_Files\<close>, \<open>Fs_Cache\<close>, \<open>Fs_Cache_Laws\<close>, \<open>Cache_Load_Laws\<close>: the cache in the file system
    (\<open>src/mpp/aibosbuild/util/fscache.py\<close>) on a tree of files with locks, one operation at a time; its recorded size
    stays within the maximum, and what is stored can be loaded.  \<open>Cache_Protocol\<close>: the updates of that size by several processes, as a step relation
    over calls of the operating system; no update is lost, and the locks never stop all processes.
  \<^item> \<open>Int_Text\<close>: integers are read from the texts they are printed as.
  \<^item> \<open>Parameters\<close>, \<open>Commands\<close>, \<open>Main_Program\<close>, \<open>Main_Laws\<close>: the commands and the main programs; clean-up and
    exceptions.

  Limits of the model.  argparse is modelled after the splitting of the command line into options and
  positional arguments.  What is written to the log, and coloured or formatted output, is left out; printed
  results are kept.  A list that a policy shares with the defines is a copy, so extending it with
  \<open>--extend-define\<close> does not change the policy.  The policy is loaded before the build that asks for it first.
  A manifest without \<open>mpp-vars\<close> raises its KeyError before the rewritten manifest is written.  Removing a
  directory is recorded as an event, the contents of files below it stay readable.  Partition numbers are not
  negative and block sizes not zero, as in their callers.

  Not modelled: the version string (\<open>src/aib/version.py\<close>), the rest of the copy of the utilities of osbuild
  (\<open>src/mpp/aibosbuild/util\<close>: sockets, system calls, scripts for other image builders), which no program here
  calls, and the YAML files of distributions and targets, which are data.
\<close>

end
